(* ===== verification/Go_Prelude.thy ===== *)
theory Go_Prelude
  imports Main "HOL-Library.Char_ord" "HOL-Library.List_Lexorder" "HOL-Library.Multiset"
begin

text \<open>
  The shared base of the development: Go's signed 64-bit arithmetic, Go maps as association
  lists behind an interface locale, \<^verbatim>\<open>sort.Slice\<close>, and keyset pagination (the pattern every
  list operation of the repository uses). Go strings are byte sequences, so \<^typ>\<open>string\<close>
  (a list of 8-bit characters) is used as it is, with the bytewise lexicographic order of
  \<^verbatim>\<open>HOL-Library.List_Lexorder\<close>, which is Go's \<^verbatim>\<open><\<close> on strings.
\<close>

named_theorems frame_simps \<open>fields of a state that an operation leaves alone\<close>
named_theorems op_defs \<open>definitions of the operations, unfolded by the case-analysis proofs\<close>

section \<open>Machine integers\<close>

text \<open>
  \<^verbatim>\<open>int64\<close> values are integers in the signed range; every arithmetic result that can leave the
  range goes through \<open>wrap64\<close>, the two's complement wrap-around.
\<close>

type_synonym int64 = int
type_synonym time = int  \<comment> \<open>nanoseconds since Go's zero \<^verbatim>\<open>time.Time\<close>, which is 0\<close>
type_synonym duration = int

definition wrap64 :: "int \<Rightarrow> int64" where
  "wrap64 x = (x + 2 ^ 63) mod 2 ^ 64 - 2 ^ 63"

definition in_int64 :: "int \<Rightarrow> bool" where
  "in_int64 x \<longleftrightarrow> - (2 ^ 63) \<le> x \<and> x < 2 ^ 63"

lemma wrap64_id: "in_int64 x \<Longrightarrow> wrap64 x = x"
  by (simp add: wrap64_def in_int64_def)

lemma in_int64_wrap64: "in_int64 (wrap64 x)"
proof -
  have "0 \<le> (x + 2 ^ 63) mod 2 ^ 64" and "(x + 2 ^ 63) mod (2 ^ 64 :: int) < 2 ^ 64"
    by (rule pos_mod_sign, simp) (rule pos_mod_bound, simp)
  then show ?thesis by (simp add: in_int64_def wrap64_def)
qed

lemma wrap64_small: "0 \<le> x \<Longrightarrow> x < 2 ^ 63 \<Longrightarrow> wrap64 x = x"
  by (rule wrap64_id) (simp add: in_int64_def)

lemma wrap64_Suc_neq: "in_int64 x \<Longrightarrow> wrap64 (x + 1) \<noteq> x"
  by (cases "x = 2 ^ 63 - 1") (simp_all add: wrap64_def in_int64_def)

section \<open>Go maps\<close>

text \<open>
  A Go map is an association list read through its first entry for a key. \<open>gentries\<close> is what
  \<^verbatim>\<open>range\<close> visits: every key once with its current value. Go leaves the order of a \<^verbatim>\<open>range\<close>
  open; the model visits the list's order, and what is proved about loops over maps speaks
  about the set of entries only.
\<close>

type_synonym ('k, 'v) gomap = "('k \<times> 'v) list"

definition gempty :: "('k, 'v) gomap" where
  "gempty = []"

fun gget :: "('k, 'v) gomap \<Rightarrow> 'k \<Rightarrow> 'v option" where
  "gget [] k = None"
| "gget ((k', v) # m) k = (if k' = k then Some v else gget m k)"

definition gdel :: "'k \<Rightarrow> ('k, 'v) gomap \<Rightarrow> ('k, 'v) gomap" where
  "gdel k m = filter (\<lambda>e. fst e \<noteq> k) m"

definition gput :: "'k \<Rightarrow> 'v \<Rightarrow> ('k, 'v) gomap \<Rightarrow> ('k, 'v) gomap" where
  "gput k v m = (k, v) # gdel k m"

text \<open>\<^verbatim>\<open>m[k]\<close> without the second result: the zero value where the key is absent.\<close>

definition gget_or :: "'v \<Rightarrow> ('k, 'v) gomap \<Rightarrow> 'k \<Rightarrow> 'v" where
  "gget_or z m k = (case gget m k of None \<Rightarrow> z | Some v \<Rightarrow> v)"

fun gentries :: "('k, 'v) gomap \<Rightarrow> ('k \<times> 'v) list" where
  "gentries [] = []"
| "gentries ((k, v) # m) = (k, v) # filter (\<lambda>e. fst e \<noteq> k) (gentries m)"

definition gvals :: "('k, 'v) gomap \<Rightarrow> 'v list" where
  "gvals m = map snd (gentries m)"

lemma gget_gempty [simp]: "gget gempty k = None"
  by (simp add: gempty_def)

lemma gget_gdel [simp]: "gget (gdel k m) k' = (if k' = k then None else gget m k')"
  by (induction m) (auto simp: gdel_def)

lemma gget_gput [simp]: "gget (gput k v m) k' = (if k' = k then Some v else gget m k')"
  by (simp add: gput_def)

lemma gget_filter_key:
  "gget (filter (\<lambda>e. P (fst e)) m) k = (if P k then gget m k else None)"
  by (induction m) auto

lemma set_gentries: "set (gentries m) = {(k, v). gget m k = Some v}"
  by (induction m) (auto split: if_splits)

lemma in_gentries [simp]: "(k, v) \<in> set (gentries m) \<longleftrightarrow> gget m k = Some v"
  by (simp add: set_gentries)

lemma distinct_gentries: "distinct (map fst (gentries m))"
  by (induction m) (auto simp: distinct_map_filter)

lemma length_gentries_le: "length (gentries m) \<le> length m"
proof (induction m)
  case (Cons e m)
  then show ?case by (cases e) (auto intro: le_trans [OF length_filter_le])
qed simp

lemma in_gvals [simp]: "v \<in> set (gvals m) \<longleftrightarrow> (\<exists>k. gget m k = Some v)"
  by (force simp: gvals_def set_gentries)

text \<open>
  The interface the repository relies on: lookups after updates and deletions, and an
  enumeration that lists exactly the entries that lookups see. Everything below the locale
  uses a map through these laws alone.
\<close>

locale go_map =
  fixes empty :: "'m"
    and get :: "'m \<Rightarrow> 'k \<Rightarrow> 'v option"
    and put :: "'k \<Rightarrow> 'v \<Rightarrow> 'm \<Rightarrow> 'm"
    and del :: "'k \<Rightarrow> 'm \<Rightarrow> 'm"
    and entries :: "'m \<Rightarrow> ('k \<times> 'v) list"
  assumes get_empty: "get empty k = None"
    and get_put: "get (put k v m) k' = (if k' = k then Some v else get m k')"
    and get_del: "get (del k m) k' = (if k' = k then None else get m k')"
    and set_entries: "set (entries m) = {(k, v). get m k = Some v}"
    and distinct_entries: "distinct (map fst (entries m))"
begin

lemma entries_empty: "entries empty = []"
proof -
  have "set (entries empty) = {}" by (simp add: set_entries get_empty)
  then show ?thesis by simp
qed

lemma finite_dom: "finite {k. get m k \<noteq> None}"
proof -
  have "{k. get m k \<noteq> None} = fst ` set (entries m)" by (force simp: set_entries)
  then show ?thesis by simp
qed

lemma length_entries: "length (entries m) = card {k. get m k \<noteq> None}"
proof -
  have "{k. get m k \<noteq> None} = set (map fst (entries m))" by (force simp: set_entries)
  with distinct_entries show ?thesis by (metis distinct_card length_map)
qed

lemma set_entries_put:
  "set (entries (put k v m)) = insert (k, v) {e \<in> set (entries m). fst e \<noteq> k}"
  by (auto simp: set_entries get_put split: if_splits)

lemma set_entries_del: "set (entries (del k m)) = {e \<in> set (entries m). fst e \<noteq> k}"
  by (auto simp: set_entries get_del split: if_splits)

lemma put_put_get: "get (put k v (put k w m)) = get (put k v m)"
  by (rule ext) (simp add: get_put)

end

interpretation gm: go_map gempty gget gput gdel gentries
  by unfold_locales (auto simp: set_gentries distinct_gentries)

lemma finite_gdom: "finite {k. gget m k \<noteq> None}"
  by (rule gm.finite_dom)

section \<open>Sorting and keyset pagination\<close>

text \<open>
  \<^verbatim>\<open>sort.Slice\<close> with a strict order: an insertion sort. \<^verbatim>\<open>sort.Slice\<close> is not stable, so the
  order of elements that the comparison does not separate is one of the possible ones; what
  is proved about the result is that it is a permutation and that no element is less than an
  earlier one.
\<close>

fun insert_by :: "('a \<Rightarrow> 'a \<Rightarrow> bool) \<Rightarrow> 'a \<Rightarrow> 'a list \<Rightarrow> 'a list" where
  "insert_by lt x [] = [x]"
| "insert_by lt x (y # ys) = (if lt y x then y # insert_by lt x ys else x # y # ys)"

definition sort_slice :: "('a \<Rightarrow> 'a \<Rightarrow> bool) \<Rightarrow> 'a list \<Rightarrow> 'a list" where
  "sort_slice lt xs = foldr (insert_by lt) xs []"

lemma mset_insert_by [simp]: "mset (insert_by lt x ys) = add_mset x (mset ys)"
  by (induction ys) auto

lemma mset_sort_slice [simp]: "mset (sort_slice lt xs) = mset xs"
  by (induction xs) (auto simp: sort_slice_def)

lemma set_sort_slice [simp]: "set (sort_slice lt xs) = set xs"
  by (metis mset_sort_slice set_mset_mset)

lemma length_sort_slice [simp]: "length (sort_slice lt xs) = length xs"
  by (metis mset_sort_slice size_mset)

lemma distinct_sort_slice [simp]: "distinct (sort_slice lt xs) = distinct xs"
  by (rule mset_eq_imp_distinct_iff) simp

lemma set_insert_by [simp]: "set (insert_by lt x ys) = insert x (set ys)"
  by (metis mset_insert_by set_mset_mset set_mset_add_mset_insert)

lemma sort_slice_id: "sorted_wrt (\<lambda>a b. \<not> lt b a) xs \<Longrightarrow> sort_slice lt xs = xs"
proof (induction xs)
  case (Cons x xs)
  then show ?case by (cases xs) (simp_all add: sort_slice_def)
qed (simp add: sort_slice_def)

locale weak_order =
  fixes lt :: "'a \<Rightarrow> 'a \<Rightarrow> bool"
  assumes asym: "lt x y \<Longrightarrow> \<not> lt y x"
    and neg_trans: "\<not> lt x y \<Longrightarrow> \<not> lt y z \<Longrightarrow> \<not> lt x z"
begin

lemma sorted_insert_by:
  "sorted_wrt (\<lambda>a b. \<not> lt b a) ys \<Longrightarrow> sorted_wrt (\<lambda>a b. \<not> lt b a) (insert_by lt x ys)"
proof (induction ys)
  case Nil
  then show ?case by simp
next
  case (Cons y ys)
  show ?case
  proof (cases "lt y x")
    case True
    with Cons show ?thesis by (auto dest: asym)
  next
    case False
    with Cons.prems show ?thesis by (auto dest: neg_trans)
  qed
qed

lemma sorted_sort_slice: "sorted_wrt (\<lambda>a b. \<not> lt b a) (sort_slice lt xs)"
  by (induction xs) (auto simp: sort_slice_def intro: sorted_insert_by)

text \<open>Sorting any arrangement of a strictly sorted list gives that list.\<close>

lemma sorted_arrangement:
  "sorted_wrt (\<lambda>a b. \<not> lt b a) xs \<Longrightarrow> sorted_wrt lt ys \<Longrightarrow> mset xs = mset ys \<Longrightarrow> xs = ys"
proof (induction ys arbitrary: xs)
  case (Cons y ys)
  then obtain x zs where xs: "xs = x # zs" by (cases xs) auto
  have "x = y"
  proof (rule ccontr)
    assume "x \<noteq> y"
    moreover have "x \<in> set (y # ys)" "y \<in> set (x # zs)" using Cons.prems(3) xs by (metis list.set_intros(1) set_mset_mset)+
    ultimately show False using Cons.prems(1,2) xs by auto
  qed
  with Cons xs show ?case by simp
qed simp

lemma sort_slice_unique: "sorted_wrt lt ys \<Longrightarrow> mset xs = mset ys \<Longrightarrow> sort_slice lt xs = ys"
  by (rule sorted_arrangement [OF sorted_sort_slice]) simp_all

end

text \<open>
  Every list operation of the repository collects the items after a cursor position, sorts
  them by a strict order, and returns the first \<open>limit\<close> of them with a flag that says whether
  more are left. \<open>slice_page\<close> is that tail of the operation; a negative limit makes the Go
  slice expression panic, which the model keeps as \<open>None\<close>.
\<close>

definition slice_page :: "int \<Rightarrow> 'a list \<Rightarrow> ('a list \<times> bool) option" where
  "slice_page limit items =
     (let more = int (length items) > limit
      in if more \<and> limit < 0 then None
         else Some (if more then take (nat limit) items else items, more))"

text \<open>
  A client that follows the pages: it asks for a page, and while more items are left it asks
  again from the position of the last item it got. \<open>None\<close> when a request fails or the fuel
  does not cover the pages.
\<close>

fun follow_pages :: "nat \<Rightarrow> ('p \<Rightarrow> ('a list \<times> bool) option) \<Rightarrow> ('a \<Rightarrow> 'p) \<Rightarrow> 'p \<Rightarrow> 'a list option" where
  "follow_pages 0 get_page pos_of p = None"
| "follow_pages (Suc n) get_page pos_of p =
     (case get_page p of
        None \<Rightarrow> None
      | Some (items, more) \<Rightarrow>
          if \<not> more then Some items
          else if items = [] then None
          else map_option (\<lambda>rest. items @ rest) (follow_pages n get_page pos_of (pos_of (last items))))"

locale keyset = weak_order lt for lt :: "'a \<Rightarrow> 'a \<Rightarrow> bool" +
  fixes after :: "'a \<Rightarrow> 'p \<Rightarrow> bool"
    and pos_of :: "'a \<Rightarrow> 'p"
    and carrier :: "'a set"
  assumes total: "x \<in> carrier \<Longrightarrow> y \<in> carrier \<Longrightarrow> lt x y \<or> lt y x \<or> x = y"
    and after_pos: "x \<in> carrier \<Longrightarrow> y \<in> carrier \<Longrightarrow> after x (pos_of y) \<longleftrightarrow> lt y x"
    and after_mono: "x \<in> carrier \<Longrightarrow> y \<in> carrier \<Longrightarrow> after y p \<Longrightarrow> lt y x \<Longrightarrow> after x p"
begin

lemma sorted_strict:
  assumes "set xs \<subseteq> carrier" and "distinct xs" and "sorted_wrt (\<lambda>a b. \<not> lt b a) xs"
  shows "sorted_wrt lt xs"
  using assms by (induction xs) (auto dest: total)

lemma strict_sort_slice:
  "set xs \<subseteq> carrier \<Longrightarrow> distinct xs \<Longrightarrow> sorted_wrt lt (sort_slice lt xs)"
  by (rule sorted_strict) (auto simp: sorted_sort_slice)

lemma sorted_unique:
  assumes "sorted_wrt lt xs" and "sorted_wrt lt ys" and "set xs = set ys"
  shows "xs = ys"
  using assms
proof (induction xs arbitrary: ys)
  case Nil
  then show ?case by simp
next
  case (Cons x xs)
  then obtain y zs where ys: "ys = y # zs" by (cases ys) auto
  have irrefl: "\<not> lt a a" for a using asym by blast
  have "x = y"
  proof (rule ccontr)
    assume "x \<noteq> y"
    with Cons.prems ys have "x \<in> set zs" and "y \<in> set xs" by auto
    with Cons.prems ys have "lt y x" and "lt x y" by auto
    then show False by (blast dest: asym)
  qed
  moreover have "y \<notin> set xs" and "y \<notin> set zs"
    using Cons.prems irrefl ys \<open>x = y\<close> by auto
  then have "set xs = set zs"
    using Cons.prems ys \<open>x = y\<close> by (simp add: insert_ident)
  ultimately show ?case using Cons ys by auto
qed

text \<open>The page that follows a full page starts exactly where that page stopped.\<close>

lemma next_page:
  assumes xs: "set xs \<subseteq> carrier" "distinct xs"
    and k: "0 < k" "k \<le> length (sort_slice lt (filter P xs))"
    and P: "\<And>x y. x \<in> set xs \<Longrightarrow> y \<in> set xs \<Longrightarrow> P y \<Longrightarrow> lt y x \<Longrightarrow> P x"
  shows "sort_slice lt (filter (\<lambda>x. after x (pos_of (sort_slice lt (filter P xs) ! (k - 1)))) xs)
         = drop k (sort_slice lt (filter P xs))"
proof -
  define full where "full = sort_slice lt (filter P xs)"
  define z where "z = full ! (k - 1)"
  have sorted: "sorted_wrt lt full"
    unfolding full_def by (rule strict_sort_slice) (use xs in auto)
  have set_full: "set full = {x \<in> set xs. P x}" by (simp add: full_def)
  have z: "z \<in> set full" unfolding z_def using k by (intro nth_mem) (simp add: full_def)
  have split: "full = take k full @ drop k full" by simp
  have "x \<in> set (drop k full) \<longleftrightarrow> x \<in> set xs \<and> lt z x" for x
  proof
    assume "x \<in> set (drop k full)"
    then obtain i where i: "i < length full - k" "x = full ! (k + i)"
      by (auto simp: in_set_conv_nth)
    have "lt (full ! (k - 1)) (full ! (k + i))"
      by (rule sorted_wrt_nth_less [OF sorted]) (use i k in auto)
    with i have "lt z x" by (simp add: z_def)
    moreover have "x \<in> set full" using \<open>x \<in> set (drop k full)\<close> by (rule in_set_dropD)
    ultimately show "x \<in> set xs \<and> lt z x" by (simp add: set_full)
  next
    assume x: "x \<in> set xs \<and> lt z x"
    with z P have "x \<in> set full" by (auto simp: set_full)
    then obtain i where i: "i < length full" "x = full ! i" by (auto simp: in_set_conv_nth)
    have "k \<le> i"
    proof (rule ccontr)
      assume "\<not> k \<le> i"
      then have "i = k - 1 \<or> i < k - 1" by auto
      then have "x = z \<or> lt x z"
        using i k sorted unfolding z_def full_def by (auto intro: sorted_wrt_nth_less)
      with x show False by (auto dest: asym)
    qed
    with i have "x = drop k full ! (i - k)" and "i - k < length (drop k full)" by auto
    then show "x \<in> set (drop k full)" by (metis nth_mem)
  qed
  then have "set (drop k full) = {x \<in> set xs. after x (pos_of z)}"
    using z xs by (auto simp: set_full after_pos subset_iff)
  then show ?thesis
    unfolding full_def [symmetric] z_def [symmetric]
    by (intro sorted_unique strict_sort_slice)
      (use xs sorted in \<open>auto intro: sorted_wrt_drop\<close>)
qed

lemma follow_pages_all:
  assumes xs: "set xs \<subseteq> carrier" "distinct xs" and limit: "0 < limit"
    and page: "\<And>p. get_page p = slice_page limit (sort_slice lt (filter (\<lambda>x. after x p) xs))"
    and fuel: "length (filter (\<lambda>x. after x p) xs) < n"
  shows "follow_pages n get_page pos_of p = Some (sort_slice lt (filter (\<lambda>x. after x p) xs))"
  using fuel
proof (induction n arbitrary: p)
  case 0
  then show ?case by simp
next
  case (Suc n)
  define full where "full = sort_slice lt (filter (\<lambda>x. after x p) xs)"
  have len: "length full = length (filter (\<lambda>x. after x p) xs)" by (simp add: full_def)
  define k where "k = nat limit"
  have k: "0 < k" "int k = limit" using limit by (auto simp: k_def)
  show ?case
  proof (cases "limit < int (length full)")
    case False
    then show ?thesis by (simp add: page slice_page_def full_def)
  next
    case True
    let ?last = "pos_of (full ! (k - 1))"
    have kl: "k \<le> length full" using True k by linarith
    have last: "last (take k full) = full ! (k - 1)"
      using kl k by (subst last_conv_nth) (auto simp: min_def)
    have rest: "sort_slice lt (filter (\<lambda>x. after x ?last) xs) = drop k full"
      unfolding full_def
    proof (rule next_page [OF xs k(1)])
      show "k \<le> length (sort_slice lt (filter (\<lambda>x. after x p) xs))" using kl by (simp add: full_def)
      show "after x p" if "x \<in> set xs" "y \<in> set xs" "after y p" "lt y x" for x y
        using that xs by (blast intro: after_mono)
    qed
    have "length (filter (\<lambda>x. after x ?last) xs) = length (drop k full)"
      using rest by (metis length_sort_slice)
    with Suc.prems len k kl have "length (filter (\<lambda>x. after x ?last) xs) < n" by simp
    from Suc.IH [OF this] rest have "follow_pages n get_page pos_of ?last = Some (drop k full)" by simp
    moreover have "get_page p = Some (take k full, True)"
      using True limit by (simp add: page slice_page_def full_def k_def)
    moreover have "take k full \<noteq> []" using kl k by auto
    ultimately show ?thesis using last by (simp add: full_def)
  qed
qed

end

end
