(* ===== verification/Drive_Types.thy ===== *)
theory Drive_Types
  imports Go_Prelude
begin

text \<open>
  The domain types of \<^verbatim>\<open>internal/drive\<close>: \<^verbatim>\<open>types.go\<close>, \<^verbatim>\<open>errors.go\<close> and the command structs of
  \<^verbatim>\<open>ports.go\<close>. A Go struct is a record (field names carry a prefix, since record fields share
  one name space), a pointer field is an option, and a string-based enum is a datatype with
  the source's constants and one more constructor for every other string (the zero value of
  the Go type is that constructor applied to the empty string).
\<close>

section \<open>Errors\<close>

datatype ErrorCode =
    CodeInvalidRequest | CodeInvalidCursor | CodeUnauthenticated | CodeForbidden | CodeNotFound
  | CodeNameConflict | CodeInvalidState | CodeIdempotencyConflict | CodeRestoreConflict
  | CodeRevisionMismatch | CodeRequestTooLarge | CodeUnsupportedMediaType
  | CodeDependencyUnavailable | CodeInternal

fun ErrorCode_string :: "ErrorCode \<Rightarrow> string" where
  "ErrorCode_string CodeInvalidRequest = ''invalid_request''"
| "ErrorCode_string CodeInvalidCursor = ''invalid_cursor''"
| "ErrorCode_string CodeUnauthenticated = ''unauthenticated''"
| "ErrorCode_string CodeForbidden = ''forbidden''"
| "ErrorCode_string CodeNotFound = ''not_found''"
| "ErrorCode_string CodeNameConflict = ''name_conflict''"
| "ErrorCode_string CodeInvalidState = ''invalid_state''"
| "ErrorCode_string CodeIdempotencyConflict = ''idempotency_conflict''"
| "ErrorCode_string CodeRestoreConflict = ''restore_conflict''"
| "ErrorCode_string CodeRevisionMismatch = ''revision_mismatch''"
| "ErrorCode_string CodeRequestTooLarge = ''request_too_large''"
| "ErrorCode_string CodeUnsupportedMediaType = ''unsupported_media_type''"
| "ErrorCode_string CodeDependencyUnavailable = ''dependency_unavailable''"
| "ErrorCode_string CodeInternal = ''internal_error''"

text \<open>
  \<open>DomainError\<close> is \<^verbatim>\<open>*drive.Error\<close>; \<open>OtherError\<close> is any other Go error (its text and, for one
  built with \<^verbatim>\<open>%w\<close>, what it wraps); \<open>Panic\<close> is a run-time panic, which no caller catches.
\<close>

datatype error =
    DomainError ErrorCode string bool "error option"
  | OtherError string "error option"
  | Panic string

type_synonym 'a result = "error + 'a"

definition E :: "ErrorCode \<Rightarrow> string \<Rightarrow> error" where
  "E code message = DomainError code message False None"

definition E_cause :: "ErrorCode \<Rightarrow> string \<Rightarrow> error option \<Rightarrow> error" where
  "E_cause code message cause = DomainError code message False cause"

definition Retryable :: "ErrorCode \<Rightarrow> string \<Rightarrow> error option \<Rightarrow> error" where
  "Retryable code message cause = DomainError code message True cause"

fun CodeOf :: "error \<Rightarrow> ErrorCode" where
  "CodeOf (DomainError code _ _ _) = code"
| "CodeOf (OtherError _ (Some e)) = CodeOf e"
| "CodeOf (OtherError _ None) = CodeInternal"
| "CodeOf (Panic _) = CodeInternal"

fun Error_string :: "error \<Rightarrow> string" where
  "Error_string (DomainError code message _ None) = ErrorCode_string code @ '': '' @ message"
| "Error_string (DomainError code message _ (Some e)) =
     ErrorCode_string code @ '': '' @ message @ '': '' @ Error_string e"
| "Error_string (OtherError message _) = message"
| "Error_string (Panic message) = message"

lemma CodeOf_constructors [simp]:
  "CodeOf (E c m) = c" "CodeOf (E_cause c m k) = c" "CodeOf (Retryable c m k) = c"
  by (simp_all add: E_def E_cause_def Retryable_def)

section \<open>Identity, roles and permissions\<close>

record Identity =
  iTenantID :: string
  iPrincipalID :: string

datatype AccessRole = RoleOwner | RoleAdmin | RoleEditor | RoleViewer | RoleOther string

datatype Permission =
    PermissionTenantRead | PermissionMembersRead | PermissionMembersManage
  | PermissionGroupsManage | PermissionAuditRead | PermissionFilesRead
  | PermissionFilesWrite | PermissionFilesDelete

fun AccessRole_string :: "AccessRole \<Rightarrow> string" where
  "AccessRole_string RoleOwner = ''owner''"
| "AccessRole_string RoleAdmin = ''admin''"
| "AccessRole_string RoleEditor = ''editor''"
| "AccessRole_string RoleViewer = ''viewer''"
| "AccessRole_string (RoleOther s) = s"

fun ValidAccessRole :: "AccessRole \<Rightarrow> bool" where
  "ValidAccessRole RoleOwner = True"
| "ValidAccessRole RoleAdmin = True"
| "ValidAccessRole RoleEditor = True"
| "ValidAccessRole RoleViewer = True"
| "ValidAccessRole (RoleOther _) = False"

fun PermissionsForRole :: "AccessRole \<Rightarrow> Permission set" where
  "PermissionsForRole RoleOwner =
     {PermissionTenantRead, PermissionMembersRead, PermissionMembersManage, PermissionGroupsManage,
      PermissionAuditRead, PermissionFilesRead, PermissionFilesWrite, PermissionFilesDelete}"
| "PermissionsForRole RoleAdmin =
     {PermissionTenantRead, PermissionMembersRead, PermissionMembersManage, PermissionGroupsManage,
      PermissionAuditRead, PermissionFilesRead, PermissionFilesWrite, PermissionFilesDelete}"
| "PermissionsForRole RoleEditor = {PermissionFilesRead, PermissionFilesWrite}"
| "PermissionsForRole RoleViewer = {PermissionFilesRead}"
| "PermissionsForRole (RoleOther _) = {}"

datatype MemberStatus = MemberStatusActive | MemberStatusSuspended | MemberStatusOther string

fun MemberStatus_string :: "MemberStatus \<Rightarrow> string" where
  "MemberStatus_string MemberStatusActive = ''active''"
| "MemberStatus_string MemberStatusSuspended = ''suspended''"
| "MemberStatus_string (MemberStatusOther s) = s"

definition ValidMemberStatus :: "MemberStatus \<Rightarrow> bool" where
  "ValidMemberStatus s \<longleftrightarrow> s = MemberStatusActive \<or> s = MemberStatusSuspended"

record PrincipalRecord =
  pIdentity :: Identity
  pIssuer :: string
  pSubject :: string
  pDisplayName :: string
  pTenantDisplayName :: string
  pRole :: AccessRole
  pStatus :: MemberStatus

record OIDCMemberSeed =
  osPrincipalID :: string
  osTenantID :: string
  osIssuer :: string
  osSubject :: string
  osDisplayName :: string
  osRole :: AccessRole
  osNow :: time

record UpdateMemberCommand =
  umTenantID :: string
  umPrincipalID :: string
  umActorPrincipalID :: string
  umActorRole :: AccessRole
  umRole :: "AccessRole option"
  umStatus :: "MemberStatus option"
  umNow :: time

section \<open>Invitations, groups, ACLs and audit\<close>

datatype InvitationStatus =
  InvitationPending | InvitationAccepted | InvitationRevoked | InvitationExpired
  | InvitationOther string

fun ValidInvitationStatus :: "InvitationStatus \<Rightarrow> bool" where
  "ValidInvitationStatus (InvitationOther _) = False"
| "ValidInvitationStatus _ = True"

record TenantInvitation =
  inID :: string
  inTenantID :: string
  inIssuer :: string
  inSubject :: string
  inDisplayName :: string
  inRole :: AccessRole
  inStatus :: InvitationStatus
  inAcceptedPrincipalID :: string
  inCreatedBy :: string
  inExpiresAt :: time
  inAcceptedAt :: "time option"
  inRevokedAt :: "time option"
  inCreatedAt :: time
  inUpdatedAt :: time

record CreateInvitationCommand =
  ciID :: string
  ciTenantID :: string
  ciActorPrincipalID :: string
  ciActorRole :: AccessRole
  ciIssuer :: string
  ciSubject :: string
  ciDisplayName :: string
  ciRole :: AccessRole
  ciTokenHash :: string
  ciExpiresAt :: time
  ciNow :: time

record AcceptInvitationCommand =
  aiTokenHash :: string
  aiCandidatePrincipalID :: string
  aiIssuer :: string
  aiSubject :: string
  aiNow :: time

record RevokeInvitationCommand =
  riTenantID :: string
  riInvitationID :: string
  riActorPrincipalID :: string
  riActorRole :: AccessRole
  riNow :: time

record DeleteMemberCommand =
  dmTenantID :: string
  dmPrincipalID :: string
  dmActorPrincipalID :: string
  dmActorRole :: AccessRole
  dmNow :: time

record TenantGroup =
  gID :: string
  gTenantID :: string
  gDisplayName :: string
  gNormalizedName :: string
  gCreatedBy :: string
  gCreatedAt :: time
  gUpdatedAt :: time

record CreateGroupCommand =
  cgID :: string
  cgTenantID :: string
  cgActorPrincipalID :: string
  cgActorRole :: AccessRole
  cgDisplayName :: string
  cgNormalizedName :: string
  cgNow :: time

record UpdateGroupCommand =
  ugTenantID :: string
  ugGroupID :: string
  ugActorPrincipalID :: string
  ugActorRole :: AccessRole
  ugDisplayName :: string
  ugNormalizedName :: string
  ugNow :: time

record DeleteGroupCommand =
  dgTenantID :: string
  dgGroupID :: string
  dgActorPrincipalID :: string
  dgActorRole :: AccessRole
  dgNow :: time

record GroupMemberCommand =
  gmTenantID :: string
  gmGroupID :: string
  gmPrincipalID :: string
  gmActorPrincipalID :: string
  gmActorRole :: AccessRole
  gmNow :: time

datatype ACLSubjectType = ACLSubjectPrincipal | ACLSubjectGroup | ACLSubjectOther string

fun ACLSubjectType_string :: "ACLSubjectType \<Rightarrow> string" where
  "ACLSubjectType_string ACLSubjectPrincipal = ''principal''"
| "ACLSubjectType_string ACLSubjectGroup = ''group''"
| "ACLSubjectType_string (ACLSubjectOther s) = s"

definition ValidACLSubjectType :: "ACLSubjectType \<Rightarrow> bool" where
  "ValidACLSubjectType t \<longleftrightarrow> t = ACLSubjectPrincipal \<or> t = ACLSubjectGroup"

datatype ACLRole = ACLReader | ACLContributor | ACLManager | ACLRoleOther string

fun ACLRole_string :: "ACLRole \<Rightarrow> string" where
  "ACLRole_string ACLReader = ''reader''"
| "ACLRole_string ACLContributor = ''contributor''"
| "ACLRole_string ACLManager = ''manager''"
| "ACLRole_string (ACLRoleOther s) = s"

definition ValidACLRole :: "ACLRole \<Rightarrow> bool" where
  "ValidACLRole r \<longleftrightarrow> r = ACLReader \<or> r = ACLContributor \<or> r = ACLManager"

datatype NodeCapability =
  NodeCapabilityRead | NodeCapabilityWrite | NodeCapabilityDelete | NodeCapabilityManageACL
  | NodeCapabilityOther string

fun ValidNodeCapability :: "NodeCapability \<Rightarrow> bool" where
  "ValidNodeCapability (NodeCapabilityOther _) = False"
| "ValidNodeCapability _ = True"

record NodeACLEntry =
  aID :: string
  aTenantID :: string
  aNodeID :: string
  aSubjectType :: ACLSubjectType
  aSubjectID :: string
  aRole :: ACLRole
  aCreatedBy :: string
  aCreatedAt :: time
  aUpdatedAt :: time

record SetNodeACLCommand =
  saID :: string
  saTenantID :: string
  saNodeID :: string
  saSubjectType :: ACLSubjectType
  saSubjectID :: string
  saRole :: ACLRole
  saActorPrincipalID :: string
  saActorRole :: AccessRole
  saNow :: time

record DeleteNodeACLCommand =
  daTenantID :: string
  daNodeID :: string
  daEntryID :: string
  daActorPrincipalID :: string
  daActorRole :: AccessRole
  daNow :: time

record AuditEvent =
  evSequence :: int64
  evID :: string
  evTenantID :: string
  evActorPrincipalID :: string
  evAction :: string
  evTargetType :: string
  evTargetID :: string
  evRequestID :: string
  evMetadata :: "(string, string) gomap option"
  evOccurredAt :: time

record AuditFilter =
  afTenantID :: string
  afAfterSequence :: int64
  afFrom :: time
  afUntil :: time
  afLimit :: int

section \<open>Idempotency and maintenance claims\<close>

datatype IdempotencyScope =
  IdempotencyCreateDirectory | IdempotencyCreateUpload | IdempotencyScopeOther string

fun IdempotencyScope_string :: "IdempotencyScope \<Rightarrow> string" where
  "IdempotencyScope_string IdempotencyCreateDirectory = ''create_directory''"
| "IdempotencyScope_string IdempotencyCreateUpload = ''create_upload''"
| "IdempotencyScope_string (IdempotencyScopeOther s) = s"

definition ValidIdempotencyScope :: "IdempotencyScope \<Rightarrow> bool" where
  "ValidIdempotencyScope s \<longleftrightarrow> s = IdempotencyCreateDirectory \<or> s = IdempotencyCreateUpload"

datatype IdempotencyState = IdempotencyPending | IdempotencyCompleted | IdempotencyStateOther string

record IdempotencyRequest =
  irIdentity :: Identity
  irScope :: IdempotencyScope
  irKeyHash :: string
  irRequestDigest :: string
  irClaimToken :: string
  irLockedUntil :: time
  irExpiresAt :: time
  irNow :: time

record IdempotencyRecord =
  idIdentity :: Identity
  idScope :: IdempotencyScope
  idKeyHash :: string
  idRequestDigest :: string
  idState :: IdempotencyState
  idClaimToken :: string
  idResourceID :: string
  idLockedUntil :: time
  idExpiresAt :: time
  idCreatedAt :: time
  idUpdatedAt :: time

section \<open>Namespace\<close>

record Tenant =
  tID :: string
  tDisplayName :: string
  tRootNodeID :: string
  tCreatedAt :: time

datatype NodeKind = NodeDirectory | NodeFile | NodeKindOther string

fun NodeKind_string :: "NodeKind \<Rightarrow> string" where
  "NodeKind_string NodeDirectory = ''directory''"
| "NodeKind_string NodeFile = ''file''"
| "NodeKind_string (NodeKindOther s) = s"

datatype NodeStatus = NodeActive | NodeTrashed | NodePurging | NodeStatusOther string

record Node =
  nID :: string
  nTenantID :: string
  nParentID :: string
  nKind :: NodeKind
  nDisplayName :: string
  nNormalizedName :: string
  nCurrentVersionID :: string
  nSize :: int64
  nMimeType :: string
  nStatus :: NodeStatus
  nTrashedRootID :: string
  nOriginalParentID :: string
  nRevision :: int64
  nCreatedAt :: time
  nUpdatedAt :: time
  nDeletedAt :: "time option"

definition zero_Node :: Node where
  "zero_Node = \<lparr>nID = [], nTenantID = [], nParentID = [], nKind = NodeKindOther [],
     nDisplayName = [], nNormalizedName = [], nCurrentVersionID = [], nSize = 0, nMimeType = [],
     nStatus = NodeStatusOther [], nTrashedRootID = [], nOriginalParentID = [], nRevision = 0,
     nCreatedAt = 0, nUpdatedAt = 0, nDeletedAt = None\<rparr>"

record Checksum =
  cAlgorithm :: string
  cValue :: string

definition zero_Checksum :: Checksum where
  "zero_Checksum = \<lparr>cAlgorithm = [], cValue = []\<rparr>"

datatype ChecksumStatus =
  ChecksumVerified | ChecksumDeclared | ChecksumUnavailable | ChecksumStatusOther string

datatype BlobStatus = BlobAvailable | BlobPendingDelete | BlobDeleted | BlobStatusOther string

record Blob =
  bID :: string
  bTenantID :: string
  bBucket :: string
  bObjectKey :: string
  bSize :: int64
  bMimeType :: string
  bChecksum :: Checksum
  bChecksumStatus :: ChecksumStatus
  bStatus :: BlobStatus
  bReferenceCount :: int64
  bCreatedAt :: time
  bDeletedAt :: "time option"

definition zero_Blob :: Blob where
  "zero_Blob = \<lparr>bID = [], bTenantID = [], bBucket = [], bObjectKey = [], bSize = 0, bMimeType = [],
     bChecksum = zero_Checksum, bChecksumStatus = ChecksumStatusOther [],
     bStatus = BlobStatusOther [], bReferenceCount = 0, bCreatedAt = 0, bDeletedAt = None\<rparr>"

record FileVersion =
  vID :: string
  vTenantID :: string
  vNodeID :: string
  vBlobID :: string
  vSize :: int64
  vMimeType :: string
  vChecksum :: Checksum
  vCreatedBy :: string
  vCreatedAt :: time

definition zero_FileVersion :: FileVersion where
  "zero_FileVersion = \<lparr>vID = [], vTenantID = [], vNodeID = [], vBlobID = [], vSize = 0,
     vMimeType = [], vChecksum = zero_Checksum, vCreatedBy = [], vCreatedAt = 0\<rparr>"

section \<open>Uploads\<close>

definition MaxUploadParts :: int where
  "MaxUploadParts = 10000"

datatype UploadStatus =
    UploadCreated | UploadUploading | UploadCompleting | UploadObjectCompleted | UploadCommitted
  | UploadAborted | UploadExpired | UploadFailed | UploadStatusOther string

definition UploadFailureStorageRejected :: string where
  "UploadFailureStorageRejected = ''storage_rejected''"
definition UploadFailureSizeMismatch :: string where
  "UploadFailureSizeMismatch = ''size_mismatch''"
definition UploadFailureChecksumMismatch :: string where
  "UploadFailureChecksumMismatch = ''checksum_mismatch''"
definition UploadFailureParentUnavailable :: string where
  "UploadFailureParentUnavailable = ''parent_unavailable''"
definition UploadFailureNameConflict :: string where
  "UploadFailureNameConflict = ''name_conflict''"

lemmas upload_failure_defs =
  UploadFailureStorageRejected_def UploadFailureSizeMismatch_def UploadFailureChecksumMismatch_def
  UploadFailureParentUnavailable_def UploadFailureNameConflict_def

definition Terminal :: "UploadStatus \<Rightarrow> bool" where
  "Terminal s \<longleftrightarrow> s = UploadCommitted \<or> s = UploadAborted \<or> s = UploadExpired \<or> s = UploadFailed"

record UploadSession =
  uID :: string
  uTenantID :: string
  uPrincipalID :: string
  uParentID :: string
  uDisplayName :: string
  uNormalizedName :: string
  uExpectedSize :: int64
  uMimeType :: string
  uDeclaredChecksum :: Checksum
  uBucket :: string
  uObjectKey :: string
  uStorageUploadID :: string
  uStatus :: UploadStatus
  uCompletionDigest :: string
  uCommittedNodeID :: string
  uFailureCode :: string
  uPartSize :: int64
  uExpiresAt :: time
  uRevision :: int64
  uCreatedAt :: time
  uUpdatedAt :: time

record CompletedPart =
  cpPartNumber :: int
  cpETag :: string
  cpChecksum :: Checksum
  cpSize :: int64

record PartSignature =
  psPartNumber :: int
  psSize :: int64
  psSHA256 :: string

record StoredPart =
  spPartNumber :: int
  spETag :: string
  spSize :: int64
  spStorageChecksum :: Checksum
  spChecksumAttested :: bool
  spReusable :: bool

record UploadPartListing =
  plUploadID :: string
  plStatus :: UploadStatus
  plPartSize :: int64
  plParts :: "StoredPart list"
  plComplete :: bool

record ObjectInfo =
  oBucket :: string
  oObjectKey :: string
  oSize :: int64
  oETag :: string
  oChecksum :: Checksum
  oChecksumStatus :: ChecksumStatus

record CompleteResult =
  crUpload :: UploadSession
  crNode :: Node
  crBlob :: Blob
  crVersion :: FileVersion

record UploadMaintenanceClaim =
  mcUpload :: UploadSession
  mcOwner :: string
  mcCleanupPending :: bool
  mcAttempts :: int

record RecycleMaintenanceClaim =
  rcIdentity :: Identity
  rcRootID :: string
  rcRevision :: int64
  rcOwner :: string

section \<open>Pages, plans and signatures\<close>

record CursorPosition =
  posName :: string
  posID :: string

record 'a Page =
  pgItems :: "'a list"
  pgNextCursor :: string

text \<open>The JSON document inside a cursor (\<^verbatim>\<open>internal/drive/cursor.go\<close>).\<close>

record cursorPayload =
  cvVersion :: int
  cvTenantID :: string
  cvScope :: string
  cvName :: string
  cvID :: string

record RecycleEntry =
  reNode :: Node
  reOriginalParentID :: string
  reDeletedAt :: time

record PurgePlan =
  ppRootID :: string
  ppBlobs :: "Blob list"

record SignedPart =
  sgPartNumber :: int
  sgMethod :: string
  sgURL :: string
  sgRequiredHeaders :: "(string, string) gomap"
  sgExpiresAt :: time

record SignedDownload =
  sdMethod :: string
  sdURL :: string
  sdExpiresAt :: time

section \<open>Repository commands\<close>

record TenantSeed =
  tsTenantID :: string
  tsDisplayName :: string
  tsRootNodeID :: string
  tsNow :: time

record CreateDirectoryCommand =
  cdIdentity :: Identity
  cdID :: string
  cdParentID :: string
  cdDisplayName :: string
  cdNormalizedName :: string
  cdNow :: time
  cdIdempotency :: "IdempotencyRequest option"

record UpdateNodeCommand =
  unIdentity :: Identity
  unNodeID :: string
  unDisplayName :: "string option"
  unNormalizedName :: "string option"
  unParentID :: "string option"
  unExpectedRevision :: int64
  unNow :: time

record CreateUploadCommand =
  cuSession :: UploadSession
  cuIdempotency :: "IdempotencyRequest option"

record CommitUploadCommand =
  cmIdentity :: Identity
  cmSessionID :: string
  cmDigest :: string
  cmBlob :: Blob
  cmVersion :: FileVersion
  cmNode :: Node
  cmParts :: "CompletedPart list"
  cmNow :: time

section \<open>Laws of the domain tables\<close>

lemma PermissionsForRole_admin: "PermissionsForRole RoleAdmin = PermissionsForRole RoleOwner"
  by simp

lemma PermissionsForRole_chain:
  "PermissionsForRole RoleViewer \<subset> PermissionsForRole RoleEditor"
  "PermissionsForRole RoleEditor \<subset> PermissionsForRole RoleAdmin"
  by auto

lemma PermissionsForRole_invalid: "PermissionsForRole r = {} \<longleftrightarrow> \<not> ValidAccessRole r"
  by (cases r) simp_all

end
