(* ===== verification/Go_Encoding.thy ===== *)
theory Go_Encoding
  imports Go_Prelude
begin

text \<open>
  What the program uses of Go's encoding packages, on byte strings: UTF-8 decoding as
  \<^verbatim>\<open>range\<close> and \<^verbatim>\<open>unicode/utf8\<close> do it, hexadecimal, the two base64 alphabets (padded standard
  and raw URL), the string encoder of \<^verbatim>\<open>encoding/json\<close> with its HTML escaping, and decimal
  integers. The laws proved here are the ones the drive components rest on: decoding is left
  inverse to encoding, and a string is the concatenation of its UTF-8 chunks.
\<close>

section \<open>Bytes\<close>

definition byte :: "char \<Rightarrow> nat" where
  "byte c = of_char c"

definition unbyte :: "nat \<Rightarrow> char" where
  "unbyte n = char_of n"

lemma byte_less [simp]: "byte c < 256"
  by (simp add: byte_def)

lemma unbyte_byte [simp]: "unbyte (byte c) = c"
  by (simp add: byte_def unbyte_def)

lemma byte_unbyte [simp]: "n < 256 \<Longrightarrow> byte (unbyte n) = n"
  by (simp add: byte_def unbyte_def of_char_of)

lemma byte_inject [simp]: "byte c = byte d \<longleftrightarrow> c = d"
  by (metis unbyte_byte)

section \<open>UTF-8\<close>

text \<open>
  \<open>decode_rune\<close> is \<^verbatim>\<open>utf8.DecodeRune\<close>: the code point and the number of bytes of the valid
  sequence at the start, \<open>None\<close> where Go returns \<^verbatim>\<open>(RuneError, 1)\<close>.
\<close>

definition is_cont :: "nat \<Rightarrow> bool" where
  "is_cont b \<longleftrightarrow> 128 \<le> b \<and> b \<le> 191"

fun decode_rune :: "nat list \<Rightarrow> (nat \<times> nat) option" where
  "decode_rune [] = None"
| "decode_rune (b0 # bs) =
     (if b0 < 128 then Some (b0, 1)
      else if 194 \<le> b0 \<and> b0 \<le> 223 then
        (case bs of
           b1 # _ \<Rightarrow> if is_cont b1 then Some ((b0 - 192) * 64 + (b1 - 128), 2) else None
         | _ \<Rightarrow> None)
      else if 224 \<le> b0 \<and> b0 \<le> 239 then
        (case bs of
           b1 # b2 # _ \<Rightarrow>
             if (if b0 = 224 then 160 else 128) \<le> b1 \<and> b1 \<le> (if b0 = 237 then 159 else 191)
                \<and> is_cont b2
             then Some ((b0 - 224) * 4096 + (b1 - 128) * 64 + (b2 - 128), 3) else None
         | _ \<Rightarrow> None)
      else if 240 \<le> b0 \<and> b0 \<le> 244 then
        (case bs of
           b1 # b2 # b3 # _ \<Rightarrow>
             if (if b0 = 240 then 144 else 128) \<le> b1 \<and> b1 \<le> (if b0 = 244 then 143 else 191)
                \<and> is_cont b2 \<and> is_cont b3
             then Some ((b0 - 240) * 262144 + (b1 - 128) * 4096 + (b2 - 128) * 64 + (b3 - 128), 4)
             else None
         | _ \<Rightarrow> None)
      else None)"

declare decode_rune.simps(2) [simp del]

text \<open>
  A string as \<^verbatim>\<open>range\<close> walks it: the code point of each step (\<open>None\<close> for an invalid byte) and
  the bytes the step consumes.
\<close>

fun utf8_chunks :: "string \<Rightarrow> (nat option \<times> string) list" where
  "utf8_chunks [] = []"
| "utf8_chunks (c # cs) =
     (case decode_rune (map byte (c # cs)) of
        None \<Rightarrow> (None, [c]) # utf8_chunks cs
      | Some (r, n) \<Rightarrow> (Some r, c # take (n - 1) cs) # utf8_chunks (drop (n - 1) cs))"

definition RuneError :: nat where
  "RuneError = 65533"

definition runes :: "string \<Rightarrow> nat list" where
  "runes s = map (\<lambda>(r, _). case r of None \<Rightarrow> RuneError | Some x \<Rightarrow> x) (utf8_chunks s)"

definition utf8_ValidString :: "string \<Rightarrow> bool" where
  "utf8_ValidString s \<longleftrightarrow> list_all (\<lambda>(r, _). r \<noteq> None) (utf8_chunks s)"

lemma concat_utf8_chunks: "concat (map snd (utf8_chunks s)) = s"
  by (induction s rule: utf8_chunks.induct) (auto split: option.splits)

lemma decode_rune_ascii [simp]: "c < 128 \<Longrightarrow> decode_rune (c # cs) = Some (c, 1)"
  by (simp add: decode_rune.simps(2))

text \<open>An ASCII byte is never inside a longer sequence: it is a chunk of its own.\<close>

lemma decode_rune_tail_not_ascii:
  assumes "decode_rune (b # bs) = Some (r, n)" and "x \<in> set (take (n - 1) bs)"
  shows "128 \<le> x"
  using assms
  by (auto simp: is_cont_def decode_rune.simps(2) split: if_splits list.splits)

lemma ascii_chunk:
  "c \<in> set s \<Longrightarrow> byte c < 128 \<Longrightarrow> (Some (byte c), [c]) \<in> set (utf8_chunks s)"
proof (induction s rule: utf8_chunks.induct)
  case 1
  then show ?case by simp
next
  case (2 d cs)
  show ?case
  proof (cases "decode_rune (map byte (d # cs))")
    case None
    with 2 have "c \<noteq> d" by auto
    with 2 None show ?thesis by auto
  next
    case (Some p)
    obtain r n where p: "p = (r, n)" by (cases p)
    show ?thesis
    proof (cases "c = d")
      case True
      with 2 Some p show ?thesis by auto
    next
      case False
      with 2 have "c \<in> set (take (n - 1) cs) \<or> c \<in> set (drop (n - 1) cs)"
        by (metis append_take_drop_id UnE set_append set_ConsD)
      moreover have "c \<notin> set (take (n - 1) cs)"
      proof
        assume "c \<in> set (take (n - 1) cs)"
        then have "byte c \<in> set (take (n - 1) (map byte cs))" by (auto simp: take_map)
        with Some p have "128 \<le> byte c"
          by (intro decode_rune_tail_not_ascii [of "byte d" "map byte cs" r n]) auto
        with 2 show False by simp
      qed
      ultimately have "c \<in> set (drop (n - 1) cs)" by blast
      with 2 Some p show ?thesis by auto
    qed
  qed
qed

lemma ascii_rune: "c \<in> set s \<Longrightarrow> byte c < 128 \<Longrightarrow> byte c \<in> set (runes s)"
  unfolding runes_def using ascii_chunk [of c s]
  by (force intro: rev_image_eqI)

lemma utf8_chunks_ascii:
  "list_all (\<lambda>c. byte c < 128) s \<Longrightarrow> utf8_chunks s = map (\<lambda>c. (Some (byte c), [c])) s"
  by (induction s) auto

subsection \<open>White space\<close>

definition unicode_IsSpace :: "nat \<Rightarrow> bool" where
  "unicode_IsSpace r \<longleftrightarrow>
     r \<in> {9, 10, 11, 12, 13, 32, 133, 160, 5760, 8232, 8233, 8239, 8287, 12288}
     \<or> 8192 \<le> r \<and> r \<le> 8202"

definition unicode_IsControl :: "nat \<Rightarrow> bool" where
  "unicode_IsControl r \<longleftrightarrow> r < 32 \<or> 127 \<le> r \<and> r < 160"

definition space_chunk :: "nat option \<times> string \<Rightarrow> bool" where
  "space_chunk p = (case fst p of None \<Rightarrow> False | Some r \<Rightarrow> unicode_IsSpace r)"

definition strings_TrimSpace :: "string \<Rightarrow> string" where
  "strings_TrimSpace s =
     concat (map snd (rev (dropWhile space_chunk
       (rev (dropWhile space_chunk (utf8_chunks s))))))"

lemma TrimSpace_ascii:
  assumes "list_all (\<lambda>c. byte c < 128) s" and "s \<noteq> []"
    and "\<not> unicode_IsSpace (byte (hd s))" and "\<not> unicode_IsSpace (byte (last s))"
  shows "strings_TrimSpace s = s"
proof -
  let ?f = "\<lambda>c. (Some (byte c), [c])"
  have keep: "dropWhile space_chunk (map ?f xs) = map ?f xs" if "xs \<noteq> []" "\<not> unicode_IsSpace (byte (hd xs))" for xs
    using that by (cases xs) (auto simp: space_chunk_def)
  have join: "concat (map snd (map ?f xs)) = xs" for xs by (induction xs) auto
  have "strings_TrimSpace s = concat (map snd (rev (map ?f (rev s))))"
    using assms keep [of s] keep [of "rev s"]
    by (simp add: strings_TrimSpace_def utf8_chunks_ascii hd_rev rev_map)
  also have "rev (map ?f (rev s)) = map ?f s" by (simp add: rev_map)
  finally show ?thesis unfolding join .
qed

definition ascii_lower :: "char \<Rightarrow> char" where
  "ascii_lower c = (if 65 \<le> byte c \<and> byte c \<le> 90 then unbyte (byte c + 32) else c)"

text \<open>
  \<^verbatim>\<open>strings.ToLower\<close>: the ASCII path is computed; the Unicode case tables, which only a string
  with a non-ASCII byte reaches, are the parameter \<open>unicode_lower\<close>.
\<close>

definition strings_ToLower :: "(string \<Rightarrow> string) \<Rightarrow> string \<Rightarrow> string" where
  "strings_ToLower unicode_lower s =
     (if list_all (\<lambda>c. byte c < 128) s then map ascii_lower s else unicode_lower s)"

section \<open>Hexadecimal\<close>

definition hexdigit :: "nat \<Rightarrow> char" where
  "hexdigit n = ''0123456789abcdef'' ! n"

definition hex_EncodeToString :: "string \<Rightarrow> string" where
  "hex_EncodeToString s = concat (map (\<lambda>c. [hexdigit (byte c div 16), hexdigit (byte c mod 16)]) s)"

definition fromHexChar :: "char \<Rightarrow> nat option" where
  "fromHexChar c =
     (let b = byte c in
      if 48 \<le> b \<and> b \<le> 57 then Some (b - 48)
      else if 97 \<le> b \<and> b \<le> 102 then Some (b - 87)
      else if 65 \<le> b \<and> b \<le> 70 then Some (b - 55)
      else None)"

fun hex_DecodeString :: "string \<Rightarrow> string option" where
  "hex_DecodeString [] = Some []"
| "hex_DecodeString [_] = None"
| "hex_DecodeString (a # b # s) =
     (case (fromHexChar a, fromHexChar b, hex_DecodeString s) of
        (Some x, Some y, Some r) \<Rightarrow> Some (unbyte (16 * x + y) # r)
      | _ \<Rightarrow> None)"

lemma hexdigit_cases: "n < 16 \<Longrightarrow> P (hexdigit n) \<Longrightarrow> hexdigit n \<in> set ''0123456789abcdef''"
  by (simp only: hexdigit_def) (rule nth_mem, simp)

lemma hexdigit_table:
  "list_all (\<lambda>n. fromHexChar (hexdigit n) = Some n \<and> ascii_lower (hexdigit n) = hexdigit n) [0..<16]"
  by code_simp

lemma fromHexChar_hexdigit [simp]: "n < 16 \<Longrightarrow> fromHexChar (hexdigit n) = Some n"
  using hexdigit_table by (auto simp: list_all_iff)

lemma ascii_lower_hexdigit [simp]: "n < 16 \<Longrightarrow> ascii_lower (hexdigit n) = hexdigit n"
  using hexdigit_table by (auto simp: list_all_iff)

lemma byte_div_16 [simp]: "byte c div 16 < 16"
  using byte_less [of c] by linarith

lemma length_hex_EncodeToString [simp]: "length (hex_EncodeToString s) = 2 * length s"
  by (induction s) (auto simp: hex_EncodeToString_def)

lemma hex_decode_encode: "hex_DecodeString (hex_EncodeToString s) = Some s"
  by (induction s) (auto simp: hex_EncodeToString_def)

lemma hex_lower: "map ascii_lower (hex_EncodeToString s) = hex_EncodeToString s"
  by (induction s) (auto simp: hex_EncodeToString_def)

section \<open>Base64\<close>

definition b64_std :: string where
  "b64_std = ''ABCDEFGHIJKLMNOPQRSTUVWXYZabcdefghijklmnopqrstuvwxyz0123456789+/''"

definition b64_url :: string where
  "b64_url = ''ABCDEFGHIJKLMNOPQRSTUVWXYZabcdefghijklmnopqrstuvwxyz0123456789-_''"

fun index_of :: "char \<Rightarrow> string \<Rightarrow> nat option" where
  "index_of c [] = None"
| "index_of c (x # xs) = (if x = c then Some 0 else map_option Suc (index_of c xs))"

text \<open>\<open>pad\<close> says whether the encoding pads with \<^verbatim>\<open>=\<close> (\<^verbatim>\<open>StdEncoding\<close>) or not (\<^verbatim>\<open>RawURLEncoding\<close>).\<close>

fun b64_encode :: "string \<Rightarrow> bool \<Rightarrow> string \<Rightarrow> string" where
  "b64_encode al pad [] = []"
| "b64_encode al pad [a] =
     [al ! (byte a div 4), al ! (byte a mod 4 * 16)] @ (if pad then ''=='' else [])"
| "b64_encode al pad [a, b] =
     [al ! (byte a div 4), al ! (byte a mod 4 * 16 + byte b div 16), al ! (byte b mod 16 * 4)]
     @ (if pad then ''='' else [])"
| "b64_encode al pad (a # b # c # s) =
     [al ! (byte a div 4), al ! (byte a mod 4 * 16 + byte b div 16),
      al ! (byte b mod 16 * 4 + byte c div 64), al ! (byte c mod 64)] @ b64_encode al pad s"

definition b64_1 :: "string \<Rightarrow> char \<Rightarrow> char \<Rightarrow> string option" where
  "b64_1 al a b =
     (case (index_of a al, index_of b al) of
        (Some x, Some y) \<Rightarrow> Some [unbyte ((x * 4 + y div 16) mod 256)]
      | _ \<Rightarrow> None)"

definition b64_2 :: "string \<Rightarrow> char \<Rightarrow> char \<Rightarrow> char \<Rightarrow> string option" where
  "b64_2 al a b c =
     (case (index_of a al, index_of b al, index_of c al) of
        (Some x, Some y, Some z) \<Rightarrow>
          Some [unbyte ((x * 4 + y div 16) mod 256), unbyte ((y mod 16 * 16 + z div 4) mod 256)]
      | _ \<Rightarrow> None)"

definition b64_3 :: "string \<Rightarrow> char \<Rightarrow> char \<Rightarrow> char \<Rightarrow> char \<Rightarrow> string option" where
  "b64_3 al a b c d =
     (case (b64_2 al a b c, index_of c al, index_of d al) of
        (Some p, Some z, Some w) \<Rightarrow> Some (p @ [unbyte ((z mod 4 * 64 + w) mod 256)])
      | _ \<Rightarrow> None)"

text \<open>
  The decoder skips carriage returns and line feeds anywhere and, not being strict, ignores
  the unused low bits of the last character.
\<close>

fun b64_quads :: "string \<Rightarrow> bool \<Rightarrow> string \<Rightarrow> string option" where
  "b64_quads al pad [] = Some []"
| "b64_quads al pad [a] = None"
| "b64_quads al pad [a, b] = (if pad then None else b64_1 al a b)"
| "b64_quads al pad [a, b, c] = (if pad then None else b64_2 al a b c)"
| "b64_quads al pad [a, b, c, d] =
     (if pad \<and> d = CHR ''='' then (if c = CHR ''='' then b64_1 al a b else b64_2 al a b c)
      else b64_3 al a b c d)"
| "b64_quads al pad (a # b # c # d # s) =
     (case (b64_3 al a b c d, b64_quads al pad s) of
        (Some p, Some q) \<Rightarrow> Some (p @ q)
      | _ \<Rightarrow> None)"

definition b64_decode :: "string \<Rightarrow> bool \<Rightarrow> string \<Rightarrow> string option" where
  "b64_decode al pad s =
     b64_quads al pad (filter (\<lambda>c. c \<noteq> CHR 0x0A \<and> c \<noteq> CHR 0x0D) s)"

definition b64_alphabet :: "string \<Rightarrow> bool" where
  "b64_alphabet al \<longleftrightarrow> length al = 64 \<and> distinct al
     \<and> CHR 0x0A \<notin> set al \<and> CHR 0x0D \<notin> set al \<and> CHR ''='' \<notin> set al"

lemma b64_alphabet_std: "b64_alphabet b64_std"
  by code_simp

lemma b64_alphabet_url: "b64_alphabet b64_url"
  by code_simp

lemma index_of_nth: "distinct al \<Longrightarrow> i < length al \<Longrightarrow> index_of (al ! i) al = Some i"
proof (induction al arbitrary: i)
  case Nil
  then show ?case by simp
next
  case (Cons x al)
  then show ?case by (cases i) (auto simp: nth_mem)
qed

lemma b64_bounds:
  "byte a div 4 < 64" "byte a mod 4 * 16 < 64" "byte a mod 4 * 16 + byte b div 16 < 64"
  "byte b mod 16 * 4 < 64" "byte b mod 16 * 4 + byte c div 64 < 64" "byte c mod 64 < 64"
proof -
  have m: "byte a mod 4 < 4" "byte b mod 16 < 16" by simp_all
  have d: "byte a div 4 < 64" "byte b div 16 < 16" "byte c div 64 < 4"
    using byte_less [of a] byte_less [of b] byte_less [of c] by linarith+
  from m d show "byte a mod 4 * 16 + byte b div 16 < 64"
    and "byte b mod 16 * 4 + byte c div 64 < 64" by linarith+
  from m d show "byte a div 4 < 64" "byte a mod 4 * 16 < 64" "byte b mod 16 * 4 < 64"
    "byte c mod 64 < 64" by simp_all
qed

text \<open>A byte split over two sextets is put together again.\<close>

lemma b64_join:
  fixes q r s t :: nat
  assumes "r < 4" and "s < 16"
  shows "(q * 4 + (r * 16 + s) div 16) = q * 4 + r" and "(r * 16 + s) mod 16 = s"
  using assms by simp_all

lemma b64_roundtrip_bytes:
  shows "(byte a div 4 * 4 + (byte a mod 4 * 16 + byte b div 16) div 16) mod 256 = byte a"
    and "(byte a div 4 * 4 + (byte a mod 4 * 16) div 16) mod 256 = byte a"
    and "((byte a mod 4 * 16 + byte b div 16) mod 16 * 16
           + (byte b mod 16 * 4 + byte c div 64) div 4) mod 256 = byte b"
    and "((byte a mod 4 * 16 + byte b div 16) mod 16 * 16 + (byte b mod 16 * 4) div 4) mod 256 = byte b"
    and "((byte b mod 16 * 4 + byte c div 64) mod 4 * 64 + byte c mod 64) mod 256 = byte c"
proof -
  have d: "byte b div 16 < 16" "byte c div 64 < 4"
    using byte_less [of b] byte_less [of c] by linarith+
  have "(byte a mod 4 * 16 + byte b div 16) div 16 = byte a mod 4" using d by simp
  then show "(byte a div 4 * 4 + (byte a mod 4 * 16 + byte b div 16) div 16) mod 256 = byte a"
    by simp
  show "(byte a div 4 * 4 + (byte a mod 4 * 16) div 16) mod 256 = byte a" by simp
  have "(byte a mod 4 * 16 + byte b div 16) mod 16 = byte b div 16" using d by simp
  moreover have "(byte b mod 16 * 4 + byte c div 64) div 4 = byte b mod 16" using d by simp
  ultimately show "((byte a mod 4 * 16 + byte b div 16) mod 16 * 16
           + (byte b mod 16 * 4 + byte c div 64) div 4) mod 256 = byte b" by simp
  show "((byte a mod 4 * 16 + byte b div 16) mod 16 * 16 + (byte b mod 16 * 4) div 4) mod 256 = byte b"
    using d by simp
  have "(byte b mod 16 * 4 + byte c div 64) mod 4 = byte c div 64" using d by simp
  then show "((byte b mod 16 * 4 + byte c div 64) mod 4 * 64 + byte c mod 64) mod 256 = byte c"
    by simp
qed

lemma set_b64_encode:
  "b64_alphabet al \<Longrightarrow> set (b64_encode al pad s) \<subseteq> set al \<union> {CHR ''=''}"
  by (induction al pad s rule: b64_encode.induct)
    (auto simp: b64_alphabet_def intro!: nth_mem b64_bounds)

lemma filter_b64_encode:
  assumes "b64_alphabet al"
  shows "filter (\<lambda>c. c \<noteq> CHR 0x0A \<and> c \<noteq> CHR 0x0D) (b64_encode al pad s) = b64_encode al pad s"
  using set_b64_encode [OF assms, of pad s] assms
  by (intro filter_True) (auto simp: b64_alphabet_def)

lemma b64_quads_step:
  "s \<noteq> [] \<Longrightarrow> b64_quads al pad (a # b # c # d # s) =
     (case (b64_3 al a b c d, b64_quads al pad s) of
        (Some p, Some q) \<Rightarrow> Some (p @ q)
      | _ \<Rightarrow> None)"
  by (cases s) simp_all

lemma b64_alphabet_nth:
  assumes "b64_alphabet al" and "i < 64"
  shows "index_of (al ! i) al = Some i" and "al ! i \<noteq> CHR ''=''"
proof -
  from assms have "al ! i \<in> set al" by (simp add: b64_alphabet_def)
  with assms show "al ! i \<noteq> CHR ''=''" unfolding b64_alphabet_def by metis
  from assms show "index_of (al ! i) al = Some i" by (simp add: b64_alphabet_def index_of_nth)
qed

lemma b64_groups:
  assumes "b64_alphabet al"
  shows "b64_1 al (al ! (byte a div 4)) (al ! (byte a mod 4 * 16)) = Some [a]"
    and "b64_2 al (al ! (byte a div 4)) (al ! (byte a mod 4 * 16 + byte b div 16))
           (al ! (byte b mod 16 * 4)) = Some [a, b]"
    and "b64_3 al (al ! (byte a div 4)) (al ! (byte a mod 4 * 16 + byte b div 16))
           (al ! (byte b mod 16 * 4 + byte c div 64)) (al ! (byte c mod 64)) = Some [a, b, c]"
  using assms
  by (simp_all only: b64_1_def b64_2_def b64_3_def b64_alphabet_nth b64_bounds b64_roundtrip_bytes
        prod.case option.case unbyte_byte append.simps)

lemma b64_encode_nonempty: "b64_encode al pad s = [] \<longleftrightarrow> s = []"
  by (induction al pad s rule: b64_encode.induct) auto

lemma b64_quads_encode:
  "b64_alphabet al \<Longrightarrow> b64_quads al pad (b64_encode al pad s) = Some s"
proof (induction al pad s rule: b64_encode.induct)
  case (1 al pad)
  then show ?case by simp
next
  case (2 al pad a)
  then show ?case by (simp add: b64_groups)
next
  case (3 al pad a b)
  then show ?case by (simp add: b64_groups b64_alphabet_nth b64_bounds)
next
  case (4 al pad a b c s)
  show ?case
  proof (cases "s = []")
    case True
    with 4 show ?thesis by (simp add: b64_groups b64_alphabet_nth b64_bounds)
  next
    case False
    with 4 show ?thesis
      by (simp add: b64_quads_step b64_encode_nonempty b64_groups)
  qed
qed

lemma b64_decode_encode:
  "b64_alphabet al \<Longrightarrow> b64_decode al pad (b64_encode al pad s) = Some s"
  by (simp add: b64_decode_def filter_b64_encode b64_quads_encode)

lemma b64_encode_inj: "b64_alphabet al \<Longrightarrow> b64_encode al pad s = b64_encode al pad t \<Longrightarrow> s = t"
  by (metis b64_decode_encode option.inject)

section \<open>JSON\<close>

text \<open>
  The string encoder of \<^verbatim>\<open>encoding/json\<close> with HTML escaping on, as \<^verbatim>\<open>json.Marshal\<close> runs it:
  an invalid byte becomes the escape of U+FFFD.
\<close>

definition json_escape_ascii :: "nat \<Rightarrow> string" where
  "json_escape_ascii b =
     (if b = 34 then [CHR 0x5C, CHR 0x22]
      else if b = 92 then [CHR 0x5C, CHR 0x5C]
      else if b = 8 then CHR 0x5C # ''b''
      else if b = 12 then CHR 0x5C # ''f''
      else if b = 10 then CHR 0x5C # ''n''
      else if b = 13 then CHR 0x5C # ''r''
      else if b = 9 then CHR 0x5C # ''t''
      else if b < 32 \<or> b = 60 \<or> b = 62 \<or> b = 38
        then CHR 0x5C # ''u00'' @ [hexdigit (b div 16), hexdigit (b mod 16)]
      else [unbyte b])"

definition json_escape_chunk :: "nat option \<times> string \<Rightarrow> string" where
  "json_escape_chunk p =
     (case fst p of
        None \<Rightarrow> CHR 0x5C # ''ufffd''
      | Some r \<Rightarrow> if r < 128 then json_escape_ascii r
                 else if r = 8232 \<or> r = 8233 then CHR 0x5C # ''u202'' @ [hexdigit (r mod 16)]
                 else snd p)"

definition json_string :: "string \<Rightarrow> string" where
  "json_string s = [CHR 0x22] @ concat (map json_escape_chunk (utf8_chunks s)) @ [CHR 0x22]"

fun json_join :: "string list \<Rightarrow> string" where
  "json_join [] = []"
| "json_join [x] = x"
| "json_join (x # xs) = x @ '','' @ json_join xs"

text \<open>An object from its fields, in the order given; a string map is written with sorted keys.\<close>

definition json_object :: "(string \<times> string) list \<Rightarrow> string" where
  "json_object fields = ''{'' @ json_join (map (\<lambda>(k, v). json_string k @ '':'' @ v) fields) @ ''}''"

definition json_string_map :: "(string, string) gomap \<Rightarrow> string" where
  "json_string_map m =
     json_object (map (\<lambda>(k, v). (k, json_string v)) (sort_slice (\<lambda>a b. fst a < fst b) (gentries m)))"

fun show_nat :: "nat \<Rightarrow> string" where
  "show_nat n = (if n < 10 then [unbyte (48 + n)] else show_nat (n div 10) @ [unbyte (48 + n mod 10)])"

declare show_nat.simps [simp del]

definition show_int :: "int \<Rightarrow> string" where
  "show_int i = (if i < 0 then ''-'' @ show_nat (nat (- i)) else show_nat (nat i))"

lemma json_escape_chunk_nonempty: "snd p \<noteq> [] \<Longrightarrow> json_escape_chunk p \<noteq> []"
  by (auto simp: json_escape_chunk_def json_escape_ascii_def split: option.splits)

lemma length_json_escape_chunk: "length (snd p) \<le> 4 \<Longrightarrow> length (json_escape_chunk p) \<le> 6"
  by (auto simp: json_escape_chunk_def json_escape_ascii_def split: option.splits)

end
