(* ===== verification/Drive_Util.thy ===== *)
theory Drive_Util
  imports Drive_Types Go_Encoding
begin

unbundle bit_operations_syntax

text \<open>
  \<^verbatim>\<open>internal/drive/util.go\<close>, \<^verbatim>\<open>idempotency.go\<close> and \<^verbatim>\<open>audit.go\<close>: identifiers, name normalisation,
  checksums, media types, idempotency-key validation and the request id carried by a context.
  Code outside the repository is the record \<open>Lib\<close> of parameters: Unicode NFC
  (\<^verbatim>\<open>golang.org/x/text\<close>), the Unicode case tables, \<^verbatim>\<open>mime.ParseMediaType\<close>, SHA-256, HMAC, and
  \<^verbatim>\<open>json.Unmarshal\<close> into the cursor payload (\<open>None\<close> when it reports an error).
\<close>

record Lib =
  lib_nfc :: "string \<Rightarrow> string"
  lib_unicode_lower :: "string \<Rightarrow> string"
  lib_ParseMediaType :: "string \<Rightarrow> string option"
  lib_sha256 :: "string \<Rightarrow> string"
  lib_hmac :: "string \<Rightarrow> string \<Rightarrow> string"
  lib_Unmarshal_cursor :: "string \<Rightarrow> cursorPayload option"

section \<open>Identifiers\<close>

text \<open>
  \<^verbatim>\<open>crypto/rand.Read\<close> into a 16-byte array is the argument: the bytes read or the error. The
  two masked bytes carry the UUID version and variant.
\<close>

definition NewID :: "string result \<Rightarrow> string result" where
  "NewID random =
     (case random of
        Inl err \<Rightarrow> Inl err
      | Inr b \<Rightarrow>
          (let b1 = b[6 := unbyte ((byte (b ! 6) AND 0x0f) OR 0x40)];
               b2 = b1[8 := unbyte ((byte (b1 ! 8) AND 0x3f) OR 0x80)]
           in Inr (hex_EncodeToString (take 4 b2) @ ''-''
                 @ hex_EncodeToString (take 2 (drop 4 b2)) @ ''-''
                 @ hex_EncodeToString (take 2 (drop 6 b2)) @ ''-''
                 @ hex_EncodeToString (take 2 (drop 8 b2)) @ ''-''
                 @ hex_EncodeToString (take 6 (drop 10 b2)))))"

definition is_hex :: "char \<Rightarrow> bool" where
  "is_hex c \<longleftrightarrow> (let b = byte c in 48 \<le> b \<and> b \<le> 57 \<or> 97 \<le> b \<and> b \<le> 102 \<or> 65 \<le> b \<and> b \<le> 70)"

text \<open>
  The loop \<^verbatim>\<open>for index := range value\<close> visits the first byte of each UTF-8 sequence; a sequence
  of several bytes starts with a byte that the test rejects, so visiting every byte decides
  the same.
\<close>

definition ValidID :: "string \<Rightarrow> bool" where
  "ValidID value \<longleftrightarrow>
     length value = 36 \<and> value ! 8 = CHR ''-'' \<and> value ! 13 = CHR ''-''
     \<and> value ! 18 = CHR ''-'' \<and> value ! 23 = CHR ''-''
     \<and> list_all (\<lambda>index. index \<in> {8, 13, 18, 23} \<or> is_hex (value ! index)) [0..<36]"

lemma ValidID_length: "ValidID s \<Longrightarrow> length s = 36"
  by (simp add: ValidID_def)

lemma ValidID_nonempty: "ValidID s \<Longrightarrow> s \<noteq> []"
  by (auto simp: ValidID_def)

lemma not_ValidID_Nil [simp]: "\<not> ValidID []"
  by (simp add: ValidID_def)

lemma ValidID_nth:
  assumes "ValidID s" and "i < 36"
  shows "is_hex (s ! i) \<or> s ! i = CHR ''-''"
  using assms unfolding ValidID_def list_all_iff
  by (metis atLeast0LessThan insertE lessThan_iff set_upt singletonD)

text \<open>The separators of composite keys never occur in an identifier.\<close>

lemma ValidID_no_sep:
  assumes "ValidID s"
  shows "CHR ''/'' \<notin> set s" and "CHR 0x00 \<notin> set s"
proof -
  have "c \<in> set s \<Longrightarrow> is_hex c \<or> c = CHR ''-''" for c
    using ValidID_nth [OF assms] ValidID_length [OF assms] by (metis in_set_conv_nth)
  then show "CHR ''/'' \<notin> set s" and "CHR 0x00 \<notin> set s"
    by (force simp: is_hex_def byte_def)+
qed

lemma hexdigit_is_hex_table: "list_all (\<lambda>n. is_hex (hexdigit n)) [0..<16]"
  by code_simp

lemma hexdigit_is_hex: "n < 16 \<Longrightarrow> is_hex (hexdigit n)"
  using hexdigit_is_hex_table by (auto simp: list_all_iff)

lemma hex_encode_is_hex: "c \<in> set (hex_EncodeToString s) \<Longrightarrow> is_hex c"
  by (auto simp: hex_EncodeToString_def hexdigit_is_hex)

lemma uuid_shape:
  assumes "length a = 8" "length b = 4" "length c = 4" "length d = 4" "length e = 12"
    and "\<And>x. x \<in> set a \<union> set b \<union> set c \<union> set d \<union> set e \<Longrightarrow> is_hex x"
  shows "ValidID (a @ ''-'' @ b @ ''-'' @ c @ ''-'' @ d @ ''-'' @ e)"
proof -
  let ?s = "a @ ''-'' @ b @ ''-'' @ c @ ''-'' @ d @ ''-'' @ e"
  have len: "length ?s = 36" using assms by simp
  have "is_hex (?s ! i)" if "i < 36" "i \<notin> {8, 13, 18, 23}" for i
  proof -
    have "i < 8 \<or> 8 < i \<and> i < 13 \<or> 13 < i \<and> i < 18 \<or> 18 < i \<and> i < 23 \<or> 23 < i"
      using that by simp arith
    then consider "i < 8" | "8 < i" "i < 13" | "13 < i" "i < 18" | "18 < i" "i < 23" | "23 < i"
      by blast
    then have "?s ! i \<in> set a \<union> set b \<union> set c \<union> set d \<union> set e"
    proof cases
      case 1
      then show ?thesis using assms by (simp add: nth_append)
    next
      case 2
      then obtain j where j: "i = 9 + j" using le_Suc_ex [of 9 i] by auto
      with 2 that have "j < 4" by simp
      with j show ?thesis using assms by (simp add: nth_append nth_Cons')
    next
      case 3
      then obtain j where j: "i = 14 + j" using le_Suc_ex [of 14 i] by auto
      with 3 that have "j < 4" by simp
      with j show ?thesis using assms by (simp add: nth_append nth_Cons')
    next
      case 4
      then obtain j where j: "i = 19 + j" using le_Suc_ex [of 19 i] by auto
      with 4 that have "j < 4" by simp
      with j show ?thesis using assms by (simp add: nth_append nth_Cons')
    next
      case 5
      then obtain j where j: "i = 24 + j" using le_Suc_ex [of 24 i] by auto
      with 5 that have "j < 12" by simp
      with j show ?thesis using assms by (simp add: nth_append nth_Cons')
    qed
    then show ?thesis by (rule assms(6))
  qed
  then have "list_all (\<lambda>i. i \<in> {8, 13, 18, 23} \<or> is_hex (?s ! i)) [0..<36]"
    unfolding list_all_iff by (metis atLeastLessThan_iff set_upt)
  moreover have "?s ! 8 = CHR ''-''" "?s ! 13 = CHR ''-''" "?s ! 18 = CHR ''-''" "?s ! 23 = CHR ''-''"
    using assms by (simp_all add: nth_append nth_Cons')
  ultimately show ?thesis
    unfolding ValidID_def using len by (simp only: simp_thms)
qed

lemma ValidID_NewID:
  assumes "length b = 16" and "NewID (Inr b) = Inr x"
  shows "ValidID x"
proof -
  define b2 where "b2 = b[6 := unbyte ((byte (b ! 6) AND 0x0f) OR 0x40),
    8 := unbyte ((byte (b[6 := unbyte ((byte (b ! 6) AND 0x0f) OR 0x40)] ! 8) AND 0x3f) OR 0x80)]"
  have len: "length b2 = 16" using assms(1) by (simp add: b2_def)
  have x: "x = hex_EncodeToString (take 4 b2) @ ''-'' @ hex_EncodeToString (take 2 (drop 4 b2)) @ ''-''
      @ hex_EncodeToString (take 2 (drop 6 b2)) @ ''-'' @ hex_EncodeToString (take 2 (drop 8 b2)) @ ''-''
      @ hex_EncodeToString (take 6 (drop 10 b2))"
    using assms(2) unfolding b2_def by (simp only: NewID_def Let_def sum.case sum.inject)
  show ?thesis
    unfolding x by (rule uuid_shape) (use len in \<open>auto dest: hex_encode_is_hex\<close>)
qed

section \<open>Names\<close>

definition forbidden_rune :: "nat \<Rightarrow> bool" where
  "forbidden_rune r \<longleftrightarrow> r = 47 \<or> r = 92 \<or> r = 0 \<or> unicode_IsControl r"

definition NormalizeName :: "Lib \<Rightarrow> string \<Rightarrow> (string \<times> string) result" where
  "NormalizeName lib input =
     (if \<not> utf8_ValidString input then Inl (E CodeInvalidRequest ''name must be valid UTF-8'')
      else
        let display = lib_nfc lib input in
        if display = [] \<or> display = ''.'' \<or> display = ''..''
        then Inl (E CodeInvalidRequest ''name is invalid'')
        else if strings_TrimSpace display \<noteq> display \<or> length display > 255
        then Inl (E CodeInvalidRequest ''name is invalid'')
        else if list_ex forbidden_rune (runes display)
        then Inl (E CodeInvalidRequest ''name is invalid'')
        else Inr (display, lib_nfc lib (strings_ToLower (lib_unicode_lower lib) display)))"

lemma NormalizeName_Inr:
  assumes "NormalizeName lib input = Inr (display, normalized)"
  shows "utf8_ValidString input" and "display = lib_nfc lib input"
    and "display \<noteq> []" "display \<noteq> ''.''" "display \<noteq> ''..''" "length display \<le> 255"
    and "strings_TrimSpace display = display" and "\<not> list_ex forbidden_rune (runes display)"
    and "normalized = lib_nfc lib (strings_ToLower (lib_unicode_lower lib) display)"
  using assms by (auto simp: NormalizeName_def Let_def split: if_splits)

lemma NormalizeName_error:
  "NormalizeName lib input = Inl e \<Longrightarrow> CodeOf e = CodeInvalidRequest"
  by (auto simp: NormalizeName_def Let_def split: if_splits)

lemma NormalizeName_no_separator:
  assumes "NormalizeName lib input = Inr (display, normalized)" and "c \<in> set display"
  shows "c \<noteq> CHR ''/''" and "c \<noteq> CHR 0x5C" and "32 \<le> byte c" and "byte c \<noteq> 127"
proof -
  have "\<not> forbidden_rune (byte c)" if "byte c < 128"
    using NormalizeName_Inr(8) [OF assms(1)] ascii_rune [OF assms(2) that]
    by (auto simp: list_ex_iff)
  then have *: "byte c < 128 \<Longrightarrow> byte c \<noteq> 47 \<and> byte c \<noteq> 92 \<and> 32 \<le> byte c \<and> byte c \<noteq> 127"
    by (auto simp: forbidden_rune_def unicode_IsControl_def)
  from * show "32 \<le> byte c" and "byte c \<noteq> 127" by (cases "byte c < 128", auto)+
  show "c \<noteq> CHR ''/''" and "c \<noteq> CHR 0x5C" using * by (auto simp: byte_def)
qed

text \<open>
  NFC of a name in normal form is the name itself, so a display name that was accepted once
  is accepted again unchanged.
\<close>

lemma NormalizeName_again:
  assumes "NormalizeName lib input = Inr (display, normalized)"
    and "lib_nfc lib display = display" and "utf8_ValidString display"
  shows "NormalizeName lib display = Inr (display, normalized)"
  using NormalizeName_Inr [OF assms(1)] assms(2,3) by (simp add: NormalizeName_def Let_def)

section \<open>Checksums and media types\<close>

definition ValidChecksum :: "Checksum \<Rightarrow> bool" where
  "ValidChecksum c \<longleftrightarrow>
     (if cAlgorithm c = [] \<and> cValue c = [] then True
      else if cAlgorithm c \<noteq> ''sha256'' then False
      else case b64_decode b64_std True (cValue c) of
             None \<Rightarrow> False
           | Some digest \<Rightarrow> length digest = 32 \<and> b64_encode b64_std True digest = cValue c)"

lemma ValidChecksum_iff:
  "ValidChecksum c \<longleftrightarrow>
     c = zero_Checksum \<or>
     cAlgorithm c = ''sha256'' \<and> (\<exists>digest. length digest = 32 \<and> cValue c = b64_encode b64_std True digest)"
proof (cases "cAlgorithm c = ''sha256''")
  case True
  then have "c \<noteq> zero_Checksum" by (auto simp: zero_Checksum_def)
  have "ValidChecksum c \<longleftrightarrow> (\<exists>digest. length digest = 32 \<and> cValue c = b64_encode b64_std True digest)"
    using True b64_decode_encode [OF b64_alphabet_std]
    by (auto simp: ValidChecksum_def split: option.splits)
  with True \<open>c \<noteq> zero_Checksum\<close> show ?thesis by simp
next
  case False
  then show ?thesis
    by (cases c) (auto simp: ValidChecksum_def zero_Checksum_def)
qed

definition ValidMediaType :: "Lib \<Rightarrow> string \<Rightarrow> bool" where
  "ValidMediaType lib value =
     (case lib_ParseMediaType lib value of
        None \<Rightarrow> False
      | Some mediaType \<Rightarrow> CHR ''/'' \<in> set mediaType)"

section \<open>Idempotency keys and claims\<close>

definition MaxIdempotencyKeyBytes :: nat where
  "MaxIdempotencyKeyBytes = 255"

definition ValidateIdempotencyKey :: "string \<Rightarrow> unit result" where
  "ValidateIdempotencyKey value =
     (if length value = 0 \<or> length value > MaxIdempotencyKeyBytes
      then Inl (E CodeInvalidRequest ''Idempotency-Key must contain between 1 and 255 bytes'')
      else if list_ex (\<lambda>c. byte c < 0x21 \<or> byte c > 0x7e) value
      then Inl (E CodeInvalidRequest ''Idempotency-Key must contain visible ASCII characters only'')
      else Inr ())"

definition ValidSHA256Hex :: "string \<Rightarrow> bool" where
  "ValidSHA256Hex value \<longleftrightarrow>
     length value = 64 \<and> map ascii_lower value = value
     \<and> (case hex_DecodeString value of None \<Rightarrow> False | Some decoded \<Rightarrow> length decoded = 32)"

definition sha256Hex :: "Lib \<Rightarrow> string \<Rightarrow> string" where
  "sha256Hex lib value = hex_EncodeToString (lib_sha256 lib value)"

lemma ValidSHA256Hex_sha256Hex:
  "length (lib_sha256 lib value) = 32 \<Longrightarrow> ValidSHA256Hex (sha256Hex lib value)"
  by (simp add: ValidSHA256Hex_def sha256Hex_def hex_lower hex_decode_encode)

definition ValidateIdempotencyRequest :: "IdempotencyRequest \<Rightarrow> unit result" where
  "ValidateIdempotencyRequest request =
     (if \<not> ValidID (iTenantID (irIdentity request)) \<or> \<not> ValidID (iPrincipalID (irIdentity request))
         \<or> \<not> ValidIdempotencyScope (irScope request) \<or> \<not> ValidSHA256Hex (irKeyHash request)
         \<or> \<not> ValidSHA256Hex (irRequestDigest request) \<or> \<not> ValidID (irClaimToken request)
      then Inl (E CodeInvalidRequest ''idempotency claim is invalid'')
      else if irNow request = 0 \<or> \<not> irLockedUntil request > irNow request
              \<or> \<not> irExpiresAt request > irLockedUntil request
      then Inl (E CodeInvalidRequest ''idempotency claim lifetime is invalid'')
      else Inr ())"

lemma ValidateIdempotencyRequest_Inr:
  assumes "ValidateIdempotencyRequest request = Inr u"
  shows "ValidID (iTenantID (irIdentity request))" "ValidID (iPrincipalID (irIdentity request))"
    and "ValidIdempotencyScope (irScope request)" "ValidSHA256Hex (irKeyHash request)"
    and "ValidID (irClaimToken request)" "irNow request < irLockedUntil request"
    and "irLockedUntil request < irExpiresAt request"
  using assms by (auto simp: ValidateIdempotencyRequest_def split: if_splits)

section \<open>Request id in the context\<close>

text \<open>A context is what it carries here: the request id, the empty string when there is none.\<close>

type_synonym go_context = string

definition ContextWithRequestID :: "go_context \<Rightarrow> string \<Rightarrow> go_context" where
  "ContextWithRequestID ctx requestID = (if requestID = [] then ctx else requestID)"

definition RequestIDFromContext :: "go_context \<Rightarrow> string" where
  "RequestIDFromContext ctx = ctx"

end
