(* ===== verification/Drive_Cursor.thy ===== *)
theory Drive_Cursor
  imports Drive_Util
begin

text \<open>
  \<^verbatim>\<open>internal/drive/cursor.go\<close>: the codec of page cursors. A cursor is the unpadded base64url of a
  JSON payload, a dot, and the base64url of the HMAC of the payload. The tenant and the scope
  of the listing are part of the payload, and decoding compares them with those of the request.
\<close>

record CursorCodec =
  ccKey :: string

definition NewCursorCodec :: "string \<Rightarrow> CursorCodec result" where
  "NewCursorCodec key =
     (if length key < 32 then Inl (E CodeInvalidRequest ''cursor key must be at least 32 bytes'')
      else Inr \<lparr>ccKey = key\<rparr>)"

definition CursorCodec_sign :: "Lib \<Rightarrow> CursorCodec \<Rightarrow> string \<Rightarrow> string" where
  "CursorCodec_sign lib c payload = lib_hmac lib (ccKey c) payload"

text \<open>\<^verbatim>\<open>json.Marshal(cursorPayload{...})\<close>; marshalling strings and an integer never fails.\<close>

definition cursor_json :: "cursorPayload \<Rightarrow> string" where
  "cursor_json p = json_object
     [(''v'', show_int (cvVersion p)), (''tenant'', json_string (cvTenantID p)),
      (''scope'', json_string (cvScope p)), (''name'', json_string (cvName p)), (''id'', json_string (cvID p))]"

definition cursor_payload :: "string \<Rightarrow> string \<Rightarrow> CursorPosition \<Rightarrow> cursorPayload" where
  "cursor_payload tenantID scope position = \<lparr>cvVersion = 1, cvTenantID = tenantID, cvScope = scope,
     cvName = posName position, cvID = posID position\<rparr>"

definition CursorCodec_Encode :: "Lib \<Rightarrow> CursorCodec \<Rightarrow> string \<Rightarrow> string \<Rightarrow> CursorPosition \<Rightarrow> string" where
  "CursorCodec_Encode lib c tenantID scope position =
     (let payload = cursor_json (cursor_payload tenantID scope position);
          sig = CursorCodec_sign lib c payload
      in b64_encode b64_url False payload @ ''.'' @ b64_encode b64_url False sig)"

text \<open>The loop that cuts the value at its first dot; without a dot both parts stay empty.\<close>

definition split_dot :: "string \<Rightarrow> string \<times> string" where
  "split_dot value =
     (if CHR ''.'' \<in> set value
      then (takeWhile (\<lambda>ch. ch \<noteq> CHR ''.'') value, tl (dropWhile (\<lambda>ch. ch \<noteq> CHR ''.'') value))
      else ([], []))"

definition CursorCodec_Decode :: "Lib \<Rightarrow> CursorCodec \<Rightarrow> string \<Rightarrow> string \<Rightarrow> string \<Rightarrow> CursorPosition result" where
  "CursorCodec_Decode lib c value tenantID scope =
     (if value = [] then Inr \<lparr>posName = [], posID = []\<rparr>
      else
        let (payloadPart, signaturePart) = split_dot value
        in if payloadPart = [] \<or> signaturePart = [] then Inl (E CodeInvalidCursor ''cursor is invalid'')
           else
             (case b64_decode b64_url False payloadPart of
                None \<Rightarrow> Inl (E CodeInvalidCursor ''cursor is invalid'')
              | Some payload \<Rightarrow>
                  (case b64_decode b64_url False signaturePart of
                     None \<Rightarrow> Inl (E CodeInvalidCursor ''cursor is invalid'')
                   | Some signature \<Rightarrow>
                       if signature \<noteq> CursorCodec_sign lib c payload
                       then Inl (E CodeInvalidCursor ''cursor is invalid'')
                       else
                         (case lib_Unmarshal_cursor lib payload of
                            None \<Rightarrow> Inl (E CodeInvalidCursor ''cursor is invalid'')
                          | Some decoded \<Rightarrow>
                              if cvVersion decoded \<noteq> 1 \<or> cvTenantID decoded \<noteq> tenantID
                                 \<or> cvScope decoded \<noteq> scope \<or> cvID decoded = []
                              then Inl (E CodeInvalidCursor ''cursor is invalid'')
                              else Inr \<lparr>posName = cvName decoded, posID = cvID decoded\<rparr>))))"

section \<open>Round trip and forgery\<close>

lemma b64_url_no_dot: "CHR ''.'' \<notin> set (b64_encode b64_url False s)"
proof -
  have "CHR ''.'' \<notin> set b64_url" by (simp add: b64_url_def)
  with set_b64_encode [OF b64_alphabet_url, of False s] show ?thesis by auto
qed

lemma split_dot_join: "CHR ''.'' \<notin> set xs \<Longrightarrow> split_dot (xs @ CHR ''.'' # ys) = (xs, ys)"
  by (auto simp: split_dot_def takeWhile_append dropWhile_append)

lemma cursor_json_nonempty: "cursor_json p \<noteq> []"
  by (simp add: cursor_json_def json_object_def)

lemma Decode_Encode:
  assumes "lib_hmac lib (ccKey c) (cursor_json (cursor_payload t scope position)) \<noteq> []"
    and "lib_Unmarshal_cursor lib (cursor_json (cursor_payload t scope position))
           = Some (cursor_payload t scope position)"
  shows "CursorCodec_Decode lib c (CursorCodec_Encode lib c t scope position) t' scope' =
    (if t' = t \<and> scope' = scope \<and> posID position \<noteq> [] then Inr position
     else Inl (E CodeInvalidCursor ''cursor is invalid''))"
  using assms
  by (auto simp: CursorCodec_Decode_def CursorCodec_Encode_def CursorCodec_sign_def Let_def split_dot_join b64_url_no_dot
      b64_encode_nonempty cursor_json_nonempty b64_decode_encode b64_alphabet_url cursor_payload_def)

lemma Encode_nonempty [simp]: "CursorCodec_Encode lib c t scope position \<noteq> []"
  by (simp add: CursorCodec_Encode_def Let_def)

text \<open>
  Property C31. A cursor decodes to the position it was made from exactly for the tenant and the
  listing it was made for; for every other tenant or listing it is an invalid cursor. The
  hypotheses are that the HMAC is not empty and that \<^verbatim>\<open>json.Unmarshal\<close> reads back what
  \<^verbatim>\<open>json.Marshal\<close> wrote for this payload.
\<close>

theorem cursor_roundtrip:
  assumes "lib_hmac lib (ccKey c) (cursor_json (cursor_payload t scope position)) \<noteq> []"
    and "lib_Unmarshal_cursor lib (cursor_json (cursor_payload t scope position))
           = Some (cursor_payload t scope position)"
    and "posID position \<noteq> []"
  shows "CursorCodec_Decode lib c (CursorCodec_Encode lib c t scope position) t' scope' =
    (if t' = t \<and> scope' = scope then Inr position
     else Inl (E CodeInvalidCursor ''cursor is invalid''))"
  using assms by (simp add: Decode_Encode)

definition sample_position :: CursorPosition where
  "sample_position = \<lparr>posName = ''a'', posID = ''n1''\<rparr>"

definition sample_lib :: Lib where
  "sample_lib = \<lparr>lib_nfc = (\<lambda>s. s), lib_unicode_lower = (\<lambda>s. s), lib_ParseMediaType = Some,
     lib_sha256 = (\<lambda>s. take 32 (s @ replicate 32 CHR ''x'')), lib_hmac = (\<lambda>key payload. take 32 (payload @ key)),
     lib_Unmarshal_cursor = (\<lambda>s. if s = cursor_json (cursor_payload ''t1'' ''recycle'' sample_position)
        then Some (cursor_payload ''t1'' ''recycle'' sample_position) else None)\<rparr>"

theorem cursor_roundtrip_witness:
  "CursorCodec_Decode sample_lib \<lparr>ccKey = ''k''\<rparr>
     (CursorCodec_Encode sample_lib \<lparr>ccKey = ''k''\<rparr> ''t1'' ''recycle'' sample_position) ''t1'' ''recycle''
     = Inr sample_position"
  by (subst cursor_roundtrip) (simp_all add: sample_lib_def sample_position_def cursor_json_nonempty)

text \<open>
  Property C32. A cursor that is accepted carries the HMAC of its payload under the codec's key,
  and its payload names the tenant and the listing of the request: without the key no cursor
  can be made or moved to another tenant or listing.
\<close>

theorem cursor_authentic:
  assumes "CursorCodec_Decode lib c value t scope = Inr position" and "value \<noteq> []"
  shows "\<exists>payload p. b64_decode b64_url False (fst (split_dot value)) = Some payload
     \<and> b64_decode b64_url False (snd (split_dot value)) = Some (lib_hmac lib (ccKey c) payload)
     \<and> lib_Unmarshal_cursor lib payload = Some p \<and> cvVersion p = 1 \<and> cvTenantID p = t \<and> cvScope p = scope
     \<and> position = \<lparr>posName = cvName p, posID = cvID p\<rparr> \<and> posID position \<noteq> []"
  using assms
  by (auto simp: CursorCodec_Decode_def CursorCodec_sign_def Let_def split: if_splits prod.splits option.splits)

theorem cursor_authentic_witness:
  "\<exists>value payload. value = CursorCodec_Encode sample_lib \<lparr>ccKey = ''k''\<rparr> ''t1'' ''recycle'' sample_position
     \<and> b64_decode b64_url False (snd (split_dot value)) = Some (lib_hmac sample_lib ''k'' payload)"
proof -
  let ?c = "\<lparr>ccKey = ''k''\<rparr>"
  let ?v = "CursorCodec_Encode sample_lib ?c ''t1'' ''recycle'' sample_position"
  have "CursorCodec_Decode sample_lib ?c ?v ''t1'' ''recycle'' = Inr sample_position" and "?v \<noteq> []"
    by (simp_all add: Decode_Encode sample_lib_def sample_position_def cursor_json_nonempty)
  from cursor_authentic [OF this] show ?thesis by auto
qed

end
