(* ===== verification/Drive_Ports.thy ===== *)
theory Drive_Ports
  imports Drive_Util
begin

text \<open>
  The storage port of \<^verbatim>\<open>internal/drive/ports.go\<close>. A \<^verbatim>\<open>StorageProvider\<close> is a record of the
  interface's methods over a provider state \<open>'s\<close>; what a call reads from outside (random bytes,
  the time of day) comes in a \<open>StorageEnv\<close>. The locale states the part of the interface's
  contract that the service and the maintenance loop rely on: which objects a call may change.
\<close>

record StorageEnv =
  seRand :: "string result"
  seNow :: time

record 's StorageProvider =
  spReady :: "'s \<Rightarrow> unit result"
  spBucket :: "'s \<Rightarrow> string"
  spCreateMultipart :: "StorageEnv \<Rightarrow> string \<Rightarrow> string \<Rightarrow> Checksum \<Rightarrow> 's \<Rightarrow> string result \<times> 's"
  spSignUploadPart :: "StorageEnv \<Rightarrow> string \<Rightarrow> string \<Rightarrow> int \<Rightarrow> Checksum \<Rightarrow> duration \<Rightarrow> 's \<Rightarrow> (SignedPart \<times> bool) result \<times> 's"
  spCompleteMultipart :: "StorageEnv \<Rightarrow> string \<Rightarrow> string \<Rightarrow> CompletedPart list \<Rightarrow> 's \<Rightarrow> ObjectInfo result \<times> 's"
  spAbortMultipart :: "StorageEnv \<Rightarrow> string \<Rightarrow> string \<Rightarrow> 's \<Rightarrow> unit result \<times> 's"
  spListParts :: "StorageEnv \<Rightarrow> string \<Rightarrow> string \<Rightarrow> 's \<Rightarrow> StoredPart list result \<times> 's"
  spStatObject :: "StorageEnv \<Rightarrow> string \<Rightarrow> 's \<Rightarrow> ObjectInfo result \<times> 's"
  spSignDownload :: "StorageEnv \<Rightarrow> string \<Rightarrow> string \<Rightarrow> duration \<Rightarrow> 's \<Rightarrow> SignedDownload result \<times> 's"
  spDeleteObject :: "StorageEnv \<Rightarrow> string \<Rightarrow> 's \<Rightarrow> unit result \<times> 's"

text \<open>
  \<open>object_at\<close> abstracts a provider state to the objects it holds: the description of the object
  under each key; \<open>sp_inv\<close> is the provider's own invariant. Signing, listing and aborting touch no
  object; completing and deleting touch the object of their own key only, completing never
  removes it, and a successful deletion does. A stat that answers describes what is stored under
  its key, and a stored object can be signed for download.
\<close>

locale storage_contract =
  fixes sp :: "'s StorageProvider"
    and sp_inv :: "'s \<Rightarrow> bool"
    and object_at :: "'s \<Rightarrow> string \<Rightarrow> ObjectInfo option"
  assumes create_inv: "sp_inv s \<Longrightarrow> sp_inv (snd (spCreateMultipart sp env key mime ck s))"
    and sign_inv: "sp_inv s \<Longrightarrow> sp_inv (snd (spSignUploadPart sp env key up n ck ttl s))"
    and complete_inv: "sp_inv s \<Longrightarrow> sp_inv (snd (spCompleteMultipart sp env key up ps s))"
    and abort_inv: "sp_inv s \<Longrightarrow> sp_inv (snd (spAbortMultipart sp env key up s))"
    and list_inv: "sp_inv s \<Longrightarrow> sp_inv (snd (spListParts sp env key up s))"
    and stat_inv: "sp_inv s \<Longrightarrow> sp_inv (snd (spStatObject sp env key s))"
    and download_inv: "sp_inv s \<Longrightarrow> sp_inv (snd (spSignDownload sp env key name ttl s))"
    and delete_inv: "sp_inv s \<Longrightarrow> sp_inv (snd (spDeleteObject sp env key s))"
    and create_objects: "object_at (snd (spCreateMultipart sp env key mime ck s)) = object_at s"
    and sign_objects: "object_at (snd (spSignUploadPart sp env key up n ck ttl s)) = object_at s"
    and abort_objects: "object_at (snd (spAbortMultipart sp env key up s)) = object_at s"
    and list_objects: "object_at (snd (spListParts sp env key up s)) = object_at s"
    and stat_objects: "object_at (snd (spStatObject sp env key s)) = object_at s"
    and download_objects: "object_at (snd (spSignDownload sp env key name ttl s)) = object_at s"
    and complete_other: "k \<noteq> key \<Longrightarrow> object_at (snd (spCompleteMultipart sp env key up ps s)) k = object_at s k"
    and complete_keeps: "object_at s key \<noteq> None \<Longrightarrow> object_at (snd (spCompleteMultipart sp env key up ps s)) key \<noteq> None"
    and delete_other: "k \<noteq> key \<Longrightarrow> object_at (snd (spDeleteObject sp env key s)) k = object_at s k"
    and delete_gone: "fst (spDeleteObject sp env key s) = Inr () \<Longrightarrow> object_at (snd (spDeleteObject sp env key s)) key = None"
    and stat_sound: "sp_inv s \<Longrightarrow> fst (spStatObject sp env key s) = Inr info \<Longrightarrow>
      object_at s key = Some info \<and> oObjectKey info = key"
    and download_ok: "object_at s key \<noteq> None \<Longrightarrow> \<exists>d. fst (spSignDownload sp env key name ttl s) = Inr d"
begin

lemmas quiet_objects = create_objects sign_objects abort_objects list_objects stat_objects download_objects
lemmas provider_inv = create_inv sign_inv complete_inv abort_inv list_inv stat_inv download_inv delete_inv

lemma complete_present: "object_at s k \<noteq> None \<Longrightarrow> object_at (snd (spCompleteMultipart sp env key up ps s)) k \<noteq> None"
  by (cases "k = key") (simp_all add: complete_other complete_keeps)

end

end
