(* ===== verification/Memory_State.thy ===== *)
theory Memory_State
  imports Drive_Util
begin

text \<open>
  The state of \<^verbatim>\<open>internal/memory/repository.go\<close> and what every operation shares: lookups,
  composite keys, and the audit log of \<^verbatim>\<open>governance.go\<close>. Each Go method takes the mutex for its
  whole body, so an operation is one atomic function from the state to a result and the next
  state. \<open>Env\<close> is what an operation reads from outside: the request id of its context and the
  random bytes that \<^verbatim>\<open>NewID\<close> draws for the audit event.
\<close>

record maintenanceLease =
  lsOwner :: string
  lsUntil :: time
  lsNotBefore :: time
  lsAttempts :: int
  lsErrorCode :: string
  lsCleanupPending :: bool

definition zero_lease :: maintenanceLease where
  "zero_lease = \<lparr>lsOwner = [], lsUntil = 0, lsNotBefore = 0, lsAttempts = 0, lsErrorCode = [],
     lsCleanupPending = False\<rparr>"

record Repository =
  tenants :: "(string, Tenant) gomap"
  principals :: "(string, PrincipalRecord) gomap"
  members :: "(string, PrincipalRecord) gomap"
  nodes :: "(string, Node) gomap"
  blobs :: "(string, Blob) gomap"
  versions :: "(string, FileVersion) gomap"
  uploads :: "(string, UploadSession) gomap"
  parts :: "(string, CompletedPart list) gomap"
  partSignatures :: "(string, (int, PartSignature) gomap) gomap"
  idempotency :: "(string, IdempotencyRecord) gomap"
  uploadMaintenance :: "(string, maintenanceLease) gomap"
  recycleMaintenance :: "(string, maintenanceLease) gomap"
  invitations :: "(string, TenantInvitation) gomap"
  invitationTokens :: "(string, string) gomap"
  groups :: "(string, TenantGroup) gomap"
  groupMembers :: "(string, unit) gomap"
  acls :: "(string, NodeACLEntry) gomap"
  audit :: "AuditEvent list"
  auditSequence :: int64
  readyErr :: "error option"

definition NewRepository :: Repository where
  "NewRepository = \<lparr>tenants = gempty, principals = gempty, members = gempty, nodes = gempty,
     blobs = gempty, versions = gempty, uploads = gempty, parts = gempty, partSignatures = gempty,
     idempotency = gempty, uploadMaintenance = gempty, recycleMaintenance = gempty,
     invitations = gempty, invitationTokens = gempty, groups = gempty, groupMembers = gempty,
     acls = gempty, audit = [], auditSequence = 0, readyErr = None\<rparr>"

definition Repo_SetReadyError :: "error option \<Rightarrow> Repository \<Rightarrow> Repository" where
  "Repo_SetReadyError err r = r\<lparr>readyErr := err\<rparr>"

definition Repo_Ready :: "Repository \<Rightarrow> unit result" where
  "Repo_Ready r = (case readyErr r of None \<Rightarrow> Inr () | Some e \<Rightarrow> Inl e)"

record Env =
  envCtx :: go_context
  envRand :: "string result"

type_synonym 'a op = "Repository \<Rightarrow> 'a result \<times> Repository"

section \<open>Audit log\<close>

definition boundedAuditMetadata :: "(string, string) gomap option \<Rightarrow> (string, string) gomap result" where
  "boundedAuditMetadata metadata =
     (case metadata of
        None \<Rightarrow> Inr gempty
      | Some m \<Rightarrow>
          if list_ex (\<lambda>(k, v). k = [] \<or> length k > 128 \<or> length v > 2048) (gentries m)
          then Inl (E CodeInvalidRequest ''audit metadata is invalid'')
          else if length (json_string_map m) > 4096
          then Inl (E CodeInvalidRequest ''audit metadata is invalid'')
          else Inr m)"

definition appendAuditLocked :: "Env \<Rightarrow> AuditEvent \<Rightarrow> unit op" where
  "appendAuditLocked env e r =
     (case boundedAuditMetadata (evMetadata e) of
        Inl err \<Rightarrow> (Inl err, r)
      | Inr metadata \<Rightarrow>
          (case (if evID e = [] then NewID (envRand env) else Inr (evID e)) of
             Inl err \<Rightarrow> (Inl (E_cause CodeInternal ''could not generate audit event id'' (Some err)), r)
           | Inr i \<Rightarrow>
               let s = wrap64 (auditSequence r + 1);
                   e' = e\<lparr>evID := i, evMetadata := Some metadata,
                          evRequestID := (if evRequestID e = [] then RequestIDFromContext (envCtx env)
                                          else evRequestID e),
                          evSequence := s\<rparr>
               in (Inr (), r\<lparr>auditSequence := s, audit := audit r @ [e']\<rparr>)))"

definition Repo_AppendAudit :: "Env \<Rightarrow> AuditEvent \<Rightarrow> unit op" where
  "Repo_AppendAudit env e r = appendAuditLocked env e r"

text \<open>The event literals of the operations leave the id, the request id and the sequence unset.\<close>

definition audit_event ::
  "string \<Rightarrow> string \<Rightarrow> string \<Rightarrow> string \<Rightarrow> string \<Rightarrow> time \<Rightarrow> (string \<times> string) list \<Rightarrow> AuditEvent" where
  "audit_event tenant actor action targetType targetID now metadata =
     \<lparr>evSequence = 0, evID = [], evTenantID = tenant, evActorPrincipalID = actor,
      evAction = action, evTargetType = targetType, evTargetID = targetID, evRequestID = [],
      evMetadata = Some metadata, evOccurredAt = now\<rparr>"

lemma appendAuditLocked_cases:
  obtains (fail) err where "appendAuditLocked env e r = (Inl err, r)"
  | (ok) e' where "appendAuditLocked env e r =
        (Inr (), r\<lparr>auditSequence := wrap64 (auditSequence r + 1), audit := audit r @ [e']\<rparr>)"
      and "evSequence e' = wrap64 (auditSequence r + 1)" and "evTenantID e' = evTenantID e"
proof (cases "boundedAuditMetadata (evMetadata e)")
  case (Inl err)
  then show thesis by (intro fail) (simp add: appendAuditLocked_def)
next
  case (Inr md)
  show thesis
  proof (cases "if evID e = [] then NewID (envRand env) else Inr (evID e)")
    case (Inl err)
    with Inr show thesis by (intro fail) (simp add: appendAuditLocked_def)
  next
    case (Inr i)
    with \<open>boundedAuditMetadata (evMetadata e) = Inr md\<close> show thesis
      by (intro ok [where e' = "e\<lparr>evID := i, evMetadata := Some md,
            evRequestID := (if evRequestID e = [] then RequestIDFromContext (envCtx env)
                            else evRequestID e),
            evSequence := wrap64 (auditSequence r + 1)\<rparr>"])
        (simp_all add: appendAuditLocked_def Let_def)
  qed
qed

lemma appendAuditLocked_frame [frame_simps]:
  "tenants (snd (appendAuditLocked env e r)) = tenants r"
  "principals (snd (appendAuditLocked env e r)) = principals r"
  "members (snd (appendAuditLocked env e r)) = members r"
  "nodes (snd (appendAuditLocked env e r)) = nodes r"
  "blobs (snd (appendAuditLocked env e r)) = blobs r"
  "versions (snd (appendAuditLocked env e r)) = versions r"
  "uploads (snd (appendAuditLocked env e r)) = uploads r"
  "parts (snd (appendAuditLocked env e r)) = parts r"
  "partSignatures (snd (appendAuditLocked env e r)) = partSignatures r"
  "idempotency (snd (appendAuditLocked env e r)) = idempotency r"
  "uploadMaintenance (snd (appendAuditLocked env e r)) = uploadMaintenance r"
  "recycleMaintenance (snd (appendAuditLocked env e r)) = recycleMaintenance r"
  "invitations (snd (appendAuditLocked env e r)) = invitations r"
  "invitationTokens (snd (appendAuditLocked env e r)) = invitationTokens r"
  "groups (snd (appendAuditLocked env e r)) = groups r"
  "groupMembers (snd (appendAuditLocked env e r)) = groupMembers r"
  "acls (snd (appendAuditLocked env e r)) = acls r"
  "readyErr (snd (appendAuditLocked env e r)) = readyErr r"
  by (cases rule: appendAuditLocked_cases [of env e r]; simp)+

declare appendAuditLocked_frame [simp]

lemma appendAuditLocked_pair:
  assumes "appendAuditLocked env e r = (x, r')"
  shows "tenants r' = tenants r \<and> principals r' = principals r \<and> members r' = members r
    \<and> nodes r' = nodes r \<and> blobs r' = blobs r \<and> versions r' = versions r \<and> uploads r' = uploads r
    \<and> parts r' = parts r \<and> partSignatures r' = partSignatures r \<and> idempotency r' = idempotency r
    \<and> uploadMaintenance r' = uploadMaintenance r \<and> recycleMaintenance r' = recycleMaintenance r
    \<and> invitations r' = invitations r \<and> invitationTokens r' = invitationTokens r
    \<and> groups r' = groups r \<and> groupMembers r' = groupMembers r \<and> acls r' = acls r
    \<and> readyErr r' = readyErr r"
  using appendAuditLocked_frame [of env e r] assms by simp

text \<open>
  An operation that mutates the state and then appends its audit event returns the audit's
  result with the mutated state; a few creating operations undo their mutation first.
\<close>

definition with_audit :: "Env \<Rightarrow> AuditEvent \<Rightarrow> 'a \<Rightarrow> 'a op" where
  "with_audit env e x r =
     (case appendAuditLocked env e r of
        (Inl err, r') \<Rightarrow> (Inl err, r')
      | (Inr _, r') \<Rightarrow> (Inr x, r'))"

lemma snd_with_audit [simp]: "snd (with_audit env e x r) = snd (appendAuditLocked env e r)"
  by (auto simp: with_audit_def split: prod.splits sum.splits)

lemma with_audit_Inr: "with_audit env e x r = (Inr y, r') \<Longrightarrow> y = x"
  by (auto simp: with_audit_def split: prod.splits sum.splits)

lemma with_audit_pair:
  assumes "with_audit env e x r = (y, r')"
  shows "\<exists>z. appendAuditLocked env e r = (z, r') \<and> (y = Inr x \<or> (\<exists>err. y = Inl err))"
  using assms by (auto simp: with_audit_def split: prod.splits sum.splits)

lemma with_audit_ok:
  assumes "envRand env = Inr bytes" and "length bytes = 16" and "evMetadata e = Some []" and "evID e = []"
  shows "\<exists>r'. with_audit env e x r = (Inr x, r')"
  using assms by (simp add: with_audit_def appendAuditLocked_def boundedAuditMetadata_def
      json_string_map_def json_object_def sort_slice_def NewID_def Let_def)

subsection \<open>The log is append-only and densely numbered\<close>

definition audit_inv :: "Repository \<Rightarrow> bool" where
  "audit_inv r \<longleftrightarrow> auditSequence r = wrap64 (int (length (audit r)))
     \<and> (\<forall>i < length (audit r). evSequence (audit r ! i) = wrap64 (int i + 1))"

definition audit_extends :: "Repository \<Rightarrow> Repository \<Rightarrow> bool" where
  "audit_extends r r' \<longleftrightarrow> (\<exists>es. audit r' = audit r @ es) \<and> (audit_inv r \<longrightarrow> audit_inv r')"

lemma audit_inv_NewRepository: "audit_inv NewRepository"
  by (simp add: audit_inv_def NewRepository_def wrap64_def)

lemma wrap64_Suc: "wrap64 (wrap64 x + 1) = wrap64 (x + 1)" "wrap64 (1 + wrap64 x) = wrap64 (1 + x)"
  by (simp_all add: wrap64_def mod_simps algebra_simps)

lemma audit_extends_refl [simp]: "audit_extends r r"
  by (simp add: audit_extends_def)

lemma audit_extends_trans: "audit_extends r s \<Longrightarrow> audit_extends s t \<Longrightarrow> audit_extends r t"
  by (auto simp: audit_extends_def)

lemma audit_extends_eq:
  "audit r' = audit r \<Longrightarrow> auditSequence r' = auditSequence r \<Longrightarrow> audit_extends r r'"
  by (simp add: audit_extends_def audit_inv_def)

lemma audit_extends_append: "audit_extends r (snd (appendAuditLocked env e r))"
proof (cases rule: appendAuditLocked_cases [of env e r])
  case (fail err)
  then show ?thesis by simp
next
  case (ok e')
  then show ?thesis
    by (auto simp: audit_extends_def audit_inv_def nth_append less_Suc_eq wrap64_Suc add.commute)
qed

lemma audit_extends_after:
  assumes "audit s = audit r" and "auditSequence s = auditSequence r"
  shows "audit_extends r (snd (appendAuditLocked env e s))"
  using audit_extends_trans [OF audit_extends_eq audit_extends_append] assms by blast

definition Repo_ListAudit :: "AuditFilter \<Rightarrow> Repository \<Rightarrow> AuditEvent list" where
  "Repo_ListAudit f r =
     (let matching = filter (\<lambda>e. evTenantID e = afTenantID f \<and> evSequence e > afAfterSequence f
            \<and> (afFrom f = 0 \<or> \<not> evOccurredAt e < afFrom f)
            \<and> (afUntil f = 0 \<or> \<not> evOccurredAt e > afUntil f)) (audit r)
      in if afLimit f > 0 then take (nat (afLimit f)) matching else matching)"

section \<open>Lookups and composite keys\<close>

definition visible :: "Node \<Rightarrow> bool" where
  "visible node \<longleftrightarrow> nStatus node = NodeActive \<and> nTrashedRootID node = []"

definition activeNode :: "Repository \<Rightarrow> string \<Rightarrow> string \<Rightarrow> Node option" where
  "activeNode r tenantID i =
     (case gget (nodes r) i of
        None \<Rightarrow> None
      | Some node \<Rightarrow> if nTenantID node = tenantID \<and> visible node then Some node else None)"

definition uploadFor :: "Repository \<Rightarrow> Identity \<Rightarrow> string \<Rightarrow> UploadSession result" where
  "uploadFor r identity i =
     (case gget (uploads r) i of
        None \<Rightarrow> Inl (E CodeNotFound ''upload session was not found'')
      | Some session \<Rightarrow>
          if uTenantID session \<noteq> iTenantID identity
          then Inl (E CodeNotFound ''upload session was not found'')
          else Inr session)"

definition nameExists :: "Repository \<Rightarrow> string \<Rightarrow> string \<Rightarrow> string \<Rightarrow> string \<Rightarrow> bool" where
  "nameExists r tenantID parentID normalizedName exceptID \<longleftrightarrow>
     list_ex (\<lambda>node. nID node \<noteq> exceptID \<and> nTenantID node = tenantID \<and> nParentID node = parentID
        \<and> nNormalizedName node = normalizedName \<and> visible node) (gvals (nodes r))"

definition principalKey :: "string \<Rightarrow> string \<Rightarrow> string" where
  "principalKey issuer subject = issuer @ [CHR 0x00] @ subject"

definition memberKey :: "string \<Rightarrow> string \<Rightarrow> string" where
  "memberKey tenantID principalID = tenantID @ [CHR 0x00] @ principalID"

definition nodeLess :: "Node \<Rightarrow> Node \<Rightarrow> bool" where
  "nodeLess a b \<longleftrightarrow> nNormalizedName a < nNormalizedName b
     \<or> (nNormalizedName a = nNormalizedName b \<and> nID a < nID b)"

definition afterPosition :: "Node \<Rightarrow> CursorPosition \<Rightarrow> bool" where
  "afterPosition node after \<longleftrightarrow> posID after = [] \<or> nNormalizedName node > posName after
     \<or> (nNormalizedName node = posName after \<and> nID node > posID after)"

definition sortNodes :: "Node list \<Rightarrow> Node list" where
  "sortNodes = sort_slice nodeLess"

lemma activeNode_Some:
  "activeNode r t i = Some n \<longleftrightarrow> gget (nodes r) i = Some n \<and> nTenantID n = t \<and> visible n"
  by (auto simp: activeNode_def split: option.splits)

lemma activeNode_cong: "nodes r' = nodes r \<Longrightarrow> activeNode r' = activeNode r"
  by (intro ext) (simp add: activeNode_def)

lemma uploadFor_Inr:
  "uploadFor r identity i = Inr s \<longleftrightarrow> gget (uploads r) i = Some s \<and> uTenantID s = iTenantID identity"
  by (auto simp: uploadFor_def split: option.splits)

lemma uploadFor_Inl: "uploadFor r identity i = Inl e \<Longrightarrow> CodeOf e = CodeNotFound"
  by (auto simp: uploadFor_def split: option.splits if_splits)

lemma nameExists_iff:
  "nameExists r t p nm x \<longleftrightarrow>
     (\<exists>k n. gget (nodes r) k = Some n \<and> nID n \<noteq> x \<and> nTenantID n = t \<and> nParentID n = p
        \<and> nNormalizedName n = nm \<and> visible n)"
  by (force simp: nameExists_def list_ex_iff)

text \<open>A composite key determines its parts when the first part has no separator.\<close>

lemma split_key:
  assumes "a @ c # b = a' @ c # b'" and "c \<notin> set a" and "c \<notin> set a'"
  shows "a = a' \<and> b = b'"
  using assms
proof (induction a arbitrary: a')
  case Nil
  then show ?case by (cases a') auto
next
  case (Cons x a)
  then show ?case by (cases a') auto
qed

lemma memberKey_inj:
  "memberKey t p = memberKey t' p' \<Longrightarrow> CHR 0x00 \<notin> set t \<Longrightarrow> CHR 0x00 \<notin> set t' \<Longrightarrow> t = t' \<and> p = p'"
  unfolding memberKey_def using split_key [of t "CHR 0x00" p t' p'] by simp

lemma memberKey_tenant [simp]: "memberKey t p = memberKey t p' \<longleftrightarrow> p = p'"
  by (simp add: memberKey_def)

interpretation node_order: weak_order nodeLess
  by unfold_locales (auto simp: nodeLess_def)

interpretation node_pages: keyset nodeLess afterPosition
    "\<lambda>n. \<lparr>posName = nNormalizedName n, posID = nID n\<rparr>" "{n. nID n \<noteq> [] \<and> gget m (nID n) = Some n}" for m
proof unfold_locales
  fix x y :: Node
  assume "x \<in> {n. nID n \<noteq> [] \<and> gget m (nID n) = Some n}"
    and "y \<in> {n. nID n \<noteq> [] \<and> gget m (nID n) = Some n}"
  then have *: "nID x = nID y \<Longrightarrow> x = y" and "nID y \<noteq> []" by auto
  then show "nodeLess x y \<or> nodeLess y x \<or> x = y" unfolding nodeLess_def by (metis linorder_neqE)
  from \<open>nID y \<noteq> []\<close> show "afterPosition x \<lparr>posName = nNormalizedName y, posID = nID y\<rparr> = nodeLess y x"
    by (auto simp: nodeLess_def afterPosition_def)
  show "afterPosition x p" if "afterPosition y p" "nodeLess y x" for p
    using that by (auto simp: nodeLess_def afterPosition_def)
qed

end
