(* ===== verification/Namespace_Tree.thy ===== *)
theory Namespace_Tree
  imports Memory_State
begin

text \<open>
  What the namespace operations keep of the node table, stated on the lookup functions of the
  tables so that it does not depend on how a Go map is represented: every node hangs below the
  root of its own tenant, no directory is below itself, names are unique among the children
  that are visible together, and the recycle bin keeps whole subtrees together. The lemmas
  show that the elementary changes of the table (a new root, a new leaf, a rename or move,
  trashing a subtree, restoring it, marking it as purging) keep the invariant.
\<close>

type_synonym node_map = "string \<Rightarrow> Node option"
type_synonym tenant_map = "string \<Rightarrow> Tenant option"

definition parent_rel :: "node_map \<Rightarrow> (string \<times> string) set" where
  "parent_rel m = {(k, p). \<exists>n. m k = Some n \<and> nParentID n = p}"

text \<open>A member of a group of nodes that are shown or hidden together: group \<open>[]\<close> is visible.\<close>

definition member_of :: "node_map \<Rightarrow> string \<Rightarrow> Node \<Rightarrow> bool" where
  "member_of m k n \<longleftrightarrow> m k = Some n \<and> nTrashedRootID n \<noteq> k"

definition root_ok :: "tenant_map \<Rightarrow> string \<Rightarrow> Node \<Rightarrow> bool" where
  "root_ok ts k n \<longleftrightarrow> (nParentID n = [] \<longrightarrow>
     (\<exists>t. ts (nTenantID n) = Some t \<and> tRootNodeID t = k) \<and> nKind n = NodeDirectory \<and> visible n)"

definition parent_ok :: "node_map \<Rightarrow> string \<Rightarrow> Node \<Rightarrow> bool" where
  "parent_ok m k n \<longleftrightarrow> (nParentID n \<noteq> [] \<longrightarrow>
     (\<exists>p. m (nParentID n) = Some p \<and> nTenantID p = nTenantID n \<and> nKind p = NodeDirectory
        \<and> (nTrashedRootID n \<noteq> k \<longrightarrow> nTrashedRootID p = nTrashedRootID n)))"

definition trash_ok :: "node_map \<Rightarrow> string \<Rightarrow> Node \<Rightarrow> bool" where
  "trash_ok m k n \<longleftrightarrow>
     (nTrashedRootID n = [] \<longrightarrow> nStatus n = NodeActive) \<and>
     (nTrashedRootID n = k \<longrightarrow> nStatus n \<in> {NodeTrashed, NodePurging}
        \<and> nOriginalParentID n = nParentID n \<and> nParentID n \<noteq> []) \<and>
     (nTrashedRootID n \<noteq> [] \<longrightarrow> nTrashedRootID n \<noteq> k \<longrightarrow>
        (\<exists>q. m (nTrashedRootID n) = Some q \<and> nTenantID q = nTenantID n
           \<and> nTrashedRootID q = nTrashedRootID n
           \<and> nStatus n \<in> {NodeActive, NodePurging} \<and> (nStatus q = NodeTrashed \<longrightarrow> nStatus n = NodeActive)))"

definition node_ok :: "tenant_map \<Rightarrow> node_map \<Rightarrow> string \<Rightarrow> Node \<Rightarrow> bool" where
  "node_ok ts m k n \<longleftrightarrow> nID n = k \<and> k \<noteq> [] \<and> root_ok ts k n \<and> parent_ok m k n \<and> trash_ok m k n"

definition names_unique :: "node_map \<Rightarrow> bool" where
  "names_unique m \<longleftrightarrow> (\<forall>k n k' n'. member_of m k n \<longrightarrow> member_of m k' n' \<longrightarrow>
     nTenantID n = nTenantID n' \<longrightarrow> nParentID n = nParentID n' \<longrightarrow> nParentID n \<noteq> [] \<longrightarrow>
     nNormalizedName n = nNormalizedName n' \<longrightarrow> nTrashedRootID n = nTrashedRootID n' \<longrightarrow> k = k')"

definition roots_exist :: "tenant_map \<Rightarrow> node_map \<Rightarrow> bool" where
  "roots_exist ts m \<longleftrightarrow> (\<forall>t tn. ts t = Some tn \<longrightarrow> tID tn = t \<and>
     (\<exists>n. m (tRootNodeID tn) = Some n \<and> nTenantID n = t \<and> nParentID n = []))"

definition ns_wf :: "tenant_map \<Rightarrow> node_map \<Rightarrow> bool" where
  "ns_wf ts m \<longleftrightarrow> finite (dom m) \<and> (\<forall>k n. m k = Some n \<longrightarrow> node_ok ts m k n)
     \<and> names_unique m \<and> roots_exist ts m \<and> acyclic (parent_rel m)"

lemmas node_ok_defs = node_ok_def root_ok_def parent_ok_def trash_ok_def

lemma ns_wf_empty: "ns_wf (\<lambda>_. None) (\<lambda>_. None)"
  by (simp add: ns_wf_def names_unique_def member_of_def roots_exist_def parent_rel_def acyclic_def)

lemma ns_wfD:
  assumes "ns_wf ts m" and "m k = Some n"
  shows "nID n = k" and "k \<noteq> []" and "root_ok ts k n" and "parent_ok m k n" and "trash_ok m k n"
  using assms by (auto simp: ns_wf_def node_ok_def)

lemma ns_wf_unique:
  assumes "ns_wf ts m" and "m k = Some n" and "m k' = Some n'"
    and "nTrashedRootID n \<noteq> k" and "nTrashedRootID n' \<noteq> k'" and "nParentID n \<noteq> []"
    and "nTenantID n = nTenantID n'" and "nParentID n = nParentID n'"
    and "nNormalizedName n = nNormalizedName n'" and "nTrashedRootID n = nTrashedRootID n'"
  shows "k = k'"
  using assms unfolding ns_wf_def names_unique_def member_of_def by blast

lemma ns_wf_no_empty_key: "ns_wf ts m \<Longrightarrow> m [] = None"
  by (cases "m []") (auto dest: ns_wfD(2))

lemma ns_wf_parent:
  assumes "ns_wf ts m" and "m k = Some n" and "nParentID n \<noteq> []"
  obtains p where "m (nParentID n) = Some p" and "nTenantID p = nTenantID n"
    and "nKind p = NodeDirectory"
    and "nTrashedRootID n \<noteq> k \<Longrightarrow> nTrashedRootID p = nTrashedRootID n"
  using ns_wfD(4) [OF assms(1,2)] assms(3) by (auto simp: parent_ok_def)

lemma ns_wf_same_group:
  assumes "ns_wf ts m" and "m k = Some n" and "nParentID n \<noteq> []" and "m (nParentID n) = Some p"
    and "nTrashedRootID n \<noteq> k"
  shows "nTrashedRootID p = nTrashedRootID n"
  using ns_wfD(4) [OF assms(1,2)] assms(3-5) by (auto simp: parent_ok_def)

lemma ns_wf_visible_parent:
  assumes "ns_wf ts m" and "m k = Some n" and "nParentID n \<noteq> []" and "visible n"
  shows "\<exists>p. m (nParentID n) = Some p \<and> nTenantID p = nTenantID n \<and> nKind p = NodeDirectory \<and> visible p"
proof -
  obtain p where p: "m (nParentID n) = Some p" "nTenantID p = nTenantID n" "nKind p = NodeDirectory"
    and "nTrashedRootID n \<noteq> k \<Longrightarrow> nTrashedRootID p = nTrashedRootID n"
    using ns_wf_parent [OF assms(1-3)] by metis
  with assms have "nTrashedRootID p = []" using ns_wfD(2) [OF assms(1,2)] by (auto simp: visible_def)
  with ns_wfD(5) [OF assms(1) p(1)] p show ?thesis by (auto simp: trash_ok_def visible_def)
qed

lemma ns_wf_range: "ns_wf ts m \<Longrightarrow> (k, p) \<in> parent_rel m \<Longrightarrow> p \<noteq> [] \<Longrightarrow> m p \<noteq> None"
  by (auto simp: parent_rel_def elim: ns_wf_parent)

lemma ns_wf_path_key: "ns_wf ts m \<Longrightarrow> (x, k) \<in> (parent_rel m)\<^sup>* \<Longrightarrow> x \<noteq> k \<Longrightarrow> k \<noteq> [] \<Longrightarrow> m k \<noteq> None"
  by (erule rtranclE) (use ns_wf_range in blast)+

lemma parent_rel_upd: "parent_rel (m(k \<mapsto> n)) = {e \<in> parent_rel m. fst e \<noteq> k} \<union> {(k, nParentID n)}"
  by (auto simp: parent_rel_def split: if_splits)

lemma acyclic_parent_upd:
  assumes "acyclic (parent_rel m)" and "(nParentID n, k) \<notin> (parent_rel m)\<^sup>*"
  shows "acyclic (parent_rel (m(k \<mapsto> n)))"
proof -
  have "(nParentID n, k) \<notin> {e \<in> parent_rel m. fst e \<noteq> k}\<^sup>*"
    using assms(2) rtrancl_mono [of "{e \<in> parent_rel m. fst e \<noteq> k}" "parent_rel m"] by blast
  moreover have "acyclic {e \<in> parent_rel m. fst e \<noteq> k}"
    using assms(1) by (rule acyclic_subset) auto
  ultimately show ?thesis by (simp add: parent_rel_upd)
qed

lemma ns_wf_child_dir:
  assumes "ns_wf ts m" and "(x, k) \<in> parent_rel m" and "m k = Some n"
  shows "nKind n = NodeDirectory"
proof -
  from assms(2) obtain c where c: "m x = Some c" "nParentID c = k" by (auto simp: parent_rel_def)
  with ns_wfD(2) [OF assms(1,3)] have "nParentID c \<noteq> []" by simp
  from ns_wf_parent [OF assms(1) c(1) this] c assms(3) show ?thesis by auto
qed

lemma file_no_descendant:
  assumes "ns_wf ts m" and "m k = Some n" and "nKind n \<noteq> NodeDirectory" and "x \<noteq> k"
  shows "(x, k) \<notin> (parent_rel m)\<^sup>*"
proof
  assume "(x, k) \<in> (parent_rel m)\<^sup>*"
  then obtain y where "(y, k) \<in> parent_rel m" using assms(4) by (metis rtranclE)
  with assms ns_wf_child_dir show False by blast
qed

section \<open>Elementary changes\<close>

lemma ns_wf_add_root:
  assumes wf: "ns_wf ts m" and fresh: "ts t = None" "m k = None" "k \<noteq> []"
    and tn: "tID tn = t" "tRootNodeID tn = k"
    and n: "nID n = k" "nTenantID n = t" "nParentID n = []" "nKind n = NodeDirectory" "visible n"
  shows "ns_wf (ts(t \<mapsto> tn)) (m(k \<mapsto> n))"
proof -
  have vis: "nStatus n = NodeActive" "nTrashedRootID n = []" using n by (auto simp: visible_def)
  have "node_ok (ts(t \<mapsto> tn)) (m(k \<mapsto> n)) k' n'" if "(m(k \<mapsto> n)) k' = Some n'" for k' n'
  proof (cases "k' = k")
    case True
    with that n tn fresh vis show ?thesis by (auto simp: node_ok_defs)
  next
    case False
    with that have "m k' = Some n'" by simp
    moreover from this have "node_ok ts m k' n'" using wf by (simp add: ns_wf_def)
    moreover have "nTenantID n' \<noteq> t" if "nParentID n' = []"
      using that \<open>node_ok ts m k' n'\<close> fresh by (auto simp: node_ok_def root_ok_def)
    moreover have "nParentID n' \<noteq> k" "nTrashedRootID n' \<noteq> k"
      using \<open>node_ok ts m k' n'\<close> fresh False by (auto simp: node_ok_defs)
    ultimately show ?thesis using False by (auto simp: node_ok_defs)
  qed
  moreover have "names_unique (m(k \<mapsto> n))"
    using n ns_wf_unique [OF wf] unfolding names_unique_def member_of_def
    by (metis fun_upd_apply option.inject)
  moreover have "roots_exist (ts(t \<mapsto> tn)) (m(k \<mapsto> n))"
    using wf n tn fresh by (fastforce simp: ns_wf_def roots_exist_def split: if_splits)
  moreover have "acyclic (parent_rel (m(k \<mapsto> n)))"
  proof (rule acyclic_parent_upd)
    show "acyclic (parent_rel m)" using wf by (simp add: ns_wf_def)
    show "(nParentID n, k) \<notin> (parent_rel m)\<^sup>*" using n fresh ns_wf_path_key [OF wf, of "[]" k] by auto
  qed
  ultimately show ?thesis using wf by (auto simp: ns_wf_def)
qed

text \<open>A new node, or a renamed or moved visible node, below a visible directory.\<close>

lemma ns_wf_put:
  assumes wf: "ns_wf ts m" and "k \<noteq> []"
    and n: "nID n = k" "visible n" "nParentID n \<noteq> []"
    and p: "m (nParentID n) = Some p" "nTenantID p = nTenantID n" "nKind p = NodeDirectory" "visible p"
    and uniq: "\<And>k' n'. m k' = Some n' \<Longrightarrow> k' \<noteq> k \<Longrightarrow> nTenantID n' = nTenantID n \<Longrightarrow>
        nParentID n' = nParentID n \<Longrightarrow> nNormalizedName n' = nNormalizedName n \<Longrightarrow> \<not> visible n'"
    and cyc: "(nParentID n, k) \<notin> (parent_rel m)\<^sup>*"
    and old: "m k = None \<or> (\<exists>o'. m k = Some o' \<and> visible o' \<and> nTenantID o' = nTenantID n
        \<and> nKind o' = nKind n \<and> nParentID o' \<noteq> [])"
  shows "ns_wf ts (m(k \<mapsto> n))"
proof -
  have vis: "nStatus n = NodeActive" "nTrashedRootID n = []" using n by (auto simp: visible_def)
  have pk: "nParentID n \<noteq> k" using cyc by auto
  have ok: "node_ok ts (m(k \<mapsto> n)) k' n'" if "(m(k \<mapsto> n)) k' = Some n'" for k' n'
  proof (cases "k' = k")
    case True
    with that n p pk vis \<open>k \<noteq> []\<close> show ?thesis by (auto simp: node_ok_defs visible_def)
  next
    case False
    with that have k': "m k' = Some n'" by simp
    have "node_ok ts m k' n'" using wf k' by (simp add: ns_wf_def)
    moreover have "parent_ok (m(k \<mapsto> n)) k' n'"
      using ns_wfD(4) [OF wf k'] old vis by (auto simp: parent_ok_def visible_def)
    moreover have "trash_ok (m(k \<mapsto> n)) k' n'"
      using ns_wfD(5) [OF wf k'] old vis \<open>k \<noteq> []\<close> by (auto simp: trash_ok_def visible_def)
    ultimately show ?thesis using False by (auto simp: node_ok_def root_ok_def)
  qed
  have status: "visible n'" if "m k' = Some n'" "nTrashedRootID n' = []" for k' n'
    using ns_wfD(5) [OF wf that(1)] that(2) by (auto simp: trash_ok_def visible_def)
  have "names_unique (m(k \<mapsto> n))"
    unfolding names_unique_def
  proof (intro allI impI)
    fix k1 n1 k2 n2
    assume mem: "member_of (m(k \<mapsto> n)) k1 n1" "member_of (m(k \<mapsto> n)) k2 n2"
      and eq: "nTenantID n1 = nTenantID n2" "nParentID n1 = nParentID n2" "nParentID n1 \<noteq> []"
        "nNormalizedName n1 = nNormalizedName n2" "nTrashedRootID n1 = nTrashedRootID n2"
    have old_uniq: "k1 = k2" if "m k1 = Some n1" "m k2 = Some n2"
      using ns_wf_unique [OF wf that] mem eq by (auto simp: member_of_def)
    show "k1 = k2"
    proof (cases "k1 = k \<or> k2 = k")
      case True
      with mem eq vis uniq status show ?thesis
        by (auto simp: member_of_def split: if_splits)
    next
      case False
      with mem old_uniq show ?thesis by (auto simp: member_of_def)
    qed
  qed
  moreover have "roots_exist ts (m(k \<mapsto> n))"
    using wf old by (fastforce simp: ns_wf_def roots_exist_def)
  moreover have "acyclic (parent_rel (m(k \<mapsto> n)))"
    using wf cyc by (intro acyclic_parent_upd) (simp_all add: ns_wf_def)
  ultimately show ?thesis using wf ok by (auto simp: ns_wf_def)
qed

section \<open>Subtrees and the recycle bin\<close>

definition child_rel :: "node_map \<Rightarrow> string \<Rightarrow> (string \<times> string) set" where
  "child_rel m t = {(p, c). \<exists>n. m c = Some n \<and> nTenantID n = t \<and> nParentID n = p \<and> visible n}"

definition subtree :: "node_map \<Rightarrow> string \<Rightarrow> string \<Rightarrow> string set" where
  "subtree m t root = (child_rel m t)\<^sup>* `` {root}"

lemma subtree_root [simp]: "root \<in> subtree m t root"
  by (simp add: subtree_def)

lemma subtree_child:
  "p \<in> subtree m t root \<Longrightarrow> m c = Some n \<Longrightarrow> nTenantID n = t \<Longrightarrow> nParentID n = p \<Longrightarrow> visible n \<Longrightarrow>
   c \<in> subtree m t root"
  unfolding subtree_def child_rel_def by (auto intro: rtrancl_into_rtrancl)

lemma subtree_cases:
  assumes "c \<in> subtree m t root"
  obtains "c = root" | n where "m c = Some n" "nTenantID n = t" "visible n" "nParentID n \<in> subtree m t root"
  using assms unfolding subtree_def child_rel_def by (auto elim: rtranclE)

lemma subtree_visible_member:
  "c \<in> subtree m t root \<Longrightarrow> c \<noteq> root \<Longrightarrow> m c = Some n \<Longrightarrow> visible n \<and> nTenantID n = t"
  by (erule subtree_cases) auto

lemma subtree_ancestor: "c \<in> subtree m t root \<Longrightarrow> (c, root) \<in> (parent_rel m)\<^sup>*"
proof -
  have "child_rel m t \<subseteq> (parent_rel m)\<inverse>" by (auto simp: child_rel_def parent_rel_def)
  then show "c \<in> subtree m t root \<Longrightarrow> ?thesis"
    unfolding subtree_def by (metis Image_singleton_iff rtrancl_converseD rtrancl_mono subsetD)
qed

text \<open>Changing only the lifecycle fields of nodes leaves the shape of the tree alone.\<close>

definition same_shape :: "Node \<Rightarrow> Node \<Rightarrow> bool" where
  "same_shape a b \<longleftrightarrow> nID a = nID b \<and> nTenantID a = nTenantID b \<and> nParentID a = nParentID b
     \<and> nKind a = nKind b \<and> nNormalizedName a = nNormalizedName b"

lemma ns_wf_relabel:
  assumes wf: "ns_wf ts m" and shape: "\<And>k n. m k = Some n \<Longrightarrow> same_shape (f k n) n"
    and m': "m' = (\<lambda>k. map_option (f k) (m k))"
    and root: "\<And>k n. m k = Some n \<Longrightarrow> nParentID n = [] \<Longrightarrow> f k n = n"
    and par: "\<And>k n p. m k = Some n \<Longrightarrow> nParentID n \<noteq> [] \<Longrightarrow> m (nParentID n) = Some p \<Longrightarrow>
        nTrashedRootID (f k n) \<noteq> k \<Longrightarrow> nTrashedRootID (f (nParentID n) p) = nTrashedRootID (f k n)"
    and trash: "\<And>k n. m k = Some n \<Longrightarrow> trash_ok m' k (f k n)"
    and uniq: "\<And>k n k' n'. m k = Some n \<Longrightarrow> m k' = Some n' \<Longrightarrow> nTenantID n = nTenantID n' \<Longrightarrow>
        nParentID n = nParentID n' \<Longrightarrow> nParentID n \<noteq> [] \<Longrightarrow> nNormalizedName n = nNormalizedName n' \<Longrightarrow>
        nTrashedRootID (f k n) \<noteq> k \<Longrightarrow> nTrashedRootID (f k' n') \<noteq> k' \<Longrightarrow>
        nTrashedRootID (f k n) = nTrashedRootID (f k' n') \<Longrightarrow> k = k'"
  shows "ns_wf ts m'"
proof -
  have m'k: "m' k = Some n' \<longleftrightarrow> (\<exists>n. m k = Some n \<and> n' = f k n)" for k n'
    by (auto simp: m')
  have sh: "nID (f k n) = nID n" "nTenantID (f k n) = nTenantID n" "nParentID (f k n) = nParentID n"
    "nKind (f k n) = nKind n" "nNormalizedName (f k n) = nNormalizedName n" if "m k = Some n" for k n
    using shape [OF that] by (simp_all add: same_shape_def)
  have "dom m' = dom m" by (auto simp: m' dom_def)
  moreover have "parent_rel m' = parent_rel m" by (auto simp: parent_rel_def m'k sh)
  moreover have "node_ok ts m' k (f k n)" if kn: "m k = Some n" for k n
  proof -
    have "root_ok ts k (f k n)"
      using ns_wfD(3) [OF wf that] root [OF that] sh [OF that] by (auto simp: root_ok_def)
    moreover have "parent_ok m' k (f k n)"
      unfolding parent_ok_def
    proof
      assume "nParentID (f k n) \<noteq> []"
      with sh that have ne: "nParentID n \<noteq> []" by simp
      then obtain p where p: "m (nParentID n) = Some p" "nTenantID p = nTenantID n" "nKind p = NodeDirectory"
        using ns_wf_parent [OF wf kn ne] by metis
      with par [OF that ne] sh that show "\<exists>p. m' (nParentID (f k n)) = Some p \<and>
          nTenantID p = nTenantID (f k n) \<and> nKind p = NodeDirectory \<and>
          (nTrashedRootID (f k n) \<noteq> k \<longrightarrow> nTrashedRootID p = nTrashedRootID (f k n))"
        by (auto simp: m')
    qed
    ultimately show ?thesis
      using trash [OF that] ns_wfD(1,2) [OF wf that] sh [OF that] by (simp add: node_ok_def)
  qed
  moreover have "names_unique m'"
    unfolding names_unique_def member_of_def m'k using uniq sh by metis
  moreover have "roots_exist ts m'"
    using wf sh unfolding ns_wf_def roots_exist_def m'k by metis
  ultimately show ?thesis using wf by (auto simp: ns_wf_def m'k)
qed

definition trash_node :: "string \<Rightarrow> time \<Rightarrow> string set \<Rightarrow> string \<Rightarrow> Node \<Rightarrow> Node" where
  "trash_node root now S k n =
     (if k \<in> S then
        (if k = root then n\<lparr>nTrashedRootID := root, nUpdatedAt := now, nStatus := NodeTrashed,
            nOriginalParentID := nParentID n, nRevision := wrap64 (nRevision n + 1), nDeletedAt := Some now\<rparr>
         else n\<lparr>nTrashedRootID := root, nUpdatedAt := now\<rparr>)
      else n)"

definition restore_node :: "string \<Rightarrow> time \<Rightarrow> string set \<Rightarrow> string \<Rightarrow> Node \<Rightarrow> Node" where
  "restore_node root now S k n =
     (if k \<in> S then
        (if k = root then n\<lparr>nTrashedRootID := [], nUpdatedAt := now, nStatus := NodeActive,
            nParentID := nOriginalParentID n, nOriginalParentID := [], nDeletedAt := None,
            nRevision := wrap64 (nRevision n + 1)\<rparr>
         else n\<lparr>nTrashedRootID := [], nUpdatedAt := now\<rparr>)
      else n)"

definition purge_node :: "time \<Rightarrow> string set \<Rightarrow> string \<Rightarrow> Node \<Rightarrow> Node" where
  "purge_node now S k n = (if k \<in> S then n\<lparr>nStatus := NodePurging, nUpdatedAt := now\<rparr> else n)"

definition trash_group :: "node_map \<Rightarrow> string \<Rightarrow> string \<Rightarrow> string set" where
  "trash_group m t root = {k. \<exists>n. m k = Some n \<and> nTenantID n = t \<and> nTrashedRootID n = root}"

lemma node_changes_group [simp]:
  "nTrashedRootID (trash_node root now S k n) = (if k \<in> S then root else nTrashedRootID n)"
  "nTrashedRootID (restore_node root now S k n) = (if k \<in> S then [] else nTrashedRootID n)"
  "nTrashedRootID (purge_node now S k n) = nTrashedRootID n"
  by (simp_all add: trash_node_def restore_node_def purge_node_def)

lemma ns_wf_trash:
  assumes wf: "ns_wf ts m" and r: "m root = Some r0" "nTenantID r0 = t" "visible r0" "nParentID r0 \<noteq> []"
  defines "S \<equiv> subtree m t root"
  shows "ns_wf ts (\<lambda>k. map_option (trash_node root now S k) (m k))"
proof (rule ns_wf_relabel [OF wf _ refl])
  have rne: "root \<noteq> []" using ns_wfD(2) [OF wf r(1)] .
  have vis: "visible n \<and> nTenantID n = t \<and> nTrashedRootID n = [] \<and> nStatus n = NodeActive"
    if "k \<in> S" "m k = Some n" for k n
    using that(1) unfolding S_def
    by (cases rule: subtree_cases) (use that r in \<open>auto simp: visible_def\<close>)
  have up: "nParentID n \<in> S" if "k \<in> S" "m k = Some n" "k \<noteq> root" for k n
    using that(1) unfolding S_def by (cases rule: subtree_cases) (use that in auto)
  have down: "k \<in> S" if "m k = Some n" "nParentID n \<in> S" "nTrashedRootID n = []" "nParentID n \<noteq> []" for k n
  proof -
    note kn = that(1) and ne = that(4)
    obtain p where "m (nParentID n) = Some p" "nTenantID p = nTenantID n"
      using ns_wf_parent [OF wf kn ne] by metis
    with vis that have "nTenantID n = t" by auto
    moreover have "visible n" using ns_wfD(5) [OF wf that(1)] that(3) by (auto simp: trash_ok_def visible_def)
    ultimately show ?thesis using that unfolding S_def by (auto intro: subtree_child)
  qed
  have rS: "root \<in> S" by (simp add: S_def)
  fix k n
  assume kn: "m k = Some n"
  show "same_shape (trash_node root now S k n) n" by (simp add: same_shape_def trash_node_def)
  show "trash_node root now S k n = n" if "nParentID n = []"
  proof -
    have "k \<notin> S"
    proof
      assume "k \<in> S"
      with kn that r have "k \<noteq> root" by auto
      with up [OF \<open>k \<in> S\<close> kn] that have "[] \<in> S" by simp
      then show False
        unfolding S_def by (cases rule: subtree_cases) (use rne ns_wf_no_empty_key [OF wf] in auto)
    qed
    then show ?thesis by (simp add: trash_node_def)
  qed
  have ktr: "k = nTrashedRootID n \<longrightarrow> k \<notin> S" using vis kn ns_wfD(2) [OF wf kn] by auto
  have ok: "trash_ok m k n" using ns_wfD(5) [OF wf kn] .
  {
    fix p
    assume ne: "nParentID n \<noteq> []" and p: "m (nParentID n) = Some p"
      and nt: "nTrashedRootID (trash_node root now S k n) \<noteq> k"
    have grp: "nTrashedRootID n \<noteq> k \<Longrightarrow> nTrashedRootID p = nTrashedRootID n"
      by (rule ns_wf_same_group [OF wf kn ne p])
    show "nTrashedRootID (trash_node root now S (nParentID n) p) = nTrashedRootID (trash_node root now S k n)"
    proof (cases "k \<in> S")
      case True
      with nt have "k \<noteq> root" by (auto simp: trash_node_def)
      with True up [OF True kn] show ?thesis by (simp add: trash_node_def)
    next
      case False
      with nt have "nTrashedRootID n \<noteq> k" by (simp add: trash_node_def)
      moreover have "nParentID n \<notin> S"
        using False down [OF kn _ _ ne] vis p grp [OF \<open>nTrashedRootID n \<noteq> k\<close>] by auto
      ultimately show ?thesis using False grp by (simp add: trash_node_def)
    qed
  }
  show "trash_ok (\<lambda>k. map_option (trash_node root now S k) (m k)) k (trash_node root now S k n)"
  proof (cases "k \<in> S")
    case True
    with vis [OF True kn] r rS rne kn show ?thesis by (auto simp: trash_ok_def trash_node_def)
  next
    case False
    moreover have "nTrashedRootID n \<notin> S" if "nTrashedRootID n \<noteq> []" "nTrashedRootID n \<noteq> k"
      using ok that vis by (auto simp: trash_ok_def)
    ultimately show ?thesis using ok by (auto simp: trash_ok_def trash_node_def)
  qed
  fix k' n'
  assume kn': "m k' = Some n'"
  assume eq: "nTenantID n = nTenantID n'" "nParentID n = nParentID n'" "nParentID n \<noteq> []"
      "nNormalizedName n = nNormalizedName n'"
    and nt: "nTrashedRootID (trash_node root now S k n) \<noteq> k" "nTrashedRootID (trash_node root now S k' n') \<noteq> k'"
    and same: "nTrashedRootID (trash_node root now S k n) = nTrashedRootID (trash_node root now S k' n')"
  have no_root: "nTrashedRootID x \<noteq> root" if "m y = Some x" "y \<notin> S" for x y
    using ns_wfD(5) [OF wf that(1)] r rne that(2) rS by (auto simp: trash_ok_def visible_def)
  have ne: "k \<noteq> []" "k' \<noteq> []" using ns_wfD(2) [OF wf] kn kn' by auto
  have iff: "k \<in> S \<longleftrightarrow> k' \<in> S"
    using same no_root [OF kn] no_root [OF kn'] by (auto split: if_splits)
  have "nTrashedRootID n = nTrashedRootID n' \<and> nTrashedRootID n \<noteq> k \<and> nTrashedRootID n' \<noteq> k'"
  proof (cases "k \<in> S")
    case True
    with iff vis [OF _ kn] vis [OF _ kn'] ne show ?thesis by auto
  next
    case False
    with iff same nt show ?thesis by simp
  qed
  then show "k = k'" by (intro ns_wf_unique [OF wf kn kn']) (use eq in auto)
qed

lemma trash_group_status:
  assumes wf: "ns_wf ts m" and r: "m root = Some r0" "nTrashedRootID r0 = root"
    and k: "k \<in> trash_group m t root" "m k = Some n" "k \<noteq> root" and "nStatus r0 = NodeTrashed"
  shows "nStatus n = NodeActive"
  using ns_wfD(5) [OF wf k(2)] ns_wfD(2) [OF wf r(1)] r k assms(7) by (auto simp: trash_ok_def trash_group_def)

lemma trash_group_tenant:
  assumes wf: "ns_wf ts m" and r: "m root = Some r0" "nTenantID r0 = t"
    and k: "m k = Some n" "nTrashedRootID n = root"
  shows "k \<in> trash_group m t root"
  using ns_wfD(5) [OF wf k(1)] ns_wfD(2) [OF wf r(1)] r k by (auto simp: trash_ok_def trash_group_def)

lemma ns_wf_restore:
  assumes wf: "ns_wf ts m"
    and r: "m root = Some r0" "nTenantID r0 = t" "nStatus r0 = NodeTrashed" "nTrashedRootID r0 = root"
    and p: "m (nOriginalParentID r0) = Some p" "visible p"
    and free: "\<And>k n. m k = Some n \<Longrightarrow> k \<noteq> root \<Longrightarrow> nTenantID n = t \<Longrightarrow>
        nParentID n = nOriginalParentID r0 \<Longrightarrow> nNormalizedName n = nNormalizedName r0 \<Longrightarrow> \<not> visible n"
  defines "S \<equiv> trash_group m t root"
  shows "ns_wf ts (\<lambda>k. map_option (restore_node root now S k) (m k))"
proof (rule ns_wf_relabel [OF wf _ refl])
  have rne: "root \<noteq> []" using ns_wfD(2) [OF wf r(1)] .
  have opar: "nOriginalParentID r0 = nParentID r0" "nParentID r0 \<noteq> []"
    using ns_wfD(5) [OF wf r(1)] r by (auto simp: trash_ok_def)
  have inS: "k \<in> S \<longleftrightarrow> nTrashedRootID n = root" if "m k = Some n" for k n
    using trash_group_tenant [OF wf r(1,2) that] that unfolding S_def by (auto simp: trash_group_def)
  have active: "nStatus n = NodeActive" if "k \<in> S" "m k = Some n" "k \<noteq> root" for k n
    using trash_group_status [OF wf r(1,4)] that r unfolding S_def by simp
  fix k n
  assume kn: "m k = Some n"
  have ok: "trash_ok m k n" using ns_wfD(5) [OF wf kn] .
  have kne: "k \<noteq> []" using ns_wfD(2) [OF wf kn] .
  show "same_shape (restore_node root now S k n) n"
    using kn r opar by (auto simp: same_shape_def restore_node_def)
  show "restore_node root now S k n = n" if "nParentID n = []"
    using ns_wfD(3) [OF wf kn] that inS [OF kn] rne by (auto simp: root_ok_def visible_def restore_node_def)
  {
    fix q
    assume ne: "nParentID n \<noteq> []" and q: "m (nParentID n) = Some q"
      and nt: "nTrashedRootID (restore_node root now S k n) \<noteq> k"
    note grp = ns_wf_same_group [OF wf kn ne q]
    show "nTrashedRootID (restore_node root now S (nParentID n) q)
        = nTrashedRootID (restore_node root now S k n)"
    proof (cases "k = root")
      case True
      with kn r p q opar inS have "nTrashedRootID q = []" "nParentID n \<notin> S" "k \<in> S"
        using rne by (auto simp: visible_def)
      then show ?thesis by simp
    next
      case False
      with nt inS [OF kn] have "nTrashedRootID n \<noteq> k" by (auto split: if_splits)
      with grp inS [OF kn] inS [OF q] show ?thesis by auto
    qed
  }
  show "trash_ok (\<lambda>k. map_option (restore_node root now S k) (m k)) k (restore_node root now S k n)"
  proof (cases "k \<in> S")
    case True
    with kne active [OF True kn] show ?thesis by (auto simp: trash_ok_def restore_node_def)
  next
    case False
    moreover have "nTrashedRootID n \<notin> S" if "nTrashedRootID n \<noteq> []" "nTrashedRootID n \<noteq> k"
      using ok that inS False kn by (auto simp: trash_ok_def)
    ultimately show ?thesis using ok by (auto simp: trash_ok_def restore_node_def)
  qed
  fix k' n'
  assume kn': "m k' = Some n'"
  assume eq: "nTenantID n = nTenantID n'" "nParentID n = nParentID n'" "nParentID n \<noteq> []"
      "nNormalizedName n = nNormalizedName n'"
    and nt: "nTrashedRootID (restore_node root now S k n) \<noteq> k" "nTrashedRootID (restore_node root now S k' n') \<noteq> k'"
    and same: "nTrashedRootID (restore_node root now S k n) = nTrashedRootID (restore_node root now S k' n')"
  have shown: "visible x \<or> y \<in> S" if "m y = Some x" "nTrashedRootID x = [] \<or> y \<in> S" for x y
    using ns_wfD(5) [OF wf that(1)] that(2) by (auto simp: trash_ok_def visible_def)
  show "k = k'"
  proof (cases "k = root \<or> k' = root")
    case True
    \<comment> \<open>the parent of the restored root is visible, so no other child of it was in the group\<close>
    have other: "x = root" if "m x = Some c" "nTrashedRootID c = [] \<or> x \<in> S" "nTenantID c = t"
      "nParentID c = nParentID r0" "nNormalizedName c = nNormalizedName r0" for x c
    proof (rule ccontr)
      assume "x \<noteq> root"
      with free [OF that(1)] that opar have "\<not> visible c" by auto
      with shown [OF that(1,2)] inS [OF that(1)] have "nTrashedRootID c = root" by auto
      with ns_wf_same_group [OF wf that(1)] \<open>x \<noteq> root\<close> that opar p rne show False
        by (auto simp: visible_def)
    qed
    from True show ?thesis
    proof
      assume "k = root"
      with kn r inS have "k \<in> S" "n = r0" by auto
      with same eq r other [OF kn'] \<open>k = root\<close> show ?thesis by (auto split: if_splits)
    next
      assume "k' = root"
      with kn' r inS have "k' \<in> S" "n' = r0" by auto
      with same eq r other [OF kn] \<open>k' = root\<close> show ?thesis by (auto split: if_splits)
    qed
  next
    case False
    with nt inS [OF kn] inS [OF kn'] have nt': "nTrashedRootID n \<noteq> k" "nTrashedRootID n' \<noteq> k'"
      by (auto split: if_splits)
    obtain q where q: "m (nParentID n) = Some q" using ns_wf_parent [OF wf kn eq(3)] by metis
    have "nTrashedRootID n = nTrashedRootID n'"
      using ns_wf_same_group [OF wf kn eq(3) q nt'(1)] ns_wf_same_group [OF wf kn' _ _ nt'(2)] q eq by auto
    then show ?thesis by (intro ns_wf_unique [OF wf kn kn']) (use eq nt' in auto)
  qed
qed

lemma ns_wf_purge:
  assumes wf: "ns_wf ts m"
    and r: "m root = Some r0" "nTenantID r0 = t" "nTrashedRootID r0 = root"
  shows "ns_wf ts (\<lambda>k. map_option (purge_node now (trash_group m t root) k) (m k))"
proof (rule ns_wf_relabel [OF wf _ refl])
  let ?S = "trash_group m t root"
  fix k n
  assume kn: "m k = Some n"
  have inS: "k \<in> ?S \<longleftrightarrow> nTrashedRootID n = root" if "m k = Some n" for k n
    using trash_group_tenant [OF wf r(1,2) that] that by (auto simp: trash_group_def)
  have rne: "root \<noteq> []" using ns_wfD(2) [OF wf r(1)] .
  have ok: "trash_ok m k n" using ns_wfD(5) [OF wf kn] .
  show "same_shape (purge_node now ?S k n) n" by (simp add: same_shape_def purge_node_def)
  show "purge_node now ?S k n = n" if "nParentID n = []"
    using ns_wfD(3) [OF wf kn] that inS [OF kn] rne by (auto simp: root_ok_def visible_def purge_node_def)
  show "nTrashedRootID (purge_node now ?S (nParentID n) q) = nTrashedRootID (purge_node now ?S k n)"
    if "nParentID n \<noteq> []" "m (nParentID n) = Some q" "nTrashedRootID (purge_node now ?S k n) \<noteq> k" for q
    using ns_wf_same_group [OF wf kn that(1,2)] that(3) by simp
  show "trash_ok (\<lambda>k. map_option (purge_node now ?S k) (m k)) k (purge_node now ?S k n)"
  proof (cases "k \<in> ?S")
    case True
    with inS [OF kn] ok r rne inS [OF r(1)] show ?thesis by (auto simp: trash_ok_def purge_node_def)
  next
    case False
    moreover have "nTrashedRootID n \<notin> ?S" if "nTrashedRootID n \<noteq> []" "nTrashedRootID n \<noteq> k"
      using ok that inS False kn by (auto simp: trash_ok_def)
    ultimately show ?thesis using ok by (auto simp: trash_ok_def purge_node_def)
  qed
  show "k = k'" if "m k' = Some n'" "nTenantID n = nTenantID n'" "nParentID n = nParentID n'"
    "nParentID n \<noteq> []" "nNormalizedName n = nNormalizedName n'" "nTrashedRootID (purge_node now ?S k n) \<noteq> k"
    "nTrashedRootID (purge_node now ?S k' n') \<noteq> k'"
    "nTrashedRootID (purge_node now ?S k n) = nTrashedRootID (purge_node now ?S k' n')" for k' n'
    by (rule ns_wf_unique [OF wf kn that(1)]) (use that in simp_all)
qed

text \<open>Marking trash roots as purging, before the rest of their groups.\<close>

lemma ns_wf_claim:
  assumes wf: "ns_wf ts m" and S: "\<And>k n. k \<in> S \<Longrightarrow> m k = Some n \<Longrightarrow> nTrashedRootID n = k"
  shows "ns_wf ts (\<lambda>k. map_option (purge_node now S k) (m k))"
proof (rule ns_wf_relabel [OF wf _ refl])
  fix k n
  assume kn: "m k = Some n"
  have ok: "trash_ok m k n" using ns_wfD(5) [OF wf kn] .
  have kne: "k \<noteq> []" using ns_wfD(2) [OF wf kn] .
  show "same_shape (purge_node now S k n) n" by (simp add: same_shape_def purge_node_def)
  show "purge_node now S k n = n" if "nParentID n = []"
    using ns_wfD(3) [OF wf kn] that S [OF _ kn] kne by (auto simp: root_ok_def visible_def purge_node_def)
  show "nTrashedRootID (purge_node now S (nParentID n) q) = nTrashedRootID (purge_node now S k n)"
    if "nParentID n \<noteq> []" "m (nParentID n) = Some q" "nTrashedRootID (purge_node now S k n) \<noteq> k" for q
    using ns_wf_same_group [OF wf kn that(1,2)] that(3) by simp
  show "trash_ok (\<lambda>k. map_option (purge_node now S k) (m k)) k (purge_node now S k n)"
  proof (cases "k \<in> S")
    case True
    with S [OF True kn] have "nTrashedRootID n = k" by simp
    with True ok kne show ?thesis by (simp add: trash_ok_def purge_node_def)
  next
    case False
    show ?thesis
    proof (cases "nTrashedRootID n = [] \<or> nTrashedRootID n = k")
      case True
      with False ok show ?thesis by (auto simp: trash_ok_def purge_node_def)
    next
      case inner: False
      with ok obtain q where "m (nTrashedRootID n) = Some q" "nTenantID q = nTenantID n"
        "nTrashedRootID q = nTrashedRootID n" "nStatus n \<in> {NodeActive, NodePurging}"
        "nStatus q = NodeTrashed \<longrightarrow> nStatus n = NodeActive" by (auto simp: trash_ok_def)
      with inner False show ?thesis by (simp add: trash_ok_def purge_node_def)
    qed
  qed
  show "k = k'" if "m k' = Some n'" "nTenantID n = nTenantID n'" "nParentID n = nParentID n'"
    "nParentID n \<noteq> []" "nNormalizedName n = nNormalizedName n'" "nTrashedRootID (purge_node now S k n) \<noteq> k"
    "nTrashedRootID (purge_node now S k' n') \<noteq> k'"
    "nTrashedRootID (purge_node now S k n) = nTrashedRootID (purge_node now S k' n')" for k' n'
    by (rule ns_wf_unique [OF wf kn that(1)]) (use that in simp_all)
qed

end
