(* ===== verification/Memory_Idempotency.thy ===== *)
theory Memory_Idempotency
  imports Memory_State
begin

text \<open>
  \<^verbatim>\<open>internal/memory/idempotency.go\<close> and \<^verbatim>\<open>DeleteExpiredIdempotency\<close>: claiming, releasing and
  completing an idempotency key. The contract the creation operations rely on is the locale
  \<open>idempotency_port\<close>; its client lemmas say that a completed claim is replayed and that a live
  claim excludes every other token.
\<close>

definition idempotencyKey :: "IdempotencyRequest \<Rightarrow> string" where
  "idempotencyKey request =
     iTenantID (irIdentity request) @ [CHR 0x00] @ iPrincipalID (irIdentity request) @ [CHR 0x00]
     @ IdempotencyScope_string (irScope request) @ [CHR 0x00] @ irKeyHash request"

definition Repo_ClaimIdempotency :: "IdempotencyRequest \<Rightarrow> IdempotencyRecord op" where
  "Repo_ClaimIdempotency request r =
     (case ValidateIdempotencyRequest request of
        Inl err \<Rightarrow> (Inl err, r)
      | Inr _ \<Rightarrow>
          let key = idempotencyKey request;
              fresh = \<lparr>idIdentity = irIdentity request, idScope = irScope request,
                 idKeyHash = irKeyHash request, idRequestDigest = irRequestDigest request,
                 idState = IdempotencyPending, idClaimToken = irClaimToken request,
                 idResourceID = [], idLockedUntil = irLockedUntil request,
                 idExpiresAt = irExpiresAt request, idCreatedAt = irNow request,
                 idUpdatedAt = irNow request\<rparr>
          in case gget (idempotency r) key of
               None \<Rightarrow> (Inr fresh, r\<lparr>idempotency := gput key fresh (idempotency r)\<rparr>)
             | Some rcd \<Rightarrow>
                 if \<not> irNow request < idExpiresAt rcd
                 then (Inr fresh, r\<lparr>idempotency := gput key fresh (idempotency r)\<rparr>)
                 else if idRequestDigest rcd \<noteq> irRequestDigest request
                 then (Inl (E CodeIdempotencyConflict
                        ''Idempotency-Key was already used for a different request''), r)
                 else if idState rcd = IdempotencyCompleted \<or> idClaimToken rcd = irClaimToken request
                 then (Inr rcd, r)
                 else if irNow request < idLockedUntil rcd
                 then (Inl (Retryable CodeDependencyUnavailable
                        ''matching idempotent request is still in progress'' None), r)
                 else let rcd' = rcd\<lparr>idClaimToken := irClaimToken request,
                            idLockedUntil := irLockedUntil request,
                            idExpiresAt := irExpiresAt request, idUpdatedAt := irNow request\<rparr>
                      in (Inr rcd', r\<lparr>idempotency := gput key rcd' (idempotency r)\<rparr>))"

definition Repo_ReleaseIdempotency :: "IdempotencyRequest \<Rightarrow> unit op" where
  "Repo_ReleaseIdempotency request r =
     (case ValidateIdempotencyRequest request of
        Inl err \<Rightarrow> (Inl err, r)
      | Inr _ \<Rightarrow>
          (case gget (idempotency r) (idempotencyKey request) of
             None \<Rightarrow> (Inr (), r)
           | Some rcd \<Rightarrow>
               if idState rcd = IdempotencyPending \<and> idRequestDigest rcd = irRequestDigest request
                  \<and> idClaimToken rcd = irClaimToken request
               then (Inr (), r\<lparr>idempotency := gdel (idempotencyKey request) (idempotency r)\<rparr>)
               else (Inr (), r)))"

definition completeIdempotency :: "IdempotencyRequest option \<Rightarrow> string \<Rightarrow> time \<Rightarrow> unit op" where
  "completeIdempotency request resourceID now r =
     (case request of
        None \<Rightarrow> (Inr (), r)
      | Some q \<Rightarrow>
          (case ValidateIdempotencyRequest q of
             Inl err \<Rightarrow> (Inl err, r)
           | Inr _ \<Rightarrow>
               if \<not> ValidID resourceID
               then (Inl (E CodeInvalidRequest ''idempotency resource identifier is invalid''), r)
               else
                 (case gget (idempotency r) (idempotencyKey q) of
                    None \<Rightarrow> (Inl (E CodeInvalidState
                              ''idempotency claim is no longer owned by this request''), r)
                  | Some rcd \<Rightarrow>
                      if idState rcd \<noteq> IdempotencyPending \<or> idRequestDigest rcd \<noteq> irRequestDigest q
                         \<or> idClaimToken rcd \<noteq> irClaimToken q
                      then (Inl (E CodeInvalidState
                              ''idempotency claim is no longer owned by this request''), r)
                      else
                        let rcd' = rcd\<lparr>idState := IdempotencyCompleted, idClaimToken := [],
                                  idResourceID := resourceID, idLockedUntil := 0,
                                  idUpdatedAt := now\<rparr>
                        in (Inr (), r\<lparr>idempotency := gput (idempotencyKey q) rcd' (idempotency r)\<rparr>))))"

definition Repo_DeleteExpiredIdempotency :: "time \<Rightarrow> int \<Rightarrow> Repository \<Rightarrow> int \<times> Repository" where
  "Repo_DeleteExpiredIdempotency now limit r =
     (let expired = sort_slice (<)
            (map fst (filter (\<lambda>(_, rcd). \<not> idExpiresAt rcd > now) (gentries (idempotency r))));
          keys = (if limit > 0 \<and> int (length expired) > limit then take (nat limit) expired else expired)
      in (int (length keys), r\<lparr>idempotency := foldl (\<lambda>m k. gdel k m) (idempotency r) keys\<rparr>))"

lemmas idempotency_ops =
  Repo_ClaimIdempotency_def Repo_ReleaseIdempotency_def completeIdempotency_def

section \<open>Frames\<close>

lemma idempotency_self: "\<exists>m. r = r\<lparr>idempotency := m\<rparr>"
  by (rule exI [of _ "idempotency r"]) simp

lemma claim_frame:
  "\<exists>m. snd (Repo_ClaimIdempotency q r) = r\<lparr>idempotency := m\<rparr>"
  "\<exists>m. snd (Repo_ReleaseIdempotency q r) = r\<lparr>idempotency := m\<rparr>"
  "\<exists>m. snd (completeIdempotency qo i now r) = r\<lparr>idempotency := m\<rparr>"
  by (simp_all add: idempotency_ops Let_def idempotency_self split: sum.split option.split) blast+

lemma completeIdempotency_nodes [simp]:
  "nodes (snd (completeIdempotency qo i now r)) = nodes r"
  "tenants (snd (completeIdempotency qo i now r)) = tenants r"
  "uploads (snd (completeIdempotency qo i now r)) = uploads r"
  "audit (snd (completeIdempotency qo i now r)) = audit r"
  "auditSequence (snd (completeIdempotency qo i now r)) = auditSequence r"
  "members (snd (completeIdempotency qo i now r)) = members r"
  "versions (snd (completeIdempotency qo i now r)) = versions r"
  "blobs (snd (completeIdempotency qo i now r)) = blobs r"
  using claim_frame(3) [of qo i now r] by auto

lemma completeIdempotency_pair:
  "completeIdempotency qo i now r = (x, r') \<Longrightarrow> \<exists>m. r' = r\<lparr>idempotency := m\<rparr>"
  using claim_frame(3) [of qo i now r] by simp

lemma completeIdempotency_error: "completeIdempotency qo i now r = (Inl e, r') \<Longrightarrow> r' = r"
  by (auto simp: completeIdempotency_def Let_def split: option.splits sum.splits if_splits)

section \<open>The contract\<close>

text \<open>
  A store of claims, seen through the record it keeps for a request's key: a completed
  record answers every later claim for the same request, a live claim of another token
  refuses, a different request under the key is a conflict, and only the owner of a pending
  claim completes it.
\<close>

locale idempotency_port =
  fixes claim :: "IdempotencyRequest \<Rightarrow> 's \<Rightarrow> IdempotencyRecord result \<times> 's"
    and finish :: "IdempotencyRequest \<Rightarrow> string \<Rightarrow> time \<Rightarrow> 's \<Rightarrow> unit result \<times> 's"
    and find :: "'s \<Rightarrow> IdempotencyRequest \<Rightarrow> IdempotencyRecord option"
  assumes claim_new:
    "ValidateIdempotencyRequest q = Inr () \<Longrightarrow> find s q = None \<Longrightarrow>
       \<exists>rcd. fst (claim q s) = Inr rcd \<and> find (snd (claim q s)) q = Some rcd \<and>
         idState rcd = IdempotencyPending \<and> idClaimToken rcd = irClaimToken q \<and>
         idRequestDigest rcd = irRequestDigest q \<and> idLockedUntil rcd = irLockedUntil q \<and>
         idExpiresAt rcd = irExpiresAt q"
    and claim_completed:
    "ValidateIdempotencyRequest q = Inr () \<Longrightarrow> find s q = Some rcd \<Longrightarrow> irNow q < idExpiresAt rcd \<Longrightarrow>
       idRequestDigest rcd = irRequestDigest q \<Longrightarrow> idState rcd = IdempotencyCompleted \<Longrightarrow>
       claim q s = (Inr rcd, s)"
    and claim_busy:
    "ValidateIdempotencyRequest q = Inr () \<Longrightarrow> find s q = Some rcd \<Longrightarrow> irNow q < idExpiresAt rcd \<Longrightarrow>
       idRequestDigest rcd = irRequestDigest q \<Longrightarrow> idState rcd \<noteq> IdempotencyCompleted \<Longrightarrow>
       idClaimToken rcd \<noteq> irClaimToken q \<Longrightarrow> irNow q < idLockedUntil rcd \<Longrightarrow>
       \<exists>e. claim q s = (Inl e, s) \<and> CodeOf e = CodeDependencyUnavailable"
    and claim_conflict:
    "ValidateIdempotencyRequest q = Inr () \<Longrightarrow> find s q = Some rcd \<Longrightarrow> irNow q < idExpiresAt rcd \<Longrightarrow>
       idRequestDigest rcd \<noteq> irRequestDigest q \<Longrightarrow>
       \<exists>e. claim q s = (Inl e, s) \<and> CodeOf e = CodeIdempotencyConflict"
    and finish_owner:
    "finish q i now s = (Inr u, s') \<Longrightarrow>
       \<exists>rcd rcd'. find s q = Some rcd \<and> idState rcd = IdempotencyPending \<and>
         idClaimToken rcd = irClaimToken q \<and> idRequestDigest rcd = irRequestDigest q \<and>
         find s' q = Some rcd' \<and> idState rcd' = IdempotencyCompleted \<and> idResourceID rcd' = i \<and>
         idRequestDigest rcd' = irRequestDigest q \<and> idExpiresAt rcd' = idExpiresAt rcd"
    and find_key: "irIdentity q = irIdentity q' \<Longrightarrow> irScope q = irScope q' \<Longrightarrow>
       irKeyHash q = irKeyHash q' \<Longrightarrow> find s q = find s q'"
begin

text \<open>Two requests for the same operation: same identity, scope, key and body.\<close>

definition same_request :: "IdempotencyRequest \<Rightarrow> IdempotencyRequest \<Rightarrow> bool" where
  "same_request q q' \<longleftrightarrow> irIdentity q = irIdentity q' \<and> irScope q = irScope q'
     \<and> irKeyHash q = irKeyHash q' \<and> irRequestDigest q = irRequestDigest q'"

lemma same_request_find: "same_request q q' \<Longrightarrow> find s q' = find s q"
  unfolding same_request_def by (intro find_key) auto

lemma retry_replays:
  assumes fin: "finish q i now s = (Inr u, s')"
    and exp: "find s q = Some rcd" "irNow q' < idExpiresAt rcd"
    and valid: "ValidateIdempotencyRequest q' = Inr ()" and same: "same_request q q'"
  shows "\<exists>done. claim q' s' = (Inr done, s') \<and> idState done = IdempotencyCompleted \<and> idResourceID done = i"
proof -
  from finish_owner [OF fin] exp obtain rcd' where
    rcd': "find s' q = Some rcd'" "idState rcd' = IdempotencyCompleted" "idResourceID rcd' = i"
      "idRequestDigest rcd' = irRequestDigest q" "idExpiresAt rcd' = idExpiresAt rcd" by auto
  have "find s' q' = Some rcd'" using rcd'(1) same_request_find [OF same] by simp
  moreover have "idRequestDigest rcd' = irRequestDigest q'"
    using rcd'(4) same by (simp add: same_request_def)
  ultimately have "claim q' s' = (Inr rcd', s')"
    using rcd' exp(2) by (intro claim_completed valid) auto
  with rcd' show ?thesis by blast
qed

lemma live_claim_excludes:
  assumes own: "fst (claim q s) = Inr rcd" "find s q = None"
    and valid: "ValidateIdempotencyRequest q = Inr ()" "ValidateIdempotencyRequest q' = Inr ()"
    and same: "same_request q q'" and tok: "irClaimToken q' \<noteq> irClaimToken q"
    and live: "irNow q' < irLockedUntil q" "irNow q' < irExpiresAt q"
  shows "\<exists>e. claim q' (snd (claim q s)) = (Inl e, snd (claim q s)) \<and> CodeOf e = CodeDependencyUnavailable"
proof -
  from claim_new [OF valid(1) own(2)] obtain rcd' where
    r: "find (snd (claim q s)) q = Some rcd'" "idState rcd' = IdempotencyPending"
      "idClaimToken rcd' = irClaimToken q" "idRequestDigest rcd' = irRequestDigest q"
      "idLockedUntil rcd' = irLockedUntil q" "idExpiresAt rcd' = irExpiresAt q" by auto
  have "find (snd (claim q s)) q' = Some rcd'" using r(1) same_request_find [OF same] by simp
  with r valid(2) same tok live show ?thesis
    by (intro claim_busy) (auto simp: same_request_def)
qed

lemma no_second_finish:
  assumes fin: "finish q i now s = (Inr u, s')" and same: "same_request q q'"
  shows "\<not> (\<exists>u' s''. finish q' i' now' s' = (Inr u', s''))"
  using finish_owner [OF fin] finish_owner [of q' i' now' s'] same_request_find [OF same] by fastforce

end

definition find_record :: "Repository \<Rightarrow> IdempotencyRequest \<Rightarrow> IdempotencyRecord option" where
  "find_record r q = gget (idempotency r) (idempotencyKey q)"

definition finish_claim :: "IdempotencyRequest \<Rightarrow> string \<Rightarrow> time \<Rightarrow> unit op" where
  "finish_claim q i now r = completeIdempotency (Some q) i now r"

interpretation mi: idempotency_port Repo_ClaimIdempotency finish_claim find_record
  by unfold_locales
    (auto simp: idempotency_ops find_record_def finish_claim_def idempotencyKey_def Let_def
      split: sum.splits option.splits if_splits)

section \<open>Releasing and expiring\<close>

lemma release_only_owner:
  assumes "gget (idempotency r) k = Some rcd"
    and "gget (idempotency (snd (Repo_ReleaseIdempotency q r))) k = None"
  shows "k = idempotencyKey q \<and> idState rcd = IdempotencyPending \<and> idClaimToken rcd = irClaimToken q"
  using assms
  by (auto simp: Repo_ReleaseIdempotency_def split: sum.splits option.splits if_splits)

lemma gget_foldl_gdel:
  "gget (foldl (\<lambda>m k. gdel k m) m ks) k = (if k \<in> set ks then None else gget m k)"
  by (induction ks arbitrary: m) auto

lemma delete_expired_only:
  assumes "gget (idempotency r) k = Some rcd"
    and "gget (idempotency (snd (Repo_DeleteExpiredIdempotency now limit r))) k = None"
  shows "idExpiresAt rcd \<le> now"
proof -
  let ?ks = "sort_slice (<) (map fst (filter (\<lambda>(_, rcd). \<not> idExpiresAt rcd > now) (gentries (idempotency r))))"
  have "k \<in> set ?ks"
    using assms by (auto simp: Repo_DeleteExpiredIdempotency_def Let_def gget_foldl_gdel
        split: if_splits dest: in_set_takeD)
  with assms(1) show ?thesis by auto
qed

end
