(* ===== verification/Memory_Namespace.thy ===== *)
theory Memory_Namespace
  imports Namespace_Tree Memory_Idempotency
begin

text \<open>
  Tenants and the directory tree of \<^verbatim>\<open>internal/memory/repository.go\<close>: creating a tenant and its
  root, creating, reading, listing, renaming and moving nodes. The two walks over the tree
  (\<^verbatim>\<open>isDescendant\<close> upwards, \<^verbatim>\<open>activeSubtree\<close> downwards) are Go loops with no bound of their own,
  so they are partial functions whose value is \<open>None\<close> when the loop never ends; under the
  invariant of \<open>Namespace_Tree\<close> both are shown to end with the right answer. An operation
  that runs such a loop returns \<open>None\<close> when the loop does not end.
\<close>

definition zero_Tenant :: Tenant where
  "zero_Tenant = \<lparr>tID = [], tDisplayName = [], tRootNodeID = [], tCreatedAt = 0\<rparr>"

definition Repo_EnsureTenant :: "TenantSeed \<Rightarrow> Tenant op" where
  "Repo_EnsureTenant seed r =
     (case gget (tenants r) (tsTenantID seed) of
        Some tenant \<Rightarrow> (Inr tenant, r)
      | None \<Rightarrow>
          let tenant = \<lparr>tID = tsTenantID seed, tDisplayName = tsDisplayName seed,
                 tRootNodeID = tsRootNodeID seed, tCreatedAt = tsNow seed\<rparr>;
              root = zero_Node\<lparr>nID := tsRootNodeID seed, nTenantID := tsTenantID seed,
                 nKind := NodeDirectory, nStatus := NodeActive, nRevision := 1,
                 nCreatedAt := tsNow seed, nUpdatedAt := tsNow seed\<rparr>
          in (Inr tenant, r\<lparr>tenants := gput (tID tenant) tenant (tenants r),
                            nodes := gput (nID root) root (nodes r)\<rparr>))"

definition Repo_Tenant :: "string \<Rightarrow> Repository \<Rightarrow> Tenant result" where
  "Repo_Tenant tenantID r =
     (case gget (tenants r) tenantID of
        None \<Rightarrow> Inl (E CodeNotFound ''tenant was not found'')
      | Some tenant \<Rightarrow> Inr tenant)"

definition new_directory :: "CreateDirectoryCommand \<Rightarrow> Node" where
  "new_directory c = zero_Node\<lparr>nID := cdID c, nTenantID := iTenantID (cdIdentity c),
     nParentID := cdParentID c, nKind := NodeDirectory, nDisplayName := cdDisplayName c,
     nNormalizedName := cdNormalizedName c, nStatus := NodeActive, nRevision := 1,
     nCreatedAt := cdNow c, nUpdatedAt := cdNow c\<rparr>"

definition Repo_CreateDirectory :: "Env \<Rightarrow> CreateDirectoryCommand \<Rightarrow> Node op" where
  "Repo_CreateDirectory env c r =
     (let tenant = iTenantID (cdIdentity c); notFound = E CodeNotFound ''parent directory was not found''
      in (case activeNode r tenant (cdParentID c) of
           None \<Rightarrow> (Inl notFound, r)
         | Some parent \<Rightarrow>
             if nKind parent \<noteq> NodeDirectory then (Inl notFound, r)
             else if nameExists r tenant (cdParentID c) (cdNormalizedName c) []
             then (Inl (E CodeNameConflict ''an active item with this name already exists''), r)
             else
               let node = new_directory c
               in (case completeIdempotency (cdIdempotency c) (nID node) (cdNow c) r of
                    (Inl err, r') \<Rightarrow> (Inl err, r')
                  | (Inr _, r') \<Rightarrow>
                      (case appendAuditLocked env
                              (audit_event tenant (iPrincipalID (cdIdentity c)) ''node.created'' ''node''
                                 (nID node) (cdNow c)
                                 [(''kind'', NodeKind_string (nKind node)), (''parent_id'', nParentID node)])
                              (r'\<lparr>nodes := gput (nID node) node (nodes r')\<rparr>) of
                         (Inl err, r'') \<Rightarrow> (Inl err, r''\<lparr>nodes := gdel (nID node) (nodes r'')\<rparr>)
                       | (Inr _, r'') \<Rightarrow> (Inr node, r'')))))"

definition Repo_Node :: "Identity \<Rightarrow> string \<Rightarrow> bool \<Rightarrow> Repository \<Rightarrow> Node result" where
  "Repo_Node identity i includeTrashed r =
     (case gget (nodes r) i of
        None \<Rightarrow> Inl (E CodeNotFound ''resource was not found'')
      | Some node \<Rightarrow>
          if nTenantID node \<noteq> iTenantID identity \<or> (\<not> includeTrashed \<and> \<not> visible node)
          then Inl (E CodeNotFound ''resource was not found'')
          else Inr node)"

definition children_after :: "Repository \<Rightarrow> string \<Rightarrow> string \<Rightarrow> CursorPosition \<Rightarrow> Node list" where
  "children_after r tenant parentID after =
     filter (\<lambda>node. nTenantID node = tenant \<and> nParentID node = parentID \<and> visible node
        \<and> afterPosition node after) (gvals (nodes r))"

definition Repo_ListChildren ::
  "Identity \<Rightarrow> string \<Rightarrow> CursorPosition \<Rightarrow> int \<Rightarrow> Repository \<Rightarrow> (Node list \<times> bool) result" where
  "Repo_ListChildren identity parentID after limit r =
     (let notFound = E CodeNotFound ''parent directory was not found''
      in (case gget (nodes r) parentID of
           None \<Rightarrow> Inl notFound
         | Some parent \<Rightarrow>
             if nTenantID parent \<noteq> iTenantID identity \<or> nKind parent \<noteq> NodeDirectory \<or> \<not> visible parent
             then Inl notFound
             else (case slice_page limit (sortNodes (children_after r (iTenantID identity) parentID after)) of
                    None \<Rightarrow> Inl (Panic ''slice bounds out of range'')
                  | Some page \<Rightarrow> Inr page)))"

section \<open>Walks over the tree\<close>

partial_function (option) isDescendant :: "Repository \<Rightarrow> string \<Rightarrow> string \<Rightarrow> string \<Rightarrow> bool option" where
  "isDescendant r current ancestorID tenantID =
     (if current = [] then Some False
      else if current = ancestorID then Some True
      else (case gget (nodes r) current of
             None \<Rightarrow> Some False
           | Some node \<Rightarrow>
               if nTenantID node \<noteq> tenantID then Some False
               else isDescendant r (nParentID node) ancestorID tenantID))"

partial_function (option) activeSubtree_from ::
  "Repository \<Rightarrow> string \<Rightarrow> nat \<Rightarrow> string list \<Rightarrow> string list option" where
  "activeSubtree_from r tenantID i ids =
     (if i < length ids then
        activeSubtree_from r tenantID (Suc i)
          (ids @ map nID (filter (\<lambda>node. nTenantID node = tenantID \<and> nParentID node = ids ! i
                                          \<and> visible node) (gvals (nodes r))))
      else Some ids)"

definition activeSubtree :: "Repository \<Rightarrow> string \<Rightarrow> string \<Rightarrow> string list option" where
  "activeSubtree r rootID tenantID = activeSubtree_from r tenantID 0 [rootID]"

definition trashedSubtree :: "Repository \<Rightarrow> string \<Rightarrow> string \<Rightarrow> string list" where
  "trashedSubtree r rootID tenantID =
     map nID (filter (\<lambda>node. nTenantID node = tenantID \<and> nTrashedRootID node = rootID) (gvals (nodes r)))"

declare isDescendant.simps [code] activeSubtree_from.simps [code]

text \<open>\<open>UpdateNode_parent\<close> is the part of \<^verbatim>\<open>UpdateNode\<close> that decides the target directory.\<close>

definition UpdateNode_parent :: "UpdateNodeCommand \<Rightarrow> Node \<Rightarrow> Repository \<Rightarrow> string result option" where
  "UpdateNode_parent c node r =
     (case unParentID c of
        None \<Rightarrow> Some (Inr (nParentID node))
      | Some target \<Rightarrow>
          let tenant = iTenantID (unIdentity c)
          in (case activeNode r tenant target of
               None \<Rightarrow> Some (Inl (E CodeNotFound ''target directory was not found''))
             | Some parent \<Rightarrow>
                 if nKind parent \<noteq> NodeDirectory
                 then Some (Inl (E CodeNotFound ''target directory was not found''))
                 else if nKind node = NodeDirectory
                 then map_option (\<lambda>d. if d
                        then Inl (E CodeInvalidRequest
                               ''directory cannot be moved into itself or a descendant'')
                        else Inr target) (isDescendant r target (nID node) tenant)
                 else Some (Inr target)))"

definition UpdateNode_apply :: "UpdateNodeCommand \<Rightarrow> Node \<Rightarrow> Node option" where
  "UpdateNode_apply c node =
     (let node2 = (\<lambda>n. (case unParentID c of None \<Rightarrow> n | Some p \<Rightarrow> n\<lparr>nParentID := p\<rparr>)
                     \<lparr>nRevision := wrap64 (nRevision n + 1), nUpdatedAt := unNow c\<rparr>)
      in (case unDisplayName c of
           None \<Rightarrow> Some (node2 node)
         | Some d \<Rightarrow>
             (case unNormalizedName c of
                None \<Rightarrow> None
              | Some nm \<Rightarrow> Some (node2 (node\<lparr>nDisplayName := d, nNormalizedName := nm\<rparr>)))))"

definition Repo_UpdateNode :: "Env \<Rightarrow> UpdateNodeCommand \<Rightarrow> Repository \<Rightarrow> (Node result \<times> Repository) option" where
  "Repo_UpdateNode env c r =
     (let tenant = iTenantID (unIdentity c)
      in (case activeNode r tenant (unNodeID c) of
           None \<Rightarrow> Some (Inl (E CodeNotFound ''resource was not found''), r)
         | Some node \<Rightarrow>
             if tRootNodeID (gget_or zero_Tenant (tenants r) tenant) = nID node
             then Some (Inl (E CodeInvalidRequest ''root directory cannot be changed''), r)
             else if nRevision node \<noteq> unExpectedRevision c
             then Some (Inl (E CodeRevisionMismatch ''resource revision does not match''), r)
             else (case UpdateNode_parent c node r of
                    None \<Rightarrow> None
                  | Some (Inl err) \<Rightarrow> Some (Inl err, r)
                  | Some (Inr targetParent) \<Rightarrow>
                      let targetName = (case unNormalizedName c of None \<Rightarrow> nNormalizedName node | Some nm \<Rightarrow> nm)
                      in if nameExists r tenant targetParent targetName (nID node)
                         then Some (Inl (E CodeNameConflict ''an active item with this name already exists''), r)
                         else (case UpdateNode_apply c node of
                                None \<Rightarrow> Some (Inl (Panic ''nil pointer dereference''), r)
                              | Some node' \<Rightarrow>
                                  Some (with_audit env
                                    (audit_event tenant (iPrincipalID (unIdentity c)) ''node.updated'' ''node''
                                       (nID node') (unNow c) [(''parent_id'', nParentID node')])
                                    node' (r\<lparr>nodes := gput (nID node') node' (nodes r)\<rparr>))))))"

section \<open>The invariant\<close>

definition ns_inv :: "Repository \<Rightarrow> bool" where
  "ns_inv r \<longleftrightarrow> ns_wf (gget (tenants r)) (gget (nodes r))"

lemma gget_gput_fun: "gget (gput k v m) = (gget m)(k \<mapsto> v)"
  by (rule ext) simp

lemma gget_gempty_fun: "gget gempty = (\<lambda>_. None)"
  by (rule ext) simp

lemma ns_inv_NewRepository: "ns_inv NewRepository"
  by (simp add: ns_inv_def NewRepository_def gget_gempty_fun ns_wf_empty)

lemma ns_inv_cong: "tenants r' = tenants r \<Longrightarrow> nodes r' = nodes r \<Longrightarrow> ns_inv r' = ns_inv r"
  by (simp add: ns_inv_def)

lemma parent_rel_wf:
  assumes "ns_wf ts m"
  shows "wf ((parent_rel m)\<inverse>)"
proof (rule finite_acyclic_wf_converse)
  have "parent_rel m \<subseteq> (\<lambda>k. (k, nParentID (the (m k)))) ` dom m"
    by (force simp: parent_rel_def)
  then show "finite (parent_rel m)"
    using assms by (auto simp: ns_wf_def intro: finite_surj)
  show "acyclic (parent_rel m)" using assms by (simp add: ns_wf_def)
qed

lemma isDescendant_walk:
  assumes inv: "ns_inv r" and anc: "ancestor \<noteq> []"
    and cand: "current = [] \<or> (\<exists>n. gget (nodes r) current = Some n \<and> nTenantID n = t)"
  shows "isDescendant r current ancestor t = Some ((current, ancestor) \<in> (parent_rel (gget (nodes r)))\<^sup>*)"
  using cand
proof (induction current rule: wf_induct_rule [OF parent_rel_wf [OF inv [unfolded ns_inv_def]]])
  case (1 current)
  let ?R = "parent_rel (gget (nodes r))"
  note wf = inv [unfolded ns_inv_def]
  show ?case
  proof (cases "current = [] \<or> current = ancestor")
    case True
    have "([], ancestor) \<notin> ?R\<^sup>*"
      using anc ns_wf_no_empty_key [OF wf] by (auto simp: parent_rel_def elim: converse_rtranclE)
    with True anc show ?thesis by (subst isDescendant.simps) auto
  next
    case False
    with "1.prems" obtain n where n: "gget (nodes r) current = Some n" "nTenantID n = t" by auto
    then have edge: "(current, nParentID n) \<in> ?R" by (auto simp: parent_rel_def)
    have "nParentID n = [] \<or> (\<exists>p. gget (nodes r) (nParentID n) = Some p \<and> nTenantID p = t)"
      using ns_wfD(4) [OF wf n(1)] n(2) by (auto simp: parent_ok_def)
    then have "isDescendant r (nParentID n) ancestor t = Some ((nParentID n, ancestor) \<in> ?R\<^sup>*)"
      using edge "1.IH" by simp
    moreover have "(current, ancestor) \<in> ?R\<^sup>* \<longleftrightarrow> (nParentID n, ancestor) \<in> ?R\<^sup>*"
    proof
      assume "(current, ancestor) \<in> ?R\<^sup>*"
      then obtain y where "(current, y) \<in> ?R" "(y, ancestor) \<in> ?R\<^sup>*"
        using False by (metis converse_rtranclE)
      with n show "(nParentID n, ancestor) \<in> ?R\<^sup>*" by (auto simp: parent_rel_def)
    qed (use edge in \<open>rule converse_rtrancl_into_rtrancl\<close>)
    ultimately show ?thesis using False n by (subst isDescendant.simps) simp
  qed
qed

subsection \<open>The downward walk\<close>

lemma visible_children:
  assumes wf: "ns_wf (gget (tenants r)) (gget (nodes r))"
  shows "set (map nID (filter (\<lambda>n. nTenantID n = t \<and> nParentID n = p \<and> visible n) (gvals (nodes r))))
         = child_rel (gget (nodes r)) t `` {p}"
  using ns_wfD(1) [OF wf] by (force simp: child_rel_def)

lemma distinct_ids:
  assumes wf: "ns_wf (gget (tenants r)) (gget (nodes r))"
  shows "distinct (map nID (gvals (nodes r)))"
proof -
  have "map nID (gvals (nodes r)) = map fst (gentries (nodes r))"
    unfolding gvals_def map_map using ns_wfD(1) [OF wf] by (auto simp: in_gentries)
  then show ?thesis by (simp add: distinct_gentries)
qed

text \<open>
  What the loop keeps: the ids found so far are distinct nodes of the subtree, every found id
  but the root has its parent among the ids already expanded, and the expanded ids have all
  their children in the list.
\<close>

definition walk_inv :: "Repository \<Rightarrow> string \<Rightarrow> string \<Rightarrow> nat \<Rightarrow> string list \<Rightarrow> bool" where
  "walk_inv r t root i ids \<longleftrightarrow> i \<le> length ids \<and> distinct ids \<and> root \<in> set ids
     \<and> set ids \<subseteq> subtree (gget (nodes r)) t root
     \<and> (\<forall>c \<in> set ids. c \<noteq> root \<longrightarrow> (\<exists>n. gget (nodes r) c = Some n \<and> nParentID n \<in> set (take i ids)))
     \<and> (\<forall>p \<in> set (take i ids). child_rel (gget (nodes r)) t `` {p} \<subseteq> set ids)"

lemma walk_inv_step:
  assumes inv: "ns_inv r" and w: "walk_inv r t root i ids" and i: "i < length ids"
  shows "walk_inv r t root (Suc i) (ids @ map nID (filter (\<lambda>n. nTenantID n = t \<and> nParentID n = ids ! i
      \<and> visible n) (gvals (nodes r))))"
proof -
  note wf = inv [unfolded ns_inv_def]
  let ?m = "gget (nodes r)"
  define new where "new = map nID (filter (\<lambda>n. nTenantID n = t \<and> nParentID n = ids ! i \<and> visible n)
    (gvals (nodes r)))"
  have set_new: "set new = child_rel ?m t `` {ids ! i}"
    unfolding new_def by (rule visible_children [OF wf])
  have in_sub: "ids ! i \<in> subtree ?m t root" using w i by (auto simp: walk_inv_def)
  have "c \<notin> set ids" if c: "c \<in> set new" for c
  proof
    assume cid: "c \<in> set ids"
    from c set_new obtain n where n: "?m c = Some n" "nParentID n = ids ! i" by (auto simp: child_rel_def)
    show False
    proof (cases "c = root")
      case True
      then have "(root, ids ! i) \<in> parent_rel ?m" using n by (auto simp: parent_rel_def)
      moreover have "(ids ! i, root) \<in> (parent_rel ?m)\<^sup>*" by (rule subtree_ancestor [OF in_sub])
      ultimately show False
        using wf unfolding ns_wf_def acyclic_def by (metis rtrancl_into_trancl2)
    next
      case False
      with cid w n have "ids ! i \<in> set (take i ids)" by (auto simp: walk_inv_def)
      then obtain j where "j < i" "ids ! j = ids ! i" using i by (auto simp: in_set_conv_nth)
      with w i show False by (auto simp: walk_inv_def nth_eq_iff_index_eq)
    qed
  qed
  moreover have "distinct new"
    unfolding new_def using distinct_ids [OF wf] by (rule distinct_map_filter)
  moreover have "set new \<subseteq> subtree ?m t root"
    unfolding set_new using in_sub by (auto simp: child_rel_def intro: subtree_child)
  moreover have take: "set (take (Suc i) (ids @ new)) = insert (ids ! i) (set (take i ids))"
    using i by (simp add: take_Suc_conv_app_nth)
  moreover have "\<exists>n. ?m c = Some n \<and> nParentID n \<in> set (take (Suc i) (ids @ new))"
    if "c \<in> set (ids @ new)" "c \<noteq> root" for c
  proof (cases "c \<in> set ids")
    case True
    with that(2) w show ?thesis unfolding take walk_inv_def by blast
  next
    case False
    with that(1) set_new show ?thesis unfolding take by (auto simp: child_rel_def)
  qed
  moreover have "child_rel ?m t `` {p} \<subseteq> set (ids @ new)" if "p \<in> set (take (Suc i) (ids @ new))" for p
  proof (cases "p = ids ! i")
    case True
    then show ?thesis using set_new by simp
  next
    case False
    with that have "p \<in> set (take i ids)" unfolding take by simp
    with w show ?thesis unfolding walk_inv_def by fastforce
  qed
  ultimately have "walk_inv r t root (Suc i) (ids @ new)"
    using w i unfolding walk_inv_def [of r t root "Suc i"] by (auto simp: walk_inv_def)
  then show ?thesis by (simp add: new_def)
qed

lemma subtree_keys:
  assumes "gget (nodes r) root \<noteq> None"
  shows "subtree (gget (nodes r)) t root \<subseteq> dom (gget (nodes r))"
proof
  fix c
  assume "c \<in> subtree (gget (nodes r)) t root"
  then show "c \<in> dom (gget (nodes r))" by (cases rule: subtree_cases) (use assms in auto)
qed

lemma walk_inv_final:
  assumes "walk_inv r t root (length ids) ids"
  shows "set ids = subtree (gget (nodes r)) t root"
proof
  show "set ids \<subseteq> subtree (gget (nodes r)) t root" using assms by (simp add: walk_inv_def)
  have "c \<in> set ids" if "(root, c) \<in> (child_rel (gget (nodes r)) t)\<^sup>*" for c
    using that
  proof (induction rule: rtrancl_induct)
    case base
    then show ?case using assms by (simp add: walk_inv_def)
  next
    case (step p c)
    then show ?case using assms by (auto simp: walk_inv_def)
  qed
  then show "subtree (gget (nodes r)) t root \<subseteq> set ids" by (auto simp: subtree_def)
qed

lemma activeSubtree_from_ends:
  assumes inv: "ns_inv r" and key: "gget (nodes r) root \<noteq> None" and w: "walk_inv r t root i ids"
  shows "\<exists>ids'. activeSubtree_from r t i ids = Some ids' \<and> distinct ids'
    \<and> set ids' = subtree (gget (nodes r)) t root"
  using w
proof (induction "card (dom (gget (nodes r))) - i" arbitrary: i ids rule: less_induct)
  case less
  show ?case
  proof (cases "i < length ids")
    case True
    have "set ids \<subseteq> dom (gget (nodes r))"
      using less.prems subtree_keys [OF key] by (auto simp: walk_inv_def)
    moreover have "finite (dom (gget (nodes r)))" using inv by (simp add: ns_inv_def ns_wf_def)
    ultimately have "card (set ids) \<le> card (dom (gget (nodes r)))" by (simp add: card_mono)
    moreover have "card (set ids) = length ids"
      using less.prems by (simp add: walk_inv_def distinct_card)
    ultimately have "card (dom (gget (nodes r))) - Suc i < card (dom (gget (nodes r))) - i"
      using True by simp
    from less.hyps [OF this walk_inv_step [OF inv less.prems True]] show ?thesis
      using True by (subst activeSubtree_from.simps) simp
  next
    case False
    with less.prems have "walk_inv r t root (length ids) ids" by (simp add: walk_inv_def)
    with False walk_inv_final [OF this] show ?thesis
      by (subst activeSubtree_from.simps) (simp add: walk_inv_def)
  qed
qed

lemma activeSubtree_ends:
  assumes "ns_inv r" and "gget (nodes r) root \<noteq> None"
  shows "\<exists>ids. activeSubtree r root t = Some ids \<and> distinct ids \<and> set ids = subtree (gget (nodes r)) t root"
  unfolding activeSubtree_def
  by (rule activeSubtree_from_ends [OF assms]) (simp add: walk_inv_def)

lemma set_trashedSubtree:
  assumes "ns_inv r"
  shows "set (trashedSubtree r root t) = trash_group (gget (nodes r)) t root"
    and "distinct (trashedSubtree r root t)"
proof -
  note wf = assms [unfolded ns_inv_def]
  show "set (trashedSubtree r root t) = trash_group (gget (nodes r)) t root"
    using ns_wfD(1) [OF wf] by (force simp: trashedSubtree_def trash_group_def)
  show "distinct (trashedSubtree r root t)"
    unfolding trashedSubtree_def by (rule distinct_map_filter [OF distinct_ids [OF wf]])
qed

section \<open>The operations keep the invariant\<close>

lemma not_tenant_root:
  assumes "ns_inv r" and "gget (nodes r) k = Some n" and "nTenantID n = t"
    and "tRootNodeID (gget_or zero_Tenant (tenants r) t) \<noteq> k"
  shows "nParentID n \<noteq> []"
  using ns_wfD(3) [OF assms(1) [unfolded ns_inv_def] assms(2)] assms(3,4)
  by (auto simp: root_ok_def gget_or_def)

lemma EnsureTenant_inv:
  assumes "ns_inv r" and "gget (nodes r) (tsRootNodeID seed) = None" and "tsRootNodeID seed \<noteq> []"
  shows "ns_inv (snd (Repo_EnsureTenant seed r))"
proof (cases "gget (tenants r) (tsTenantID seed)")
  case None
  then show ?thesis
    using assms unfolding ns_inv_def Repo_EnsureTenant_def
    by (auto simp: Let_def gget_gput_fun visible_def zero_Node_def intro!: ns_wf_add_root)
qed (use assms in \<open>simp add: Repo_EnsureTenant_def\<close>)

lemma nameExists_free:
  assumes inv: "ns_inv r" and "\<not> nameExists r t p nm x"
    and "gget (nodes r) k = Some n" "k \<noteq> x" "nTenantID n = t" "nParentID n = p" "nNormalizedName n = nm"
  shows "\<not> visible n"
  using assms ns_wfD(1) [OF inv [unfolded ns_inv_def] assms(3)] by (auto simp: nameExists_iff)

lemma fresh_no_path:
  assumes wf: "ns_wf ts m" and fresh: "m k = None" "k \<noteq> []" and p: "m p \<noteq> None"
  shows "(p, k) \<notin> (parent_rel m)\<^sup>*"
  using ns_wf_path_key [OF wf, of p k] fresh p by metis

text \<open>A new visible leaf under an active directory, as directories and files are created.\<close>

lemma ns_inv_new_leaf:
  assumes inv: "ns_inv r" and parent: "activeNode r t p = Some pn" "nKind pn = NodeDirectory"
    and name: "\<not> nameExists r t p (nNormalizedName n) []"
    and n: "nTenantID n = t" "nParentID n = p" "visible n"
    and fresh: "gget (nodes r) (nID n) = None" "nID n \<noteq> []"
    and r': "gget (nodes r') = (gget (nodes r))(nID n \<mapsto> n)" "tenants r' = tenants r"
  shows "ns_inv r'"
proof -
  note wf = inv [unfolded ns_inv_def]
  have pn: "gget (nodes r) p = Some pn" "nTenantID pn = t" "visible pn"
    using parent by (auto simp: activeNode_Some)
  have "p \<noteq> []" using ns_wfD(2) [OF wf pn(1)] .
  moreover have "(nParentID n, nID n) \<notin> (parent_rel (gget (nodes r)))\<^sup>*"
    using fresh pn n by (intro fresh_no_path [OF wf]) auto
  ultimately show ?thesis
    unfolding ns_inv_def r' using wf pn parent n fresh nameExists_free [OF inv name]
    by (intro ns_wf_put [OF wf, where p = pn]) (auto dest: ns_wfD(2) [OF wf])
qed

lemma CreateDirectory_effect:
  assumes "Repo_CreateDirectory env c r = (res, r')"
  shows "tenants r' = tenants r \<and>
    ((\<exists>e. res = Inl e \<and> (nodes r' = nodes r \<or> gget (nodes r') = (gget (nodes r))(cdID c := None)))
     \<or> (\<exists>pn. res = Inr (new_directory c) \<and> gget (nodes r') = (gget (nodes r))(cdID c \<mapsto> new_directory c)
          \<and> activeNode r (iTenantID (cdIdentity c)) (cdParentID c) = Some pn \<and> nKind pn = NodeDirectory
          \<and> \<not> nameExists r (iTenantID (cdIdentity c)) (cdParentID c) (cdNormalizedName c) []))"
  using assms unfolding Repo_CreateDirectory_def Let_def
  by (auto simp: fun_eq_iff new_directory_def split: option.splits if_splits sum.splits prod.splits
      dest!: completeIdempotency_pair appendAuditLocked_pair)

lemma CreateDirectory_inv:
  assumes inv: "ns_inv r" and fresh: "gget (nodes r) (cdID c) = None" "cdID c \<noteq> []"
  shows "ns_inv (snd (Repo_CreateDirectory env c r))"
proof -
  obtain res r' where op: "Repo_CreateDirectory env c r = (res, r')" by fastforce
  from CreateDirectory_effect [OF op] consider
    (same) "tenants r' = tenants r" "gget (nodes r') = gget (nodes r)"
  | (new) pn where "tenants r' = tenants r" "gget (nodes r') = (gget (nodes r))(cdID c \<mapsto> new_directory c)"
      "activeNode r (iTenantID (cdIdentity c)) (cdParentID c) = Some pn" "nKind pn = NodeDirectory"
      "\<not> nameExists r (iTenantID (cdIdentity c)) (cdParentID c) (cdNormalizedName c) []"
    using fresh by (auto simp: fun_upd_idem)
  then show ?thesis
  proof cases
    case same
    then show ?thesis using inv op by (simp add: ns_inv_def)
  next
    case new
    then show ?thesis
      using fresh by (simp add: op, intro ns_inv_new_leaf [OF inv, where n = "new_directory c" and pn = pn])
        (auto simp: new_directory_def visible_def zero_Node_def)
  qed
qed

lemma UpdateNode_effect:
  assumes "Repo_UpdateNode env c r = Some (res, r')"
  shows "tenants r' = tenants r \<and>
    ((\<exists>e. res = Inl e) \<and> nodes r' = nodes r \<or>
     (\<exists>node target node'. activeNode r (iTenantID (unIdentity c)) (unNodeID c) = Some node
        \<and> tRootNodeID (gget_or zero_Tenant (tenants r) (iTenantID (unIdentity c))) \<noteq> nID node
        \<and> nRevision node = unExpectedRevision c
        \<and> UpdateNode_parent c node r = Some (Inr target)
        \<and> \<not> nameExists r (iTenantID (unIdentity c)) target
              (case unNormalizedName c of None \<Rightarrow> nNormalizedName node | Some nm \<Rightarrow> nm) (nID node)
        \<and> UpdateNode_apply c node = Some node' \<and> nodes r' = gput (nID node') node' (nodes r)
        \<and> (res = Inr node' \<or> (\<exists>e. res = Inl e))))"
  using assms unfolding Repo_UpdateNode_def Let_def
  by (auto split: option.splits if_splits sum.splits dest!: with_audit_pair dest: appendAuditLocked_pair)

text \<open>The service sends the display name and its normal form together or not at all.\<close>

definition update_names_ok :: "UpdateNodeCommand \<Rightarrow> bool" where
  "update_names_ok c \<longleftrightarrow> (unDisplayName c = None) = (unNormalizedName c = None)"

lemma UpdateNode_apply_fields:
  assumes "UpdateNode_apply c node = Some node'"
  shows "nID node' = nID node" and "nTenantID node' = nTenantID node" and "nKind node' = nKind node"
    and "visible node' = visible node"
    and "nParentID node' = (case unParentID c of None \<Rightarrow> nParentID node | Some p \<Rightarrow> p)"
    and "update_names_ok c \<Longrightarrow>
      nNormalizedName node' = (case unNormalizedName c of None \<Rightarrow> nNormalizedName node | Some nm \<Rightarrow> nm)"
    and "nRevision node' = wrap64 (nRevision node + 1)"
    and "nCurrentVersionID node' = nCurrentVersionID node"
  using assms by (auto simp: UpdateNode_apply_def update_names_ok_def visible_def Let_def split: option.splits)

lemma UpdateNode_parent_ok:
  assumes inv: "ns_inv r" and node: "activeNode r t k = Some node" "nParentID node \<noteq> []" "t = iTenantID (unIdentity c)"
    and target: "UpdateNode_parent c node r = Some (Inr target)"
  shows "target = (case unParentID c of None \<Rightarrow> nParentID node | Some p \<Rightarrow> p)"
    and "\<exists>p. gget (nodes r) target = Some p \<and> nTenantID p = t \<and> nKind p = NodeDirectory \<and> visible p"
    and "(target, k) \<notin> (parent_rel (gget (nodes r)))\<^sup>*"
proof -
  note wf = inv [unfolded ns_inv_def]
  from node have k: "gget (nodes r) k = Some node" "nTenantID node = t" "visible node"
    by (auto simp: activeNode_Some)
  have kid: "nID node = k" "k \<noteq> []" using ns_wfD(1,2) [OF wf k(1)] .
  show tgt: "target = (case unParentID c of None \<Rightarrow> nParentID node | Some p \<Rightarrow> p)"
    using target by (auto simp: UpdateNode_parent_def Let_def split: option.splits if_splits)
  show ex: "\<exists>p. gget (nodes r) target = Some p \<and> nTenantID p = t \<and> nKind p = NodeDirectory \<and> visible p"
    using target ns_wf_visible_parent [OF wf k(1) node(2) k(3)] k node(3)
    by (auto simp: UpdateNode_parent_def Let_def activeNode_Some split: option.splits if_splits)
  then obtain p where p: "gget (nodes r) target = Some p" "nTenantID p = t" "nKind p = NodeDirectory" by auto
  show "(target, k) \<notin> (parent_rel (gget (nodes r)))\<^sup>*"
  proof (cases "unParentID c")
    case None
    then have "(k, target) \<in> parent_rel (gget (nodes r))" using tgt k by (auto simp: parent_rel_def)
    then show ?thesis
      using wf unfolding ns_wf_def acyclic_def by (metis rtrancl_into_trancl2)
  next
    case (Some x)
    show ?thesis
    proof (cases "nKind node = NodeDirectory")
      case True
      have "isDescendant r target k t = Some ((target, k) \<in> (parent_rel (gget (nodes r)))\<^sup>*)"
        by (rule isDescendant_walk [OF inv kid(2)]) (use p in auto)
      with target Some True tgt kid node(3) show ?thesis
        by (auto simp: UpdateNode_parent_def Let_def split: option.splits if_splits)
    next
      case False
      with p k have "target \<noteq> k" by auto
      with file_no_descendant [OF wf k(1) False] show ?thesis by blast
    qed
  qed
qed

lemma UpdateNode_inv:
  assumes inv: "ns_inv r" and names: "update_names_ok c"
    and op: "Repo_UpdateNode env c r = Some (res, r')"
  shows "ns_inv r'"
proof -
  note wf = inv [unfolded ns_inv_def]
  let ?t = "iTenantID (unIdentity c)"
  from UpdateNode_effect [OF op] consider "tenants r' = tenants r" "nodes r' = nodes r"
  | node target node' where "tenants r' = tenants r" "activeNode r ?t (unNodeID c) = Some node"
      "tRootNodeID (gget_or zero_Tenant (tenants r) ?t) \<noteq> nID node"
      "UpdateNode_parent c node r = Some (Inr target)"
      "\<not> nameExists r ?t target (case unNormalizedName c of None \<Rightarrow> nNormalizedName node | Some nm \<Rightarrow> nm) (nID node)"
      "UpdateNode_apply c node = Some node'" "nodes r' = gput (nID node') node' (nodes r)"
    by blast
  then show ?thesis
  proof cases
    case 1
    with inv show ?thesis by (simp add: ns_inv_def)
  next
    case 2
    from 2(2) have k: "gget (nodes r) (unNodeID c) = Some node" "nTenantID node = ?t" "visible node"
      by (auto simp: activeNode_Some)
    have kid: "nID node = unNodeID c" "unNodeID c \<noteq> []" using ns_wfD(1,2) [OF wf k(1)] .
    have par: "nParentID node \<noteq> []" using not_tenant_root [OF inv k(1,2)] 2(3) kid by simp
    note tgt = UpdateNode_parent_ok [OF inv 2(2) par refl 2(4)]
    note flds = UpdateNode_apply_fields [OF 2(6)]
    have target: "nParentID node' = target" using flds(5) tgt(1) by simp
    obtain p where p: "gget (nodes r) target = Some p" "nTenantID p = ?t" "nKind p = NodeDirectory" "visible p"
      using tgt(2) by auto
    have "target \<noteq> []" using ns_wfD(2) [OF wf p(1)] .
    have "ns_wf (gget (tenants r)) ((gget (nodes r))(unNodeID c \<mapsto> node'))"
    proof (rule ns_wf_put [OF wf kid(2), where p = p])
      fix k' n'
      assume "gget (nodes r) k' = Some n'" "k' \<noteq> unNodeID c" "nTenantID n' = nTenantID node'"
        "nParentID n' = nParentID node'" "nNormalizedName n' = nNormalizedName node'"
      then show "\<not> visible n'"
        using nameExists_free [OF inv 2(5), of k' n'] kid k flds target names by auto
    qed (use flds kid k p target \<open>target \<noteq> []\<close> tgt(3) par in auto)
    then show ?thesis using 2(1,7) flds(1) kid by (simp add: ns_inv_def gget_gput_fun)
  qed
qed

lemma UpdateNode_returns:
  assumes inv: "ns_inv r"
  shows "\<exists>res r'. Repo_UpdateNode env c r = Some (res, r')"
proof -
  have "UpdateNode_parent c node r \<noteq> None"
    if k: "activeNode r (iTenantID (unIdentity c)) (unNodeID c) = Some node" for node
  proof -
    have "isDescendant r target (nID node) (iTenantID (unIdentity c)) \<noteq> None"
      if "activeNode r (iTenantID (unIdentity c)) target = Some p" for target p
      using that k ns_wfD(1,2) [OF inv [unfolded ns_inv_def]]
      by (subst isDescendant_walk [OF inv]) (auto simp: activeNode_Some)
    then show ?thesis by (auto simp: UpdateNode_parent_def Let_def split: option.splits)
  qed
  then show ?thesis
    by (fastforce simp: Repo_UpdateNode_def Let_def split: option.splits sum.splits prod.splits)
qed

section \<open>A sample repository\<close>

text \<open>A tenant with a directory \<open>a\<close>, its subdirectory \<open>b\<close> and a sibling \<open>c\<close>, for the witnesses.\<close>

definition sample_env :: Env where
  "sample_env = \<lparr>envCtx = ''req-1'', envRand = Inr (replicate 16 CHR ''a'')\<rparr>"

definition sample_identity :: Identity where
  "sample_identity = \<lparr>iTenantID = ''t1'', iPrincipalID = ''u1''\<rparr>"

definition sample_seed :: TenantSeed where
  "sample_seed = \<lparr>tsTenantID = ''t1'', tsDisplayName = ''Tenant'', tsRootNodeID = ''root'', tsNow = 1\<rparr>"

definition sample_node :: "NodeKind \<Rightarrow> string \<Rightarrow> string \<Rightarrow> string \<Rightarrow> Node" where
  "sample_node kind i parent nm = zero_Node\<lparr>nID := i, nTenantID := ''t1'', nParentID := parent,
     nKind := kind, nDisplayName := nm, nNormalizedName := nm, nStatus := NodeActive, nRevision := 1,
     nCreatedAt := 2, nUpdatedAt := 2\<rparr>"

definition sample_tenant :: Repository where
  "sample_tenant = snd (Repo_EnsureTenant sample_seed NewRepository)"

definition sample_add :: "Node \<Rightarrow> Repository \<Rightarrow> Repository" where
  "sample_add n r = r\<lparr>nodes := gput (nID n) n (nodes r)\<rparr>"

definition sample_repo :: Repository where
  "sample_repo = sample_add (sample_node NodeDirectory ''dc'' ''root'' ''c'')
     (sample_add (sample_node NodeDirectory ''db'' ''da'' ''b'')
       (sample_add (sample_node NodeDirectory ''da'' ''root'' ''a'') sample_tenant))"

lemma sample_tenant_inv: "ns_inv sample_tenant"
  unfolding sample_tenant_def by (rule EnsureTenant_inv [OF ns_inv_NewRepository]) code_simp+

lemma sample_add_inv:
  assumes "ns_inv r" and n: "nTenantID n = ''t1''" "visible n"
    and p: "map_option nKind (activeNode r ''t1'' (nParentID n)) = Some NodeDirectory"
    and name: "\<not> nameExists r ''t1'' (nParentID n) (nNormalizedName n) []"
    and fresh: "gget (nodes r) (nID n) = None" "nID n \<noteq> []"
  shows "ns_inv (sample_add n r)"
proof -
  obtain pn where pn: "activeNode r ''t1'' (nParentID n) = Some pn" "nKind pn = NodeDirectory"
    using p by (cases "activeNode r ''t1'' (nParentID n)") simp_all
  show ?thesis
    by (rule ns_inv_new_leaf [OF assms(1) pn name n(1) refl n(2) fresh])
      (simp_all add: sample_add_def gget_gput_fun)
qed

lemma sample_repo_inv: "ns_inv sample_repo"
  unfolding sample_repo_def by (intro sample_add_inv sample_tenant_inv) code_simp+

section \<open>Properties\<close>

text \<open>
  Property C27. In every state that keeps the namespace invariant, the upward walk of
  \<^verbatim>\<open>isDescendant\<close> from a directory of the tenant ends, and answers whether the node is the
  ancestor or lies below it.
\<close>

theorem isDescendant_correct:
  assumes "ns_inv r" and "ancestor \<noteq> []" and "gget (nodes r) candidate = Some n" and "nTenantID n = t"
  shows "isDescendant r candidate ancestor t = Some ((candidate, ancestor) \<in> (parent_rel (gget (nodes r)))\<^sup>*)"
  using assms by (intro isDescendant_walk) auto

theorem isDescendant_correct_witness:
  "(''db'', ''da'') \<in> (parent_rel (gget (nodes sample_repo)))\<^sup>*"
proof -
  have "map_option nTenantID (gget (nodes sample_repo) ''db'') = Some ''t1''" by code_simp
  then obtain n where n: "gget (nodes sample_repo) ''db'' = Some n" "nTenantID n = ''t1''" by auto
  have "isDescendant sample_repo ''db'' ''da'' ''t1'' = Some True" by code_simp
  with isDescendant_correct [OF sample_repo_inv _ n, of "''da''"] show ?thesis by simp
qed

text \<open>
  The downward walk of \<^verbatim>\<open>activeSubtree\<close> ends and returns, each once, exactly the
  ids reachable from the root through visible nodes of the tenant.
\<close>

theorem activeSubtree_correct:
  assumes "ns_inv r" and "gget (nodes r) root \<noteq> None"
  shows "\<exists>ids. activeSubtree r root t = Some ids \<and> distinct ids
    \<and> (\<forall>c. c \<in> set ids \<longleftrightarrow> (root, c) \<in> (child_rel (gget (nodes r)) t)\<^sup>*)"
  using activeSubtree_ends [OF assms, of t] by (auto simp: subtree_def)

theorem activeSubtree_correct_witness:
  "(''root'', ''db'') \<in> (child_rel (gget (nodes sample_repo)) ''t1'')\<^sup>*"
proof -
  have "gget (nodes sample_repo) ''root'' \<noteq> None" by code_simp
  moreover have "activeSubtree sample_repo ''root'' ''t1'' = Some [''root'', ''dc'', ''da'', ''db'']"
    by code_simp
  ultimately show ?thesis
    using activeSubtree_correct [OF sample_repo_inv, of "''root''" "''t1''"] by auto
qed
text \<open>
  Moving a directory into itself or below itself is refused with
  \<^verbatim>\<open>invalid_request\<close> and changes nothing.
\<close>

theorem UpdateNode_no_move_below_itself:
  assumes inv: "ns_inv r" and c: "unParentID c = Some target" "unIdentity c = identity"
    and node: "activeNode r (iTenantID identity) (unNodeID c) = Some node" "nKind node = NodeDirectory"
      "nParentID node \<noteq> []" "nRevision node = unExpectedRevision c"
    and target: "activeNode r (iTenantID identity) target = Some p" "nKind p = NodeDirectory"
      "(target, unNodeID c) \<in> (parent_rel (gget (nodes r)))\<^sup>*"
  shows "\<exists>e. Repo_UpdateNode env c r = Some (Inl e, r) \<and> CodeOf e = CodeInvalidRequest"
proof -
  note wf = inv [unfolded ns_inv_def]
  have k: "gget (nodes r) (unNodeID c) = Some node" "gget (nodes r) target = Some p"
    "nTenantID p = iTenantID identity" using node target by (auto simp: activeNode_Some)
  have kid: "nID node = unNodeID c" "unNodeID c \<noteq> []" using ns_wfD(1,2) [OF wf k(1)] .
  have "isDescendant r target (nID node) (iTenantID identity) = Some True"
    using isDescendant_walk [OF inv kid(2), of target] k target kid by auto
  with c node target show ?thesis
    by (auto simp: Repo_UpdateNode_def UpdateNode_parent_def Let_def)
qed

definition sample_move :: UpdateNodeCommand where
  "sample_move = \<lparr>unIdentity = sample_identity, unNodeID = ''da'', unDisplayName = None,
     unNormalizedName = None, unParentID = Some ''db'', unExpectedRevision = 1, unNow = 3\<rparr>"

theorem UpdateNode_no_move_below_itself_witness:
  "\<exists>e. Repo_UpdateNode sample_env sample_move sample_repo = Some (Inl e, sample_repo)
     \<and> CodeOf e = CodeInvalidRequest"
proof -
  have da: "activeNode sample_repo ''t1'' ''da'' = Some (sample_node NodeDirectory ''da'' ''root'' ''a'')"
    and db: "activeNode sample_repo ''t1'' ''db'' = Some (sample_node NodeDirectory ''db'' ''da'' ''b'')" by code_simp+
  have "(''db'', ''da'') \<in> (parent_rel (gget (nodes sample_repo)))\<^sup>*"
    using db by (intro r_into_rtrancl) (auto simp: parent_rel_def activeNode_Some sample_node_def)
  with da db show ?thesis
    by (intro UpdateNode_no_move_below_itself [OF sample_repo_inv, where target = "''db''"
          and identity = sample_identity and node = "sample_node NodeDirectory ''da'' ''root'' ''a''" and p = "sample_node NodeDirectory ''db'' ''da'' ''b''"])
      (simp_all add: sample_move_def sample_identity_def sample_node_def)
qed

definition child_page :: "Repository \<Rightarrow> Identity \<Rightarrow> string \<Rightarrow> int \<Rightarrow> CursorPosition \<Rightarrow> (Node list \<times> bool) option" where
  "child_page r identity parentID limit after =
     (case Repo_ListChildren identity parentID after limit r of Inl _ \<Rightarrow> None | Inr page \<Rightarrow> Some page)"

definition node_position :: "Node \<Rightarrow> CursorPosition" where
  "node_position n = \<lparr>posName = nNormalizedName n, posID = nID n\<rparr>"

definition start_position :: CursorPosition where
  "start_position = \<lparr>posName = [], posID = []\<rparr>"

text \<open>
  Property C29. A client that follows the pages of \<^verbatim>\<open>ListChildren\<close> gets every visible child of
  the directory exactly once, in name order, whatever the page size.
\<close>

theorem ListChildren_pages_complete:
  assumes inv: "ns_inv r" and limit: "0 < limit" and fuel: "length (nodes r) < fuel"
    and parent: "activeNode r (iTenantID identity) parentID = Some p" "nKind p = NodeDirectory"
  shows "\<exists>items. follow_pages fuel (child_page r identity parentID limit) node_position start_position = Some items
    \<and> distinct items \<and> sorted_wrt nodeLess items
    \<and> (\<forall>n. n \<in> set items \<longleftrightarrow> activeNode r (iTenantID identity) (nID n) = Some n \<and> nParentID n = parentID)"
proof -
  note wf = inv [unfolded ns_inv_def]
  define xs where "xs = filter (\<lambda>n. nTenantID n = iTenantID identity \<and> nParentID n = parentID \<and> visible n)
    (gvals (nodes r))"
  have set_xs: "n \<in> set xs \<longleftrightarrow> activeNode r (iTenantID identity) (nID n) = Some n \<and> nParentID n = parentID" for n
    using ns_wfD(1) [OF wf] by (auto simp: xs_def activeNode_Some)
  have carrier: "set xs \<subseteq> {n. nID n \<noteq> [] \<and> gget (nodes r) (nID n) = Some n}"
    using set_xs ns_wfD(2) [OF wf] by (auto simp: activeNode_Some)
  have dist: "distinct xs"
    unfolding xs_def using distinct_ids [OF wf] by (auto simp: distinct_map)
  have page: "child_page r identity parentID limit after
      = slice_page limit (sort_slice nodeLess (filter (\<lambda>x. afterPosition x after) xs))" for after
    using parent limit by (auto simp: child_page_def Repo_ListChildren_def activeNode_Some sortNodes_def
        children_after_def xs_def filter_filter conj_ac split: option.splits)
  have all: "filter (\<lambda>x. afterPosition x start_position) xs = xs"
    by (simp add: afterPosition_def start_position_def)
  have "length xs \<le> length (gvals (nodes r))" by (simp add: xs_def)
  also have "\<dots> \<le> length (nodes r)" unfolding gvals_def by (simp add: length_gentries_le)
  finally have "length xs < fuel" using fuel by simp
  then have "follow_pages fuel (child_page r identity parentID limit) node_position start_position
      = Some (sort_slice nodeLess xs)"
    using node_pages.follow_pages_all [OF carrier dist limit page, of start_position fuel] all
    by (simp add: node_position_def [abs_def])
  moreover have "sorted_wrt nodeLess (sort_slice nodeLess xs)"
    by (rule node_pages.strict_sort_slice [OF carrier dist])
  ultimately show ?thesis using dist set_xs by auto
qed

theorem ListChildren_pages_complete_witness:
  "\<exists>items. follow_pages 9 (child_page sample_repo sample_identity ''root'' 1) node_position start_position = Some items
    \<and> distinct items \<and> sorted_wrt nodeLess items
    \<and> (\<forall>n. n \<in> set items \<longleftrightarrow> activeNode sample_repo (iTenantID sample_identity) (nID n) = Some n
          \<and> nParentID n = ''root'')"
proof -
  have "length (nodes sample_repo) < 9" by code_simp
  moreover have "map_option nKind (activeNode sample_repo (iTenantID sample_identity) ''root'') = Some NodeDirectory"
    by code_simp
  ultimately show ?thesis
    by (auto intro!: ListChildren_pages_complete [OF sample_repo_inv])
qed

end
