(* ===== verification/Memory_Identity.thy ===== *)
theory Memory_Identity
  imports Memory_Namespace
begin

text \<open>
  Principals and tenant memberships of \<^verbatim>\<open>internal/memory/repository.go\<close> and \<^verbatim>\<open>governance.go\<close>:
  binding an OIDC identity to a principalcipal, resolving it, and the role and status changes of
  members with the rules that protect owners.
\<close>

definition seed_identity :: "OIDCMemberSeed \<Rightarrow> Identity" where
  "seed_identity seed = \<lparr>iTenantID = osTenantID seed, iPrincipalID = osPrincipalID seed\<rparr>"

definition seed_member :: "OIDCMemberSeed \<Rightarrow> Tenant \<Rightarrow> PrincipalRecord" where
  "seed_member seed tenant = \<lparr>pIdentity = seed_identity seed, pIssuer = osIssuer seed, pSubject = osSubject seed,
     pDisplayName = osDisplayName seed, pTenantDisplayName = tDisplayName tenant,
     pRole = osRole seed, pStatus = MemberStatusActive\<rparr>"

definition seed_principal :: "OIDCMemberSeed \<Rightarrow> PrincipalRecord" where
  "seed_principal seed = \<lparr>pIdentity = seed_identity seed, pIssuer = osIssuer seed, pSubject = osSubject seed,
     pDisplayName = osDisplayName seed, pTenantDisplayName = [], pRole = RoleOther [],
     pStatus = MemberStatusOther []\<rparr>"

text \<open>The tail of \<^verbatim>\<open>EnsureOIDCMember\<close> once the principal is settled.\<close>

definition EnsureOIDCMember_join :: "OIDCMemberSeed \<Rightarrow> Tenant \<Rightarrow> PrincipalRecord op" where
  "EnsureOIDCMember_join seed tenant r =
     (let key = memberKey (osTenantID seed) (osPrincipalID seed)
      in (case gget (members r) key of
            Some m \<Rightarrow> (Inr m, r)
          | None \<Rightarrow> (Inr (seed_member seed tenant),
                     r\<lparr>members := gput key (seed_member seed tenant) (members r)\<rparr>)))"

definition Repo_EnsureOIDCMember :: "OIDCMemberSeed \<Rightarrow> PrincipalRecord op" where
  "Repo_EnsureOIDCMember seed r =
     (if osTenantID seed = [] \<or> osPrincipalID seed = [] \<or> osIssuer seed = [] \<or> osSubject seed = []
         \<or> \<not> ValidAccessRole (osRole seed)
      then (Inl (E CodeInvalidRequest ''OIDC member seed is invalid''), r)
      else
        (case gget (tenants r) (osTenantID seed) of
           None \<Rightarrow> (Inl (E CodeNotFound ''tenant was not found''), r)
         | Some tenant \<Rightarrow>
             let externalKey = principalKey (osIssuer seed) (osSubject seed)
             in (case gget (principals r) externalKey of
                   Some p \<Rightarrow>
                     if iPrincipalID (pIdentity p) \<noteq> osPrincipalID seed
                     then (Inl (E CodeNameConflict ''OIDC identity is mapped to another principal''), r)
                     else EnsureOIDCMember_join seed tenant r
                 | None \<Rightarrow>
                     if list_ex (\<lambda>p. iPrincipalID (pIdentity p) = osPrincipalID seed
                          \<and> (pIssuer p \<noteq> osIssuer seed \<or> pSubject p \<noteq> osSubject seed)) (gvals (principals r))
                     then (Inl (E CodeNameConflict ''principal id is mapped to another OIDC identity''), r)
                     else EnsureOIDCMember_join seed tenant
                            (r\<lparr>principals := gput externalKey (seed_principal seed) (principals r)\<rparr>))))"

definition Repo_ResolveOIDCPrincipal :: "string \<Rightarrow> string \<Rightarrow> string \<Rightarrow> Repository \<Rightarrow> PrincipalRecord result" where
  "Repo_ResolveOIDCPrincipal issuer subject tenantID r =
     (let forbidden = E CodeForbidden ''identity is not a member of this tenant''
      in (case gget (principals r) (principalKey issuer subject) of
            None \<Rightarrow> Inl forbidden
          | Some prin \<Rightarrow>
              (case gget (members r) (memberKey tenantID (iPrincipalID (pIdentity prin))) of
                 None \<Rightarrow> Inl forbidden
               | Some member \<Rightarrow> if pStatus member \<noteq> MemberStatusActive then Inl forbidden else Inr member)))"

definition Repo_SetOIDCMemberStatus :: "string \<Rightarrow> string \<Rightarrow> MemberStatus \<Rightarrow> unit op" where
  "Repo_SetOIDCMemberStatus tenantID principalID status r =
     (if tenantID = [] \<or> principalID = [] \<or> \<not> ValidMemberStatus status
      then (Inl (E CodeInvalidRequest ''OIDC member status is invalid''), r)
      else
        (case gget (members r) (memberKey tenantID principalID) of
           None \<Rightarrow> (Inl (E CodeNotFound ''tenant member was not found''), r)
         | Some member \<Rightarrow>
             (Inr (), r\<lparr>members := gput (memberKey tenantID principalID) (member\<lparr>pStatus := status\<rparr>) (members r)\<rparr>)))"

definition afterMemberPosition :: "PrincipalRecord \<Rightarrow> CursorPosition \<Rightarrow> bool" where
  "afterMemberPosition member after \<longleftrightarrow> posID after = [] \<or> iPrincipalID (pIdentity member) > posName after"

definition memberLess :: "PrincipalRecord \<Rightarrow> PrincipalRecord \<Rightarrow> bool" where
  "memberLess a b \<longleftrightarrow> iPrincipalID (pIdentity a) < iPrincipalID (pIdentity b)"

definition Repo_ListMembers ::
  "string \<Rightarrow> CursorPosition \<Rightarrow> int \<Rightarrow> Repository \<Rightarrow> (PrincipalRecord list \<times> bool) result" where
  "Repo_ListMembers tenantID after limit r =
     (case gget (tenants r) tenantID of
        None \<Rightarrow> Inl (E CodeNotFound ''tenant was not found'')
      | Some _ \<Rightarrow>
          (case slice_page limit (sort_slice memberLess
                  (filter (\<lambda>member. iTenantID (pIdentity member) = tenantID \<and> afterMemberPosition member after)
                    (gvals (members r)))) of
             None \<Rightarrow> Inl (Panic ''slice bounds out of range'')
           | Some page \<Rightarrow> Inr page))"

definition activeOwnerCount :: "string \<Rightarrow> string \<Rightarrow> Repository \<Rightarrow> nat" where
  "activeOwnerCount tenantID excludePrincipalID r =
     length (filter (\<lambda>member. iTenantID (pIdentity member) = tenantID
        \<and> iPrincipalID (pIdentity member) \<noteq> excludePrincipalID
        \<and> pRole member = RoleOwner \<and> pStatus member = MemberStatusActive) (gvals (members r)))"

definition UpdateMember_valid :: "UpdateMemberCommand \<Rightarrow> bool" where
  "UpdateMember_valid c \<longleftrightarrow> \<not> (umTenantID c = [] \<or> umPrincipalID c = [] \<or> umActorPrincipalID c = []
     \<or> \<not> ValidAccessRole (umActorRole c) \<or> (umRole c = None \<and> umStatus c = None)
     \<or> (case umRole c of None \<Rightarrow> False | Some role \<Rightarrow> \<not> ValidAccessRole role)
     \<or> (case umStatus c of None \<Rightarrow> False | Some status \<Rightarrow> \<not> ValidMemberStatus status))"

definition UpdateMember_apply :: "UpdateMemberCommand \<Rightarrow> Repository \<Rightarrow> PrincipalRecord \<Rightarrow> PrincipalRecord" where
  "UpdateMember_apply c r member = member
     \<lparr>pRole := (case umRole c of None \<Rightarrow> pRole member | Some role \<Rightarrow> role),
      pStatus := (case umStatus c of None \<Rightarrow> pStatus member | Some status \<Rightarrow> status),
      pTenantDisplayName := tDisplayName (gget_or zero_Tenant (tenants r) (umTenantID c))\<rparr>"

definition Repo_UpdateMember :: "Env \<Rightarrow> UpdateMemberCommand \<Rightarrow> PrincipalRecord op" where
  "Repo_UpdateMember env c r =
     (if \<not> UpdateMember_valid c then (Inl (E CodeInvalidRequest ''member update is invalid''), r)
      else if (case gget (members r) (memberKey (umTenantID c) (umActorPrincipalID c)) of
                 None \<Rightarrow> True
               | Some actor \<Rightarrow> pStatus actor \<noteq> MemberStatusActive \<or> pRole actor \<noteq> umActorRole c
                   \<or> (umActorRole c \<noteq> RoleOwner \<and> umActorRole c \<noteq> RoleAdmin))
      then (Inl (E CodeForbidden ''only active owners and admins may manage members''), r)
      else
        (let key = memberKey (umTenantID c) (umPrincipalID c)
         in (case gget (members r) key of
               None \<Rightarrow> (Inl (E CodeNotFound ''tenant member was not found''), r)
             | Some member \<Rightarrow>
                 let member' = UpdateMember_apply c r member
                 in if umActorRole c = RoleAdmin \<and> (pRole member = RoleOwner \<or> umRole c = Some RoleOwner)
                    then (Inl (E CodeForbidden ''admins cannot modify owners or grant the owner role''), r)
                    else if pRole member = RoleOwner \<and> pStatus member = MemberStatusActive
                       \<and> (pRole member' \<noteq> RoleOwner \<or> pStatus member' \<noteq> MemberStatusActive)
                       \<and> activeOwnerCount (umTenantID c) (umPrincipalID c) r = 0
                    then (Inl (E CodeInvalidState ''the last active owner cannot be removed''), r)
                    else with_audit env
                           (audit_event (umTenantID c) (umActorPrincipalID c) ''tenant.member.updated'' ''principal''
                              (umPrincipalID c) (umNow c)
                              [(''role'', AccessRole_string (pRole member')),
                               (''status'', MemberStatus_string (pStatus member'))])
                           member' (r\<lparr>members := gput key member' (members r)\<rparr>))))"

definition managingActor :: "string \<Rightarrow> string \<Rightarrow> AccessRole \<Rightarrow> Repository \<Rightarrow> bool" where
  "managingActor tenantID principalID role r =
     (case gget (members r) (memberKey tenantID principalID) of
        None \<Rightarrow> False
      | Some x \<Rightarrow> pStatus x = MemberStatusActive \<and> pRole x = role \<and> (role = RoleOwner \<or> role = RoleAdmin))"

definition groupMemberKey :: "string \<Rightarrow> string \<Rightarrow> string \<Rightarrow> string" where
  "groupMemberKey t g p = t @ ''/'' @ g @ ''/'' @ p"

definition hasMemberSuffix :: "string \<Rightarrow> string \<Rightarrow> string \<Rightarrow> bool" where
  "hasMemberSuffix k t p \<longleftrightarrow> length k > length t + length p + 2
     \<and> take (length t + 1) k = t @ ''/'' \<and> drop (length k - length p) k = p"

definition Repo_DeleteMember :: "Env \<Rightarrow> DeleteMemberCommand \<Rightarrow> unit op" where
  "Repo_DeleteMember env c r =
     (if \<not> managingActor (dmTenantID c) (dmActorPrincipalID c) (dmActorRole c) r
      then (Inl (E CodeForbidden ''only active owners and admins may manage members''), r)
      else
        (let key = memberKey (dmTenantID c) (dmPrincipalID c)
         in (case gget (members r) key of
               None \<Rightarrow> (Inl (E CodeNotFound ''tenant member was not found''), r)
             | Some m \<Rightarrow>
                 if dmActorRole c = RoleAdmin \<and> pRole m = RoleOwner
                 then (Inl (E CodeForbidden ''admins cannot delete owners''), r)
                 else if pRole m = RoleOwner \<and> pStatus m = MemberStatusActive
                    \<and> activeOwnerCount (dmTenantID c) (dmPrincipalID c) r = 0
                 then (Inl (E CodeInvalidState ''the last active owner cannot be removed''), r)
                 else appendAuditLocked env
                        (audit_event (dmTenantID c) (dmActorPrincipalID c) ''tenant.member.deleted'' ''principal''
                           (dmPrincipalID c) (dmNow c) [(''role'', AccessRole_string (pRole m))])
                        (r\<lparr>members := gdel key (members r),
                           groupMembers := filter (\<lambda>e. \<not> (fst e = groupMemberKey (dmTenantID c) [] (dmPrincipalID c)
                              \<or> hasMemberSuffix (fst e) (dmTenantID c) (dmPrincipalID c))) (groupMembers r)\<rparr>))))"

section \<open>Owners\<close>

text \<open>A membership is filed under its tenant and principal, and tenant ids carry no separator.\<close>

definition member_inv :: "Repository \<Rightarrow> bool" where
  "member_inv r \<longleftrightarrow> (\<forall>k m. gget (members r) k = Some m \<longrightarrow>
     k = memberKey (iTenantID (pIdentity m)) (iPrincipalID (pIdentity m)) \<and> CHR 0x00 \<notin> set (iTenantID (pIdentity m)))"

definition active_owner :: "string \<Rightarrow> PrincipalRecord \<Rightarrow> bool" where
  "active_owner t m \<longleftrightarrow> iTenantID (pIdentity m) = t \<and> pRole m = RoleOwner \<and> pStatus m = MemberStatusActive"

definition has_owner :: "Repository \<Rightarrow> string \<Rightarrow> bool" where
  "has_owner r t \<longleftrightarrow> list_ex (active_owner t) (gvals (members r))"

lemma has_owner_iff: "has_owner r t \<longleftrightarrow> (\<exists>k m. gget (members r) k = Some m \<and> active_owner t m)"
  unfolding has_owner_def list_ex_iff Bex_def in_gvals by blast

lemma activeOwnerCount_pos:
  "activeOwnerCount t p r \<noteq> 0 \<longleftrightarrow>
     (\<exists>k m. gget (members r) k = Some m \<and> active_owner t m \<and> iPrincipalID (pIdentity m) \<noteq> p)"
  unfolding activeOwnerCount_def active_owner_def length_0_conv filter_empty_conv Ball_def in_gvals by blast

lemma member_inv_at:
  assumes "member_inv r" and "gget (members r) (memberKey t p) = Some m" and "CHR 0x00 \<notin> set t"
  shows "pIdentity m = \<lparr>iTenantID = t, iPrincipalID = p\<rparr>"
proof -
  have "memberKey t p = memberKey (iTenantID (pIdentity m)) (iPrincipalID (pIdentity m))"
    and "CHR 0x00 \<notin> set (iTenantID (pIdentity m))" using assms(1,2) by (auto simp: member_inv_def)
  with memberKey_inj assms(3) have "t = iTenantID (pIdentity m)" "p = iPrincipalID (pIdentity m)" by blast+
  then show ?thesis by simp
qed

lemma UpdateMember_effect:
  assumes "Repo_UpdateMember env c r = (res, r')"
  shows "members r' = members r \<and> (\<exists>e. res = Inl e) \<or>
    (\<exists>m. managingActor (umTenantID c) (umActorPrincipalID c) (umActorRole c) r
       \<and> gget (members r) (memberKey (umTenantID c) (umPrincipalID c)) = Some m
       \<and> members r' = gput (memberKey (umTenantID c) (umPrincipalID c)) (UpdateMember_apply c r m) (members r)
       \<and> (umActorRole c = RoleAdmin \<longrightarrow> pRole m \<noteq> RoleOwner \<and> pRole (UpdateMember_apply c r m) \<noteq> RoleOwner)
       \<and> (pRole m = RoleOwner \<longrightarrow> pStatus m = MemberStatusActive \<longrightarrow>
            pRole (UpdateMember_apply c r m) = RoleOwner \<and> pStatus (UpdateMember_apply c r m) = MemberStatusActive
            \<or> activeOwnerCount (umTenantID c) (umPrincipalID c) r \<noteq> 0)
       \<and> (\<forall>x. res = Inr x \<longrightarrow> x = UpdateMember_apply c r m))"
proof -
  have demoted: "pRole (UpdateMember_apply c r m) \<noteq> RoleOwner"
    if "pRole m \<noteq> RoleOwner" "umRole c \<noteq> Some RoleOwner" for m
    using that by (auto simp: UpdateMember_apply_def split: option.splits)
  show ?thesis
  proof (cases "UpdateMember_valid c \<and> managingActor (umTenantID c) (umActorPrincipalID c) (umActorRole c) r")
    case False
    then have "res = Inl (E CodeInvalidRequest ''member update is invalid'') \<and> r' = r
      \<or> res = Inl (E CodeForbidden ''only active owners and admins may manage members'') \<and> r' = r"
      using assms unfolding Repo_UpdateMember_def managingActor_def
      by (cases "gget (members r) (memberKey (umTenantID c) (umActorPrincipalID c))") (auto split: if_splits)
    then show ?thesis by auto
  next
    case True
    then have actor: "\<not> (case gget (members r) (memberKey (umTenantID c) (umActorPrincipalID c)) of
        None \<Rightarrow> True
      | Some actor \<Rightarrow> pStatus actor \<noteq> MemberStatusActive \<or> pRole actor \<noteq> umActorRole c
          \<or> (umActorRole c \<noteq> RoleOwner \<and> umActorRole c \<noteq> RoleAdmin))"
      by (auto simp: managingActor_def split: option.splits)
    show ?thesis
    proof (cases "gget (members r) (memberKey (umTenantID c) (umPrincipalID c))")
      case None
      with True actor assms have "res = Inl (E CodeNotFound ''tenant member was not found'') \<and> r' = r"
        by (simp add: Repo_UpdateMember_def)
      then show ?thesis by simp
    next
      case (Some m)
      with True actor assms demoted [of m] show ?thesis
        by (auto simp: Repo_UpdateMember_def Let_def split: if_splits
            dest!: with_audit_pair appendAuditLocked_pair)
    qed
  qed
qed

lemma DeleteMember_effect:
  assumes "Repo_DeleteMember env c r = (res, r')"
  shows "members r' = members r \<and> (\<exists>e. res = Inl e) \<or>
    (\<exists>m. managingActor (dmTenantID c) (dmActorPrincipalID c) (dmActorRole c) r
       \<and> gget (members r) (memberKey (dmTenantID c) (dmPrincipalID c)) = Some m
       \<and> members r' = gdel (memberKey (dmTenantID c) (dmPrincipalID c)) (members r)
       \<and> (dmActorRole c = RoleAdmin \<longrightarrow> pRole m \<noteq> RoleOwner)
       \<and> (pRole m = RoleOwner \<longrightarrow> pStatus m = MemberStatusActive \<longrightarrow>
            activeOwnerCount (dmTenantID c) (dmPrincipalID c) r \<noteq> 0))"
  using assms unfolding Repo_DeleteMember_def Let_def
  by (auto split: if_splits option.splits dest!: appendAuditLocked_pair)

text \<open>Changing or removing one membership keeps another active owner.\<close>

lemma other_owner:
  assumes inv: "member_inv r" and nul: "CHR 0x00 \<notin> set t"
    and cnt: "activeOwnerCount t p r \<noteq> 0"
  shows "\<exists>k m. k \<noteq> memberKey t p \<and> gget (members r) k = Some m \<and> active_owner t m"
proof -
  obtain k m where m: "gget (members r) k = Some m" "active_owner t m" "iPrincipalID (pIdentity m) \<noteq> p"
    using cnt activeOwnerCount_pos by blast
  then have "k = memberKey t (iPrincipalID (pIdentity m))" using inv by (auto simp: member_inv_def active_owner_def)
  with m(3) have "k \<noteq> memberKey t p" by simp
  with m show ?thesis by blast
qed

lemma UpdateMember_keeps_owner:
  assumes inv: "member_inv r" and nul: "CHR 0x00 \<notin> set (umTenantID c)" and own: "has_owner r t"
    and op: "Repo_UpdateMember env c r = (res, r')"
  shows "has_owner r' t"
  using UpdateMember_effect [OF op]
proof (elim disjE exE conjE)
  fix m
  let ?k = "memberKey (umTenantID c) (umPrincipalID c)"
  assume m: "gget (members r) ?k = Some m"
    and eff: "members r' = gput ?k (UpdateMember_apply c r m) (members r)"
    and last: "pRole m = RoleOwner \<longrightarrow> pStatus m = MemberStatusActive \<longrightarrow>
       pRole (UpdateMember_apply c r m) = RoleOwner \<and> pStatus (UpdateMember_apply c r m) = MemberStatusActive
       \<or> activeOwnerCount (umTenantID c) (umPrincipalID c) r \<noteq> 0"
  obtain k o' where o': "gget (members r) k = Some o'" "active_owner t o'" using own has_owner_iff by blast
  show ?thesis
  proof (cases "k = ?k")
    case False
    with o' eff show ?thesis by (auto simp: has_owner_iff)
  next
    case True
    with m o' have [simp]: "o' = m" by simp
    have ident: "pIdentity m = \<lparr>iTenantID = umTenantID c, iPrincipalID = umPrincipalID c\<rparr>"
      by (rule member_inv_at [OF inv m nul])
    have t: "t = umTenantID c" using o'(2) ident by (simp add: active_owner_def)
    show ?thesis
    proof (cases "activeOwnerCount (umTenantID c) (umPrincipalID c) r = 0")
      case True
      with last o'(2) have "active_owner t (UpdateMember_apply c r m)"
        by (auto simp: active_owner_def UpdateMember_apply_def)
      with eff show ?thesis by (auto simp: has_owner_iff)
    next
      case False
      from other_owner [OF inv nul False] eff t show ?thesis by (auto simp: has_owner_iff)
    qed
  qed
qed (use own in \<open>simp add: has_owner_def\<close>)

lemma DeleteMember_keeps_owner:
  assumes inv: "member_inv r" and nul: "CHR 0x00 \<notin> set (dmTenantID c)" and own: "has_owner r t"
    and op: "Repo_DeleteMember env c r = (res, r')"
  shows "has_owner r' t"
  using DeleteMember_effect [OF op]
proof (elim disjE exE conjE)
  fix m
  let ?k = "memberKey (dmTenantID c) (dmPrincipalID c)"
  assume m: "gget (members r) ?k = Some m" and eff: "members r' = gdel ?k (members r)"
    and last: "pRole m = RoleOwner \<longrightarrow> pStatus m = MemberStatusActive \<longrightarrow>
       activeOwnerCount (dmTenantID c) (dmPrincipalID c) r \<noteq> 0"
  obtain k o' where o': "gget (members r) k = Some o'" "active_owner t o'" using own has_owner_iff by blast
  show ?thesis
  proof (cases "k = ?k")
    case False
    with o' eff show ?thesis by (auto simp: has_owner_iff)
  next
    case True
    with m o' have [simp]: "o' = m" by simp
    have "pIdentity m = \<lparr>iTenantID = dmTenantID c, iPrincipalID = dmPrincipalID c\<rparr>"
      by (rule member_inv_at [OF inv m nul])
    with o'(2) last have "t = dmTenantID c" "activeOwnerCount (dmTenantID c) (dmPrincipalID c) r \<noteq> 0"
      by (auto simp: active_owner_def)
    with other_owner [OF inv nul] eff show ?thesis by (auto simp: has_owner_iff)
  qed
qed (use own in \<open>simp add: has_owner_def\<close>)

lemma member_inv_put:
  assumes "member_inv r" and "members r' = gput (memberKey t p) m (members r)"
    and "pIdentity m = \<lparr>iTenantID = t, iPrincipalID = p\<rparr>" and "CHR 0x00 \<notin> set t"
  shows "member_inv r'"
  using assms by (auto simp: member_inv_def)

lemma UpdateMember_member_inv:
  assumes inv: "member_inv r" and nul: "CHR 0x00 \<notin> set (umTenantID c)"
    and op: "Repo_UpdateMember env c r = (res, r')"
  shows "member_inv r'"
  using UpdateMember_effect [OF op]
proof (elim disjE exE conjE)
  fix m
  assume m: "gget (members r) (memberKey (umTenantID c) (umPrincipalID c)) = Some m"
    and eff: "members r' = gput (memberKey (umTenantID c) (umPrincipalID c)) (UpdateMember_apply c r m) (members r)"
  have "pIdentity (UpdateMember_apply c r m) = pIdentity m" by (simp add: UpdateMember_apply_def)
  with member_inv_at [OF inv m nul] show ?thesis by (intro member_inv_put [OF inv eff _ nul]) simp
qed (use inv in \<open>simp add: member_inv_def\<close>)

lemma DeleteMember_member_inv:
  assumes inv: "member_inv r" and op: "Repo_DeleteMember env c r = (res, r')"
  shows "member_inv r'"
proof -
  have "gget (members r) k = Some m" if "gget (members r') k = Some m" for k m
    using DeleteMember_effect [OF op] that by (auto split: if_splits)
  with inv show ?thesis unfolding member_inv_def by blast
qed

lemma EnsureOIDCMember_effect:
  assumes "Repo_EnsureOIDCMember seed r = (res, r')"
  shows "nodes r' = nodes r \<and> tenants r' = tenants r \<and> (members r' = members r \<or>
    (\<exists>tenant. gget (members r) (memberKey (osTenantID seed) (osPrincipalID seed)) = None
      \<and> members r' = gput (memberKey (osTenantID seed) (osPrincipalID seed)) (seed_member seed tenant) (members r)))"
proof -
  have join: "nodes (snd (EnsureOIDCMember_join seed tenant s)) = nodes s
      \<and> tenants (snd (EnsureOIDCMember_join seed tenant s)) = tenants s
      \<and> (members (snd (EnsureOIDCMember_join seed tenant s)) = members s \<or>
         gget (members s) (memberKey (osTenantID seed) (osPrincipalID seed)) = None \<and>
         members (snd (EnsureOIDCMember_join seed tenant s))
           = gput (memberKey (osTenantID seed) (osPrincipalID seed)) (seed_member seed tenant) (members s))" for tenant s
    by (simp add: EnsureOIDCMember_join_def Let_def split: option.split)
  have "r' = r \<or> (\<exists>tenant ps. EnsureOIDCMember_join seed tenant (r\<lparr>principals := ps\<rparr>) = (res, r'))"
  proof (cases "gget (principals r) (principalKey (osIssuer seed) (osSubject seed))")
    case None
    with assms show ?thesis
      unfolding Repo_EnsureOIDCMember_def Let_def by (simp split: if_splits option.splits) blast+
  next
    case (Some p)
    with assms have "r' = r \<or> (\<exists>tenant. EnsureOIDCMember_join seed tenant (r\<lparr>principals := principals r\<rparr>) = (res, r'))"
      unfolding Repo_EnsureOIDCMember_def Let_def by (auto split: if_splits option.splits)
    then show ?thesis by blast
  qed
  then show ?thesis
  proof (elim disjE exE)
    fix tenant ps
    assume "EnsureOIDCMember_join seed tenant (r\<lparr>principals := ps\<rparr>) = (res, r')"
    with join [of tenant "r\<lparr>principals := ps\<rparr>"] show ?thesis by auto
  qed simp
qed

lemma has_owner_add:
  assumes "has_owner r t" and "gget (members r) k = None" and "members r' = gput k m (members r)"
  shows "has_owner r' t"
proof -
  obtain k' o' where "gget (members r) k' = Some o'" "active_owner t o'" using assms(1) has_owner_iff by blast
  with assms(2,3) have "gget (members r') k' = Some o'" by auto
  with \<open>active_owner t o'\<close> show ?thesis unfolding has_owner_iff by blast
qed

section \<open>Properties\<close>

text \<open>
  Property C24. Member management never removes the last active owner: an update or a deletion
  of a member leaves every tenant that had an active owner with one.
\<close>

theorem last_owner_kept:
  assumes "member_inv r" and "has_owner r t"
    and "CHR 0x00 \<notin> set (umTenantID u)" and "CHR 0x00 \<notin> set (dmTenantID d)"
  shows "has_owner (snd (Repo_UpdateMember env u r)) t \<and> has_owner (snd (Repo_DeleteMember env d r)) t"
  using UpdateMember_keeps_owner [OF assms(1,3,2)] DeleteMember_keeps_owner [OF assms(1,4,2)]
  by (metis prod.collapse)

definition sample_member :: "string \<Rightarrow> AccessRole \<Rightarrow> PrincipalRecord" where
  "sample_member p role = \<lparr>pIdentity = \<lparr>iTenantID = ''t1'', iPrincipalID = p\<rparr>, pIssuer = ''iss'', pSubject = p,
     pDisplayName = p, pTenantDisplayName = ''Tenant'', pRole = role, pStatus = MemberStatusActive\<rparr>"

definition sample_members :: Repository where
  "sample_members = sample_repo\<lparr>members := map (\<lambda>(p, role). (memberKey ''t1'' p, sample_member p role))
     [(''u1'', RoleOwner), (''u2'', RoleAdmin), (''u3'', RoleViewer)]\<rparr>"

definition sample_demote :: "string \<Rightarrow> AccessRole \<Rightarrow> string \<Rightarrow> UpdateMemberCommand" where
  "sample_demote actor role p = \<lparr>umTenantID = ''t1'', umPrincipalID = p, umActorPrincipalID = actor,
     umActorRole = role, umRole = Some RoleViewer, umStatus = None, umNow = 5\<rparr>"

definition sample_remove :: "string \<Rightarrow> AccessRole \<Rightarrow> string \<Rightarrow> DeleteMemberCommand" where
  "sample_remove actor role p = \<lparr>dmTenantID = ''t1'', dmPrincipalID = p, dmActorPrincipalID = actor,
     dmActorRole = role, dmNow = 5\<rparr>"

lemma sample_members_inv: "member_inv sample_members"
proof -
  have "list_all (\<lambda>(k, m). k = memberKey (iTenantID (pIdentity m)) (iPrincipalID (pIdentity m))
      \<and> CHR 0x00 \<notin> set (iTenantID (pIdentity m))) (gentries (members sample_members))" by code_simp
  then show ?thesis by (auto simp: member_inv_def list_all_iff)
qed

theorem last_owner_kept_witness:
  "fst (Repo_UpdateMember sample_env (sample_demote ''u1'' RoleOwner ''u1'') sample_members)
     = Inl (E CodeInvalidState ''the last active owner cannot be removed'')
   \<and> has_owner (snd (Repo_UpdateMember sample_env (sample_demote ''u1'' RoleOwner ''u1'') sample_members)) ''t1''
   \<and> has_owner (snd (Repo_DeleteMember sample_env (sample_remove ''u1'' RoleOwner ''u2'') sample_members)) ''t1''"
proof -
  have "has_owner sample_members ''t1''"
    and "fst (Repo_UpdateMember sample_env (sample_demote ''u1'' RoleOwner ''u1'') sample_members)
     = Inl (E CodeInvalidState ''the last active owner cannot be removed'')" by code_simp+
  with last_owner_kept [OF sample_members_inv, of "''t1''" "sample_demote ''u1'' RoleOwner ''u1''"
      "sample_remove ''u1'' RoleOwner ''u2''" sample_env] show ?thesis
    by (simp add: sample_demote_def sample_remove_def)
qed

lemma managingActorD:
  assumes "managingActor t p role r"
  shows "\<exists>actor. gget (members r) (memberKey t p) = Some actor \<and> pStatus actor = MemberStatusActive \<and> pRole actor = role
    \<and> (pRole actor = RoleOwner \<or> pRole actor = RoleAdmin)"
  using assms by (auto simp: managingActor_def split: option.splits)

text \<open>
  Property C25. Member records are changed and removed only at the hand of an active owner or admin of the same
  tenant, who must act with the role on record; an admin changes or removes no owner and grants no ownership; an
  update keeps the member's identity, and neither an update nor a removal touches any other member.
\<close>

theorem member_changes_authorized:
  "(members (snd (Repo_UpdateMember env u r)) \<noteq> members r \<or> (\<exists>x. fst (Repo_UpdateMember env u r) = Inr x) \<longrightarrow>
      (\<exists>actor m m'. gget (members r) (memberKey (umTenantID u) (umActorPrincipalID u)) = Some actor
        \<and> pStatus actor = MemberStatusActive \<and> pRole actor = umActorRole u
        \<and> (pRole actor = RoleOwner \<or> pRole actor = RoleAdmin)
        \<and> gget (members r) (memberKey (umTenantID u) (umPrincipalID u)) = Some m
        \<and> gget (members (snd (Repo_UpdateMember env u r))) (memberKey (umTenantID u) (umPrincipalID u)) = Some m'
        \<and> pIdentity m' = pIdentity m
        \<and> (pRole actor = RoleAdmin \<longrightarrow> pRole m \<noteq> RoleOwner \<and> pRole m' \<noteq> RoleOwner)
        \<and> (\<forall>k. k \<noteq> memberKey (umTenantID u) (umPrincipalID u) \<longrightarrow>
             gget (members (snd (Repo_UpdateMember env u r))) k = gget (members r) k)))
    \<and> (members (snd (Repo_DeleteMember env d r)) \<noteq> members r \<or> fst (Repo_DeleteMember env d r) = Inr () \<longrightarrow>
      (\<exists>actor m. gget (members r) (memberKey (dmTenantID d) (dmActorPrincipalID d)) = Some actor
        \<and> pStatus actor = MemberStatusActive \<and> pRole actor = dmActorRole d
        \<and> (pRole actor = RoleOwner \<or> pRole actor = RoleAdmin)
        \<and> gget (members r) (memberKey (dmTenantID d) (dmPrincipalID d)) = Some m
        \<and> gget (members (snd (Repo_DeleteMember env d r))) (memberKey (dmTenantID d) (dmPrincipalID d)) = None
        \<and> (pRole actor = RoleAdmin \<longrightarrow> pRole m \<noteq> RoleOwner)
        \<and> (\<forall>k. k \<noteq> memberKey (dmTenantID d) (dmPrincipalID d) \<longrightarrow>
             gget (members (snd (Repo_DeleteMember env d r))) k = gget (members r) k)))"
    (is "(_ \<longrightarrow> ?update) \<and> (_ \<longrightarrow> ?delete)")
proof (intro conjI impI)
  assume changed: "members (snd (Repo_UpdateMember env u r)) \<noteq> members r \<or> (\<exists>x. fst (Repo_UpdateMember env u r) = Inr x)"
  obtain res r' where op: "Repo_UpdateMember env u r = (res, r')" by fastforce
  from UpdateMember_effect [OF op] changed op obtain m where
    act: "managingActor (umTenantID u) (umActorPrincipalID u) (umActorRole u) r"
    and m: "gget (members r) (memberKey (umTenantID u) (umPrincipalID u)) = Some m"
    and eff: "members r' = gput (memberKey (umTenantID u) (umPrincipalID u)) (UpdateMember_apply u r m) (members r)"
    and adm: "umActorRole u = RoleAdmin \<longrightarrow> pRole m \<noteq> RoleOwner \<and> pRole (UpdateMember_apply u r m) \<noteq> RoleOwner"
    by auto
  moreover have "pIdentity (UpdateMember_apply u r m) = pIdentity m" by (simp add: UpdateMember_apply_def)
  ultimately show ?update
    using managingActorD [OF act] op by auto
next
  assume changed: "members (snd (Repo_DeleteMember env d r)) \<noteq> members r \<or> fst (Repo_DeleteMember env d r) = Inr ()"
  obtain res r' where op: "Repo_DeleteMember env d r = (res, r')" by fastforce
  from DeleteMember_effect [OF op] changed op obtain m where
    act: "managingActor (dmTenantID d) (dmActorPrincipalID d) (dmActorRole d) r"
    and "gget (members r) (memberKey (dmTenantID d) (dmPrincipalID d)) = Some m"
    and "members r' = gdel (memberKey (dmTenantID d) (dmPrincipalID d)) (members r)"
    and "dmActorRole d = RoleAdmin \<longrightarrow> pRole m \<noteq> RoleOwner"
    by auto
  then show ?delete
    using managingActorD [OF act] op by auto
qed

theorem member_changes_authorized_witness:
  "(\<exists>actor m m'. gget (members sample_members) (memberKey ''t1'' ''u2'') = Some actor
    \<and> pRole actor = RoleAdmin
    \<and> gget (members sample_members) (memberKey ''t1'' ''u3'') = Some m \<and> pRole m \<noteq> RoleOwner
    \<and> gget (members (snd (Repo_UpdateMember sample_env (sample_demote ''u2'' RoleAdmin ''u3'') sample_members)))
        (memberKey ''t1'' ''u3'') = Some m' \<and> pRole m' \<noteq> RoleOwner)
   \<and> (\<exists>actor m. gget (members sample_members) (memberKey ''t1'' ''u1'') = Some actor \<and> pRole actor = RoleOwner
    \<and> gget (members sample_members) (memberKey ''t1'' ''u2'') = Some m
    \<and> gget (members (snd (Repo_DeleteMember sample_env (sample_remove ''u1'' RoleOwner ''u2'') sample_members))) (memberKey ''t1'' ''u2'') = None)"
proof -
  have "(case fst (Repo_UpdateMember sample_env (sample_demote ''u2'' RoleAdmin ''u3'') sample_members) of
    Inl _ \<Rightarrow> False | Inr _ \<Rightarrow> True)" by code_simp
  then have "\<exists>x. fst (Repo_UpdateMember sample_env (sample_demote ''u2'' RoleAdmin ''u3'') sample_members) = Inr x"
    by (auto split: sum.splits)
  moreover have "fst (Repo_DeleteMember sample_env (sample_remove ''u1'' RoleOwner ''u2'') sample_members) = Inr ()" by code_simp
  ultimately show ?thesis
    using member_changes_authorized [of sample_env "sample_demote ''u2'' RoleAdmin ''u3''" sample_members "sample_remove ''u1'' RoleOwner ''u2''"]
    by (auto simp: sample_demote_def sample_remove_def)
qed

text \<open>
  The status setter used by provisioning can leave a tenant without an active
  owner, which member updates and deletions refuse.
\<close>

theorem SetOIDCMemberStatus_can_remove_last_owner:
  "has_owner sample_members ''t1''
   \<and> fst (Repo_SetOIDCMemberStatus ''t1'' ''u1'' MemberStatusSuspended sample_members) = Inr ()
   \<and> \<not> has_owner (snd (Repo_SetOIDCMemberStatus ''t1'' ''u1'' MemberStatusSuspended sample_members)) ''t1''"
  by code_simp

end
