(* ===== verification/Memory_Governance.thy ===== *)
theory Memory_Governance
  imports Memory_Identity
begin

text \<open>
  Invitations, groups and node ACLs of \<^verbatim>\<open>internal/memory/governance.go\<close>. The walk of
  \<^verbatim>\<open>authorizeNodeLocked\<close> up the tree is an unbounded Go loop, so it is a partial function; under
  the namespace invariant it ends, and it grants exactly what the entries on the node and its
  ancestors grant.
\<close>

section \<open>Invitations\<close>

text \<open>\<open>blank s\<close> is \<^verbatim>\<open>strings.TrimSpace(s) == ""\<close>.\<close>

definition blank :: "string \<Rightarrow> bool" where
  "blank s \<longleftrightarrow> strings_TrimSpace s = []"

definition CreateInvitation_valid :: "CreateInvitationCommand \<Rightarrow> bool" where
  "CreateInvitation_valid c \<longleftrightarrow> \<not> (\<not> ValidID (ciID c) \<or> \<not> ValidID (ciTenantID c) \<or> \<not> ValidID (ciActorPrincipalID c)
     \<or> \<not> ValidAccessRole (ciActorRole c) \<or> ciIssuer c = [] \<or> ciSubject c = [] \<or> blank (ciIssuer c)
     \<or> blank (ciSubject c) \<or> length (ciIssuer c) > 512 \<or> length (ciSubject c) > 512
     \<or> length (ciDisplayName c) > 256 \<or> length (ciTokenHash c) \<noteq> 64 \<or> \<not> ValidAccessRole (ciRole c)
     \<or> \<not> ciExpiresAt c > ciNow c)"

definition new_invitation :: "CreateInvitationCommand \<Rightarrow> TenantInvitation" where
  "new_invitation c = \<lparr>inID = ciID c, inTenantID = ciTenantID c, inIssuer = ciIssuer c, inSubject = ciSubject c,
     inDisplayName = ciDisplayName c, inRole = ciRole c, inStatus = InvitationPending, inAcceptedPrincipalID = [],
     inCreatedBy = ciActorPrincipalID c, inExpiresAt = ciExpiresAt c, inAcceptedAt = None, inRevokedAt = None,
     inCreatedAt = ciNow c, inUpdatedAt = ciNow c\<rparr>"

definition Repo_CreateInvitation :: "Env \<Rightarrow> CreateInvitationCommand \<Rightarrow> TenantInvitation op" where
  "Repo_CreateInvitation env c r =
     (if \<not> managingActor (ciTenantID c) (ciActorPrincipalID c) (ciActorRole c) r
      then (Inl (E CodeForbidden ''only owners and admins may invite members''), r)
      else if \<not> CreateInvitation_valid c then (Inl (E CodeInvalidRequest ''invitation is invalid''), r)
      else if ciActorRole c = RoleAdmin \<and> ciRole c = RoleOwner
      then (Inl (E CodeForbidden ''admins cannot invite owners''), r)
      else if list_ex (\<lambda>x. inTenantID x = ciTenantID c \<and> inIssuer x = ciIssuer c \<and> inSubject x = ciSubject c
             \<and> inStatus x = InvitationPending) (gvals (invitations r))
      then (Inl (E CodeNameConflict ''a pending invitation already exists''), r)
      else
        (let v = new_invitation c
         in (case appendAuditLocked env
                    (audit_event (ciTenantID c) (ciActorPrincipalID c) ''tenant.invitation.created'' ''invitation''
                       (ciID c) (ciNow c) [(''role'', AccessRole_string (ciRole c))])
                    (r\<lparr>invitations := gput (inID v) v (invitations r),
                       invitationTokens := gput (ciTokenHash c) (inID v) (invitationTokens r)\<rparr>) of
               (Inl err, r') \<Rightarrow> (Inl err, r'\<lparr>invitations := gdel (inID v) (invitations r'),
                                             invitationTokens := gdel (ciTokenHash c) (invitationTokens r')\<rparr>)
             | (Inr _, r') \<Rightarrow> (Inr v, r'))))"

text \<open>\<^verbatim>\<open>ListInvitations\<close> reads the clock and marks the pending invitations that ran out.\<close>

definition expire_invitation :: "time \<Rightarrow> TenantInvitation \<Rightarrow> TenantInvitation" where
  "expire_invitation now v = (if inStatus v = InvitationPending \<and> \<not> inExpiresAt v > now
     then v\<lparr>inStatus := InvitationExpired, inUpdatedAt := now\<rparr> else v)"

definition Repo_ListInvitations ::
  "string \<Rightarrow> InvitationStatus \<Rightarrow> int \<Rightarrow> time \<Rightarrow> TenantInvitation list op" where
  "Repo_ListInvitations tenant status limit now r =
     (case gget (tenants r) tenant of
        None \<Rightarrow> (Inl (E CodeNotFound ''tenant was not found''), r)
      | Some _ \<Rightarrow>
          let update = (\<lambda>(i, v). (i, if inTenantID v \<noteq> tenant then v else expire_invitation now v));
              entries = map update (gentries (invitations r));
              out = sort_slice (\<lambda>a b. inCreatedAt a > inCreatedAt b)
                (filter (\<lambda>v. inTenantID v = tenant \<and> (status = InvitationOther [] \<or> inStatus v = status))
                  (map snd entries))
          in (Inr (if limit > 0 \<and> int (length out) > limit then take (nat limit) out else out),
              r\<lparr>invitations := entries\<rparr>))"

definition zero_TenantInvitation :: TenantInvitation where
  "zero_TenantInvitation = \<lparr>inID = [], inTenantID = [], inIssuer = [], inSubject = [], inDisplayName = [],
     inRole = RoleOther [], inStatus = InvitationOther [], inAcceptedPrincipalID = [], inCreatedBy = [],
     inExpiresAt = 0, inAcceptedAt = None, inRevokedAt = None, inCreatedAt = 0, inUpdatedAt = 0\<rparr>"

definition AcceptInvitation_valid :: "AcceptInvitationCommand \<Rightarrow> bool" where
  "AcceptInvitation_valid c \<longleftrightarrow> \<not> (length (aiTokenHash c) \<noteq> 64 \<or> \<not> ValidID (aiCandidatePrincipalID c)
     \<or> aiIssuer c = [] \<or> aiSubject c = [] \<or> blank (aiIssuer c) \<or> blank (aiSubject c)
     \<or> length (aiIssuer c) > 512 \<or> length (aiSubject c) > 512)"

text \<open>The records that accepting invitation \<open>v\<close> writes: the principal, the membership, the invitation.\<close>

definition accepted_principal :: "AcceptInvitationCommand \<Rightarrow> TenantInvitation \<Rightarrow> Repository \<Rightarrow> PrincipalRecord" where
  "accepted_principal c v r =
     (case gget (principals r) (principalKey (inIssuer v) (inSubject v)) of
        Some p \<Rightarrow> p
      | None \<Rightarrow> \<lparr>pIdentity = \<lparr>iTenantID = [], iPrincipalID = aiCandidatePrincipalID c\<rparr>, pIssuer = inIssuer v,
                 pSubject = inSubject v, pDisplayName = inDisplayName v, pTenantDisplayName = [],
                 pRole = RoleOther [], pStatus = MemberStatusOther []\<rparr>)"

definition accepted_member :: "TenantInvitation \<Rightarrow> PrincipalRecord \<Rightarrow> Repository \<Rightarrow> PrincipalRecord" where
  "accepted_member v p r =
     (case gget (members r) (memberKey (inTenantID v) (iPrincipalID (pIdentity p))) of
        Some old \<Rightarrow> old
      | None \<Rightarrow> \<lparr>pIdentity = \<lparr>iTenantID = inTenantID v, iPrincipalID = iPrincipalID (pIdentity p)\<rparr>,
                 pIssuer = pIssuer p, pSubject = pSubject p, pDisplayName = pDisplayName p,
                 pTenantDisplayName = tDisplayName (gget_or zero_Tenant (tenants r) (inTenantID v)),
                 pRole = inRole v, pStatus = MemberStatusActive\<rparr>)"

definition Repo_AcceptInvitation ::
  "Env \<Rightarrow> AcceptInvitationCommand \<Rightarrow> (TenantInvitation \<times> PrincipalRecord) op" where
  "Repo_AcceptInvitation env c r =
     (if \<not> AcceptInvitation_valid c then (Inl (E CodeInvalidRequest ''invitation acceptance is invalid''), r)
      else
        (case gget (invitationTokens r) (aiTokenHash c) of
           None \<Rightarrow> (Inl (E CodeNotFound ''invitation was not found''), r)
         | Some i \<Rightarrow>
             let v = gget_or zero_TenantInvitation (invitations r) i
             in if inIssuer v \<noteq> aiIssuer c \<or> inSubject v \<noteq> aiSubject c
                then (Inl (E CodeForbidden ''invitation identity does not match the authenticated identity''), r)
                else if inStatus v = InvitationAccepted
                then (case gget (members r) (memberKey (inTenantID v) (inAcceptedPrincipalID v)) of
                        None \<Rightarrow> (Inl (E CodeInternal ''accepted invitation has no membership''), r)
                      | Some m \<Rightarrow> (Inr (v, m), r))
                else if inStatus v \<noteq> InvitationPending
                then (Inl (E CodeInvalidState ''invitation is not pending''), r)
                else if \<not> inExpiresAt v > aiNow c
                then (Inl (E CodeInvalidState ''invitation has expired''),
                      r\<lparr>invitations := gput i (v\<lparr>inStatus := InvitationExpired, inUpdatedAt := aiNow c\<rparr>) (invitations r)\<rparr>)
                else if (case gget (principals r) (principalKey (inIssuer v) (inSubject v)) of
                           None \<Rightarrow> False
                         | Some p \<Rightarrow> iPrincipalID (pIdentity p) \<noteq> aiCandidatePrincipalID c)
                then (Inl (E CodeNameConflict ''OIDC identity is mapped to another principal''), r)
                else
                  let p = accepted_principal c v r;
                      pid = iPrincipalID (pIdentity p);
                      m = accepted_member v p r;
                      v' = v\<lparr>inStatus := InvitationAccepted, inAcceptedPrincipalID := pid,
                             inAcceptedAt := Some (aiNow c), inUpdatedAt := aiNow c\<rparr>
                  in with_audit env
                       (audit_event (inTenantID v) pid ''tenant.invitation.accepted'' ''invitation'' (inID v)
                          (aiNow c) [(''principal_id'', pid)])
                       (v', m)
                       (r\<lparr>principals := gput (principalKey (inIssuer v) (inSubject v)) p (principals r),
                          members := gput (memberKey (inTenantID v) pid) m (members r),
                          invitations := gput i v' (invitations r)\<rparr>)))"

definition Repo_RevokeInvitation :: "Env \<Rightarrow> RevokeInvitationCommand \<Rightarrow> TenantInvitation op" where
  "Repo_RevokeInvitation env c r =
     (if \<not> ValidID (riTenantID c) \<or> \<not> ValidID (riInvitationID c) \<or> \<not> ValidID (riActorPrincipalID c)
         \<or> \<not> ValidAccessRole (riActorRole c)
      then (Inl (E CodeInvalidRequest ''invitation revocation is invalid''), r)
      else if \<not> managingActor (riTenantID c) (riActorPrincipalID c) (riActorRole c) r
      then (Inl (E CodeForbidden ''only owners and admins may revoke invitations''), r)
      else
        (case gget (invitations r) (riInvitationID c) of
           None \<Rightarrow> (Inl (E CodeNotFound ''invitation was not found''), r)
         | Some v \<Rightarrow>
             if inTenantID v \<noteq> riTenantID c then (Inl (E CodeNotFound ''invitation was not found''), r)
             else if inStatus v \<noteq> InvitationPending
             then (Inl (E CodeInvalidState ''invitation is not pending''), r)
             else let v' = v\<lparr>inStatus := InvitationRevoked, inRevokedAt := Some (riNow c), inUpdatedAt := riNow c\<rparr>
                  in with_audit env
                       (audit_event (riTenantID c) (riActorPrincipalID c) ''tenant.invitation.revoked'' ''invitation''
                          (inID v) (riNow c) [])
                       v' (r\<lparr>invitations := gput (inID v') v' (invitations r)\<rparr>)))"

section \<open>Groups\<close>

definition Repo_CreateGroup :: "Env \<Rightarrow> CreateGroupCommand \<Rightarrow> TenantGroup op" where
  "Repo_CreateGroup env c r =
     (if \<not> managingActor (cgTenantID c) (cgActorPrincipalID c) (cgActorRole c) r
      then (Inl (E CodeForbidden ''only owners and admins may manage groups''), r)
      else if list_ex (\<lambda>g. gTenantID g = cgTenantID c \<and> gNormalizedName g = cgNormalizedName c) (gvals (groups r))
      then (Inl (E CodeNameConflict ''group name already exists''), r)
      else
        (let g = \<lparr>gID = cgID c, gTenantID = cgTenantID c, gDisplayName = cgDisplayName c,
                  gNormalizedName = cgNormalizedName c, gCreatedBy = cgActorPrincipalID c,
                  gCreatedAt = cgNow c, gUpdatedAt = cgNow c\<rparr>
         in (case appendAuditLocked env
                    (audit_event (cgTenantID c) (cgActorPrincipalID c) ''tenant.group.created'' ''group'' (gID g)
                       (cgNow c) [(''name'', gDisplayName g)])
                    (r\<lparr>groups := gput (gID g) g (groups r)\<rparr>) of
               (Inl err, r') \<Rightarrow> (Inl err, r'\<lparr>groups := gdel (gID g) (groups r')\<rparr>)
             | (Inr _, r') \<Rightarrow> (Inr g, r'))))"

definition Repo_ListGroups :: "string \<Rightarrow> Repository \<Rightarrow> TenantGroup list" where
  "Repo_ListGroups t r = sort_slice (\<lambda>a b. gNormalizedName a < gNormalizedName b)
     (filter (\<lambda>g. gTenantID g = t) (gvals (groups r)))"

definition Repo_UpdateGroup :: "Env \<Rightarrow> UpdateGroupCommand \<Rightarrow> TenantGroup op" where
  "Repo_UpdateGroup env c r =
     (if \<not> managingActor (ugTenantID c) (ugActorPrincipalID c) (ugActorRole c) r
      then (Inl (E CodeForbidden ''only owners and admins may manage groups''), r)
      else
        (case gget (groups r) (ugGroupID c) of
           None \<Rightarrow> (Inl (E CodeNotFound ''group was not found''), r)
         | Some g \<Rightarrow>
             if gTenantID g \<noteq> ugTenantID c then (Inl (E CodeNotFound ''group was not found''), r)
             else if list_ex (\<lambda>(i, x). i \<noteq> gID g \<and> gTenantID x = ugTenantID c
                    \<and> gNormalizedName x = ugNormalizedName c) (gentries (groups r))
             then (Inl (E CodeNameConflict ''group name already exists''), r)
             else let g' = g\<lparr>gDisplayName := ugDisplayName c, gNormalizedName := ugNormalizedName c, gUpdatedAt := ugNow c\<rparr>
                  in with_audit env
                       (audit_event (ugTenantID c) (ugActorPrincipalID c) ''tenant.group.updated'' ''group''
                          (gID g') (ugNow c) [(''name'', gDisplayName g')])
                       g' (r\<lparr>groups := gput (gID g') g' (groups r)\<rparr>)))"

definition has_group_prefix :: "string \<Rightarrow> string \<Rightarrow> string \<Rightarrow> bool" where
  "has_group_prefix k t g \<longleftrightarrow> length k > length t + length g + 2
     \<and> take (length t + length g + 2) k = t @ ''/'' @ g @ ''/''"

definition Repo_DeleteGroup :: "Env \<Rightarrow> DeleteGroupCommand \<Rightarrow> unit op" where
  "Repo_DeleteGroup env c r =
     (if \<not> managingActor (dgTenantID c) (dgActorPrincipalID c) (dgActorRole c) r
      then (Inl (E CodeForbidden ''only owners and admins may manage groups''), r)
      else
        (case gget (groups r) (dgGroupID c) of
           None \<Rightarrow> (Inl (E CodeNotFound ''group was not found''), r)
         | Some g \<Rightarrow>
             if gTenantID g \<noteq> dgTenantID c then (Inl (E CodeNotFound ''group was not found''), r)
             else appendAuditLocked env
                    (audit_event (dgTenantID c) (dgActorPrincipalID c) ''tenant.group.deleted'' ''group''
                       (dgGroupID c) (dgNow c) [])
                    (r\<lparr>groups := gdel (gID g) (groups r),
                       groupMembers := filter (\<lambda>e. \<not> has_group_prefix (fst e) (dgTenantID c) (gID g)) (groupMembers r),
                       acls := filter (\<lambda>(k, a). \<not> (aTenantID a = dgTenantID c \<and> aSubjectType a = ACLSubjectGroup
                                 \<and> aSubjectID a = gID g)) (gentries (acls r))\<rparr>)))"

definition groupMember :: "Env \<Rightarrow> GroupMemberCommand \<Rightarrow> bool \<Rightarrow> unit op" where
  "groupMember env c add r =
     (if \<not> managingActor (gmTenantID c) (gmActorPrincipalID c) (gmActorRole c) r
      then (Inl (E CodeForbidden ''only owners and admins may manage groups''), r)
      else
        (case gget (groups r) (gmGroupID c) of
           None \<Rightarrow> (Inl (E CodeNotFound ''group was not found''), r)
         | Some g \<Rightarrow>
             if gTenantID g \<noteq> gmTenantID c then (Inl (E CodeNotFound ''group was not found''), r)
             else
               let k = groupMemberKey (gmTenantID c) (gmGroupID c) (gmPrincipalID c);
                   event = (\<lambda>action. audit_event (gmTenantID c) (gmActorPrincipalID c) action ''group''
                      (gmGroupID c) (gmNow c) [(''principal_id'', gmPrincipalID c)])
               in if add then
                    if gget (members r) (memberKey (gmTenantID c) (gmPrincipalID c)) = None
                    then (Inl (E CodeNotFound ''tenant member was not found''), r)
                    else if gget (groupMembers r) k \<noteq> None then (Inr (), r)
                    else appendAuditLocked env (event ''tenant.group.member_added'')
                           (r\<lparr>groupMembers := gput k () (groupMembers r)\<rparr>)
                  else if gget (groupMembers r) k = None then (Inr (), r)
                  else appendAuditLocked env (event ''tenant.group.member_removed'')
                         (r\<lparr>groupMembers := gdel k (groupMembers r)\<rparr>)))"

definition Repo_AddGroupMember :: "Env \<Rightarrow> GroupMemberCommand \<Rightarrow> unit op" where
  "Repo_AddGroupMember env c r = groupMember env c True r"

definition Repo_RemoveGroupMember :: "Env \<Rightarrow> GroupMemberCommand \<Rightarrow> unit op" where
  "Repo_RemoveGroupMember env c r = groupMember env c False r"

definition Repo_ListGroupMembers :: "string \<Rightarrow> string \<Rightarrow> Repository \<Rightarrow> PrincipalRecord list result" where
  "Repo_ListGroupMembers tenantID groupID r =
     (case gget (groups r) groupID of
        None \<Rightarrow> Inl (E CodeNotFound ''group was not found'')
      | Some g \<Rightarrow>
          if gTenantID g \<noteq> tenantID then Inl (E CodeNotFound ''group was not found'')
          else
            let prefix = tenantID @ ''/'' @ groupID @ ''/'';
                keys = filter (\<lambda>key. \<not> (length key \<le> length prefix \<or> take (length prefix) key \<noteq> prefix))
                         (map fst (gentries (groupMembers r)))
            in Inr (sort_slice memberLess
                 (List.map_filter (\<lambda>key. gget (members r) (memberKey tenantID (drop (length prefix) key))) keys)))"

section \<open>Node ACLs\<close>

fun capability_level :: "NodeCapability \<Rightarrow> nat" where
  "capability_level NodeCapabilityRead = 1"
| "capability_level NodeCapabilityWrite = 2"
| "capability_level NodeCapabilityDelete = 3"
| "capability_level NodeCapabilityManageACL = 3"
| "capability_level (NodeCapabilityOther _) = 0"

fun acl_level :: "ACLRole \<Rightarrow> nat" where
  "acl_level ACLReader = 1"
| "acl_level ACLContributor = 2"
| "acl_level ACLManager = 3"
| "acl_level (ACLRoleOther _) = 0"

definition acl_applies :: "Repository \<Rightarrow> Identity \<Rightarrow> string \<Rightarrow> NodeACLEntry \<Rightarrow> bool" where
  "acl_applies r i cur a \<longleftrightarrow> aTenantID a = iTenantID i \<and> aNodeID a = cur
     \<and> (aSubjectType a = ACLSubjectPrincipal \<and> aSubjectID a = iPrincipalID i
        \<or> aSubjectType a = ACLSubjectGroup
          \<and> gget (groupMembers r) (groupMemberKey (iTenantID i) (aSubjectID a) (iPrincipalID i)) \<noteq> None)"

definition acl_grants :: "Repository \<Rightarrow> Identity \<Rightarrow> string \<Rightarrow> nat \<Rightarrow> bool" where
  "acl_grants r i cur needed \<longleftrightarrow>
     list_ex (\<lambda>a. acl_applies r i cur a \<and> acl_level (aRole a) \<ge> needed) (gvals (acls r))"

partial_function (option) acl_walk :: "Repository \<Rightarrow> Identity \<Rightarrow> nat \<Rightarrow> string \<Rightarrow> bool option" where
  "acl_walk r i needed cur =
     (if cur = [] then Some False
      else if acl_grants r i cur needed then Some True
      else (case gget (nodes r) cur of
              None \<Rightarrow> Some False
            | Some node \<Rightarrow> acl_walk r i needed (nParentID node)))"

declare acl_walk.simps [code]

definition authorizeNodeLocked :: "Identity \<Rightarrow> string \<Rightarrow> NodeCapability \<Rightarrow> Repository \<Rightarrow> unit result option" where
  "authorizeNodeLocked i n cap r =
     (if \<not> ValidNodeCapability cap then Some (Inl (E CodeInvalidRequest ''node capability is invalid''))
      else
        (case gget (nodes r) n of
           None \<Rightarrow> Some (Inl (E CodeNotFound ''node was not found''))
         | Some node \<Rightarrow>
             if nTenantID node \<noteq> iTenantID i then Some (Inl (E CodeNotFound ''node was not found''))
             else
               (case gget (members r) (memberKey (iTenantID i) (iPrincipalID i)) of
                  None \<Rightarrow> Some (Inl (E CodeForbidden ''node access denied''))
                | Some m \<Rightarrow>
                    if pStatus m \<noteq> MemberStatusActive then Some (Inl (E CodeForbidden ''node access denied''))
                    else if pRole m = RoleOwner \<or> pRole m = RoleAdmin then Some (Inr ())
                    else
                      let needed = capability_level cap
                      in if (pRole m = RoleEditor \<and> needed \<le> 2) \<or> (pRole m = RoleViewer \<and> needed \<le> 1)
                         then Some (Inr ())
                         else map_option (\<lambda>granted. if granted then Inr () else Inl (E CodeForbidden ''node access denied''))
                                (acl_walk r i needed n))))"

definition Repo_AuthorizeNode :: "Identity \<Rightarrow> string \<Rightarrow> NodeCapability \<Rightarrow> Repository \<Rightarrow> unit result option" where
  "Repo_AuthorizeNode i n cap r = authorizeNodeLocked i n cap r"

definition canManageACLLocked :: "string \<Rightarrow> string \<Rightarrow> AccessRole \<Rightarrow> string \<Rightarrow> Repository \<Rightarrow> bool option" where
  "canManageACLLocked tenantID principalID role nodeID r =
     (case gget (members r) (memberKey tenantID principalID) of
        None \<Rightarrow> Some False
      | Some member \<Rightarrow>
          if pStatus member \<noteq> MemberStatusActive \<or> pRole member \<noteq> role then Some False
          else if role = RoleOwner \<or> role = RoleAdmin then Some True
          else map_option (\<lambda>res. res = Inr ())
                 (authorizeNodeLocked \<lparr>iTenantID = tenantID, iPrincipalID = principalID\<rparr> nodeID
                    NodeCapabilityManageACL r))"

definition Repo_ListNodeACL :: "string \<Rightarrow> string \<Rightarrow> Repository \<Rightarrow> NodeACLEntry list" where
  "Repo_ListNodeACL t n r = filter (\<lambda>a. aTenantID a = t \<and> aNodeID a = n) (gvals (acls r))"

definition acl_audit :: "SetNodeACLCommand \<Rightarrow> string \<Rightarrow> AuditEvent" where
  "acl_audit c entryID = audit_event (saTenantID c) (saActorPrincipalID c) ''node.acl.set'' ''node_acl'' entryID (saNow c)
     [(''node_id'', saNodeID c), (''role'', ACLRole_string (saRole c)),
      (''subject_type'', ACLSubjectType_string (saSubjectType c)), (''subject_id'', saSubjectID c)]"

definition SetNodeACL_subject_exists :: "SetNodeACLCommand \<Rightarrow> Repository \<Rightarrow> unit result" where
  "SetNodeACL_subject_exists c r =
     (if saSubjectType c = ACLSubjectPrincipal
      then if gget (members r) (memberKey (saTenantID c) (saSubjectID c)) = None
           then Inl (E CodeNotFound ''member was not found'') else Inr ()
      else (case gget (groups r) (saSubjectID c) of
              None \<Rightarrow> Inl (E CodeNotFound ''group was not found'')
            | Some g \<Rightarrow> if gTenantID g \<noteq> saTenantID c then Inl (E CodeNotFound ''group was not found'') else Inr ()))"

definition SetNodeACL_write :: "Env \<Rightarrow> SetNodeACLCommand \<Rightarrow> NodeACLEntry op" where
  "SetNodeACL_write env c r =
     (case List.find (\<lambda>(i, a). aTenantID a = saTenantID c \<and> aNodeID a = saNodeID c
             \<and> aSubjectType a = saSubjectType c \<and> aSubjectID a = saSubjectID c) (gentries (acls r)) of
        Some (i, a) \<Rightarrow>
          let a' = a\<lparr>aRole := saRole c, aUpdatedAt := saNow c\<rparr>
          in with_audit env (acl_audit c (aID a')) a' (r\<lparr>acls := gput i a' (acls r)\<rparr>)
      | None \<Rightarrow>
          let a = \<lparr>aID = saID c, aTenantID = saTenantID c, aNodeID = saNodeID c, aSubjectType = saSubjectType c,
                   aSubjectID = saSubjectID c, aRole = saRole c, aCreatedBy = saActorPrincipalID c,
                   aCreatedAt = saNow c, aUpdatedAt = saNow c\<rparr>
          in (case appendAuditLocked env (acl_audit c (aID a)) (r\<lparr>acls := gput (aID a) a (acls r)\<rparr>) of
                (Inl err, r') \<Rightarrow> (Inl err, r'\<lparr>acls := gdel (aID a) (acls r')\<rparr>)
              | (Inr _, r') \<Rightarrow> (Inr a, r')))"

definition Repo_SetNodeACL :: "Env \<Rightarrow> SetNodeACLCommand \<Rightarrow> Repository \<Rightarrow> (NodeACLEntry result \<times> Repository) option" where
  "Repo_SetNodeACL env c r =
     map_option (\<lambda>allowed.
         if \<not> allowed then (Inl (E CodeForbidden ''only owners and admins may manage ACLs''), r)
         else if \<not> ValidACLSubjectType (saSubjectType c) \<or> \<not> ValidACLRole (saRole c)
         then (Inl (E CodeInvalidRequest ''ACL is invalid''), r)
         else if activeNode r (saTenantID c) (saNodeID c) = None
         then (Inl (E CodeNotFound ''node was not found''), r)
         else (case SetNodeACL_subject_exists c r of
                 Inl err \<Rightarrow> (Inl err, r)
               | Inr _ \<Rightarrow> SetNodeACL_write env c r))
       (canManageACLLocked (saTenantID c) (saActorPrincipalID c) (saActorRole c) (saNodeID c) r)"

definition Repo_DeleteNodeACL :: "Env \<Rightarrow> DeleteNodeACLCommand \<Rightarrow> Repository \<Rightarrow> (unit result \<times> Repository) option" where
  "Repo_DeleteNodeACL env c r =
     map_option (\<lambda>allowed.
         if \<not> allowed then (Inl (E CodeForbidden ''only owners and admins may manage ACLs''), r)
         else
           (case gget (acls r) (daEntryID c) of
              None \<Rightarrow> (Inl (E CodeNotFound ''ACL entry was not found''), r)
            | Some a \<Rightarrow>
                if aTenantID a \<noteq> daTenantID c \<or> aNodeID a \<noteq> daNodeID c
                then (Inl (E CodeNotFound ''ACL entry was not found''), r)
                else appendAuditLocked env
                       (audit_event (daTenantID c) (daActorPrincipalID c) ''node.acl.deleted'' ''node_acl''
                          (daEntryID c) (daNow c) [(''node_id'', daNodeID c)])
                       (r\<lparr>acls := gdel (daEntryID c) (acls r)\<rparr>)))
       (canManageACLLocked (daTenantID c) (daActorPrincipalID c) (daActorRole c) (daNodeID c) r)"

section \<open>The upward walk\<close>

lemma acl_walk_ends:
  assumes inv: "ns_inv r" and "cur = [] \<or> gget (nodes r) cur \<noteq> None"
  shows "acl_walk r i needed cur =
    Some (\<exists>a. a \<noteq> [] \<and> (cur, a) \<in> (parent_rel (gget (nodes r)))\<^sup>* \<and> acl_grants r i a needed)"
  using assms(2)
proof (induction cur rule: wf_induct_rule [OF parent_rel_wf [OF inv [unfolded ns_inv_def]]])
  case (1 cur)
  note wf = inv [unfolded ns_inv_def]
  let ?R = "parent_rel (gget (nodes r))"
  let ?granted = "\<lambda>x. \<exists>a. a \<noteq> [] \<and> (x, a) \<in> ?R\<^sup>* \<and> acl_grants r i a needed"
  show ?case
  proof (cases "cur = [] \<or> acl_grants r i cur needed")
    case True
    have "\<not> ?granted []"
      using ns_wf_no_empty_key [OF wf] by (auto simp: parent_rel_def elim: converse_rtranclE)
    with True show ?thesis by (subst acl_walk.simps) auto
  next
    case False
    with "1.prems" obtain n where n: "gget (nodes r) cur = Some n" by auto
    then have edge: "(cur, nParentID n) \<in> ?R" by (auto simp: parent_rel_def)
    have "nParentID n = [] \<or> gget (nodes r) (nParentID n) \<noteq> None"
      using ns_wfD(4) [OF wf n] by (auto simp: parent_ok_def)
    then have "acl_walk r i needed (nParentID n) = Some (?granted (nParentID n))" using edge "1.IH" by simp
    moreover have "?granted cur \<longleftrightarrow> ?granted (nParentID n)"
    proof
      assume "?granted cur"
      then obtain a where a: "a \<noteq> []" "(cur, a) \<in> ?R\<^sup>*" "acl_grants r i a needed" by blast
      with False obtain y where "(cur, y) \<in> ?R" "(y, a) \<in> ?R\<^sup>*" by (metis converse_rtranclE)
      with a n show "?granted (nParentID n)" by (auto simp: parent_rel_def)
    qed (use edge in \<open>blast intro: converse_rtrancl_into_rtrancl\<close>)
    ultimately show ?thesis using False n by (subst acl_walk.simps) simp
  qed
qed

lemma authorizeNodeLocked_iff:
  assumes inv: "ns_inv r"
  shows "\<exists>res. authorizeNodeLocked i n cap r = Some res \<and>
    (res = Inr () \<longleftrightarrow> ValidNodeCapability cap \<and>
       (\<exists>node m. gget (nodes r) n = Some node \<and> nTenantID node = iTenantID i
          \<and> gget (members r) (memberKey (iTenantID i) (iPrincipalID i)) = Some m \<and> pStatus m = MemberStatusActive
          \<and> (pRole m = RoleOwner \<or> pRole m = RoleAdmin
              \<or> pRole m = RoleEditor \<and> capability_level cap \<le> 2
              \<or> pRole m = RoleViewer \<and> capability_level cap \<le> 1
              \<or> (\<exists>a. a \<noteq> [] \<and> (n, a) \<in> (parent_rel (gget (nodes r)))\<^sup>* \<and> acl_grants r i a (capability_level cap)))))"
proof (cases "ValidNodeCapability cap \<and> (\<exists>node. gget (nodes r) n = Some node \<and> nTenantID node = iTenantID i)
    \<and> (\<exists>m. gget (members r) (memberKey (iTenantID i) (iPrincipalID i)) = Some m \<and> pStatus m = MemberStatusActive)")
  case True
  then obtain node m where n: "gget (nodes r) n = Some node" "nTenantID node = iTenantID i"
    and m: "gget (members r) (memberKey (iTenantID i) (iPrincipalID i)) = Some m" "pStatus m = MemberStatusActive" by blast
  have "n = [] \<or> gget (nodes r) n \<noteq> None" using n by simp
  note walk = acl_walk_ends [OF inv this, of i "capability_level cap"]
  show ?thesis
  proof (cases "pRole m = RoleOwner \<or> pRole m = RoleAdmin \<or> pRole m = RoleEditor \<and> capability_level cap \<le> 2
      \<or> pRole m = RoleViewer \<and> capability_level cap \<le> 1")
    case role: True
    then have "authorizeNodeLocked i n cap r = Some (Inr ())"
      using True n m by (auto simp: authorizeNodeLocked_def Let_def)
    with role True n m show ?thesis by auto
  next
    case False
    then have "authorizeNodeLocked i n cap r =
        map_option (\<lambda>granted. if granted then Inr () else Inl (E CodeForbidden ''node access denied''))
          (acl_walk r i (capability_level cap) n)"
      using True n m by (auto simp: authorizeNodeLocked_def Let_def)
    with walk False True n m show ?thesis by (auto split: if_splits)
  qed
next
  case False
  then show ?thesis by (auto simp: authorizeNodeLocked_def split: option.splits)
qed

section \<open>Frames\<close>

lemma governance_frame:
  "Repo_CreateInvitation env ci r = (x1, r1) \<Longrightarrow> nodes r1 = nodes r \<and> tenants r1 = tenants r \<and> members r1 = members r"
  "Repo_RevokeInvitation env ri r = (x2, r2) \<Longrightarrow> nodes r2 = nodes r \<and> tenants r2 = tenants r \<and> members r2 = members r"
  "Repo_CreateGroup env cg r = (x3, r3) \<Longrightarrow> nodes r3 = nodes r \<and> tenants r3 = tenants r \<and> members r3 = members r"
  "Repo_UpdateGroup env ug r = (x4, r4) \<Longrightarrow> nodes r4 = nodes r \<and> tenants r4 = tenants r \<and> members r4 = members r"
  "Repo_DeleteGroup env dg r = (x5, r5) \<Longrightarrow> nodes r5 = nodes r \<and> tenants r5 = tenants r \<and> members r5 = members r"
  "groupMember env gm add r = (x6, r6) \<Longrightarrow> nodes r6 = nodes r \<and> tenants r6 = tenants r \<and> members r6 = members r"
  "Repo_ListInvitations t st limit now r = (x7, r7) \<Longrightarrow> nodes r7 = nodes r \<and> tenants r7 = tenants r \<and> members r7 = members r"
  subgoal by (auto simp: Repo_CreateInvitation_def Let_def split: if_splits prod.splits sum.splits dest!: appendAuditLocked_pair)
  subgoal by (auto simp: Repo_RevokeInvitation_def Let_def split: if_splits option.splits dest!: with_audit_pair appendAuditLocked_pair)
  subgoal by (auto simp: Repo_CreateGroup_def Let_def split: if_splits prod.splits sum.splits dest!: appendAuditLocked_pair)
  subgoal by (auto simp: Repo_UpdateGroup_def Let_def split: if_splits option.splits dest!: with_audit_pair appendAuditLocked_pair)
  subgoal by (auto simp: Repo_DeleteGroup_def split: if_splits option.splits dest!: appendAuditLocked_pair)
  subgoal by (auto simp: groupMember_def Let_def split: if_splits option.splits dest!: appendAuditLocked_pair)
  subgoal by (auto simp: Repo_ListInvitations_def Let_def split: option.splits)
  done

lemma AcceptInvitation_effect:
  assumes "Repo_AcceptInvitation env c r = (res, r')"
  shows "nodes r' = nodes r \<and> tenants r' = tenants r \<and>
    (members r' = members r \<and> (\<forall>x. res = Inr x \<longrightarrow> r' = r) \<or>
     (\<exists>i v. gget (invitationTokens r) (aiTokenHash c) = Some i \<and> v = gget_or zero_TenantInvitation (invitations r) i
        \<and> inIssuer v = aiIssuer c \<and> inSubject v = aiSubject c \<and> inStatus v = InvitationPending
        \<and> aiNow c < inExpiresAt v
        \<and> iPrincipalID (pIdentity (accepted_principal c v r)) = aiCandidatePrincipalID c
        \<and> members r' = gput (memberKey (inTenantID v) (aiCandidatePrincipalID c))
             (accepted_member v (accepted_principal c v r) r) (members r)
        \<and> inStatus (gget_or zero_TenantInvitation (invitations r') i) = InvitationAccepted
        \<and> (\<forall>x. res = Inr x \<longrightarrow> snd x = accepted_member v (accepted_principal c v r) r)))"
proof (cases "gget (invitationTokens r) (aiTokenHash c)")
  case None
  with assms show ?thesis by (auto simp: Repo_AcceptInvitation_def split: if_splits)
next
  case (Some i)
  define v where "v = gget_or zero_TenantInvitation (invitations r) i"
  let ?pr = "gget (principals r) (principalKey (inIssuer v) (inSubject v))"
  show ?thesis
  proof (cases "AcceptInvitation_valid c \<and> inIssuer v = aiIssuer c \<and> inSubject v = aiSubject c
      \<and> inStatus v = InvitationPending \<and> aiNow c < inExpiresAt v
      \<and> \<not> (case ?pr of None \<Rightarrow> False | Some p \<Rightarrow> iPrincipalID (pIdentity p) \<noteq> aiCandidatePrincipalID c)")
    case True
    then have pid: "iPrincipalID (pIdentity (accepted_principal c v r)) = aiCandidatePrincipalID c"
      by (auto simp: accepted_principal_def split: option.splits)
    from True assms Some show ?thesis
      unfolding Repo_AcceptInvitation_def
      by (intro conjI disjI2 exI [of _ i] exI [of _ v])
        (auto simp: v_def [symmetric] Let_def pid gget_or_def [of _ "gput _ _ _"]
          dest!: with_audit_pair appendAuditLocked_pair)
  next
    case False
    with assms Some show ?thesis
      unfolding Repo_AcceptInvitation_def Let_def
      by (auto simp: v_def [symmetric] split: if_splits option.splits)
  qed
qed

section \<open>Properties\<close>

text \<open>
  Property C22. Node authorization always returns, and it allows an action exactly when the
  identity is an active member of the node's tenant whose role covers the capability, or some
  ACL entry on the node or one of its ancestors grants the needed level to the principal or to
  a group the principal belongs to.
\<close>

theorem AuthorizeNode_correct:
  assumes "ns_inv r"
  shows "\<exists>res. Repo_AuthorizeNode i n cap r = Some res \<and>
    (res = Inr () \<longleftrightarrow> ValidNodeCapability cap \<and>
       (\<exists>node m. gget (nodes r) n = Some node \<and> nTenantID node = iTenantID i
          \<and> gget (members r) (memberKey (iTenantID i) (iPrincipalID i)) = Some m \<and> pStatus m = MemberStatusActive
          \<and> (pRole m = RoleOwner \<or> pRole m = RoleAdmin
              \<or> pRole m = RoleEditor \<and> capability_level cap \<le> 2
              \<or> pRole m = RoleViewer \<and> capability_level cap \<le> 1
              \<or> (\<exists>a e k. a \<noteq> [] \<and> (n, a) \<in> (parent_rel (gget (nodes r)))\<^sup>* \<and> gget (acls r) k = Some e
                   \<and> acl_applies r i a e \<and> capability_level cap \<le> acl_level (aRole e)))))"
proof -
  have "acl_grants r i a needed \<longleftrightarrow> (\<exists>e k. gget (acls r) k = Some e \<and> acl_applies r i a e
      \<and> needed \<le> acl_level (aRole e))" for a needed
    unfolding acl_grants_def list_ex_iff Bex_def in_gvals by blast
  then show ?thesis
    using authorizeNodeLocked_iff [OF assms, of i n cap] unfolding Repo_AuthorizeNode_def by simp
qed

definition sample_acl :: Repository where
  "sample_acl = sample_members
     \<lparr>groups := [(''g1'', \<lparr>gID = ''g1'', gTenantID = ''t1'', gDisplayName = ''G'', gNormalizedName = ''g'',
        gCreatedBy = ''u1'', gCreatedAt = 3, gUpdatedAt = 3\<rparr>)],
      groupMembers := [(groupMemberKey ''t1'' ''g1'' ''u3'', ())],
      acls := [(''e1'', \<lparr>aID = ''e1'', aTenantID = ''t1'', aNodeID = ''da'', aSubjectType = ACLSubjectGroup,
        aSubjectID = ''g1'', aRole = ACLManager, aCreatedBy = ''u1'', aCreatedAt = 3, aUpdatedAt = 3\<rparr>)]\<rparr>"

lemma sample_acl_inv: "ns_inv sample_acl" "member_inv sample_acl"
  using sample_repo_inv sample_members_inv
  by (simp_all add: sample_acl_def sample_members_def ns_inv_def member_inv_def)

theorem AuthorizeNode_correct_witness:
  "Repo_AuthorizeNode \<lparr>iTenantID = ''t1'', iPrincipalID = ''u3''\<rparr> ''db'' NodeCapabilityDelete sample_acl = Some (Inr ())
   \<and> (\<exists>a. a \<noteq> [] \<and> (''db'', a) \<in> (parent_rel (gget (nodes sample_acl)))\<^sup>*)"
proof -
  let ?i = "\<lparr>iTenantID = ''t1'', iPrincipalID = ''u3''\<rparr>"
  have ok: "Repo_AuthorizeNode ?i ''db'' NodeCapabilityDelete sample_acl = Some (Inr ())"
    and m: "gget (members sample_acl) (memberKey ''t1'' ''u3'') = Some (sample_member ''u3'' RoleViewer)" by code_simp+
  from AuthorizeNode_correct [OF sample_acl_inv(1), of ?i "''db''" NodeCapabilityDelete] ok m show ?thesis
    by (auto simp: sample_member_def)
qed

lemma groupMemberKey_length: "length (groupMemberKey t g p) = length t + length g + length p + 2"
  by (simp add: groupMemberKey_def)

lemma groupMemberKey_suffix:
  assumes "length p' = length p"
  shows "groupMemberKey t g p' = groupMemberKey t [] p \<or> hasMemberSuffix (groupMemberKey t g p') t p \<longleftrightarrow> p' = p"
proof -
  let ?k = "groupMemberKey t g p'"
  have len: "length ?k = length t + length g + length p + 2" using assms by (simp add: groupMemberKey_def)
  have suffix: "drop (length ?k - length p) ?k = p'"
    using assms by (simp add: groupMemberKey_def)
  have prefix: "take (length t + 1) ?k = t @ ''/''" by (simp add: groupMemberKey_def)
  show ?thesis
  proof (cases "g = []")
    case True
    with len have "\<not> hasMemberSuffix ?k t p" by (simp add: hasMemberSuffix_def)
    with True show ?thesis by (simp add: groupMemberKey_def)
  next
    case False
    then have "?k \<noteq> groupMemberKey t [] p"
      using len groupMemberKey_length [of t "[]" p] by auto
    moreover have "hasMemberSuffix ?k t p \<longleftrightarrow> p' = p"
      unfolding hasMemberSuffix_def suffix prefix using len False by simp
    ultimately show ?thesis by simp
  qed
qed

text \<open>
  Deleting a member takes effect at once and completely: every group membership of
  the principal in the tenant is gone, no other principal's membership is touched, and every
  later authorization of the principal in the tenant is refused.
\<close>

theorem DeleteMember_revokes:
  assumes "ns_inv r" and op: "Repo_DeleteMember env c r = (Inr (), r')"
  shows "(\<forall>g. gget (groupMembers r') (groupMemberKey (dmTenantID c) g (dmPrincipalID c)) = None)
    \<and> (\<forall>g p'. length p' = length (dmPrincipalID c) \<longrightarrow> p' \<noteq> dmPrincipalID c \<longrightarrow>
         gget (groupMembers r') (groupMemberKey (dmTenantID c) g p')
           = gget (groupMembers r) (groupMemberKey (dmTenantID c) g p'))
    \<and> (\<forall>n cap. \<exists>e. Repo_AuthorizeNode \<lparr>iTenantID = dmTenantID c, iPrincipalID = dmPrincipalID c\<rparr> n cap r' = Some (Inl e))"
proof -
  have gm: "groupMembers r' = filter (\<lambda>e. \<not> (fst e = groupMemberKey (dmTenantID c) [] (dmPrincipalID c)
      \<or> hasMemberSuffix (fst e) (dmTenantID c) (dmPrincipalID c))) (groupMembers r)"
    and mem: "gget (members r') (memberKey (dmTenantID c) (dmPrincipalID c)) = None"
    using op by (auto simp: Repo_DeleteMember_def Let_def split: if_splits option.splits dest!: appendAuditLocked_pair)
  have "gget (groupMembers r') (groupMemberKey (dmTenantID c) g p') =
      (if p' = dmPrincipalID c then None else gget (groupMembers r) (groupMemberKey (dmTenantID c) g p'))"
    if "length p' = length (dmPrincipalID c)" for g p'
    unfolding gm gget_filter_key [where P = "\<lambda>k. \<not> (k = groupMemberKey (dmTenantID c) [] (dmPrincipalID c)
      \<or> hasMemberSuffix k (dmTenantID c) (dmPrincipalID c))"]
    using groupMemberKey_suffix [OF that, of "dmTenantID c" g] by simp
  moreover have "\<exists>e. Repo_AuthorizeNode \<lparr>iTenantID = dmTenantID c, iPrincipalID = dmPrincipalID c\<rparr> n cap r' = Some (Inl e)"
    for n cap
    using mem by (auto simp: Repo_AuthorizeNode_def authorizeNodeLocked_def split: option.splits)
  ultimately show ?thesis by simp
qed

theorem DeleteMember_revokes_witness:
  "gget (groupMembers sample_acl) (groupMemberKey ''t1'' ''g1'' ''u3'') = Some ()
   \<and> (\<exists>r'. Repo_DeleteMember sample_env (sample_remove ''u1'' RoleOwner ''u3'') sample_acl = (Inr (), r')
        \<and> (\<forall>g. gget (groupMembers r') (groupMemberKey ''t1'' g ''u3'') = None)
        \<and> (\<exists>e. Repo_AuthorizeNode \<lparr>iTenantID = ''t1'', iPrincipalID = ''u3''\<rparr> ''db'' NodeCapabilityRead r' = Some (Inl e)))"
proof -
  have pre: "gget (groupMembers sample_acl) (groupMemberKey ''t1'' ''g1'' ''u3'') = Some ()"
    and ok: "fst (Repo_DeleteMember sample_env (sample_remove ''u1'' RoleOwner ''u3'') sample_acl) = Inr ()" by code_simp+
  from ok obtain r' where r': "Repo_DeleteMember sample_env (sample_remove ''u1'' RoleOwner ''u3'') sample_acl = (Inr (), r')"
    by (metis prod.collapse)
  from DeleteMember_revokes [OF sample_acl_inv(1) r'] r' pre show ?thesis by (auto simp: sample_remove_def)
qed

text \<open>
  Property C26. Accepting an invitation creates a membership only for a pending, unexpired
  invitation whose issuer and subject are those of the authenticated identity; the new member
  is active with the invited role in the invited tenant, and an existing membership is kept as
  it is.
\<close>

theorem AcceptInvitation_sound:
  assumes "gget (members (snd (Repo_AcceptInvitation env c r))) k \<noteq> gget (members r) k"
  shows "\<exists>i v m. gget (invitationTokens r) (aiTokenHash c) = Some i \<and> v = gget_or zero_TenantInvitation (invitations r) i
    \<and> inIssuer v = aiIssuer c \<and> inSubject v = aiSubject c \<and> inStatus v = InvitationPending \<and> aiNow c < inExpiresAt v
    \<and> k = memberKey (inTenantID v) (aiCandidatePrincipalID c) \<and> gget (members r) k = None
    \<and> gget (members (snd (Repo_AcceptInvitation env c r))) k = Some m
    \<and> pIdentity m = \<lparr>iTenantID = inTenantID v, iPrincipalID = aiCandidatePrincipalID c\<rparr>
    \<and> pRole m = inRole v \<and> pStatus m = MemberStatusActive
    \<and> inStatus (gget_or zero_TenantInvitation (invitations (snd (Repo_AcceptInvitation env c r))) i) = InvitationAccepted"
proof -
  obtain res r' where op: "Repo_AcceptInvitation env c r = (res, r')" by fastforce
  from AcceptInvitation_effect [OF op] assms op obtain i v where
    v: "gget (invitationTokens r) (aiTokenHash c) = Some i" "v = gget_or zero_TenantInvitation (invitations r) i"
      "inIssuer v = aiIssuer c" "inSubject v = aiSubject c" "inStatus v = InvitationPending" "aiNow c < inExpiresAt v"
    and pid: "iPrincipalID (pIdentity (accepted_principal c v r)) = aiCandidatePrincipalID c"
    and eff: "members r' = gput (memberKey (inTenantID v) (aiCandidatePrincipalID c))
             (accepted_member v (accepted_principal c v r) r) (members r)"
    and acc: "inStatus (gget_or zero_TenantInvitation (invitations r') i) = InvitationAccepted" by auto
  have k: "k = memberKey (inTenantID v) (aiCandidatePrincipalID c)"
    using assms op eff by (auto split: if_splits)
  have none: "gget (members r) k = None"
    using assms op eff k pid by (auto simp: accepted_member_def split: option.splits)
  with k pid have "accepted_member v (accepted_principal c v r) r =
      \<lparr>pIdentity = \<lparr>iTenantID = inTenantID v, iPrincipalID = aiCandidatePrincipalID c\<rparr>,
       pIssuer = pIssuer (accepted_principal c v r), pSubject = pSubject (accepted_principal c v r),
       pDisplayName = pDisplayName (accepted_principal c v r),
       pTenantDisplayName = tDisplayName (gget_or zero_Tenant (tenants r) (inTenantID v)),
       pRole = inRole v, pStatus = MemberStatusActive\<rparr>"
    by (simp add: accepted_member_def)
  with v eff acc k none op show ?thesis by auto
qed

definition sample_hash :: string where
  "sample_hash = replicate 64 CHR ''0''"

definition sample_invitation :: TenantInvitation where
  "sample_invitation = zero_TenantInvitation\<lparr>inID := ''i1'', inTenantID := ''t1'', inIssuer := ''iss'',
     inSubject := ''new'', inRole := RoleEditor, inStatus := InvitationPending, inExpiresAt := 100\<rparr>"

definition sample_invited :: Repository where
  "sample_invited = sample_acl
     \<lparr>invitations := [(''i1'', sample_invitation)],
      invitationTokens := [(sample_hash, ''i1'')]\<rparr>"

definition sample_accept :: AcceptInvitationCommand where
  "sample_accept = \<lparr>aiTokenHash = sample_hash, aiCandidatePrincipalID = ''00000000-0000-4000-8000-000000000000'',
     aiIssuer = ''iss'', aiSubject = ''new'', aiNow = 50\<rparr>"

lemma sample_repo_principals: "principals sample_repo = []"
  by code_simp

lemma sample_accept_valid: "AcceptInvitation_valid sample_accept"
proof -
  have "ValidID ''00000000-0000-4000-8000-000000000000''"
    unfolding ValidID_def by (intro conjI; code_simp)
  moreover have "\<not> blank ''iss''" "\<not> blank ''new''"
    unfolding blank_def by (simp_all add: TrimSpace_ascii unicode_IsSpace_def byte_def)
  ultimately show ?thesis by (simp add: AcceptInvitation_valid_def sample_accept_def sample_hash_def)
qed

theorem AcceptInvitation_sound_witness:
  "\<exists>m. gget (members (snd (Repo_AcceptInvitation sample_env sample_accept sample_invited)))
       (memberKey ''t1'' ''00000000-0000-4000-8000-000000000000'') = Some m
     \<and> pStatus m = MemberStatusActive"
proof -
  let ?k = "memberKey ''t1'' ''00000000-0000-4000-8000-000000000000''"
  have none: "gget (members sample_invited) ?k = None"
    by (simp add: sample_invited_def sample_acl_def sample_members_def memberKey_def)
  have "gget (members (snd (Repo_AcceptInvitation sample_env sample_accept sample_invited))) ?k \<noteq> None"
    using sample_accept_valid
    by (simp add: Repo_AcceptInvitation_def sample_accept_def sample_invited_def sample_acl_def sample_members_def
        sample_repo_principals sample_invitation_def zero_TenantInvitation_def gget_or_def accepted_principal_def Let_def)
  with none have "gget (members (snd (Repo_AcceptInvitation sample_env sample_accept sample_invited))) ?k
      \<noteq> gget (members sample_invited) ?k" by simp
  from AcceptInvitation_sound [OF this] show ?thesis by auto
qed

text \<open>
  An authenticated identity that is already bound to a principal cannot accept an
  invitation unless the caller proposes that principal's id: the acceptance is a name conflict
  and changes nothing.
\<close>

theorem AcceptInvitation_bound_identity:
  assumes "AcceptInvitation_valid c" and "gget (invitationTokens r) (aiTokenHash c) = Some i"
    and "gget (invitations r) i = Some v" and "inStatus v = InvitationPending" and "aiNow c < inExpiresAt v"
    and "inIssuer v = aiIssuer c" and "inSubject v = aiSubject c"
    and "gget (principals r) (principalKey (aiIssuer c) (aiSubject c)) = Some p"
    and "iPrincipalID (pIdentity p) \<noteq> aiCandidatePrincipalID c"
  shows "\<exists>e. Repo_AcceptInvitation env c r = (Inl e, r) \<and> CodeOf e = CodeNameConflict"
  using assms by (simp add: Repo_AcceptInvitation_def gget_or_def E_def)

theorem AcceptInvitation_bound_identity_witness:
  "\<exists>e. Repo_AcceptInvitation sample_env sample_accept
      (sample_invited\<lparr>principals := [(principalKey ''iss'' ''new'', sample_member ''u9'' RoleViewer)]\<rparr>)
    = (Inl e, sample_invited\<lparr>principals := [(principalKey ''iss'' ''new'', sample_member ''u9'' RoleViewer)]\<rparr>)
    \<and> CodeOf e = CodeNameConflict"
proof -
  from sample_accept_valid show ?thesis
    by (rule AcceptInvitation_bound_identity [where i = "''i1''" and v = sample_invitation
          and p = "sample_member ''u9'' RoleViewer"])
      (simp_all add: sample_accept_def sample_invited_def sample_member_def sample_invitation_def zero_TenantInvitation_def)
qed

end
