(* ===== verification/Memory_Recycle.thy ===== *)
theory Memory_Recycle
  imports Memory_Namespace
begin

text \<open>
  The recycle bin of \<^verbatim>\<open>internal/memory/repository.go\<close>: \<^verbatim>\<open>Recycle\<close> hides a visible subtree as one
  group, \<^verbatim>\<open>Restore\<close> shows the group again at its original place, \<^verbatim>\<open>PreparePurge\<close> marks the group
  and the blobs that only it references, \<^verbatim>\<open>FinishPurge\<close> records that those blobs are gone, and
  \<^verbatim>\<open>DownloadBlob\<close> reads a file's current content. \<open>file_inv\<close> is the invariant that a file that is
  not being purged keeps its content.
\<close>

definition DownloadBlob_version :: "Identity \<Rightarrow> Node \<Rightarrow> Repository \<Rightarrow> Blob result" where
  "DownloadBlob_version identity node r =
     (case gget (versions r) (nCurrentVersionID node) of
        None \<Rightarrow> Inl (E CodeInternal ''file version is missing'')
      | Some version \<Rightarrow>
          if vTenantID version \<noteq> iTenantID identity
          then Inl (E CodeInternal ''file version is missing'')
          else
            (case gget (blobs r) (vBlobID version) of
               None \<Rightarrow> Inl (E CodeNotFound ''file content was not found'')
             | Some blob \<Rightarrow>
                 if bTenantID blob \<noteq> iTenantID identity \<or> bStatus blob \<noteq> BlobAvailable
                 then Inl (E CodeNotFound ''file content was not found'')
                 else Inr blob))"

definition Repo_DownloadBlob :: "Identity \<Rightarrow> string \<Rightarrow> Repository \<Rightarrow> (Node \<times> Blob) result" where
  "Repo_DownloadBlob identity nodeID r =
     (case gget (nodes r) nodeID of
        None \<Rightarrow> Inl (E CodeNotFound ''file was not found'')
      | Some node \<Rightarrow>
          if nTenantID node \<noteq> iTenantID identity \<or> nKind node \<noteq> NodeFile \<or> \<not> visible node
          then Inl (E CodeNotFound ''file was not found'')
          else map_sum id (\<lambda>blob. (node, blob)) (DownloadBlob_version identity node r))"

text \<open>\<^verbatim>\<open>for _, id := range ids { child := r.nodes[id]; ...; r.nodes[id] = child }\<close>\<close>

definition update_nodes :: "(string \<Rightarrow> Node \<Rightarrow> Node) \<Rightarrow> string list \<Rightarrow> (string, Node) gomap \<Rightarrow> (string, Node) gomap" where
  "update_nodes f ids m = foldl (\<lambda>m i. gput i (f i (gget_or zero_Node m i)) m) m ids"

definition recycle_child :: "string \<Rightarrow> time \<Rightarrow> string \<Rightarrow> Node \<Rightarrow> Node" where
  "recycle_child rootID now i child =
     (let child1 = child\<lparr>nTrashedRootID := rootID, nUpdatedAt := now\<rparr>
      in if i = rootID
         then child1\<lparr>nStatus := NodeTrashed, nOriginalParentID := nParentID child1,
                     nRevision := wrap64 (nRevision child1 + 1), nDeletedAt := Some now\<rparr>
         else child1)"

definition Repo_Recycle ::
  "Env \<Rightarrow> Identity \<Rightarrow> string \<Rightarrow> int64 \<Rightarrow> time \<Rightarrow> Repository \<Rightarrow> (unit result \<times> Repository) option" where
  "Repo_Recycle env identity nodeID revision now r =
     (case gget (nodes r) nodeID of
        None \<Rightarrow> Some (Inl (E CodeNotFound ''resource was not found''), r)
      | Some node \<Rightarrow>
          if nTenantID node \<noteq> iTenantID identity
          then Some (Inl (E CodeNotFound ''resource was not found''), r)
          else if tRootNodeID (gget_or zero_Tenant (tenants r) (iTenantID identity)) = nodeID
          then Some (Inl (E CodeInvalidRequest ''root directory cannot be recycled''), r)
          else if nStatus node = NodeTrashed \<and> nTrashedRootID node = nID node then Some (Inr (), r)
          else if \<not> visible node then Some (Inl (E CodeNotFound ''resource was not found''), r)
          else if nRevision node \<noteq> revision
          then Some (Inl (E CodeRevisionMismatch ''resource revision does not match''), r)
          else
            map_option (\<lambda>ids.
                appendAuditLocked env
                  (audit_event (iTenantID identity) (iPrincipalID identity) ''node.recycled'' ''node''
                     nodeID now [])
                  (r\<lparr>nodes := update_nodes (recycle_child (nID node) now) ids (nodes r)\<rparr>))
              (activeSubtree r (nID node) (iTenantID identity)))"

definition recycle_entry :: "Node \<Rightarrow> RecycleEntry" where
  "recycle_entry node = \<lparr>reNode = node, reOriginalParentID = nOriginalParentID node,
     reDeletedAt = (case nDeletedAt node of None \<Rightarrow> 0 | Some t \<Rightarrow> t)\<rparr>"

definition entryLess :: "RecycleEntry \<Rightarrow> RecycleEntry \<Rightarrow> bool" where
  "entryLess a b \<longleftrightarrow> nodeLess (reNode a) (reNode b)"

definition Repo_ListRecycle ::
  "Identity \<Rightarrow> CursorPosition \<Rightarrow> int \<Rightarrow> Repository \<Rightarrow> (RecycleEntry list \<times> bool) result" where
  "Repo_ListRecycle identity after limit r =
     (let items = map recycle_entry (filter (\<lambda>node. nTenantID node = iTenantID identity
              \<and> nStatus node = NodeTrashed \<and> nTrashedRootID node = nID node \<and> afterPosition node after)
            (gvals (nodes r)))
      in (case slice_page limit (sort_slice entryLess items) of
            None \<Rightarrow> Inl (Panic ''slice bounds out of range'')
          | Some page \<Rightarrow> Inr page))"

definition restore_child :: "string \<Rightarrow> time \<Rightarrow> string \<Rightarrow> Node \<Rightarrow> Node" where
  "restore_child rootID now i child =
     (let child1 = child\<lparr>nTrashedRootID := [], nUpdatedAt := now\<rparr>
      in if i = rootID
         then child1\<lparr>nStatus := NodeActive, nParentID := nOriginalParentID child1,
                     nOriginalParentID := [], nDeletedAt := None,
                     nRevision := wrap64 (nRevision child1 + 1)\<rparr>
         else child1)"

text \<open>The loop of \<^verbatim>\<open>Restore\<close> also reassigns the local \<^verbatim>\<open>node\<close>, which is what it returns.\<close>

definition Repo_Restore :: "Env \<Rightarrow> Identity \<Rightarrow> string \<Rightarrow> int64 \<Rightarrow> time \<Rightarrow> Node op" where
  "Repo_Restore env identity nodeID revision now r =
     (let tenant = iTenantID identity; notFound = E CodeNotFound ''recycle entry was not found''
      in (case gget (nodes r) nodeID of
            None \<Rightarrow> (Inl notFound, r)
          | Some node \<Rightarrow>
              if nTenantID node \<noteq> tenant \<or> nStatus node \<noteq> NodeTrashed \<or> nTrashedRootID node \<noteq> nID node
              then (Inl notFound, r)
              else if nRevision node \<noteq> revision
              then (Inl (E CodeRevisionMismatch ''resource revision does not match''), r)
              else if (case activeNode r tenant (nOriginalParentID node) of
                         None \<Rightarrow> True | Some parent \<Rightarrow> nKind parent \<noteq> NodeDirectory)
                      \<or> nameExists r tenant (nOriginalParentID node) (nNormalizedName node) (nID node)
              then (Inl (E CodeRestoreConflict ''original location is unavailable''), r)
              else
                let ids = trashedSubtree r (nID node) tenant;
                    nodes' = update_nodes (restore_child (nID node) now) ids (nodes r);
                    node' = (if nID node \<in> set ids then gget_or zero_Node nodes' (nID node) else node)
                in with_audit env
                     (audit_event tenant (iPrincipalID identity) ''node.restored'' ''node'' nodeID now [])
                     node' (r\<lparr>nodes := nodes'\<rparr>)))"

definition purge_child :: "time \<Rightarrow> string \<Rightarrow> Node \<Rightarrow> Node" where
  "purge_child now i child = child\<lparr>nStatus := NodePurging, nUpdatedAt := now\<rparr>"

text \<open>One round of the loop of \<^verbatim>\<open>PreparePurge\<close> over the blobs of the subtree's versions.\<close>

definition purge_blob ::
  "Repository \<Rightarrow> string list \<Rightarrow> (string, Blob) gomap \<times> Blob list \<Rightarrow> string \<Rightarrow> (string, Blob) gomap \<times> Blob list" where
  "purge_blob r ids acc blobID =
     (let referencedOutside = list_ex (\<lambda>version. vBlobID version = blobID \<and> vNodeID version \<notin> set ids)
            (gvals (versions r));
          blob = gget_or zero_Blob (fst acc) blobID
      in if \<not> referencedOutside \<and> bStatus blob \<noteq> BlobDeleted
         then let blob' = blob\<lparr>bStatus := BlobPendingDelete, bReferenceCount := 0\<rparr>
              in (gput blobID blob' (fst acc), snd acc @ [blob'])
         else acc)"

definition Repo_PreparePurge :: "Identity \<Rightarrow> string \<Rightarrow> int64 \<Rightarrow> time \<Rightarrow> PurgePlan op" where
  "Repo_PreparePurge identity nodeID revision now r =
     (let notFound = E CodeNotFound ''recycle entry was not found''
      in (case gget (nodes r) nodeID of
            None \<Rightarrow> (Inl notFound, r)
          | Some node \<Rightarrow>
              if nTenantID node \<noteq> iTenantID identity
                 \<or> (nStatus node \<noteq> NodeTrashed \<and> nStatus node \<noteq> NodePurging)
                 \<or> nTrashedRootID node \<noteq> nID node
              then (Inl notFound, r)
              else if nRevision node \<noteq> revision
              then (Inl (E CodeRevisionMismatch ''resource revision does not match''), r)
              else
                let ids = trashedSubtree r (nID node) (iTenantID identity);
                    blobIDs = remdups (map vBlobID (filter (\<lambda>version. vTenantID version = iTenantID identity
                                 \<and> vNodeID version \<in> set ids) (gvals (versions r))));
                    result = foldl (purge_blob r ids) (blobs r, []) blobIDs
                in (Inr \<lparr>ppRootID = nID node, ppBlobs = snd result\<rparr>,
                    r\<lparr>nodes := update_nodes (purge_child now) ids (nodes r), blobs := fst result\<rparr>)))"

text \<open>\<^verbatim>\<open>time.Date(9999, time.January, 1, ...)\<close>: 3651694 days after the zero time.\<close>

definition never :: time where
  "never = 3651694 * 86400 * 1000000000"

definition finish_blob :: "Identity \<Rightarrow> time \<Rightarrow> (string, Blob) gomap \<Rightarrow> Blob \<Rightarrow> (string, Blob) gomap" where
  "finish_blob identity now m planned =
     (case gget m (bID planned) of
        None \<Rightarrow> m
      | Some blob \<Rightarrow>
          if bTenantID blob = iTenantID identity \<and> bStatus blob = BlobPendingDelete
          then gput (bID blob) (blob\<lparr>bStatus := BlobDeleted, bDeletedAt := Some now\<rparr>) m
          else m)"

definition Repo_FinishPurge :: "Env \<Rightarrow> Identity \<Rightarrow> PurgePlan \<Rightarrow> time \<Rightarrow> unit op" where
  "Repo_FinishPurge env identity plan now r =
     (let notFound = E CodeNotFound ''purge plan was not found''
      in (case gget (nodes r) (ppRootID plan) of
            None \<Rightarrow> (Inl notFound, r)
          | Some root \<Rightarrow>
              if nTenantID root \<noteq> iTenantID identity \<or> nStatus root \<noteq> NodePurging then (Inl notFound, r)
              else
                let lease = (gget_or zero_lease (recycleMaintenance r) (ppRootID plan))
                      \<lparr>lsOwner := [], lsUntil := 0, lsNotBefore := never, lsErrorCode := []\<rparr>
                in appendAuditLocked env
                     (audit_event (iTenantID identity) (iPrincipalID identity) ''node.purged'' ''node''
                        (ppRootID plan) now [])
                     (r\<lparr>blobs := foldl (finish_blob identity now) (blobs r) (ppBlobs plan),
                        recycleMaintenance := gput (ppRootID plan) lease (recycleMaintenance r)\<rparr>)))"

lemmas recycle_ops = Repo_Recycle_def Repo_Restore_def Repo_PreparePurge_def Repo_FinishPurge_def

section \<open>The loops over a subtree\<close>

lemma gget_update_nodes:
  assumes "distinct ids" and "set ids \<subseteq> dom (gget m)"
  shows "gget (update_nodes f ids m) k = map_option (\<lambda>n. if k \<in> set ids then f k n else n) (gget m k)"
  using assms
proof (induction ids arbitrary: m)
  case Nil
  then show ?case by (simp add: update_nodes_def option.map_ident)
next
  case (Cons i ids)
  then obtain n where n: "gget m i = Some n" by auto
  let ?m = "gput i (f i (gget_or zero_Node m i)) m"
  have "update_nodes f (i # ids) m = update_nodes f ids ?m" by (simp add: update_nodes_def)
  moreover have "set ids \<subseteq> dom (gget ?m)" using Cons.prems by auto
  with Cons have "gget (update_nodes f ids ?m) k = map_option (\<lambda>n. if k \<in> set ids then f k n else n) (gget ?m k)"
    by simp
  ultimately show ?case using n Cons.prems by (auto simp: gget_or_def)
qed

lemma child_updates:
  "trash_node root now S k n = (if k \<in> S then recycle_child root now k n else n)"
  "restore_node root now S k n = (if k \<in> S then restore_child root now k n else n)"
  "purge_node now S k n = (if k \<in> S then purge_child now k n else n)"
  by (simp_all add: trash_node_def recycle_child_def restore_node_def restore_child_def
      purge_node_def purge_child_def Let_def)

lemma gget_update_subtree:
  assumes "distinct ids" and "set ids = S" and "S \<subseteq> dom (gget m)"
  shows "gget (update_nodes (recycle_child root now) ids m) = (\<lambda>k. map_option (trash_node root now S k) (gget m k))"
    and "gget (update_nodes (restore_child root now) ids m) = (\<lambda>k. map_option (restore_node root now S k) (gget m k))"
    and "gget (update_nodes (purge_child now) ids m) = (\<lambda>k. map_option (purge_node now S k) (gget m k))"
  using assms by (auto simp: gget_update_nodes child_updates intro!: ext option.map_cong)

section \<open>Effects on the node table\<close>

lemma Recycle_ok:
  assumes inv: "ns_inv r" and node: "activeNode r t k = Some n" "nRevision n = revision"
    and root: "tRootNodeID (gget_or zero_Tenant (tenants r) t) \<noteq> k" and t: "t = iTenantID identity"
  shows "\<exists>res r'. Repo_Recycle env identity k revision now r = Some (res, r') \<and>
    ((\<exists>e. res = Inl e) \<or> res = Inr ()) \<and>
    gget (nodes r') = (\<lambda>i. map_option (trash_node k now (subtree (gget (nodes r)) t k) i) (gget (nodes r) i)) \<and>
    tenants r' = tenants r \<and> versions r' = versions r \<and> blobs r' = blobs r"
proof -
  note wf = inv [unfolded ns_inv_def]
  have k: "gget (nodes r) k = Some n" "nTenantID n = t" "visible n" using node by (auto simp: activeNode_Some)
  have kid: "nID n = k" using ns_wfD(1) [OF wf k(1)] .
  obtain ids where ids: "activeSubtree r k t = Some ids" "distinct ids" "set ids = subtree (gget (nodes r)) t k"
    using activeSubtree_ends [OF inv, of k t] k by auto
  note upd = gget_update_subtree(1) [OF ids(2,3) subtree_keys, of k now]
  obtain res r' where app: "appendAuditLocked env (audit_event t (iPrincipalID identity) ''node.recycled'' ''node'' k now [])
      (r\<lparr>nodes := update_nodes (recycle_child k now) ids (nodes r)\<rparr>) = (res, r')" by fastforce
  have "Repo_Recycle env identity k revision now r = Some (res, r')"
    using k kid ids(1) node(2) root t app by (auto simp: Repo_Recycle_def visible_def)
  with appendAuditLocked_pair [OF app] upd k show ?thesis
    by (cases res) auto
qed

lemma Recycle_effect:
  assumes inv: "ns_inv r" and op: "Repo_Recycle env identity k revision now r = Some (res, r')"
  shows "(nodes r' = nodes r \<and> tenants r' = tenants r \<and> versions r' = versions r \<and> blobs r' = blobs r) \<or>
    (\<exists>n. activeNode r (iTenantID identity) k = Some n \<and> nRevision n = revision \<and>
      tRootNodeID (gget_or zero_Tenant (tenants r) (iTenantID identity)) \<noteq> k \<and>
      gget (nodes r') = (\<lambda>i. map_option (trash_node k now (subtree (gget (nodes r)) (iTenantID identity) k) i)
        (gget (nodes r) i)) \<and>
      tenants r' = tenants r \<and> versions r' = versions r \<and> blobs r' = blobs r)"
proof (cases "\<exists>n. activeNode r (iTenantID identity) k = Some n \<and> nRevision n = revision
    \<and> tRootNodeID (gget_or zero_Tenant (tenants r) (iTenantID identity)) \<noteq> k")
  case True
  then obtain n where n: "activeNode r (iTenantID identity) k = Some n" "nRevision n = revision"
    "tRootNodeID (gget_or zero_Tenant (tenants r) (iTenantID identity)) \<noteq> k" by blast
  from Recycle_ok [OF inv n refl, of env now] op n show ?thesis by auto
next
  case False
  then have "r' = r"
    using op by (auto simp: Repo_Recycle_def activeNode_Some split: option.splits if_splits)
  then show ?thesis by simp
qed

lemma Recycle_returns:
  assumes inv: "ns_inv r"
  shows "\<exists>res r'. Repo_Recycle env identity k revision now r = Some (res, r')"
proof (cases "gget (nodes r) k")
  case (Some n)
  then have "nID n = k" using ns_wfD(1) [OF inv [unfolded ns_inv_def]] by blast
  with Some activeSubtree_ends [OF inv, of k "iTenantID identity"] show ?thesis
    by (auto simp: Repo_Recycle_def)
qed (simp add: Repo_Recycle_def)

lemma Recycle_inv:
  assumes inv: "ns_inv r" and op: "Repo_Recycle env identity k revision now r = Some (res, r')"
  shows "ns_inv r'"
  using Recycle_effect [OF inv op]
proof (elim disjE exE conjE)
  fix n
  assume n: "activeNode r (iTenantID identity) k = Some n"
    "tRootNodeID (gget_or zero_Tenant (tenants r) (iTenantID identity)) \<noteq> k"
    and eff: "gget (nodes r') = (\<lambda>i. map_option (trash_node k now (subtree (gget (nodes r)) (iTenantID identity) k) i)
        (gget (nodes r) i))" "tenants r' = tenants r"
  from n have k: "gget (nodes r) k = Some n" "nTenantID n = iTenantID identity" "visible n"
    by (auto simp: activeNode_Some)
  then show ?thesis
    unfolding ns_inv_def eff
    using inv not_tenant_root [OF inv k(1,2) n(2)] by (intro ns_wf_trash) (simp_all add: ns_inv_def)
qed (use inv in \<open>simp add: ns_inv_def\<close>)

lemma trash_group_keys: "trash_group m t root \<subseteq> dom m"
  by (auto simp: trash_group_def)

lemma Restore_effect:
  assumes inv: "ns_inv r" and op: "Repo_Restore env identity k revision now r = (res, r')"
  shows "tenants r' = tenants r \<and> versions r' = versions r \<and> blobs r' = blobs r \<and>
    (nodes r' = nodes r \<and> (\<exists>e. res = Inl e) \<or>
     (\<exists>n p. gget (nodes r) k = Some n \<and> nTenantID n = iTenantID identity \<and> nStatus n = NodeTrashed
        \<and> nTrashedRootID n = k \<and> nRevision n = revision
        \<and> activeNode r (iTenantID identity) (nOriginalParentID n) = Some p \<and> nKind p = NodeDirectory
        \<and> \<not> nameExists r (iTenantID identity) (nOriginalParentID n) (nNormalizedName n) k
        \<and> (\<forall>x. res = Inr x \<longrightarrow> x = restore_child k now k n)
        \<and> gget (nodes r') = (\<lambda>i. map_option (restore_node k now (trash_group (gget (nodes r)) (iTenantID identity) k) i)
            (gget (nodes r) i))))"
proof (cases "\<exists>n p. gget (nodes r) k = Some n \<and> nTenantID n = iTenantID identity \<and> nStatus n = NodeTrashed
        \<and> nTrashedRootID n = k \<and> nRevision n = revision
        \<and> activeNode r (iTenantID identity) (nOriginalParentID n) = Some p \<and> nKind p = NodeDirectory
        \<and> \<not> nameExists r (iTenantID identity) (nOriginalParentID n) (nNormalizedName n) k")
  case True
  then obtain n p where n: "gget (nodes r) k = Some n" "nTenantID n = iTenantID identity" "nStatus n = NodeTrashed"
    "nTrashedRootID n = k" "nRevision n = revision"
    "activeNode r (iTenantID identity) (nOriginalParentID n) = Some p" "nKind p = NodeDirectory"
    "\<not> nameExists r (iTenantID identity) (nOriginalParentID n) (nNormalizedName n) k" by blast
  let ?ids = "trashedSubtree r k (iTenantID identity)"
  have kid: "nID n = k" using ns_wfD(1) [OF inv [unfolded ns_inv_def] n(1)] .
  note S = set_trashedSubtree [OF inv, of k "iTenantID identity"]
  note upd = gget_update_subtree(2) [OF S(2) S(1) trash_group_keys, of k now]
  have kS: "k \<in> set ?ids" using n S(1) by (auto simp: trash_group_def)
  then have "gget_or zero_Node (update_nodes (restore_child k now) ?ids (nodes r)) k = restore_child k now k n"
    using n(1) S by (simp add: upd gget_or_def child_updates)
  with op n kid kS have "with_audit env
      (audit_event (iTenantID identity) (iPrincipalID identity) ''node.restored'' ''node'' k now [])
      (restore_child k now k n) (r\<lparr>nodes := update_nodes (restore_child k now) ?ids (nodes r)\<rparr>) = (res, r')"
    by (simp add: Repo_Restore_def Let_def)
  from with_audit_pair [OF this] upd n show ?thesis by (auto dest: appendAuditLocked_pair)
next
  case False
  with op inv ns_wfD(1) [OF inv [unfolded ns_inv_def]] have "r' = r \<and> (\<exists>e. res = Inl e)"
    by (auto simp: Repo_Restore_def Let_def split: option.splits if_splits)
  then show ?thesis by auto
qed

lemma Restore_inv:
  assumes inv: "ns_inv r" and op: "Repo_Restore env identity k revision now r = (res, r')"
  shows "ns_inv r'"
  using Restore_effect [OF inv op]
proof (elim disjE exE conjE)
  fix n p
  assume eff: "tenants r' = tenants r" "gget (nodes r') =
      (\<lambda>i. map_option (restore_node k now (trash_group (gget (nodes r)) (iTenantID identity) k) i) (gget (nodes r) i))"
    and n: "gget (nodes r) k = Some n" "nTenantID n = iTenantID identity" "nStatus n = NodeTrashed"
      "nTrashedRootID n = k"
    and p: "activeNode r (iTenantID identity) (nOriginalParentID n) = Some p"
    and free: "\<not> nameExists r (iTenantID identity) (nOriginalParentID n) (nNormalizedName n) k"
  show ?thesis
    unfolding ns_inv_def eff
    by (rule ns_wf_restore [OF inv [unfolded ns_inv_def] n, where p = p])
      (use p nameExists_free [OF inv free] in \<open>auto simp: activeNode_Some\<close>)
qed (use inv in \<open>simp add: ns_inv_def\<close>)

section \<open>Purging and file contents\<close>

definition current_content :: "Repository \<Rightarrow> string \<Rightarrow> Node \<Rightarrow> FileVersion \<Rightarrow> Blob \<Rightarrow> bool" where
  "current_content r k n v b \<longleftrightarrow> gget (versions r) (nCurrentVersionID n) = Some v \<and> vNodeID v = k
     \<and> vTenantID v = nTenantID n \<and> gget (blobs r) (vBlobID v) = Some b \<and> bTenantID b = nTenantID n
     \<and> (nStatus n \<noteq> NodePurging \<longrightarrow> bStatus b = BlobAvailable)"

definition file_inv :: "Repository \<Rightarrow> bool" where
  "file_inv r \<longleftrightarrow> (\<forall>k b. gget (blobs r) k = Some b \<longrightarrow> bID b = k) \<and>
     (\<forall>i v. gget (versions r) i = Some v \<longrightarrow> gget (blobs r) (vBlobID v) \<noteq> None) \<and>
     (\<forall>k n. gget (nodes r) k = Some n \<longrightarrow> nKind n = NodeFile \<longrightarrow> (\<exists>v b. current_content r k n v b))"

lemma file_inv_NewRepository: "file_inv NewRepository"
  by (simp add: file_inv_def NewRepository_def)

text \<open>Relabelling nodes without starting a purge, and leaving contents alone, keeps \<open>file_inv\<close>.\<close>

lemma file_inv_relabel:
  assumes inv: "file_inv r" and "versions r' = versions r" "blobs r' = blobs r"
    and nodes: "\<And>k n'. gget (nodes r') k = Some n' \<Longrightarrow> nKind n' = NodeFile \<Longrightarrow>
      \<exists>n. gget (nodes r) k = Some n \<and> nKind n = NodeFile \<and> nTenantID n = nTenantID n'
        \<and> nCurrentVersionID n = nCurrentVersionID n' \<and> (nStatus n = NodePurging \<longrightarrow> nStatus n' = NodePurging)"
  shows "file_inv r'"
  using assms(2,3) inv unfolding file_inv_def current_content_def by (fastforce dest!: nodes)

definition purgeable :: "Repository \<Rightarrow> string list \<Rightarrow> string \<Rightarrow> Blob \<Rightarrow> bool" where
  "purgeable r ids i b \<longleftrightarrow> bStatus b \<noteq> BlobDeleted
     \<and> \<not> list_ex (\<lambda>v. vBlobID v = i \<and> vNodeID v \<notin> set ids) (gvals (versions r))"

definition purge_mark :: "Repository \<Rightarrow> string list \<Rightarrow> string \<Rightarrow> Blob \<Rightarrow> Blob" where
  "purge_mark r ids i b =
     (if purgeable r ids i b then b\<lparr>bStatus := BlobPendingDelete, bReferenceCount := 0\<rparr> else b)"

lemma purgeable_inside:
  "purgeable r ids i b \<Longrightarrow> gget (versions r) k = Some v \<Longrightarrow> vBlobID v = i \<Longrightarrow> vNodeID v \<in> set ids"
  by (auto simp: purgeable_def list_ex_iff)

lemma purge_blob_step:
  assumes "gget m x = Some b"
  shows "purge_blob r ids (m, bs) x =
    (if purgeable r ids x b then (gput x (purge_mark r ids x b) m, bs @ [purge_mark r ids x b]) else (m, bs))"
  using assms by (auto simp: purge_blob_def purgeable_def purge_mark_def gget_or_def Let_def)

lemma purge_blobs:
  assumes "distinct xs" and "set xs \<subseteq> dom (gget m)"
  shows "gget (fst (foldl (purge_blob r ids) (m, bs) xs)) i
      = map_option (\<lambda>b. if i \<in> set xs then purge_mark r ids i b else b) (gget m i)"
    and "snd (foldl (purge_blob r ids) (m, bs) xs)
      = bs @ map (\<lambda>i. purge_mark r ids i (the (gget m i))) (filter (\<lambda>i. purgeable r ids i (the (gget m i))) xs)"
  using assms
proof (induction xs arbitrary: m bs)
  case Nil
  case 1
  show ?case by (simp add: option.map_ident)
next
  case Nil
  case 2
  show ?case by simp
next
  case (Cons x xs)
  note IH1 = Cons.IH(1) and IH2 = Cons.IH(2)
  {
    case 1
    then obtain b where b: "gget m x = Some b" by auto
    define m' where "m' = (if purgeable r ids x b then gput x (purge_mark r ids x b) m else m)"
    have "set xs \<subseteq> dom (gget m')" using 1 by (auto simp: m'_def)
    with IH1 [of m'] 1 b show ?case
      by (cases "i = x") (auto simp: purge_blob_step [OF b] m'_def purge_mark_def split: if_splits)
  next
    case 2
    then obtain b where b: "gget m x = Some b" by auto
    define m' where "m' = (if purgeable r ids x b then gput x (purge_mark r ids x b) m else m)"
    have "set xs \<subseteq> dom (gget m')" using 2 by (auto simp: m'_def)
    moreover have "gget m' i = gget m i" if "i \<in> set xs" for i using that 2 by (auto simp: m'_def)
    ultimately show ?case
      using IH2 [of m'] 2 b
      by (auto simp: purge_blob_step [OF b] m'_def cong: map_cong filter_cong split: if_splits)
  }
qed

lemma PreparePurge_effect:
  assumes inv: "ns_inv r" and op: "Repo_PreparePurge identity k revision now r = (res, r')"
  shows "r' = r \<and> (\<exists>e. res = Inl e) \<or>
    (\<exists>n ids blobIDs. gget (nodes r) k = Some n \<and> nTenantID n = iTenantID identity \<and> nTrashedRootID n = k
       \<and> nRevision n = revision \<and> nStatus n \<in> {NodeTrashed, NodePurging}
       \<and> set ids = trash_group (gget (nodes r)) (iTenantID identity) k
       \<and> distinct blobIDs \<and> set blobIDs = {vBlobID v | v i. gget (versions r) i = Some v
            \<and> vTenantID v = iTenantID identity \<and> vNodeID v \<in> set ids}
       \<and> gget (nodes r') = (\<lambda>i. map_option (purge_node now (set ids) i) (gget (nodes r) i))
       \<and> blobs r' = fst (foldl (purge_blob r ids) (blobs r, []) blobIDs)
       \<and> res = Inr \<lparr>ppRootID = k, ppBlobs = snd (foldl (purge_blob r ids) (blobs r, []) blobIDs)\<rparr>
       \<and> tenants r' = tenants r \<and> versions r' = versions r)"
proof (cases "\<exists>n. gget (nodes r) k = Some n \<and> nTenantID n = iTenantID identity \<and> nTrashedRootID n = k
    \<and> nRevision n = revision \<and> nStatus n \<in> {NodeTrashed, NodePurging}")
  case True
  then obtain n where n: "gget (nodes r) k = Some n" "nTenantID n = iTenantID identity" "nTrashedRootID n = k"
    "nRevision n = revision" "nStatus n \<in> {NodeTrashed, NodePurging}" by blast
  have kid: "nID n = k" using ns_wfD(1) [OF inv [unfolded ns_inv_def] n(1)] .
  let ?ids = "trashedSubtree r k (iTenantID identity)"
  let ?bs = "remdups (map vBlobID (filter (\<lambda>v. vTenantID v = iTenantID identity \<and> vNodeID v \<in> set ?ids)
    (gvals (versions r))))"
  note S = set_trashedSubtree [OF inv, of k "iTenantID identity"]
  note upd = gget_update_subtree(3) [OF S(2) S(1) trash_group_keys, of now]
  have "set ?bs = {vBlobID v | v i. gget (versions r) i = Some v \<and> vTenantID v = iTenantID identity
      \<and> vNodeID v \<in> set ?ids}" by auto
  moreover have "Repo_PreparePurge identity k revision now r =
      (Inr \<lparr>ppRootID = k, ppBlobs = snd (foldl (purge_blob r ?ids) (blobs r, []) ?bs)\<rparr>,
       r\<lparr>nodes := update_nodes (purge_child now) ?ids (nodes r),
         blobs := fst (foldl (purge_blob r ?ids) (blobs r, []) ?bs)\<rparr>)"
    using n kid by (auto simp: Repo_PreparePurge_def Let_def)
  ultimately show ?thesis
    using op n S upd
    by (intro disjI2 exI [of _ n] exI [of _ ?ids] exI [of _ ?bs] conjI) (simp_all add: distinct_remdups)
next
  case False
  with op ns_wfD(1) [OF inv [unfolded ns_inv_def]] show ?thesis
    by (auto simp: Repo_PreparePurge_def Let_def split: option.splits if_splits)
qed

lemma PreparePurge_inv:
  assumes inv: "ns_inv r" and op: "Repo_PreparePurge identity k revision now r = (res, r')"
  shows "ns_inv r'"
  using PreparePurge_effect [OF inv op] inv ns_wf_purge [of "gget (tenants r)" "gget (nodes r)" k]
  by (auto simp: ns_inv_def)

lemma file_invD:
  assumes "file_inv r" and "gget (nodes r) k = Some n" and "nKind n = NodeFile"
  obtains v b where "gget (versions r) (nCurrentVersionID n) = Some v" "vNodeID v = k"
    "vTenantID v = nTenantID n" "gget (blobs r) (vBlobID v) = Some b" "bTenantID b = nTenantID n"
    "nStatus n \<noteq> NodePurging \<Longrightarrow> bStatus b = BlobAvailable"
  using assms unfolding file_inv_def current_content_def by blast

lemma PreparePurge_file_inv:
  assumes inv: "ns_inv r" and files: "file_inv r"
    and op: "Repo_PreparePurge identity k revision now r = (res, r')"
  shows "file_inv r'"
  using PreparePurge_effect [OF inv op]
proof (elim disjE exE conjE)
  fix n ids blobIDs
  assume ids: "set ids = trash_group (gget (nodes r)) (iTenantID identity) k"
    and bs: "distinct blobIDs" "set blobIDs = {vBlobID v | v i. gget (versions r) i = Some v
            \<and> vTenantID v = iTenantID identity \<and> vNodeID v \<in> set ids}"
    and eff: "gget (nodes r') = (\<lambda>i. map_option (purge_node now (set ids) i) (gget (nodes r) i))"
      "blobs r' = fst (foldl (purge_blob r ids) (blobs r, []) blobIDs)" "versions r' = versions r"
  have keys: "gget (blobs r) i = Some b \<Longrightarrow> bID b = i"
    and vers: "gget (versions r) i = Some v \<Longrightarrow> gget (blobs r) (vBlobID v) \<noteq> None" for i b v
    using files by (auto simp: file_inv_def)
  have "set blobIDs \<subseteq> dom (gget (blobs r))" using bs(2) vers by auto
  note upd = purge_blobs(1) [OF bs(1) this, of r ids "[]", folded eff(2)]
  have "\<exists>v b. current_content r' i (purge_node now (set ids) i m) v b"
    if m: "gget (nodes r) i = Some m" "nKind m = NodeFile" for i m
  proof -
    obtain v b where v: "gget (versions r) (nCurrentVersionID m) = Some v" "vNodeID v = i" "vTenantID v = nTenantID m"
      and b: "gget (blobs r) (vBlobID v) = Some b" "bTenantID b = nTenantID m"
        "nStatus m \<noteq> NodePurging \<Longrightarrow> bStatus b = BlobAvailable"
      using file_invD [OF files m] by metis
    let ?b = "if vBlobID v \<in> set blobIDs then purge_mark r ids (vBlobID v) b else b"
    have "?b = b" if "i \<notin> set ids"
      using that purgeable_inside [OF _ v(1) refl] v(2) by (auto simp: purge_mark_def)
    with v b upd eff(3) have "current_content r' i (purge_node now (set ids) i m) v ?b"
      by (auto simp: current_content_def purge_node_def purge_mark_def)
    then show ?thesis by blast
  qed
  moreover have "bID b = i" if "gget (blobs r') i = Some b" for i b
    using that keys by (auto simp: upd purge_mark_def split: if_splits)
  moreover have "gget (blobs r') (vBlobID v) \<noteq> None" if "gget (versions r) i = Some v" for i v
    using vers [OF that] by (simp add: upd)
  moreover have "nKind (purge_node now (set ids) i m) = nKind m" for i m by (simp add: purge_node_def)
  ultimately show ?thesis unfolding file_inv_def eff(1,3) by auto
qed (use files in simp)

lemma finish_blobs:
  assumes "\<And>i b. gget m i = Some b \<Longrightarrow> bID b = i"
  shows "(\<forall>i b. gget (foldl (finish_blob identity now) m plan) i = Some b \<longrightarrow> bID b = i) \<and>
    (\<forall>i b. gget m i = Some b \<longrightarrow> (\<exists>b'. gget (foldl (finish_blob identity now) m plan) i = Some b' \<and>
       bTenantID b' = bTenantID b \<and> (b' = b \<or> bStatus b \<noteq> BlobAvailable)))"
  using assms
proof (induction plan arbitrary: m)
  case Nil
  then show ?case by auto
next
  case (Cons p plan)
  let ?m = "finish_blob identity now m p"
  have keys: "bID b = i" if "gget ?m i = Some b" for i b
    using that Cons.prems by (auto simp: finish_blob_def split: option.splits if_splits)
  have step: "\<exists>b'. gget ?m i = Some b' \<and> bTenantID b' = bTenantID b \<and> (b' = b \<or> bStatus b \<noteq> BlobAvailable \<and> bStatus b' \<noteq> BlobAvailable)"
    if "gget m i = Some b" for i b
    using that Cons.prems by (auto simp: finish_blob_def split: option.splits)
  note IH = Cons.IH [of ?m, OF keys]
  have "\<exists>b'. gget (foldl (finish_blob identity now) ?m plan) i = Some b' \<and> bTenantID b' = bTenantID b
      \<and> (b' = b \<or> bStatus b \<noteq> BlobAvailable)" if b: "gget m i = Some b" for i b
  proof -
    obtain b1 where b1: "gget ?m i = Some b1" "bTenantID b1 = bTenantID b"
      "b1 = b \<or> bStatus b \<noteq> BlobAvailable \<and> bStatus b1 \<noteq> BlobAvailable" using step [OF b] by blast
    then obtain b2 where "gget (foldl (finish_blob identity now) ?m plan) i = Some b2" "bTenantID b2 = bTenantID b1"
      "b2 = b1 \<or> bStatus b1 \<noteq> BlobAvailable" using IH by blast
    with b1 show ?thesis by auto
  qed
  with IH show ?case by simp
qed

lemma FinishPurge_effect:
  assumes "Repo_FinishPurge env identity plan now r = (res, r')"
  shows "nodes r' = nodes r \<and> tenants r' = tenants r \<and> versions r' = versions r \<and>
    (blobs r' = blobs r \<or> blobs r' = foldl (finish_blob identity now) (blobs r) (ppBlobs plan))"
  using assms by (auto simp: Repo_FinishPurge_def Let_def split: option.splits if_splits
      dest: appendAuditLocked_pair)

lemma FinishPurge_inv:
  "ns_inv r \<Longrightarrow> Repo_FinishPurge env identity plan now r = (res, r') \<Longrightarrow> ns_inv r'"
  by (auto simp: ns_inv_def dest: FinishPurge_effect)

lemma FinishPurge_file_inv:
  assumes files: "file_inv r" and op: "Repo_FinishPurge env identity plan now r = (res, r')"
  shows "file_inv r'"
proof -
  note eff = FinishPurge_effect [OF op]
  have keys: "gget (blobs r) i = Some b \<Longrightarrow> bID b = i" for i b using files by (auto simp: file_inv_def)
  from finish_blobs [where m = "blobs r", OF keys, of identity now "ppBlobs plan"] eff
  have blobs: "\<forall>i b. gget (blobs r') i = Some b \<longrightarrow> bID b = i"
    "\<And>i b. gget (blobs r) i = Some b \<Longrightarrow> \<exists>b'. gget (blobs r') i = Some b' \<and>
       bTenantID b' = bTenantID b \<and> (b' = b \<or> bStatus b \<noteq> BlobAvailable)"
    using keys by auto
  have "\<exists>v b. current_content r' i m v b" if m: "gget (nodes r) i = Some m" "nKind m = NodeFile" for i m
  proof -
    obtain v b where v: "gget (versions r) (nCurrentVersionID m) = Some v" "vNodeID v = i" "vTenantID v = nTenantID m"
      and b: "gget (blobs r) (vBlobID v) = Some b" "bTenantID b = nTenantID m"
        "nStatus m \<noteq> NodePurging \<Longrightarrow> bStatus b = BlobAvailable"
      using file_invD [OF files m] by metis
    from blobs(2) [OF b(1)] obtain b' where "gget (blobs r') (vBlobID v) = Some b'" "bTenantID b' = bTenantID b"
      "b' = b \<or> bStatus b \<noteq> BlobAvailable" by blast
    with v b eff show ?thesis by (intro exI [of _ v] exI [of _ b']) (auto simp: current_content_def)
  qed
  moreover have "gget (blobs r') (vBlobID v) \<noteq> None" if "gget (versions r) i = Some v" for i v
    using files that blobs(2) unfolding file_inv_def by fastforce
  ultimately show ?thesis using blobs(1) eff by (auto simp: file_inv_def)
qed

lemma Recycle_file_inv:
  assumes inv: "ns_inv r" and files: "file_inv r" and op: "Repo_Recycle env identity k revision now r = Some (res, r')"
  shows "file_inv r'"
  using Recycle_effect [OF inv op]
proof (elim disjE exE conjE)
  fix n
  assume eff: "gget (nodes r') = (\<lambda>i. map_option (trash_node k now (subtree (gget (nodes r)) (iTenantID identity) k) i)
        (gget (nodes r) i))" "versions r' = versions r" "blobs r' = blobs r"
    and n: "activeNode r (iTenantID identity) k = Some n"
  show ?thesis
    by (rule file_inv_relabel [OF files eff(2,3)])
      (use n in \<open>auto simp: eff trash_node_def activeNode_Some visible_def split: if_splits\<close>)
qed (auto intro: file_inv_relabel [OF files])

lemma Restore_file_inv:
  assumes inv: "ns_inv r" and files: "file_inv r" and op: "Repo_Restore env identity k revision now r = (res, r')"
  shows "file_inv r'"
  using Restore_effect [OF inv op]
proof (elim disjE exE conjE)
  fix n p
  assume eff: "gget (nodes r') = (\<lambda>i. map_option (restore_node k now (trash_group (gget (nodes r)) (iTenantID identity) k) i)
            (gget (nodes r) i))" "versions r' = versions r" "blobs r' = blobs r"
    and n: "gget (nodes r) k = Some n" "nStatus n = NodeTrashed"
  show ?thesis
    by (rule file_inv_relabel [OF files eff(2,3)])
      (use n in \<open>auto simp: eff restore_node_def split: if_splits\<close>)
qed (auto intro: file_inv_relabel [OF files])

section \<open>Properties\<close>

lemma trash_then_restore:
  assumes wf: "ns_wf ts m" and r: "m root = Some r0" "nTenantID r0 = t" "visible r0" "nParentID r0 \<noteq> []"
  defines "S \<equiv> subtree m t root"
  shows "trash_group (\<lambda>k. map_option (trash_node root now S k) (m k)) t root = S"
proof -
  have rne: "root \<noteq> []" using ns_wfD(2) [OF wf r(1)] .
  have no_root: "nTrashedRootID n \<noteq> root" if "m k = Some n" for k n
    using ns_wfD(5) [OF wf that] r rne that by (auto simp: trash_ok_def visible_def)
  have mem: "\<exists>n. m k = Some n \<and> nTenantID n = t" if "k \<in> S" for k
    using that unfolding S_def by (cases rule: subtree_cases) (use r in auto)
  have ten: "nTenantID (trash_node root now S k n) = nTenantID n" for k n by (simp add: trash_node_def)
  show ?thesis
  proof (intro set_eqI iffI)
    fix k
    assume "k \<in> trash_group (\<lambda>k. map_option (trash_node root now S k) (m k)) t root"
    then obtain n where "m k = Some n" "nTrashedRootID (trash_node root now S k n) = root"
      by (auto simp: trash_group_def simp del: node_changes_group)
    with no_root show "k \<in> S" by (simp split: if_splits)
  next
    fix k
    assume "k \<in> S"
    with mem [OF this] ten show "k \<in> trash_group (\<lambda>k. map_option (trash_node root now S k) (m k)) t root"
      by (auto simp: trash_group_def)
  qed
qed

text \<open>
  Property C21. Recycling a visible node that is not the tenant root (revision matching) hides
  exactly its visible subtree: every node keeps its place, name and kind, and a node is visible
  afterwards if and only if it was visible before and is not in that subtree.
\<close>

theorem Recycle_hides_subtree:
  assumes "ns_inv r" and "activeNode r (iTenantID identity) k = Some n" and "nRevision n = revision"
    and "tRootNodeID (gget_or zero_Tenant (tenants r) (iTenantID identity)) \<noteq> k"
  shows "\<exists>res r'. Repo_Recycle env identity k revision now r = Some (res, r') \<and> ns_inv r' \<and>
    (\<forall>i. (gget (nodes r') i = None) = (gget (nodes r) i = None)) \<and>
    (\<forall>i m. gget (nodes r) i = Some m \<longrightarrow> (\<exists>m'. gget (nodes r') i = Some m' \<and> same_shape m' m \<and>
       (visible m' \<longleftrightarrow> visible m \<and> i \<notin> subtree (gget (nodes r)) (iTenantID identity) k)))"
proof -
  obtain res r' where op: "Repo_Recycle env identity k revision now r = Some (res, r')"
    and eff: "gget (nodes r') = (\<lambda>i. map_option (trash_node k now (subtree (gget (nodes r)) (iTenantID identity) k) i)
        (gget (nodes r) i))"
    using Recycle_ok [OF assms(1-4) refl, of env now] by auto
  have "k \<noteq> []" using assms(1,2) ns_wfD(2) by (fastforce simp: ns_inv_def activeNode_Some)
  with op eff Recycle_inv [OF assms(1) op] show ?thesis
    by (auto simp: trash_node_def same_shape_def visible_def)
qed

lemma sample_root_a: "activeNode sample_repo ''t1'' ''da'' = Some (sample_node NodeDirectory ''da'' ''root'' ''a'')"
  "tRootNodeID (gget_or zero_Tenant (tenants sample_repo) ''t1'') \<noteq> ''da''"
  "nRevision (sample_node NodeDirectory ''da'' ''root'' ''a'') = 1" "iTenantID sample_identity = ''t1''"
  by code_simp+

theorem Recycle_hides_subtree_witness:
  "\<exists>res r'. Repo_Recycle sample_env sample_identity ''da'' 1 5 sample_repo = Some (res, r') \<and> ns_inv r' \<and>
    (\<forall>i. (gget (nodes r') i = None) = (gget (nodes sample_repo) i = None)) \<and>
    (\<forall>i m. gget (nodes sample_repo) i = Some m \<longrightarrow> (\<exists>m'. gget (nodes r') i = Some m' \<and> same_shape m' m \<and>
       (visible m' \<longleftrightarrow> visible m \<and>
          i \<notin> subtree (gget (nodes sample_repo)) (iTenantID sample_identity) ''da'')))"
  by (rule Recycle_hides_subtree [OF sample_repo_inv]) (use sample_root_a in simp_all)

lemma trash_restore_node:
  assumes "i \<in> S \<Longrightarrow> visible m" and "k \<in> S"
  shows "restore_node k now' S i (trash_node k now S i m) =
    (if i = k then m\<lparr>nUpdatedAt := now', nRevision := wrap64 (wrap64 (nRevision m + 1) + 1),
         nOriginalParentID := [], nDeletedAt := None\<rparr>
     else if i \<in> S then m\<lparr>nUpdatedAt := now'\<rparr> else m)"
proof (cases "i \<in> S")
  case True
  then have "nStatus m = NodeActive" "nTrashedRootID m = []" using assms by (auto simp: visible_def)
  with True show ?thesis by (cases m) (simp add: restore_node_def trash_node_def)
next
  case False
  with assms(2) have "i \<noteq> k" by auto
  with False show ?thesis by (simp add: restore_node_def trash_node_def)
qed

text \<open>
  Property C20. Restoring right after recycling succeeds and brings the tree back: every node
  has its fields from before, except for the update time of the nodes of the subtree and, on
  the restored node, the revision, which moved twice, and the cleared recycle-bin fields.
\<close>

theorem recycle_restore_roundtrip:
  assumes inv: "ns_inv r" and node: "activeNode r (iTenantID identity) k = Some n" "nRevision n = revision"
    and root: "tRootNodeID (gget_or zero_Tenant (tenants r) (iTenantID identity)) \<noteq> k"
    and op: "Repo_Recycle env identity k revision now r = Some (res, r1)"
    and rand: "envRand env' = Inr bytes" "length bytes = 16"
  shows "\<exists>n' r2. Repo_Restore env' identity k (wrap64 (revision + 1)) now' r1 = (Inr n', r2) \<and>
    (\<forall>i. gget (nodes r2) i = map_option (\<lambda>m.
       if i = k then m\<lparr>nUpdatedAt := now', nRevision := wrap64 (wrap64 (revision + 1) + 1),
           nOriginalParentID := [], nDeletedAt := None\<rparr>
       else if i \<in> subtree (gget (nodes r)) (iTenantID identity) k then m\<lparr>nUpdatedAt := now'\<rparr>
       else m) (gget (nodes r) i))"
proof -
  note wf = inv [unfolded ns_inv_def]
  let ?t = "iTenantID identity" and ?m = "gget (nodes r)"
  let ?S = "subtree ?m ?t k"
  have k: "?m k = Some n" "nTenantID n = ?t" "visible n" using node by (auto simp: activeNode_Some)
  have par: "nParentID n \<noteq> []" by (rule not_tenant_root [OF inv k(1,2) root])
  have kne: "k \<noteq> []" "nID n = k" using ns_wfD(1,2) [OF wf k(1)] by auto
  have eff: "gget (nodes r1) = (\<lambda>i. map_option (trash_node k now ?S i) (?m i))"
    using Recycle_ok [OF inv node root refl, of env now] op by auto
  have inv1: "ns_inv r1" by (rule Recycle_inv [OF inv op])
  have grp: "trash_group (gget (nodes r1)) ?t k = ?S"
    unfolding eff by (rule trash_then_restore [OF wf k par])
  define n1 where "n1 = trash_node k now ?S k n"
  have n1: "gget (nodes r1) k = Some n1" "nTenantID n1 = ?t" "nStatus n1 = NodeTrashed" "nTrashedRootID n1 = k"
    "nRevision n1 = wrap64 (revision + 1)" "nOriginalParentID n1 = nParentID n"
    "nNormalizedName n1 = nNormalizedName n" "nID n1 = k"
    using k node kne by (simp_all add: eff n1_def trash_node_def)
  obtain p where p: "?m (nParentID n) = Some p" "nTenantID p = ?t" "nKind p = NodeDirectory" "visible p"
    using ns_wf_visible_parent [OF wf k(1) par k(3)] k(2) by auto
  have out: "nParentID n \<notin> ?S"
  proof
    assume "nParentID n \<in> ?S"
    then have "(nParentID n, k) \<in> (parent_rel ?m)\<^sup>*" by (rule subtree_ancestor)
    moreover have "(k, nParentID n) \<in> parent_rel ?m" using k by (auto simp: parent_rel_def)
    ultimately show False using wf unfolding ns_wf_def acyclic_def by (metis rtrancl_into_trancl2)
  qed
  then have par1: "activeNode r1 ?t (nParentID n) = Some p"
    using p by (auto simp: activeNode_Some eff trash_node_def)
  have free: "\<not> nameExists r1 ?t (nParentID n) (nNormalizedName n) k"
  proof
    assume "nameExists r1 ?t (nParentID n) (nNormalizedName n) k"
    then obtain i m1 where m1: "gget (nodes r1) i = Some m1" "nID m1 \<noteq> k" "nTenantID m1 = ?t"
      "nParentID m1 = nParentID n" "nNormalizedName m1 = nNormalizedName n" "visible m1"
      by (auto simp: nameExists_iff)
    then obtain m where m: "?m i = Some m" "m1 = trash_node k now ?S i m" by (auto simp: eff)
    have "i \<notin> ?S" using m(2) m1(6) kne(1) by (auto simp: visible_def)
    then have "m1 = m" using m(2) by (simp add: trash_node_def)
    have "i = k"
      by (rule ns_wf_unique [OF wf m(1) k(1)])
        (use \<open>m1 = m\<close> m1 k kne par ns_wfD(2) [OF wf m(1)] in \<open>auto simp: visible_def\<close>)
    with ns_wfD(1) [OF wf m(1)] m1(2) \<open>m1 = m\<close> show False by simp
  qed
  have ok: "\<exists>x r2. with_audit env' (audit_event a b c d i j []) y s = (Inr x, r2)"
    for a b c d i j s and y :: Node
    using with_audit_ok [OF rand, of "audit_event a b c d i j []" y s] by (auto simp: audit_event_def)
  have "\<exists>x r2. Repo_Restore env' identity k (wrap64 (revision + 1)) now' r1 = (Inr x, r2)"
    using n1 par1 free p(3) by (simp add: Repo_Restore_def Let_def ok)
  then obtain x r2 where res: "Repo_Restore env' identity k (wrap64 (revision + 1)) now' r1 = (Inr x, r2)" by blast
  have "gget (nodes r2) = (\<lambda>i. map_option (restore_node k now' ?S i) (gget (nodes r1) i))"
    using Restore_effect [OF inv1 res] grp by auto
  moreover have "restore_node k now' ?S i (trash_node k now ?S i m) =
      (if i = k then m\<lparr>nUpdatedAt := now', nRevision := wrap64 (wrap64 (revision + 1) + 1),
           nOriginalParentID := [], nDeletedAt := None\<rparr>
       else if i \<in> ?S then m\<lparr>nUpdatedAt := now'\<rparr> else m)" if "?m i = Some m" for i m
    using trash_restore_node [of i ?S m k now' now] subtree_visible_member [of i ?m ?t k m] that k node by auto
  ultimately have "gget (nodes r2) i = map_option (\<lambda>m.
       if i = k then m\<lparr>nUpdatedAt := now', nRevision := wrap64 (wrap64 (revision + 1) + 1),
           nOriginalParentID := [], nDeletedAt := None\<rparr>
       else if i \<in> ?S then m\<lparr>nUpdatedAt := now'\<rparr> else m) (?m i)" for i
    by (cases "?m i") (simp_all add: eff)
  with res show ?thesis by blast
qed

theorem recycle_restore_roundtrip_witness:
  "\<exists>r1 n' r2. Repo_Restore sample_env sample_identity ''da'' (wrap64 (1 + 1)) 6 r1 = (Inr n', r2) \<and>
    (\<forall>i. gget (nodes r2) i = map_option (\<lambda>m.
       if i = ''da'' then m\<lparr>nUpdatedAt := 6, nRevision := wrap64 (wrap64 (1 + 1) + 1),
           nOriginalParentID := [], nDeletedAt := None\<rparr>
       else if i \<in> subtree (gget (nodes sample_repo)) (iTenantID sample_identity) ''da'' then m\<lparr>nUpdatedAt := 6\<rparr>
       else m) (gget (nodes sample_repo) i))"
proof -
  obtain res r1 where op: "Repo_Recycle sample_env sample_identity ''da'' 1 5 sample_repo = Some (res, r1)"
    using Recycle_returns [OF sample_repo_inv] by blast
  have node: "activeNode sample_repo (iTenantID sample_identity) ''da'' = Some (sample_node NodeDirectory ''da'' ''root'' ''a'')"
    "tRootNodeID (gget_or zero_Tenant (tenants sample_repo) (iTenantID sample_identity)) \<noteq> ''da''"
    using sample_root_a by simp_all
  have rand: "envRand sample_env = Inr (replicate 16 CHR ''a'')" "length (replicate 16 CHR ''a'') = 16"
    by (simp_all add: sample_env_def)
  from recycle_restore_roundtrip [OF sample_repo_inv node(1) sample_root_a(3) node(2) op rand] show ?thesis by blast
qed

subsection \<open>A sample with files\<close>

text \<open>The sample tree with a file in \<open>a\<close> and one in the root, each with its own content.\<close>

definition sample_file :: "string \<Rightarrow> string \<Rightarrow> string \<Rightarrow> string \<Rightarrow> Node" where
  "sample_file i parent nm version = (sample_node NodeFile i parent nm)\<lparr>nCurrentVersionID := version, nSize := 3\<rparr>"

definition sample_version :: "string \<Rightarrow> string \<Rightarrow> string \<Rightarrow> FileVersion" where
  "sample_version i node blob = zero_FileVersion\<lparr>vID := i, vTenantID := ''t1'', vNodeID := node,
     vBlobID := blob, vSize := 3\<rparr>"

definition sample_blob :: "string \<Rightarrow> Blob" where
  "sample_blob i = zero_Blob\<lparr>bID := i, bTenantID := ''t1'', bSize := 3, bStatus := BlobAvailable,
     bReferenceCount := 1\<rparr>"

definition sample_files :: Repository where
  "sample_files = (sample_add (sample_file ''f2'' ''root'' ''y'' ''v2'')
     (sample_add (sample_file ''f1'' ''da'' ''x'' ''v1'') sample_repo))
     \<lparr>versions := [(''v1'', sample_version ''v1'' ''f1'' ''b1''), (''v2'', sample_version ''v2'' ''f2'' ''b2'')],
      blobs := [(''b1'', sample_blob ''b1''), (''b2'', sample_blob ''b2'')]\<rparr>"

lemma sample_files_inv: "ns_inv sample_files"
proof -
  have "ns_inv (sample_add (sample_file ''f2'' ''root'' ''y'' ''v2'')
     (sample_add (sample_file ''f1'' ''da'' ''x'' ''v1'') sample_repo))"
    by (intro sample_add_inv sample_repo_inv) code_simp+
  then show ?thesis by (simp add: sample_files_def ns_inv_def)
qed

lemma sample_files_nodes:
  "nodes sample_files = [(''f2'', sample_file ''f2'' ''root'' ''y'' ''v2''), (''f1'', sample_file ''f1'' ''da'' ''x'' ''v1'')]
     @ nodes sample_repo"
  "list_all (\<lambda>(k, n). nKind n = NodeDirectory) (nodes sample_repo)"
  by code_simp+

lemma gget_mem: "gget m k = Some v \<Longrightarrow> (k, v) \<in> set m"
  by (induction m) (auto split: if_splits)

lemma sample_files_file_inv: "file_inv sample_files"
proof -
  have dirs: "nKind n \<noteq> NodeFile" if "gget (nodes sample_repo) k = Some n" for k n
    using gget_mem [OF that] sample_files_nodes(2) by (auto simp: list_all_iff)
  show ?thesis
    unfolding file_inv_def current_content_def sample_files_nodes(1)
    by (auto simp: sample_files_def sample_file_def sample_version_def sample_blob_def sample_node_def
        dest: dirs split: if_splits)
qed

subsection \<open>Purging\<close>

lemma DownloadBlob_cong:
  assumes "\<And>n. gget (nodes r) i = Some n \<Longrightarrow> visible n \<Longrightarrow> gget (nodes r') i = Some n
      \<and> (nKind n = NodeFile \<longrightarrow> (\<forall>v. gget (versions r) (nCurrentVersionID n) = Some v \<longrightarrow>
            gget (blobs r') (vBlobID v) = gget (blobs r) (vBlobID v)))"
    and "\<And>n'. gget (nodes r') i = Some n' \<Longrightarrow> visible n' \<Longrightarrow> \<exists>n. gget (nodes r) i = Some n \<and> visible n"
    and "versions r' = versions r"
  shows "Repo_DownloadBlob identity i r' = Repo_DownloadBlob identity i r"
proof (cases "\<exists>n. gget (nodes r) i = Some n \<and> visible n")
  case True
  then obtain n where n: "gget (nodes r) i = Some n" "visible n" by blast
  with assms(1) [OF n] assms(3) show ?thesis
    by (cases "gget (versions r) (nCurrentVersionID n)") (auto simp: Repo_DownloadBlob_def DownloadBlob_version_def)
next
  case False
  with assms(2) show ?thesis by (auto simp: Repo_DownloadBlob_def split: option.splits)
qed

lemma DownloadBlob_ok:
  assumes "file_inv r" and "activeNode r (iTenantID identity) i = Some n" and "nKind n = NodeFile"
  shows "\<exists>b. Repo_DownloadBlob identity i r = Inr (n, b) \<and> bStatus b = BlobAvailable
    \<and> bTenantID b = iTenantID identity"
proof -
  have n: "gget (nodes r) i = Some n" "nTenantID n = iTenantID identity" "visible n"
    using assms(2) by (auto simp: activeNode_Some)
  with file_invD [OF assms(1) n(1) assms(3)] assms(3) show ?thesis
    by (fastforce simp: Repo_DownloadBlob_def DownloadBlob_version_def visible_def)
qed

text \<open>
  Property C18. A purge plan is safe: each blob it lists is marked as pending deletion and is
  referenced only by versions of nodes inside the purged group, and no download of any node
  by any identity changes its answer.
\<close>

theorem PreparePurge_safe:
  assumes inv: "ns_inv r" and files: "file_inv r"
    and op: "Repo_PreparePurge identity k revision now r = (Inr plan, r')"
  shows "(\<forall>b \<in> set (ppBlobs plan). gget (blobs r') (bID b) = Some b \<and> bStatus b = BlobPendingDelete \<and>
      (\<forall>i v. gget (versions r') i = Some v \<longrightarrow> vBlobID v = bID b \<longrightarrow>
         (\<exists>n. gget (nodes r') (vNodeID v) = Some n \<and> nTrashedRootID n = k \<and> nStatus n = NodePurging)))
    \<and> (\<forall>identity' i. Repo_DownloadBlob identity' i r' = Repo_DownloadBlob identity' i r)"
proof -
  note wf = inv [unfolded ns_inv_def]
  from PreparePurge_effect [OF inv op] obtain n ids blobIDs where
    n: "gget (nodes r) k = Some n" "nTrashedRootID n = k"
    and ids: "set ids = trash_group (gget (nodes r)) (iTenantID identity) k"
    and bs: "distinct blobIDs" "set blobIDs = {vBlobID v | v i. gget (versions r) i = Some v
            \<and> vTenantID v = iTenantID identity \<and> vNodeID v \<in> set ids}"
    and eff: "gget (nodes r') = (\<lambda>i. map_option (purge_node now (set ids) i) (gget (nodes r) i))"
      "blobs r' = fst (foldl (purge_blob r ids) (blobs r, []) blobIDs)" "versions r' = versions r"
    and plan: "ppBlobs plan = snd (foldl (purge_blob r ids) (blobs r, []) blobIDs)" by auto
  have keys: "gget (blobs r) i = Some b \<Longrightarrow> bID b = i"
    and vers: "gget (versions r) i = Some v \<Longrightarrow> gget (blobs r) (vBlobID v) \<noteq> None" for i b v
    using files by (auto simp: file_inv_def)
  have dom: "set blobIDs \<subseteq> dom (gget (blobs r))" using bs(2) vers by auto
  note blobs' = purge_blobs(1) [OF bs(1) dom, of r ids "[]", folded eff(2)]
  note planned = purge_blobs(2) [OF bs(1) dom, of r ids "[]", folded plan]
  have kne: "k \<noteq> []" using ns_wfD(2) [OF wf n(1)] .
  have "gget (blobs r') (bID b) = Some b \<and> bStatus b = BlobPendingDelete \<and>
      (\<forall>i v. gget (versions r') i = Some v \<longrightarrow> vBlobID v = bID b \<longrightarrow>
         (\<exists>n. gget (nodes r') (vNodeID v) = Some n \<and> nTrashedRootID n = k \<and> nStatus n = NodePurging))"
    if "b \<in> set (ppBlobs plan)" for b
  proof -
    from that planned obtain x where x: "x \<in> set blobIDs" "purgeable r ids x (the (gget (blobs r) x))"
      "b = purge_mark r ids x (the (gget (blobs r) x))" by auto
    with dom obtain b0 where b0: "gget (blobs r) x = Some b0" by blast
    with x keys have b: "bID b = x" "bStatus b = BlobPendingDelete" "b = purge_mark r ids x b0"
      by (auto simp: purge_mark_def)
    have "\<exists>n. gget (nodes r') (vNodeID v) = Some n \<and> nTrashedRootID n = k \<and> nStatus n = NodePurging"
      if "gget (versions r) i = Some v" "vBlobID v = x" for i v
      using purgeable_inside [OF x(2) that] ids by (auto simp: eff(1) trash_group_def purge_node_def)
    with b b0 x(1) blobs' eff(3) show ?thesis by auto
  qed
  moreover have "Repo_DownloadBlob identity' i r' = Repo_DownloadBlob identity' i r" for identity' i
  proof (rule DownloadBlob_cong)
    fix m
    assume m: "gget (nodes r) i = Some m" "visible m"
    then have out: "i \<notin> set ids" using ids kne by (auto simp: trash_group_def visible_def)
    have "gget (blobs r') (vBlobID v) = gget (blobs r) (vBlobID v)"
      if "nKind m = NodeFile" "gget (versions r) (nCurrentVersionID m) = Some v" for v
    proof -
      have "vNodeID v = i" using file_invD [OF files m(1) that(1)] that(2) by auto
      with out purgeable_inside [OF _ that(2) refl] show ?thesis
        by (cases "gget (blobs r) (vBlobID v)") (auto simp: blobs' purge_mark_def)
    qed
    with m out show "gget (nodes r') i = Some m \<and> (nKind m = NodeFile \<longrightarrow>
        (\<forall>v. gget (versions r) (nCurrentVersionID m) = Some v \<longrightarrow> gget (blobs r') (vBlobID v) = gget (blobs r) (vBlobID v)))"
      by (simp add: eff(1) purge_node_def)
  qed (auto simp: eff purge_node_def visible_def split: if_splits)
  ultimately show ?thesis by blast
qed

definition sample_trashed :: Repository where
  "sample_trashed = snd (the (Repo_Recycle sample_env sample_identity ''da'' 1 5 sample_files))"

lemma sample_trashed_op:
  "\<exists>res. Repo_Recycle sample_env sample_identity ''da'' 1 5 sample_files = Some (res, sample_trashed)"
  using Recycle_returns [OF sample_files_inv, of sample_env sample_identity "''da''" 1 5]
  by (auto simp: sample_trashed_def)

theorem PreparePurge_safe_witness:
  "\<exists>plan r'. Repo_PreparePurge sample_identity ''da'' 2 7 sample_trashed = (Inr plan, r')
    \<and> map bID (ppBlobs plan) = [''b1'']
    \<and> (\<forall>identity' i. Repo_DownloadBlob identity' i r' = Repo_DownloadBlob identity' i sample_trashed)"
proof -
  obtain res where op: "Repo_Recycle sample_env sample_identity ''da'' 1 5 sample_files = Some (res, sample_trashed)"
    using sample_trashed_op by blast
  note inv = Recycle_inv [OF sample_files_inv op] Recycle_file_inv [OF sample_files_inv sample_files_file_inv op]
  have "(case fst (Repo_PreparePurge sample_identity ''da'' 2 7 sample_trashed) of Inl _ \<Rightarrow> False
     | Inr plan \<Rightarrow> map bID (ppBlobs plan) = [''b1''])" by code_simp
  then obtain plan where plan: "fst (Repo_PreparePurge sample_identity ''da'' 2 7 sample_trashed) = Inr plan"
    "map bID (ppBlobs plan) = [''b1'']" by (auto split: sum.splits)
  then obtain r' where r': "Repo_PreparePurge sample_identity ''da'' 2 7 sample_trashed = (Inr plan, r')"
    by (metis prod.collapse)
  from PreparePurge_safe [OF inv r'] plan(2) r' show ?thesis by (intro exI [of _ plan] exI [of _ r']) simp
qed

end
