(* ===== verification/Memory_Upload.thy ===== *)
theory Memory_Upload
  imports Memory_Recycle
begin

text \<open>
  Upload sessions of \<^verbatim>\<open>internal/memory/repository.go\<close>: creating a session, its transitions up to
  the commit that publishes the file, aborting, the recorded parts and part signatures, and the
  cleanup flag kept beside a session. \<open>upload_step\<close> is the state machine that the status of a
  session follows; every operation here moves a session along it or leaves it alone.
\<close>

definition put_upload :: "string \<Rightarrow> UploadSession \<Rightarrow> Repository \<Rightarrow> Repository" where
  "put_upload i session r = r\<lparr>uploads := gput i session (uploads r)\<rparr>"

text \<open>\<^verbatim>\<open>lease := r.uploadMaintenance[id]; lease.cleanupPending = true; r.uploadMaintenance[id] = lease\<close>\<close>

definition request_cleanup :: "string \<Rightarrow> Repository \<Rightarrow> Repository" where
  "request_cleanup i r = r\<lparr>uploadMaintenance :=
     gput i ((gget_or zero_lease (uploadMaintenance r) i)\<lparr>lsCleanupPending := True\<rparr>) (uploadMaintenance r)\<rparr>"

definition move_upload :: "UploadStatus \<Rightarrow> time \<Rightarrow> UploadSession \<Rightarrow> UploadSession" where
  "move_upload status now session = session\<lparr>uStatus := status, uRevision := wrap64 (uRevision session + 1),
     uUpdatedAt := now\<rparr>"

definition Repo_CreateUpload :: "CreateUploadCommand \<Rightarrow> UploadSession op" where
  "Repo_CreateUpload c r =
     (let session = cuSession c
      in (case activeNode r (uTenantID session) (uParentID session) of
            None \<Rightarrow> (Inl (E CodeNotFound ''parent directory was not found''), r)
          | Some parent \<Rightarrow>
              if nKind parent \<noteq> NodeDirectory
              then (Inl (E CodeNotFound ''parent directory was not found''), r)
              else if nameExists r (uTenantID session) (uParentID session) (uNormalizedName session) []
              then (Inl (E CodeNameConflict ''an active item with this name already exists''), r)
              else if gget (uploads r) (uID session) \<noteq> None
              then (Inl (E CodeIdempotencyConflict ''upload id already exists''), r)
              else
                (case completeIdempotency (cuIdempotency c) (uID session) (uCreatedAt session) r of
                   (Inl err, r') \<Rightarrow> (Inl err, r')
                 | (Inr _, r') \<Rightarrow> (Inr session, put_upload (uID session) session r'))))"

definition Repo_Upload :: "Identity \<Rightarrow> string \<Rightarrow> Repository \<Rightarrow> UploadSession result" where
  "Repo_Upload identity i r = uploadFor r identity i"

definition Repo_MarkUploading :: "Identity \<Rightarrow> string \<Rightarrow> time \<Rightarrow> UploadSession op" where
  "Repo_MarkUploading identity i now r =
     (case uploadFor r identity i of
        Inl err \<Rightarrow> (Inl err, r)
      | Inr session \<Rightarrow>
          if uStatus session = UploadUploading then (Inr session, r)
          else if uStatus session \<noteq> UploadCreated
          then (Inl (E CodeInvalidState ''upload session cannot transition to uploading''), r)
          else let session' = move_upload UploadUploading now session
               in (Inr session', put_upload i session' r))"

definition Repo_BeginComplete ::
  "Identity \<Rightarrow> string \<Rightarrow> string \<Rightarrow> CompletedPart list \<Rightarrow> time \<Rightarrow> UploadSession op" where
  "Repo_BeginComplete identity i digest ps now r =
     (case uploadFor r identity i of
        Inl err \<Rightarrow> (Inl err, r)
      | Inr session \<Rightarrow>
          if uCompletionDigest session \<noteq> [] \<and> uCompletionDigest session \<noteq> digest
          then (Inl (E CodeIdempotencyConflict ''completion payload differs from the first request''), r)
          else if uStatus session \<in> {UploadCommitted, UploadObjectCompleted, UploadCompleting}
          then (Inr session, r)
          else if uStatus session \<noteq> UploadCreated \<and> uStatus session \<noteq> UploadUploading
          then (Inl (E CodeInvalidState ''upload session cannot be completed''), r)
          else if \<not> now < uExpiresAt session
          then (Inl (E CodeInvalidState ''upload session has expired''), r)
          else let session' = (move_upload UploadCompleting now session)\<lparr>uCompletionDigest := digest\<rparr>
               in (Inr session', (put_upload i session' r)\<lparr>parts := gput i ps (parts r)\<rparr>))"

definition Repo_FailUploadCompletion ::
  "Identity \<Rightarrow> string \<Rightarrow> string \<Rightarrow> string \<Rightarrow> time \<Rightarrow> UploadSession op" where
  "Repo_FailUploadCompletion identity i digest failureCode now r =
     (if failureCode = [] then (Inl (E CodeInvalidRequest ''upload failure code is required''), r)
      else
        (case uploadFor r identity i of
           Inl err \<Rightarrow> (Inl err, r)
         | Inr session \<Rightarrow>
             if uCompletionDigest session \<noteq> digest
             then (Inl (E CodeIdempotencyConflict ''completion payload differs from the first request''), r)
             else if uStatus session = UploadFailed then (Inr session, r)
             else if uStatus session \<noteq> UploadCompleting
             then (Inl (E CodeInvalidState ''upload completion cannot transition to failed''), r)
             else let session' = (move_upload UploadFailed now session)\<lparr>uFailureCode := failureCode\<rparr>
                  in (Inr session', request_cleanup i (put_upload i session' r))))"

definition Repo_MarkObjectCompleted :: "Identity \<Rightarrow> string \<Rightarrow> ObjectInfo \<Rightarrow> time \<Rightarrow> UploadSession op" where
  "Repo_MarkObjectCompleted identity i info now r =
     (case uploadFor r identity i of
        Inl err \<Rightarrow> (Inl err, r)
      | Inr session \<Rightarrow>
          if uStatus session = UploadObjectCompleted \<or> uStatus session = UploadCommitted then (Inr session, r)
          else if uStatus session \<noteq> UploadCompleting
          then (Inl (E CodeInvalidState ''upload object cannot be marked complete''), r)
          else let session' = move_upload UploadObjectCompleted now session
               in (Inr session', put_upload i session' r))"

definition completeResult :: "UploadSession \<Rightarrow> Repository \<Rightarrow> CompleteResult" where
  "completeResult session r =
     (let node = gget_or zero_Node (nodes r) (uCommittedNodeID session);
          version = gget_or zero_FileVersion (versions r) (nCurrentVersionID node);
          blob = gget_or zero_Blob (blobs r) (vBlobID version)
      in \<lparr>crUpload = session, crNode = node, crBlob = blob, crVersion = version\<rparr>)"

text \<open>The two failure exits of \<^verbatim>\<open>CommitUpload\<close> after the object is complete.\<close>

definition CommitUpload_fail :: "UploadSession \<Rightarrow> string \<Rightarrow> time \<Rightarrow> Repository \<Rightarrow> Repository" where
  "CommitUpload_fail session failureCode now r =
     request_cleanup (uID session)
       (put_upload (uID session) ((move_upload UploadFailed now session)\<lparr>uFailureCode := failureCode\<rparr>) r)"

definition CommitUpload_publish :: "CommitUploadCommand \<Rightarrow> UploadSession \<Rightarrow> Repository \<Rightarrow> Repository" where
  "CommitUpload_publish c session' r = put_upload (uID session') session'
     (r\<lparr>blobs := gput (bID (cmBlob c)) (cmBlob c) (blobs r),
        versions := gput (vID (cmVersion c)) (cmVersion c) (versions r),
        nodes := gput (nID (cmNode c)) (cmNode c) (nodes r)\<rparr>)"

definition Repo_CommitUpload :: "Env \<Rightarrow> CommitUploadCommand \<Rightarrow> (CompleteResult \<times> bool) op" where
  "Repo_CommitUpload env c r =
     (let tenant = iTenantID (cmIdentity c)
      in (case uploadFor r (cmIdentity c) (cmSessionID c) of
            Inl err \<Rightarrow> (Inl err, r)
          | Inr session \<Rightarrow>
              if uCompletionDigest session \<noteq> cmDigest c
              then (Inl (E CodeIdempotencyConflict ''completion payload differs from the first request''), r)
              else if uStatus session = UploadCommitted then (Inr (completeResult session r, False), r)
              else if uStatus session \<noteq> UploadObjectCompleted
              then (Inl (E CodeInvalidState ''upload object is not completed''), r)
              else if (case activeNode r tenant (uParentID session) of
                         None \<Rightarrow> True | Some parent \<Rightarrow> nKind parent \<noteq> NodeDirectory)
              then (Inl (E CodeNotFound ''parent directory was not found''),
                    CommitUpload_fail session UploadFailureParentUnavailable (cmNow c) r)
              else if nameExists r (uTenantID session) (uParentID session) (uNormalizedName session) []
              then (Inl (E CodeNameConflict ''an active item with this name already exists''),
                    CommitUpload_fail session UploadFailureNameConflict (cmNow c) r)
              else
                let session' = (move_upload UploadCommitted (cmNow c) session)\<lparr>uCommittedNodeID := nID (cmNode c)\<rparr>
                in with_audit env
                     (audit_event tenant (iPrincipalID (cmIdentity c)) ''upload.committed'' ''node''
                        (nID (cmNode c)) (cmNow c)
                        [(''upload_id'', uID session'), (''kind'', NodeKind_string (nKind (cmNode c)))])
                     (\<lparr>crUpload = session', crNode = cmNode c, crBlob = cmBlob c, crVersion = cmVersion c\<rparr>, True)
                     (CommitUpload_publish c session' r)))"

definition Repo_AbortUpload :: "Identity \<Rightarrow> string \<Rightarrow> UploadStatus \<Rightarrow> time \<Rightarrow> UploadSession op" where
  "Repo_AbortUpload identity i target now r =
     (case uploadFor r identity i of
        Inl err \<Rightarrow> (Inl err, r)
      | Inr session \<Rightarrow>
          if uStatus session = UploadCommitted
          then (Inl (E CodeInvalidState ''committed upload cannot be aborted''), r)
          else if uStatus session \<in> {UploadAborted, UploadExpired, UploadFailed} then (Inr session, r)
          else if uStatus session \<noteq> UploadCreated \<and> uStatus session \<noteq> UploadUploading
          then (Inl (E CodeInvalidState ''upload session cannot be aborted while completing''), r)
          else if target \<noteq> UploadAborted \<and> target \<noteq> UploadExpired \<and> target \<noteq> UploadFailed
          then (Inl (E CodeInvalidState ''invalid upload terminal state''), r)
          else let session' = move_upload target now session
               in (Inr session', request_cleanup i (put_upload i session' r)))"

definition Repo_UploadParts :: "Identity \<Rightarrow> string \<Rightarrow> Repository \<Rightarrow> CompletedPart list result" where
  "Repo_UploadParts identity i r =
     (case uploadFor r identity i of Inl err \<Rightarrow> Inl err | Inr _ \<Rightarrow> Inr (gget_or [] (parts r) i))"

definition Repo_RecordPartSignature :: "Identity \<Rightarrow> string \<Rightarrow> PartSignature \<Rightarrow> unit op" where
  "Repo_RecordPartSignature identity i part r =
     (if psPartNumber part < 1 \<or> psPartNumber part > MaxUploadParts \<or> psSize part \<le> 0
         \<or> \<not> ValidChecksum \<lparr>cAlgorithm = ''sha256'', cValue = psSHA256 part\<rparr>
      then (Inl (E CodeInvalidRequest ''part signature is invalid''), r)
      else
        (case uploadFor r identity i of
           Inl err \<Rightarrow> (Inl err, r)
         | Inr _ \<Rightarrow>
             (Inr (), r\<lparr>partSignatures := gput i
                (gput (psPartNumber part) part (gget_or gempty (partSignatures r) i)) (partSignatures r)\<rparr>)))"

definition Repo_PartSignatures :: "Identity \<Rightarrow> string \<Rightarrow> Repository \<Rightarrow> PartSignature list result" where
  "Repo_PartSignatures identity i r =
     (case uploadFor r identity i of
        Inl err \<Rightarrow> Inl err
      | Inr _ \<Rightarrow>
          Inr (List.map_filter (gget (gget_or gempty (partSignatures r) i)) [1..MaxUploadParts]))"

definition Repo_MarkUploadCleanupComplete :: "Identity \<Rightarrow> string \<Rightarrow> unit op" where
  "Repo_MarkUploadCleanupComplete identity i r =
     (case uploadFor r identity i of
        Inl err \<Rightarrow> (Inl err, r)
      | Inr session \<Rightarrow>
          if \<not> Terminal (uStatus session)
          then (Inl (E CodeInvalidState ''upload cleanup cannot be completed''), r)
          else (Inr (), r\<lparr>uploadMaintenance := gput i
                  ((gget_or zero_lease (uploadMaintenance r) i)
                     \<lparr>lsCleanupPending := False, lsErrorCode := [], lsNotBefore := 0\<rparr>) (uploadMaintenance r)\<rparr>))"

definition Repo_ExpiredUploads :: "time \<Rightarrow> int \<Rightarrow> Repository \<Rightarrow> UploadSession list" where
  "Repo_ExpiredUploads now limit r =
     (let result = sort_slice (\<lambda>a b. uExpiresAt a < uExpiresAt b)
            (filter (\<lambda>session. \<not> Terminal (uStatus session) \<and> \<not> now < uExpiresAt session) (gvals (uploads r)))
      in if int (length result) > limit \<and> limit > 0 then take (nat limit) result else result)"

lemmas upload_ops = Repo_CreateUpload_def Repo_MarkUploading_def Repo_BeginComplete_def
  Repo_FailUploadCompletion_def Repo_MarkObjectCompleted_def Repo_CommitUpload_def Repo_AbortUpload_def
  Repo_RecordPartSignature_def Repo_MarkUploadCleanupComplete_def

section \<open>The state machine of a session\<close>

inductive upload_step :: "UploadSession \<Rightarrow> UploadSession \<Rightarrow> bool" where
  start: "uStatus s = UploadCreated \<Longrightarrow> upload_step s (move_upload UploadUploading now s)"
| freeze: "uStatus s \<in> {UploadCreated, UploadUploading} \<Longrightarrow> uCompletionDigest s \<in> {[], digest} \<Longrightarrow>
    now < uExpiresAt s \<Longrightarrow>
    upload_step s ((move_upload UploadCompleting now s)\<lparr>uCompletionDigest := digest\<rparr>)"
| object_done: "uStatus s = UploadCompleting \<Longrightarrow> upload_step s (move_upload UploadObjectCompleted now s)"
| failed: "uStatus s \<in> {UploadCompleting, UploadObjectCompleted} \<Longrightarrow> code \<noteq> [] \<Longrightarrow>
    upload_step s ((move_upload UploadFailed now s)\<lparr>uFailureCode := code\<rparr>)"
| committed: "uStatus s = UploadObjectCompleted \<Longrightarrow>
    upload_step s ((move_upload UploadCommitted now s)\<lparr>uCommittedNodeID := node\<rparr>)"
| aborted: "uStatus s \<in> {UploadCreated, UploadUploading} \<Longrightarrow>
    target \<in> {UploadAborted, UploadExpired, UploadFailed} \<Longrightarrow> upload_step s (move_upload target now s)"

inductive_cases upload_stepE: "upload_step s s'"

fun upload_rank :: "UploadStatus \<Rightarrow> nat" where
  "upload_rank UploadCreated = 0"
| "upload_rank UploadUploading = 1"
| "upload_rank UploadCompleting = 2"
| "upload_rank UploadObjectCompleted = 3"
| "upload_rank _ = 4"

text \<open>What a session is about: nothing of this changes after the session is created.\<close>

definition upload_core :: "UploadSession \<Rightarrow> UploadSession" where
  "upload_core s = s\<lparr>uStatus := UploadCreated, uCompletionDigest := [], uCommittedNodeID := [],
     uFailureCode := [], uRevision := 0, uUpdatedAt := 0\<rparr>"

lemma upload_step_facts:
  assumes "upload_step s s'"
  shows "\<not> Terminal (uStatus s)" and "upload_rank (uStatus s) < upload_rank (uStatus s')"
    and "upload_core s' = upload_core s" and "uRevision s' = wrap64 (uRevision s + 1)"
    and "uCompletionDigest s \<noteq> [] \<Longrightarrow> uCompletionDigest s' = uCompletionDigest s"
    and "uStatus s' = UploadCommitted \<Longrightarrow> uStatus s = UploadObjectCompleted"
  using assms by (auto elim!: upload_stepE simp: move_upload_def Terminal_def upload_core_def)

lemma upload_steps_facts:
  assumes "upload_step\<^sup>*\<^sup>* s s'"
  shows "upload_core s' = upload_core s"
    and "uCompletionDigest s \<noteq> [] \<Longrightarrow> uCompletionDigest s' = uCompletionDigest s"
    and "Terminal (uStatus s) \<Longrightarrow> s' = s"
    and "upload_rank (uStatus s) \<le> upload_rank (uStatus s')"
proof -
  show core: "upload_core s' = upload_core s"
    using assms by (induction) (auto dest: upload_step_facts(3))
  show "uCompletionDigest s' = uCompletionDigest s" if "uCompletionDigest s \<noteq> []"
    using assms that by (induction) (auto dest: upload_step_facts(5))
  show "s' = s" if "Terminal (uStatus s)"
    using assms that by (induction) (auto dest: upload_step_facts(1))
  show "upload_rank (uStatus s) \<le> upload_rank (uStatus s')"
    using assms by (induction) (auto dest: upload_step_facts(2))
qed

text \<open>A step of the repository keeps every session, possibly moved along one transition.\<close>

definition uploads_follow :: "Repository \<Rightarrow> Repository \<Rightarrow> bool" where
  "uploads_follow r r' \<longleftrightarrow> (\<forall>k s. gget (uploads r) k = Some s \<longrightarrow>
     (\<exists>s'. gget (uploads r') k = Some s' \<and> (s' = s \<or> upload_step s s')))"

definition upload_keys :: "Repository \<Rightarrow> bool" where
  "upload_keys r \<longleftrightarrow> (\<forall>k s. gget (uploads r) k = Some s \<longrightarrow> uID s = k)"

lemma uploads_follow_refl: "uploads r' = uploads r \<Longrightarrow> uploads_follow r r'"
  by (simp add: uploads_follow_def)

lemma uploads_follow_put:
  assumes "gget (uploads r) i = Some s" and "upload_step s s'"
    and "uploads r' = gput i s' (uploads r)"
  shows "uploads_follow r r'"
  using assms by (auto simp: uploads_follow_def)

lemma upload_keys_put:
  assumes "upload_keys r" and "uID s' = i" and "uploads r' = gput i s' (uploads r)"
  shows "upload_keys r'"
  using assms by (auto simp: upload_keys_def)

lemma uploads_put [simp]:
  "uploads (put_upload i s r) = gput i s (uploads r)"
  "uploads (request_cleanup i r) = uploads r"
  "uploads (CommitUpload_publish c s r) = gput (uID s) s (uploads r)"
  "uploads (CommitUpload_fail s code now r)
     = gput (uID s) ((move_upload UploadFailed now s)\<lparr>uFailureCode := code\<rparr>) (uploads r)"
  by (simp_all add: put_upload_def request_cleanup_def CommitUpload_publish_def CommitUpload_fail_def)

lemma move_upload_fields [simp]:
  "uID (move_upload st now s) = uID s" "uTenantID (move_upload st now s) = uTenantID s"
  "uStatus (move_upload st now s) = st" "uParentID (move_upload st now s) = uParentID s"
  "uNormalizedName (move_upload st now s) = uNormalizedName s"
  "uCompletionDigest (move_upload st now s) = uCompletionDigest s"
  by (simp_all add: move_upload_def)

text \<open>Each operation either leaves the sessions alone or moves the one it names.\<close>

definition moves_one :: "string \<Rightarrow> Repository \<Rightarrow> Repository \<Rightarrow> bool" where
  "moves_one i r r' \<longleftrightarrow> uploads r' = uploads r \<or>
     (\<exists>s s'. gget (uploads r) i = Some s \<and> upload_step s s' \<and> uploads r' = gput i s' (uploads r))"

lemma moves_one_follow: "moves_one i r r' \<Longrightarrow> uploads_follow r r'"
  unfolding moves_one_def by (auto intro: uploads_follow_refl uploads_follow_put)

lemma moves_one_keys: "moves_one i r r' \<Longrightarrow> upload_keys r \<Longrightarrow> upload_keys r'"
proof -
  have "uID s' = uID s" if "upload_step s s'" for s s'
    using that by (auto elim!: upload_stepE)
  then show "moves_one i r r' \<Longrightarrow> upload_keys r \<Longrightarrow> upload_keys r'"
    unfolding moves_one_def upload_keys_def by (auto split: if_splits)
qed

lemma MarkUploading_moves: "moves_one i r (snd (Repo_MarkUploading identity i now r))"
  by (auto simp: Repo_MarkUploading_def moves_one_def Let_def uploadFor_Inr intro: upload_step.start
      split: sum.splits)

lemma BeginComplete_moves: "moves_one i r (snd (Repo_BeginComplete identity i digest ps now r))"
  by (auto simp: Repo_BeginComplete_def moves_one_def Let_def uploadFor_Inr intro: upload_step.freeze
      split: sum.splits)

lemma FailUploadCompletion_moves: "moves_one i r (snd (Repo_FailUploadCompletion identity i digest code now r))"
  by (auto simp: Repo_FailUploadCompletion_def moves_one_def Let_def uploadFor_Inr intro: upload_step.failed
      split: sum.splits)

lemma MarkObjectCompleted_moves: "moves_one i r (snd (Repo_MarkObjectCompleted identity i info now r))"
  by (auto simp: Repo_MarkObjectCompleted_def moves_one_def Let_def uploadFor_Inr
      intro: upload_step.object_done split: sum.splits)

lemma AbortUpload_moves: "moves_one i r (snd (Repo_AbortUpload identity i target now r))"
  by (auto simp: Repo_AbortUpload_def moves_one_def Let_def uploadFor_Inr intro: upload_step.aborted
      split: sum.splits)

lemma CommitUpload_moves:
  assumes "upload_keys r"
  shows "moves_one (cmSessionID c) r (snd (Repo_CommitUpload env c r))"
proof (cases "uploadFor r (cmIdentity c) (cmSessionID c)")
  case (Inr s)
  then have s: "gget (uploads r) (cmSessionID c) = Some s" by (simp add: uploadFor_Inr)
  with assms have "uID s = cmSessionID c" by (simp add: upload_keys_def)
  with Inr s show ?thesis
    by (auto simp: Repo_CommitUpload_def moves_one_def Let_def upload_failure_defs
        intro: upload_step.failed upload_step.committed split: option.splits)
qed (simp add: Repo_CommitUpload_def moves_one_def)

lemma CreateUpload_effect:
  assumes "Repo_CreateUpload c r = (res, r')"
  shows "(uploads r' = uploads r \<or> gget (uploads r) (uID (cuSession c)) = None \<and>
      uploads r' = gput (uID (cuSession c)) (cuSession c) (uploads r)) \<and>
    nodes r' = nodes r \<and> tenants r' = tenants r \<and> blobs r' = blobs r \<and> versions r' = versions r
    \<and> members r' = members r \<and> audit r' = audit r \<and> auditSequence r' = auditSequence r"
  using assms by (auto simp: Repo_CreateUpload_def put_upload_def Let_def
      split: option.splits if_splits sum.splits prod.splits dest!: completeIdempotency_pair)

section \<open>Publishing a file\<close>

text \<open>The command the service builds: fresh ids, and node, version and blob that belong together.\<close>

definition commit_ready :: "Repository \<Rightarrow> CommitUploadCommand \<Rightarrow> bool" where
  "commit_ready r c \<longleftrightarrow>
     (let node = cmNode c; version = cmVersion c; blob = cmBlob c; tenant = iTenantID (cmIdentity c)
      in nTenantID node = tenant \<and> nKind node = NodeFile \<and> visible node \<and> nID node \<noteq> []
         \<and> nCurrentVersionID node = vID version \<and> vNodeID version = nID node \<and> vTenantID version = tenant
         \<and> vBlobID version = bID blob \<and> bTenantID blob = tenant \<and> bStatus blob = BlobAvailable
         \<and> gget (nodes r) (nID node) = None \<and> gget (versions r) (vID version) = None
         \<and> gget (blobs r) (bID blob) = None
         \<and> (case gget (uploads r) (cmSessionID c) of
               None \<Rightarrow> True
             | Some s \<Rightarrow> nParentID node = uParentID s \<and> nNormalizedName node = uNormalizedName s))"

lemma published_fields [simp]:
  "gget (nodes (CommitUpload_publish c s r)) = (gget (nodes r))(nID (cmNode c) \<mapsto> cmNode c)"
  "gget (versions (CommitUpload_publish c s r)) = (gget (versions r))(vID (cmVersion c) \<mapsto> cmVersion c)"
  "gget (blobs (CommitUpload_publish c s r)) = (gget (blobs r))(bID (cmBlob c) \<mapsto> cmBlob c)"
  "tenants (CommitUpload_publish c s r) = tenants r"
  "nodes (CommitUpload_fail s code now r) = nodes r" "versions (CommitUpload_fail s code now r) = versions r"
  "blobs (CommitUpload_fail s code now r) = blobs r" "tenants (CommitUpload_fail s code now r) = tenants r"
  by (simp_all add: CommitUpload_publish_def CommitUpload_fail_def put_upload_def request_cleanup_def gget_gput_fun)

lemma CommitUpload_effect:
  assumes "Repo_CommitUpload env c r = (res, r')"
  shows "tenants r' = tenants r \<and>
    (nodes r' = nodes r \<and> versions r' = versions r \<and> blobs r' = blobs r
       \<and> (\<forall>x b. res = Inr (x, b) \<longrightarrow> \<not> b) \<or>
     (\<exists>s p. gget (uploads r) (cmSessionID c) = Some s \<and> uTenantID s = iTenantID (cmIdentity c)
        \<and> uStatus s = UploadObjectCompleted \<and> uCompletionDigest s = cmDigest c
        \<and> activeNode r (iTenantID (cmIdentity c)) (uParentID s) = Some p \<and> nKind p = NodeDirectory
        \<and> \<not> nameExists r (uTenantID s) (uParentID s) (uNormalizedName s) []
        \<and> gget (nodes r') = (gget (nodes r))(nID (cmNode c) \<mapsto> cmNode c)
        \<and> gget (versions r') = (gget (versions r))(vID (cmVersion c) \<mapsto> cmVersion c)
        \<and> gget (blobs r') = (gget (blobs r))(bID (cmBlob c) \<mapsto> cmBlob c)
        \<and> gget (uploads r') = (gget (uploads r))(uID s \<mapsto>
             (move_upload UploadCommitted (cmNow c) s)\<lparr>uCommittedNodeID := nID (cmNode c)\<rparr>)
        \<and> (\<forall>x. res = Inr x \<longrightarrow> x = (\<lparr>crUpload = (move_upload UploadCommitted (cmNow c) s)
             \<lparr>uCommittedNodeID := nID (cmNode c)\<rparr>, crNode = cmNode c, crBlob = cmBlob c,
             crVersion = cmVersion c\<rparr>, True))))"
  using assms unfolding Repo_CommitUpload_def Let_def
  by (auto simp: uploadFor_Inr gget_gput_fun split: sum.splits option.splits if_splits
      dest!: with_audit_pair appendAuditLocked_pair)

lemma CommitUpload_inv:
  assumes inv: "ns_inv r" and ready: "commit_ready r c" and op: "Repo_CommitUpload env c r = (res, r')"
  shows "ns_inv r'"
  using CommitUpload_effect [OF op]
proof (elim conjE disjE exE)
  fix s p
  assume s: "gget (uploads r) (cmSessionID c) = Some s" "uTenantID s = iTenantID (cmIdentity c)"
    and p: "activeNode r (iTenantID (cmIdentity c)) (uParentID s) = Some p" "nKind p = NodeDirectory"
    and free: "\<not> nameExists r (uTenantID s) (uParentID s) (uNormalizedName s) []"
    and eff: "gget (nodes r') = (gget (nodes r))(nID (cmNode c) \<mapsto> cmNode c)" "tenants r' = tenants r"
  have n: "nTenantID (cmNode c) = iTenantID (cmIdentity c)" "nParentID (cmNode c) = uParentID s"
    "nNormalizedName (cmNode c) = uNormalizedName s" "visible (cmNode c)"
    "gget (nodes r) (nID (cmNode c)) = None" "nID (cmNode c) \<noteq> []"
    using ready s by (auto simp: commit_ready_def Let_def)
  have "\<not> nameExists r (iTenantID (cmIdentity c)) (uParentID s) (nNormalizedName (cmNode c)) []"
    using free s(2) n(3) by simp
  then show ?thesis by (rule ns_inv_new_leaf [OF inv p _ n(1,2,4,5,6) eff])
qed (use inv in \<open>auto simp: ns_inv_def\<close>)

lemma CommitUpload_file_inv:
  assumes files: "file_inv r" and ready: "commit_ready r c" and op: "Repo_CommitUpload env c r = (res, r')"
  shows "file_inv r'"
  using CommitUpload_effect [OF op]
proof (elim conjE disjE exE)
  fix s p
  assume eff: "gget (nodes r') = (gget (nodes r))(nID (cmNode c) \<mapsto> cmNode c)"
    "gget (versions r') = (gget (versions r))(vID (cmVersion c) \<mapsto> cmVersion c)"
    "gget (blobs r') = (gget (blobs r))(bID (cmBlob c) \<mapsto> cmBlob c)"
  note ok = ready [unfolded commit_ready_def Let_def]
  have "\<exists>v b. current_content r' k n v b" if n: "gget (nodes r') k = Some n" "nKind n = NodeFile" for k n
  proof (cases "k = nID (cmNode c)")
    case True
    with n ok eff show ?thesis
      by (intro exI [of _ "cmVersion c"] exI [of _ "cmBlob c"]) (auto simp: current_content_def)
  next
    case False
    with n eff have old: "gget (nodes r) k = Some n" by simp
    obtain v b where "gget (versions r) (nCurrentVersionID n) = Some v" "vNodeID v = k" "vTenantID v = nTenantID n"
      "gget (blobs r) (vBlobID v) = Some b" "bTenantID b = nTenantID n"
      "nStatus n \<noteq> NodePurging \<Longrightarrow> bStatus b = BlobAvailable"
      using file_invD [OF files old n(2)] by metis
    with ok eff show ?thesis
      by (intro exI [of _ v] exI [of _ b]) (auto simp: current_content_def)
  qed
  moreover have "gget (blobs r') k = Some b \<Longrightarrow> bID b = k" for k b
    using files eff(3) by (auto simp: file_inv_def split: if_splits)
  moreover have "gget (versions r') i = Some v \<Longrightarrow> gget (blobs r') (vBlobID v) \<noteq> None" for i v
    using files ok eff by (auto simp: file_inv_def split: if_splits)
  ultimately show ?thesis by (auto simp: file_inv_def)
qed (use files in \<open>auto simp: file_inv_def current_content_def\<close>)

section \<open>Properties\<close>

text \<open>
  Property C19. A commit publishes exactly once: after a commit that created the file, every
  further commit of the session with the same digest, whatever ids it proposes, changes
  nothing, reports that it created nothing, and returns the file of the first commit.
\<close>

theorem CommitUpload_once:
  assumes keys: "upload_keys r" and ready: "commit_ready r c"
    and first: "Repo_CommitUpload env c r = (Inr (result, True), r1)"
    and again: "cmSessionID c' = cmSessionID c" "cmIdentity c' = cmIdentity c" "cmDigest c' = cmDigest c"
  shows "Repo_CommitUpload env' c' r1 = (Inr (result, False), r1)"
proof -
  from CommitUpload_effect [OF first] obtain s where
    s: "gget (uploads r) (cmSessionID c) = Some s" "uTenantID s = iTenantID (cmIdentity c)"
      "uCompletionDigest s = cmDigest c"
    and eff: "gget (nodes r1) = (gget (nodes r))(nID (cmNode c) \<mapsto> cmNode c)"
      "gget (versions r1) = (gget (versions r))(vID (cmVersion c) \<mapsto> cmVersion c)"
      "gget (blobs r1) = (gget (blobs r))(bID (cmBlob c) \<mapsto> cmBlob c)"
      "gget (uploads r1) = (gget (uploads r))(uID s \<mapsto>
             (move_upload UploadCommitted (cmNow c) s)\<lparr>uCommittedNodeID := nID (cmNode c)\<rparr>)"
    and res: "result = \<lparr>crUpload = (move_upload UploadCommitted (cmNow c) s)
             \<lparr>uCommittedNodeID := nID (cmNode c)\<rparr>, crNode = cmNode c, crBlob = cmBlob c,
             crVersion = cmVersion c\<rparr>" by auto
  have "uID s = cmSessionID c" using keys s(1) by (simp add: upload_keys_def)
  then have "uploadFor r1 (cmIdentity c') (cmSessionID c') = Inr (crUpload result)"
    using again eff(4) s res by (simp add: uploadFor_Inr)
  moreover have "completeResult (crUpload result) r1 = result"
    using res eff ready by (simp add: completeResult_def gget_or_def commit_ready_def Let_def)
  ultimately show ?thesis using again s res by (simp add: Repo_CommitUpload_def Let_def)
qed

definition sample_session :: UploadSession where
  "sample_session = \<lparr>uID = ''up1'', uTenantID = ''t1'', uPrincipalID = ''u1'', uParentID = ''da'',
     uDisplayName = ''z'', uNormalizedName = ''z'', uExpectedSize = 3, uMimeType = ''text/plain'',
     uDeclaredChecksum = zero_Checksum, uBucket = ''bk'', uObjectKey = ''key'', uStorageUploadID = ''su'',
     uStatus = UploadObjectCompleted, uCompletionDigest = ''d'', uCommittedNodeID = [], uFailureCode = [],
     uPartSize = 5, uExpiresAt = 100, uRevision = 4, uCreatedAt = 2, uUpdatedAt = 2\<rparr>"

definition sample_upload :: Repository where
  "sample_upload = put_upload ''up1'' sample_session sample_files"

definition sample_commit :: CommitUploadCommand where
  "sample_commit = \<lparr>cmIdentity = sample_identity, cmSessionID = ''up1'', cmDigest = ''d'',
     cmBlob = sample_blob ''b3'', cmVersion = sample_version ''v3'' ''f3'' ''b3'',
     cmNode = sample_file ''f3'' ''da'' ''z'' ''v3'', cmParts = [], cmNow = 9\<rparr>"

lemma sample_upload_sessions: "uploads sample_upload = [(''up1'', sample_session)]"
  by code_simp

lemma sample_upload_keys: "upload_keys sample_upload"
  by (simp add: upload_keys_def sample_upload_sessions sample_session_def)

lemma sample_commit_ready: "commit_ready sample_upload sample_commit"
  by code_simp

theorem CommitUpload_once_witness:
  "\<exists>result r1. Repo_CommitUpload sample_env sample_commit sample_upload = (Inr (result, True), r1)
     \<and> Repo_CommitUpload sample_env (sample_commit\<lparr>cmNow := 12\<rparr>) r1 = (Inr (result, False), r1)"
proof -
  have "(case fst (Repo_CommitUpload sample_env sample_commit sample_upload) of
     Inl _ \<Rightarrow> False | Inr (_, created) \<Rightarrow> created)" by code_simp
  then obtain result r1 where first: "Repo_CommitUpload sample_env sample_commit sample_upload = (Inr (result, True), r1)"
    by (cases "Repo_CommitUpload sample_env sample_commit sample_upload") (auto split: sum.splits prod.splits)
  moreover have "Repo_CommitUpload sample_env (sample_commit\<lparr>cmNow := 12\<rparr>) r1 = (Inr (result, False), r1)"
    by (rule CommitUpload_once [OF sample_upload_keys sample_commit_ready first]) simp_all
  ultimately show ?thesis by blast
qed

text \<open>A session that is being completed carries the digest of its completion request.\<close>

definition digest_inv :: "Repository \<Rightarrow> bool" where
  "digest_inv r \<longleftrightarrow> list_all (\<lambda>s. uStatus s \<in> {UploadCompleting, UploadObjectCompleted, UploadCommitted} \<longrightarrow>
     uCompletionDigest s \<noteq> []) (gvals (uploads r))"

lemma digest_inv_iff:
  "digest_inv r \<longleftrightarrow> (\<forall>k s. gget (uploads r) k = Some s \<longrightarrow>
     uStatus s \<in> {UploadCompleting, UploadObjectCompleted, UploadCommitted} \<longrightarrow> uCompletionDigest s \<noteq> [])"
  by (auto simp: digest_inv_def list_all_iff)

text \<open>
  The completion payload is frozen by the first request: once a completion with a
  digest was accepted, completing or committing the session with another digest is an
  idempotency conflict and changes nothing.
\<close>

theorem completion_digest_frozen:
  assumes "digest_inv r" and "Repo_BeginComplete identity i digest ps now r = (Inr s, r1)"
    and "digest \<noteq> []" and "digest' \<noteq> digest"
    and "cmIdentity c = identity" "cmSessionID c = i" "cmDigest c = digest'"
  shows "(\<exists>e. Repo_BeginComplete identity i digest' ps' now' r1 = (Inl e, r1) \<and> CodeOf e = CodeIdempotencyConflict)
    \<and> (\<exists>e. Repo_CommitUpload env c r1 = (Inl e, r1) \<and> CodeOf e = CodeIdempotencyConflict)"
proof -
  have "\<exists>s'. uploadFor r1 identity i = Inr s' \<and> uCompletionDigest s' = digest"
    using assms(1-4) by (auto simp: Repo_BeginComplete_def uploadFor_Inr Let_def put_upload_def digest_inv_iff
        split: sum.splits if_splits)
  with assms(3-7) show ?thesis
    by (auto simp: Repo_BeginComplete_def Repo_CommitUpload_def E_def)
qed

theorem completion_digest_frozen_witness:
  "\<exists>r1 e. fst (Repo_BeginComplete sample_identity ''up1'' ''d'' [] 9 sample_upload) = Inr sample_session \<and>
     Repo_BeginComplete sample_identity ''up1'' ''other'' [] 9 r1 = (Inl e, r1) \<and> CodeOf e = CodeIdempotencyConflict"
proof -
  have "digest_inv sample_upload"
    and ok: "fst (Repo_BeginComplete sample_identity ''up1'' ''d'' [] 9 sample_upload) = Inr sample_session"
    by code_simp+
  from completion_digest_frozen [OF this(1), of sample_identity "''up1''" "''d''" "[]" 9 sample_session
      "snd (Repo_BeginComplete sample_identity ''up1'' ''d'' [] 9 sample_upload)" "''other''"
      "sample_commit\<lparr>cmDigest := ''other''\<rparr>" "[]" 9 sample_env] ok
  show ?thesis
    by (cases "Repo_BeginComplete sample_identity ''up1'' ''d'' [] 9 sample_upload")
      (auto simp: sample_commit_def)
qed

end
