(* ===== verification/Service_Base.thy ===== *)
theory Service_Base
  imports Drive_Cursor Drive_Ports Memory_Governance Memory_Upload
begin

text \<open>
  The frame of \<^verbatim>\<open>internal/drive/service.go\<close>: the service's configuration, the world its methods
  run in, and its pure helpers. A method is a function from a world (repository, storage
  provider state, random source, clock) to \<open>None\<close> when it does not return, or to its result and
  the next world. \<open>sbind\<close> is the early return of \<^verbatim>\<open>if err != nil\<close>. Contexts carry the request id
  only; cancellation is not modelled.
\<close>

section \<open>The world of a service method\<close>

record 's World =
  wRepo :: Repository
  wStorage :: 's
  wRand :: "nat \<Rightarrow> string result"
  wClock :: "nat \<Rightarrow> time"
  wJitter :: "nat \<Rightarrow> int"

type_synonym ('s, 'a) svc = "'s World \<Rightarrow> ('a result \<times> 's World) option"

definition ret :: "'a \<Rightarrow> ('s, 'a) svc" where
  "ret x w = Some (Inr x, w)"

definition fail :: "error \<Rightarrow> ('s, 'a) svc" where
  "fail e w = Some (Inl e, w)"

definition of_result :: "'a result \<Rightarrow> ('s, 'a) svc" where
  "of_result r w = Some (r, w)"

definition sbind :: "('s, 'a) svc \<Rightarrow> ('a \<Rightarrow> ('s, 'b) svc) \<Rightarrow> ('s, 'b) svc" where
  "sbind m f w =
     (case m w of
        None \<Rightarrow> None
      | Some (Inl e, w') \<Rightarrow> Some (Inl e, w')
      | Some (Inr x, w') \<Rightarrow> f x w')"

text \<open>\<open>attempt\<close> hands an error to the code that follows, \<open>quietly\<close> drops it (\<^verbatim>\<open>_ = f(...)\<close>).\<close>

definition attempt :: "('s, 'a) svc \<Rightarrow> ('s, 'a result) svc" where
  "attempt m w = (case m w of None \<Rightarrow> None | Some (r, w') \<Rightarrow> Some (Inr r, w'))"

definition quietly :: "('s, 'a) svc \<Rightarrow> ('s, unit) svc" where
  "quietly m = sbind (attempt m) (\<lambda>_. ret ())"

definition guard :: "bool \<Rightarrow> error \<Rightarrow> ('s, unit) svc" where
  "guard ok e = (if ok then ret () else fail e)"

definition clock_Now :: "('s, time) svc" where
  "clock_Now w = Some (Inr (wClock w 0), w\<lparr>wClock := \<lambda>n. wClock w (Suc n)\<rparr>)"

text \<open>\<^verbatim>\<open>math/rand.Int64N(n)\<close> for a positive bound: any value from 0 up to the bound.\<close>

definition rand_Int64N :: "int \<Rightarrow> ('s, int) svc" where
  "rand_Int64N n w = Some (Inr (wJitter w 0 mod n), w\<lparr>wJitter := \<lambda>k. wJitter w (Suc k)\<rparr>)"

text \<open>The next answer of \<^verbatim>\<open>crypto/rand.Read\<close>.\<close>

definition draw :: "('s, string result) svc" where
  "draw w = Some (Inr (wRand w 0), w\<lparr>wRand := \<lambda>n. wRand w (Suc n)\<rparr>)"

definition new_id :: "string \<Rightarrow> ('s, string) svc" where
  "new_id message = sbind draw (\<lambda>r.
     (case NewID r of Inr i \<Rightarrow> ret i | Inl err \<Rightarrow> fail (E_cause CodeInternal message (Some err))))"

text \<open>
  Calls into the repository: reads, writes, writes whose walk may not end, and the writes that
  append an audit event and so may draw an event id. A draw is set aside for every call of the
  last kind, whether or not the call gets as far as using it.
\<close>

definition repo_read :: "(Repository \<Rightarrow> 'a result) \<Rightarrow> ('s, 'a) svc" where
  "repo_read f w = Some (f (wRepo w), w)"

definition repo_op :: "'a op \<Rightarrow> ('s, 'a) svc" where
  "repo_op f w = (case f (wRepo w) of (x, r') \<Rightarrow> Some (x, w\<lparr>wRepo := r'\<rparr>))"

definition repo_walk :: "(Repository \<Rightarrow> ('a result \<times> Repository) option) \<Rightarrow> ('s, 'a) svc" where
  "repo_walk f w = (case f (wRepo w) of None \<Rightarrow> None | Some (x, r') \<Rightarrow> Some (x, w\<lparr>wRepo := r'\<rparr>))"

definition with_env :: "go_context \<Rightarrow> (Env \<Rightarrow> ('s, 'a) svc) \<Rightarrow> ('s, 'a) svc" where
  "with_env ctx f = sbind draw (\<lambda>r. f \<lparr>envCtx = ctx, envRand = r\<rparr>)"

definition storage_op :: "(StorageEnv \<Rightarrow> 's \<Rightarrow> 'a result \<times> 's) \<Rightarrow> ('s, 'a) svc" where
  "storage_op f w =
     (case f \<lparr>seRand = wRand w 0, seNow = wClock w 0\<rparr> (wStorage w) of
        (x, s') \<Rightarrow> Some (x, w\<lparr>wStorage := s', wRand := \<lambda>n. wRand w (Suc n), wClock := \<lambda>n. wClock w (Suc n)\<rparr>))"

named_theorems svc_simps

lemma sbind_eval [svc_simps]:
  "sbind (ret x) f = f x" "sbind (fail e) f = fail e" "sbind (of_result (Inr x)) f = f x"
  "sbind (of_result (Inl e)) f = fail e"
  by (simp_all add: sbind_def ret_def fail_def of_result_def fun_eq_iff)

lemma guard_eval [svc_simps]: "guard True e = ret ()" "guard False e = fail e"
  by (simp_all add: guard_def)

text \<open>A bound computation that succeeds went through both steps.\<close>

lemma sbind_Some:
  assumes "sbind m f w = Some (res, w')"
  obtains (err) e where "m w = Some (Inl e, w')" "res = Inl e"
  | (ok) x w1 where "m w = Some (Inr x, w1)" "f x w1 = Some (res, w')"
  using assms by (auto simp: sbind_def split: option.splits prod.splits sum.splits)

lemma sbind_Inr:
  assumes "sbind m f w = Some (Inr y, w')"
  obtains x w1 where "m w = Some (Inr x, w1)" "f x w1 = Some (Inr y, w')"
  using assms by (auto simp: sbind_def split: option.splits prod.splits sum.splits)

section \<open>Configuration\<close>

record 's ServiceOptions =
  soRepository :: bool
  soStorage :: "'s StorageProvider option"
  soCursor :: "CursorCodec option"
  soMaxFileSize :: int64
  soPartSize :: int64
  soUploadTTL :: duration
  soUploadSignTTL :: duration
  soDownloadSignTTL :: duration
  soIdempotencyClaimTTL :: duration
  soIdempotencyRetention :: duration

record 's Service =
  svStorage :: "'s StorageProvider"
  svCursor :: CursorCodec
  svMaxFileSize :: int64
  svPartSize :: int64
  svUploadTTL :: duration
  svUploadSignTTL :: duration
  svDownloadSignTTL :: duration
  svIdempotencyClaimTTL :: duration
  svIdempotencyRetention :: duration

definition time_Second :: duration where
  "time_Second = 1000000000"

definition default_to :: "int \<Rightarrow> int \<Rightarrow> int" where
  "default_to d x = (if x \<le> 0 then d else x)"

text \<open>\<open>soRepository\<close> says whether a repository was given; the repository itself is part of the world.\<close>

definition NewService :: "'s ServiceOptions \<Rightarrow> 's Service result" where
  "NewService options =
     (case (soRepository options, soStorage options, soCursor options) of
        (True, Some storage, Some cursor) \<Rightarrow>
          let claimTTL = default_to (60 * time_Second) (soIdempotencyClaimTTL options);
              retention = default_to (24 * 3600 * time_Second) (soIdempotencyRetention options)
          in if retention \<le> claimTTL
             then Inl (E CodeInvalidRequest ''idempotency retention must exceed the claim lease'')
             else Inr \<lparr>svStorage = storage, svCursor = cursor,
                       svMaxFileSize = default_to (50 * 1024 * 1024 * 1024) (soMaxFileSize options),
                       svPartSize = default_to (8 * 1024 * 1024) (soPartSize options),
                       svUploadTTL = default_to (24 * 3600 * time_Second) (soUploadTTL options),
                       svUploadSignTTL = default_to (15 * 60 * time_Second) (soUploadSignTTL options),
                       svDownloadSignTTL = default_to (15 * 60 * time_Second) (soDownloadSignTTL options),
                       svIdempotencyClaimTTL = claimTTL, svIdempotencyRetention = retention\<rparr>
      | _ \<Rightarrow> Inl (E CodeInvalidRequest ''repository, storage and cursor are required''))"

definition service_ok :: "'s Service \<Rightarrow> bool" where
  "service_ok s \<longleftrightarrow> 0 < svMaxFileSize s \<and> 0 < svPartSize s \<and> 0 < svUploadTTL s \<and> 0 < svUploadSignTTL s
     \<and> 0 < svDownloadSignTTL s \<and> 0 < svIdempotencyClaimTTL s \<and> svIdempotencyClaimTTL s < svIdempotencyRetention s"

lemma default_to_pos: "0 < d \<Longrightarrow> 0 < default_to d x"
  by (simp add: default_to_def)

lemma NewService_ok:
  assumes "NewService options = Inr s"
  shows "service_ok s"
  using assms default_to_pos [of "24 * 3600 * time_Second"]
  by (auto simp: NewService_def service_ok_def Let_def time_Second_def default_to_pos
      split: if_splits option.splits bool.splits)

section \<open>Validation\<close>

record MemberActor =
  maIdentity :: Identity
  maRole :: AccessRole

definition validateID :: "string \<Rightarrow> unit result" where
  "validateID value = (if ValidID value then Inr () else Inl (E CodeInvalidRequest ''identifier must be a valid UUID''))"

definition validateMemberActor :: "MemberActor \<Rightarrow> unit result" where
  "validateMemberActor actor =
     (case validateID (iTenantID (maIdentity actor)) of
        Inl e \<Rightarrow> Inl e
      | Inr _ \<Rightarrow>
          (case validateID (iPrincipalID (maIdentity actor)) of
             Inl e \<Rightarrow> Inl e
           | Inr _ \<Rightarrow> if ValidAccessRole (maRole actor) then Inr ()
                     else Inl (E CodeInvalidRequest ''actor role is invalid'')))"

definition validateGovernanceManager :: "MemberActor \<Rightarrow> unit result" where
  "validateGovernanceManager actor =
     (case validateMemberActor actor of
        Inl e \<Rightarrow> Inl e
      | Inr _ \<Rightarrow> if maRole actor \<noteq> RoleOwner \<and> maRole actor \<noteq> RoleAdmin
                then Inl (E CodeForbidden ''only owners and admins may manage tenant governance'')
                else Inr ())"

definition validInvitationIdentity :: "string \<Rightarrow> string \<Rightarrow> bool" where
  "validInvitationIdentity issuer subject \<longleftrightarrow>
     issuer \<noteq> [] \<and> subject \<noteq> [] \<and> strings_TrimSpace issuer \<noteq> [] \<and> strings_TrimSpace subject \<noteq> []
     \<and> length issuer \<le> 512 \<and> length subject \<le> 512"

text \<open>The page limit of the listing methods: 0 means 50, anything outside 1..200 is refused.\<close>

definition page_limit :: "int \<Rightarrow> int result" where
  "page_limit limit0 =
     (let limit = (if limit0 = 0 then 50 else limit0)
      in if limit < 1 \<or> limit > 200 then Inl (E CodeInvalidRequest ''limit must be between 1 and 200'') else Inr limit)"

lemma validateID_Inr [simp]: "validateID i = Inr u \<longleftrightarrow> ValidID i"
  by (auto simp: validateID_def)

lemma page_limit_Inr: "page_limit x = Inr n \<Longrightarrow> 1 \<le> n \<and> n \<le> 200"
  by (auto simp: page_limit_def Let_def split: if_splits)

section \<open>Parts\<close>

text \<open>The loop of \<^verbatim>\<open>validateParts\<close> with the number of the part before.\<close>

fun valid_parts_after :: "int \<Rightarrow> CompletedPart list \<Rightarrow> bool" where
  "valid_parts_after previous [] = True"
| "valid_parts_after previous (part # rest) =
     (\<not> (cpPartNumber part \<le> previous \<or> cpPartNumber part > 10000 \<or> cpETag part = [] \<or> length (cpETag part) > 1024
         \<or> \<not> ValidChecksum (cpChecksum part))
      \<and> valid_parts_after (cpPartNumber part) rest)"

definition validateParts :: "CompletedPart list \<Rightarrow> unit result" where
  "validateParts ps =
     (if ps = [] \<or> length ps > 10000
      then Inl (E CodeInvalidRequest ''parts must contain between 1 and 10000 items'')
      else if valid_parts_after 0 ps then Inr ()
      else Inl (E CodeInvalidRequest ''parts must be strictly ordered and valid''))"

definition signedPartSize :: "UploadSession \<Rightarrow> int \<Rightarrow> int64" where
  "signedPartSize session partNumber =
     (let start = wrap64 ((partNumber - 1) * uPartSize session);
          remaining = wrap64 (uExpectedSize session - start)
      in if remaining > uPartSize session then uPartSize session
         else if remaining < 0 then 0
         else remaining)"

text \<open>\<^verbatim>\<open>json.Marshal\<close> of the parts: the empty checksum is a struct and stays, a zero size is omitted.\<close>

definition checksum_json :: "Checksum \<Rightarrow> string" where
  "checksum_json c = json_object [(''algorithm'', json_string (cAlgorithm c)), (''value'', json_string (cValue c))]"

definition part_json :: "CompletedPart \<Rightarrow> string" where
  "part_json p = json_object
     ([(''part_number'', show_int (cpPartNumber p)), (''etag'', json_string (cpETag p)),
       (''checksum'', checksum_json (cpChecksum p))]
      @ (if cpSize p = 0 then [] else [(''size'', show_int (cpSize p))]))"

definition parts_json :: "CompletedPart list \<Rightarrow> string" where
  "parts_json ps = (if ps = [] then ''null'' else ''['' @ json_join (map part_json ps) @ '']'')"

definition partsDigest :: "Lib \<Rightarrow> CompletedPart list \<Rightarrow> string" where
  "partsDigest lib ps =
     hex_EncodeToString (lib_sha256 lib (parts_json (sort_slice (\<lambda>a b. cpPartNumber a < cpPartNumber b) ps)))"

text \<open>One entry of the resume listing, from the candidates storage holds under one part number.\<close>

definition reusable_part :: "UploadSession \<Rightarrow> int \<times> StoredPart list \<Rightarrow> StoredPart" where
  "reusable_part session entry =
     (let part = hd (snd entry)
      in part\<lparr>spReusable := length (snd entry) = 1 \<and> spSize part = signedPartSize session (fst entry)
                \<and> spChecksumAttested part \<and> cAlgorithm (spStorageChecksum part) = ''sha256''
                \<and> ValidChecksum (spStorageChecksum part)\<rparr>)"

definition by_part :: "StoredPart list \<Rightarrow> (int, StoredPart list) gomap" where
  "by_part stored = foldl (\<lambda>m part.
     if spPartNumber part < 1 \<or> spPartNumber part > MaxUploadParts \<or> spETag part = [] then m
     else gput (spPartNumber part) (gget_or [] m (spPartNumber part) @ [part]) m) gempty stored"

definition reusableStoredParts :: "StoredPart list \<Rightarrow> UploadSession \<Rightarrow> StoredPart list" where
  "reusableStoredParts stored session =
     sort_slice (\<lambda>a b. spPartNumber a < spPartNumber b) (map (reusable_part session) (gentries (by_part stored)))"

section \<open>Errors, checksums and digests\<close>

definition failedUploadHasObject :: "string \<Rightarrow> bool" where
  "failedUploadHasObject failureCode \<longleftrightarrow>
     failureCode = UploadFailureSizeMismatch \<or> failureCode = UploadFailureChecksumMismatch
     \<or> failureCode = UploadFailureParentUnavailable \<or> failureCode = UploadFailureNameConflict"

definition knownFailedCreation :: "error \<Rightarrow> bool" where
  "knownFailedCreation err \<longleftrightarrow> CodeOf err \<in> {CodeInvalidRequest, CodeForbidden, CodeNotFound, CodeNameConflict,
     CodeIdempotencyConflict, CodeInvalidState, CodeRestoreConflict, CodeRevisionMismatch, CodeRequestTooLarge,
     CodeUnsupportedMediaType}"

definition mapStorageError :: "error \<Rightarrow> error" where
  "mapStorageError err =
     (if CodeOf err \<noteq> CodeInternal then err
      else Retryable CodeDependencyUnavailable ''object storage operation failed'' (Some err))"

definition storage_call :: "(StorageEnv \<Rightarrow> 's \<Rightarrow> 'a result \<times> 's) \<Rightarrow> ('s, 'a) svc" where
  "storage_call f = sbind (attempt (storage_op f)) (\<lambda>r.
     (case r of Inr x \<Rightarrow> ret x | Inl err \<Rightarrow> fail (mapStorageError err)))"

definition normalizeObjectChecksum :: "ObjectInfo \<Rightarrow> Checksum \<Rightarrow> ObjectInfo result" where
  "normalizeObjectChecksum object declared =
     (case oChecksumStatus object of
        ChecksumVerified \<Rightarrow>
          if cAlgorithm (oChecksum object) = [] \<or> \<not> ValidChecksum (oChecksum object)
          then Inl (Retryable CodeDependencyUnavailable ''object storage returned an invalid verified checksum'' None)
          else if cAlgorithm declared \<noteq> [] \<and> oChecksum object \<noteq> declared
          then Inl (E CodeInvalidRequest ''completed object checksum does not match the declared checksum'')
          else Inr object
      | ChecksumDeclared \<Rightarrow>
          if cAlgorithm (oChecksum object) = [] \<or> \<not> ValidChecksum (oChecksum object)
          then Inl (Retryable CodeDependencyUnavailable ''object storage returned an invalid declared checksum'' None)
          else if cAlgorithm declared \<noteq> [] \<and> oChecksum object \<noteq> declared
          then Inl (E CodeInvalidRequest ''completed object checksum does not match the declared checksum'')
          else Inr object
      | ChecksumStatusOther v \<Rightarrow>
          if v \<noteq> [] then Inl (Retryable CodeDependencyUnavailable ''object storage returned an unknown checksum status'' None)
          else Inr (if cAlgorithm declared \<noteq> [] then object\<lparr>oChecksum := declared, oChecksumStatus := ChecksumDeclared\<rparr>
                    else object\<lparr>oChecksum := zero_Checksum, oChecksumStatus := ChecksumUnavailable\<rparr>)
      | ChecksumUnavailable \<Rightarrow>
          Inr (if cAlgorithm declared \<noteq> [] then object\<lparr>oChecksum := declared, oChecksumStatus := ChecksumDeclared\<rparr>
               else object\<lparr>oChecksum := zero_Checksum, oChecksumStatus := ChecksumUnavailable\<rparr>))"

text \<open>\<^verbatim>\<open>canonicalRequestDigest\<close> of a request already encoded; encoding strings and integers never fails.\<close>

definition canonicalRequestDigest :: "Lib \<Rightarrow> string \<Rightarrow> string" where
  "canonicalRequestDigest lib encoded = sha256Hex lib encoded"

definition directory_request_json :: "string \<Rightarrow> string \<Rightarrow> string" where
  "directory_request_json parentID name = json_object [(''parent_id'', json_string parentID), (''name'', json_string name)]"

section \<open>Part geometry\<close>

text \<open>The sessions the service creates: a positive part size that 10,000 parts cannot overflow.\<close>

definition geometry_ok :: "UploadSession \<Rightarrow> bool" where
  "geometry_ok session \<longleftrightarrow> 0 < uPartSize session \<and> 10000 * uPartSize session < 2 ^ 63
     \<and> 0 \<le> uExpectedSize session \<and> uExpectedSize session < 2 ^ 63"

lemma signedPartSize_closed:
  assumes "geometry_ok session" and "1 \<le> n" "n \<le> 10000"
  shows "signedPartSize session n = max 0 (min (uPartSize session) (uExpectedSize session - (n - 1) * uPartSize session))"
proof -
  let ?P = "uPartSize session" and ?X = "uExpectedSize session"
  have P: "10000 * ?P < 2 ^ 63" using assms by (simp add: geometry_ok_def)
  have "0 \<le> (n - 1) * ?P" and "(n - 1) * ?P \<le> 10000 * ?P"
    using assms by (auto simp: geometry_ok_def intro!: mult_right_mono mult_nonneg_nonneg)
  with P have start: "0 \<le> (n - 1) * ?P" "(n - 1) * ?P < 2 ^ 63" by linarith+
  then have "wrap64 ((n - 1) * ?P) = (n - 1) * ?P"
    by (intro wrap64_small)
  moreover have "wrap64 (?X - (n - 1) * ?P) = ?X - (n - 1) * ?P"
  proof (rule wrap64_id)
    have "0 \<le> ?X" "?X < 2 ^ 63" using assms by (auto simp: geometry_ok_def)
    with start show "in_int64 (?X - (n - 1) * ?P)" unfolding in_int64_def by linarith
  qed
  ultimately show ?thesis using assms by (simp add: signedPartSize_def geometry_ok_def Let_def)
qed

text \<open>
  Property C37. The part sizes tile the file: for every session the service creates, each of the
  10,000 possible parts has a size between 0 and the part size, the first \<open>n\<close> parts together
  hold exactly the first \<open>n\<close> part sizes of the file, and no computation overflows 64 bits.
\<close>

theorem part_sizes_tile:
  assumes "geometry_ok session" and "n \<le> 10000"
  shows "(\<Sum>k = 1..n. signedPartSize session (int k)) = min (uExpectedSize session) (int n * uPartSize session)
    \<and> (\<forall>k \<in> {1..n}. 0 \<le> signedPartSize session (int k) \<and> signedPartSize session (int k) \<le> uPartSize session)"
  using assms(2)
proof (induction n)
  case 0
  then show ?case using assms by (simp add: geometry_ok_def)
next
  case (Suc n)
  let ?P = "uPartSize session" and ?X = "uExpectedSize session"
  have size: "signedPartSize session (int (Suc n)) = max 0 (min ?P (?X - int n * ?P))"
    using signedPartSize_closed [OF assms(1), of "int (Suc n)"] Suc.prems by simp
  moreover have "0 < ?P" "0 \<le> ?X" using assms by (auto simp: geometry_ok_def)
  ultimately show ?case using Suc by (auto simp: algebra_simps max_def min_def le_Suc_eq)
qed

definition sample_geometry :: UploadSession where
  "sample_geometry = \<lparr>uID = ''s'', uTenantID = ''t1'', uPrincipalID = ''u1'', uParentID = ''root'', uDisplayName = ''f'',
     uNormalizedName = ''f'', uExpectedSize = 20, uMimeType = ''text/plain'', uDeclaredChecksum = zero_Checksum,
     uBucket = ''b'', uObjectKey = ''k'', uStorageUploadID = ''mp1'', uStatus = UploadCreated, uCompletionDigest = [],
     uCommittedNodeID = [], uFailureCode = [], uPartSize = 8, uExpiresAt = 100, uRevision = 1, uCreatedAt = 1, uUpdatedAt = 1\<rparr>"

theorem part_sizes_tile_witness:
  "geometry_ok sample_geometry \<and> (\<Sum>k = 1..3. signedPartSize sample_geometry (int k)) = 20
   \<and> signedPartSize sample_geometry 3 = 4"
proof -
  have ok: "geometry_ok sample_geometry" by (simp add: geometry_ok_def sample_geometry_def)
  from part_sizes_tile [OF ok, of 3] have "(\<Sum>k = 1..3. signedPartSize sample_geometry (int k)) = 20"
    by (simp add: sample_geometry_def)
  moreover have "signedPartSize sample_geometry 3 = 4" by code_simp
  ultimately show ?thesis using ok by simp
qed

section \<open>Completion lists\<close>

lemma valid_parts_after_iff:
  "valid_parts_after p ps \<longleftrightarrow> sorted_wrt (<) (p # map cpPartNumber ps) \<and>
     (\<forall>part \<in> set ps. cpPartNumber part \<le> 10000 \<and> cpETag part \<noteq> [] \<and> length (cpETag part) \<le> 1024 \<and> ValidChecksum (cpChecksum part))"
  by (induction p ps rule: valid_parts_after.induct) (fastforce simp: not_le not_less)+

text \<open>A list that passes is sorted by part number already, so its digest is that of the list as sent.\<close>

lemma validateParts_sorted:
  assumes "validateParts ps = Inr u"
  shows "sorted_wrt (\<lambda>a b. cpPartNumber a < cpPartNumber b) ps" and "distinct (map cpPartNumber ps)"
    and "part \<in> set ps \<Longrightarrow> 1 \<le> cpPartNumber part \<and> cpPartNumber part \<le> 10000"
proof -
  from assms have v: "valid_parts_after 0 ps" by (auto simp: validateParts_def split: if_splits)
  then show "sorted_wrt (\<lambda>a b. cpPartNumber a < cpPartNumber b) ps"
    by (simp add: valid_parts_after_iff sorted_wrt_map)
  from v show "distinct (map cpPartNumber ps)"
    by (simp add: valid_parts_after_iff strict_sorted_iff)
  from v show "part \<in> set ps \<Longrightarrow> 1 \<le> cpPartNumber part \<and> cpPartNumber part \<le> 10000"
    by (auto simp: valid_parts_after_iff)
qed

section \<open>Resume\<close>

definition listable :: "StoredPart \<Rightarrow> bool" where
  "listable part \<longleftrightarrow> 1 \<le> spPartNumber part \<and> spPartNumber part \<le> MaxUploadParts \<and> spETag part \<noteq> []"

lemma gget_by_part:
  "gget (by_part stored) n =
     (let c = filter (\<lambda>q. listable q \<and> spPartNumber q = n) stored in if c = [] then None else Some c)"
proof (induction stored rule: rev_induct)
  case Nil
  then show ?case by (simp add: by_part_def)
next
  case (snoc q stored)
  have step: "by_part (stored @ [q]) = (if \<not> listable q then by_part stored
      else gput (spPartNumber q) (gget_or [] (by_part stored) (spPartNumber q) @ [q]) (by_part stored))"
    by (auto simp: by_part_def listable_def)
  show ?case
  proof (cases "listable q \<and> spPartNumber q = n")
    case True
    then show ?thesis unfolding step using snoc by (auto simp: gget_or_def Let_def split: if_splits)
  next
    case False
    then show ?thesis unfolding step using snoc by (auto simp: Let_def)
  qed
qed

lemma reusableStoredParts_iff:
  "p \<in> set (reusableStoredParts stored session) \<longleftrightarrow>
     (\<exists>q rest. filter (\<lambda>q. listable q \<and> spPartNumber q = spPartNumber p) stored = q # rest
        \<and> p = q\<lparr>spReusable := (rest = [] \<and> spSize q = signedPartSize session (spPartNumber q) \<and> spChecksumAttested q
             \<and> cAlgorithm (spStorageChecksum q) = ''sha256'' \<and> ValidChecksum (spStorageChecksum q))\<rparr>)"
proof -
  have head: "spPartNumber q = n" if "filter (\<lambda>q. listable q \<and> spPartNumber q = n) stored = q # rest" for n q rest
  proof -
    from that have "q \<in> set (filter (\<lambda>q. listable q \<and> spPartNumber q = n) stored)" by simp
    then show ?thesis by simp
  qed
  have entry: "reusable_part session (spPartNumber q, q # rest) =
      q\<lparr>spReusable := (rest = [] \<and> spSize q = signedPartSize session (spPartNumber q) \<and> spChecksumAttested q
             \<and> cAlgorithm (spStorageChecksum q) = ''sha256'' \<and> ValidChecksum (spStorageChecksum q))\<rparr>" for q rest
    by (simp add: reusable_part_def)
  have number: "spPartNumber (reusable_part session (n, q # rest)) = spPartNumber q" for n q rest
    by (simp add: reusable_part_def Let_def)
  have some: "gget (by_part stored) n = Some c \<longleftrightarrow>
      (\<exists>q rest. c = q # rest \<and> filter (\<lambda>q. listable q \<and> spPartNumber q = n) stored = q # rest)" for n c
    by (cases "filter (\<lambda>q. listable q \<and> spPartNumber q = n) stored") (auto simp: gget_by_part Let_def)
  have "p \<in> set (reusableStoredParts stored session) \<longleftrightarrow>
      (\<exists>n c. gget (by_part stored) n = Some c \<and> p = reusable_part session (n, c))"
    by (simp add: reusableStoredParts_def image_iff Bex_def split_paired_Ex)
  also have "\<dots> \<longleftrightarrow> (\<exists>n q rest. filter (\<lambda>q. listable q \<and> spPartNumber q = n) stored = q # rest
      \<and> p = reusable_part session (n, q # rest))"
    unfolding some by blast
  also have "\<dots> \<longleftrightarrow> (\<exists>q rest. filter (\<lambda>q. listable q \<and> spPartNumber q = spPartNumber p) stored = q # rest
      \<and> p = reusable_part session (spPartNumber q, q # rest))"
  proof
    assume "\<exists>n q rest. filter (\<lambda>q. listable q \<and> spPartNumber q = n) stored = q # rest
      \<and> p = reusable_part session (n, q # rest)"
    then obtain n q rest where f: "filter (\<lambda>q. listable q \<and> spPartNumber q = n) stored = q # rest"
      and p: "p = reusable_part session (n, q # rest)" by blast
    from head [OF f] p number have "n = spPartNumber q" "spPartNumber p = spPartNumber q" by simp_all
    with f p show "\<exists>q rest. filter (\<lambda>q. listable q \<and> spPartNumber q = spPartNumber p) stored = q # rest
      \<and> p = reusable_part session (spPartNumber q, q # rest)" by metis
  next
    assume "\<exists>q rest. filter (\<lambda>q. listable q \<and> spPartNumber q = spPartNumber p) stored = q # rest
      \<and> p = reusable_part session (spPartNumber q, q # rest)"
    then obtain q rest where f: "filter (\<lambda>q. listable q \<and> spPartNumber q = spPartNumber p) stored = q # rest"
      and p: "p = reusable_part session (spPartNumber q, q # rest)" by blast
    from head [OF f] f p show "\<exists>n q rest. filter (\<lambda>q. listable q \<and> spPartNumber q = n) stored = q # rest
      \<and> p = reusable_part session (n, q # rest)" by metis
  qed
  finally show ?thesis unfolding entry .
qed

text \<open>
  A resuming client skips a part only on evidence: a listed part is marked reusable
  exactly when storage holds one entry under its number, of the size the session gives that
  part, with an attested and well-formed SHA-256 checksum. Every listed part is one of the
  entries storage reported, and every number with a usable entry is listed.
\<close>

theorem reusable_evidence:
  "p \<in> set (reusableStoredParts stored session) \<longleftrightarrow>
     (\<exists>q rest. filter (\<lambda>q. listable q \<and> spPartNumber q = spPartNumber p) stored = q # rest
        \<and> p = q\<lparr>spReusable := (rest = [] \<and> spSize q = signedPartSize session (spPartNumber q) \<and> spChecksumAttested q
             \<and> cAlgorithm (spStorageChecksum q) = ''sha256'' \<and> ValidChecksum (spStorageChecksum q))\<rparr>)"
  by (rule reusableStoredParts_iff)

end
