(* ===== verification/Governance_Service.thy ===== *)
theory Governance_Service
  imports Service_Base
begin

text \<open>
  The service's administration methods: members and invitations (\<^verbatim>\<open>internal/drive/service.go\<close>),
  groups, node ACLs and the audit log (\<^verbatim>\<open>internal/drive/governance_service.go\<close>).
\<close>

section \<open>Members\<close>

definition member_cursor :: "PrincipalRecord \<Rightarrow> CursorPosition" where
  "member_cursor m = \<lparr>posName = iPrincipalID (pIdentity m), posID = iPrincipalID (pIdentity m)\<rparr>"

definition Service_ListMembers :: "Lib \<Rightarrow> 's Service \<Rightarrow> Identity \<Rightarrow> string \<Rightarrow> int \<Rightarrow> ('s, PrincipalRecord Page) svc" where
  "Service_ListMembers lib s identity cursor limit0 =
     sbind (of_result (validateID (iTenantID identity))) (\<lambda>_.
     sbind (of_result (page_limit limit0)) (\<lambda>limit.
     sbind (of_result (CursorCodec_Decode lib (svCursor s) cursor (iTenantID identity) ''members'')) (\<lambda>position.
     sbind (repo_read (Repo_ListMembers (iTenantID identity) position limit)) (\<lambda>p.
     ret \<lparr>pgItems = fst p,
          pgNextCursor = (if snd p \<and> fst p \<noteq> [] then CursorCodec_Encode lib (svCursor s) (iTenantID identity) ''members''
            (member_cursor (last (fst p))) else [])\<rparr>))))"

definition Service_UpdateMember ::
  "go_context \<Rightarrow> MemberActor \<Rightarrow> string \<Rightarrow> AccessRole option \<Rightarrow> MemberStatus option \<Rightarrow> ('s, PrincipalRecord) svc" where
  "Service_UpdateMember ctx actor principalID role status =
     sbind (of_result (validateID (iTenantID (maIdentity actor)))) (\<lambda>_.
     sbind (of_result (validateID (iPrincipalID (maIdentity actor)))) (\<lambda>_.
     sbind (of_result (validateID principalID)) (\<lambda>_.
     sbind (guard (maRole actor = RoleOwner \<or> maRole actor = RoleAdmin)
              (E CodeForbidden ''only owners and admins may manage members'')) (\<lambda>_.
     sbind (guard (\<not> (role = None \<and> status = None)) (E CodeInvalidRequest ''at least one member field is required'')) (\<lambda>_.
     sbind (guard (case role of None \<Rightarrow> True | Some x \<Rightarrow> ValidAccessRole x) (E CodeInvalidRequest ''member role is invalid'')) (\<lambda>_.
     sbind (guard (case status of None \<Rightarrow> True | Some x \<Rightarrow> ValidMemberStatus x) (E CodeInvalidRequest ''member status is invalid'')) (\<lambda>_.
     sbind (guard (\<not> (maRole actor = RoleAdmin \<and> role = Some RoleOwner))
              (E CodeForbidden ''admins cannot grant the owner role'')) (\<lambda>_.
     sbind clock_Now (\<lambda>now.
     with_env ctx (\<lambda>env. repo_op (Repo_UpdateMember env
       \<lparr>umTenantID = iTenantID (maIdentity actor), umPrincipalID = principalID,
        umActorPrincipalID = iPrincipalID (maIdentity actor), umActorRole = maRole actor, umRole = role,
        umStatus = status, umNow = now\<rparr>)))))))))))"

definition Service_DeleteMember :: "go_context \<Rightarrow> MemberActor \<Rightarrow> string \<Rightarrow> ('s, unit) svc" where
  "Service_DeleteMember ctx actor i =
     sbind (of_result (validateMemberActor actor)) (\<lambda>_.
     sbind (of_result (validateID i)) (\<lambda>_.
     sbind clock_Now (\<lambda>now.
     with_env ctx (\<lambda>env. repo_op (Repo_DeleteMember env
       \<lparr>dmTenantID = iTenantID (maIdentity actor), dmPrincipalID = i,
        dmActorPrincipalID = iPrincipalID (maIdentity actor), dmActorRole = maRole actor, dmNow = now\<rparr>)))))"

section \<open>Invitations\<close>

record InvitationOutput =
  ioInvitation :: TenantInvitation
  ioToken :: string

text \<open>The token is the hex form of 32 random bytes; the repository keeps its SHA-256 only.\<close>

definition new_token :: "('s, string) svc" where
  "new_token = sbind draw (\<lambda>r.
     (case r of
        Inl err \<Rightarrow> fail (E_cause CodeInternal ''could not generate invitation token'' (Some err))
      | Inr bytes \<Rightarrow> ret (hex_EncodeToString bytes)))"

definition Service_CreateInvitation ::
  "Lib \<Rightarrow> go_context \<Rightarrow> MemberActor \<Rightarrow> string \<Rightarrow> string \<Rightarrow> string \<Rightarrow> AccessRole \<Rightarrow> time \<Rightarrow> ('s, InvitationOutput) svc" where
  "Service_CreateInvitation lib ctx actor issuer subject displayName role expiresAt =
     sbind (of_result (validateMemberActor actor)) (\<lambda>_.
     sbind (guard (maRole actor = RoleOwner \<or> maRole actor = RoleAdmin)
              (E CodeForbidden ''only owners and admins may invite members'')) (\<lambda>_.
     sbind clock_Now (\<lambda>now.
     sbind (guard (validInvitationIdentity issuer subject \<and> length displayName \<le> 256 \<and> ValidAccessRole role \<and> expiresAt > now)
              (E CodeInvalidRequest ''invitation is invalid'')) (\<lambda>_.
     sbind (new_id ''could not generate invitation id'') (\<lambda>i.
     sbind new_token (\<lambda>token.
     sbind clock_Now (\<lambda>now.
     sbind (with_env ctx (\<lambda>env. repo_op (Repo_CreateInvitation env
       \<lparr>ciID = i, ciTenantID = iTenantID (maIdentity actor), ciActorPrincipalID = iPrincipalID (maIdentity actor),
        ciActorRole = maRole actor, ciIssuer = issuer, ciSubject = subject, ciDisplayName = displayName, ciRole = role,
        ciTokenHash = sha256Hex lib token, ciExpiresAt = expiresAt, ciNow = now\<rparr>))) (\<lambda>v.
     ret \<lparr>ioInvitation = v, ioToken = token\<rparr>))))))))"

definition Service_ListInvitations ::
  "MemberActor \<Rightarrow> InvitationStatus \<Rightarrow> int \<Rightarrow> ('s, TenantInvitation list) svc" where
  "Service_ListInvitations actor status limit =
     sbind (guard (maRole actor = RoleOwner \<or> maRole actor = RoleAdmin)
              (E CodeForbidden ''only owners and admins may list invitations'')) (\<lambda>_.
     sbind (guard (status = InvitationOther [] \<or> ValidInvitationStatus status)
              (E CodeInvalidRequest ''invitation status is invalid'')) (\<lambda>_.
     sbind clock_Now (\<lambda>now.
     repo_op (Repo_ListInvitations (iTenantID (maIdentity actor)) status limit now))))"

definition Service_AcceptInvitation ::
  "Lib \<Rightarrow> go_context \<Rightarrow> string \<Rightarrow> string \<Rightarrow> string \<Rightarrow> ('s, TenantInvitation \<times> PrincipalRecord) svc" where
  "Service_AcceptInvitation lib ctx token issuer subject =
     sbind (guard ((case hex_DecodeString token of None \<Rightarrow> False | Some decoded \<Rightarrow> length decoded = 32)
                   \<and> validInvitationIdentity issuer subject)
              (E CodeInvalidRequest ''invitation token and authenticated identity are required'')) (\<lambda>_.
     sbind (new_id ''could not generate principal id'') (\<lambda>principalID.
     sbind clock_Now (\<lambda>now.
     with_env ctx (\<lambda>env. repo_op (Repo_AcceptInvitation env
       \<lparr>aiTokenHash = sha256Hex lib token, aiCandidatePrincipalID = principalID, aiIssuer = issuer,
        aiSubject = subject, aiNow = now\<rparr>)))))"

definition Service_RevokeInvitation :: "go_context \<Rightarrow> MemberActor \<Rightarrow> string \<Rightarrow> ('s, TenantInvitation) svc" where
  "Service_RevokeInvitation ctx actor i =
     sbind (of_result (validateMemberActor actor)) (\<lambda>_.
     sbind (of_result (validateID i)) (\<lambda>_.
     sbind clock_Now (\<lambda>now.
     with_env ctx (\<lambda>env. repo_op (Repo_RevokeInvitation env
       \<lparr>riTenantID = iTenantID (maIdentity actor), riInvitationID = i,
        riActorPrincipalID = iPrincipalID (maIdentity actor), riActorRole = maRole actor, riNow = now\<rparr>)))))"

section \<open>Groups\<close>

definition Service_CreateGroup :: "Lib \<Rightarrow> go_context \<Rightarrow> MemberActor \<Rightarrow> string \<Rightarrow> ('s, TenantGroup) svc" where
  "Service_CreateGroup lib ctx actor name =
     sbind (of_result (validateGovernanceManager actor)) (\<lambda>_.
     sbind (of_result (NormalizeName lib name)) (\<lambda>(display, normalized).
     sbind (new_id ''could not generate group id'') (\<lambda>i.
     sbind clock_Now (\<lambda>now.
     with_env ctx (\<lambda>env. repo_op (Repo_CreateGroup env
       \<lparr>cgID = i, cgTenantID = iTenantID (maIdentity actor), cgActorPrincipalID = iPrincipalID (maIdentity actor),
        cgActorRole = maRole actor, cgDisplayName = display, cgNormalizedName = normalized, cgNow = now\<rparr>))))))"

definition Service_ListGroups :: "MemberActor \<Rightarrow> ('s, TenantGroup list) svc" where
  "Service_ListGroups actor =
     sbind (of_result (validateGovernanceManager actor)) (\<lambda>_.
     repo_read (\<lambda>r. Inr (Repo_ListGroups (iTenantID (maIdentity actor)) r)))"

definition Service_UpdateGroup :: "Lib \<Rightarrow> go_context \<Rightarrow> MemberActor \<Rightarrow> string \<Rightarrow> string \<Rightarrow> ('s, TenantGroup) svc" where
  "Service_UpdateGroup lib ctx actor groupID name =
     sbind (of_result (validateGovernanceManager actor)) (\<lambda>_.
     sbind (of_result (validateID groupID)) (\<lambda>_.
     sbind (of_result (NormalizeName lib name)) (\<lambda>(display, normalized).
     sbind clock_Now (\<lambda>now.
     with_env ctx (\<lambda>env. repo_op (Repo_UpdateGroup env
       \<lparr>ugTenantID = iTenantID (maIdentity actor), ugGroupID = groupID,
        ugActorPrincipalID = iPrincipalID (maIdentity actor), ugActorRole = maRole actor,
        ugDisplayName = display, ugNormalizedName = normalized, ugNow = now\<rparr>))))))"

definition Service_DeleteGroup :: "go_context \<Rightarrow> MemberActor \<Rightarrow> string \<Rightarrow> ('s, unit) svc" where
  "Service_DeleteGroup ctx actor groupID =
     sbind (of_result (validateGovernanceManager actor)) (\<lambda>_.
     sbind (of_result (validateID groupID)) (\<lambda>_.
     sbind clock_Now (\<lambda>now.
     with_env ctx (\<lambda>env. repo_op (Repo_DeleteGroup env
       \<lparr>dgTenantID = iTenantID (maIdentity actor), dgGroupID = groupID,
        dgActorPrincipalID = iPrincipalID (maIdentity actor), dgActorRole = maRole actor, dgNow = now\<rparr>)))))"

definition changeGroupMember :: "go_context \<Rightarrow> MemberActor \<Rightarrow> string \<Rightarrow> string \<Rightarrow> bool \<Rightarrow> ('s, unit) svc" where
  "changeGroupMember ctx actor groupID principalID add =
     sbind (of_result (validateGovernanceManager actor)) (\<lambda>_.
     sbind (of_result (validateID groupID)) (\<lambda>_.
     sbind (of_result (validateID principalID)) (\<lambda>_.
     sbind clock_Now (\<lambda>now.
     let c = \<lparr>gmTenantID = iTenantID (maIdentity actor), gmGroupID = groupID, gmPrincipalID = principalID,
              gmActorPrincipalID = iPrincipalID (maIdentity actor), gmActorRole = maRole actor, gmNow = now\<rparr>
     in with_env ctx (\<lambda>env. if add then repo_op (Repo_AddGroupMember env c) else repo_op (Repo_RemoveGroupMember env c))))))"

definition Service_AddGroupMember :: "go_context \<Rightarrow> MemberActor \<Rightarrow> string \<Rightarrow> string \<Rightarrow> ('s, unit) svc" where
  "Service_AddGroupMember ctx actor groupID principalID = changeGroupMember ctx actor groupID principalID True"

definition Service_RemoveGroupMember :: "go_context \<Rightarrow> MemberActor \<Rightarrow> string \<Rightarrow> string \<Rightarrow> ('s, unit) svc" where
  "Service_RemoveGroupMember ctx actor groupID principalID = changeGroupMember ctx actor groupID principalID False"

definition Service_ListGroupMembers :: "MemberActor \<Rightarrow> string \<Rightarrow> ('s, PrincipalRecord list) svc" where
  "Service_ListGroupMembers actor groupID =
     sbind (of_result (validateGovernanceManager actor)) (\<lambda>_.
     sbind (of_result (validateID groupID)) (\<lambda>_.
     repo_read (Repo_ListGroupMembers (iTenantID (maIdentity actor)) groupID)))"

section \<open>Node authorization and ACLs\<close>

definition Service_AuthorizeNode :: "Identity \<Rightarrow> string \<Rightarrow> NodeCapability \<Rightarrow> ('s, unit) svc" where
  "Service_AuthorizeNode identity nodeID capability =
     sbind (of_result (validateID (iTenantID identity))) (\<lambda>_.
     sbind (of_result (validateID (iPrincipalID identity))) (\<lambda>_.
     sbind (of_result (validateID nodeID)) (\<lambda>_.
     sbind (guard (ValidNodeCapability capability) (E CodeInvalidRequest ''node capability is invalid'')) (\<lambda>_.
     repo_walk (\<lambda>r. map_option (\<lambda>res. (res, r)) (Repo_AuthorizeNode identity nodeID capability r))))))"

definition Service_ListNodeACL :: "MemberActor \<Rightarrow> string \<Rightarrow> ('s, NodeACLEntry list) svc" where
  "Service_ListNodeACL actor nodeID =
     sbind (of_result (validateMemberActor actor)) (\<lambda>_.
     sbind (Service_AuthorizeNode (maIdentity actor) nodeID NodeCapabilityManageACL) (\<lambda>_.
     repo_read (\<lambda>r. Inr (Repo_ListNodeACL (iTenantID (maIdentity actor)) nodeID r))))"

definition Service_SetNodeACL ::
  "go_context \<Rightarrow> MemberActor \<Rightarrow> string \<Rightarrow> ACLSubjectType \<Rightarrow> string \<Rightarrow> ACLRole \<Rightarrow> ('s, NodeACLEntry) svc" where
  "Service_SetNodeACL ctx actor nodeID subjectType subjectID role =
     sbind (of_result (validateMemberActor actor)) (\<lambda>_.
     sbind (of_result (validateID nodeID)) (\<lambda>_.
     sbind (of_result (validateID subjectID)) (\<lambda>_.
     sbind (guard (ValidACLSubjectType subjectType \<and> ValidACLRole role)
              (E CodeInvalidRequest ''ACL subject type or role is invalid'')) (\<lambda>_.
     sbind (new_id ''could not generate ACL id'') (\<lambda>i.
     sbind clock_Now (\<lambda>now.
     with_env ctx (\<lambda>env. repo_walk (Repo_SetNodeACL env
       \<lparr>saID = i, saTenantID = iTenantID (maIdentity actor), saNodeID = nodeID, saSubjectType = subjectType,
        saSubjectID = subjectID, saRole = role, saActorPrincipalID = iPrincipalID (maIdentity actor),
        saActorRole = maRole actor, saNow = now\<rparr>))))))))"

definition Service_DeleteNodeACL :: "go_context \<Rightarrow> MemberActor \<Rightarrow> string \<Rightarrow> string \<Rightarrow> ('s, unit) svc" where
  "Service_DeleteNodeACL ctx actor nodeID entryID =
     sbind (of_result (validateMemberActor actor)) (\<lambda>_.
     sbind (of_result (validateID nodeID)) (\<lambda>_.
     sbind (of_result (validateID entryID)) (\<lambda>_.
     sbind clock_Now (\<lambda>now.
     with_env ctx (\<lambda>env. repo_walk (Repo_DeleteNodeACL env
       \<lparr>daTenantID = iTenantID (maIdentity actor), daNodeID = nodeID, daEntryID = entryID,
        daActorPrincipalID = iPrincipalID (maIdentity actor), daActorRole = maRole actor, daNow = now\<rparr>))))))"

section \<open>Audit log\<close>

record AuditPage =
  apItems :: "AuditEvent list"
  apNextSequence :: int64

definition Service_ListAudit :: "MemberActor \<Rightarrow> int64 \<Rightarrow> time \<Rightarrow> time \<Rightarrow> int \<Rightarrow> ('s, AuditPage) svc" where
  "Service_ListAudit actor afterSequence from_time until_time limit0 =
     sbind (of_result (validateGovernanceManager actor)) (\<lambda>_.
     sbind (guard (\<not> (afterSequence < 0 \<or> limit0 < 0 \<or> limit0 > 1000
                      \<or> from_time \<noteq> 0 \<and> until_time \<noteq> 0 \<and> \<not> until_time > from_time))
              (E CodeInvalidRequest ''audit filter is invalid'')) (\<lambda>_.
     sbind (guard (\<not> (from_time \<noteq> 0 \<and> until_time \<noteq> 0 \<and> until_time - from_time > 31 * 24 * 3600 * time_Second))
              (E CodeInvalidRequest ''audit time range cannot exceed 31 days'')) (\<lambda>_.
     let limit = (if limit0 = 0 then 100 else limit0)
     in sbind (repo_read (\<lambda>r. Inr (Repo_ListAudit \<lparr>afTenantID = iTenantID (maIdentity actor), afAfterSequence = afterSequence,
                afFrom = from_time, afUntil = until_time, afLimit = limit\<rparr> r))) (\<lambda>items.
        ret \<lparr>apItems = items,
             apNextSequence = (if int (length items) = limit then evSequence (last items) else 0)\<rparr>))))"

section \<open>Invitations end to end\<close>

lemma CreateInvitation_result:
  assumes "Repo_CreateInvitation env c r = (Inr v, r')"
  shows "v = new_invitation c" and "CreateInvitation_valid c"
    and "gget (invitationTokens r') (ciTokenHash c) = Some (ciID c)" and "gget (invitations r') (ciID c) = Some v"
  using assms by (auto simp: Repo_CreateInvitation_def new_invitation_def Let_def split: if_splits prod.splits sum.splits
      dest!: appendAuditLocked_pair)

lemma service_CreateInvitation_result:
  assumes "Service_CreateInvitation lib ctx actor issuer subject name role expires w = Some (Inr out, w1)"
  obtains c env r bytes where "Repo_CreateInvitation env c r = (Inr (ioInvitation out), wRepo w1)"
    "wRand w 1 = Inr bytes" "ioToken out = hex_EncodeToString bytes" "ciTokenHash c = sha256Hex lib (ioToken out)"
    "ciTenantID c = iTenantID (maIdentity actor)" "ciIssuer c = issuer" "ciSubject c = subject" "ciRole c = role"
    "ciExpiresAt c = expires" "validInvitationIdentity issuer subject"
  using assms unfolding Service_CreateInvitation_def
  by (elim sbind_Inr) (auto simp: of_result_def guard_def ret_def fail_def clock_Now_def new_id_def new_token_def draw_def
      with_env_def sbind_def repo_op_def split: if_splits sum.splits prod.splits)

lemma AcceptInvitation_joins:
  assumes "AcceptInvitation_valid c" and "gget (invitationTokens r) (aiTokenHash c) = Some i" and "gget (invitations r) i = Some v"
    and "inIssuer v = aiIssuer c" "inSubject v = aiSubject c" "inStatus v = InvitationPending" "aiNow c < inExpiresAt v"
    and "gget (principals r) (principalKey (aiIssuer c) (aiSubject c)) = None"
    and "gget (members r) (memberKey (inTenantID v) (aiCandidatePrincipalID c)) = None"
    and op: "Repo_AcceptInvitation env c r = (res, r')"
  shows "\<exists>m. gget (members r') (memberKey (inTenantID v) (aiCandidatePrincipalID c)) = Some m \<and> pRole m = inRole v
    \<and> pStatus m = MemberStatusActive \<and> (\<forall>x. res = Inr x \<longrightarrow> snd x = m)"
proof -
  let ?p = "accepted_principal c v r"
  let ?m = "accepted_member v ?p r"
  have pid: "iPrincipalID (pIdentity ?p) = aiCandidatePrincipalID c" using assms by (simp add: accepted_principal_def)
  then have m: "pRole ?m = inRole v" "pStatus ?m = MemberStatusActive" using assms by (simp_all add: accepted_member_def)
  from op assms pid have "gget (members r') (memberKey (inTenantID v) (aiCandidatePrincipalID c)) = Some ?m
      \<and> (\<forall>x. res = Inr x \<longrightarrow> snd x = ?m)"
    by (auto simp: Repo_AcceptInvitation_def gget_or_def Let_def dest!: with_audit_pair appendAuditLocked_pair)
  with m show ?thesis by blast
qed

lemma service_AcceptInvitation_eq:
  assumes "hex_DecodeString token = Some bytes" and "length bytes = 32" and "NewID (wRand w 0) = Inr pid"
  shows "Service_AcceptInvitation lib ctx token issuer subject w =
    (if \<not> validInvitationIdentity issuer subject
     then Some (Inl (E CodeInvalidRequest ''invitation token and authenticated identity are required''), w)
     else case Repo_AcceptInvitation \<lparr>envCtx = ctx, envRand = wRand w 1\<rparr> \<lparr>aiTokenHash = sha256Hex lib token, aiCandidatePrincipalID = pid,
         aiIssuer = issuer, aiSubject = subject, aiNow = wClock w 0\<rparr> (wRepo w) of
       (res, r') \<Rightarrow> Some (res, w\<lparr>wRand := \<lambda>n. wRand w (Suc (Suc n)), wClock := \<lambda>n. wClock w (Suc n), wRepo := r'\<rparr>))"
  using assms by (simp add: Service_AcceptInvitation_def sbind_def guard_def ret_def fail_def clock_Now_def new_id_def
      draw_def with_env_def repo_op_def split: prod.splits)


definition sample_tenant_id :: string where
  "sample_tenant_id = ''00000000-0000-4000-8000-000000000000''"

definition sample_governed :: "unit World" where
  "sample_governed = \<lparr>wRepo = NewRepository\<lparr>members := [(memberKey sample_tenant_id sample_tenant_id,
       (sample_member sample_tenant_id RoleOwner)\<lparr>pIdentity := \<lparr>iTenantID = sample_tenant_id, iPrincipalID = sample_tenant_id\<rparr>\<rparr>)]\<rparr>,
     wStorage = (), wRand = (\<lambda>n. Inr (if n = 1 then replicate 32 CHR ''t'' else replicate 16 CHR ''r'')), wClock = (\<lambda>n. 50), wJitter = (\<lambda>n. 0)\<rparr>"

definition sample_owner :: MemberActor where
  "sample_owner = \<lparr>maIdentity = \<lparr>iTenantID = sample_tenant_id, iPrincipalID = sample_tenant_id\<rparr>, maRole = RoleOwner\<rparr>"

definition sample_invite :: "(unit, InvitationOutput) svc" where
  "sample_invite = Service_CreateInvitation sample_lib [] sample_owner ''iss'' ''new'' ''New'' RoleEditor 100"

lemma sample_ids: "ValidID sample_tenant_id" "NewID (Inr (replicate 16 CHR ''r'')) = Inr i \<Longrightarrow> ValidID i"
  using ValidID_NewID [of "replicate 16 CHR ''r''" i]
  by (simp_all only: length_replicate simp_thms) (unfold sample_tenant_id_def ValidID_def, intro conjI; code_simp)

lemma sample_identity: "validInvitationIdentity ''iss'' ''new''" "\<not> blank ''iss''" "\<not> blank ''new''"
proof -
  have "strings_TrimSpace ''iss'' = ''iss''" "strings_TrimSpace ''new'' = ''new''"
    by (simp_all add: TrimSpace_ascii unicode_IsSpace_def byte_def)
  then show "validInvitationIdentity ''iss'' ''new''" "\<not> blank ''iss''" "\<not> blank ''new''"
    by (simp_all add: validInvitationIdentity_def blank_def)
qed

lemma sample_invite_repo:
  assumes "NewID (Inr (replicate 16 CHR ''r'')) = Inr i" and c: "c = \<lparr>ciID = i, ciTenantID = sample_tenant_id, ciActorPrincipalID = sample_tenant_id, ciActorRole = RoleOwner,
    ciIssuer = ''iss'', ciSubject = ''new'', ciDisplayName = ''New'', ciRole = RoleEditor, ciTokenHash = sha256Hex sample_lib token, ciExpiresAt = 100, ciNow = 50\<rparr>"
    and env: "envRand env = Inr (replicate 16 CHR ''r'')"
  shows "\<exists>v r'. Repo_CreateInvitation env c (wRepo sample_governed) = (Inr v, r') \<and> principals r' = gempty \<and> members r' = members (wRepo sample_governed)"
proof -
  have "length (sha256Hex sample_lib token) = 64" by (simp add: sha256Hex_def sample_lib_def)
  moreover have "ValidAccessRole RoleEditor" "ValidAccessRole RoleOwner" by code_simp+
  ultimately have valid: "CreateInvitation_valid c"
    using sample_ids assms sample_identity by (simp add: CreateInvitation_valid_def validInvitationIdentity_def)
  have actor: "managingActor sample_tenant_id sample_tenant_id RoleOwner (wRepo sample_governed)"
    by (simp add: managingActor_def sample_governed_def sample_member_def)
  have meta: "boundedAuditMetadata (Some [(''role'', ''editor'')]) = Inr [(''role'', ''editor'')]"
    by code_simp
  have none: "invitations (wRepo sample_governed) = gempty" "principals (wRepo sample_governed) = gempty"
    by (simp_all add: sample_governed_def NewRepository_def)
  show ?thesis
    using valid actor assms none
    by (simp add: Repo_CreateInvitation_def appendAuditLocked_def audit_event_def meta Let_def gvals_def gempty_def)
qed

lemma sample_invite_ok: "\<exists>out w1. sample_invite sample_governed = Some (Inr out, w1)
    \<and> principals (wRepo w1) = gempty \<and> members (wRepo w1) = members (wRepo sample_governed)"
proof -
  obtain i where i: "NewID (Inr (replicate 16 CHR ''r'')) = Inr i" by (auto simp: NewID_def Let_def)
  have role: "ValidAccessRole RoleEditor" "ValidAccessRole RoleOwner" by code_simp+
  have rand: "wRand sample_governed = (\<lambda>n. Inr (if n = 1 then replicate 32 CHR ''t'' else replicate 16 CHR ''r''))"
    "wClock sample_governed = (\<lambda>n. 50)" by (simp_all add: sample_governed_def)
  from sample_invite_repo [OF i refl, of "\<lparr>envCtx = [], envRand = Inr (replicate 16 CHR ''r'')\<rparr>" "hex_EncodeToString (replicate 32 CHR ''t'')"]
  show ?thesis
    by (auto simp: sample_invite_def Service_CreateInvitation_def sample_owner_def validateMemberActor_def validateID_def sample_ids role rand
        sbind_def of_result_def guard_def ret_def clock_Now_def new_id_def new_token_def draw_def with_env_def repo_op_def sample_identity i)
qed


section \<open>Who may administer\<close>

definition refused :: "('s, 'a) svc \<Rightarrow> 's World \<Rightarrow> bool" where
  "refused m w \<longleftrightarrow> (\<exists>e. m w = Some (Inl e, w))"

lemmas admin_methods = Service_CreateInvitation_def Service_ListInvitations_def Service_UpdateMember_def Service_CreateGroup_def
  Service_ListGroups_def Service_UpdateGroup_def Service_DeleteGroup_def Service_AddGroupMember_def Service_RemoveGroupMember_def
  changeGroupMember_def Service_ListGroupMembers_def Service_ListAudit_def

lemma refused_guard:
  "refused (fail e) w" "refused (sbind (guard False e) f) w" "refused (sbind (of_result (Inl e)) f') w"
  by (simp_all add: refused_def sbind_def of_result_def guard_def fail_def)

lemma refused_later: "(\<And>x. r = Inr x \<Longrightarrow> refused (f x) w) \<Longrightarrow> refused (sbind (of_result r) f) w"
  by (cases r) (simp_all add: refused_def sbind_def of_result_def)

lemma not_manager:
  assumes "maRole actor \<noteq> RoleOwner" and "maRole actor \<noteq> RoleAdmin"
  shows "refused (sbind (of_result (validateGovernanceManager actor)) f) w"
  using assms by (auto simp: validateGovernanceManager_def refused_guard split: sum.split)

text \<open>
  Tenant administration is for owners and admins: a method called with any other role
  is refused before it reads the clock, draws an id or touches the repository.
\<close>

theorem governance_needs_manager:
  assumes "maRole actor \<noteq> RoleOwner" and "maRole actor \<noteq> RoleAdmin"
  shows "refused (Service_CreateInvitation lib ctx actor issuer subject name role expires) w
    \<and> refused (Service_ListInvitations actor status limit) w
    \<and> refused (Service_UpdateMember ctx actor principalID newRole newStatus) w
    \<and> refused (Service_CreateGroup lib ctx actor name) w \<and> refused (Service_ListGroups actor) w
    \<and> refused (Service_UpdateGroup lib ctx actor groupID name) w \<and> refused (Service_DeleteGroup ctx actor groupID) w
    \<and> refused (Service_AddGroupMember ctx actor groupID principalID) w
    \<and> refused (Service_RemoveGroupMember ctx actor groupID principalID) w
    \<and> refused (Service_ListGroupMembers actor groupID) w
    \<and> refused (Service_ListAudit actor afterSequence from_time until_time limit) w"
  unfolding admin_methods by (intro conjI not_manager assms) (auto intro!: refused_later simp: assms refused_guard)

theorem governance_needs_manager_witness:
  "refused (Service_DeleteGroup [] (sample_owner\<lparr>maRole := RoleEditor\<rparr>) ''g1'') sample_governed"
  by (simp add: governance_needs_manager)

end
