(* ===== verification/Memory_Storage.thy ===== *)
theory Memory_Storage
  imports Drive_Ports
begin

text \<open>
  \<^verbatim>\<open>internal/memory/storage.go\<close>: the in-memory object storage, one of the providers behind the
  storage port. Multipart uploads collect parts by number; completing concatenates the parts of
  the request in number order after checking each ETag, and verifies the declared checksum.
  Bytes are strings, as everywhere in the model.
\<close>

section \<open>URLs and dates of the standard library\<close>

definition unreserved :: "char \<Rightarrow> bool" where
  "unreserved ch \<longleftrightarrow> (let b = byte ch in 48 \<le> b \<and> b \<le> 57 \<or> 65 \<le> b \<and> b \<le> 90 \<or> 97 \<le> b \<and> b \<le> 122)
     \<or> ch \<in> set ''-_.~''"

definition upper_hexdigit :: "nat \<Rightarrow> char" where
  "upper_hexdigit n = (if n < 10 then unbyte (48 + n) else unbyte (55 + n))"

definition percent :: "char \<Rightarrow> string" where
  "percent ch = [CHR ''%'', upper_hexdigit (byte ch div 16), upper_hexdigit (byte ch mod 16)]"

definition url_PathEscape :: "string \<Rightarrow> string" where
  "url_PathEscape s = concat (map (\<lambda>ch. if unreserved ch \<or> ch \<in> set ''$&+:=@'' then [ch] else percent ch) s)"

definition url_QueryEscape :: "string \<Rightarrow> string" where
  "url_QueryEscape s =
     concat (map (\<lambda>ch. if unreserved ch then [ch] else if ch = CHR '' '' then ''+'' else percent ch) s)"

text \<open>\<^verbatim>\<open>url.Values.Encode\<close> of single-valued keys: sorted by key, joined with ampersands.\<close>

fun join_amp :: "string list \<Rightarrow> string" where
  "join_amp [] = []"
| "join_amp [x] = x"
| "join_amp (x # xs) = x @ ''&'' @ join_amp xs"

definition url_Values_Encode :: "(string \<times> string) list \<Rightarrow> string" where
  "url_Values_Encode vs = join_amp (map (\<lambda>(k, v). url_QueryEscape k @ ''='' @ url_QueryEscape v)
     (sort_slice (\<lambda>a b. fst a < fst b) vs))"

definition pad_int :: "nat \<Rightarrow> int \<Rightarrow> string" where
  "pad_int w i = (let s = show_int i in replicate (w - length s) CHR ''0'' @ s)"

text \<open>
  Year, month and day of a day count that starts at 1 January of year 1, in the proleptic
  Gregorian calendar: 400-year, 100-year, 4-year and 1-year cycles.
\<close>

definition leap_year :: "int \<Rightarrow> bool" where
  "leap_year y \<longleftrightarrow> y mod 4 = 0 \<and> (y mod 100 \<noteq> 0 \<or> y mod 400 = 0)"

fun month_day :: "(int \<times> int) list \<Rightarrow> int \<Rightarrow> int \<times> int" where
  "month_day [] d = (12, d + 1)"
| "month_day ((m, len) # ms) d = (if d < len then (m, d + 1) else month_day ms (d - len))"

definition civil :: "int \<Rightarrow> int \<times> int \<times> int" where
  "civil d =
     (let n400 = d div 146097; r400 = d mod 146097;
          n100 = min 3 (r400 div 36524); r100 = r400 - n100 * 36524;
          n4 = r100 div 1461; r4 = r100 mod 1461;
          n1 = min 3 (r4 div 365); yday = r4 - n1 * 365;
          year = 400 * n400 + 100 * n100 + 4 * n4 + n1 + 1;
          months = zip [1..12] [31, if leap_year year then 29 else 28, 31, 30, 31, 30, 31, 31, 30, 31, 30, 31]
      in (year, month_day months yday))"

definition time_RFC3339 :: "time \<Rightarrow> string" where
  "time_RFC3339 t =
     (let secs = t div 1000000000; (y, m, d) = civil (secs div 86400); s = secs mod 86400
      in pad_int 4 y @ ''-'' @ pad_int 2 m @ ''-'' @ pad_int 2 d @ ''T'' @ pad_int 2 (s div 3600) @ '':''
         @ pad_int 2 (s div 60 mod 60) @ '':'' @ pad_int 2 (s mod 60) @ ''Z'')"

section \<open>State\<close>

record multipartUpload =
  muKey :: string
  muMimeType :: string
  muChecksum :: Checksum
  muParts :: "(int, string) gomap"

record storedObject =
  soData :: string
  soInfo :: ObjectInfo

record Storage =
  stBucket :: string
  stUploads :: "(string, multipartUpload) gomap"
  stObjects :: "(string, storedObject) gomap"
  stReadyErr :: "error option"
  stBaseURL :: string

definition NewStorage :: "string \<Rightarrow> Storage" where
  "NewStorage bucket0 =
     (let bucket = (if bucket0 = [] then ''asteria-memory'' else bucket0)
      in \<lparr>stBucket = bucket, stUploads = gempty, stObjects = gempty, stReadyErr = None, stBaseURL = ''memory://'' @ bucket\<rparr>)"

definition Storage_SetReadyError :: "error option \<Rightarrow> Storage \<Rightarrow> Storage" where
  "Storage_SetReadyError err s = s\<lparr>stReadyErr := err\<rparr>"

definition Storage_Ready :: "Storage \<Rightarrow> unit result" where
  "Storage_Ready s = (case stReadyErr s of None \<Rightarrow> Inr () | Some e \<Rightarrow> Inl e)"

definition Storage_Bucket :: "Storage \<Rightarrow> string" where
  "Storage_Bucket s = stBucket s"

section \<open>Operations\<close>

definition Storage_CreateMultipart ::
  "StorageEnv \<Rightarrow> string \<Rightarrow> string \<Rightarrow> Checksum \<Rightarrow> Storage \<Rightarrow> string result \<times> Storage" where
  "Storage_CreateMultipart env key mimeType checksum s =
     (case NewID (seRand env) of
        Inl err \<Rightarrow> (Inl err, s)
      | Inr i \<Rightarrow> (Inr i, s\<lparr>stUploads := gput i \<lparr>muKey = key, muMimeType = mimeType, muChecksum = checksum,
                                              muParts = gempty\<rparr> (stUploads s)\<rparr>))"

text \<open>The lookup \<^verbatim>\<open>upload, ok := s.uploads[uploadID]; !ok || upload.key != key\<close> that the calls share.\<close>

definition find_upload :: "string \<Rightarrow> string \<Rightarrow> Storage \<Rightarrow> multipartUpload option" where
  "find_upload key uploadID s =
     (case gget (stUploads s) uploadID of
        None \<Rightarrow> None
      | Some upload \<Rightarrow> if muKey upload \<noteq> key then None else Some upload)"

definition Storage_SignUploadPart ::
  "StorageEnv \<Rightarrow> string \<Rightarrow> string \<Rightarrow> int \<Rightarrow> Checksum \<Rightarrow> duration \<Rightarrow> Storage \<Rightarrow> (SignedPart \<times> bool) result" where
  "Storage_SignUploadPart env key uploadID partNumber checksum ttl s =
     (case find_upload key uploadID s of
        None \<Rightarrow> Inl (E CodeNotFound ''multipart upload was not found'')
      | Some upload \<Rightarrow>
          let bound = (cAlgorithm checksum = ''sha256'')
          in Inr (\<lparr>sgPartNumber = partNumber, sgMethod = ''PUT'',
                   sgURL = stBaseURL s @ ''/'' @ url_PathEscape key @ ''?''
                     @ url_Values_Encode [(''upload_id'', uploadID), (''part_number'', show_int partNumber)],
                   sgRequiredHeaders = (if bound then gput ''x-amz-checksum-sha256'' (cValue checksum) gempty else gempty),
                   sgExpiresAt = seNow env + ttl\<rparr>, bound))"

definition part_etag :: "Lib \<Rightarrow> string \<Rightarrow> string" where
  "part_etag lib bytes = [CHR 0x22] @ hex_EncodeToString (take 16 (lib_sha256 lib bytes)) @ [CHR 0x22]"

definition content_checksum :: "Lib \<Rightarrow> string \<Rightarrow> Checksum" where
  "content_checksum lib bytes = \<lparr>cAlgorithm = ''sha256'', cValue = b64_encode b64_std True (lib_sha256 lib bytes)\<rparr>"

definition Storage_PutPart :: "Lib \<Rightarrow> string \<Rightarrow> int \<Rightarrow> string \<Rightarrow> Storage \<Rightarrow> CompletedPart result \<times> Storage" where
  "Storage_PutPart lib uploadID partNumber bytes s =
     (case gget (stUploads s) uploadID of
        None \<Rightarrow> (Inl (E CodeNotFound ''multipart upload was not found''), s)
      | Some upload \<Rightarrow>
          (Inr \<lparr>cpPartNumber = partNumber, cpETag = part_etag lib bytes, cpChecksum = content_checksum lib bytes,
                cpSize = int (length bytes)\<rparr>,
           s\<lparr>stUploads := gput uploadID (upload\<lparr>muParts := gput partNumber bytes (muParts upload)\<rparr>) (stUploads s)\<rparr>))"

text \<open>The loop of \<^verbatim>\<open>CompleteMultipart\<close> over the ordered parts: the bytes so far, or the first error.\<close>

fun assemble :: "Lib \<Rightarrow> (int, string) gomap \<Rightarrow> CompletedPart list \<Rightarrow> string \<Rightarrow> string result" where
  "assemble lib stored [] bytes = Inr bytes"
| "assemble lib stored (part # rest) bytes =
     (case gget stored (cpPartNumber part) of
        None \<Rightarrow> Inl (E CodeInvalidRequest ''multipart part is missing'')
      | Some chunk \<Rightarrow>
          if cpETag part \<noteq> part_etag lib chunk
          then Inl (E CodeInvalidRequest ''multipart part ETag does not match'')
          else assemble lib stored rest (bytes @ chunk))"

definition order_parts :: "CompletedPart list \<Rightarrow> CompletedPart list" where
  "order_parts ps = sort_slice (\<lambda>a b. cpPartNumber a < cpPartNumber b) ps"

definition Storage_CompleteMultipart ::
  "Lib \<Rightarrow> string \<Rightarrow> string \<Rightarrow> CompletedPart list \<Rightarrow> Storage \<Rightarrow> ObjectInfo result \<times> Storage" where
  "Storage_CompleteMultipart lib key uploadID ps s =
     (case find_upload key uploadID s of
        None \<Rightarrow>
          (case gget (stObjects s) key of
             Some object \<Rightarrow> (Inr (soInfo object), s)
           | None \<Rightarrow> (Inl (E CodeNotFound ''multipart upload was not found''), s))
      | Some upload \<Rightarrow>
          (case assemble lib (muParts upload) (order_parts ps) [] of
             Inl err \<Rightarrow> (Inl err, s)
           | Inr bytes \<Rightarrow>
               let checksum = content_checksum lib bytes
               in if cAlgorithm (muChecksum upload) = ''sha256'' \<and> cValue (muChecksum upload) \<noteq> cValue checksum
                  then (Inl (E CodeInvalidRequest ''completed object checksum does not match''), s)
                  else
                    let info = \<lparr>oBucket = stBucket s, oObjectKey = key, oSize = int (length bytes),
                                oETag = part_etag lib bytes, oChecksum = checksum, oChecksumStatus = ChecksumVerified\<rparr>
                    in (Inr info, s\<lparr>stObjects := gput key \<lparr>soData = bytes, soInfo = info\<rparr> (stObjects s),
                                    stUploads := gdel uploadID (stUploads s)\<rparr>)))"

definition stored_part :: "Lib \<Rightarrow> int \<times> string \<Rightarrow> StoredPart" where
  "stored_part lib p = \<lparr>spPartNumber = fst p, spETag = part_etag lib (snd p), spSize = int (length (snd p)),
     spStorageChecksum = content_checksum lib (snd p), spChecksumAttested = True, spReusable = False\<rparr>"

definition Storage_ListParts :: "Lib \<Rightarrow> string \<Rightarrow> string \<Rightarrow> Storage \<Rightarrow> StoredPart list result" where
  "Storage_ListParts lib key uploadID s =
     (case find_upload key uploadID s of
        None \<Rightarrow> Inl (E CodeNotFound ''multipart upload was not found'')
      | Some upload \<Rightarrow> Inr (sort_slice (\<lambda>a b. spPartNumber a < spPartNumber b)
                             (map (stored_part lib) (gentries (muParts upload)))))"

definition Storage_AbortMultipart :: "string \<Rightarrow> string \<Rightarrow> Storage \<Rightarrow> unit result \<times> Storage" where
  "Storage_AbortMultipart key uploadID s =
     (case gget (stUploads s) uploadID of
        None \<Rightarrow> (Inr (), s)
      | Some upload \<Rightarrow>
          if muKey upload \<noteq> key then (Inl (E CodeNotFound ''multipart upload was not found''), s)
          else (Inr (), s\<lparr>stUploads := gdel uploadID (stUploads s)\<rparr>))"

definition Storage_StatObject :: "string \<Rightarrow> Storage \<Rightarrow> ObjectInfo result" where
  "Storage_StatObject key s =
     (case gget (stObjects s) key of
        None \<Rightarrow> Inl (E CodeNotFound ''object was not found'')
      | Some object \<Rightarrow> Inr (soInfo object))"

definition Storage_SignDownload :: "StorageEnv \<Rightarrow> string \<Rightarrow> string \<Rightarrow> duration \<Rightarrow> Storage \<Rightarrow> SignedDownload result" where
  "Storage_SignDownload env key filename ttl s =
     (case gget (stObjects s) key of
        None \<Rightarrow> Inl (E CodeNotFound ''object was not found'')
      | Some _ \<Rightarrow>
          let expiresAt = seNow env + ttl
          in Inr \<lparr>sdMethod = ''GET'',
                  sdURL = stBaseURL s @ ''/'' @ url_PathEscape key @ ''?''
                    @ url_Values_Encode [(''filename'', filename), (''expires'', time_RFC3339 expiresAt)],
                  sdExpiresAt = expiresAt\<rparr>)"

definition Storage_DeleteObject :: "string \<Rightarrow> Storage \<Rightarrow> unit result \<times> Storage" where
  "Storage_DeleteObject key s = (Inr (), s\<lparr>stObjects := gdel key (stObjects s)\<rparr>)"

definition Storage_Object :: "string \<Rightarrow> Storage \<Rightarrow> (string \<times> ObjectInfo) option" where
  "Storage_Object key s = map_option (\<lambda>object. (soData object, soInfo object)) (gget (stObjects s) key)"

text \<open>The provider that \<^verbatim>\<open>var _ drive.StorageProvider = (*Storage)(nil)\<close> declares.\<close>

definition memory_provider :: "Lib \<Rightarrow> Storage StorageProvider" where
  "memory_provider lib = \<lparr>
     spReady = Storage_Ready,
     spBucket = Storage_Bucket,
     spCreateMultipart = Storage_CreateMultipart,
     spSignUploadPart = (\<lambda>env key up n ck ttl s. (Storage_SignUploadPart env key up n ck ttl s, s)),
     spCompleteMultipart = (\<lambda>env key up ps s. Storage_CompleteMultipart lib key up ps s),
     spAbortMultipart = (\<lambda>env key up s. Storage_AbortMultipart key up s),
     spListParts = (\<lambda>env key up s. (Storage_ListParts lib key up s, s)),
     spStatObject = (\<lambda>env key s. (Storage_StatObject key s, s)),
     spSignDownload = (\<lambda>env key name ttl s. (Storage_SignDownload env key name ttl s, s)),
     spDeleteObject = (\<lambda>env key s. Storage_DeleteObject key s)\<rparr>"

definition sample_lib0 :: Lib where
  "sample_lib0 = \<lparr>lib_nfc = (\<lambda>s. s), lib_unicode_lower = (\<lambda>s. s), lib_ParseMediaType = Some,
     lib_sha256 = (\<lambda>s. take 32 (s @ replicate 32 CHR ''x'')), lib_hmac = (\<lambda>key payload. take 32 (payload @ key)),
     lib_Unmarshal_cursor = (\<lambda>s. None)\<rparr>"

section \<open>The contract of the port\<close>

definition memory_objects :: "Storage \<Rightarrow> string \<Rightarrow> ObjectInfo option" where
  "memory_objects s key = map_option soInfo (gget (stObjects s) key)"

definition completed_info :: "Lib \<Rightarrow> string \<Rightarrow> string \<Rightarrow> string \<Rightarrow> ObjectInfo" where
  "completed_info lib bucket key bytes = \<lparr>oBucket = bucket, oObjectKey = key, oSize = int (length bytes),
     oETag = part_etag lib bytes, oChecksum = content_checksum lib bytes, oChecksumStatus = ChecksumVerified\<rparr>"

lemma CompleteMultipart_stores:
  assumes "Storage_CompleteMultipart lib key up ps s = (res, s')" and "s' \<noteq> s"
  shows "\<exists>u bytes. find_upload key up s = Some u \<and> assemble lib (muParts u) (order_parts ps) [] = Inr bytes
    \<and> (cAlgorithm (muChecksum u) = ''sha256'' \<longrightarrow> cValue (muChecksum u) = cValue (content_checksum lib bytes))
    \<and> res = Inr (completed_info lib (stBucket s) key bytes)
    \<and> s' = s\<lparr>stObjects := gput key \<lparr>soData = bytes, soInfo = completed_info lib (stBucket s) key bytes\<rparr> (stObjects s),
             stUploads := gdel up (stUploads s)\<rparr>"
  using assms
  by (auto simp: Storage_CompleteMultipart_def Let_def completed_info_def split: option.splits sum.splits if_splits)

lemma CompleteMultipart_state:
  obtains (kept) "snd (Storage_CompleteMultipart lib key up ps s) = s"
  | (stored) bytes where "snd (Storage_CompleteMultipart lib key up ps s) =
      s\<lparr>stObjects := gput key \<lparr>soData = bytes, soInfo = completed_info lib (stBucket s) key bytes\<rparr> (stObjects s),
        stUploads := gdel up (stUploads s)\<rparr>"
  using CompleteMultipart_stores [of lib key up ps s "fst (Storage_CompleteMultipart lib key up ps s)"
      "snd (Storage_CompleteMultipart lib key up ps s)"] by auto

lemma CompleteMultipart_objects:
  "k \<noteq> key \<Longrightarrow> memory_objects (snd (Storage_CompleteMultipart lib key up ps s)) k = memory_objects s k"
  "memory_objects s key \<noteq> None \<Longrightarrow> memory_objects (snd (Storage_CompleteMultipart lib key up ps s)) key \<noteq> None"
  by (cases rule: CompleteMultipart_state [of lib key up ps s]; simp add: memory_objects_def)+

section \<open>What is stored is what was uploaded\<close>

text \<open>Every stored object is described by what it holds, under its own key.\<close>

definition storage_inv :: "Lib \<Rightarrow> Storage \<Rightarrow> bool" where
  "storage_inv lib s \<longleftrightarrow> (\<forall>k object. gget (stObjects s) k = Some object \<longrightarrow>
     oObjectKey (soInfo object) = k \<and> oSize (soInfo object) = int (length (soData object))
     \<and> oChecksum (soInfo object) = content_checksum lib (soData object) \<and> oChecksumStatus (soInfo object) = ChecksumVerified)"

lemma storage_inv_NewStorage: "storage_inv lib (NewStorage bucket)"
  by (simp add: storage_inv_def NewStorage_def Let_def)

lemma storage_inv_cong: "stObjects s' = stObjects s \<Longrightarrow> storage_inv lib s' = storage_inv lib s"
  by (simp add: storage_inv_def)

lemma storage_inv_Complete: "storage_inv lib s \<Longrightarrow> storage_inv lib (snd (Storage_CompleteMultipart lib key up ps s))"
  by (cases rule: CompleteMultipart_state [of lib key up ps s]; auto simp: storage_inv_def completed_info_def)

lemma storage_inv_Create: "storage_inv lib s \<Longrightarrow> storage_inv lib (snd (Storage_CreateMultipart env key mime ck s))"
  by (auto simp: Storage_CreateMultipart_def storage_inv_def split: sum.splits)

lemma storage_inv_Put: "storage_inv lib s \<Longrightarrow> storage_inv lib (snd (Storage_PutPart lib up n bytes s))"
  by (auto simp: Storage_PutPart_def storage_inv_def split: option.splits)

lemma storage_inv_Abort: "storage_inv lib s \<Longrightarrow> storage_inv lib (snd (Storage_AbortMultipart key up s))"
  by (auto simp: Storage_AbortMultipart_def storage_inv_def split: option.splits)

lemma storage_inv_Delete: "storage_inv lib s \<Longrightarrow> storage_inv lib (snd (Storage_DeleteObject key s))"
  by (auto simp: Storage_DeleteObject_def storage_inv_def)

lemmas storage_inv_intros = storage_inv_Complete storage_inv_Create storage_inv_Put storage_inv_Abort storage_inv_Delete

interpretation ms: storage_contract "memory_provider lib" "storage_inv lib" memory_objects for lib
proof
  show "storage_inv lib (snd (spCreateMultipart (memory_provider lib) env key mime ck s))" if "storage_inv lib s" for env key mime ck s
    using that by (simp add: memory_provider_def storage_inv_Create)
  show "storage_inv lib (snd (spCompleteMultipart (memory_provider lib) env key up ps s))" if "storage_inv lib s" for env key up ps s
    using that by (simp add: memory_provider_def storage_inv_Complete)
  show "storage_inv lib (snd (spAbortMultipart (memory_provider lib) env key up s))" if "storage_inv lib s" for env key up s
    using that by (simp add: memory_provider_def storage_inv_Abort)
  show "storage_inv lib (snd (spDeleteObject (memory_provider lib) env key s))" if "storage_inv lib s" for env key s
    using that by (simp add: memory_provider_def storage_inv_Delete)
  show "memory_objects (snd (spCreateMultipart (memory_provider lib) env key mime ck s)) = memory_objects s"
    for env key mime ck s
    by (auto simp: memory_provider_def Storage_CreateMultipart_def memory_objects_def split: sum.splits)
  show "memory_objects (snd (spAbortMultipart (memory_provider lib) env key up s)) = memory_objects s" for env key up s
    by (auto simp: memory_provider_def Storage_AbortMultipart_def memory_objects_def split: option.splits)
  show "memory_objects s key = Some info \<and> oObjectKey info = key"
    if "storage_inv lib s" and "fst (spStatObject (memory_provider lib) env key s) = Inr info" for env key s info
    using that by (auto simp: memory_provider_def Storage_StatObject_def memory_objects_def storage_inv_def split: option.splits)
  show "memory_objects (snd (spCompleteMultipart (memory_provider lib) env key up ps s)) k = memory_objects s k"
    if "k \<noteq> key" for k env key up ps s
    using that by (simp add: memory_provider_def CompleteMultipart_objects)
  show "memory_objects (snd (spCompleteMultipart (memory_provider lib) env key up ps s)) key \<noteq> None"
    if "memory_objects s key \<noteq> None" for env key up ps s
    using CompleteMultipart_objects(2) [OF that] by (simp add: memory_provider_def)
  show "\<exists>d. fst (spSignDownload (memory_provider lib) env key name ttl s) = Inr d"
    if "memory_objects s key \<noteq> None" for env key name ttl s
    using that by (cases "gget (stObjects s) key")
      (auto simp: memory_provider_def Storage_SignDownload_def memory_objects_def Let_def)
qed (auto simp: memory_provider_def Storage_DeleteObject_def memory_objects_def)

text \<open>A client that puts a list of numbered chunks and keeps the receipts.\<close>

fun put_parts :: "Lib \<Rightarrow> string \<Rightarrow> (int \<times> string) list \<Rightarrow> Storage \<Rightarrow> CompletedPart list result \<times> Storage" where
  "put_parts lib up [] s = (Inr [], s)"
| "put_parts lib up ((n, bytes) # rest) s =
     (case Storage_PutPart lib up n bytes s of
        (Inl e, s1) \<Rightarrow> (Inl e, s1)
      | (Inr receipt, s1) \<Rightarrow>
          (case put_parts lib up rest s1 of
             (Inl e, s2) \<Rightarrow> (Inl e, s2)
           | (Inr receipts, s2) \<Rightarrow> (Inr (receipt # receipts), s2)))"

definition part_receipt :: "Lib \<Rightarrow> int \<times> string \<Rightarrow> CompletedPart" where
  "part_receipt lib p = \<lparr>cpPartNumber = fst p, cpETag = part_etag lib (snd p), cpChecksum = content_checksum lib (snd p),
     cpSize = int (length (snd p))\<rparr>"

lemma put_parts_result:
  assumes "gget (stUploads s) up = Some u"
  shows "\<exists>s'. put_parts lib up chunks s = (Inr (map (part_receipt lib) chunks), s')
    \<and> gget (stUploads s') up = Some (u\<lparr>muParts := foldl (\<lambda>m (n, bytes). gput n bytes m) (muParts u) chunks\<rparr>)
    \<and> stObjects s' = stObjects s \<and> stBucket s' = stBucket s"
  using assms
proof (induction chunks arbitrary: s u)
  case Nil
  then show ?case by simp
next
  case (Cons p chunks)
  obtain n bytes where p: "p = (n, bytes)" by (cases p)
  let ?u = "u\<lparr>muParts := gput n bytes (muParts u)\<rparr>"
  let ?s = "s\<lparr>stUploads := gput up ?u (stUploads s)\<rparr>"
  have put: "Storage_PutPart lib up n bytes s = (Inr (part_receipt lib p), ?s)"
    using Cons.prems p by (simp add: Storage_PutPart_def part_receipt_def)
  have "gget (stUploads ?s) up = Some ?u" by simp
  from Cons.IH [OF this] put p show ?case by auto
qed

lemma gget_foldl_gput:
  "distinct (map fst chunks) \<Longrightarrow> (n, bytes) \<in> set chunks \<Longrightarrow>
   gget (foldl (\<lambda>m (n, bytes). gput n bytes m) m chunks) n = Some bytes"
proof (induction chunks rule: rev_induct)
  case Nil
  then show ?case by simp
next
  case (snoc p chunks)
  then show ?case by (cases p) (auto simp: image_iff)
qed

lemma assemble_receipts:
  assumes "\<And>n bytes. (n, bytes) \<in> set chunks \<Longrightarrow> gget stored n = Some bytes"
  shows "assemble lib stored (map (part_receipt lib) chunks) acc = Inr (acc @ concat (map snd chunks))"
  using assms
proof (induction chunks arbitrary: acc)
  case Nil
  then show ?case by simp
next
  case (Cons p chunks)
  have "gget stored (fst p) = Some (snd p)" using Cons.prems [of "fst p" "snd p"] by simp
  moreover have "assemble lib stored (map (part_receipt lib) chunks) (acc @ snd p) = Inr ((acc @ snd p) @ concat (map snd chunks))"
    by (rule Cons.IH) (use Cons.prems in auto)
  moreover have "cpPartNumber (part_receipt lib p) = fst p" "cpETag (part_receipt lib p) = part_etag lib (snd p)"
    by (simp_all add: part_receipt_def)
  ultimately show ?case by simp
qed

lemma order_parts_sort: "order_parts ps = sort_key cpPartNumber ps"
proof -
  have "insert_by (\<lambda>a b. cpPartNumber a < cpPartNumber b) x ys = insort_key cpPartNumber x ys"
    for x :: CompletedPart and ys
    by (induction ys) auto
  then have "insert_by (\<lambda>a b. cpPartNumber a < cpPartNumber (b :: CompletedPart)) = insort_key cpPartNumber" by (intro ext)
  then show ?thesis by (simp add: order_parts_def sort_slice_def sort_key_def)
qed

lemma order_receipts:
  assumes "distinct (map fst chunks)" and "mset ps = mset (map (part_receipt lib) chunks)"
  shows "order_parts ps = map (part_receipt lib) (sort_key fst chunks)"
  unfolding order_parts_sort
proof (rule sort_key_inj_key_eq)
  show "mset ps = mset (map (part_receipt lib) (sort_key fst chunks))" using assms by simp
  have "set ps = part_receipt lib ` set chunks" using assms by (metis mset_eq_setD set_map)
  then show "inj_on cpPartNumber (set ps)"
    using assms by (auto simp: inj_on_def part_receipt_def distinct_map)
  show "sorted (map cpPartNumber (map (part_receipt lib) (sort_key fst chunks)))"
    by (simp add: comp_def part_receipt_def)
qed

text \<open>
  Property C33. A multipart upload stores the file: chunks put under distinct part numbers and
  completed with their receipts, in whatever order the receipts are sent, give an object that
  is the concatenation of the chunks in part-number order, described with its length and its
  checksum, and the multipart upload is gone.
\<close>

theorem multipart_roundtrip:
  assumes up: "gget (stUploads s) uploadID = Some u" "muKey u = key"
    and chunks: "distinct (map fst chunks)"
    and put: "put_parts lib uploadID chunks s = (Inr receipts, s1)" and ps: "mset ps = mset receipts"
    and bytes: "bytes = concat (map snd (sort_key fst chunks))"
    and declared: "cAlgorithm (muChecksum u) = ''sha256'' \<longrightarrow> cValue (muChecksum u) = cValue (content_checksum lib bytes)"
  shows "\<exists>info s2. Storage_CompleteMultipart lib key uploadID ps s1 = (Inr info, s2)
    \<and> Storage_Object key s2 = Some (bytes, info) \<and> oSize info = int (length bytes)
    \<and> oChecksum info = content_checksum lib bytes \<and> gget (stUploads s2) uploadID = None"
proof -
  from put_parts_result [OF up(1), of lib chunks] put have
    s1: "gget (stUploads s1) uploadID = Some (u\<lparr>muParts := foldl (\<lambda>m (n, b). gput n b m) (muParts u) chunks\<rparr>)"
    and receipts: "receipts = map (part_receipt lib) chunks" by auto
  have "assemble lib (foldl (\<lambda>m (n, b). gput n b m) (muParts u) chunks) (order_parts ps) [] = Inr bytes"
    unfolding order_receipts [OF chunks ps [unfolded receipts]] bytes
    by (subst assemble_receipts) (auto intro: gget_foldl_gput [OF chunks])
  with s1 up declared show ?thesis
    by (simp add: Storage_CompleteMultipart_def find_upload_def Let_def Storage_Object_def)
qed

definition sample_multipart :: Storage where
  "sample_multipart = (NewStorage ''b'')\<lparr>stUploads := gput ''mp1'' \<lparr>muKey = ''k1'', muMimeType = ''text/plain'',
     muChecksum = zero_Checksum, muParts = gempty\<rparr> gempty\<rparr>"

theorem multipart_roundtrip_witness:
  "\<exists>receipts s1 info s2. put_parts sample_lib0 ''mp1'' [(2, ''world''), (1, ''hello '')] sample_multipart = (Inr receipts, s1)
    \<and> Storage_CompleteMultipart sample_lib0 ''k1'' ''mp1'' receipts s1 = (Inr info, s2)
    \<and> Storage_Object ''k1'' s2 = Some (''hello world'', info)"
proof -
  let ?u = "\<lparr>muKey = ''k1'', muMimeType = ''text/plain'', muChecksum = zero_Checksum, muParts = gempty\<rparr>"
  have up: "gget (stUploads sample_multipart) ''mp1'' = Some ?u" by (simp add: sample_multipart_def)
  from put_parts_result [OF up, of sample_lib0 "[(2, ''world''), (1, ''hello '')]"]
  obtain receipts s1 where put: "put_parts sample_lib0 ''mp1'' [(2, ''world''), (1, ''hello '')] sample_multipart = (Inr receipts, s1)"
    by blast
  from multipart_roundtrip [OF up _ _ put refl refl]
  have "\<exists>info s2. Storage_CompleteMultipart sample_lib0 ''k1'' ''mp1'' receipts s1 = (Inr info, s2)
    \<and> Storage_Object ''k1'' s2 = Some (''hello world'', info)" by (auto simp: zero_Checksum_def)
  with put show ?thesis by blast
qed

end
