(* ===== verification/Drive_Service.thy ===== *)
theory Drive_Service
  imports Service_Base Memory_Storage
begin

text \<open>
  \<^verbatim>\<open>internal/drive/service.go\<close>: the service's namespace, upload, download and recycle-bin methods.
  Each definition follows one method: validation, calls into the repository and the storage
  provider in the order of the code, and every early return. The provider is the one of the
  service record, so the model covers every implementation of the storage port.
\<close>

section \<open>Readiness and tenants\<close>

definition Service_Ready :: "'s Service \<Rightarrow> ('s, unit) svc" where
  "Service_Ready s w =
     (case Repo_Ready (wRepo w) of
        Inl err \<Rightarrow> Some (Inl (Retryable CodeDependencyUnavailable ''metadata repository is unavailable'' (Some err)), w)
      | Inr _ \<Rightarrow>
          (case spReady (svStorage s) (wStorage w) of
             Inl err \<Rightarrow> Some (Inl (Retryable CodeDependencyUnavailable ''object storage is unavailable'' (Some err)), w)
           | Inr _ \<Rightarrow> Some (Inr (), w)))"

definition Service_EnsureTenant :: "string \<Rightarrow> string \<Rightarrow> ('s, Tenant) svc" where
  "Service_EnsureTenant tenantID displayName =
     sbind (of_result (validateID tenantID)) (\<lambda>_.
     sbind (new_id ''could not generate root id'') (\<lambda>rootID.
     sbind clock_Now (\<lambda>now.
     repo_op (Repo_EnsureTenant \<lparr>tsTenantID = tenantID, tsDisplayName = displayName, tsRootNodeID = rootID, tsNow = now\<rparr>))))"

definition Service_Tenant :: "string \<Rightarrow> ('s, Tenant) svc" where
  "Service_Tenant tenantID = sbind (of_result (validateID tenantID)) (\<lambda>_. repo_read (Repo_Tenant tenantID))"

section \<open>Idempotent creation\<close>

text \<open>The record of an unclaimed request is the zero record, whose state is the empty string.\<close>

definition claimCreation ::
  "Lib \<Rightarrow> 's Service \<Rightarrow> Identity \<Rightarrow> IdempotencyScope \<Rightarrow> string \<Rightarrow> string
   \<Rightarrow> ('s, IdempotencyRequest option \<times> IdempotencyRecord option) svc" where
  "claimCreation lib s identity scope key requestDigest =
     (if key = [] then ret (None, None)
      else
        sbind (of_result (ValidateIdempotencyKey key)) (\<lambda>_.
        sbind (new_id ''could not generate idempotency claim token'') (\<lambda>claimToken.
        sbind clock_Now (\<lambda>now.
        let request = \<lparr>irIdentity = identity, irScope = scope, irKeyHash = sha256Hex lib key,
              irRequestDigest = requestDigest, irClaimToken = claimToken,
              irLockedUntil = now + svIdempotencyClaimTTL s, irExpiresAt = now + svIdempotencyRetention s, irNow = now\<rparr>
        in sbind (repo_op (Repo_ClaimIdempotency request)) (\<lambda>claimed.
           if idState claimed = IdempotencyPending \<and> idClaimToken claimed \<noteq> irClaimToken request
           then fail (E CodeInternal ''repository returned an idempotency claim owned by another request'')
           else ret (Some request, Some claimed))))))"

definition releaseKnownFailedClaim :: "IdempotencyRequest option \<Rightarrow> error \<Rightarrow> ('s, unit) svc" where
  "releaseKnownFailedClaim claim err =
     (case claim of
        None \<Rightarrow> ret ()
      | Some request \<Rightarrow>
          if \<not> knownFailedCreation err then ret () else quietly (repo_op (Repo_ReleaseIdempotency request)))"

definition claim_completed :: "IdempotencyRecord option \<Rightarrow> bool" where
  "claim_completed claimed = (case claimed of None \<Rightarrow> False | Some c \<Rightarrow> idState c = IdempotencyCompleted)"

definition claim_resource :: "IdempotencyRecord option \<Rightarrow> string" where
  "claim_resource claimed = (case claimed of None \<Rightarrow> [] | Some c \<Rightarrow> idResourceID c)"

section \<open>Directories and nodes\<close>

record CreateDirectoryOutput =
  doNode :: Node
  doReplayed :: bool

definition replay_directory :: "Identity \<Rightarrow> string \<Rightarrow> ('s, CreateDirectoryOutput) svc" where
  "replay_directory identity resourceID =
     sbind (attempt (repo_read (Repo_Node identity resourceID True))) (\<lambda>r.
       (case r of
          Inl err \<Rightarrow> fail (E_cause CodeInternal ''completed idempotency claim references a missing directory'' (Some err))
        | Inr node \<Rightarrow>
            if nKind node \<noteq> NodeDirectory
            then fail (E CodeInternal ''completed idempotency claim references a missing directory'')
            else ret \<lparr>doNode = node, doReplayed = True\<rparr>))"

definition Service_CreateDirectoryWithIdempotency ::
  "Lib \<Rightarrow> 's Service \<Rightarrow> go_context \<Rightarrow> Identity \<Rightarrow> string \<Rightarrow> string \<Rightarrow> string \<Rightarrow> ('s, CreateDirectoryOutput) svc" where
  "Service_CreateDirectoryWithIdempotency lib s ctx identity parentID name key =
     sbind (of_result (validateID parentID)) (\<lambda>_.
     sbind (of_result (NormalizeName lib name)) (\<lambda>(display, normalized).
     sbind (new_id ''could not generate node id'') (\<lambda>i.
     let requestDigest = canonicalRequestDigest lib (directory_request_json parentID display)
     in sbind (claimCreation lib s identity IdempotencyCreateDirectory key requestDigest) (\<lambda>(claim, claimed).
        if claim_completed claimed then replay_directory identity (claim_resource claimed)
        else
          sbind clock_Now (\<lambda>now.
          sbind (attempt (with_env ctx (\<lambda>env. repo_op (Repo_CreateDirectory env
              \<lparr>cdIdentity = identity, cdID = i, cdParentID = parentID, cdDisplayName = display,
               cdNormalizedName = normalized, cdNow = now, cdIdempotency = claim\<rparr>)))) (\<lambda>r.
          (case r of
             Inl err \<Rightarrow> sbind (releaseKnownFailedClaim claim err) (\<lambda>_. fail err)
           | Inr node \<Rightarrow> ret \<lparr>doNode = node, doReplayed = False\<rparr>)))))))"

definition Service_CreateDirectory ::
  "Lib \<Rightarrow> 's Service \<Rightarrow> go_context \<Rightarrow> Identity \<Rightarrow> string \<Rightarrow> string \<Rightarrow> ('s, Node) svc" where
  "Service_CreateDirectory lib s ctx identity parentID name =
     sbind (Service_CreateDirectoryWithIdempotency lib s ctx identity parentID name []) (\<lambda>output. ret (doNode output))"

definition Service_Node :: "Identity \<Rightarrow> string \<Rightarrow> NodeKind \<Rightarrow> ('s, Node) svc" where
  "Service_Node identity i kind =
     sbind (of_result (validateID i)) (\<lambda>_.
     sbind (repo_read (Repo_Node identity i False)) (\<lambda>node.
     if nKind node \<noteq> kind \<or> nStatus node \<noteq> NodeActive \<or> nTrashedRootID node \<noteq> []
     then fail (E CodeNotFound ''resource was not found'') else ret node))"

text \<open>The end of every listing method: the cursor of the last item when more items follow.\<close>

definition page_of :: "Lib \<Rightarrow> 's Service \<Rightarrow> string \<Rightarrow> string \<Rightarrow> ('a \<Rightarrow> CursorPosition) \<Rightarrow> 'a list \<times> bool \<Rightarrow> 'a Page" where
  "page_of lib s tenantID scope pos p =
     \<lparr>pgItems = fst p,
      pgNextCursor = (if snd p \<and> fst p \<noteq> [] then CursorCodec_Encode lib (svCursor s) tenantID scope (pos (last (fst p))) else [])\<rparr>"

definition node_cursor :: "Node \<Rightarrow> CursorPosition" where
  "node_cursor node = \<lparr>posName = nNormalizedName node, posID = nID node\<rparr>"

definition Service_ListChildren ::
  "Lib \<Rightarrow> 's Service \<Rightarrow> Identity \<Rightarrow> string \<Rightarrow> string \<Rightarrow> int \<Rightarrow> ('s, Node Page) svc" where
  "Service_ListChildren lib s identity parentID cursor limit0 =
     sbind (of_result (validateID parentID)) (\<lambda>_.
     sbind (of_result (page_limit limit0)) (\<lambda>limit.
     sbind (of_result (CursorCodec_Decode lib (svCursor s) cursor (iTenantID identity) (''children:'' @ parentID))) (\<lambda>position.
     sbind (repo_read (Repo_ListChildren identity parentID position limit)) (\<lambda>items.
     ret (page_of lib s (iTenantID identity) (''children:'' @ parentID) node_cursor items)))))"

definition normalize_optional :: "Lib \<Rightarrow> string option \<Rightarrow> (string option \<times> string option) result" where
  "normalize_optional lib name =
     (case name of
        None \<Rightarrow> Inr (None, None)
      | Some n \<Rightarrow> (case NormalizeName lib n of Inl e \<Rightarrow> Inl e | Inr (d, m) \<Rightarrow> Inr (Some d, Some m)))"

definition Service_UpdateNode ::
  "Lib \<Rightarrow> go_context \<Rightarrow> Identity \<Rightarrow> string \<Rightarrow> string option \<Rightarrow> string option \<Rightarrow> int64 \<Rightarrow> ('s, Node) svc" where
  "Service_UpdateNode lib ctx identity nodeID name parentID revision =
     sbind (guard (\<not> (revision \<le> 0 \<or> name = None \<and> parentID = None))
              (E CodeInvalidRequest ''revision and at least one update are required'')) (\<lambda>_.
     sbind (of_result (validateID nodeID)) (\<lambda>_.
     sbind (of_result (case parentID of None \<Rightarrow> Inr () | Some p \<Rightarrow> validateID p)) (\<lambda>_.
     sbind (of_result (normalize_optional lib name)) (\<lambda>(display, normalized).
     sbind clock_Now (\<lambda>now.
     with_env ctx (\<lambda>env. repo_walk (Repo_UpdateNode env
       \<lparr>unIdentity = identity, unNodeID = nodeID, unDisplayName = display, unNormalizedName = normalized,
        unParentID = parentID, unExpectedRevision = revision, unNow = now\<rparr>)))))))"

section \<open>Uploads\<close>

record CreateUploadInput =
  ciParentID :: string
  ciName :: string
  ciSize :: int64
  ciMimeType :: string
  ciChecksum :: Checksum

record CreateUploadOutput =
  uoUpload :: UploadSession
  uoReplayed :: bool

definition upload_request_json :: "CreateUploadInput \<Rightarrow> string \<Rightarrow> string" where
  "upload_request_json input display = json_object
     [(''parent_id'', json_string (ciParentID input)), (''name'', json_string display), (''size'', show_int (ciSize input)),
      (''mime_type'', json_string (ciMimeType input)), (''checksum'', checksum_json (ciChecksum input))]"

definition validate_upload_input :: "Lib \<Rightarrow> 's Service \<Rightarrow> CreateUploadInput \<Rightarrow> unit result" where
  "validate_upload_input lib s input =
     (if ciSize input \<le> 0 \<or> ciSize input > svMaxFileSize s
      then Inl (E CodeInvalidRequest ''file size is outside the allowed range'')
      else if ciMimeType input = [] \<or> length (ciMimeType input) > 255 \<or> \<not> ValidMediaType lib (ciMimeType input)
              \<or> \<not> ValidChecksum (ciChecksum input)
      then Inl (E CodeInvalidRequest ''mime type or checksum is invalid'')
      else Inr ())"

text \<open>Any error of the lookup, and any parent that is not a visible directory, is the same not-found.\<close>

definition upload_parent :: "Identity \<Rightarrow> string \<Rightarrow> ('s, Node) svc" where
  "upload_parent identity parentID =
     sbind (attempt (repo_read (Repo_Node identity parentID False))) (\<lambda>r.
       (case r of
          Inl _ \<Rightarrow> fail (E CodeNotFound ''parent directory was not found'')
        | Inr parent \<Rightarrow>
            if nKind parent \<noteq> NodeDirectory \<or> nStatus parent \<noteq> NodeActive \<or> nTrashedRootID parent \<noteq> []
            then fail (E CodeNotFound ''parent directory was not found'') else ret parent))"

definition new_session ::
  "'s Service \<Rightarrow> Identity \<Rightarrow> CreateUploadInput \<Rightarrow> string \<Rightarrow> string \<Rightarrow> string \<Rightarrow> string \<Rightarrow> string \<Rightarrow> string \<Rightarrow> time \<Rightarrow> UploadSession" where
  "new_session s identity input display normalized sessionID bucket objectKey storageUploadID now =
     \<lparr>uID = sessionID, uTenantID = iTenantID identity, uPrincipalID = iPrincipalID identity, uParentID = ciParentID input,
      uDisplayName = display, uNormalizedName = normalized, uExpectedSize = ciSize input, uMimeType = ciMimeType input,
      uDeclaredChecksum = ciChecksum input, uBucket = bucket, uObjectKey = objectKey, uStorageUploadID = storageUploadID,
      uStatus = UploadCreated, uCompletionDigest = [], uCommittedNodeID = [], uFailureCode = [], uPartSize = svPartSize s,
      uExpiresAt = now + svUploadTTL s, uRevision = 1, uCreatedAt = now, uUpdatedAt = now\<rparr>"

definition object_key :: "string \<Rightarrow> string \<Rightarrow> string" where
  "object_key tenantID blobID = ''blobs/'' @ tenantID @ ''/'' @ blobID"

definition replay_upload :: "Identity \<Rightarrow> string \<Rightarrow> ('s, CreateUploadOutput) svc" where
  "replay_upload identity resourceID =
     sbind (attempt (repo_read (Repo_Upload identity resourceID))) (\<lambda>r.
       (case r of
          Inl err \<Rightarrow> fail (E_cause CodeInternal ''completed idempotency claim references a missing upload'' (Some err))
        | Inr upload \<Rightarrow> ret \<lparr>uoUpload = upload, uoReplayed = True\<rparr>))"

text \<open>After the claim: the multipart upload, the session, and what a failed insert leaves behind.\<close>

definition start_upload ::
  "'s Service \<Rightarrow> Identity \<Rightarrow> CreateUploadInput \<Rightarrow> string \<Rightarrow> string \<Rightarrow> string \<Rightarrow> string \<Rightarrow> IdempotencyRequest option
   \<Rightarrow> ('s, CreateUploadOutput) svc" where
  "start_upload s identity input display normalized sessionID blobID claim =
     (let objectKey = object_key (iTenantID identity) blobID
      in sbind (attempt (storage_call (\<lambda>env. spCreateMultipart (svStorage s) env objectKey (ciMimeType input) (ciChecksum input)))) (\<lambda>r.
         (case r of
            Inl mapped \<Rightarrow> sbind (releaseKnownFailedClaim claim mapped) (\<lambda>_. fail mapped)
          | Inr storageUploadID \<Rightarrow>
              sbind clock_Now (\<lambda>now w.
              (let session = new_session s identity input display normalized sessionID (spBucket (svStorage s) (wStorage w))
                     objectKey storageUploadID now
               in sbind (attempt (repo_op (Repo_CreateUpload \<lparr>cuSession = session, cuIdempotency = claim\<rparr>))) (\<lambda>r.
                  (case r of
                     Inr created \<Rightarrow> ret \<lparr>uoUpload = created, uoReplayed = False\<rparr>
                   | Inl err \<Rightarrow>
                       if claim = None \<or> knownFailedCreation err
                       then sbind (quietly (storage_op (\<lambda>env. spAbortMultipart (svStorage s) env objectKey storageUploadID))) (\<lambda>_.
                            sbind (releaseKnownFailedClaim claim err) (\<lambda>_. fail err))
                       else fail err)) w)))))"

definition Service_CreateUploadWithIdempotency ::
  "Lib \<Rightarrow> 's Service \<Rightarrow> Identity \<Rightarrow> CreateUploadInput \<Rightarrow> string \<Rightarrow> ('s, CreateUploadOutput) svc" where
  "Service_CreateUploadWithIdempotency lib s identity input key =
     sbind (of_result (validateID (ciParentID input))) (\<lambda>_.
     sbind (of_result (NormalizeName lib (ciName input))) (\<lambda>(display, normalized).
     sbind (of_result (validate_upload_input lib s input)) (\<lambda>_.
     sbind (upload_parent identity (ciParentID input)) (\<lambda>_.
     sbind (new_id ''could not generate upload id'') (\<lambda>sessionID.
     sbind (new_id ''could not generate blob id'') (\<lambda>blobID.
     let requestDigest = canonicalRequestDigest lib (upload_request_json input display)
     in sbind (claimCreation lib s identity IdempotencyCreateUpload key requestDigest) (\<lambda>(claim, claimed).
        if claim_completed claimed then replay_upload identity (claim_resource claimed)
        else start_upload s identity input display normalized sessionID blobID claim)))))))"

definition Service_CreateUpload :: "Lib \<Rightarrow> 's Service \<Rightarrow> Identity \<Rightarrow> CreateUploadInput \<Rightarrow> ('s, UploadSession) svc" where
  "Service_CreateUpload lib s identity input =
     sbind (Service_CreateUploadWithIdempotency lib s identity input []) (\<lambda>output. ret (uoUpload output))"

definition Service_Upload :: "Identity \<Rightarrow> string \<Rightarrow> ('s, UploadSession) svc" where
  "Service_Upload identity uploadID = sbind (of_result (validateID uploadID)) (\<lambda>_. repo_read (Repo_Upload identity uploadID))"

definition abortMultipart :: "'s Service \<Rightarrow> UploadSession \<Rightarrow> ('s, unit) svc" where
  "abortMultipart s session =
     storage_call (\<lambda>env. spAbortMultipart (svStorage s) env (uObjectKey session) (uStorageUploadID session))"

text \<open>The branch of \<^verbatim>\<open>SignUploadPart\<close> for a session whose time is over.\<close>

definition expire_upload :: "'s Service \<Rightarrow> Identity \<Rightarrow> UploadSession \<Rightarrow> string \<Rightarrow> ('s, SignedPart) svc" where
  "expire_upload s identity session uploadID =
     sbind clock_Now (\<lambda>now.
     sbind (repo_op (Repo_AbortUpload identity uploadID UploadExpired now)) (\<lambda>_.
     sbind (abortMultipart s session) (\<lambda>_.
     fail (E CodeInvalidState ''upload session has expired''))))"

definition mark_uploading :: "Identity \<Rightarrow> UploadSession \<Rightarrow> string \<Rightarrow> ('s, UploadSession) svc" where
  "mark_uploading identity session uploadID =
     (if uStatus session = UploadCreated
      then sbind clock_Now (\<lambda>now. repo_op (Repo_MarkUploading identity uploadID now)) else ret session)"

definition Service_SignUploadPart ::
  "'s Service \<Rightarrow> Identity \<Rightarrow> string \<Rightarrow> int \<Rightarrow> Checksum \<Rightarrow> ('s, SignedPart) svc" where
  "Service_SignUploadPart s identity uploadID partNumber checksum =
     sbind (of_result (validateID uploadID)) (\<lambda>_.
     sbind (guard (\<not> (partNumber < 1 \<or> partNumber > 10000 \<or> \<not> ValidChecksum checksum))
              (E CodeInvalidRequest ''part number or checksum is invalid'')) (\<lambda>_.
     sbind (repo_read (Repo_Upload identity uploadID)) (\<lambda>session.
     sbind clock_Now (\<lambda>now.
     if \<not> now < uExpiresAt session then expire_upload s identity session uploadID
     else if uStatus session \<noteq> UploadCreated \<and> uStatus session \<noteq> UploadUploading
     then fail (E CodeInvalidState ''upload session cannot sign parts'')
     else
       sbind (mark_uploading identity session uploadID) (\<lambda>session.
       sbind (storage_call (\<lambda>env. spSignUploadPart (svStorage s) env (uObjectKey session) (uStorageUploadID session)
                partNumber checksum (svUploadSignTTL s))) (\<lambda>(signed, bound).
       if bound
       then sbind clock_Now (\<lambda>_.
            sbind (repo_op (Repo_RecordPartSignature identity uploadID
                \<lparr>psPartNumber = partNumber, psSize = signedPartSize session partNumber, psSHA256 = cValue checksum\<rparr>)) (\<lambda>_.
            ret signed))
       else ret signed))))))"

section \<open>Completion\<close>

record CompleteOutput =
  coUpload :: UploadSession
  coNode :: Node
  coFirst :: bool

text \<open>\<open>if err := f(); err == nil { _ = MarkUploadCleanupComplete(...) }\<close>\<close>

definition mark_cleanup_complete :: "Identity \<Rightarrow> string \<Rightarrow> ('s, unit) svc" where
  "mark_cleanup_complete identity i =
     sbind clock_Now (\<lambda>_. quietly (repo_op (Repo_MarkUploadCleanupComplete identity i)))"

definition cleanup_after :: "('s, unit) svc \<Rightarrow> Identity \<Rightarrow> string \<Rightarrow> ('s, unit) svc" where
  "cleanup_after m identity i =
     sbind (attempt m) (\<lambda>r. (case r of Inr _ \<Rightarrow> mark_cleanup_complete identity i | Inl _ \<Rightarrow> ret ()))"

definition failUploadCompletion ::
  "'s Service \<Rightarrow> Identity \<Rightarrow> UploadSession \<Rightarrow> string \<Rightarrow> string \<Rightarrow> bool \<Rightarrow> ('s, unit) svc" where
  "failUploadCompletion s identity session digest failureCode objectExists =
     sbind clock_Now (\<lambda>now.
     sbind (repo_op (Repo_FailUploadCompletion identity (uID session) digest failureCode now)) (\<lambda>_.
     if objectExists
     then cleanup_after (storage_op (\<lambda>env. spDeleteObject (svStorage s) env (uObjectKey session))) identity (uID session)
     else cleanup_after (storage_op (\<lambda>env. spAbortMultipart (svStorage s) env (uObjectKey session) (uStorageUploadID session)))
            identity (uID session)))"

text \<open>
  The object of a completion: stat it when the session already says the object is complete,
  otherwise complete the multipart upload and stat the object whatever the completion answered.
\<close>

definition complete_object ::
  "'s Service \<Rightarrow> Identity \<Rightarrow> UploadSession \<Rightarrow> string \<Rightarrow> CompletedPart list \<Rightarrow> ('s, ObjectInfo) svc" where
  "complete_object s identity session digest ps =
     (if uStatus session = UploadObjectCompleted
      then storage_call (\<lambda>env. spStatObject (svStorage s) env (uObjectKey session))
      else
        sbind (attempt (storage_op (\<lambda>env. spCompleteMultipart (svStorage s) env (uObjectKey session) (uStorageUploadID session) ps))) (\<lambda>completed.
        sbind (attempt (storage_op (\<lambda>env. spStatObject (svStorage s) env (uObjectKey session)))) (\<lambda>stat.
        (case stat of
           Inr object \<Rightarrow> ret object
         | Inl statErr \<Rightarrow>
             let mappedStat = mapStorageError statErr
             in (case completed of
                   Inr _ \<Rightarrow> fail (Retryable CodeDependencyUnavailable ''completed object is not yet readable'' (Some statErr))
                 | Inl completeErr \<Rightarrow>
                     let mappedComplete = mapStorageError completeErr
                     in if CodeOf mappedComplete = CodeInvalidRequest \<and> CodeOf mappedStat = CodeNotFound
                        then sbind (failUploadCompletion s identity session digest UploadFailureStorageRejected False)
                               (\<lambda>_. fail mappedComplete)
                        else if CodeOf mappedStat = CodeDependencyUnavailable then fail mappedStat
                        else if CodeOf mappedComplete = CodeNotFound \<and> CodeOf mappedStat = CodeNotFound
                        then fail (Retryable CodeDependencyUnavailable ''multipart completion result is not yet observable'' (Some completeErr))
                        else if CodeOf mappedComplete = CodeDependencyUnavailable then fail mappedComplete
                        else fail (Retryable CodeDependencyUnavailable ''multipart completion result is unknown'' (Some completeErr)))))))"

definition check_object ::
  "'s Service \<Rightarrow> Identity \<Rightarrow> UploadSession \<Rightarrow> string \<Rightarrow> ObjectInfo \<Rightarrow> ('s, ObjectInfo) svc" where
  "check_object s identity session digest raw =
     (case normalizeObjectChecksum raw (uDeclaredChecksum session) of
        Inl err \<Rightarrow>
          if CodeOf err = CodeInvalidRequest
          then sbind (failUploadCompletion s identity session digest UploadFailureChecksumMismatch True) (\<lambda>_. fail err)
          else fail err
      | Inr object \<Rightarrow>
          if oSize object \<noteq> uExpectedSize session
          then sbind (failUploadCompletion s identity session digest UploadFailureSizeMismatch True) (\<lambda>_.
               fail (E CodeInvalidRequest ''completed object size does not match the declared size''))
          else ret object)"

text \<open>The records a commit publishes.\<close>

definition commit_blob :: "Identity \<Rightarrow> UploadSession \<Rightarrow> ObjectInfo \<Rightarrow> string \<Rightarrow> time \<Rightarrow> Blob" where
  "commit_blob identity session object blobID now =
     \<lparr>bID = blobID, bTenantID = iTenantID identity, bBucket = oBucket object, bObjectKey = oObjectKey object,
      bSize = oSize object, bMimeType = uMimeType session, bChecksum = oChecksum object,
      bChecksumStatus = oChecksumStatus object, bStatus = BlobAvailable, bReferenceCount = 1, bCreatedAt = now, bDeletedAt = None\<rparr>"

definition commit_version :: "Identity \<Rightarrow> UploadSession \<Rightarrow> ObjectInfo \<Rightarrow> string \<Rightarrow> string \<Rightarrow> string \<Rightarrow> time \<Rightarrow> FileVersion" where
  "commit_version identity session object versionID nodeID blobID now =
     \<lparr>vID = versionID, vTenantID = iTenantID identity, vNodeID = nodeID, vBlobID = blobID, vSize = oSize object,
      vMimeType = uMimeType session, vChecksum = oChecksum object, vCreatedBy = iPrincipalID identity, vCreatedAt = now\<rparr>"

definition commit_node :: "Identity \<Rightarrow> UploadSession \<Rightarrow> ObjectInfo \<Rightarrow> string \<Rightarrow> string \<Rightarrow> time \<Rightarrow> Node" where
  "commit_node identity session object nodeID versionID now = zero_Node
     \<lparr>nID := nodeID, nTenantID := iTenantID identity, nParentID := uParentID session, nKind := NodeFile,
      nDisplayName := uDisplayName session, nNormalizedName := uNormalizedName session, nCurrentVersionID := versionID,
      nSize := oSize object, nMimeType := uMimeType session, nStatus := NodeActive, nRevision := 1, nCreatedAt := now, nUpdatedAt := now\<rparr>"

definition commit_command ::
  "Identity \<Rightarrow> UploadSession \<Rightarrow> string \<Rightarrow> string \<Rightarrow> CompletedPart list \<Rightarrow> ObjectInfo \<Rightarrow> string \<Rightarrow> string \<Rightarrow> string \<Rightarrow> time \<Rightarrow> CommitUploadCommand" where
  "commit_command identity session uploadID digest ps object blobID nodeID versionID now =
     \<lparr>cmIdentity = identity, cmSessionID = uploadID, cmDigest = digest,
      cmBlob = commit_blob identity session object blobID now,
      cmVersion = commit_version identity session object versionID nodeID blobID now,
      cmNode = commit_node identity session object nodeID versionID now, cmParts = ps, cmNow = now\<rparr>"

definition mark_object_completed :: "Identity \<Rightarrow> UploadSession \<Rightarrow> string \<Rightarrow> ObjectInfo \<Rightarrow> ('s, UploadSession) svc" where
  "mark_object_completed identity session uploadID object =
     (if uStatus session \<noteq> UploadObjectCompleted
      then sbind clock_Now (\<lambda>now. repo_op (Repo_MarkObjectCompleted identity uploadID object now)) else ret session)"

definition commit_object ::
  "'s Service \<Rightarrow> go_context \<Rightarrow> Identity \<Rightarrow> UploadSession \<Rightarrow> string \<Rightarrow> string \<Rightarrow> CompletedPart list \<Rightarrow> ObjectInfo \<Rightarrow> ('s, CompleteOutput) svc" where
  "commit_object s ctx identity session uploadID digest ps object =
     sbind (new_id ''could not generate blob id'') (\<lambda>blobID.
     sbind (new_id ''could not generate node id'') (\<lambda>nodeID.
     sbind (new_id ''could not generate version id'') (\<lambda>versionID.
     sbind clock_Now (\<lambda>now.
     sbind (attempt (with_env ctx (\<lambda>env. repo_op (Repo_CommitUpload env
         (commit_command identity session uploadID digest ps object blobID nodeID versionID now))))) (\<lambda>r.
     (case r of
        Inr (result, first) \<Rightarrow> ret \<lparr>coUpload = crUpload result, coNode = crNode result, coFirst = first\<rparr>
      | Inl err \<Rightarrow>
          if CodeOf err = CodeNameConflict \<or> CodeOf err = CodeNotFound
          then sbind (cleanup_after (storage_op (\<lambda>env. spDeleteObject (svStorage s) env (uObjectKey session))) identity (uID session))
                 (\<lambda>_. fail err)
          else fail err))))))"

definition zero_commit :: "Identity \<Rightarrow> string \<Rightarrow> string \<Rightarrow> CommitUploadCommand" where
  "zero_commit identity uploadID digest =
     \<lparr>cmIdentity = identity, cmSessionID = uploadID, cmDigest = digest, cmBlob = zero_Blob, cmVersion = zero_FileVersion,
      cmNode = zero_Node, cmParts = [], cmNow = 0\<rparr>"

definition Service_CompleteUpload ::
  "Lib \<Rightarrow> 's Service \<Rightarrow> go_context \<Rightarrow> Identity \<Rightarrow> string \<Rightarrow> CompletedPart list \<Rightarrow> ('s, CompleteOutput) svc" where
  "Service_CompleteUpload lib s ctx identity uploadID ps =
     sbind (of_result (validateID uploadID)) (\<lambda>_.
     sbind (of_result (validateParts ps)) (\<lambda>_.
     let digest = partsDigest lib ps
     in sbind clock_Now (\<lambda>now.
        sbind (repo_op (Repo_BeginComplete identity uploadID digest ps now)) (\<lambda>session.
        if uStatus session = UploadCommitted
        then sbind (with_env ctx (\<lambda>env. repo_op (Repo_CommitUpload env (zero_commit identity uploadID digest)))) (\<lambda>(result, _).
             ret \<lparr>coUpload = crUpload result, coNode = crNode result, coFirst = False\<rparr>)
        else
          sbind (complete_object s identity session digest ps) (\<lambda>raw.
          sbind (check_object s identity session digest raw) (\<lambda>object.
          sbind (mark_object_completed identity session uploadID object) (\<lambda>session.
          commit_object s ctx identity session uploadID digest ps object)))))))"

section \<open>Resume, abort, download\<close>

definition zero_listing :: "string \<Rightarrow> UploadStatus \<Rightarrow> UploadSession \<Rightarrow> UploadPartListing" where
  "zero_listing uploadID status session =
     \<lparr>plUploadID = uploadID, plStatus = status, plPartSize = uPartSize session, plParts = [], plComplete = False\<rparr>"

definition recorded_part :: "CompletedPart \<Rightarrow> StoredPart" where
  "recorded_part part = \<lparr>spPartNumber = cpPartNumber part, spETag = cpETag part, spSize = cpSize part,
     spStorageChecksum = zero_Checksum, spChecksumAttested = False, spReusable = False\<rparr>"

text \<open>The slice expression \<^verbatim>\<open>listing.Parts[:limit]\<close> panics for a negative limit.\<close>

definition truncate_listing :: "int \<Rightarrow> UploadPartListing \<Rightarrow> UploadPartListing result" where
  "truncate_listing limit listing =
     (case slice_page limit (plParts listing) of
        None \<Rightarrow> Inl (Panic ''slice bounds out of range'')
      | Some (items, left) \<Rightarrow> Inr (listing\<lparr>plParts := items, plComplete := \<not> left\<rparr>))"

definition Service_ListUploadParts ::
  "'s Service \<Rightarrow> Identity \<Rightarrow> string \<Rightarrow> int \<Rightarrow> ('s, UploadPartListing) svc" where
  "Service_ListUploadParts s identity uploadID limit0 =
     sbind (of_result (validateID uploadID)) (\<lambda>_.
     let limit = (if limit0 = 0 \<or> limit0 > MaxUploadParts then MaxUploadParts else limit0)
     in sbind (repo_read (Repo_Upload identity uploadID)) (\<lambda>session.
        sbind clock_Now (\<lambda>now.
        if \<not> now < uExpiresAt session \<and> \<not> Terminal (uStatus session)
        then ret ((zero_listing uploadID UploadExpired session)\<lparr>plComplete := True\<rparr>)
        else
          let listing = zero_listing uploadID (uStatus session) session
          in sbind (repo_read (Repo_UploadParts identity uploadID)) (\<lambda>recorded.
             if recorded \<noteq> [] then ret (listing\<lparr>plParts := map recorded_part recorded, plComplete := True\<rparr>)
             else if uStatus session = UploadCommitted \<or> uStatus session = UploadAborted
                     \<or> uStatus session = UploadExpired \<or> uStatus session = UploadFailed
             then ret listing
             else
               sbind (attempt (storage_op (\<lambda>env. spListParts (svStorage s) env (uObjectKey session) (uStorageUploadID session)))) (\<lambda>r.
               (case r of
                  Inl err \<Rightarrow>
                    if CodeOf err = CodeNotFound then fail (E CodeInvalidState ''multipart upload is no longer available'')
                    else fail (mapStorageError err)
                | Inr stored \<Rightarrow>
                    of_result (truncate_listing limit (listing\<lparr>plParts :=
                      sort_slice (\<lambda>a b. spPartNumber a < spPartNumber b) (reusableStoredParts stored session)\<rparr>))))))))"

definition Service_AbortUpload :: "'s Service \<Rightarrow> Identity \<Rightarrow> string \<Rightarrow> ('s, unit) svc" where
  "Service_AbortUpload s identity uploadID =
     sbind (of_result (validateID uploadID)) (\<lambda>_.
     sbind clock_Now (\<lambda>now.
     sbind (repo_op (Repo_AbortUpload identity uploadID UploadAborted now)) (\<lambda>session.
     if uStatus session = UploadFailed \<and> failedUploadHasObject (uFailureCode session)
     then sbind (storage_call (\<lambda>env. spDeleteObject (svStorage s) env (uObjectKey session))) (\<lambda>_.
          mark_cleanup_complete identity (uID session))
     else sbind (abortMultipart s session) (\<lambda>_.
          mark_cleanup_complete identity (uID session)))))"

definition Service_Download :: "'s Service \<Rightarrow> Identity \<Rightarrow> string \<Rightarrow> ('s, SignedDownload) svc" where
  "Service_Download s identity nodeID =
     sbind (of_result (validateID nodeID)) (\<lambda>_.
     sbind (repo_read (Repo_DownloadBlob identity nodeID)) (\<lambda>(node, blob).
     storage_call (\<lambda>env. spSignDownload (svStorage s) env (bObjectKey blob) (nDisplayName node) (svDownloadSignTTL s))))"

section \<open>Recycle bin\<close>

definition Service_Recycle :: "go_context \<Rightarrow> Identity \<Rightarrow> string \<Rightarrow> int64 \<Rightarrow> ('s, unit) svc" where
  "Service_Recycle ctx identity nodeID revision =
     sbind (guard (\<not> revision \<le> 0) (E CodeInvalidRequest ''revision is required'')) (\<lambda>_.
     sbind (of_result (validateID nodeID)) (\<lambda>_.
     sbind clock_Now (\<lambda>now.
     with_env ctx (\<lambda>env. repo_walk (Repo_Recycle env identity nodeID revision now)))))"

definition Service_ListRecycle :: "Lib \<Rightarrow> 's Service \<Rightarrow> Identity \<Rightarrow> string \<Rightarrow> int \<Rightarrow> ('s, RecycleEntry Page) svc" where
  "Service_ListRecycle lib s identity cursor limit0 =
     sbind (of_result (page_limit limit0)) (\<lambda>limit.
     sbind (of_result (CursorCodec_Decode lib (svCursor s) cursor (iTenantID identity) ''recycle'')) (\<lambda>position.
     sbind (repo_read (Repo_ListRecycle identity position limit)) (\<lambda>items.
     ret (page_of lib s (iTenantID identity) ''recycle'' (\<lambda>entry. node_cursor (reNode entry)) items))))"

definition Service_Restore :: "go_context \<Rightarrow> Identity \<Rightarrow> string \<Rightarrow> int64 \<Rightarrow> ('s, Node) svc" where
  "Service_Restore ctx identity nodeID revision =
     sbind (guard (\<not> revision \<le> 0) (E CodeInvalidRequest ''revision is required'')) (\<lambda>_.
     sbind (of_result (validateID nodeID)) (\<lambda>_.
     sbind clock_Now (\<lambda>now.
     with_env ctx (\<lambda>env. repo_op (Repo_Restore env identity nodeID revision now)))))"

fun delete_blobs :: "'s Service \<Rightarrow> Blob list \<Rightarrow> ('s, unit) svc" where
  "delete_blobs s [] = ret ()"
| "delete_blobs s (blob # rest) =
     sbind (storage_call (\<lambda>env. spDeleteObject (svStorage s) env (bObjectKey blob))) (\<lambda>_. delete_blobs s rest)"

definition Service_Purge :: "'s Service \<Rightarrow> go_context \<Rightarrow> Identity \<Rightarrow> string \<Rightarrow> int64 \<Rightarrow> ('s, unit) svc" where
  "Service_Purge s ctx identity nodeID revision =
     sbind (guard (\<not> revision \<le> 0) (E CodeInvalidRequest ''revision is required'')) (\<lambda>_.
     sbind (of_result (validateID nodeID)) (\<lambda>_.
     sbind clock_Now (\<lambda>now.
     sbind (repo_op (Repo_PreparePurge identity nodeID revision now)) (\<lambda>plan.
     sbind (delete_blobs s (ppBlobs plan)) (\<lambda>_.
     sbind clock_Now (\<lambda>now.
     with_env ctx (\<lambda>env. repo_op (Repo_FinishPurge env identity plan now))))))))"

section \<open>Resume is read-only and rests on stored bytes\<close>

lemmas svc_defs = sbind_def ret_def fail_def of_result_def attempt_def quietly_def guard_def clock_Now_def
  draw_def repo_read_def repo_op_def repo_walk_def with_env_def storage_op_def storage_call_def

lemma truncate_listing_parts:
  "truncate_listing limit listing = Inr l \<Longrightarrow> set (plParts l) \<subseteq> set (plParts listing)"
  by (auto simp: truncate_listing_def slice_page_def Let_def split: if_splits option.splits dest: in_set_takeD)

lemma memory_ListParts:
  assumes "Storage_ListParts lib key up s = Inr stored" and "q \<in> set stored"
  shows "\<exists>u bytes. find_upload key up s = Some u \<and> gget (muParts u) (spPartNumber q) = Some bytes
    \<and> spSize q = int (length bytes) \<and> spStorageChecksum q = content_checksum lib bytes"
  using assms by (auto simp: Storage_ListParts_def stored_part_def split: option.splits)

text \<open>
  Listing the parts of an upload changes neither the repository nor the storage,
  and a part it marks reusable is really there: the storage holds bytes under that part number
  of this multipart upload, of the size the session gives the part, and the reported checksum
  is the SHA-256 of those bytes.
\<close>

theorem resume_listing_sound:
  assumes "svStorage s = memory_provider lib"
    and op: "Service_ListUploadParts s identity uploadID limit w = Some (res, w')"
  shows "wRepo w' = wRepo w \<and> wStorage w' = wStorage w \<and>
    (\<forall>listing p. res = Inr listing \<longrightarrow> p \<in> set (plParts listing) \<longrightarrow> spReusable p \<longrightarrow>
      (\<exists>session u bytes. Repo_Upload identity uploadID (wRepo w) = Inr session
         \<and> find_upload (uObjectKey session) (uStorageUploadID session) (wStorage w) = Some u
         \<and> gget (muParts u) (spPartNumber p) = Some bytes
         \<and> int (length bytes) = signedPartSize session (spPartNumber p)
         \<and> spStorageChecksum p = content_checksum lib bytes))"
proof -
  have sp: "spListParts (svStorage s) env key up st = (Storage_ListParts lib key up st, st)" for env key up st
    using assms(1) by (simp add: memory_provider_def)
  have state: "wRepo w' = wRepo w \<and> wStorage w' = wStorage w"
    using op by (auto simp: Service_ListUploadParts_def svc_defs Let_def sp
        split: if_splits option.splits prod.splits sum.splits)
  have "\<exists>session u bytes. Repo_Upload identity uploadID (wRepo w) = Inr session
         \<and> find_upload (uObjectKey session) (uStorageUploadID session) (wStorage w) = Some u
         \<and> gget (muParts u) (spPartNumber p) = Some bytes
         \<and> int (length bytes) = signedPartSize session (spPartNumber p)
         \<and> spStorageChecksum p = content_checksum lib bytes"
    if res: "res = Inr listing" and p: "p \<in> set (plParts listing)" and reuse: "spReusable p" for listing p
  proof -
    from op res p reuse obtain session stored limit' base where
      session: "Repo_Upload identity uploadID (wRepo w) = Inr session"
      and stored: "Storage_ListParts lib (uObjectKey session) (uStorageUploadID session) (wStorage w) = Inr stored"
      and listing: "truncate_listing limit' base = Inr listing"
      and base: "plParts base = sort_slice (\<lambda>a b. spPartNumber a < spPartNumber b) (reusableStoredParts stored session)"
      by (auto simp: Service_ListUploadParts_def svc_defs Let_def sp recorded_part_def zero_listing_def
          split: if_splits option.splits prod.splits sum.splits)
    from truncate_listing_parts [OF listing] base p have "p \<in> set (reusableStoredParts stored session)" by auto
    then obtain q rest where q: "filter (\<lambda>q. listable q \<and> spPartNumber q = spPartNumber p) stored = q # rest"
      and pq: "p = q\<lparr>spReusable := (rest = [] \<and> spSize q = signedPartSize session (spPartNumber q) \<and> spChecksumAttested q
             \<and> cAlgorithm (spStorageChecksum q) = ''sha256'' \<and> ValidChecksum (spStorageChecksum q))\<rparr>"
      unfolding reusableStoredParts_iff by blast
    from q have "q \<in> set (filter (\<lambda>q. listable q \<and> spPartNumber q = spPartNumber p) stored)" by simp
    then have "q \<in> set stored" by simp
    from memory_ListParts [OF stored this] session pq reuse show ?thesis by auto
  qed
  with state show ?thesis by blast
qed

definition sample_uuid :: string where
  "sample_uuid = ''00000000-0000-4000-8000-000000000000''"

lemma sample_uuid_valid: "ValidID sample_uuid"
  unfolding sample_uuid_def ValidID_def by (intro conjI; code_simp)

definition sample_cursor :: CursorCodec where
  "sample_cursor = \<lparr>ccKey = replicate 32 CHR ''k''\<rparr>"

definition sample_service :: "Lib \<Rightarrow> Storage Service" where
  "sample_service lib = \<lparr>svStorage = memory_provider lib, svCursor = sample_cursor, svMaxFileSize = 1000, svPartSize = 8,
     svUploadTTL = 100, svUploadSignTTL = 10, svDownloadSignTTL = 10, svIdempotencyClaimTTL = 10, svIdempotencyRetention = 100\<rparr>"

definition sample_world :: "Repository \<Rightarrow> Storage \<Rightarrow> Storage World" where
  "sample_world r st = \<lparr>wRepo = r, wStorage = st, wRand = (\<lambda>n. Inr (unbyte n # replicate 15 CHR ''a'')),
     wClock = (\<lambda>n. 50), wJitter = (\<lambda>n. 0)\<rparr>"

definition sample_resume :: "Storage World" where
  "sample_resume = sample_world
     (NewRepository\<lparr>uploads := [(sample_uuid, sample_geometry\<lparr>uID := sample_uuid, uStatus := UploadUploading\<rparr>)]\<rparr>)
     ((NewStorage ''b'')\<lparr>stUploads := [(''mp1'', \<lparr>muKey = ''k'', muMimeType = ''text/plain'', muChecksum = zero_Checksum,
        muParts = [(3, ''abcd''), (1, ''zz'')]\<rparr>)]\<rparr>)"

theorem resume_listing_sound_witness:
  "\<exists>listing w' p. Service_ListUploadParts (sample_service sample_lib0) sample_identity sample_uuid 0 sample_resume = Some (Inr listing, w')
     \<and> p \<in> set (plParts listing) \<and> spReusable p \<and> spPartNumber p = 3
     \<and> (\<exists>bytes. int (length bytes) = 4 \<and> spStorageChecksum p = content_checksum sample_lib0 bytes)"
proof -
  let ?s = "sample_service sample_lib0"
  let ?p = "(stored_part sample_lib0 (3, ''abcd''))\<lparr>spReusable := True\<rparr>"
  have "case Service_ListUploadParts ?s sample_identity sample_uuid 0 sample_resume of
      Some (Inr listing, _) \<Rightarrow> ?p \<in> set (plParts listing) | _ \<Rightarrow> False"
    by code_simp
  then obtain listing w' where op: "Service_ListUploadParts ?s sample_identity sample_uuid 0 sample_resume = Some (Inr listing, w')"
    and p: "?p \<in> set (plParts listing)"
    by (auto split: option.splits sum.splits)
  have sp: "svStorage ?s = memory_provider sample_lib0" by (simp add: sample_service_def)
  have "spPartNumber ?p = 3" "spReusable ?p" by (simp_all add: stored_part_def)
  moreover from resume_listing_sound [OF sp op] p have "\<exists>bytes session. Repo_Upload sample_identity sample_uuid (wRepo sample_resume) = Inr session
      \<and> int (length bytes) = signedPartSize session (spPartNumber ?p) \<and> spStorageChecksum ?p = content_checksum sample_lib0 bytes"
    by (metis \<open>spReusable ?p\<close>)
  moreover have "signedPartSize (sample_geometry\<lparr>uID := sample_uuid, uStatus := UploadUploading\<rparr>) 3 = 4" by code_simp
  moreover have "Repo_Upload sample_identity sample_uuid (wRepo sample_resume)
      = Inr (sample_geometry\<lparr>uID := sample_uuid, uStatus := UploadUploading\<rparr>)" by code_simp
  ultimately have "\<exists>bytes. int (length bytes) = 4 \<and> spStorageChecksum ?p = content_checksum sample_lib0 bytes" by auto
  with op p \<open>spPartNumber ?p = 3\<close> \<open>spReusable ?p\<close> show ?thesis by blast
qed

end
