(* ===== verification/Memory_Maintenance.thy ===== *)
theory Memory_Maintenance
  imports Memory_Upload
begin

text \<open>
  \<^verbatim>\<open>internal/memory/maintenance.go\<close>: the leases under which the maintenance loop works on
  uploads and on the recycle bin. A worker claims the due items that no other worker holds,
  and finishes or releases a claim it owns; the locale \<open>lease_table\<close> states what the loop
  relies on.
\<close>

definition lease_blocked :: "maintenanceLease \<Rightarrow> time \<Rightarrow> bool" where
  "lease_blocked lease now \<longleftrightarrow> (lsUntil lease \<noteq> 0 \<and> lsUntil lease > now)
     \<or> (lsNotBefore lease \<noteq> 0 \<and> lsNotBefore lease > now)"

definition upload_due :: "UploadSession \<Rightarrow> maintenanceLease \<Rightarrow> time \<Rightarrow> time \<Rightarrow> bool" where
  "upload_due upload lease now staleBefore \<longleftrightarrow>
     (uStatus upload = UploadCreated \<or> uStatus upload = UploadUploading) \<and> \<not> uExpiresAt upload > now
     \<or> (uStatus upload = UploadCompleting \<or> uStatus upload = UploadObjectCompleted)
       \<and> \<not> uUpdatedAt upload > staleBefore
     \<or> lsCleanupPending lease \<or> lsErrorCode lease \<noteq> []"

definition limited :: "int \<Rightarrow> 'a list \<Rightarrow> 'a list" where
  "limited limit ids = (if limit > 0 \<and> int (length ids) > limit then take (nat limit) ids else ids)"

text \<open>\<^verbatim>\<open>lease := leases[id]; lease.owner, lease.until = owner, leaseUntil; leases[id] = lease\<close>\<close>

definition take_lease ::
  "string \<Rightarrow> time \<Rightarrow> (string, maintenanceLease) gomap \<Rightarrow> string \<Rightarrow> (string, maintenanceLease) gomap" where
  "take_lease owner leaseUntil leases i =
     gput i ((gget_or zero_lease leases i)\<lparr>lsOwner := owner, lsUntil := leaseUntil\<rparr>) leases"

definition zero_UploadSession :: UploadSession where
  "zero_UploadSession = \<lparr>uID = [], uTenantID = [], uPrincipalID = [], uParentID = [], uDisplayName = [],
     uNormalizedName = [], uExpectedSize = 0, uMimeType = [], uDeclaredChecksum = zero_Checksum,
     uBucket = [], uObjectKey = [], uStorageUploadID = [], uStatus = UploadStatusOther [],
     uCompletionDigest = [], uCommittedNodeID = [], uFailureCode = [], uPartSize = 0, uExpiresAt = 0,
     uRevision = 0, uCreatedAt = 0, uUpdatedAt = 0\<rparr>"

definition upload_claim :: "string \<Rightarrow> Repository \<Rightarrow> string \<Rightarrow> UploadMaintenanceClaim" where
  "upload_claim owner r i =
     (let lease = gget_or zero_lease (uploadMaintenance r) i
      in \<lparr>mcUpload = gget_or zero_UploadSession (uploads r) i, mcOwner = owner,
          mcCleanupPending = lsCleanupPending lease, mcAttempts = lsAttempts lease\<rparr>)"

definition claimable_uploads :: "time \<Rightarrow> time \<Rightarrow> int \<Rightarrow> Repository \<Rightarrow> string list" where
  "claimable_uploads now staleBefore limit r =
     limited limit (sort_slice (\<lambda>a b. uExpiresAt (gget_or zero_UploadSession (uploads r) a)
           < uExpiresAt (gget_or zero_UploadSession (uploads r) b))
         (map fst (filter (\<lambda>(i, upload). \<not> lease_blocked (gget_or zero_lease (uploadMaintenance r) i) now
             \<and> upload_due upload (gget_or zero_lease (uploadMaintenance r) i) now staleBefore)
           (gentries (uploads r)))))"

definition Repo_ClaimUploadsForMaintenance ::
  "string \<Rightarrow> time \<Rightarrow> time \<Rightarrow> time \<Rightarrow> int \<Rightarrow> Repository \<Rightarrow> UploadMaintenanceClaim list \<times> Repository" where
  "Repo_ClaimUploadsForMaintenance owner now staleBefore leaseUntil limit r =
     (let ids = claimable_uploads now staleBefore limit r
      in (map (upload_claim owner r) ids,
          r\<lparr>uploadMaintenance := foldl (take_lease owner leaseUntil) (uploadMaintenance r) ids\<rparr>))"

definition Repo_FinishUploadMaintenance ::
  "string \<Rightarrow> string \<Rightarrow> UploadStatus \<Rightarrow> bool \<Rightarrow> time \<Rightarrow> string \<Rightarrow> time \<Rightarrow> unit op" where
  "Repo_FinishUploadMaintenance owner uploadID status cleanupComplete retryAt errorCode now r =
     (case gget (uploadMaintenance r) uploadID of
        None \<Rightarrow> (Inl (E CodeInvalidState ''upload maintenance claim is no longer owned''), r)
      | Some lease \<Rightarrow>
          if lsOwner lease \<noteq> owner
          then (Inl (E CodeInvalidState ''upload maintenance claim is no longer owned''), r)
          else
            (case gget (uploads r) uploadID of
               None \<Rightarrow> (Inl (E CodeInvalidState ''upload cannot be maintained''), r)
             | Some upload \<Rightarrow>
                 let lease1 = lease\<lparr>lsOwner := [], lsUntil := 0, lsNotBefore := retryAt,
                        lsErrorCode := errorCode, lsCleanupPending := \<not> cleanupComplete\<rparr>;
                     lease2 = (if errorCode \<noteq> [] then lease1\<lparr>lsAttempts := wrap64 (lsAttempts lease1 + 1)\<rparr> else lease1);
                     lease3 = (if cleanupComplete \<and> errorCode = []
                               then lease2\<lparr>lsErrorCode := [], lsNotBefore := 0\<rparr> else lease2)
                 in (Inr (), (put_upload uploadID (move_upload status now upload) r)
                       \<lparr>uploadMaintenance := gput uploadID lease3 (uploadMaintenance r)\<rparr>)))"

definition claimable_recycle :: "time \<Rightarrow> time \<Rightarrow> int \<Rightarrow> Repository \<Rightarrow> string list" where
  "claimable_recycle cutoff now limit r =
     limited limit (sort_slice (<) (map fst (filter (\<lambda>(i, node).
         nTrashedRootID node = i \<and> (nStatus node = NodeTrashed \<or> nStatus node = NodePurging)
         \<and> (case nDeletedAt node of None \<Rightarrow> False | Some t \<Rightarrow> \<not> t > cutoff)
         \<and> \<not> lease_blocked (gget_or zero_lease (recycleMaintenance r) i) now) (gentries (nodes r)))))"

definition recycle_claim :: "string \<Rightarrow> Repository \<Rightarrow> string \<Rightarrow> RecycleMaintenanceClaim" where
  "recycle_claim owner r i =
     (let node = gget_or zero_Node (nodes r) i
      in \<lparr>rcIdentity = \<lparr>iTenantID = nTenantID node, iPrincipalID = []\<rparr>, rcRootID = i,
          rcRevision = nRevision node, rcOwner = owner\<rparr>)"

definition Repo_ClaimRecycleForMaintenance ::
  "string \<Rightarrow> time \<Rightarrow> time \<Rightarrow> time \<Rightarrow> int \<Rightarrow> Repository \<Rightarrow> RecycleMaintenanceClaim list \<times> Repository" where
  "Repo_ClaimRecycleForMaintenance owner cutoff now leaseUntil limit r =
     (let ids = claimable_recycle cutoff now limit r
      in (map (recycle_claim owner r) ids,
          r\<lparr>nodes := update_nodes (purge_child now) ids (nodes r),
            recycleMaintenance := foldl (take_lease owner leaseUntil) (recycleMaintenance r) ids\<rparr>))"

definition Repo_ReleaseRecycleMaintenance :: "string \<Rightarrow> string \<Rightarrow> time \<Rightarrow> string \<Rightarrow> unit op" where
  "Repo_ReleaseRecycleMaintenance owner rootID retryAt errorCode r =
     (case gget (recycleMaintenance r) rootID of
        None \<Rightarrow> (Inl (E CodeInvalidState ''recycle maintenance claim is no longer owned''), r)
      | Some lease \<Rightarrow>
          if lsOwner lease \<noteq> owner
          then (Inl (E CodeInvalidState ''recycle maintenance claim is no longer owned''), r)
          else (Inr (), r\<lparr>recycleMaintenance := gput rootID
                  (lease\<lparr>lsOwner := [], lsUntil := 0, lsNotBefore := retryAt, lsErrorCode := errorCode,
                         lsAttempts := wrap64 (lsAttempts lease + 1)\<rparr>) (recycleMaintenance r)\<rparr>))"

section \<open>Leases\<close>

lemma set_limited: "set (limited limit xs) \<subseteq> set xs"
  by (auto simp: limited_def dest: in_set_takeD)

lemma distinct_limited: "distinct xs \<Longrightarrow> distinct (limited limit xs)"
  by (simp add: limited_def)

lemma gget_take_leases:
  assumes "distinct ids"
  shows "gget (foldl (take_lease owner until) leases ids) i =
    (if i \<in> set ids then Some ((gget_or zero_lease leases i)\<lparr>lsOwner := owner, lsUntil := until\<rparr>) else gget leases i)"
  using assms
  by (induction ids arbitrary: leases) (auto simp: take_lease_def gget_or_def)

text \<open>
  What the loop relies on: a claim hands out distinct items that were free, holds them for its
  owner until the lease runs out, and leaves the other items alone.
\<close>

locale lease_table =
  fixes claim :: "string \<Rightarrow> time \<Rightarrow> time \<Rightarrow> 's \<Rightarrow> string list \<times> 's"
    and lease_of :: "'s \<Rightarrow> string \<Rightarrow> maintenanceLease"
  assumes distinct_claim: "distinct (fst (claim owner now until s))"
    and claim_free: "i \<in> set (fst (claim owner now until s)) \<Longrightarrow> \<not> lease_blocked (lease_of s i) now"
    and claim_takes: "i \<in> set (fst (claim owner now until s)) \<Longrightarrow>
       lsOwner (lease_of (snd (claim owner now until s)) i) = owner \<and>
       lsUntil (lease_of (snd (claim owner now until s)) i) = until"
    and claim_frame: "i \<notin> set (fst (claim owner now until s)) \<Longrightarrow>
       lease_of (snd (claim owner now until s)) i = lease_of s i"
begin

lemma claims_disjoint:
  assumes "now' < until" and "until \<noteq> 0"
  shows "set (fst (claim owner now until s)) \<inter> set (fst (claim owner' now' until' (snd (claim owner now until s)))) = {}"
proof -
  have "lease_blocked (lease_of (snd (claim owner now until s)) i) now'" if "i \<in> set (fst (claim owner now until s))" for i
    using claim_takes [OF that] assms by (auto simp: lease_blocked_def)
  with claim_free show ?thesis by blast
qed

end

definition upload_lease :: "Repository \<Rightarrow> string \<Rightarrow> maintenanceLease" where
  "upload_lease r i = gget_or zero_lease (uploadMaintenance r) i"

definition recycle_lease :: "Repository \<Rightarrow> string \<Rightarrow> maintenanceLease" where
  "recycle_lease r i = gget_or zero_lease (recycleMaintenance r) i"

definition claim_uploads :: "time \<Rightarrow> int \<Rightarrow> string \<Rightarrow> time \<Rightarrow> time \<Rightarrow> Repository \<Rightarrow> string list \<times> Repository" where
  "claim_uploads staleBefore limit owner now until r =
     (claimable_uploads now staleBefore limit r, snd (Repo_ClaimUploadsForMaintenance owner now staleBefore until limit r))"

definition claim_recycle :: "time \<Rightarrow> int \<Rightarrow> string \<Rightarrow> time \<Rightarrow> time \<Rightarrow> Repository \<Rightarrow> string list \<times> Repository" where
  "claim_recycle cutoff limit owner now until r =
     (claimable_recycle cutoff now limit r, snd (Repo_ClaimRecycleForMaintenance owner cutoff now until limit r))"

lemma distinct_claimable:
  "distinct (claimable_uploads now staleBefore limit r)" "distinct (claimable_recycle cutoff now limit r)"
  by (simp_all add: claimable_uploads_def claimable_recycle_def distinct_limited distinct_map_filter distinct_gentries)

lemma claimable_uploadsD:
  "i \<in> set (claimable_uploads now staleBefore limit r) \<Longrightarrow>
   \<exists>upload. gget (uploads r) i = Some upload \<and> \<not> lease_blocked (upload_lease r i) now
     \<and> upload_due upload (upload_lease r i) now staleBefore"
  unfolding claimable_uploads_def upload_lease_def using set_limited by (fastforce dest: subsetD [OF set_limited])

lemma claimable_recycleD:
  "i \<in> set (claimable_recycle cutoff now limit r) \<Longrightarrow>
   \<exists>node. gget (nodes r) i = Some node \<and> nTrashedRootID node = i \<and> \<not> lease_blocked (recycle_lease r i) now"
  unfolding claimable_recycle_def recycle_lease_def by (fastforce dest: subsetD [OF set_limited])

interpretation ul: lease_table "claim_uploads staleBefore limit" upload_lease for staleBefore limit
  by unfold_locales
    (auto simp: claim_uploads_def upload_lease_def gget_or_def Repo_ClaimUploadsForMaintenance_def Let_def
      gget_take_leases distinct_claimable dest: claimable_uploadsD [unfolded upload_lease_def gget_or_def])

interpretation rl: lease_table "claim_recycle cutoff limit" recycle_lease for cutoff limit
  by unfold_locales
    (auto simp: claim_recycle_def recycle_lease_def gget_or_def Repo_ClaimRecycleForMaintenance_def Let_def
      gget_take_leases distinct_claimable dest: claimable_recycleD [unfolded recycle_lease_def gget_or_def])

section \<open>Invariants\<close>

lemma ClaimRecycle_nodes:
  "gget (nodes (snd (Repo_ClaimRecycleForMaintenance owner cutoff now until limit r))) =
     (\<lambda>k. map_option (purge_node now (set (claimable_recycle cutoff now limit r)) k) (gget (nodes r) k))"
proof -
  have "set (claimable_recycle cutoff now limit r) \<subseteq> dom (gget (nodes r))" by (auto dest: claimable_recycleD)
  from gget_update_subtree(3) [OF distinct_claimable(2) refl this] show ?thesis
    by (simp add: Repo_ClaimRecycleForMaintenance_def Let_def)
qed

lemma ClaimRecycle_frame [simp]:
  "tenants (snd (Repo_ClaimRecycleForMaintenance owner cutoff now until limit r)) = tenants r"
  "versions (snd (Repo_ClaimRecycleForMaintenance owner cutoff now until limit r)) = versions r"
  "blobs (snd (Repo_ClaimRecycleForMaintenance owner cutoff now until limit r)) = blobs r"
  "uploads (snd (Repo_ClaimRecycleForMaintenance owner cutoff now until limit r)) = uploads r"
  by (simp_all add: Repo_ClaimRecycleForMaintenance_def Let_def)

lemma ClaimRecycle_inv:
  assumes "ns_inv r"
  shows "ns_inv (snd (Repo_ClaimRecycleForMaintenance owner cutoff now until limit r))"
  using assms unfolding ns_inv_def ClaimRecycle_nodes ClaimRecycle_frame
  by (rule ns_wf_claim) (auto dest: claimable_recycleD)

lemma ClaimRecycle_file_inv:
  assumes "file_inv r"
  shows "file_inv (snd (Repo_ClaimRecycleForMaintenance owner cutoff now until limit r))"
  by (rule file_inv_relabel [OF assms])
    (auto simp: ClaimRecycle_nodes purge_node_def split: if_splits)

section \<open>Properties\<close>

text \<open>
  Property C23. Two maintenance workers never hold the same upload: while the lease of a claim
  runs, no later claim by any worker hands out one of its uploads again.
\<close>

theorem upload_claims_exclusive:
  assumes keys: "upload_keys r"
    and c1: "Repo_ClaimUploadsForMaintenance owner now stale until limit r = (claims, r1)"
    and c2: "Repo_ClaimUploadsForMaintenance owner' now' stale' until' limit' r1 = (claims', r2)"
    and live: "now' < until" "until \<noteq> 0"
  shows "(\<lambda>c. uID (mcUpload c)) ` set claims \<inter> (\<lambda>c. uID (mcUpload c)) ` set claims' = {}"
proof -
  have id: "uID (mcUpload (upload_claim o' r' i)) = i"
    if "uploads r' = uploads r" "i \<in> set (claimable_uploads n s l r')" for o' r' i n s l
    using claimable_uploadsD [OF that(2)] keys that(1)
    by (auto simp: upload_claim_def gget_or_def upload_keys_def Let_def)
  have up: "uploads r1 = uploads r" using c1 by (auto simp: Repo_ClaimUploadsForMaintenance_def Let_def)
  have "(\<lambda>c. uID (mcUpload c)) ` set claims = set (claimable_uploads now stale limit r)"
    using c1 id [OF refl] by (auto simp: Repo_ClaimUploadsForMaintenance_def Let_def image_image)
  moreover have "(\<lambda>c. uID (mcUpload c)) ` set claims' = set (claimable_uploads now' stale' limit' r1)"
    using c2 id [OF up] by (auto simp: Repo_ClaimUploadsForMaintenance_def Let_def image_image)
  moreover have "snd (claim_uploads stale limit owner now until r) = r1"
    using c1 by (simp add: claim_uploads_def)
  moreover have "lease_blocked (upload_lease r1 i) now'" if "i \<in> set (claimable_uploads now stale limit r)" for i
    using ul.claim_takes [of i stale limit owner now until r] that live calculation(3)
    by (auto simp: claim_uploads_def lease_blocked_def)
  ultimately show ?thesis by (auto dest: claimable_uploadsD)
qed

definition sample_stale :: Repository where
  "sample_stale = (put_upload ''up1'' sample_session sample_files)"

theorem upload_claims_exclusive_witness:
  "map (uID \<circ> mcUpload) (fst (Repo_ClaimUploadsForMaintenance ''w1'' 50 40 60 10 sample_stale)) = [''up1'']
   \<and> (\<lambda>c. uID (mcUpload c)) ` set (fst (Repo_ClaimUploadsForMaintenance ''w1'' 50 40 60 10 sample_stale))
     \<inter> (\<lambda>c. uID (mcUpload c)) ` set (fst (Repo_ClaimUploadsForMaintenance ''w2'' 55 40 65 10
           (snd (Repo_ClaimUploadsForMaintenance ''w1'' 50 40 60 10 sample_stale)))) = {}"
proof
  show "map (uID \<circ> mcUpload) (fst (Repo_ClaimUploadsForMaintenance ''w1'' 50 40 60 10 sample_stale)) = [''up1'']"
    by code_simp
  have keys: "upload_keys sample_stale" using sample_upload_keys by (simp add: sample_stale_def sample_upload_def)
  show "(\<lambda>c. uID (mcUpload c)) ` set (fst (Repo_ClaimUploadsForMaintenance ''w1'' 50 40 60 10 sample_stale))
     \<inter> (\<lambda>c. uID (mcUpload c)) ` set (fst (Repo_ClaimUploadsForMaintenance ''w2'' 55 40 65 10
           (snd (Repo_ClaimUploadsForMaintenance ''w1'' 50 40 60 10 sample_stale)))) = {}"
    by (rule upload_claims_exclusive [OF keys prod.collapse [symmetric] prod.collapse [symmetric]]) simp_all
qed

text \<open>
  Only the owner of the lease finishes a maintenance claim; the owner's finish
  clears the lease and touches nothing but the session's status, revision and update time.
\<close>

theorem FinishUploadMaintenance_owner:
  "(case Repo_FinishUploadMaintenance owner i status cleanup retryAt code now r of
      (Inl e, r') \<Rightarrow> r' = r \<and> CodeOf e = CodeInvalidState
    | (Inr _, r') \<Rightarrow>
        (\<exists>lease s. gget (uploadMaintenance r) i = Some lease \<and> lsOwner lease = owner
           \<and> gget (uploads r) i = Some s
           \<and> lsOwner (upload_lease r' i) = [] \<and> lsUntil (upload_lease r' i) = 0
           \<and> lsCleanupPending (upload_lease r' i) = (\<not> cleanup)
           \<and> r' = r\<lparr>uploads := gput i (move_upload status now s) (uploads r),
                    uploadMaintenance := gput i (upload_lease r' i) (uploadMaintenance r)\<rparr>))"
  by (auto simp: Repo_FinishUploadMaintenance_def put_upload_def upload_lease_def gget_or_def Let_def E_def
      split: option.splits)

text \<open>
  A lease does not stop the client. A session is claimed by a worker while its object is complete, the client commits it, and the
  worker then finishes its claim with the status it read (as it does when storage cannot be reached). The session leaves the committed
  state, and the client's retry, which should return the published file, meets that file as a name conflict, marks the session failed
  and requests the cleanup of its object.
\<close>

definition upload_status :: "Repository \<Rightarrow> string \<Rightarrow> UploadStatus option" where
  "upload_status r i = map_option uStatus (gget (uploads r) i)"

lemma claim_held:
  assumes keys: "upload_keys r0" and claim: "Repo_ClaimUploadsForMaintenance owner now stale until limit r0 = (claims, r)" "cl \<in> set claims"
  obtains lease where "gget (uploadMaintenance r) (uID (mcUpload cl)) = Some lease" "lsOwner lease = owner"
    "gget (uploads r) (uID (mcUpload cl)) = Some (mcUpload cl)" "upload_keys r"
proof -
  from claim obtain i where i: "i \<in> set (claimable_uploads now stale limit r0)" "cl = upload_claim owner r0 i" and r: "uploads r = uploads r0"
      "uploadMaintenance r = foldl (take_lease owner until) (uploadMaintenance r0) (claimable_uploads now stale limit r0)"
    by (auto simp: Repo_ClaimUploadsForMaintenance_def Let_def)
  from claimable_uploadsD [OF i(1)] obtain s where s: "gget (uploads r0) i = Some s" by blast
  then have "mcUpload cl = s" "uID s = i" using keys i(2) by (simp_all add: upload_claim_def gget_or_def upload_keys_def Let_def)
  with i(1) s r keys that show thesis by (auto simp: gget_take_leases distinct_claimable upload_keys_def)
qed

lemma CommitUpload_created:
  assumes keys: "upload_keys r" and ready: "commit_ready r c" and commit: "Repo_CommitUpload env c r = (Inr (result, True), r1)"
  obtains s p where "gget (uploads r) (cmSessionID c) = Some s" "uStatus s = UploadObjectCompleted"
    "gget (uploads r1) (cmSessionID c) = Some ((move_upload UploadCommitted (cmNow c) s)\<lparr>uCommittedNodeID := nID (cmNode c)\<rparr>)"
    "uTenantID s = iTenantID (cmIdentity c)" "uCompletionDigest s = cmDigest c" "uID s = cmSessionID c"
    "activeNode r1 (iTenantID (cmIdentity c)) (uParentID s) = Some p" "nKind p = NodeDirectory"
    "activeNode r1 (iTenantID (cmIdentity c)) (nID (cmNode c)) = Some (cmNode c)"
    "nParentID (cmNode c) = uParentID s" "nNormalizedName (cmNode c) = uNormalizedName s" "nID (cmNode c) \<noteq> []"
    "uploadMaintenance r1 = uploadMaintenance r"
proof -
  from CommitUpload_effect [OF commit] obtain s p where s: "gget (uploads r) (cmSessionID c) = Some s" "uTenantID s = iTenantID (cmIdentity c)"
      "uStatus s = UploadObjectCompleted" "uCompletionDigest s = cmDigest c" "activeNode r (iTenantID (cmIdentity c)) (uParentID s) = Some p"
      "nKind p = NodeDirectory"
    and eff: "gget (nodes r1) = (gget (nodes r))(nID (cmNode c) \<mapsto> cmNode c)"
      "gget (uploads r1) = (gget (uploads r))(uID s \<mapsto> (move_upload UploadCommitted (cmNow c) s)\<lparr>uCommittedNodeID := nID (cmNode c)\<rparr>)"
    by auto
  have i: "uID s = cmSessionID c" using keys s(1) by (simp add: upload_keys_def)
  note node = ready [unfolded commit_ready_def Let_def s(1) option.case]
  have "uploadMaintenance r1 = uploadMaintenance r"
    using commit by (auto simp: Repo_CommitUpload_def Let_def CommitUpload_publish_def put_upload_def split: sum.splits option.splits if_splits
        dest!: with_audit_pair appendAuditLocked_pair)
  with s eff i node show thesis by (intro that [of s p]) (auto simp: activeNode_Some)
qed


definition race_claimed :: Repository where
  "race_claimed = snd (Repo_ClaimUploadsForMaintenance ''w1'' 50 40 60 10 sample_stale)"

definition race_committed :: Repository where
  "race_committed = snd (Repo_CommitUpload sample_env sample_commit race_claimed)"

definition race_finished :: Repository where
  "race_finished = snd (Repo_FinishUploadMaintenance ''w1'' ''up1'' UploadObjectCompleted False 70
     ''dependency_unavailable'' 55 race_committed)"

definition race_retry :: CommitUploadCommand where
  "race_retry = sample_commit\<lparr>cmNode := sample_file ''f4'' ''da'' ''z'' ''v4'',
     cmVersion := sample_version ''v4'' ''f4'' ''b4'', cmBlob := sample_blob ''b4''\<rparr>"


end
