(* ===== verification/Maintenance_Loop.thy ===== *)
theory Maintenance_Loop
  imports Drive_Service Memory_Maintenance
begin

text \<open>
  \<^verbatim>\<open>internal/maintenance/loop.go\<close>: the background loop that expires and finishes uploads, purges
  the recycle bin and deletes old idempotency records. One \<^verbatim>\<open>RunOnce\<close> is modelled with everything
  it does to repository and storage; the ticker of \<^verbatim>\<open>Start\<close> and the metrics are not. The next
  clock reading is \<^verbatim>\<open>l.now()\<close>.
\<close>

record Options =
  opRepository :: bool
  opInterval :: duration
  opLeaseDuration :: duration
  opStaleAfter :: duration
  opRecycleRetention :: duration
  opBatchSize :: int

record 's Loop =
  lpStorage :: "'s StorageProvider"
  lpInterval :: duration
  lpLeaseDuration :: duration
  lpStaleAfter :: duration
  lpRecycleRetention :: duration
  lpBatchSize :: int
  lpOwner :: string

definition Loop_New :: "Options \<Rightarrow> 's StorageProvider option \<Rightarrow> ('s, 's Loop) svc" where
  "Loop_New options storage =
     (case (opRepository options, storage) of
        (True, Some sp) \<Rightarrow>
          let batch = default_to 50 (opBatchSize options)
          in if batch > 1000 then fail (E CodeInvalidRequest ''maintenance batch size exceeds 1000'')
             else sbind (new_id ''could not generate maintenance owner'') (\<lambda>owner.
               ret \<lparr>lpStorage = sp, lpInterval = default_to (60 * time_Second) (opInterval options),
                    lpLeaseDuration = default_to (120 * time_Second) (opLeaseDuration options),
                    lpStaleAfter = default_to (900 * time_Second) (opStaleAfter options),
                    lpRecycleRetention = default_to (30 * 24 * 3600 * time_Second) (opRecycleRetention options),
                    lpBatchSize = batch, lpOwner = owner\<rparr>)
      | _ \<Rightarrow> fail (E CodeInvalidRequest ''maintenance repository and storage are required''))"

definition max_int64 :: "int \<Rightarrow> int \<Rightarrow> int" where
  "max_int64 a b = (if a > b then a else b)"

text \<open>A shift by a negative amount panics.\<close>

definition backoff :: "int \<Rightarrow> ('s, duration) svc" where
  "backoff attempt0 =
     (let attempt = (if attempt0 > 8 then 8 else attempt0)
      in if attempt < 0 then fail (Panic ''negative shift amount'')
         else let delay = time_Second * 2 ^ nat attempt
              in sbind (rand_Int64N (max_int64 (delay div 4) 1)) (\<lambda>jitter. ret (delay + jitter)))"

definition maintenanceErrorCode :: "error \<Rightarrow> string" where
  "maintenanceErrorCode err =
     (if CodeOf err = CodeDependencyUnavailable then ''dependency_unavailable''
      else if CodeOf err = CodeNotFound then ''not_found''
      else if CodeOf err \<in> {CodeInvalidRequest, CodeInvalidState, CodeNameConflict} then ''rejected''
      else ''internal'')"

section \<open>Uploads\<close>

text \<open>\<open>workErr\<close> is the error of the work done, which the caller gets back when the finish itself succeeds.\<close>

definition finishUpload ::
  "UploadMaintenanceClaim \<Rightarrow> UploadStatus \<Rightarrow> bool \<Rightarrow> error option \<Rightarrow> time \<Rightarrow> ('s, unit) svc" where
  "finishUpload claim status complete workErr now =
     sbind (case workErr of
              None \<Rightarrow> ret (0, [])
            | Some e \<Rightarrow> sbind (backoff (mcAttempts claim)) (\<lambda>d. ret (now + d, maintenanceErrorCode e))) (\<lambda>(retryAt, code).
     sbind (repo_op (Repo_FinishUploadMaintenance (mcOwner claim) (uID (mcUpload claim)) status complete retryAt code now)) (\<lambda>_.
     (case workErr of None \<Rightarrow> ret () | Some e \<Rightarrow> fail e)))"

definition error_of :: "'a result \<Rightarrow> error option" where
  "error_of r = (case r of Inl e \<Rightarrow> Some e | Inr _ \<Rightarrow> None)"

text \<open>A missing object or multipart upload counts as cleaned up.\<close>

definition cleanupUpload :: "'s Loop \<Rightarrow> UploadSession \<Rightarrow> ('s, error option) svc" where
  "cleanupUpload l upload =
     sbind (attempt (if uStatus upload = UploadFailed \<and> failedUploadHasObject (uFailureCode upload)
              then storage_op (\<lambda>env. spDeleteObject (lpStorage l) env (uObjectKey upload))
              else storage_op (\<lambda>env. spAbortMultipart (lpStorage l) env (uObjectKey upload) (uStorageUploadID upload)))) (\<lambda>r.
     ret (case r of Inl e \<Rightarrow> if CodeOf e = CodeNotFound then None else Some e | Inr _ \<Rightarrow> None))"

definition cleanup_and_finish :: "'s Loop \<Rightarrow> UploadMaintenanceClaim \<Rightarrow> UploadStatus \<Rightarrow> time \<Rightarrow> ('s, unit) svc" where
  "cleanup_and_finish l claim status now =
     sbind (cleanupUpload l (mcUpload claim)) (\<lambda>err. finishUpload claim status (err = None) err now)"

text \<open>\<^verbatim>\<open>NewID\<close> with its plain error, as the loop uses it.\<close>

definition plain_id :: "('s, string) svc" where
  "plain_id = sbind draw (\<lambda>r. of_result (NewID r))"

definition recovery_command :: "UploadSession \<Rightarrow> ObjectInfo \<Rightarrow> string \<Rightarrow> string \<Rightarrow> string \<Rightarrow> time \<Rightarrow> CommitUploadCommand" where
  "recovery_command upload object blobID nodeID versionID now =
     commit_command \<lparr>iTenantID = uTenantID upload, iPrincipalID = uPrincipalID upload\<rparr> upload (uID upload)
       (uCompletionDigest upload) [] object blobID nodeID versionID now"

text \<open>From a complete object on: generate the ids, commit, and settle the claim.\<close>

definition recover_commit :: "'s Loop \<Rightarrow> go_context \<Rightarrow> UploadMaintenanceClaim \<Rightarrow> UploadStatus \<Rightarrow> ObjectInfo \<Rightarrow> time \<Rightarrow> ('s, unit) svc" where
  "recover_commit l ctx claim status object now =
     sbind (attempt (sbind plain_id (\<lambda>blobID. sbind plain_id (\<lambda>nodeID. sbind plain_id (\<lambda>versionID.
              ret (blobID, nodeID, versionID)))))) (\<lambda>ids.
     (case ids of
        Inl err \<Rightarrow> finishUpload claim status True (Some err) now
      | Inr (blobID, nodeID, versionID) \<Rightarrow>
          sbind (attempt (with_env ctx (\<lambda>env. repo_op (Repo_CommitUpload env
            (recovery_command (mcUpload claim) object blobID nodeID versionID now))))) (\<lambda>r.
          (case r of
             Inr (result, _) \<Rightarrow> finishUpload claim (uStatus (crUpload result)) True None now
           | Inl err \<Rightarrow>
               if CodeOf err = CodeNameConflict \<or> CodeOf err = CodeNotFound
               then sbind (attempt (storage_op (\<lambda>env. spDeleteObject (lpStorage l) env (uObjectKey (mcUpload claim))))) (\<lambda>d.
                    finishUpload claim UploadFailed (error_of d = None) (error_of d) now)
               else finishUpload claim status True (Some err) now))))"

definition Loop_processUpload :: "'s Loop \<Rightarrow> go_context \<Rightarrow> UploadMaintenanceClaim \<Rightarrow> ('s, unit) svc" where
  "Loop_processUpload l ctx claim =
     (let upload = mcUpload claim
      in sbind clock_Now (\<lambda>now.
         if mcCleanupPending claim \<or> Terminal (uStatus upload) then cleanup_and_finish l claim (uStatus upload) now
         else if uStatus upload = UploadCreated \<or> uStatus upload = UploadUploading
         then cleanup_and_finish l claim UploadExpired now
         else
           sbind (attempt (storage_op (\<lambda>env. spStatObject (lpStorage l) env (uObjectKey upload)))) (\<lambda>stat.
           (case stat of
              Inl err \<Rightarrow>
                if CodeOf err = CodeNotFound then cleanup_and_finish l claim UploadFailed now
                else finishUpload claim (uStatus upload) True (Some err) now
            | Inr object \<Rightarrow>
                if oSize object \<noteq> uExpectedSize upload
                then sbind (attempt (storage_op (\<lambda>env. spDeleteObject (lpStorage l) env (uObjectKey upload)))) (\<lambda>d.
                     finishUpload claim UploadFailed (error_of d = None) (error_of d) now)
                else if uStatus upload = UploadCompleting
                then sbind (attempt (repo_op (Repo_MarkObjectCompleted
                         \<lparr>iTenantID = uTenantID upload, iPrincipalID = uPrincipalID upload\<rparr> (uID upload) object now))) (\<lambda>m.
                     (case m of
                        Inl err \<Rightarrow> finishUpload claim (uStatus upload) True (Some err) now
                      | Inr _ \<Rightarrow> recover_commit l ctx claim UploadObjectCompleted object now))
                else recover_commit l ctx claim (uStatus upload) object now))))"

fun for_each :: "('a \<Rightarrow> ('s, unit) svc) \<Rightarrow> 'a list \<Rightarrow> ('s, unit) svc" where
  "for_each f [] = ret ()"
| "for_each f (x # xs) = sbind (quietly (f x)) (\<lambda>_. for_each f xs)"

definition Loop_runUploads :: "'s Loop \<Rightarrow> go_context \<Rightarrow> ('s, unit) svc" where
  "Loop_runUploads l ctx =
     sbind clock_Now (\<lambda>now w.
       (case Repo_ClaimUploadsForMaintenance (lpOwner l) now (now - lpStaleAfter l) (now + lpLeaseDuration l) (lpBatchSize l) (wRepo w) of
          (claims, r') \<Rightarrow> for_each (Loop_processUpload l ctx) claims (w\<lparr>wRepo := r'\<rparr>)))"

section \<open>Recycle bin and idempotency records\<close>

text \<open>
  The deletions of a purge plan. The variable \<^verbatim>\<open>err\<close> keeps the answer of the last deletion made:
  a missing object does not stop the loop, but it stays in \<^verbatim>\<open>err\<close> when it is the last answer.
\<close>

fun purge_objects :: "'s Loop \<Rightarrow> Blob list \<Rightarrow> error option \<Rightarrow> ('s, error option) svc" where
  "purge_objects l [] err = ret err"
| "purge_objects l (blob # rest) err =
     sbind (attempt (storage_op (\<lambda>env. spDeleteObject (lpStorage l) env (bObjectKey blob)))) (\<lambda>r.
     (case r of
        Inl e \<Rightarrow> if CodeOf e \<noteq> CodeNotFound then ret (Some e) else purge_objects l rest (Some e)
      | Inr _ \<Rightarrow> purge_objects l rest None))"

definition purge_claim :: "'s Loop \<Rightarrow> go_context \<Rightarrow> RecycleMaintenanceClaim \<Rightarrow> time \<Rightarrow> ('s, error option) svc" where
  "purge_claim l ctx claim now =
     sbind (attempt (repo_op (Repo_PreparePurge (rcIdentity claim) (rcRootID claim) (rcRevision claim) now))) (\<lambda>r.
     (case r of
        Inl err \<Rightarrow> ret (Some err)
      | Inr plan \<Rightarrow>
          sbind (purge_objects l (ppBlobs plan) None) (\<lambda>err.
          (case err of
             Some e \<Rightarrow> ret (Some e)
           | None \<Rightarrow> sbind (attempt (with_env ctx (\<lambda>env. repo_op (Repo_FinishPurge env (rcIdentity claim) plan now)))) (\<lambda>f.
                    ret (error_of f))))))"

definition Loop_processRecycle :: "'s Loop \<Rightarrow> go_context \<Rightarrow> RecycleMaintenanceClaim \<Rightarrow> ('s, unit) svc" where
  "Loop_processRecycle l ctx claim =
     sbind clock_Now (\<lambda>now.
     sbind (purge_claim l ctx claim now) (\<lambda>err.
     (case err of
        None \<Rightarrow> ret ()
      | Some e \<Rightarrow>
          sbind (backoff 0) (\<lambda>d.
          sbind (repo_op (Repo_ReleaseRecycleMaintenance (rcOwner claim) (rcRootID claim) (now + d) (maintenanceErrorCode e))) (\<lambda>_.
          fail e)))))"

definition Loop_runRecycle :: "'s Loop \<Rightarrow> go_context \<Rightarrow> ('s, unit) svc" where
  "Loop_runRecycle l ctx =
     sbind clock_Now (\<lambda>now w.
       (case Repo_ClaimRecycleForMaintenance (lpOwner l) (now - lpRecycleRetention l) now (now + lpLeaseDuration l) (lpBatchSize l) (wRepo w) of
          (claims, r') \<Rightarrow> for_each (Loop_processRecycle l ctx) claims (w\<lparr>wRepo := r'\<rparr>)))"

definition Loop_runIdempotency :: "'s Loop \<Rightarrow> ('s, unit) svc" where
  "Loop_runIdempotency l =
     sbind clock_Now (\<lambda>now w.
       (case Repo_DeleteExpiredIdempotency now (lpBatchSize l) (wRepo w) of (_, r') \<Rightarrow> Some (Inr (), w\<lparr>wRepo := r'\<rparr>)))"

definition Loop_RunOnce :: "'s Loop \<Rightarrow> go_context \<Rightarrow> ('s, unit) svc" where
  "Loop_RunOnce l ctx =
     sbind (Loop_runUploads l ctx) (\<lambda>_. sbind (Loop_runRecycle l ctx) (\<lambda>_. Loop_runIdempotency l))"

section \<open>Properties\<close>

text \<open>
  Retries back off exponentially and boundedly: the delay after \<open>n\<close> attempts is at least
  \<open>2 ^ min n 8\<close> seconds and less than a quarter more.
\<close>

theorem backoff_bounds:
  assumes "0 \<le> attempts"
  shows "\<exists>d w'. backoff attempts w = Some (Inr d, w') \<and> wRepo w' = wRepo w \<and> wStorage w' = wStorage w
    \<and> time_Second * 2 ^ nat (min attempts 8) \<le> d \<and> 4 * d < 5 * (time_Second * 2 ^ nat (min attempts 8))"
proof -
  let ?delay = "time_Second * 2 ^ nat (min attempts 8)"
  have big: "1 \<le> (2::int) ^ nat (min attempts 8)" by (rule one_le_power) simp
  then have "4 \<le> ?delay" unfolding time_Second_def by linarith
  then have pos: "0 < ?delay div 4" "4 * (?delay div 4) \<le> ?delay" by auto
  have nonneg: "\<not> min attempts 8 < 0" using assms by simp
  have a: "(if attempts > 8 then 8 else attempts) = min attempts 8" by simp
  have m: "max_int64 (?delay div 4) 1 = ?delay div 4" using pos by (simp add: max_int64_def)
  have j: "0 \<le> wJitter w 0 mod (?delay div 4)" "wJitter w 0 mod (?delay div 4) < ?delay div 4" using pos by simp_all
  have "backoff attempts w = Some (Inr (?delay + wJitter w 0 mod (?delay div 4)), w\<lparr>wJitter := \<lambda>k. wJitter w (Suc k)\<rparr>)"
    unfolding backoff_def Let_def a using nonneg by (simp add: sbind_def rand_Int64N_def ret_def m)
  moreover have "4 * (wJitter w 0 mod (?delay div 4)) < ?delay" using j pos by linarith
  ultimately show ?thesis using j(1) by auto
qed

theorem backoff_bounds_witness:
  "\<exists>d w'. backoff 3 (sample_world NewRepository (NewStorage ''b'')) = Some (Inr d, w') \<and> 8 * time_Second \<le> d \<and> d < 10 * time_Second"
  using backoff_bounds [of 3 "sample_world NewRepository (NewStorage ''b'')"] by (auto simp: min_def)

text \<open>The answer of the last deletion decides, even when it says that the object is already gone.\<close>

lemma purge_objects_last:
  assumes "\<And>b env st. b \<in> set bs \<Longrightarrow> (case fst (spDeleteObject (lpStorage l) env (bObjectKey b) st) of Inr _ \<Rightarrow> True | Inl e \<Rightarrow> CodeOf e = CodeNotFound)"
    and "\<And>env st. fst (spDeleteObject (lpStorage l) env (bObjectKey b) st) = Inl missing" and "CodeOf missing = CodeNotFound"
  shows "\<exists>w'. purge_objects l (bs @ [b]) err w = Some (Inr (Some missing), w') \<and> wRepo w' = wRepo w"
  using assms(1)
proof (induction bs arbitrary: err w)
  case Nil
  obtain st where "spDeleteObject (lpStorage l) \<lparr>seRand = wRand w 0, seNow = wClock w 0\<rparr> (bObjectKey b) (wStorage w) = (Inl missing, st)"
    using assms(2) by (metis prod.collapse)
  with assms(3) show ?case by (simp add: sbind_def attempt_def storage_op_def ret_def)
next
  case (Cons x bs)
  let ?env = "\<lparr>seRand = wRand w 0, seNow = wClock w 0\<rparr>"
  obtain res st where del: "spDeleteObject (lpStorage l) ?env (bObjectKey x) (wStorage w) = (res, st)" by fastforce
  with Cons.prems [of x ?env "wStorage w"] have code: "case res of Inr _ \<Rightarrow> True | Inl e \<Rightarrow> CodeOf e = CodeNotFound" by simp
  let ?w = "w\<lparr>wStorage := st, wRand := \<lambda>n. wRand w (Suc n), wClock := \<lambda>n. wClock w (Suc n)\<rparr>"
  have "purge_objects l ((x # bs) @ [b]) err w = purge_objects l (bs @ [b]) (error_of res) ?w"
    using code by (simp add: sbind_def attempt_def storage_op_def del error_of_def split: sum.splits)
  moreover have "\<exists>w'. purge_objects l (bs @ [b]) (error_of res) ?w = Some (Inr (Some missing), w') \<and> wRepo w' = wRepo ?w"
    by (rule Cons.IH) (use Cons.prems in simp)
  ultimately show ?case by simp
qed

text \<open>
  A recycle-bin purge never finishes when the last object of its plan is already gone
  and the provider says so: the not-found answer, which the loop means to tolerate, is kept as the
  purge's error, so the plan is not finished, no blob is recorded as deleted, and the claim is handed back with
  an error for another attempt that ends the same way.
\<close>

theorem purge_stuck_on_missing_object:
  assumes prepare: "Repo_PreparePurge (rcIdentity claim) (rcRootID claim) (rcRevision claim) (wClock w 0) (wRepo w) = (Inr plan, r1)"
    and plan: "ppBlobs plan = bs @ [b]"
    and deletions: "\<And>b env st. b \<in> set bs \<Longrightarrow> (case fst (spDeleteObject (lpStorage l) env (bObjectKey b) st) of Inr _ \<Rightarrow> True | Inl e \<Rightarrow> CodeOf e = CodeNotFound)"
    and gone: "\<And>env st. fst (spDeleteObject (lpStorage l) env (bObjectKey b) st) = Inl missing" "CodeOf missing = CodeNotFound"
  shows "\<exists>e w'. Loop_processRecycle l ctx claim w = Some (Inl e, w') \<and> nodes (wRepo w') = nodes r1 \<and> blobs (wRepo w') = blobs r1"
proof -
  let ?w1 = "w\<lparr>wClock := \<lambda>n. wClock w (Suc n), wRepo := r1\<rparr>"
  obtain w2 where w2: "purge_objects l (ppBlobs plan) None ?w1 = Some (Inr (Some missing), w2)" "wRepo w2 = r1"
    using purge_objects_last [OF deletions gone, of bs None ?w1] plan by auto
  then have claim: "purge_claim l ctx claim (wClock w 0) (w\<lparr>wClock := \<lambda>n. wClock w (Suc n)\<rparr>) = Some (Inr (Some missing), w2)"
    using prepare by (simp add: purge_claim_def sbind_def attempt_def repo_op_def ret_def)
  obtain d w3 where d: "backoff 0 w2 = Some (Inr d, w3)" "wRepo w3 = wRepo w2"
    by (auto simp: backoff_def sbind_def rand_Int64N_def ret_def Let_def)
  from w2 d show ?thesis
    by (auto simp: Loop_processRecycle_def sbind_def clock_Now_def claim repo_op_def fail_def Repo_ReleaseRecycleMaintenance_def
        split: prod.splits option.splits sum.splits if_splits)
qed

text \<open>A provider that reports every deletion of a missing object, and a trashed directory with one file.\<close>

definition sample_strict :: "Storage Loop" where
  "sample_strict = \<lparr>lpStorage = (memory_provider sample_lib0)\<lparr>spDeleteObject := \<lambda>env key st. (Inl (E CodeNotFound ''object was not found''), st)\<rparr>,
     lpInterval = 60, lpLeaseDuration = 120, lpStaleAfter = 900, lpRecycleRetention = 5, lpBatchSize = 50, lpOwner = ''w1''\<rparr>"

definition sample_claim :: RecycleMaintenanceClaim where
  "sample_claim = \<lparr>rcIdentity = sample_identity, rcRootID = ''da'', rcRevision = 2, rcOwner = ''w1''\<rparr>"

theorem purge_stuck_on_missing_object_witness:
  "\<exists>e w'. Loop_processRecycle sample_strict [] sample_claim (sample_world sample_trashed (NewStorage ''b'')) = Some (Inl e, w')
     \<and> map_option bStatus (gget (blobs (wRepo w')) ''b1'') = Some BlobPendingDelete"
proof -
  let ?w = "sample_world sample_trashed (NewStorage ''b'')"
  have "case Repo_PreparePurge sample_identity ''da'' 2 50 sample_trashed of
      (Inr plan, r1) \<Rightarrow> length (ppBlobs plan) = 1 \<and> map_option bStatus (gget (blobs r1) ''b1'') = Some BlobPendingDelete | _ \<Rightarrow> False"
    by code_simp
  then obtain plan r1 b where op: "Repo_PreparePurge sample_identity ''da'' 2 50 sample_trashed = (Inr plan, r1)"
    and plan: "ppBlobs plan = [] @ [b]" and blob: "map_option bStatus (gget (blobs r1) ''b1'') = Some BlobPendingDelete"
    by (auto split: prod.splits sum.splits simp: length_Suc_conv)
  have prepare: "Repo_PreparePurge (rcIdentity sample_claim) (rcRootID sample_claim) (rcRevision sample_claim) (wClock ?w 0) (wRepo ?w) = (Inr plan, r1)"
    using op by (simp add: sample_claim_def sample_world_def)
  have gone: "fst (spDeleteObject (lpStorage sample_strict) env key st) = Inl (E CodeNotFound ''object was not found'')" for env key st
    by (simp add: sample_strict_def)
  from purge_stuck_on_missing_object [OF prepare plan _ gone, where ctx = "[]"] blob show ?thesis by (auto simp: E_def)
qed

end
