(* ===== verification/Object_Safety.thy ===== *)
theory Object_Safety
  imports Drive_Service
begin

text \<open>
  What ties repository and object storage together: every available blob has its object, no two
  blobs share an object, and the object of a blob is not the object of an upload that is still
  open. \<open>content_inv\<close> adds this to the repository's own invariants, for a predicate \<open>has\<close> that says
  which object keys are present; this theory shows that every repository operation keeps it.
\<close>

section \<open>The invariant\<close>

definition key_inv :: "(string \<Rightarrow> bool) \<Rightarrow> Repository \<Rightarrow> bool" where
  "key_inv has r \<longleftrightarrow>
     (\<forall>k b. gget (blobs r) k = Some b \<longrightarrow> bStatus b = BlobAvailable \<longrightarrow> has (bObjectKey b)) \<and>
     (\<forall>k b k' b'. gget (blobs r) k = Some b \<longrightarrow> gget (blobs r) k' = Some b' \<longrightarrow> bObjectKey b = bObjectKey b' \<longrightarrow> k = k') \<and>
     (\<forall>k b i s. gget (blobs r) k = Some b \<longrightarrow> gget (uploads r) i = Some s \<longrightarrow> uStatus s \<noteq> UploadCommitted \<longrightarrow>
        bObjectKey b \<noteq> uObjectKey s) \<and>
     (\<forall>i s i' s'. gget (uploads r) i = Some s \<longrightarrow> gget (uploads r) i' = Some s' \<longrightarrow> uObjectKey s = uObjectKey s' \<longrightarrow> i = i')"

definition content_inv :: "(string \<Rightarrow> bool) \<Rightarrow> Repository \<Rightarrow> bool" where
  "content_inv has r \<longleftrightarrow> ns_inv r \<and> file_inv r \<and> upload_keys r \<and> key_inv has r"

text \<open>An id no record of the repository uses, as a key or inside an object key.\<close>

definition unused :: "Repository \<Rightarrow> string \<Rightarrow> bool" where
  "unused r i \<longleftrightarrow> gget (nodes r) i = None \<and> gget (versions r) i = None \<and> gget (blobs r) i = None \<and> gget (uploads r) i = None
     \<and> (\<forall>k b t. gget (blobs r) k = Some b \<longrightarrow> bObjectKey b \<noteq> object_key t i)
     \<and> (\<forall>k s t. gget (uploads r) k = Some s \<longrightarrow> uObjectKey s \<noteq> object_key t i)"

definition no_available :: "Repository \<Rightarrow> string \<Rightarrow> bool" where
  "no_available r key \<longleftrightarrow> (\<forall>k b. gget (blobs r) k = Some b \<longrightarrow> bStatus b = BlobAvailable \<longrightarrow> bObjectKey b \<noteq> key)"

lemma object_key_inj:
  assumes "object_key t i = object_key t' i'" and "length i = length i'"
  shows "i = i'"
proof -
  have "rev i @ rev (''blobs/'' @ t @ ''/'') = rev i' @ rev (''blobs/'' @ t' @ ''/'')"
    using arg_cong [OF assms(1), of rev] by (simp add: object_key_def)
  then have "take (length i) (rev i @ rev (''blobs/'' @ t @ ''/'')) = take (length i) (rev i' @ rev (''blobs/'' @ t' @ ''/''))"
    by (rule arg_cong)
  with assms(2) have "rev i = rev i'" by simp
  then show ?thesis by simp
qed

lemma content_inv_NewRepository: "content_inv has NewRepository"
proof -
  have "blobs NewRepository = gempty" "uploads NewRepository = gempty" by (simp_all add: NewRepository_def)
  then show ?thesis
    by (simp add: content_inv_def key_inv_def upload_keys_def ns_inv_NewRepository file_inv_NewRepository)
qed

lemma unused_NewRepository: "unused NewRepository i"
  by (simp add: unused_def NewRepository_def)

section \<open>Operations that leave blobs and uploads alone\<close>

text \<open>The parts of the repository the invariant reads, besides the namespace.\<close>

definition same_content :: "Repository \<Rightarrow> Repository \<Rightarrow> bool" where
  "same_content r r' \<longleftrightarrow> blobs r' = blobs r \<and> versions r' = versions r \<and> uploads r' = uploads r"

definition same_state :: "Repository \<Rightarrow> Repository \<Rightarrow> bool" where
  "same_state r r' \<longleftrightarrow> same_content r r' \<and> nodes r' = nodes r \<and> tenants r' = tenants r"

lemma key_inv_same: "same_content r r' \<Longrightarrow> key_inv has r' = key_inv has r"
  by (simp add: same_content_def key_inv_def)

lemma content_inv_same: "same_state r r' \<Longrightarrow> content_inv has r' = content_inv has r"
  by (simp add: same_state_def same_content_def content_inv_def key_inv_def ns_inv_def file_inv_def current_content_def upload_keys_def)

lemma unused_same: "same_state r r' \<Longrightarrow> unused r' i = unused r i"
  by (simp add: same_state_def same_content_def unused_def)

lemma no_available_same: "blobs r' = blobs r \<Longrightarrow> no_available r' key = no_available r key"
  by (simp add: no_available_def)

lemma content_inv_nodes:
  assumes "content_inv has r" and "same_content r r'" and "ns_inv r'" and "file_inv r'"
  shows "content_inv has r'"
  using assms key_inv_same [OF assms(2)] by (simp add: content_inv_def same_content_def upload_keys_def)

lemma unused_nodes:
  assumes "same_content r r'" and "\<And>i. gget (nodes r) i = None \<Longrightarrow> i \<notin> T \<Longrightarrow> gget (nodes r') i = None"
    and "unused r i" and "i \<notin> T"
  shows "unused r' i"
  using assms by (simp add: unused_def same_content_def)

lemma idempotency_same_state:
  "same_state r (snd (Repo_ClaimIdempotency q r))" "same_state r (snd (Repo_ReleaseIdempotency q r))"
  using claim_frame(1) [of q r] claim_frame(2) [of q r] by (auto simp: same_state_def same_content_def)

lemma RecordPartSignature_same: "same_state r (snd (Repo_RecordPartSignature identity i sig r))"
  by (auto simp: same_state_def same_content_def Repo_RecordPartSignature_def split: sum.splits)

lemma MarkUploadCleanupComplete_same: "same_state r (snd (Repo_MarkUploadCleanupComplete identity i r))"
  by (auto simp: same_state_def same_content_def Repo_MarkUploadCleanupComplete_def Let_def split: sum.splits)

section \<open>The namespace\<close>

lemma EnsureTenant_content:
  assumes inv: "content_inv has r" and new: "unused r (tsRootNodeID seed)" "tsRootNodeID seed \<noteq> []"
    and op: "Repo_EnsureTenant seed r = (res, r')"
  shows "content_inv has r' \<and> (\<forall>i. unused r i \<longrightarrow> i \<noteq> tsRootNodeID seed \<longrightarrow> unused r' i)"
proof (cases "gget (tenants r) (tsTenantID seed)")
  case (Some tenant)
  with op inv show ?thesis by (auto simp: Repo_EnsureTenant_def)
next
  case None
  with op have same: "same_content r r'"
    and nodes: "nodes r' = gput (tsRootNodeID seed) (zero_Node\<lparr>nID := tsRootNodeID seed, nTenantID := tsTenantID seed,
                 nKind := NodeDirectory, nStatus := NodeActive, nRevision := 1,
                 nCreatedAt := tsNow seed, nUpdatedAt := tsNow seed\<rparr>) (nodes r)"
    by (auto simp: Repo_EnsureTenant_def same_content_def Let_def)
  have ns: "ns_inv r'"
    using EnsureTenant_inv [of r seed] inv new op by (simp add: content_inv_def unused_def)
  have "file_inv r'"
    by (rule file_inv_relabel [of r])
      (use inv same nodes in \<open>auto simp: content_inv_def same_content_def split: if_splits\<close>)
  with ns inv same have "content_inv has r'" by (blast intro: content_inv_nodes)
  moreover have "unused r' i" if "unused r i" "i \<noteq> tsRootNodeID seed" for i
    by (rule unused_nodes [OF same, of "{tsRootNodeID seed}"]) (use that nodes in auto)
  ultimately show ?thesis by blast
qed

lemma CreateDirectory_frame:
  assumes "Repo_CreateDirectory env c r = (res, r')"
  shows "same_content r r'"
  using assms by (auto simp: Repo_CreateDirectory_def same_content_def Let_def split: option.splits if_splits prod.splits sum.splits
      dest!: appendAuditLocked_pair completeIdempotency_pair)

lemma CreateDirectory_content:
  assumes inv: "content_inv has r" and new: "unused r (cdID c)" "cdID c \<noteq> []"
    and op: "Repo_CreateDirectory env c r = (res, r')"
  shows "content_inv has r' \<and> (\<forall>i. unused r i \<longrightarrow> i \<noteq> cdID c \<longrightarrow> unused r' i)"
proof -
  note same = CreateDirectory_frame [OF op]
  have ns: "ns_inv r'"
    using CreateDirectory_inv [of r c env] inv new op by (simp add: content_inv_def unused_def)
  have nodes: "gget (nodes r') i = gget (nodes r) i \<or> i = cdID c \<and> gget (nodes r') i \<in> {None, Some (new_directory c)}" for i
    using CreateDirectory_effect [OF op] by (cases "i = cdID c") auto
  have "file_inv r'"
  proof (rule file_inv_relabel [of r])
    fix k n' assume k: "gget (nodes r') k = Some n'" "nKind n' = NodeFile"
    with nodes [of k] have "gget (nodes r) k = Some n'" by (auto simp: new_directory_def)
    with k show "\<exists>n. gget (nodes r) k = Some n \<and> nKind n = NodeFile \<and> nTenantID n = nTenantID n'
        \<and> nCurrentVersionID n = nCurrentVersionID n' \<and> (nStatus n = NodePurging \<longrightarrow> nStatus n' = NodePurging)" by auto
  qed (use inv same in \<open>auto simp: content_inv_def same_content_def\<close>)
  with ns inv same have "content_inv has r'" by (blast intro: content_inv_nodes)
  moreover have "unused r' i" if "unused r i" "i \<noteq> cdID c" for i
    by (rule unused_nodes [OF same, of "{cdID c}"]) (use that nodes in \<open>auto, metis\<close>)
  ultimately show ?thesis by blast
qed

lemma UpdateNode_frame:
  assumes "Repo_UpdateNode env c r = Some (res, r')"
  shows "same_content r r'"
  using assms by (auto simp: Repo_UpdateNode_def same_content_def Let_def split: option.splits if_splits prod.splits sum.splits
      dest!: with_audit_pair appendAuditLocked_pair)

lemma UpdateNode_content:
  assumes inv: "content_inv has r" and names: "update_names_ok c"
    and op: "Repo_UpdateNode env c r = Some (res, r')"
  shows "content_inv has r' \<and> (\<forall>i. unused r i \<longrightarrow> unused r' i)"
proof -
  note same = UpdateNode_frame [OF op]
  have ns: "ns_inv r'" using UpdateNode_inv [OF _ names op] inv by (simp add: content_inv_def)
  have change: "nodes r' = nodes r \<or> (\<exists>node node'. gget (nodes r) (nID node) = Some node
      \<and> UpdateNode_apply c node = Some node' \<and> nodes r' = gput (nID node') node' (nodes r))"
  proof -
    have "gget (nodes r) (nID node) = Some node" if "activeNode r t (unNodeID c) = Some node" for t node
      using that inv ns_wfD(1) [of "gget (tenants r)" "gget (nodes r)" "unNodeID c" node]
      by (simp add: activeNode_Some content_inv_def ns_inv_def)
    with UpdateNode_effect [OF op] show ?thesis by blast
  qed
  have kept: "\<exists>n. gget (nodes r) k = Some n \<and> nKind n = nKind n' \<and> nTenantID n = nTenantID n'
      \<and> nCurrentVersionID n = nCurrentVersionID n' \<and> (nStatus n = NodePurging \<longrightarrow> nStatus n' = NodePurging)"
    if "gget (nodes r') k = Some n'" for k n'
    using change
  proof
    assume "\<exists>node node'. gget (nodes r) (nID node) = Some node
      \<and> UpdateNode_apply c node = Some node' \<and> nodes r' = gput (nID node') node' (nodes r)"
    then obtain node node' where node: "gget (nodes r) (nID node) = Some node" and new: "UpdateNode_apply c node = Some node'"
      and put: "nodes r' = gput (nID node') node' (nodes r)" by blast
    have "nStatus node' = nStatus node"
      using new by (auto simp: UpdateNode_apply_def Let_def split: option.splits)
    with that put node UpdateNode_apply_fields(1,2,3,8) [OF new] show ?thesis by (cases "k = nID node") auto
  qed (use that in auto)
  have "file_inv r'"
  proof (rule file_inv_relabel [of r])
    fix k n' assume k: "gget (nodes r') k = Some n'" "nKind n' = NodeFile"
    with kept [OF k(1)] show "\<exists>n. gget (nodes r) k = Some n \<and> nKind n = NodeFile \<and> nTenantID n = nTenantID n'
        \<and> nCurrentVersionID n = nCurrentVersionID n' \<and> (nStatus n = NodePurging \<longrightarrow> nStatus n' = NodePurging)" by auto
  qed (use inv same in \<open>auto simp: content_inv_def same_content_def\<close>)
  with ns inv same have "content_inv has r'" by (blast intro: content_inv_nodes)
  moreover have "unused r' i" if "unused r i" for i
  proof (rule unused_nodes [OF same, of "{}"])
    show "gget (nodes r') i = None" if "gget (nodes r) i = None" for i
      using that kept [of i] by (cases "gget (nodes r') i") auto
  qed (use that in auto)
  ultimately show ?thesis by blast
qed

section \<open>Upload sessions\<close>

definition same_files :: "Repository \<Rightarrow> Repository \<Rightarrow> bool" where
  "same_files r r' \<longleftrightarrow> nodes r' = nodes r \<and> tenants r' = tenants r \<and> blobs r' = blobs r \<and> versions r' = versions r"

lemma content_inv_files:
  assumes "content_inv has r" and "same_files r r'" and "upload_keys r'" and "key_inv has r'"
  shows "content_inv has r'"
  using assms by (simp add: content_inv_def same_files_def ns_inv_def file_inv_def current_content_def)

lemma CreateUpload_content:
  assumes inv: "content_inv has r" and new: "unused r blobID" "uObjectKey (cuSession c) = object_key t blobID"
    and ids: "length blobID = 36"
    and op: "Repo_CreateUpload c r = (res, r')"
  shows "content_inv has r' \<and> (\<forall>i. unused r i \<longrightarrow> length i = 36 \<longrightarrow> i \<noteq> uID (cuSession c) \<longrightarrow> i \<noteq> blobID \<longrightarrow> unused r' i)"
proof -
  from CreateUpload_effect [OF op] have files: "same_files r r'"
    and change: "uploads r' = uploads r \<or> uploads r' = gput (uID (cuSession c)) (cuSession c) (uploads r)"
    by (auto simp: same_files_def)
  have fresh: "\<forall>k b. gget (blobs r) k = Some b \<longrightarrow> bObjectKey b \<noteq> uObjectKey (cuSession c)"
    "\<forall>k s. gget (uploads r) k = Some s \<longrightarrow> uObjectKey s \<noteq> uObjectKey (cuSession c)"
    using new by (auto simp: unused_def)
  have keys: "upload_keys r'" using change inv by (auto simp: content_inv_def upload_keys_def split: if_splits)
  have "key_inv has r'"
    using change
  proof
    assume "uploads r' = uploads r"
    with files inv show ?thesis by (simp add: key_inv_def same_files_def content_inv_def)
  next
    assume put: "uploads r' = gput (uID (cuSession c)) (cuSession c) (uploads r)"
    have b: "blobs r' = blobs r" using files by (simp add: same_files_def)
    from inv have k: "key_inv has r" by (simp add: content_inv_def)
    have "bObjectKey b \<noteq> uObjectKey s" if "gget (blobs r') k = Some b" "gget (uploads r') i = Some s"
      "uStatus s \<noteq> UploadCommitted" for k b i s
      using that k fresh b put unfolding key_inv_def by (auto split: if_splits)
    moreover have "i = i'" if "gget (uploads r') i = Some s" "gget (uploads r') i' = Some s'" "uObjectKey s = uObjectKey s'" for i s i' s'
      using that k fresh put unfolding key_inv_def by (auto split: if_splits)
    ultimately show ?thesis using k b unfolding key_inv_def by simp
  qed
  with inv files keys have "content_inv has r'" by (blast intro: content_inv_files)
  moreover have "unused r' i" if "unused r i" "length i = 36" "i \<noteq> uID (cuSession c)" "i \<noteq> blobID" for i
  proof -
    have "\<forall>t'. uObjectKey (cuSession c) \<noteq> object_key t' i"
      using that ids new(2) object_key_inj by metis
    with that change files show ?thesis by (auto simp: unused_def same_files_def split: if_splits)
  qed
  ultimately show ?thesis by blast
qed

text \<open>A session that moves along its state machine keeps its object key, and a committed one stays.\<close>

lemma upload_step_key: "upload_step s s' \<Longrightarrow> uObjectKey s' = uObjectKey s"
  by (auto elim!: upload_stepE simp: move_upload_def)

lemma moves_content:
  assumes inv: "content_inv has r" and files: "same_files r r'" and moves: "moves_one i r r'"
  shows "content_inv has r' \<and> (\<forall>j. unused r j \<longrightarrow> unused r' j)"
proof -
  have b: "blobs r' = blobs r" using files by (simp add: same_files_def)
  have origin: "\<exists>s. gget (uploads r) k = Some s \<and> uObjectKey s = uObjectKey s' \<and> (uStatus s = UploadCommitted \<longrightarrow> s' = s)"
    if "gget (uploads r') k = Some s'" for k s'
  proof -
    have "uStatus s \<noteq> UploadCommitted" if "upload_step s s'" for s s'
      using upload_step_facts(1) [OF that] by (auto simp: Terminal_def)
    with moves that show ?thesis unfolding moves_one_def by (auto simp: upload_step_key split: if_splits)
  qed
  from inv have k: "key_inv has r" by (simp add: content_inv_def)
  have "key_inv has r'"
    unfolding key_inv_def b
  proof (intro conjI allI impI)
    fix k b i s' assume b: "gget (blobs r) k = Some b" and s': "gget (uploads r') i = Some s'" "uStatus s' \<noteq> UploadCommitted"
    from origin [OF s'(1)] obtain s where "gget (uploads r) i = Some s" "uObjectKey s = uObjectKey s'"
      "uStatus s = UploadCommitted \<longrightarrow> s' = s" by blast
    with b s' \<open>key_inv has r\<close> show "bObjectKey b \<noteq> uObjectKey s'" unfolding key_inv_def by metis
  next
    fix i s i' s' assume "gget (uploads r') i = Some s" "gget (uploads r') i' = Some s'" "uObjectKey s = uObjectKey s'"
    with origin [of i s] origin [of i' s'] \<open>key_inv has r\<close> show "i = i'" unfolding key_inv_def by metis
  qed (use k in \<open>auto simp: key_inv_def\<close>)
  with inv files moves have "content_inv has r'"
    by (elim content_inv_files) (use inv moves_one_keys [OF moves] in \<open>simp_all add: content_inv_def\<close>)
  moreover have "unused r' j" if "unused r j" for j
  proof -
    have "gget (uploads r') j = None"
      using origin [of j] that by (cases "gget (uploads r') j") (auto simp: unused_def)
    moreover have "uObjectKey s' \<noteq> object_key t j" if "gget (uploads r') k = Some s'" for k s' t
      using origin [OF that] \<open>unused r j\<close> by (auto simp: unused_def)
    ultimately show ?thesis using that files by (simp add: unused_def same_files_def)
  qed
  ultimately show ?thesis by blast
qed

lemma put_upload_files [simp]: "same_files r (put_upload i s r)" "same_files r (request_cleanup i (put_upload i s r))"
  by (simp_all add: same_files_def put_upload_def request_cleanup_def)

lemma session_ops_files:
  "same_files r (snd (Repo_MarkUploading identity i now r))"
  "same_files r (snd (Repo_BeginComplete identity i digest ps now r))"
  "same_files r (snd (Repo_FailUploadCompletion identity i digest code now r))"
  "same_files r (snd (Repo_MarkObjectCompleted identity i info now r))"
  "same_files r (snd (Repo_AbortUpload identity i target now r))"
  subgoal by (auto simp: Repo_MarkUploading_def Let_def same_files_def put_upload_def split: sum.splits)
  subgoal by (auto simp: Repo_BeginComplete_def same_files_def put_upload_def Let_def split: sum.splits)
  subgoal by (auto simp: Repo_FailUploadCompletion_def Let_def same_files_def put_upload_def request_cleanup_def split: sum.splits)
  subgoal by (auto simp: Repo_MarkObjectCompleted_def Let_def same_files_def put_upload_def split: sum.splits)
  subgoal by (auto simp: Repo_AbortUpload_def Let_def same_files_def put_upload_def request_cleanup_def split: sum.splits)
  done

lemmas session_ops_moves = MarkUploading_moves BeginComplete_moves FailUploadCompletion_moves MarkObjectCompleted_moves
  AbortUpload_moves

text \<open>An open session's object belongs to no blob.\<close>

lemma open_session_no_available:
  assumes "content_inv has r" and "gget (uploads r) i = Some s" and "uStatus s \<noteq> UploadCommitted"
  shows "no_available r (uObjectKey s)"
  using assms unfolding content_inv_def key_inv_def no_available_def by blast

section \<open>Publishing\<close>

lemma CommitUpload_content:
  assumes inv: "content_inv has r" and ready: "commit_ready r c" and object: "has (bObjectKey (cmBlob c))"
    and key: "\<And>s. gget (uploads r) (cmSessionID c) = Some s \<Longrightarrow> bObjectKey (cmBlob c) = uObjectKey s"
    and op: "Repo_CommitUpload env c r = (res, r')"
  shows "content_inv has r' \<and>
    (\<forall>i. unused r i \<longrightarrow> i \<notin> {nID (cmNode c), vID (cmVersion c), bID (cmBlob c)} \<longrightarrow> unused r' i)"
proof -
  from inv have ns: "ns_inv r" "file_inv r" "upload_keys r" "key_inv has r" by (auto simp: content_inv_def)
  have moves: "moves_one (cmSessionID c) r r'" using CommitUpload_moves [OF ns(3), of c env] op by simp
  from CommitUpload_effect [OF op] show ?thesis
  proof (elim conjE disjE exE)
    assume "tenants r' = tenants r" "nodes r' = nodes r" "versions r' = versions r" "blobs r' = blobs r"
    then have "same_files r r'" by (simp add: same_files_def)
    from moves_content [OF inv this moves] show ?thesis by blast
  next
    fix s p
    assume s: "gget (uploads r) (cmSessionID c) = Some s" "uStatus s = UploadObjectCompleted"
      and nodes: "gget (nodes r') = (gget (nodes r))(nID (cmNode c) \<mapsto> cmNode c)"
      and versions: "gget (versions r') = (gget (versions r))(vID (cmVersion c) \<mapsto> cmVersion c)"
      and blobs: "gget (blobs r') = (gget (blobs r))(bID (cmBlob c) \<mapsto> cmBlob c)"
      and uploads: "gget (uploads r') = (gget (uploads r))(uID s \<mapsto>
             (move_upload UploadCommitted (cmNow c) s)\<lparr>uCommittedNodeID := nID (cmNode c)\<rparr>)"
    have sid: "uID s = cmSessionID c" using ns(3) s(1) by (simp add: upload_keys_def)
    note bkey = key [OF s(1)]
    have other: "bObjectKey b \<noteq> uObjectKey s" if "gget (blobs r) k = Some b" for k b
      using ns(4) s that unfolding key_inv_def by (metis UploadStatus.distinct)
    have sessions: "\<exists>x. gget (uploads r) i = Some x \<and> uObjectKey x = uObjectKey y \<and> (uStatus y \<noteq> UploadCommitted \<longrightarrow> x = y \<and> i \<noteq> uID s)"
      if "gget (uploads r') i = Some y" for i y
      using that s sid uploads by (auto simp: move_upload_def split: if_splits)
    have distinct: "i = i'" if "gget (uploads r) i = Some x" "gget (uploads r) i' = Some x'" "uObjectKey x = uObjectKey x'" for i x i' x'
      using ns(4) that unfolding key_inv_def by metis
    have "key_inv has r'"
      unfolding key_inv_def
    proof (intro conjI allI impI)
      fix k b assume "gget (blobs r') k = Some b" "bStatus b = BlobAvailable"
      then show "has (bObjectKey b)" using ns(4) object blobs by (auto simp: key_inv_def split: if_splits)
    next
      fix k b k' b' assume "gget (blobs r') k = Some b" "gget (blobs r') k' = Some b'" "bObjectKey b = bObjectKey b'"
      with other bkey ns(4) show "k = k'"
        unfolding blobs key_inv_def by (auto split: if_splits)
    next
      fix k b i y assume b: "gget (blobs r') k = Some b" and y: "gget (uploads r') i = Some y" "uStatus y \<noteq> UploadCommitted"
      from sessions [OF y(1)] y(2) have old: "gget (uploads r) i = Some y" "i \<noteq> uID s" by auto
      show "bObjectKey b \<noteq> uObjectKey y"
      proof (cases "k = bID (cmBlob c)")
        case True
        with b blobs bkey old distinct [OF s(1) old(1)] sid show ?thesis by auto
      next
        case False
        with b blobs old y(2) ns(4) show ?thesis unfolding key_inv_def by auto
      qed
    next
      fix i x i' x' assume "gget (uploads r') i = Some x" "gget (uploads r') i' = Some x'" "uObjectKey x = uObjectKey x'"
      with sessions [of i x] sessions [of i' x'] distinct show "i = i'" by metis
    qed
    moreover have "upload_keys r'" by (rule moves_one_keys [OF moves ns(3)])
    ultimately have "content_inv has r'"
      using CommitUpload_inv [OF ns(1) ready op] CommitUpload_file_inv [OF ns(2) ready op] by (simp add: content_inv_def)
    moreover have "unused r' i" if "unused r i" "i \<notin> {nID (cmNode c), vID (cmVersion c), bID (cmBlob c)}" for i
      using that s(1) sid bkey by (auto simp: unused_def nodes versions blobs uploads move_upload_def)
    ultimately show ?thesis by blast
  qed
qed

lemma audit_error_code:
  "appendAuditLocked env e r = (Inl err, r') \<Longrightarrow> CodeOf err = CodeInvalidRequest \<or> CodeOf err = CodeInternal"
  by (auto simp: appendAuditLocked_def boundedAuditMetadata_def Let_def E_def E_cause_def split: sum.splits if_splits option.splits)

lemma with_audit_Inl: "with_audit env e x r = (Inl err, r') \<Longrightarrow> appendAuditLocked env e r = (Inl err, r')"
  by (cases "appendAuditLocked env e r") (auto simp: with_audit_def split: sum.splits)

lemma with_audit_code:
  "with_audit env e x r = (Inl err, r') \<Longrightarrow> CodeOf err = CodeInvalidRequest \<or> CodeOf err = CodeInternal"
  by (drule with_audit_Inl) (rule audit_error_code)

text \<open>The answers after which the service deletes the object: the file was not published.\<close>

lemma CommitUpload_rejected:
  assumes inv: "content_inv has r" and s: "uploadFor r (cmIdentity c) (cmSessionID c) = Inr s" "uStatus s \<noteq> UploadCommitted"
    and op: "Repo_CommitUpload env c r = (Inl err, r')" and code: "CodeOf err = CodeNameConflict \<or> CodeOf err = CodeNotFound"
  shows "no_available r' (uObjectKey s)"
proof -
  have "blobs r' = blobs r"
    using op s code
    by (auto simp: Repo_CommitUpload_def Let_def split: option.splits if_splits) (drule with_audit_code, simp)+
  from no_available_same [OF this] open_session_no_available [OF inv _ s(2)] s(1) show ?thesis
    by (auto simp: uploadFor_Inr)
qed

section \<open>The recycle bin\<close>

lemma recycle_uploads:
  "Repo_Recycle env identity k revision now r = Some (res, r') \<Longrightarrow> uploads r' = uploads r"
  "Repo_Restore env identity k revision now r = (res2, r') \<Longrightarrow> uploads r' = uploads r"
  "Repo_PreparePurge identity k revision now r = (res3, r') \<Longrightarrow> uploads r' = uploads r"
  "Repo_FinishPurge env identity plan now r = (res4, r') \<Longrightarrow> uploads r' = uploads r"
  subgoal by (auto simp: Repo_Recycle_def split: option.splits if_splits dest!: appendAuditLocked_pair)
  subgoal by (auto simp: Repo_Restore_def Let_def split: option.splits if_splits dest!: with_audit_pair appendAuditLocked_pair)
  subgoal by (auto simp: Repo_PreparePurge_def Let_def split: option.splits if_splits)
  subgoal by (auto simp: Repo_FinishPurge_def Let_def split: option.splits if_splits dest!: appendAuditLocked_pair)
  done

lemma content_inv_recycle:
  assumes inv: "content_inv has r" and same: "same_content r r'" and ns: "ns_inv r'" and files: "file_inv r'"
    and nodes: "nodes r' = nodes r \<or> (\<exists>f. gget (nodes r') = (\<lambda>i. map_option (f i) (gget (nodes r) i)))"
  shows "content_inv has r' \<and> (\<forall>i. unused r i \<longrightarrow> unused r' i)"
proof -
  have "unused r' i" if "unused r i" for i
    by (rule unused_nodes [OF same, of "{}"]) (use that nodes in auto)
  with content_inv_nodes [OF inv same ns files] show ?thesis by blast
qed

lemma Recycle_content:
  assumes inv: "content_inv has r" and op: "Repo_Recycle env identity k revision now r = Some (res, r')"
  shows "content_inv has r' \<and> (\<forall>i. unused r i \<longrightarrow> unused r' i)"
proof -
  from inv have i: "ns_inv r" "file_inv r" by (auto simp: content_inv_def)
  note eff = Recycle_effect [OF i(1) op]
  show ?thesis
    by (rule content_inv_recycle [OF inv _ Recycle_inv [OF i(1) op] Recycle_file_inv [OF i op]])
      (use eff recycle_uploads(1) [OF op] in \<open>auto simp: same_content_def\<close>)
qed

lemma Restore_content:
  assumes inv: "content_inv has r" and op: "Repo_Restore env identity k revision now r = (res, r')"
  shows "content_inv has r' \<and> (\<forall>i. unused r i \<longrightarrow> unused r' i)"
proof -
  from inv have i: "ns_inv r" "file_inv r" by (auto simp: content_inv_def)
  note eff = Restore_effect [OF i(1) op]
  show ?thesis
    by (rule content_inv_recycle [OF inv _ Restore_inv [OF i(1) op] Restore_file_inv [OF i op]])
      (use eff recycle_uploads(2) [OF op] in \<open>auto simp: same_content_def\<close>)
qed

text \<open>Blobs only lose availability: a purge relabels them, key by key, and never reopens one.\<close>

definition blobs_fade :: "Repository \<Rightarrow> Repository \<Rightarrow> bool" where
  "blobs_fade r r' \<longleftrightarrow> (\<forall>k b'. gget (blobs r') k = Some b' \<longrightarrow> (\<exists>b. gget (blobs r) k = Some b \<and> bObjectKey b' = bObjectKey b
     \<and> (bStatus b' = BlobAvailable \<longrightarrow> bStatus b = BlobAvailable)))"

lemma blobs_fadeD:
  assumes "blobs_fade r r'" and "gget (blobs r') k = Some b'"
  obtains b where "gget (blobs r) k = Some b" "bObjectKey b' = bObjectKey b" "bStatus b' = BlobAvailable \<Longrightarrow> bStatus b = BlobAvailable"
  using assms unfolding blobs_fade_def by blast

lemma key_inv_fade:
  assumes k: "key_inv has r" and fade: "blobs_fade r r'" and u: "uploads r' = uploads r"
  shows "key_inv has r'"
  unfolding key_inv_def u
proof (intro conjI allI impI)
  fix k b' assume "gget (blobs r') k = Some b'" "bStatus b' = BlobAvailable"
  with k fade show "has (bObjectKey b')" by (elim blobs_fadeD) (auto simp: key_inv_def)
next
  fix k b k' b' assume b: "gget (blobs r') k = Some b" "gget (blobs r') k' = Some b'" "bObjectKey b = bObjectKey b'"
  obtain c c' where "gget (blobs r) k = Some c" "gget (blobs r) k' = Some c'" "bObjectKey c = bObjectKey c'"
    using blobs_fadeD [OF fade b(1)] blobs_fadeD [OF fade b(2)] b(3) by metis
  with k show "k = k'" by (auto simp: key_inv_def)
next
  fix k b' i s assume b: "gget (blobs r') k = Some b'" and s: "gget (uploads r) i = Some s" "uStatus s \<noteq> UploadCommitted"
  obtain c where "gget (blobs r) k = Some c" "bObjectKey b' = bObjectKey c" by (rule blobs_fadeD [OF fade b])
  with k s show "bObjectKey b' \<noteq> uObjectKey s" by (simp add: key_inv_def)
next
  fix i s i' s' assume "gget (uploads r) i = Some s" "gget (uploads r) i' = Some s'" "uObjectKey s = uObjectKey s'"
  with k show "i = i'" by (auto simp: key_inv_def)
qed

lemma unused_fade:
  assumes i: "unused r i" and fade: "blobs_fade r r'" and same: "uploads r' = uploads r" "versions r' = versions r"
    and nodes: "gget (nodes r) i = None \<Longrightarrow> gget (nodes r') i = None"
  shows "unused r' i"
proof -
  have "gget (blobs r') i = None"
    using i blobs_fadeD [OF fade, of i] by (cases "gget (blobs r') i") (auto simp: unused_def)
  moreover have "bObjectKey b \<noteq> object_key t i" if b: "gget (blobs r') k = Some b" for k b t
  proof -
    obtain b0 where "gget (blobs r) k = Some b0" "bObjectKey b = bObjectKey b0" by (rule blobs_fadeD [OF fade b])
    with i show ?thesis by (simp add: unused_def)
  qed
  ultimately show ?thesis using i same nodes by (simp add: unused_def)
qed

lemma no_available_fade:
  assumes "no_available r key" and "blobs_fade r r'"
  shows "no_available r' key"
  using assms unfolding no_available_def blobs_fade_def by metis

lemma content_inv_fade:
  assumes inv: "content_inv has r" and fade: "blobs_fade r r'" and same: "uploads r' = uploads r" "versions r' = versions r"
    and ns: "ns_inv r'" "file_inv r'" and nodes: "\<And>i. gget (nodes r) i = None \<Longrightarrow> gget (nodes r') i = None"
  shows "content_inv has r' \<and> (\<forall>i. unused r i \<longrightarrow> unused r' i)"
proof -
  have "key_inv has r'" using inv fade same by (auto simp: content_inv_def intro: key_inv_fade)
  with inv same ns have "content_inv has r'" by (simp add: content_inv_def upload_keys_def)
  with unused_fade [OF _ fade same nodes] show ?thesis by blast
qed

lemma PreparePurge_fade:
  assumes inv: "content_inv has r" and op: "Repo_PreparePurge identity k revision now r = (res, r')"
  shows "blobs_fade r r' \<and> (\<forall>plan b. res = Inr plan \<longrightarrow> b \<in> set (ppBlobs plan) \<longrightarrow> no_available r' (bObjectKey b))"
proof -
  from inv have i: "ns_inv r" "file_inv r" "key_inv has r" by (auto simp: content_inv_def)
  from PreparePurge_effect [OF i(1) op] show ?thesis
  proof (elim disjE exE conjE)
    fix n ids blobIDs
    assume bs: "distinct blobIDs" "set blobIDs = {vBlobID v | v i. gget (versions r) i = Some v
            \<and> vTenantID v = iTenantID identity \<and> vNodeID v \<in> set ids}"
      and eff: "blobs r' = fst (foldl (purge_blob r ids) (blobs r, []) blobIDs)"
        "res = Inr \<lparr>ppRootID = k, ppBlobs = snd (foldl (purge_blob r ids) (blobs r, []) blobIDs)\<rparr>"
    have dom: "set blobIDs \<subseteq> dom (gget (blobs r))" using bs(2) i(2) by (auto simp: file_inv_def)
    note upd = purge_blobs(1) [OF bs(1) dom, of r ids "[]", folded eff(1)]
    note plan = purge_blobs(2) [OF bs(1) dom, of r ids "[]"]
    have mark: "bObjectKey (purge_mark r ids i b) = bObjectKey b" for i b by (simp add: purge_mark_def)
    have fade: "blobs_fade r r'" unfolding blobs_fade_def upd by (auto simp: purge_mark_def split: if_splits)
    moreover have "no_available r' (bObjectKey p)" if p: "p \<in> set (snd (foldl (purge_blob r ids) (blobs r, []) blobIDs))" for p
    proof -
      from p plan obtain j where j: "j \<in> set blobIDs" "purgeable r ids j (the (gget (blobs r) j))"
        "p = purge_mark r ids j (the (gget (blobs r) j))" by auto
      with dom obtain b where b: "gget (blobs r) j = Some b" by auto
      have pkey: "bObjectKey p = bObjectKey b" using j b by (simp add: mark)
      have "bStatus c \<noteq> BlobAvailable" if c: "gget (blobs r') m = Some c" "bObjectKey c = bObjectKey b" for m c
      proof -
        obtain c0 where "gget (blobs r) m = Some c0" "bObjectKey c = bObjectKey c0" by (rule blobs_fadeD [OF fade c(1)])
        with b c(2) i(3) have "m = j" unfolding key_inv_def by metis
        with c(1) j b upd [of j] show ?thesis by (auto simp: purge_mark_def)
      qed
      then show ?thesis unfolding no_available_def pkey by blast
    qed
    ultimately show ?thesis using eff(2) by auto
  qed (auto simp: blobs_fade_def)
qed

lemma PreparePurge_content:
  assumes inv: "content_inv has r" and op: "Repo_PreparePurge identity k revision now r = (res, r')"
  shows "content_inv has r' \<and> (\<forall>i. unused r i \<longrightarrow> unused r' i)"
proof -
  from inv have i: "ns_inv r" "file_inv r" by (auto simp: content_inv_def)
  note eff = PreparePurge_effect [OF i(1) op]
  show ?thesis
    by (rule content_inv_fade [OF inv _ recycle_uploads(3) [OF op] _ PreparePurge_inv [OF i(1) op] PreparePurge_file_inv [OF i op]])
      (use eff PreparePurge_fade [OF inv op] in auto)
qed

lemma finish_blob_fade:
  assumes "\<And>i b. gget m i = Some b \<Longrightarrow> bID b = i" and "gget (foldl (finish_blob identity now) m plan) k = Some b'"
  shows "\<exists>b. gget m k = Some b \<and> bObjectKey b' = bObjectKey b \<and> (bStatus b' = BlobAvailable \<longrightarrow> bStatus b = BlobAvailable)"
  using assms
proof (induction plan arbitrary: m)
  case (Cons p plan)
  let ?m = "finish_blob identity now m p"
  have keys: "bID b = i" if "gget ?m i = Some b" for i b
    using that Cons.prems(1) by (auto simp: finish_blob_def split: option.splits if_splits)
  from Cons.prems(2) have "gget (foldl (finish_blob identity now) ?m plan) k = Some b'" by simp
  from Cons.IH [OF keys this] obtain b where "gget ?m k = Some b" "bObjectKey b' = bObjectKey b"
    "bStatus b' = BlobAvailable \<longrightarrow> bStatus b = BlobAvailable" by blast
  then show ?case using Cons.prems(1) by (auto simp: finish_blob_def split: option.splits if_splits)
qed auto

lemma FinishPurge_fade:
  assumes inv: "content_inv has r" and op: "Repo_FinishPurge env identity plan now r = (res, r')"
  shows "blobs_fade r r'"
proof -
  have "\<And>i b. gget (blobs r) i = Some b \<Longrightarrow> bID b = i" using inv by (auto simp: content_inv_def file_inv_def)
  with FinishPurge_effect [OF op] finish_blob_fade [of "blobs r" identity now "ppBlobs plan"] show ?thesis
    unfolding blobs_fade_def by auto
qed

lemma FinishPurge_content:
  assumes inv: "content_inv has r" and op: "Repo_FinishPurge env identity plan now r = (res, r')"
  shows "content_inv has r' \<and> (\<forall>i. unused r i \<longrightarrow> unused r' i)"
proof -
  from inv have i: "ns_inv r" "file_inv r" by (auto simp: content_inv_def)
  note eff = FinishPurge_effect [OF op]
  show ?thesis
    by (rule content_inv_fade [OF inv FinishPurge_fade [OF inv op] recycle_uploads(4) [OF op] _
          FinishPurge_inv [OF i(1) op] FinishPurge_file_inv [OF i(2) op]])
      (use eff in auto)
qed

section \<open>Objects come and go\<close>

lemma content_inv_has:
  assumes "content_inv has r" and "\<And>key. has key \<Longrightarrow> \<not> no_available r key \<Longrightarrow> has' key"
  shows "content_inv has' r"
proof -
  have "has' (bObjectKey b)" if "gget (blobs r) k = Some b" "bStatus b = BlobAvailable" for k b
    using assms that unfolding content_inv_def key_inv_def no_available_def by blast
  with assms(1) show ?thesis by (simp add: content_inv_def key_inv_def)
qed

end
