(* ===== verification/Service_Safety.thy ===== *)
theory Service_Safety
  imports Object_Safety
begin

text \<open>
  Every method of the service keeps the repository and the object storage consistent. The
  argument is a small Hoare logic over service methods: \<open>triple P m Q F\<close> says that a run of \<open>m\<close>
  from a world with \<open>P\<close> ends with \<open>Q\<close> when it succeeds and with \<open>F\<close> when it fails. The proofs are
  carried out in the context of the storage contract, for every provider that honours it, and
  then instantiated with the in-memory storage.
\<close>

section \<open>Triples\<close>

definition triple ::
  "('s World \<Rightarrow> bool) \<Rightarrow> ('s, 'a) svc \<Rightarrow> ('a \<Rightarrow> 's World \<Rightarrow> bool) \<Rightarrow> (error \<Rightarrow> 's World \<Rightarrow> bool) \<Rightarrow> bool" where
  "triple P m Q F \<longleftrightarrow> (\<forall>w res w'. P w \<longrightarrow> m w = Some (res, w') \<longrightarrow> (case res of Inr x \<Rightarrow> Q x w' | Inl e \<Rightarrow> F e w'))"

named_theorems triple_rules

lemma tripleI:
  assumes "\<And>w x w'. P w \<Longrightarrow> m w = Some (Inr x, w') \<Longrightarrow> Q x w'" and "\<And>w e w'. P w \<Longrightarrow> m w = Some (Inl e, w') \<Longrightarrow> F e w'"
  shows "triple P m Q F"
  using assms by (auto simp: triple_def split: sum.splits)

lemma tripleD:
  assumes "triple P m Q F" and "P w" and "m w = Some (res, w')"
  shows "(\<forall>x. res = Inr x \<longrightarrow> Q x w') \<and> (\<forall>e. res = Inl e \<longrightarrow> F e w')"
  using assms by (auto simp: triple_def split: sum.splits)

lemma triple_weaken:
  assumes "triple P' m Q' F'" and "\<And>w. P w \<Longrightarrow> P' w" and "\<And>x w. Q' x w \<Longrightarrow> Q x w" and "\<And>e w. F' e w \<Longrightarrow> F e w"
  shows "triple P m Q F"
  using assms unfolding triple_def by (fastforce split: sum.splits)

lemma triple_pre: "triple P' m Q F \<Longrightarrow> (\<And>w. P w \<Longrightarrow> P' w) \<Longrightarrow> triple P m Q F"
  by (rule triple_weaken)

lemma triple_assume:
  assumes "\<And>w. P w \<Longrightarrow> C" and "C \<Longrightarrow> triple P m Q F"
  shows "triple P m Q F"
  using assms unfolding triple_def by metis

lemma triple_bind:
  assumes "triple P m R F" and "\<And>x. triple (R x) (f x) Q F"
  shows "triple P (sbind m f) Q F"
proof (rule tripleI)
  fix w x w' assume "P w" "sbind m f w = Some (Inr x, w')"
  with assms show "Q x w'" by (elim sbind_Inr) (fastforce dest!: tripleD)
next
  fix w e w' assume "P w" "sbind m f w = Some (Inl e, w')"
  with assms show "F e w'" by (elim sbind_Some) (fastforce dest!: tripleD)+
qed

lemma triple_attempt:
  assumes "triple P m (\<lambda>x. Q (Inr x)) (\<lambda>e. Q (Inl e))"
  shows "triple P (attempt m) Q F"
proof (rule tripleI)
  fix w res w' assume "P w" "attempt m w = Some (Inr res, w')"
  with assms show "Q res w'" by (cases res) (auto simp: attempt_def split: option.splits dest!: tripleD)
qed (auto simp: attempt_def split: option.splits)

lemma triple_ret: "(\<And>w. P w \<Longrightarrow> Q x w) \<Longrightarrow> triple P (ret x) Q F"
  by (auto simp: triple_def ret_def)

lemma triple_fail: "(\<And>w. P w \<Longrightarrow> F e w) \<Longrightarrow> triple P (fail e) Q F"
  by (auto simp: triple_def fail_def)

lemma triple_quietly: "triple P m (\<lambda>_. I) (\<lambda>_. I) \<Longrightarrow> triple P (quietly m) (\<lambda>_. I) F"
  unfolding quietly_def by (rule triple_bind [OF triple_attempt]) (auto intro: triple_ret)

lemma triple_of_result: "triple P (of_result r) (\<lambda>x w. P w \<and> r = Inr x) (\<lambda>e. P)"
  by (auto simp: triple_def of_result_def split: sum.splits)

lemma triple_guard: "triple P (guard b e) (\<lambda>_ w. P w \<and> b) (\<lambda>e. P)"
  by (auto simp: triple_def guard_def ret_def fail_def)

lemma triple_repo_read: "triple P (repo_read f) (\<lambda>x w. P w \<and> f (wRepo w) = Inr x) (\<lambda>e. P)"
  by (auto simp: triple_def repo_read_def split: sum.splits)

lemma triple_if:
  assumes "b \<Longrightarrow> triple P m Q F" and "\<not> b \<Longrightarrow> triple P m' Q F"
  shows "triple P (if b then m else m') Q F"
  using assms by simp

section \<open>Consistent worlds\<close>

text \<open>
  Ids drawn from the random source: those still to come and those drawn but not yet used (\<open>S\<close>)
  are unused in the repository, and no id is drawn twice.
\<close>

definition ids_fresh :: "string set \<Rightarrow> Repository \<Rightarrow> (nat \<Rightarrow> string result) \<Rightarrow> bool" where
  "ids_fresh S r tape \<longleftrightarrow>
     (\<forall>n i. NewID (tape n) = Inr i \<longrightarrow> length i = 36 \<and> unused r i \<and> i \<notin> S) \<and>
     (\<forall>m n i. NewID (tape m) = Inr i \<longrightarrow> NewID (tape n) = Inr i \<longrightarrow> m = n) \<and>
     (\<forall>i \<in> S. length i = 36 \<and> unused r i)"

definition world_ok ::
  "('s \<Rightarrow> bool) \<Rightarrow> ('s \<Rightarrow> string \<Rightarrow> ObjectInfo option) \<Rightarrow> string set
   \<Rightarrow> (Repository \<Rightarrow> (string \<Rightarrow> ObjectInfo option) \<Rightarrow> bool) \<Rightarrow> 's World \<Rightarrow> bool" where
  "world_ok sp_inv object_at S R w \<longleftrightarrow>
     content_inv (\<lambda>k. object_at (wStorage w) k \<noteq> None) (wRepo w) \<and> sp_inv (wStorage w)
     \<and> ids_fresh S (wRepo w) (wRand w) \<and> R (wRepo w) (object_at (wStorage w))"

text \<open>What a completion knows of its session between two calls into the repository.\<close>

definition session_held :: "Identity \<Rightarrow> UploadSession \<Rightarrow> Repository \<Rightarrow> bool" where
  "session_held identity session r \<longleftrightarrow> uploadFor r identity (uID session) = Inr session \<and> uStatus session \<noteq> UploadCommitted"

lemma ids_fresh_mono: "ids_fresh S r tape \<Longrightarrow> T \<subseteq> S \<Longrightarrow> ids_fresh T r tape"
  by (auto simp: ids_fresh_def)

lemma ids_fresh_Suc: "ids_fresh S r tape \<Longrightarrow> ids_fresh S r (\<lambda>n. tape (Suc n))"
  unfolding ids_fresh_def by blast

lemma ids_fresh_draw:
  assumes "ids_fresh S r tape" and "NewID (tape 0) = Inr i"
  shows "ids_fresh (insert i S) r (\<lambda>n. tape (Suc n))" and "i \<notin> S"
  using assms unfolding ids_fresh_def by fastforce+

lemma ids_fresh_repo:
  assumes "ids_fresh S r tape" and "\<And>i. unused r i \<Longrightarrow> length i = 36 \<Longrightarrow> i \<notin> U \<Longrightarrow> unused r' i" and "U \<subseteq> S"
  shows "ids_fresh (S - U) r' tape"
  using assms unfolding ids_fresh_def by (metis DiffD1 DiffD2 subsetD)

context storage_contract
begin

abbreviation holds :: "string set \<Rightarrow> (Repository \<Rightarrow> (string \<Rightarrow> ObjectInfo option) \<Rightarrow> bool) \<Rightarrow> 's World \<Rightarrow> bool" where
  "holds \<equiv> world_ok sp_inv object_at"

abbreviation good :: "'a \<Rightarrow> 's World \<Rightarrow> bool" where
  "good \<equiv> \<lambda>_. holds {} (\<lambda>_ _. True)"

lemma holds_good [intro]: "holds S R w \<Longrightarrow> good x w"
  by (auto simp: world_ok_def intro: ids_fresh_mono)

lemma holds_weaken:
  "holds S R w \<Longrightarrow> T \<subseteq> S \<Longrightarrow> (\<And>r os. R r os \<Longrightarrow> R' r os) \<Longrightarrow> holds T R' w"
  by (auto simp: world_ok_def intro: ids_fresh_mono)

lemma triple_holds:
  assumes "triple (holds T R') m Q F" and "T \<subseteq> S" and "\<And>r os. R r os \<Longrightarrow> R' r os"
  shows "triple (holds S R) m Q F"
  by (rule triple_pre [OF assms(1)]) (rule holds_weaken [OF _ assms(2,3)])

lemma bind_of_result:
  assumes "\<And>x. r = Inr x \<Longrightarrow> triple (holds S R) (f x) Q good"
  shows "triple (holds S R) (sbind (of_result r) f) Q good"
proof (cases r)
  case (Inl e)
  then show ?thesis by (auto simp: svc_simps intro: triple_fail)
next
  case (Inr x)
  with assms show ?thesis by (simp add: svc_simps)
qed

lemma bind_guard:
  assumes "b \<Longrightarrow> triple (holds S R) (f ()) Q good"
  shows "triple (holds S R) (sbind (guard b e) f) Q good"
  using assms by (cases b) (auto simp: svc_simps intro: triple_fail)

lemma bind_clock:
  assumes "\<And>t. triple (holds S R) (f t) Q F"
  shows "triple (holds S R) (sbind clock_Now f) Q F"
  by (rule triple_bind [OF _ assms]) (auto simp: triple_def clock_Now_def world_ok_def)

lemma triple_env:
  assumes "\<And>env. triple (holds S R) (f env) Q F"
  shows "triple (holds S R) (with_env ctx f) Q F"
  unfolding with_env_def
  by (rule triple_bind [OF _ assms]) (auto simp: triple_def draw_def world_ok_def intro: ids_fresh_Suc)

lemma bind_new_id:
  assumes "\<And>i. i \<notin> S \<Longrightarrow> triple (holds (insert i S) R) (f i) Q good"
  shows "triple (holds S R) (sbind (new_id msg) f) Q good"
proof -
  have "triple (holds S R) (new_id msg) (\<lambda>i w. i \<notin> S \<and> holds (insert i S) R w) good"
  proof (rule tripleI)
    fix w i w' assume w: "holds S R w" and "new_id msg w = Some (Inr i, w')"
    then have i: "NewID (wRand w 0) = Inr i" and w': "w' = w\<lparr>wRand := \<lambda>n. wRand w (Suc n)\<rparr>"
      by (auto simp: new_id_def sbind_def draw_def ret_def fail_def split: sum.splits)
    from w have "ids_fresh S (wRepo w) (wRand w)" by (simp add: world_ok_def)
    from ids_fresh_draw [OF this i] w w' show "i \<notin> S \<and> holds (insert i S) R w'" by (simp add: world_ok_def)
  next
    fix w e w' assume "holds S R w" "new_id msg w = Some (Inl e, w')"
    then show "good e w'"
      by (auto simp: new_id_def sbind_def draw_def ret_def fail_def world_ok_def split: sum.splits
          intro: ids_fresh_Suc [OF ids_fresh_mono])
  qed
  then show ?thesis
  proof (rule triple_bind)
    show "triple (\<lambda>w. i \<notin> S \<and> holds (insert i S) R w) (f i) Q good" for i
      using assms [of i] by (auto simp: triple_def)
  qed
qed

lemma bind_read:
  assumes "\<And>x. triple (holds S (\<lambda>r os. R r os \<and> f r = Inr x)) (g x) Q good"
  shows "triple (holds S R) (sbind (repo_read f) g) Q good"
proof (rule triple_bind)
  show "triple (holds S R) (repo_read f) (\<lambda>x. holds S (\<lambda>r os. R r os \<and> f r = Inr x)) good"
    by (auto simp: triple_def repo_read_def world_ok_def split: sum.splits intro: ids_fresh_mono)
qed (rule assms)

lemma triple_op:
  assumes step: "\<And>r os res r'. content_inv (\<lambda>k. os k \<noteq> None) r \<Longrightarrow> (\<And>i. i \<in> S \<Longrightarrow> unused r i \<and> length i = 36) \<Longrightarrow> R r os \<Longrightarrow> f r = (res, r') \<Longrightarrow>
      (content_inv (\<lambda>k. os k \<noteq> None) r' \<and> (\<forall>i. unused r i \<longrightarrow> length i = 36 \<longrightarrow> i \<notin> U \<longrightarrow> unused r' i))
      \<and> (\<forall>x. res = Inr x \<longrightarrow> Ok x r' os) \<and> (\<forall>e. res = Inl e \<longrightarrow> Err e r' os)"
    and U: "U \<subseteq> S"
  shows "triple (holds S R) (repo_op f) (\<lambda>x. holds (S - U) (Ok x)) (\<lambda>e. holds (S - U) (Err e))"
proof -
  have "(\<forall>x. res = Inr x \<longrightarrow> holds (S - U) (Ok x) w') \<and> (\<forall>e. res = Inl e \<longrightarrow> holds (S - U) (Err e) w')"
    if w: "holds S R w" and op: "repo_op f w = Some (res, w')" for w res w'
  proof -
    from op obtain r' where r': "f (wRepo w) = (res, r')" and w': "w' = w\<lparr>wRepo := r'\<rparr>"
      by (auto simp: repo_op_def split: prod.splits)
    from w have fresh: "ids_fresh S (wRepo w) (wRand w)" by (simp add: world_ok_def)
    from w r' fresh step [of "object_at (wStorage w)" "wRepo w" res r'] have
      "content_inv (\<lambda>k. object_at (wStorage w) k \<noteq> None) r'" "\<And>i. unused (wRepo w) i \<Longrightarrow> length i = 36 \<Longrightarrow> i \<notin> U \<Longrightarrow> unused r' i"
      "\<forall>x. res = Inr x \<longrightarrow> Ok x r' (object_at (wStorage w))" "\<forall>e. res = Inl e \<longrightarrow> Err e r' (object_at (wStorage w))"
      by (auto simp: world_ok_def ids_fresh_def)
    with w w' ids_fresh_repo [OF fresh _ U] show ?thesis by (auto simp: world_ok_def)
  qed
  then show ?thesis by (intro tripleI) blast+
qed

lemma triple_op_same:
  assumes "\<And>r. same_state r (snd (f r))" and "\<And>r r' os. same_state r r' \<Longrightarrow> R r os \<Longrightarrow> R r' os"
  shows "triple (holds S R) (repo_op f) (\<lambda>_. holds S R) (\<lambda>_. holds S R)"
proof -
  have "triple (holds S R) (repo_op f) (\<lambda>_. holds (S - {}) R) (\<lambda>_. holds (S - {}) R)"
  proof (rule triple_op)
    fix r os and res :: "'a result" and r'
    assume r: "content_inv (\<lambda>k. os k \<noteq> None) r" "R r os" and f: "f r = (res, r')"
    from assms(1) [of r] f have same: "same_state r r'" by simp
    from content_inv_same [OF same] unused_same [OF same] assms(2) [OF same] r
    show "(content_inv (\<lambda>k. os k \<noteq> None) r' \<and> (\<forall>i. unused r i \<longrightarrow> length i = 36 \<longrightarrow> i \<notin> {} \<longrightarrow> unused r' i))
      \<and> (\<forall>x. res = Inr x \<longrightarrow> R r' os) \<and> (\<forall>e. res = Inl e \<longrightarrow> R r' os)" by simp
  qed simp
  then show ?thesis by simp
qed

lemma triple_op_same_good:
  assumes "\<And>r. same_state r (snd (f r))" and "\<And>r r' os. same_state r r' \<Longrightarrow> R r os \<Longrightarrow> R r' os"
  shows "triple (holds S R) (repo_op f) (\<lambda>_. holds S R) good"
  by (rule triple_weaken [OF triple_op_same [where S = S, OF assms]]) auto

lemma triple_storage:
  assumes "\<And>env s. sp_inv s \<Longrightarrow> sp_inv (snd (f env s))"
    and "\<And>env s r. sp_inv s \<Longrightarrow> content_inv (\<lambda>k. object_at s k \<noteq> None) r \<Longrightarrow> R r (object_at s) \<Longrightarrow>
      content_inv (\<lambda>k. object_at (snd (f env s)) k \<noteq> None) r
      \<and> (\<forall>x. fst (f env s) = Inr x \<longrightarrow> Ok x r (object_at (snd (f env s))))
      \<and> (\<forall>e. fst (f env s) = Inl e \<longrightarrow> Err e r (object_at (snd (f env s))))"
  shows "triple (holds S R) (storage_op f) (\<lambda>x. holds S (Ok x)) (\<lambda>e. holds S (Err e))"
proof -
  have "(\<forall>x. res = Inr x \<longrightarrow> holds S (Ok x) w') \<and> (\<forall>e. res = Inl e \<longrightarrow> holds S (Err e) w')"
    if w: "holds S R w" and op: "storage_op f w = Some (res, w')" for w res w'
  proof -
    let ?env = "\<lparr>seRand = wRand w 0, seNow = wClock w 0\<rparr>"
    from op have "res = fst (f ?env (wStorage w))" and "w' = w\<lparr>wStorage := snd (f ?env (wStorage w)),
        wRand := \<lambda>n. wRand w (Suc n), wClock := \<lambda>n. wClock w (Suc n)\<rparr>"
      by (auto simp: storage_op_def split: prod.splits)
    with w assms(1) [of "wStorage w" ?env] assms(2) [of "wStorage w" "wRepo w" ?env] show ?thesis
      by (auto simp: world_ok_def intro: ids_fresh_Suc)
  qed
  then show ?thesis by (intro tripleI) blast+
qed

lemma triple_quiet:
  assumes "\<And>env s. sp_inv s \<Longrightarrow> sp_inv (snd (f env s))" and "\<And>env s. object_at (snd (f env s)) = object_at s"
  shows "triple (holds S R) (storage_op f) (\<lambda>_. holds S R) (\<lambda>_. holds S R)"
  by (rule triple_storage) (simp_all add: assms)

lemma triple_stat:
  "triple (holds S R) (storage_op (\<lambda>env. spStatObject sp env key))
     (\<lambda>info. holds S (\<lambda>r os. R r os \<and> os key = Some info \<and> oObjectKey info = key)) (\<lambda>_. holds S R)"
  by (rule triple_storage) (auto simp: stat_objects stat_inv dest: stat_sound)

lemma triple_complete:
  "triple (holds S (\<lambda>r _. R r)) (storage_op (\<lambda>env. spCompleteMultipart sp env key up ps))
     (\<lambda>_. holds S (\<lambda>r _. R r)) (\<lambda>_. holds S (\<lambda>r _. R r))"
proof (rule triple_storage)
  fix env s r assume "content_inv (\<lambda>k. object_at s k \<noteq> None) r" "R r"
  moreover from this(1) have "content_inv (\<lambda>k. object_at (snd (spCompleteMultipart sp env key up ps s)) k \<noteq> None) r"
    by (rule content_inv_has) (rule complete_present)
  ultimately show "content_inv (\<lambda>k. object_at (snd (spCompleteMultipart sp env key up ps s)) k \<noteq> None) r
      \<and> (\<forall>x. fst (spCompleteMultipart sp env key up ps s) = Inr x \<longrightarrow> R r)
      \<and> (\<forall>e. fst (spCompleteMultipart sp env key up ps s) = Inl e \<longrightarrow> R r)" by simp
qed (rule complete_inv)

lemma triple_delete:
  assumes "\<And>r. R r \<Longrightarrow> no_available r key"
  shows "triple (holds S (\<lambda>r _. R r)) (storage_op (\<lambda>env. spDeleteObject sp env key))
     (\<lambda>_. holds S (\<lambda>r _. R r)) (\<lambda>_. holds S (\<lambda>r _. R r))"
proof (rule triple_storage)
  fix env s r assume r: "content_inv (\<lambda>k. object_at s k \<noteq> None) r" "R r"
  from r(1) have "content_inv (\<lambda>k. object_at (snd (spDeleteObject sp env key s)) k \<noteq> None) r"
  proof (rule content_inv_has)
    fix k assume "object_at s k \<noteq> None" "\<not> no_available r k"
    with assms [OF r(2)] have "k \<noteq> key" by auto
    with \<open>object_at s k \<noteq> None\<close> show "object_at (snd (spDeleteObject sp env key s)) k \<noteq> None" by (simp add: delete_other)
  qed
  with r show "content_inv (\<lambda>k. object_at (snd (spDeleteObject sp env key s)) k \<noteq> None) r
      \<and> (\<forall>x. fst (spDeleteObject sp env key s) = Inr x \<longrightarrow> R r)
      \<and> (\<forall>e. fst (spDeleteObject sp env key s) = Inl e \<longrightarrow> R r)" by simp
qed (rule delete_inv)

lemma triple_call:
  assumes "triple (holds S R) (storage_op f) Q (\<lambda>_. holds S R')"
  shows "triple (holds S R) (storage_call f) Q good"
  unfolding storage_call_def
proof (rule triple_bind [OF triple_attempt [where Q = "\<lambda>res. case res of Inr x \<Rightarrow> Q x | Inl _ \<Rightarrow> holds S R'"]])
  show "triple (holds S R) (storage_op f) (\<lambda>x. case Inr x of Inr x \<Rightarrow> Q x | Inl _ \<Rightarrow> holds S R')
      (\<lambda>e. case Inl e of Inr x \<Rightarrow> Q x | Inl _ \<Rightarrow> holds S R')"
    using assms by simp
  show "triple (case res of Inr x \<Rightarrow> Q x | Inl _ \<Rightarrow> holds S R')
      (case res of Inr x \<Rightarrow> ret x | Inl err \<Rightarrow> fail (mapStorageError err)) Q good" for res :: "'a result"
    by (cases res) (auto intro: triple_ret triple_fail)
qed

text \<open>Writes after which nothing more is needed than a consistent world.\<close>

lemma op_good:
  assumes "\<And>r os res r'. content_inv (\<lambda>k. os k \<noteq> None) r \<Longrightarrow> (\<And>i. i \<in> S \<Longrightarrow> unused r i \<and> length i = 36) \<Longrightarrow> R r os \<Longrightarrow> f r = (res, r') \<Longrightarrow>
      content_inv (\<lambda>k. os k \<noteq> None) r' \<and> (\<forall>i. unused r i \<longrightarrow> length i = 36 \<longrightarrow> i \<notin> S \<longrightarrow> unused r' i)"
  shows "triple (holds S R) (repo_op f) good good"
proof -
  have "triple (holds S R) (repo_op f) (\<lambda>_. holds (S - S) (\<lambda>_ _. True)) (\<lambda>_. holds (S - S) (\<lambda>_ _. True))"
    by (rule triple_op) (use assms in blast)+
  then show ?thesis by simp
qed

lemma walk_good:
  assumes "\<And>has r res r'. content_inv has r \<Longrightarrow> f r = Some (res, r') \<Longrightarrow> content_inv has r' \<and> (\<forall>i. unused r i \<longrightarrow> unused r' i)"
  shows "triple (holds S R) (repo_walk f) good good"
proof -
  have "good () w'" if w: "holds S R w" and op: "repo_walk f w = Some (res, w')" for w res w'
  proof -
    from op obtain r' where r': "f (wRepo w) = Some (res, r')" and w': "w' = w\<lparr>wRepo := r'\<rparr>"
      by (auto simp: repo_walk_def split: option.splits)
    from w have "content_inv (\<lambda>k. object_at (wStorage w) k \<noteq> None) (wRepo w)" "ids_fresh S (wRepo w) (wRand w)"
      by (simp_all add: world_ok_def)
    from assms [OF this(1) r'] this(2) w w' show ?thesis
      using ids_fresh_repo [of S "wRepo w" "wRand w" S r'] by (simp add: world_ok_def)
  qed
  then show ?thesis by (intro tripleI) blast+
qed

lemma good_ret [intro]: "triple (holds S R) (ret x) good F"
  by (rule triple_ret) blast

lemma good_fail [intro]: "triple (holds S R) (fail e) Q good"
  by (rule triple_fail) blast

text \<open>Claims touch idempotency records only, which no other part of the invariant reads.\<close>

lemma claim_triple:
  assumes "\<And>r r' os. same_state r r' \<Longrightarrow> R r os \<Longrightarrow> R r' os"
  shows "triple (holds S R) (claimCreation lib svc identity scope key digest) (\<lambda>_. holds S R) good"
proof (cases "key = []")
  case True
  then show ?thesis by (auto simp: claimCreation_def intro!: triple_ret)
next
  case False
  have rest: "triple (holds (insert i S) R) (sbind (repo_op (Repo_ClaimIdempotency q)) (\<lambda>claimed.
      if idState claimed = IdempotencyPending \<and> idClaimToken claimed \<noteq> i then fail e else ret (Some q, Some claimed)))
      (\<lambda>_. holds S R) good" for i q e
  proof (rule triple_bind)
    show "triple (holds (insert i S) R) (repo_op (Repo_ClaimIdempotency q)) (\<lambda>_. holds (insert i S) R) good"
      by (rule triple_op_same_good [OF idempotency_same_state(1) assms])
  qed (auto intro!: triple_ret elim: holds_weaken)
  show ?thesis
    unfolding claimCreation_def Let_def using False
    by (auto intro!: bind_of_result bind_new_id bind_clock rest)
qed

lemma release_triple:
  assumes "\<And>r r' os. same_state r r' \<Longrightarrow> R r os \<Longrightarrow> R r' os"
  shows "triple (holds S R) (releaseKnownFailedClaim claim err) (\<lambda>_. holds S R) good"
proof -
  have "triple (holds S R) (quietly (repo_op (Repo_ReleaseIdempotency q))) (\<lambda>_. holds S R) good" for q
    by (rule triple_quietly, rule triple_op_same [OF idempotency_same_state(2) assms])
  then show ?thesis by (cases claim) (simp_all add: releaseKnownFailedClaim_def triple_ret)
qed

section \<open>Tenants and directories\<close>

lemma EnsureTenant_good: "triple (holds {} R) (Service_EnsureTenant tenantID name) good good"
  unfolding Service_EnsureTenant_def
proof (intro bind_of_result bind_new_id bind_clock op_good)
  fix i now r os res r'
  assume r: "content_inv (\<lambda>k. os k \<noteq> None) r" and i: "\<And>j. j \<in> {i} \<Longrightarrow> unused r j \<and> length j = 36"
    and op: "Repo_EnsureTenant \<lparr>tsTenantID = tenantID, tsDisplayName = name, tsRootNodeID = i, tsNow = now\<rparr> r = (res, r')"
  from i [of i] have "i \<noteq> []" "unused r i" by auto
  with EnsureTenant_content [OF r _ _ op] show "content_inv (\<lambda>k. os k \<noteq> None) r'
      \<and> (\<forall>j. unused r j \<longrightarrow> length j = 36 \<longrightarrow> j \<notin> {i} \<longrightarrow> unused r' j)" by simp
qed

lemma CreateDirectory_good:
  "triple (holds {} R) (Service_CreateDirectoryWithIdempotency lib svc ctx identity parentID name key) good good"
proof -
  have create: "triple (holds {i} (\<lambda>_ _. True)) (sbind clock_Now (\<lambda>now.
      sbind (attempt (with_env ctx (\<lambda>env. repo_op (Repo_CreateDirectory env (c now))))) (\<lambda>res.
      case res of Inl err \<Rightarrow> sbind (releaseKnownFailedClaim claim err) (\<lambda>_. fail err)
      | Inr node \<Rightarrow> ret \<lparr>doNode = node, doReplayed = False\<rparr>))) good good"
    if c: "\<And>now. cdID (c now) = i" for c i claim
  proof (rule bind_clock, rule triple_bind [OF triple_attempt [where Q = "\<lambda>_. good ()"]], rule triple_env, rule op_good)
    fix now env r os res r'
    assume r: "content_inv (\<lambda>k. os k \<noteq> None) r" and i: "\<And>j. j \<in> {i} \<Longrightarrow> unused r j \<and> length j = 36"
      and op: "Repo_CreateDirectory env (c now) r = (res, r')"
    from i [of i] have "i \<noteq> []" "unused r i" by auto
    with CreateDirectory_content [OF r _ _ op] c show "content_inv (\<lambda>k. os k \<noteq> None) r'
      \<and> (\<forall>j. unused r j \<longrightarrow> length j = 36 \<longrightarrow> j \<notin> {i} \<longrightarrow> unused r' j)" by simp
  next
    show "triple (good ()) (case res of Inl err \<Rightarrow> sbind (releaseKnownFailedClaim claim err) (\<lambda>_. fail err)
      | Inr node \<Rightarrow> ret \<lparr>doNode = node, doReplayed = False\<rparr>) good good" for res
      by (cases res) (auto intro: triple_bind [OF release_triple])
  qed
  have replay: "triple (holds S R) (replay_directory identity k) good good" for S R k
    unfolding replay_directory_def
    by (rule triple_bind [OF triple_attempt [where Q = "\<lambda>_. holds S R"]])
      (auto intro!: triple_weaken [OF triple_repo_read] split: sum.splits)
  show ?thesis
    unfolding Service_CreateDirectoryWithIdempotency_def Let_def
  proof (intro bind_of_result, clarsimp, intro bind_new_id)
    fix display normalized i
    show "triple (holds {i} R) (sbind (claimCreation lib svc identity IdempotencyCreateDirectory key
        (canonicalRequestDigest lib (directory_request_json parentID display))) (\<lambda>(claim, claimed).
        if claim_completed claimed then replay_directory identity (claim_resource claimed)
        else sbind clock_Now (\<lambda>now.
          sbind (attempt (with_env ctx (\<lambda>env. repo_op (Repo_CreateDirectory env
              \<lparr>cdIdentity = identity, cdID = i, cdParentID = parentID, cdDisplayName = display,
               cdNormalizedName = normalized, cdNow = now, cdIdempotency = claim\<rparr>)))) (\<lambda>r.
          case r of Inl err \<Rightarrow> sbind (releaseKnownFailedClaim claim err) (\<lambda>_. fail err)
           | Inr node \<Rightarrow> ret \<lparr>doNode = node, doReplayed = False\<rparr>)))) good good"
      by (rule triple_holds [where T = "{i}" and R' = "\<lambda>_ _. True"], rule triple_bind [OF claim_triple])
        (auto intro!: replay create)
  qed
qed

lemma UpdateNode_good: "triple (holds {} R) (Service_UpdateNode lib ctx identity nodeID name parentID revision) good good"
  unfolding Service_UpdateNode_def
proof (intro bind_guard bind_of_result, clarsimp, intro bind_clock triple_env walk_good)
  fix display normalized now env has r res r'
  assume "normalize_optional lib name = Inr (display, normalized)"
  then have "(display = None) = (normalized = None)"
    by (auto simp: normalize_optional_def split: option.splits sum.splits)
  moreover assume "content_inv has r" "Repo_UpdateNode env \<lparr>unIdentity = identity, unNodeID = nodeID, unDisplayName = display,
     unNormalizedName = normalized, unParentID = parentID, unExpectedRevision = revision, unNow = now\<rparr> r = Some (res, r')"
  ultimately show "content_inv has r' \<and> (\<forall>i. unused r i \<longrightarrow> unused r' i)"
    by (intro UpdateNode_content) (simp_all add: update_names_ok_def)
qed

section \<open>Recycle bin\<close>

lemma Recycle_good: "triple (holds {} R) (Service_Recycle ctx identity nodeID revision) good good"
  unfolding Service_Recycle_def
  by (intro bind_guard bind_of_result bind_clock triple_env walk_good) (rule Recycle_content)

lemma Restore_good: "triple (holds {} R) (Service_Restore ctx identity nodeID revision) good good"
  unfolding Service_Restore_def
  by (intro bind_guard bind_of_result bind_clock triple_env op_good) (use Restore_content in blast)

lemma delete_blobs_triple:
  assumes sp: "svStorage svc = sp" and gone: "\<And>r b. R r \<Longrightarrow> b \<in> set bs \<Longrightarrow> no_available r (bObjectKey b)"
  shows "triple (holds S (\<lambda>r _. R r)) (delete_blobs svc bs) (\<lambda>_. holds S (\<lambda>r _. R r)) good"
  using gone
proof (induction bs)
  case (Cons b bs)
  have "triple (holds S (\<lambda>r _. R r)) (storage_call (\<lambda>env. spDeleteObject sp env (bObjectKey b))) (\<lambda>_. holds S (\<lambda>r _. R r)) good"
    by (rule triple_call [OF triple_delete]) (use Cons.prems in simp)
  then show ?case unfolding delete_blobs.simps sp by (rule triple_bind) (use Cons in simp)
qed (simp add: triple_ret)

lemma Purge_good:
  assumes sp: "svStorage svc = sp"
  shows "triple (holds {} R) (Service_Purge svc ctx identity nodeID revision) good good"
proof -
  let ?gone = "\<lambda>plan r. \<forall>b \<in> set (ppBlobs plan). no_available r (bObjectKey b)"
  have prepare: "triple (holds {} R) (repo_op (Repo_PreparePurge identity nodeID revision now))
      (\<lambda>plan. holds {} (\<lambda>r _. ?gone plan r)) good" for now
  proof -
    have "triple (holds {} R) (repo_op (Repo_PreparePurge identity nodeID revision now))
      (\<lambda>plan. holds ({} - {}) (\<lambda>r _. ?gone plan r)) (\<lambda>_. holds ({} - {}) (\<lambda>_ _. True))"
      by (rule triple_op) (use PreparePurge_content PreparePurge_fade in blast)+
    then show ?thesis by simp
  qed
  have finish: "triple (holds {} R') (with_env ctx (\<lambda>env. repo_op (Repo_FinishPurge env identity plan now))) good good" for R' plan now
    by (intro triple_env op_good) (use FinishPurge_content in blast)
  show ?thesis
    unfolding Service_Purge_def
  proof (intro bind_guard bind_of_result bind_clock, rule triple_bind [OF prepare], rule triple_bind)
    fix plan
    show "triple (holds {} (\<lambda>r _. ?gone plan r)) (delete_blobs svc (ppBlobs plan)) (\<lambda>_. holds {} (\<lambda>r _. ?gone plan r)) good"
      by (rule delete_blobs_triple [OF sp]) blast
  qed (intro bind_clock finish)
qed

section \<open>Uploads\<close>

text \<open>The five writes that move a session along its state machine.\<close>

lemma session_op_triple:
  assumes moves: "\<And>r. moves_one i r (snd (f r))" and files: "\<And>r. same_files r (snd (f r))"
    and result: "\<And>r os s r'. R r os \<Longrightarrow> content_inv (\<lambda>k. os k \<noteq> None) r' \<Longrightarrow> f r = (Inr s, r') \<Longrightarrow> Ok s r' os"
  shows "triple (holds S R) (repo_op f) (\<lambda>s. holds S (Ok s)) good"
proof -
  have "triple (holds S R) (repo_op f) (\<lambda>s. holds (S - {}) (Ok s)) (\<lambda>_. holds (S - {}) (\<lambda>_ _. True))"
  proof (rule triple_op)
    fix r os res r' assume r: "content_inv (\<lambda>k. os k \<noteq> None) r" "R r os" and f: "f r = (res, r')"
    with moves [of r] files [of r] have "same_files r r'" "moves_one i r r'" by simp_all
    note after = moves_content [OF r(1) this]
    from after result [OF r(2) conjunct1 [OF after]] f
    show "(content_inv (\<lambda>k. os k \<noteq> None) r' \<and> (\<forall>j. unused r j \<longrightarrow> length j = 36 \<longrightarrow> j \<notin> {} \<longrightarrow> unused r' j))
      \<and> (\<forall>x. res = Inr x \<longrightarrow> Ok x r' os) \<and> (\<forall>e. res = Inl e \<longrightarrow> True)" by simp
  qed simp
  then show ?thesis by (rule triple_weaken) auto
qed

lemma cleanup_complete_triple:
  assumes "\<And>r r' os. same_state r r' \<Longrightarrow> R r os \<Longrightarrow> R r' os"
  shows "triple (holds S R) (mark_cleanup_complete identity i) (\<lambda>_. holds S R) good"
  unfolding mark_cleanup_complete_def
  by (rule bind_clock, rule triple_quietly, rule triple_op_same [OF MarkUploadCleanupComplete_same assms])

lemma abort_triple:
  assumes sp: "svStorage svc = sp"
  shows "triple (holds S R) (abortMultipart svc session) (\<lambda>_. holds S R) good"
  unfolding abortMultipart_def sp by (rule triple_call [OF triple_quiet [OF abort_inv abort_objects]])

lemma triple_dep: "(\<And>x. triple P (g x) Q F) \<Longrightarrow> triple P (\<lambda>w. g (h w) w) Q F"
  by (simp add: triple_def)

lemma start_upload_triple:
  assumes sp: "svStorage svc = sp"
  shows "triple (holds {i, b} R) (start_upload svc identity input display normalized i b claim) good good"
proof -
  let ?key = "object_key (iTenantID identity) b"
  let ?both = "\<lambda>res. case res of Inr _ \<Rightarrow> holds {i, b} R | Inl _ \<Rightarrow> good ()"
  have create: "triple (holds {i, b} R) (attempt (storage_call (\<lambda>env. spCreateMultipart sp env ?key mime ck))) ?both good" for mime ck
    by (rule triple_attempt) (simp add: triple_call [OF triple_quiet [OF create_inv create_objects]])
  have insert: "triple (holds {i, b} R) (attempt (repo_op (Repo_CreateUpload c))) (\<lambda>_. good ()) good"
    if c: "uID (cuSession c) = i" "uObjectKey (cuSession c) = ?key" for c
  proof (rule triple_attempt, rule op_good)
    fix r os res r'
    assume r: "content_inv (\<lambda>k. os k \<noteq> None) r" "\<And>j. j \<in> {i, b} \<Longrightarrow> unused r j \<and> length j = 36"
      and op: "Repo_CreateUpload c r = (res, r')"
    from CreateUpload_content [OF r(1) _ c(2) _ op] r(2) [of b] c(1) show "content_inv (\<lambda>k. os k \<noteq> None) r'
        \<and> (\<forall>j. unused r j \<longrightarrow> length j = 36 \<longrightarrow> j \<notin> {i, b} \<longrightarrow> unused r' j)" by auto
  qed
  have undo: "triple (good ()) (sbind (quietly (storage_op (\<lambda>env. spAbortMultipart sp env ?key up))) (\<lambda>_.
      sbind (releaseKnownFailedClaim claim err) (\<lambda>_. fail err))) good good" for up err
    by (rule triple_bind, rule triple_quietly, rule triple_quiet [OF abort_inv abort_objects],
        assumption, rule triple_bind [OF release_triple]) auto
  have rest: "triple (holds {i, b} R) (sbind (attempt (repo_op (Repo_CreateUpload c))) (\<lambda>r.
      case r of Inr created \<Rightarrow> ret \<lparr>uoUpload = created, uoReplayed = False\<rparr>
      | Inl err \<Rightarrow> if claim = None \<or> knownFailedCreation err
          then sbind (quietly (storage_op (\<lambda>env. spAbortMultipart sp env ?key up))) (\<lambda>_.
               sbind (releaseKnownFailedClaim claim err) (\<lambda>_. fail err)) else fail err)) good good"
    if c: "uID (cuSession c) = i" "uObjectKey (cuSession c) = ?key" for c up
    by (rule triple_bind [OF insert [OF c]]) (auto simp: undo split: sum.split)
  show ?thesis
    unfolding start_upload_def Let_def sp
  proof (rule triple_bind [OF create])
    fix res :: "string result"
    show "triple (?both res)
        (case res of Inl mapped \<Rightarrow> sbind (releaseKnownFailedClaim claim mapped) (\<lambda>_. fail mapped)
         | Inr up \<Rightarrow> sbind clock_Now (\<lambda>now w. sbind (attempt (repo_op (Repo_CreateUpload
               \<lparr>cuSession = new_session svc identity input display normalized i (spBucket sp (wStorage w)) ?key up now, cuIdempotency = claim\<rparr>))) (\<lambda>r.
             case r of Inl err \<Rightarrow> if claim = None \<or> knownFailedCreation err
                 then sbind (quietly (storage_op (\<lambda>env. spAbortMultipart sp env ?key up))) (\<lambda>_.
                      sbind (releaseKnownFailedClaim claim err) (\<lambda>_. fail err)) else fail err
             | Inr created \<Rightarrow> ret \<lparr>uoUpload = created, uoReplayed = False\<rparr>) w)) good good"
    proof (cases res)
      case (Inl e)
      then show ?thesis by (auto intro: triple_bind [OF release_triple])
    next
      case (Inr up)
      then show ?thesis
        by (simp only: sum.case, intro bind_clock)
          (rule triple_dep [of _ _ _ _ "\<lambda>w. spBucket sp (wStorage w)"], rule rest, simp_all add: new_session_def)
    qed
  qed
qed

lemma CreateUpload_good:
  assumes sp: "svStorage svc = sp"
  shows "triple (holds {} R) (Service_CreateUploadWithIdempotency lib svc identity input key) good good"
proof -
  have parent: "triple (holds {} R) (upload_parent identity p) (\<lambda>_. holds {} R) good" for p
    unfolding upload_parent_def
    by (rule triple_bind [OF triple_attempt [where Q = "\<lambda>_. holds {} R"]])
      (auto intro!: triple_weaken [OF triple_repo_read] triple_ret split: sum.splits)
  have replay: "triple (holds S R') (replay_upload identity k) good good" for S R' k
    unfolding replay_upload_def
    by (rule triple_bind [OF triple_attempt [where Q = "\<lambda>_. holds S R'"]])
      (auto intro!: triple_weaken [OF triple_repo_read] split: sum.splits)
  show ?thesis
    unfolding Service_CreateUploadWithIdempotency_def Let_def
  proof (intro bind_of_result, clarsimp, intro bind_of_result, rule triple_bind [OF parent], intro bind_new_id)
    fix display normalized i b
    show "triple (holds {b, i} R) (sbind (claimCreation lib svc identity IdempotencyCreateUpload key
        (canonicalRequestDigest lib (upload_request_json input display))) (\<lambda>(claim, claimed).
        if claim_completed claimed then replay_upload identity (claim_resource claimed)
        else start_upload svc identity input display normalized i b claim)) good good"
      by (rule triple_holds [where T = "{i, b}" and R' = "\<lambda>_ _. True"], rule triple_bind [OF claim_triple])
        (auto intro!: replay start_upload_triple [OF sp])
  qed
qed

text \<open>An aborted or failed session's object is free to be deleted.\<close>

lemma AbortUpload_free:
  assumes "Repo_AbortUpload identity i target now r = (Inr s, r')" and "content_inv has r'"
  shows "no_available r' (uObjectKey s)"
proof -
  from assms(1) have "gget (uploads r') i = Some s \<and> uStatus s \<noteq> UploadCommitted"
    by (auto simp: Repo_AbortUpload_def Let_def uploadFor_Inr split: sum.splits if_splits)
  then show ?thesis using open_session_no_available [OF assms(2)] by blast
qed

lemma FailUploadCompletion_free:
  assumes "Repo_FailUploadCompletion identity i digest code now r = (Inr s, r')" and "uploadFor r identity i = Inr session"
    and "content_inv has r'"
  shows "no_available r' (uObjectKey session)"
proof -
  from assms(1,2) have "gget (uploads r') i = Some s \<and> uStatus s \<noteq> UploadCommitted \<and> uObjectKey s = uObjectKey session"
    by (auto simp: Repo_FailUploadCompletion_def Let_def uploadFor_Inr move_upload_def split: sum.splits if_splits)
  then show ?thesis using open_session_no_available [OF assms(3)] by metis
qed

lemma no_available_state: "same_state r r' \<Longrightarrow> no_available r key \<Longrightarrow> no_available r' key"
  by (simp add: same_state_def same_content_def no_available_def)

lemma SignUploadPart_good:
  assumes sp: "svStorage svc = sp"
  shows "triple (holds {} R) (Service_SignUploadPart svc identity uploadID n ck) good good"
proof -
  have expire: "triple (holds S R') (expire_upload svc identity session uploadID) good good" for S R' session
    unfolding expire_upload_def
    by (rule bind_clock, rule triple_bind [OF session_op_triple [OF AbortUpload_moves session_ops_files(5), where Ok = "\<lambda>_ _ _. True"]])
      (auto intro: triple_bind [OF abort_triple [OF sp]])
  have mark: "triple (holds S R') (mark_uploading identity session uploadID) (\<lambda>_. good ()) good" for S R' session
    unfolding mark_uploading_def
    by (auto intro!: bind_clock triple_weaken [OF session_op_triple [OF MarkUploading_moves session_ops_files(1), where Ok = "\<lambda>_ _ _. True"]])
  have sign: "triple (good ()) (storage_call (\<lambda>env. spSignUploadPart sp env key up n ck ttl)) (\<lambda>_. good ()) good" for key up ttl
    by (rule triple_call [OF triple_quiet [OF sign_inv sign_objects]])
  have signature: "triple (good ()) (sbind (repo_op (Repo_RecordPartSignature identity uploadID sig)) (\<lambda>_. ret signed)) good good" for sig and signed :: SignedPart
    by (rule triple_bind [OF triple_op_same_good [OF RecordPartSignature_same]]) auto
  show ?thesis
    unfolding Service_SignUploadPart_def sp
  proof (intro bind_of_result bind_guard bind_read bind_clock triple_if expire)
    fix session
    show "triple (holds {} (\<lambda>r os. R r os \<and> Repo_Upload identity uploadID r = Inr session))
        (sbind (mark_uploading identity session uploadID) (\<lambda>session.
         sbind (storage_call (\<lambda>env. spSignUploadPart sp env (uObjectKey session) (uStorageUploadID session) n ck (svUploadSignTTL svc)))
           (\<lambda>(signed, bound). if bound then sbind clock_Now (\<lambda>_. sbind (repo_op (Repo_RecordPartSignature identity uploadID
                \<lparr>psPartNumber = n, psSize = signedPartSize session n, psSHA256 = cValue ck\<rparr>)) (\<lambda>_. ret signed)) else ret signed))) good good"
      by (rule triple_bind [OF mark], rule triple_bind [OF sign]) (auto intro!: bind_clock signature)
  qed auto
qed

lemma AbortUpload_good:
  assumes sp: "svStorage svc = sp"
  shows "triple (holds {} R) (Service_AbortUpload svc identity uploadID) good good"
  unfolding Service_AbortUpload_def sp
proof (intro bind_of_result bind_clock, rule triple_bind)
  let ?free = "\<lambda>(s :: UploadSession) r. no_available r (uObjectKey s)"
  show "triple (holds {} R) (repo_op (Repo_AbortUpload identity uploadID UploadAborted now)) (\<lambda>s. holds {} (\<lambda>r _. ?free s r)) good" for now
    by (rule session_op_triple [OF AbortUpload_moves session_ops_files(5)]) (rule AbortUpload_free)
  fix session :: UploadSession
  have delete: "triple (holds {} (\<lambda>r _. ?free session r)) (storage_call (\<lambda>env. spDeleteObject sp env (uObjectKey session)))
      (\<lambda>_. holds {} (\<lambda>r _. ?free session r)) good"
    by (rule triple_call [OF triple_delete])
  have cleanup: "triple (holds {} (\<lambda>r _. ?free session r)) (mark_cleanup_complete identity (uID session)) good good"
    by (rule triple_weaken [OF cleanup_complete_triple]) (auto intro: no_available_state)
  show "triple (holds {} (\<lambda>r _. ?free session r))
      (if uStatus session = UploadFailed \<and> failedUploadHasObject (uFailureCode session)
       then sbind (storage_call (\<lambda>env. spDeleteObject sp env (uObjectKey session))) (\<lambda>_. mark_cleanup_complete identity (uID session))
       else sbind (abortMultipart svc session) (\<lambda>_. mark_cleanup_complete identity (uID session))) good good"
    by (intro triple_if) (rule triple_bind [OF delete cleanup], rule triple_bind [OF abort_triple [OF sp] cleanup])
qed

section \<open>Completion\<close>

lemma cleanup_after_good:
  assumes "triple (holds S R) m (\<lambda>_. holds S R) (\<lambda>_. holds S R)" and "\<And>r r' os. same_state r r' \<Longrightarrow> R r os \<Longrightarrow> R r' os"
  shows "triple (holds S R) (cleanup_after m identity i) good good"
  unfolding cleanup_after_def
proof (rule triple_bind [OF triple_attempt [where Q = "\<lambda>_. holds S R"]], rule assms(1))
  have "triple (holds S R) (mark_cleanup_complete identity i) good good"
    by (rule triple_weaken [OF cleanup_complete_triple [OF assms(2)]]) auto
  then show "triple (holds S R) (case res of Inr _ \<Rightarrow> mark_cleanup_complete identity i | Inl _ \<Rightarrow> ret ()) good good" for res
    by (cases res) auto
qed

lemma failUploadCompletion_good:
  assumes sp: "svStorage svc = sp"
  shows "triple (holds S (\<lambda>r os. session_held identity session r \<and> R r os)) (failUploadCompletion svc identity session digest code present) good good"
proof -
  let ?free = "\<lambda>r. no_available r (uObjectKey session)"
  have rejected: "triple (holds S (\<lambda>r os. session_held identity session r \<and> R r os))
      (repo_op (Repo_FailUploadCompletion identity (uID session) digest code now)) (\<lambda>_. holds S (\<lambda>r _. ?free r)) good" for now
    by (rule session_op_triple [OF FailUploadCompletion_moves session_ops_files(3)])
      (auto simp: session_held_def intro: FailUploadCompletion_free)
  have delete: "triple (holds S (\<lambda>r _. ?free r)) (cleanup_after (storage_op (\<lambda>env. spDeleteObject sp env (uObjectKey session))) identity i) good good" for i
    by (rule cleanup_after_good [OF triple_delete]) (auto intro: no_available_state)
  have abort: "triple (holds S (\<lambda>r _. ?free r)) (cleanup_after (storage_op (\<lambda>env. spAbortMultipart sp env key up)) identity i) good good" for key up i
    by (rule cleanup_after_good [OF triple_quiet [OF abort_inv abort_objects]]) (auto intro: no_available_state)
  show ?thesis
    unfolding failUploadCompletion_def sp
    by (rule bind_clock, rule triple_bind [OF rejected], rule triple_if) (rule delete, rule abort)
qed

lemma complete_object_triple:
  assumes sp: "svStorage svc = sp"
  shows "triple (holds S (\<lambda>r _. session_held identity session r)) (complete_object svc identity session digest ps)
    (\<lambda>info. holds S (\<lambda>r os. session_held identity session r \<and> os (uObjectKey session) = Some info \<and> oObjectKey info = uObjectKey session)) good"
proof -
  let ?P = "holds S (\<lambda>r _. session_held identity session r)"
  let ?Q = "\<lambda>info. holds S (\<lambda>r os. session_held identity session r \<and> os (uObjectKey session) = Some info \<and> oObjectKey info = uObjectKey session)"
  have stat: "triple ?P (storage_op (\<lambda>env. spStatObject sp env (uObjectKey session))) ?Q (\<lambda>_. ?P)" by (rule triple_stat)
  have complete: "triple ?P (attempt (storage_op (\<lambda>env. spCompleteMultipart sp env key up ps))) (\<lambda>_. ?P) good" for key up
    by (rule triple_attempt, rule triple_complete)
  have rejected: "triple ?P (sbind (failUploadCompletion svc identity session digest code present) (\<lambda>_. fail e)) Q good" for code present e Q
    by (rule triple_bind [OF failUploadCompletion_good [OF sp, where R = "\<lambda>_ _. True", simplified]]) auto
  have stat_result: "triple ?P (attempt (storage_op (\<lambda>env. spStatObject sp env (uObjectKey session))))
      (\<lambda>res. case res of Inr info \<Rightarrow> ?Q info | Inl _ \<Rightarrow> ?P) good"
    by (rule triple_attempt) (simp add: stat)
  show ?thesis
    unfolding complete_object_def Let_def sp
  proof (rule triple_if, rule triple_call [OF stat], rule triple_bind [OF complete], rule triple_bind [OF stat_result])
    fix completed stat :: "ObjectInfo result"
    show "triple (case stat of Inr info \<Rightarrow> ?Q info | Inl _ \<Rightarrow> ?P)
        (case stat of
           Inr object \<Rightarrow> ret object
         | Inl statErr \<Rightarrow>
             (case completed of
                   Inr _ \<Rightarrow> fail (Retryable CodeDependencyUnavailable ''completed object is not yet readable'' (Some statErr))
                 | Inl completeErr \<Rightarrow>
                        if CodeOf (mapStorageError completeErr) = CodeInvalidRequest \<and> CodeOf (mapStorageError statErr) = CodeNotFound
                        then sbind (failUploadCompletion svc identity session digest UploadFailureStorageRejected False)
                               (\<lambda>_. fail (mapStorageError completeErr))
                        else if CodeOf (mapStorageError statErr) = CodeDependencyUnavailable then fail (mapStorageError statErr)
                        else if CodeOf (mapStorageError completeErr) = CodeNotFound \<and> CodeOf (mapStorageError statErr) = CodeNotFound
                        then fail (Retryable CodeDependencyUnavailable ''multipart completion result is not yet observable'' (Some completeErr))
                        else if CodeOf (mapStorageError completeErr) = CodeDependencyUnavailable then fail (mapStorageError completeErr)
                        else fail (Retryable CodeDependencyUnavailable ''multipart completion result is unknown'' (Some completeErr)))) ?Q good"
      by (cases stat; cases completed) (auto intro!: triple_ret triple_if rejected)
  qed
qed

lemma normalizeObjectChecksum_key: "normalizeObjectChecksum raw declared = Inr object \<Longrightarrow> oObjectKey object = oObjectKey raw"
  by (auto simp: normalizeObjectChecksum_def split: ChecksumStatus.splits if_splits)

lemma check_object_triple:
  assumes sp: "svStorage svc = sp"
  shows "triple (holds S (\<lambda>r os. session_held identity session r \<and> os (uObjectKey session) = Some raw \<and> oObjectKey raw = uObjectKey session))
    (check_object svc identity session digest raw)
    (\<lambda>object. holds S (\<lambda>r os. session_held identity session r \<and> os (uObjectKey session) \<noteq> None \<and> oObjectKey object = uObjectKey session)) good"
proof -
  have rejected: "triple (holds S (\<lambda>r os. session_held identity session r \<and> R r os))
      (sbind (failUploadCompletion svc identity session digest code present) (\<lambda>_. fail e)) Q good" for R code present e Q
    by (rule triple_bind [OF failUploadCompletion_good [OF sp]]) auto
  show ?thesis
    unfolding check_object_def
    by (auto intro!: triple_if rejected triple_ret split: sum.split elim!: holds_weaken dest: normalizeObjectChecksum_key)
qed

lemma mark_object_completed_triple:
  "triple (holds S (\<lambda>r os. session_held identity session r \<and> os (uObjectKey session) \<noteq> None \<and> oObjectKey object = uObjectKey session))
    (mark_object_completed identity session (uID session) object)
    (\<lambda>s. holds S (\<lambda>r os. (uID s = uID session \<and> oObjectKey object = uObjectKey s) \<and> session_held identity s r \<and> os (uObjectKey s) \<noteq> None)) good"
proof -
  let ?P = "\<lambda>r (os :: string \<Rightarrow> ObjectInfo option). session_held identity session r \<and> os (uObjectKey session) \<noteq> None \<and> oObjectKey object = uObjectKey session"
  let ?Q = "\<lambda>s r (os :: string \<Rightarrow> ObjectInfo option). (uID s = uID session \<and> oObjectKey object = uObjectKey s) \<and> session_held identity s r \<and> os (uObjectKey s) \<noteq> None"
  have "?Q s r' os" if "?P r os" "Repo_MarkObjectCompleted identity (uID session) object now r = (Inr s, r')" for now r r' s os
    using that by (auto simp: Repo_MarkObjectCompleted_def session_held_def Let_def uploadFor_Inr move_upload_def split: sum.splits if_splits)
  then have "triple (holds S ?P) (repo_op (Repo_MarkObjectCompleted identity (uID session) object now)) (\<lambda>s. holds S (?Q s)) good" for now
    by (intro session_op_triple [OF MarkObjectCompleted_moves session_ops_files(4)])
  then show ?thesis
    unfolding mark_object_completed_def by (auto intro!: bind_clock triple_ret elim!: holds_weaken)
qed

lemma commit_command_ready:
  assumes "content_inv has r" and "session_held identity session r"
    and "unused r b" "unused r n" "unused r v" "length n = 36"
  shows "commit_ready r (commit_command identity session (uID session) digest ps object b n v now)"
proof -
  have "n \<noteq> []" using assms(6) by auto
  with assms show ?thesis
    by (simp add: commit_ready_def commit_command_def commit_node_def commit_version_def commit_blob_def Let_def
        unused_def visible_def session_held_def uploadFor_Inr zero_Node_def)
qed

lemma CommitUpload_triple:
  "triple (holds {v, n, b} (\<lambda>r os. session_held identity session r \<and> os (uObjectKey session) \<noteq> None))
    (with_env ctx (\<lambda>env. repo_op (Repo_CommitUpload env (commit_command identity session (uID session) digest ps object b n v now))))
    good (\<lambda>e. holds {} (\<lambda>r _. CodeOf e = CodeNameConflict \<or> CodeOf e = CodeNotFound \<longrightarrow> no_available r (uObjectKey session)))"
  if key: "oObjectKey object = uObjectKey session"
proof (rule triple_env)
  fix env
  let ?c = "commit_command identity session (uID session) digest ps object b n v now"
  let ?P = "\<lambda>r (os :: string \<Rightarrow> ObjectInfo option). session_held identity session r \<and> os (uObjectKey session) \<noteq> None"
  let ?free = "\<lambda>e r (os :: string \<Rightarrow> ObjectInfo option). CodeOf e = CodeNameConflict \<or> CodeOf e = CodeNotFound \<longrightarrow> no_available r (uObjectKey session)"
  have c: "cmIdentity ?c = identity" "cmSessionID ?c = uID session" "nID (cmNode ?c) = n" "vID (cmVersion ?c) = v" "bID (cmBlob ?c) = b"
    "bObjectKey (cmBlob ?c) = uObjectKey session"
    by (simp_all add: commit_command_def commit_node_def commit_version_def commit_blob_def key)
  have "triple (holds {v, n, b} ?P) (repo_op (Repo_CommitUpload env ?c))
      (\<lambda>_. holds ({v, n, b} - {v, n, b}) (\<lambda>_ _. True)) (\<lambda>e. holds ({v, n, b} - {v, n, b}) (?free e))"
  proof (rule triple_op)
    fix r os res r'
    assume r: "content_inv (\<lambda>k. os k \<noteq> None) r" and ids: "\<And>i. i \<in> {v, n, b} \<Longrightarrow> unused r i \<and> length i = 36"
      and P: "?P r os" and op: "Repo_CommitUpload env ?c r = (res, r')"
    have ready: "commit_ready r ?c" using commit_command_ready [OF r] P ids by blast
    have "content_inv (\<lambda>k. os k \<noteq> None) r' \<and> (\<forall>i. unused r i \<longrightarrow> i \<notin> {nID (cmNode ?c), vID (cmVersion ?c), bID (cmBlob ?c)} \<longrightarrow> unused r' i)"
      by (rule CommitUpload_content [OF r ready _ _ op]) (use P in \<open>simp_all add: c session_held_def uploadFor_Inr\<close>)
    moreover have "?free e r' os" if "res = Inl e" for e
      using CommitUpload_rejected [OF r, of ?c session] op that P by (auto simp: c session_held_def)
    ultimately show "(content_inv (\<lambda>k. os k \<noteq> None) r' \<and> (\<forall>i. unused r i \<longrightarrow> length i = 36 \<longrightarrow> i \<notin> {v, n, b} \<longrightarrow> unused r' i))
        \<and> (\<forall>x. res = Inr x \<longrightarrow> True) \<and> (\<forall>e. res = Inl e \<longrightarrow> ?free e r' os)" by (simp add: c)
  qed simp
  then show "triple (holds {v, n, b} ?P) (repo_op (Repo_CommitUpload env ?c)) good (\<lambda>e. holds {} (?free e))" by simp
qed

lemma commit_object_good:
  assumes sp: "svStorage svc = sp" and key: "oObjectKey object = uObjectKey session"
  shows "triple (holds {} (\<lambda>r os. session_held identity session r \<and> os (uObjectKey session) \<noteq> None))
    (commit_object svc ctx identity session (uID session) digest ps object) good good"
proof -
  let ?after = "\<lambda>res. case res of Inr _ \<Rightarrow> good ()
    | Inl e \<Rightarrow> holds {} (\<lambda>r _. CodeOf e = CodeNameConflict \<or> CodeOf e = CodeNotFound \<longrightarrow> no_available r (uObjectKey session))"
  have delete: "triple (holds {} (\<lambda>r _. no_available r (uObjectKey session)))
      (sbind (cleanup_after (storage_op (\<lambda>env. spDeleteObject sp env (uObjectKey session))) identity i) (\<lambda>_. fail e)) Q good" for i e Q
    by (rule triple_bind [OF cleanup_after_good [OF triple_delete]]) (auto intro: no_available_state)
  show ?thesis
    unfolding commit_object_def sp
  proof (intro bind_new_id bind_clock, rule triple_bind [OF triple_attempt [where Q = ?after]])
    fix b n v now
    show "triple (holds {v, n, b} (\<lambda>r os. session_held identity session r \<and> os (uObjectKey session) \<noteq> None))
      (with_env ctx (\<lambda>env. repo_op (Repo_CommitUpload env (commit_command identity session (uID session) digest ps object b n v now))))
      (\<lambda>x. ?after (Inr x)) (\<lambda>e. ?after (Inl e))"
      using CommitUpload_triple [OF key] by simp
  next
    fix res :: "(CompleteResult \<times> bool) result"
    show "triple (?after res) (case res of
          Inl err \<Rightarrow> if CodeOf err = CodeNameConflict \<or> CodeOf err = CodeNotFound
            then sbind (cleanup_after (storage_op (\<lambda>env. spDeleteObject sp env (uObjectKey session))) identity (uID session)) (\<lambda>_. fail err)
            else fail err
        | Inr (result, first) \<Rightarrow> ret \<lparr>coUpload = crUpload result, coNode = crNode result, coFirst = first\<rparr>) good good"
      by (cases res) (auto intro!: triple_if delete)
  qed
qed

lemma CompleteUpload_good:
  assumes sp: "svStorage svc = sp"
  shows "triple (holds {} R) (Service_CompleteUpload lib svc ctx identity uploadID ps) good good"
proof -
  let ?known = "\<lambda>session r. uID session = uploadID \<and> uploadFor r identity uploadID = Inr session"
  have begin_complete: "triple (holds {} R) (repo_op (Repo_BeginComplete identity uploadID digest ps now))
      (\<lambda>session. holds {} (\<lambda>r _. ?known session r)) good" for digest now
  proof (rule session_op_triple [OF BeginComplete_moves session_ops_files(2)])
    fix r os session r'
    assume "content_inv (\<lambda>k. os k \<noteq> None) r'" and op: "Repo_BeginComplete identity uploadID digest ps now r = (Inr session, r')"
    moreover from op have "uploadFor r' identity uploadID = Inr session"
      by (auto simp: Repo_BeginComplete_def Let_def uploadFor_Inr split: sum.splits if_splits)
    ultimately show "?known session r'" by (simp add: content_inv_def upload_keys_def uploadFor_Inr)
  qed
  have replay: "triple (holds {} (\<lambda>r _. ?known session r)) (sbind (with_env ctx (\<lambda>env. repo_op (Repo_CommitUpload env (zero_commit identity uploadID digest))))
      (\<lambda>(result, _). ret \<lparr>coUpload = crUpload result, coNode = crNode result, coFirst = False\<rparr>)) good good"
    if "uStatus session = UploadCommitted" for session digest
  proof (rule triple_bind [where R = "\<lambda>_. good ()"], rule triple_env, rule op_good)
    fix env r os res r'
    assume "content_inv (\<lambda>k. os k \<noteq> None) r" "?known session r" "Repo_CommitUpload env (zero_commit identity uploadID digest) r = (res, r')"
    with that show "content_inv (\<lambda>k. os k \<noteq> None) r' \<and> (\<forall>i. unused r i \<longrightarrow> length i = 36 \<longrightarrow> i \<notin> {} \<longrightarrow> unused r' i)"
      by (auto simp: Repo_CommitUpload_def zero_commit_def Let_def split: if_splits)
  qed auto
  have finish: "triple (holds {} (\<lambda>r _. ?known session r)) (sbind (complete_object svc identity session digest ps) (\<lambda>raw.
      sbind (check_object svc identity session digest raw) (\<lambda>object.
      sbind (mark_object_completed identity session uploadID object) (\<lambda>session.
      commit_object svc ctx identity session uploadID digest ps object)))) good good"
    if open_: "uStatus session \<noteq> UploadCommitted" for session digest
  proof (rule triple_assume)
    show "uID session = uploadID" if "holds {} (\<lambda>r _. ?known session r) w" for w using that by (simp add: world_ok_def)
    assume uid: "uID session = uploadID"
    show "triple (holds {} (\<lambda>r _. ?known session r)) (sbind (complete_object svc identity session digest ps) (\<lambda>raw.
      sbind (check_object svc identity session digest raw) (\<lambda>object.
      sbind (mark_object_completed identity session uploadID object) (\<lambda>session.
      commit_object svc ctx identity session uploadID digest ps object)))) good good"
    proof (rule triple_holds [where T = "{}" and R' = "\<lambda>r _. session_held identity session r"],
        rule triple_bind [OF complete_object_triple [OF sp]], rule triple_bind [OF check_object_triple [OF sp]],
        rule triple_bind [OF mark_object_completed_triple [where session = session, unfolded uid]])
      fix object s
      show "triple (holds {} (\<lambda>r os. (uID s = uploadID \<and> oObjectKey object = uObjectKey s) \<and> session_held identity s r \<and> os (uObjectKey s) \<noteq> None))
        (commit_object svc ctx identity s uploadID digest ps object) good good"
      proof (rule triple_assume)
        show "uID s = uploadID \<and> oObjectKey object = uObjectKey s"
          if "holds {} (\<lambda>r os. (uID s = uploadID \<and> oObjectKey object = uObjectKey s) \<and> session_held identity s r \<and> os (uObjectKey s) \<noteq> None) w" for w
          using that by (simp add: world_ok_def)
        assume s: "uID s = uploadID \<and> oObjectKey object = uObjectKey s"
        then show "triple (holds {} (\<lambda>r os. (uID s = uploadID \<and> oObjectKey object = uObjectKey s) \<and> session_held identity s r \<and> os (uObjectKey s) \<noteq> None))
          (commit_object svc ctx identity s uploadID digest ps object) good good"
          using commit_object_good [OF sp, of object s identity ctx digest ps] by simp
      qed
    qed (use uid open_ in \<open>auto simp: session_held_def\<close>)
  qed
  show ?thesis
    unfolding Service_CompleteUpload_def Let_def
    by (intro bind_of_result bind_clock, rule triple_bind [OF begin_complete], rule triple_if) (rule replay, assumption, rule finish)
qed

section \<open>Reads that call the storage\<close>

lemma ListUploadParts_good:
  assumes sp: "svStorage svc = sp"
  shows "triple (holds {} R) (Service_ListUploadParts svc identity uploadID limit) good good"
proof -
  have parts: "triple (holds {} R') (sbind (attempt (storage_op (\<lambda>env. spListParts sp env key up))) (\<lambda>r.
      case r of Inl err \<Rightarrow> if CodeOf err = CodeNotFound then fail e else fail (mapStorageError err)
      | Inr stored \<Rightarrow> of_result (g stored))) good good" for R' key up e and g :: "StoredPart list \<Rightarrow> UploadPartListing result"
    by (rule triple_bind, rule triple_attempt, rule triple_quiet [OF list_inv list_objects])
      (auto simp: triple_def of_result_def fail_def split: sum.splits)
  show ?thesis
    unfolding Service_ListUploadParts_def Let_def sp
    by (intro bind_of_result bind_read bind_clock triple_if good_ret parts)
qed

lemma Download_good:
  assumes sp: "svStorage svc = sp"
  shows "triple (holds {} R) (Service_Download svc identity nodeID) good good"
  unfolding Service_Download_def sp
proof (intro bind_of_result bind_read, clarsimp)
  fix node blob
  show "triple (holds {} (\<lambda>r os. R r os \<and> Repo_DownloadBlob identity nodeID r = Inr (node, blob)))
    (storage_call (\<lambda>env. spSignDownload sp env (bObjectKey blob) (nDisplayName node) (svDownloadSignTTL svc))) good good"
    by (rule triple_weaken [OF triple_call [OF triple_quiet [OF download_inv download_objects]]]) auto
qed

text \<open>A visible file of a consistent world can be downloaded.\<close>

lemma Download_succeeds:
  assumes sp: "svStorage svc = sp" and w: "holds {} R w" and i: "ValidID i"
    and n: "activeNode (wRepo w) (iTenantID identity) i = Some n" "nKind n = NodeFile"
  shows "\<exists>d w'. Service_Download svc identity i w = Some (Inr d, w')"
proof -
  from w have inv: "file_inv (wRepo w)" "key_inv (\<lambda>k. object_at (wStorage w) k \<noteq> None) (wRepo w)"
    by (auto simp: world_ok_def content_inv_def)
  obtain b where b: "Repo_DownloadBlob identity i (wRepo w) = Inr (n, b)" "bStatus b = BlobAvailable"
    using DownloadBlob_ok [OF inv(1) n] by blast
  from b(1) obtain k where "gget (blobs (wRepo w)) k = Some b"
    by (auto simp: Repo_DownloadBlob_def DownloadBlob_version_def split: option.splits if_splits sum.splits)
  with b(2) inv(2) have "object_at (wStorage w) (bObjectKey b) \<noteq> None" unfolding key_inv_def by blast
  from download_ok [OF this] obtain d where "fst (spSignDownload sp \<lparr>seRand = wRand w 0, seNow = wClock w 0\<rparr>
      (bObjectKey b) (nDisplayName n) (svDownloadSignTTL svc) (wStorage w)) = Inr d" by blast
  with b i show ?thesis
    by (auto simp: Service_Download_def sp svc_defs validateID_def split: prod.splits)
qed

end

end
