(* ===== verification/Service_Idempotency.thy ===== *)
theory Service_Idempotency
  imports Drive_Service
begin

text \<open>
  What the idempotency keys of the creating methods promise, through the service: a retry with the
  same key and payload returns the directory of the first call and creates nothing. The theory also
  shows where the in-memory repository breaks the promise: a creation whose audit event
  cannot be appended is undone, but its key stays bound to the directory that is gone.
\<close>

section \<open>Claims\<close>

definition claim_for :: "Lib \<Rightarrow> 's Service \<Rightarrow> Identity \<Rightarrow> IdempotencyScope \<Rightarrow> string \<Rightarrow> string \<Rightarrow> string \<Rightarrow> time \<Rightarrow> IdempotencyRequest" where
  "claim_for lib s identity scope key digest token now =
     \<lparr>irIdentity = identity, irScope = scope, irKeyHash = sha256Hex lib key, irRequestDigest = digest, irClaimToken = token,
      irLockedUntil = now + svIdempotencyClaimTTL s, irExpiresAt = now + svIdempotencyRetention s, irNow = now\<rparr>"

definition same_repo :: "Repository \<Rightarrow> Repository \<Rightarrow> bool" where
  "same_repo r r' \<longleftrightarrow> (\<exists>m. r' = r\<lparr>idempotency := m\<rparr>)"

lemma claim_for_find: "find_record r (claim_for lib s identity scope key d t n) = find_record r (claim_for lib s identity scope key d' t' n')"
  by (rule mi.find_key) (simp_all add: claim_for_def)

text \<open>A claim through the service is a claim of the repository, in the world the draws and the clock leave.\<close>

lemma claimCreation_eq:
  assumes "key \<noteq> []" and "NewID (wRand w 0) = Inr token"
  shows "claimCreation lib s identity scope key digest w =
    (case ValidateIdempotencyKey key of
       Inl e \<Rightarrow> Some (Inl e, w)
     | Inr _ \<Rightarrow>
         let q = claim_for lib s identity scope key digest token (wClock w 0);
             (res, r') = Repo_ClaimIdempotency q (wRepo w);
             w' = w\<lparr>wRand := \<lambda>n. wRand w (Suc n), wClock := \<lambda>n. wClock w (Suc n), wRepo := r'\<rparr>
         in (case res of
               Inl e \<Rightarrow> Some (Inl e, w')
             | Inr rcd \<Rightarrow>
                 if idState rcd = IdempotencyPending \<and> idClaimToken rcd \<noteq> token
                 then Some (Inl (E CodeInternal ''repository returned an idempotency claim owned by another request''), w')
                 else Some (Inr (Some q, Some rcd), w')))"
  using assms by (simp add: claimCreation_def claim_for_def sbind_def of_result_def new_id_def draw_def ret_def fail_def clock_Now_def
      repo_op_def Let_def split: sum.split prod.splits)

lemma CreateDirectory_completes:
  assumes op: "Repo_CreateDirectory env c r = (Inr node, r')" and q: "cdIdempotency c = Some q"
  shows "\<exists>rcd rcd'. find_record r q = Some rcd \<and> idState rcd = IdempotencyPending \<and> find_record r' q = Some rcd'
    \<and> idState rcd' = IdempotencyCompleted \<and> idResourceID rcd' = cdID c \<and> idRequestDigest rcd' = irRequestDigest q
    \<and> idExpiresAt rcd' = idExpiresAt rcd"
    and "gget (nodes r') (cdID c) = Some node" and "nTenantID node = iTenantID (cdIdentity c)" and "nKind node = NodeDirectory"
proof -
  from CreateDirectory_effect [OF op] have node: "node = new_directory c" "gget (nodes r') (cdID c) = Some node" by auto
  then show "gget (nodes r') (cdID c) = Some node" "nTenantID node = iTenantID (cdIdentity c)" "nKind node = NodeDirectory"
    by (simp_all add: new_directory_def)
  from op q obtain r1 where fin: "finish_claim q (cdID c) (cdNow c) r = (Inr (), r1)" and "idempotency r' = idempotency r1"
    by (auto simp: Repo_CreateDirectory_def finish_claim_def Let_def new_directory_def split: option.splits if_splits prod.splits sum.splits
        dest!: appendAuditLocked_pair)
  then have "find_record r' q = find_record r1 q" by (simp add: find_record_def)
  with mi.finish_owner [OF fin] show "\<exists>rcd rcd'. find_record r q = Some rcd \<and> idState rcd = IdempotencyPending \<and> find_record r' q = Some rcd'
    \<and> idState rcd' = IdempotencyCompleted \<and> idResourceID rcd' = cdID c \<and> idRequestDigest rcd' = irRequestDigest q
    \<and> idExpiresAt rcd' = idExpiresAt rcd" by metis
qed

section \<open>The first call\<close>

lemma claimCreation_fresh:
  assumes op: "claimCreation lib s identity scope key digest w = Some (Inr (claim, claimed), w1)" and key: "key \<noteq> []"
    and none: "\<And>d t n. find_record (wRepo w) (claim_for lib s identity scope key d t n) = None"
  obtains token rcd where "claim = Some (claim_for lib s identity scope key digest token (wClock w 0))" "claimed = Some rcd"
    "idState rcd = IdempotencyPending" "idExpiresAt rcd = wClock w 0 + svIdempotencyRetention s"
    "find_record (wRepo w1) (claim_for lib s identity scope key digest token (wClock w 0)) = Some rcd"
    "ValidateIdempotencyRequest (claim_for lib s identity scope key digest token (wClock w 0)) = Inr ()"
    "ValidateIdempotencyKey key = Inr ()"
proof -
  from op key obtain token where token: "NewID (wRand w 0) = Inr token"
    by (cases "NewID (wRand w 0)") (auto simp: claimCreation_def new_id_def sbind_def draw_def fail_def of_result_def split: sum.splits)
  let ?q = "claim_for lib s identity scope key digest token (wClock w 0)"
  obtain res r' where claim: "Repo_ClaimIdempotency ?q (wRepo w) = (res, r')" by fastforce
  from op claim have out: "ValidateIdempotencyKey key = Inr ()" "claim = Some ?q" "res = Inr (the claimed)" "claimed \<noteq> None" "wRepo w1 = r'"
    by (auto simp: claimCreation_eq [OF key token] Let_def split: sum.splits if_splits)
  have valid: "ValidateIdempotencyRequest ?q = Inr ()"
    using claim out(3) by (auto simp: Repo_ClaimIdempotency_def split: sum.splits)
  from mi.claim_new [OF valid none] claim out obtain rcd where "claimed = Some rcd" "find_record r' ?q = Some rcd"
    "idState rcd = IdempotencyPending" "idExpiresAt rcd = irExpiresAt ?q" by auto
  with that [of token rcd] out valid show thesis by (simp add: claim_for_def)
qed

lemma first_creation:
  assumes op: "Service_CreateDirectoryWithIdempotency lib s ctx identity parentID name key w = Some (Inr out, w1)" and key: "key \<noteq> []"
    and none: "\<And>d t n. find_record (wRepo w) (claim_for lib s identity IdempotencyCreateDirectory key d t n) = None"
  obtains display normalized token rcd where "validateID parentID = Inr ()" "NormalizeName lib name = Inr (display, normalized)"
    "ValidateIdempotencyKey key = Inr ()"
    "ValidateIdempotencyRequest (claim_for lib s identity IdempotencyCreateDirectory key
       (canonicalRequestDigest lib (directory_request_json parentID display)) token (wClock w 0)) = Inr ()"
    "find_record (wRepo w1) (claim_for lib s identity IdempotencyCreateDirectory key [] [] 0) = Some rcd"
    "idState rcd = IdempotencyCompleted" "idRequestDigest rcd = canonicalRequestDigest lib (directory_request_json parentID display)"
    "idExpiresAt rcd = wClock w 0 + svIdempotencyRetention s" "\<not> doReplayed out"
    "gget (nodes (wRepo w1)) (idResourceID rcd) = Some (doNode out)" "nTenantID (doNode out) = iTenantID identity" "nKind (doNode out) = NodeDirectory"
proof -
  let ?scope = IdempotencyCreateDirectory
  from op have parent: "validateID parentID = Inr ()"
    by (auto simp: Service_CreateDirectoryWithIdempotency_def sbind_def of_result_def validateID_def split: if_splits)
  with op obtain display normalized where name: "NormalizeName lib name = Inr (display, normalized)"
    by (cases "NormalizeName lib name") (auto simp: Service_CreateDirectoryWithIdempotency_def sbind_def of_result_def)
  let ?digest = "canonicalRequestDigest lib (directory_request_json parentID display)"
  let ?w = "w\<lparr>wRand := \<lambda>n. wRand w (Suc n)\<rparr>"
  from op obtain i where i: "NewID (wRand w 0) = Inr i"
    by (cases "NewID (wRand w 0)") (auto simp: Service_CreateDirectoryWithIdempotency_def parent name sbind_def of_result_def new_id_def draw_def fail_def)
  from op obtain claim claimed w2 where claim: "claimCreation lib s identity ?scope key ?digest ?w = Some (Inr (claim, claimed), w2)"
    and rest: "(if claim_completed claimed then replay_directory identity (claim_resource claimed)
        else sbind clock_Now (\<lambda>now.
          sbind (attempt (with_env ctx (\<lambda>env. repo_op (Repo_CreateDirectory env
              \<lparr>cdIdentity = identity, cdID = i, cdParentID = parentID, cdDisplayName = display,
               cdNormalizedName = normalized, cdNow = now, cdIdempotency = claim\<rparr>)))) (\<lambda>r.
          (case r of
             Inl err \<Rightarrow> sbind (releaseKnownFailedClaim claim err) (\<lambda>_. fail err)
           | Inr node \<Rightarrow> ret \<lparr>doNode = node, doReplayed = False\<rparr>)))) w2 = Some (Inr out, w1)"
    by (auto simp: Service_CreateDirectoryWithIdempotency_def parent name i svc_simps Let_def
        sbind_def [of "new_id _"] new_id_def draw_def ret_def sbind_def [of draw] elim!: sbind_Inr)
  from claimCreation_fresh [OF claim key] none obtain token rcd0 where
    q: "claim = Some (claim_for lib s identity ?scope key ?digest token (wClock w 0))" "claimed = Some rcd0" "idState rcd0 = IdempotencyPending"
      "idExpiresAt rcd0 = wClock w 0 + svIdempotencyRetention s"
      "find_record (wRepo w2) (claim_for lib s identity ?scope key ?digest token (wClock w 0)) = Some rcd0"
      "ValidateIdempotencyRequest (claim_for lib s identity ?scope key ?digest token (wClock w 0)) = Inr ()" "ValidateIdempotencyKey key = Inr ()"
    by auto
  let ?q = "claim_for lib s identity ?scope key ?digest token (wClock w 0)"
  have "\<not> claim_completed claimed" using q(2,3) by (simp add: claim_completed_def)
  with rest obtain env c where create: "Repo_CreateDirectory env c (wRepo w2) = (Inr (doNode out), wRepo w1)" "\<not> doReplayed out"
    and c: "cdIdempotency c = Some ?q" "cdIdentity c = identity"
    using q(1) by (auto simp: sbind_def clock_Now_def attempt_def with_env_def draw_def repo_op_def ret_def fail_def
        split: prod.splits sum.splits option.splits)
  note completed = CreateDirectory_completes [OF create(1) c(1)]
  from completed(1) q(5) obtain rcd where rcd: "find_record (wRepo w1) ?q = Some rcd" "idState rcd = IdempotencyCompleted" "idResourceID rcd = cdID c"
    "idRequestDigest rcd = irRequestDigest ?q" "idExpiresAt rcd = idExpiresAt rcd0" by auto
  show thesis
    by (rule that [OF parent name q(7,6), of rcd])
      (use rcd q completed c create claim_for_find [of "wRepo w1" lib s identity ?scope key "[]" "[]" 0 ?digest token "wClock w 0"]
        in \<open>simp_all add: claim_for_def\<close>)
qed

section \<open>Properties\<close>

text \<open>
  Property C17. Creating a directory is idempotent: after a creation under a key that was not in
  use, a retry with the same key, parent and name before the key's retention ends returns the same
  directory, marked as replayed, and changes nothing in the repository.
\<close>

theorem CreateDirectory_retry_replays:
  assumes first: "Service_CreateDirectoryWithIdempotency lib s ctx identity parentID name key w = Some (Inr out, w1)"
    and key: "key \<noteq> []" "\<And>d t n. find_record (wRepo w) (claim_for lib s identity IdempotencyCreateDirectory key d t n) = None"
    and later: "wRepo w2 = wRepo w1" "NewID (wRand w2 0) = Inr i" "NewID (wRand w2 1) = Inr token" "ValidID token"
      "0 < wClock w2 0" "wClock w2 0 < wClock w 0 + svIdempotencyRetention s" and s: "service_ok s"
  shows "\<exists>w3. Service_CreateDirectoryWithIdempotency lib s ctx' identity parentID name key w2
      = Some (Inr \<lparr>doNode = doNode out, doReplayed = True\<rparr>, w3) \<and> wRepo w3 = wRepo w2 \<and> \<not> doReplayed out"
proof -
  let ?scope = IdempotencyCreateDirectory
  obtain display normalized token0 rcd where p: "validateID parentID = Inr ()" "NormalizeName lib name = Inr (display, normalized)"
    "ValidateIdempotencyKey key = Inr ()"
    "ValidateIdempotencyRequest (claim_for lib s identity ?scope key (canonicalRequestDigest lib (directory_request_json parentID display)) token0 (wClock w 0)) = Inr ()"
    and rcd: "find_record (wRepo w1) (claim_for lib s identity ?scope key [] [] 0) = Some rcd"
    "idState rcd = IdempotencyCompleted" "idRequestDigest rcd = canonicalRequestDigest lib (directory_request_json parentID display)"
    "idExpiresAt rcd = wClock w 0 + svIdempotencyRetention s" "\<not> doReplayed out"
    "gget (nodes (wRepo w1)) (idResourceID rcd) = Some (doNode out)" "nTenantID (doNode out) = iTenantID identity" "nKind (doNode out) = NodeDirectory"
    by (rule first_creation [OF first key])
  let ?digest = "canonicalRequestDigest lib (directory_request_json parentID display)"
  let ?q = "claim_for lib s identity ?scope key ?digest token (wClock w2 0)"
  let ?w = "w2\<lparr>wRand := \<lambda>n. wRand w2 (Suc n)\<rparr>"
  have valid: "ValidateIdempotencyRequest ?q = Inr ()"
    using p(4) later s by (auto simp: ValidateIdempotencyRequest_def claim_for_def service_ok_def split: if_splits)
  have "Repo_ClaimIdempotency ?q (wRepo w2) = (Inr rcd, wRepo w2)"
    using rcd later claim_for_find [of "wRepo w1" lib s identity ?scope key "[]" "[]" 0 ?digest token "wClock w2 0"]
    by (intro mi.claim_completed valid) (simp_all add: claim_for_def)
  then have "claimCreation lib s identity ?scope key ?digest ?w = Some (Inr (Some ?q, Some rcd), ?w\<lparr>wRand := \<lambda>n. wRand w2 (Suc (Suc n)), wClock := \<lambda>n. wClock w2 (Suc n)\<rparr>)"
    using p(3) later rcd(2) by (simp add: claimCreation_eq [OF key(1)] Let_def)
  moreover have "Repo_Node identity (idResourceID rcd) True (wRepo w2) = Inr (doNode out)"
    using rcd later by (simp add: Repo_Node_def)
  ultimately show ?thesis
    using rcd later by (simp add: Service_CreateDirectoryWithIdempotency_def p svc_simps sbind_def [of "new_id _"] new_id_def sbind_def [of draw] draw_def ret_def
        Let_def claim_completed_def claim_resource_def replay_directory_def sbind_def attempt_def repo_read_def)
qed

text \<open>A tenant whose ids are the sample UUID, and a random source that repeats itself.\<close>

definition sample_creator :: Identity where
  "sample_creator = \<lparr>iTenantID = sample_uuid, iPrincipalID = sample_uuid\<rparr>"

definition sample_rooted :: Repository where
  "sample_rooted = snd (Repo_EnsureTenant \<lparr>tsTenantID = sample_uuid, tsDisplayName = ''Acme'', tsRootNodeID = sample_uuid, tsNow = 1\<rparr> NewRepository)"

definition sample_busy :: "Repository \<Rightarrow> Storage World" where
  "sample_busy r = \<lparr>wRepo = r, wStorage = NewStorage ''b'', wRand = (\<lambda>n. Inr (replicate 16 CHR ''r'')), wClock = (\<lambda>n. 50), wJitter = (\<lambda>n. 0)\<rparr>"

lemma sample_name: "NormalizeName sample_lib0 ''f'' = Inr (''f'', ''f'')"
proof -
  have b: "byte CHR ''f'' = 102" by code_simp
  then have chunks: "utf8_chunks ''f'' = [(Some 102, ''f'')]" by (simp add: utf8_chunks_ascii)
  have "strings_TrimSpace ''f'' = ''f''" by (rule TrimSpace_ascii) (simp_all add: b unicode_IsSpace_def)
  moreover have "\<not> forbidden_rune 102" by code_simp
  ultimately show ?thesis
    by (simp add: NormalizeName_def utf8_ValidString_def runes_def chunks sample_lib0_def Let_def strings_ToLower_def ascii_lower_def b)
qed

lemma sample_drawn: obtains i where "NewID (Inr (replicate 16 CHR ''r'')) = Inr i" "ValidID i"
proof -
  obtain i where "NewID (Inr (replicate 16 CHR ''r'')) = Inr i" by (auto simp: NewID_def Let_def)
  with ValidID_NewID [OF _ this] that show thesis by simp
qed

lemma sample_rooted_tables:
  "activeNode sample_rooted sample_uuid sample_uuid = Some (zero_Node\<lparr>nID := sample_uuid, nTenantID := sample_uuid, nKind := NodeDirectory,
     nStatus := NodeActive, nRevision := 1, nCreatedAt := 1, nUpdatedAt := 1\<rparr>)"
  "\<not> nameExists sample_rooted sample_uuid sample_uuid ''f'' []" "idempotency sample_rooted = gempty"
  by (simp_all add: activeNode_Some nameExists_iff sample_rooted_def Repo_EnsureTenant_def NewRepository_def visible_def zero_Node_def Let_def)

definition sample_claimed :: "string \<Rightarrow> IdempotencyRequest" where
  "sample_claimed token = claim_for sample_lib0 (sample_service sample_lib0) sample_creator IdempotencyCreateDirectory ''key-1''
     (canonicalRequestDigest sample_lib0 (directory_request_json sample_uuid ''f'')) token 50"

lemma sample_claim_valid: "ValidID token \<Longrightarrow> ValidateIdempotencyRequest (sample_claimed token) = Inr ()"
proof -
  assume token: "ValidID token"
  have "length (lib_sha256 sample_lib0 x) = 32" for x by (simp add: sample_lib0_def)
  then have "ValidSHA256Hex (sha256Hex sample_lib0 x)" for x by (rule ValidSHA256Hex_sha256Hex)
  moreover have "ValidIdempotencyScope IdempotencyCreateDirectory" by code_simp
  ultimately show ?thesis
    using token sample_uuid_valid
    by (simp add: ValidateIdempotencyRequest_def sample_claimed_def claim_for_def sample_creator_def sample_service_def canonicalRequestDigest_def sha256Hex_def)
qed

definition sample_mkdir :: "IdempotencyRequest \<Rightarrow> string \<Rightarrow> CreateDirectoryCommand" where
  "sample_mkdir q i = \<lparr>cdIdentity = sample_creator, cdID = i, cdParentID = sample_uuid, cdDisplayName = ''f'', cdNormalizedName = ''f'',
     cdNow = 50, cdIdempotency = Some q\<rparr>"

lemma sample_claim_held:
  assumes "ValidID token"
  obtains r rcd where "Repo_ClaimIdempotency (sample_claimed token) sample_rooted = (Inr rcd, r)" "same_repo sample_rooted r"
    "find_record r (sample_claimed token) = Some rcd" "idState rcd = IdempotencyPending" "idClaimToken rcd = token"
    "idRequestDigest rcd = irRequestDigest (sample_claimed token)" "idExpiresAt rcd = 150"
proof -
  have "find_record sample_rooted (sample_claimed token) = None" by (simp add: find_record_def sample_rooted_tables)
  from mi.claim_new [OF sample_claim_valid [OF assms] this] obtain rcd where rcd: "fst (Repo_ClaimIdempotency (sample_claimed token) sample_rooted) = Inr rcd"
    "find_record (snd (Repo_ClaimIdempotency (sample_claimed token) sample_rooted)) (sample_claimed token) = Some rcd"
    "idState rcd = IdempotencyPending" "idClaimToken rcd = irClaimToken (sample_claimed token)"
    "idRequestDigest rcd = irRequestDigest (sample_claimed token)" "idExpiresAt rcd = irExpiresAt (sample_claimed token)" by blast
  have "same_repo sample_rooted (snd (Repo_ClaimIdempotency (sample_claimed token) sample_rooted))"
    using claim_frame(1) by (simp add: same_repo_def)
  with rcd that show thesis
    by (cases "Repo_ClaimIdempotency (sample_claimed token) sample_rooted") (auto simp: sample_claimed_def claim_for_def sample_service_def)
qed

lemma mkdir_audit_decides:
  assumes q: "ValidateIdempotencyRequest q = Inr ()" "find_record r q = Some rcd" "idState rcd = IdempotencyPending"
      "idClaimToken rcd = irClaimToken q" "idRequestDigest rcd = irRequestDigest q"
    and c: "cdIdempotency c = Some q" "ValidID (cdID c)"
    and parent: "activeNode r (iTenantID (cdIdentity c)) (cdParentID c) = Some p" "nKind p = NodeDirectory"
      "\<not> nameExists r (iTenantID (cdIdentity c)) (cdParentID c) (cdNormalizedName c) []"
  obtains r1 e where "finish_claim q (cdID c) (cdNow c) r = (Inr (), r1)" "evID e = []"
    "evMetadata e = Some [(''kind'', NodeKind_string NodeDirectory), (''parent_id'', cdParentID c)]"
    "Repo_CreateDirectory env c r =
       (case appendAuditLocked env e (r1\<lparr>nodes := gput (cdID c) (new_directory c) (nodes r1)\<rparr>) of
          (Inl err, r2) \<Rightarrow> (Inl err, r2\<lparr>nodes := gdel (cdID c) (nodes r2)\<rparr>) | (Inr _, r2) \<Rightarrow> (Inr (new_directory c), r2))"
proof -
  obtain r1 where fin: "finish_claim q (cdID c) (cdNow c) r = (Inr (), r1)"
    using q c by (simp add: finish_claim_def completeIdempotency_def find_record_def Let_def)
  let ?e = "audit_event (iTenantID (cdIdentity c)) (iPrincipalID (cdIdentity c)) ''node.created'' ''node'' (cdID c) (cdNow c)
    [(''kind'', NodeKind_string NodeDirectory), (''parent_id'', cdParentID c)]"
  show thesis
    by (rule that [OF fin, of ?e]) (use fin c parent in \<open>simp_all add: Repo_CreateDirectory_def finish_claim_def new_directory_def audit_event_def Let_def split: prod.split sum.split\<close>)
qed

theorem CreateDirectory_retry_replays_witness:
  "\<exists>out w1 w3. Service_CreateDirectoryWithIdempotency sample_lib0 (sample_service sample_lib0) [] sample_creator sample_uuid ''f'' ''key-1''
       (sample_busy sample_rooted) = Some (Inr out, w1)
     \<and> Service_CreateDirectoryWithIdempotency sample_lib0 (sample_service sample_lib0) [] sample_creator sample_uuid ''f'' ''key-1'' w1
         = Some (Inr \<lparr>doNode = doNode out, doReplayed = True\<rparr>, w3)"
proof -
  let ?s = "sample_service sample_lib0"
  obtain i where i: "NewID (Inr (replicate 16 CHR ''r'')) = Inr i" "ValidID i" by (rule sample_drawn)
  obtain r rcd where claim: "Repo_ClaimIdempotency (sample_claimed i) sample_rooted = (Inr rcd, r)" and same: "same_repo sample_rooted r"
    and rcd: "find_record r (sample_claimed i) = Some rcd" "idState rcd = IdempotencyPending" "idClaimToken rcd = i"
    "idRequestDigest rcd = irRequestDigest (sample_claimed i)" "idExpiresAt rcd = 150"
    by (rule sample_claim_held [OF i(2)])
  let ?c = "sample_mkdir (sample_claimed i) i" and ?env = "\<lparr>envCtx = [], envRand = Inr (replicate 16 CHR ''r'')\<rparr>"
  have tables: "activeNode r sample_uuid sample_uuid = activeNode sample_rooted sample_uuid sample_uuid"
    "nameExists r sample_uuid sample_uuid ''f'' [] = nameExists sample_rooted sample_uuid sample_uuid ''f'' []"
    using same by (auto simp: same_repo_def activeNode_def nameExists_def)
  have meta: "boundedAuditMetadata (Some [(''kind'', ''directory''), (''parent_id'', sample_uuid)]) = Inr [(''kind'', ''directory''), (''parent_id'', sample_uuid)]"
    by code_simp
  have c: "cdIdempotency ?c = Some (sample_claimed i)" "cdID ?c = i" "cdParentID ?c = sample_uuid" "iTenantID (cdIdentity ?c) = sample_uuid"
    "cdNormalizedName ?c = ''f''" by (simp_all add: sample_mkdir_def sample_creator_def)
  have token: "idClaimToken rcd = irClaimToken (sample_claimed i)" using rcd(3) by (simp add: sample_claimed_def claim_for_def)
  let ?root = "zero_Node\<lparr>nID := sample_uuid, nTenantID := sample_uuid, nKind := NodeDirectory, nStatus := NodeActive, nRevision := 1,
    nCreatedAt := 1, nUpdatedAt := 1\<rparr>"
  have ready: "ValidID (cdID ?c)" "activeNode r (iTenantID (cdIdentity ?c)) (cdParentID ?c) = Some ?root" "nKind ?root = NodeDirectory"
    "\<not> nameExists r (iTenantID (cdIdentity ?c)) (cdParentID ?c) (cdNormalizedName ?c) []"
    using i(2) sample_rooted_tables tables by (simp_all add: c)
  obtain r1 e where e: "evID e = []" "evMetadata e = Some [(''kind'', NodeKind_string NodeDirectory), (''parent_id'', cdParentID ?c)]"
    and "Repo_CreateDirectory ?env ?c r = (case appendAuditLocked ?env e (r1\<lparr>nodes := gput (cdID ?c) (new_directory ?c) (nodes r1)\<rparr>) of
          (Inl err, r2) \<Rightarrow> (Inl err, r2\<lparr>nodes := gdel (cdID ?c) (nodes r2)\<rparr>) | (Inr _, r2) \<Rightarrow> (Inr (new_directory ?c), r2))"
    by (rule mkdir_audit_decides [OF sample_claim_valid [OF i(2)] rcd(1,2) token rcd(4) c(1) ready])
  then obtain r' where create: "Repo_CreateDirectory ?env ?c r = (Inr (new_directory ?c), r')"
    by (auto simp: appendAuditLocked_def c meta i(1) Let_def)
  have "ValidateIdempotencyKey ''key-1'' = Inr ()" by code_simp
  let ?w1 = "(sample_busy r')"
  have first: "Service_CreateDirectoryWithIdempotency sample_lib0 ?s [] sample_creator sample_uuid ''f'' ''key-1'' (sample_busy sample_rooted)
      = Some (Inr \<lparr>doNode = new_directory ?c, doReplayed = False\<rparr>, ?w1)"
    using create claim rcd(2,3) i \<open>ValidateIdempotencyKey ''key-1'' = Inr ()\<close>
    by (simp add: Service_CreateDirectoryWithIdempotency_def validateID_def sample_uuid_valid sample_name svc_simps
        sbind_def [of "new_id _"] new_id_def sbind_def [of draw] draw_def ret_def sample_busy_def Let_def claimCreation_eq
        sbind_def clock_Now_def with_env_def attempt_def repo_op_def claim_completed_def sample_claimed_def sample_mkdir_def)
  have none: "find_record (wRepo (sample_busy sample_rooted)) q = None" for q
    by (simp add: find_record_def sample_busy_def sample_rooted_tables)
  have sv: "service_ok ?s" by (simp add: service_ok_def sample_service_def)
  have "\<exists>w3. Service_CreateDirectoryWithIdempotency sample_lib0 ?s [] sample_creator sample_uuid ''f'' ''key-1'' ?w1
      = Some (Inr \<lparr>doNode = doNode \<lparr>doNode = new_directory ?c, doReplayed = False\<rparr>, doReplayed = True\<rparr>, w3) \<and> wRepo w3 = wRepo ?w1
        \<and> \<not> doReplayed \<lparr>doNode = new_directory ?c, doReplayed = False\<rparr>"
    by (rule CreateDirectory_retry_replays [OF first _ none refl _ _ i(2) _ _ sv])
      (simp_all add: sample_busy_def i(1) sample_service_def)
  with first show ?thesis by fastforce
qed

text \<open>
  A creation whose audit event cannot be appended poisons its key: the directory is
  removed again and the caller gets an error, but the key's record is completed and names the removed
  directory, so every retry until the record expires is answered with that record and cannot find its directory.
\<close>

theorem failed_audit_poisons_key:
  assumes q: "ValidateIdempotencyRequest q = Inr ()" "find_record r q = Some rcd" "idState rcd = IdempotencyPending"
      "idClaimToken rcd = irClaimToken q" "idRequestDigest rcd = irRequestDigest q"
    and c: "cdIdempotency c = Some q" "ValidID (cdID c)"
    and parent: "activeNode r (iTenantID (cdIdentity c)) (cdParentID c) = Some p" "nKind p = NodeDirectory"
      "\<not> nameExists r (iTenantID (cdIdentity c)) (cdParentID c) (cdNormalizedName c) []"
    and failure: "envRand env = Inl err"
    and retry: "ValidateIdempotencyRequest q' = Inr ()" "mi.same_request q q'" "irNow q' < idExpiresAt rcd"
  shows "\<exists>e r' found. Repo_CreateDirectory env c r = (Inl e, r') \<and> Repo_ClaimIdempotency q' r' = (Inr found, r')
    \<and> idState found = IdempotencyCompleted \<and> idResourceID found = cdID c
    \<and> (\<forall>identity. \<exists>e'. Repo_Node identity (idResourceID found) True r' = Inl e')"
proof -
  obtain r1 ev where fin: "finish_claim q (cdID c) (cdNow c) r = (Inr (), r1)" and ev: "evID ev = []"
    and eq: "Repo_CreateDirectory env c r =
       (case appendAuditLocked env ev (r1\<lparr>nodes := gput (cdID c) (new_directory c) (nodes r1)\<rparr>) of
          (Inl err, r2) \<Rightarrow> (Inl err, r2\<lparr>nodes := gdel (cdID c) (nodes r2)\<rparr>) | (Inr _, r2) \<Rightarrow> (Inr (new_directory c), r2))"
    by (rule mkdir_audit_decides [OF q c parent])
  let ?r0 = "r1\<lparr>nodes := gput (cdID c) (new_directory c) (nodes r1)\<rparr>"
  obtain e where audit: "appendAuditLocked env ev ?r0 = (Inl e, ?r0)"
    using failure ev by (cases "boundedAuditMetadata (evMetadata ev)") (auto simp: appendAuditLocked_def NewID_def)
  let ?r' = "?r0\<lparr>nodes := gdel (cdID c) (nodes ?r0)\<rparr>"
  have op: "Repo_CreateDirectory env c r = (Inl e, ?r')" using eq audit by simp
  obtain found where found: "find_record r1 q = Some found" "idState found = IdempotencyCompleted" "idResourceID found = cdID c"
    "idRequestDigest found = irRequestDigest q" "idExpiresAt found = idExpiresAt rcd"
    using mi.finish_owner [OF fin] q(2) by auto
  have "find_record ?r' q' = Some found"
    using found(1) mi.same_request_find [OF retry(2), of r1] by (simp add: find_record_def)
  then have "Repo_ClaimIdempotency q' ?r' = (Inr found, ?r')"
    using found retry by (intro mi.claim_completed) (simp_all add: mi.same_request_def)
  moreover have "Repo_Node identity (cdID c) True ?r' = Inl (E CodeNotFound ''resource was not found'')" for identity
    by (simp add: Repo_Node_def)
  ultimately show ?thesis using op found(2,3) by (intro exI [of _ e] exI [of _ ?r'] exI [of _ found]) simp
qed

theorem failed_audit_poisons_key_witness:
  "\<exists>i r e r' found. Repo_CreateDirectory \<lparr>envCtx = [], envRand = Inl (OtherError ''rand'' None)\<rparr> (sample_mkdir (sample_claimed i) i) r = (Inl e, r')
     \<and> Repo_ClaimIdempotency (sample_claimed i) r' = (Inr found, r') \<and> idState found = IdempotencyCompleted
     \<and> (\<exists>e'. Repo_Node sample_creator (idResourceID found) True r' = Inl e')"
proof -
  obtain i where i: "NewID (Inr (replicate 16 CHR ''r'')) = Inr i" "ValidID i" by (rule sample_drawn)
  obtain r rcd where same: "same_repo sample_rooted r"
    and rcd: "find_record r (sample_claimed i) = Some rcd" "idState rcd = IdempotencyPending" "idClaimToken rcd = i"
    "idRequestDigest rcd = irRequestDigest (sample_claimed i)" "idExpiresAt rcd = 150"
    by (rule sample_claim_held [OF i(2)])
  let ?c = "sample_mkdir (sample_claimed i) i" and ?env = "\<lparr>envCtx = [], envRand = Inl (OtherError ''rand'' None)\<rparr>"
  let ?root = "zero_Node\<lparr>nID := sample_uuid, nTenantID := sample_uuid, nKind := NodeDirectory, nStatus := NodeActive, nRevision := 1,
    nCreatedAt := 1, nUpdatedAt := 1\<rparr>"
  have c: "cdIdempotency ?c = Some (sample_claimed i)" "ValidID (cdID ?c)" using i(2) by (simp_all add: sample_mkdir_def)
  have parent: "activeNode r (iTenantID (cdIdentity ?c)) (cdParentID ?c) = Some ?root" "nKind ?root = NodeDirectory"
    "\<not> nameExists r (iTenantID (cdIdentity ?c)) (cdParentID ?c) (cdNormalizedName ?c) []"
    using same sample_rooted_tables by (auto simp: same_repo_def activeNode_def nameExists_def sample_mkdir_def sample_creator_def)
  have token: "idClaimToken rcd = irClaimToken (sample_claimed i)" "irNow (sample_claimed i) < idExpiresAt rcd" "mi.same_request (sample_claimed i) (sample_claimed i)"
    using rcd(3,5) by (simp_all add: sample_claimed_def claim_for_def mi.same_request_def)
  have fails: "envRand ?env = Inl (OtherError ''rand'' None)" by simp
  from failed_audit_poisons_key [OF sample_claim_valid [OF i(2)] rcd(1,2) token(1) rcd(4) c parent fails sample_claim_valid [OF i(2)] token(3,2)]
  show ?thesis by blast
qed

end
