(* ===== verification/Drive_System.thy ===== *)
theory Drive_System
  imports Service_Safety Service_Idempotency
begin

text \<open>
  The service running on the in-memory repository and the in-memory object storage: a step is one
  method call of the service, by any identity and with any arguments, or one part a client puts
  into the storage. Calls run one after the other; their interleaving is not modelled. The main
  theorem is that whatever a sequence of calls did, every visible file can be downloaded.
\<close>

section \<open>Steps\<close>

definition client_put :: "Lib \<Rightarrow> string \<Rightarrow> int \<Rightarrow> string \<Rightarrow> (Storage, CompletedPart) svc" where
  "client_put lib uploadID partNumber bytes = storage_op (\<lambda>_. Storage_PutPart lib uploadID partNumber bytes)"

inductive drive_step :: "Lib \<Rightarrow> Storage Service \<Rightarrow> Storage World \<Rightarrow> Storage World \<Rightarrow> bool" for lib svc where
  ensure_tenant: "Service_EnsureTenant tenantID name w = Some (res, w') \<Longrightarrow> drive_step lib svc w w'"
| create_directory: "Service_CreateDirectoryWithIdempotency lib svc ctx identity parentID name key w = Some (res, w') \<Longrightarrow> drive_step lib svc w w'"
| update_node: "Service_UpdateNode lib ctx identity nodeID nameOpt parentOpt revision w = Some (res, w') \<Longrightarrow> drive_step lib svc w w'"
| create_upload: "Service_CreateUploadWithIdempotency lib svc identity input key w = Some (res, w') \<Longrightarrow> drive_step lib svc w w'"
| sign_part: "Service_SignUploadPart svc identity uploadID n ck w = Some (res, w') \<Longrightarrow> drive_step lib svc w w'"
| put_part: "client_put lib up n bytes w = Some (res, w') \<Longrightarrow> drive_step lib svc w w'"
| list_parts: "Service_ListUploadParts svc identity uploadID limit w = Some (res, w') \<Longrightarrow> drive_step lib svc w w'"
| complete_upload: "Service_CompleteUpload lib svc ctx identity uploadID ps w = Some (res, w') \<Longrightarrow> drive_step lib svc w w'"
| abort_upload: "Service_AbortUpload svc identity uploadID w = Some (res, w') \<Longrightarrow> drive_step lib svc w w'"
| download: "Service_Download svc identity nodeID w = Some (res, w') \<Longrightarrow> drive_step lib svc w w'"
| recycle: "Service_Recycle ctx identity nodeID revision w = Some (res, w') \<Longrightarrow> drive_step lib svc w w'"
| restore: "Service_Restore ctx identity nodeID revision w = Some (res, w') \<Longrightarrow> drive_step lib svc w w'"
| purge: "Service_Purge svc ctx identity nodeID revision w = Some (res, w') \<Longrightarrow> drive_step lib svc w w'"

text \<open>
  The state the server starts in, with a random source that hands out sixteen bytes at a time and
  never repeats an id.
\<close>

definition tape_ok :: "(nat \<Rightarrow> string result) \<Rightarrow> bool" where
  "tape_ok tape \<longleftrightarrow> (\<forall>n b. tape n = Inr b \<longrightarrow> length b = 16) \<and>
     (\<forall>m n i. NewID (tape m) = Inr i \<longrightarrow> NewID (tape n) = Inr i \<longrightarrow> m = n)"

definition started :: "Storage World \<Rightarrow> bool" where
  "started w \<longleftrightarrow> wRepo w = NewRepository \<and> (\<exists>bucket. wStorage w = NewStorage bucket) \<and> tape_ok (wRand w)"

section \<open>The invariant\<close>

definition consistent :: "Lib \<Rightarrow> Storage World \<Rightarrow> bool" where
  "consistent lib w \<longleftrightarrow> world_ok (storage_inv lib) memory_objects {} (\<lambda>_ _. True) w"

lemma triple_consistent:
  assumes "triple (world_ok (storage_inv lib) memory_objects {} (\<lambda>_ _. True)) m
      (\<lambda>_. world_ok (storage_inv lib) memory_objects {} (\<lambda>_ _. True)) (\<lambda>_. world_ok (storage_inv lib) memory_objects {} (\<lambda>_ _. True))"
    and "m w = Some (res, w')" and "consistent lib w"
  shows "consistent lib w'"
  using tripleD [OF assms(1) _ assms(2)] assms(3) by (cases res) (auto simp: consistent_def)

lemma started_consistent: "started w \<Longrightarrow> consistent lib w"
proof -
  assume w: "started w"
  then have tape: "tape_ok (wRand w)" by (simp add: started_def)
  have "length i = 36" if "NewID (wRand w n) = Inr i" for n i
  proof -
    from that obtain b where "wRand w n = Inr b" by (auto simp: NewID_def split: sum.splits)
    with tape that show ?thesis using ValidID_NewID [of b i] ValidID_length [of i] by (simp add: tape_ok_def)
  qed
  with tape have "ids_fresh {} NewRepository (wRand w)"
    by (simp add: ids_fresh_def tape_ok_def unused_NewRepository)
  with w show ?thesis
    by (auto simp: consistent_def world_ok_def started_def content_inv_NewRepository storage_inv_NewStorage)
qed

lemma client_put_good:
  "triple (world_ok (storage_inv lib) memory_objects {} R) (client_put lib up n bytes)
     (\<lambda>_. world_ok (storage_inv lib) memory_objects {} R) (\<lambda>_. world_ok (storage_inv lib) memory_objects {} R)"
  unfolding client_put_def
  by (rule ms.triple_quiet [OF storage_inv_Put])
    (auto simp: Storage_PutPart_def memory_objects_def fun_eq_iff split: option.splits)

lemma drive_step_consistent:
  assumes sp: "svStorage svc = memory_provider lib" and step: "drive_step lib svc w w'" and w: "consistent lib w"
  shows "consistent lib w'"
  using step w
proof cases
  case ensure_tenant
  then show ?thesis using triple_consistent [OF ms.EnsureTenant_good] w by blast
next
  case create_directory
  then show ?thesis using triple_consistent [OF ms.CreateDirectory_good] w by blast
next
  case update_node
  then show ?thesis using triple_consistent [OF ms.UpdateNode_good] w by blast
next
  case create_upload
  then show ?thesis using triple_consistent [OF ms.CreateUpload_good [OF sp]] w by blast
next
  case sign_part
  then show ?thesis using triple_consistent [OF ms.SignUploadPart_good [OF sp]] w by blast
next
  case put_part
  then show ?thesis using triple_consistent [OF client_put_good] w by blast
next
  case list_parts
  then show ?thesis using triple_consistent [OF ms.ListUploadParts_good [OF sp]] w by blast
next
  case complete_upload
  then show ?thesis using triple_consistent [OF ms.CompleteUpload_good [OF sp]] w by blast
next
  case abort_upload
  then show ?thesis using triple_consistent [OF ms.AbortUpload_good [OF sp]] w by blast
next
  case download
  then show ?thesis using triple_consistent [OF ms.Download_good [OF sp]] w by blast
next
  case recycle
  then show ?thesis using triple_consistent [OF ms.Recycle_good] w by blast
next
  case restore
  then show ?thesis using triple_consistent [OF ms.Restore_good] w by blast
next
  case purge
  then show ?thesis using triple_consistent [OF ms.Purge_good [OF sp]] w by blast
qed

lemma reachable_consistent:
  assumes "svStorage svc = memory_provider lib" and "started w0" and "(drive_step lib svc)\<^sup>*\<^sup>* w0 w"
  shows "consistent lib w"
  using assms(3)
  by (induction) (auto intro: started_consistent [OF assms(2)] drive_step_consistent [OF assms(1)])

section \<open>Properties\<close>

text \<open>
  Property C1. No sequence of service calls and client uploads loses a file: in every world
  reachable from an empty server, a download of any visible file by any identity of its tenant
  succeeds. Recycling, restoring, purging, aborted and failed uploads, retried completions and
  storage cleanup are all among the calls.
\<close>

theorem files_stay_downloadable:
  assumes "svStorage svc = memory_provider lib" and "started w0" and "(drive_step lib svc)\<^sup>*\<^sup>* w0 w"
    and "activeNode (wRepo w) (iTenantID identity) nodeID = Some node" and "nKind node = NodeFile" and "ValidID nodeID"
  shows "\<exists>signed w'. Service_Download svc identity nodeID w = Some (Inr signed, w')"
  using ms.Download_succeeds [OF assms(1) _ assms(6,4,5)] reachable_consistent [OF assms(1,2,3)]
  unfolding consistent_def by blast

text \<open>
  Property C3. The calls that walk the tree return: in every reachable world, updating a node
  and recycling a node come back with a result, whatever their arguments, because the walks
  over parents and children that they make end.
\<close>

theorem walks_return:
  assumes "svStorage svc = memory_provider lib" and "started w0" and "(drive_step lib svc)\<^sup>*\<^sup>* w0 w"
  shows "(\<exists>res w'. Service_UpdateNode lib ctx identity nodeID name parentID revision w = Some (res, w'))
    \<and> (\<exists>res w'. Service_Recycle ctx identity nodeID revision w = Some (res, w'))"
proof -
  have inv: "ns_inv (wRepo w)" using reachable_consistent [OF assms] by (simp add: consistent_def world_ok_def content_inv_def)
  have "repo_walk (Repo_UpdateNode env c) w' \<noteq> None" "repo_walk (Repo_Recycle env identity nodeID revision now) w' \<noteq> None"
    if "wRepo w' = wRepo w" for env c now and w' :: "Storage World"
    using that UpdateNode_returns [OF inv, of env c] Recycle_returns [OF inv, of env identity nodeID revision now]
    by (auto simp: repo_walk_def)
  then show ?thesis
    by (auto simp: Service_UpdateNode_def Service_Recycle_def sbind_def guard_def of_result_def clock_Now_def with_env_def draw_def ret_def fail_def
        split: sum.splits prod.splits)
qed

text \<open>
  Property C2. Names stay unique: in every reachable world, two visible entries of one directory with
  the same normalized name are the same entry, whatever was created, renamed, moved, uploaded or restored.
\<close>

theorem sibling_names_unique:
  assumes "svStorage svc = memory_provider lib" and "started w0" and "(drive_step lib svc)\<^sup>*\<^sup>* w0 w"
    and "activeNode (wRepo w) tenant i = Some a" "activeNode (wRepo w) tenant j = Some b"
    and "nParentID a = nParentID b" "nParentID a \<noteq> []" "nNormalizedName a = nNormalizedName b"
  shows "i = j"
proof -
  have "ns_inv (wRepo w)" using reachable_consistent [OF assms(1,2,3)] by (simp add: consistent_def world_ok_def content_inv_def)
  moreover have "i \<noteq> []" "j \<noteq> []" using ns_wf_no_empty_key [OF calculation [unfolded ns_inv_def]] assms(4,5) by (auto simp: activeNode_Some)
  ultimately show ?thesis
    using ns_wf_unique [of "gget (tenants (wRepo w))" "gget (nodes (wRepo w))" i a j b] assms(4-8)
    by (auto simp: activeNode_Some visible_def ns_inv_def)
qed

section \<open>A complete run\<close>

text \<open>A server that creates a tenant and stores one file: the ids it draws are kept symbolic.\<close>

lemma NewID_prefix: "length b = 16 \<Longrightarrow> NewID (Inr b) = Inr i \<Longrightarrow> take 8 i = hex_EncodeToString (take 4 b)"
  by (auto simp: NewID_def Let_def)

definition sample_bytes :: "nat \<Rightarrow> string" where
  "sample_bytes n = unbyte n # replicate 15 CHR ''a''"

definition sample_tape :: "nat \<Rightarrow> string result" where
  "sample_tape n = (if n < 16 then Inr (sample_bytes n) else Inl (OtherError ''exhausted'' None))"

definition sample_id :: "nat \<Rightarrow> string" where
  "sample_id n = (case NewID (sample_tape n) of Inr i \<Rightarrow> i | Inl _ \<Rightarrow> [])"

lemma length_sample_bytes: "length (sample_bytes n) = 16"
  by (simp add: sample_bytes_def)

lemma sample_tape_id: "n < 16 \<Longrightarrow> NewID (sample_tape n) = Inr (sample_id n)"
  by (simp add: sample_id_def sample_tape_def NewID_def Let_def)

lemma sample_tape_small: "NewID (sample_tape n) = Inr i \<Longrightarrow> n < 16"
  by (cases "n < 16") (simp_all add: sample_tape_def NewID_def)

lemma sample_id_valid: "n < 16 \<Longrightarrow> ValidID (sample_id n)"
  using ValidID_NewID [OF length_sample_bytes, of n "sample_id n"] sample_tape_id [of n] by (simp add: sample_tape_def)

lemma sample_bytes_inj:
  assumes "take 4 (sample_bytes m) = take 4 (sample_bytes n)" and "m < 16" "n < 16"
  shows "m = n"
proof -
  have "hd (take 4 (sample_bytes k)) = unbyte k" for k by (simp add: sample_bytes_def take_Cons')
  with assms(1) have "unbyte m = unbyte n" by metis
  then have "byte (unbyte m) = byte (unbyte n)" by (rule arg_cong)
  with assms(2,3) show ?thesis by simp
qed

lemma sample_tape_ok: "tape_ok sample_tape"
  unfolding tape_ok_def
proof (intro conjI allI impI)
  fix m n i assume ids: "NewID (sample_tape m) = Inr i" "NewID (sample_tape n) = Inr i"
  then have small: "m < 16" "n < 16" by (auto dest: sample_tape_small)
  with ids have "hex_EncodeToString (take 4 (sample_bytes m)) = hex_EncodeToString (take 4 (sample_bytes n))"
    using NewID_prefix [OF length_sample_bytes, of m i] NewID_prefix [OF length_sample_bytes, of n i]
    by (simp only: sample_tape_def if_True)
  from arg_cong [OF this, of hex_DecodeString] have "take 4 (sample_bytes m) = take 4 (sample_bytes n)"
    by (simp only: hex_decode_encode option.inject)
  then show "m = n" by (rule sample_bytes_inj [OF _ small])
qed (auto simp: sample_tape_def length_sample_bytes split: if_splits)

definition sample_user :: Identity where
  "sample_user = \<lparr>iTenantID = sample_uuid, iPrincipalID = ''alice''\<rparr>"

definition sample_start :: "Storage World" where
  "sample_start = \<lparr>wRepo = NewRepository, wStorage = NewStorage ''b'', wRand = sample_tape, wClock = (\<lambda>n. 50), wJitter = (\<lambda>n. 0)\<rparr>"

text \<open>The world after the tenant was created.\<close>

definition sample_seed :: TenantSeed where
  "sample_seed = \<lparr>tsTenantID = sample_uuid, tsDisplayName = ''Acme'', tsRootNodeID = sample_id 0, tsNow = 50\<rparr>"

definition sample_at :: "Repository \<Rightarrow> Storage \<Rightarrow> nat \<Rightarrow> Storage World" where
  "sample_at r st k = \<lparr>wRepo = r, wStorage = st, wRand = (\<lambda>n. sample_tape (n + k)), wClock = (\<lambda>n. 50), wJitter = (\<lambda>n. 0)\<rparr>"

definition sample_r1 :: Repository where
  "sample_r1 = snd (Repo_EnsureTenant sample_seed NewRepository)"

lemma sample_start_at: "sample_start = sample_at NewRepository (NewStorage ''b'') 0"
  by (simp add: sample_start_def sample_at_def)

lemma sample_eval:
  "draw (sample_at r st k) = Some (Inr (sample_tape k), sample_at r st (k + 1))"
  "k < 16 \<Longrightarrow> new_id m (sample_at r st k) = Some (Inr (sample_id k), sample_at r st (k + 1))"
  "clock_Now (sample_at r st k) = Some (Inr 50, sample_at r st k)"
  "repo_read f (sample_at r st k) = Some (f r, sample_at r st k)"
  "repo_op g (sample_at r st k) = Some (fst (g r), sample_at (snd (g r)) st k)"
  "storage_op h (sample_at r st k) = Some (fst (h \<lparr>seRand = sample_tape k, seNow = 50\<rparr> st), sample_at r (snd (h \<lparr>seRand = sample_tape k, seNow = 50\<rparr> st)) (k + 1))"
  "wStorage (sample_at r st k) = st" "wRepo (sample_at r st k) = r"
  by (simp_all add: sample_at_def draw_def new_id_def sbind_def ret_def clock_Now_def repo_read_def repo_op_def storage_op_def
      sample_tape_id split: prod.splits)

lemmas svc_eval = sample_eval sbind_def attempt_def quietly_def ret_def fail_def of_result_def guard_def with_env_def storage_call_def

lemma sample_run1: "\<exists>res. Service_EnsureTenant sample_uuid ''Acme'' sample_start = Some (res, sample_at sample_r1 (NewStorage ''b'') 1)"
  by (simp add: Service_EnsureTenant_def svc_eval validateID_def sample_uuid_valid sample_start_at sample_r1_def sample_seed_def Let_def del: One_nat_def)

text \<open>One upload of two bytes: created, its part put by the client, completed.\<close>

definition sample_input :: CreateUploadInput where
  "sample_input = \<lparr>ciParentID = sample_id 0, ciName = ''f'', ciSize = 2, ciMimeType = ''text/plain'', ciChecksum = zero_Checksum\<rparr>"

definition sample_key :: string where
  "sample_key = object_key sample_uuid (sample_id 2)"

definition sample_upload_session :: UploadSession where
  "sample_upload_session = new_session (sample_service sample_lib0) sample_user sample_input ''f'' ''f'' (sample_id 1) ''b'' sample_key (sample_id 3) 50"

definition sample_r2 :: Repository where
  "sample_r2 = put_upload (sample_id 1) sample_upload_session sample_r1"

definition sample_part :: "(int, string) gomap \<Rightarrow> Storage" where
  "sample_part ps = (NewStorage ''b'')\<lparr>stUploads := gput (sample_id 3) \<lparr>muKey = sample_key, muMimeType = ''text/plain'',
     muChecksum = zero_Checksum, muParts = ps\<rparr> gempty\<rparr>"

lemma sample_r1_tables:
  "nodes sample_r1 = gput (sample_id 0) (zero_Node\<lparr>nID := sample_id 0, nTenantID := sample_uuid, nKind := NodeDirectory,
     nStatus := NodeActive, nRevision := 1, nCreatedAt := 50, nUpdatedAt := 50\<rparr>) gempty"
  "uploads sample_r1 = gempty"
  by (simp_all add: sample_r1_def Repo_EnsureTenant_def sample_seed_def NewRepository_def Let_def)

lemma sample_r1_root:
  "activeNode sample_r1 sample_uuid (sample_id 0) = Some (zero_Node\<lparr>nID := sample_id 0, nTenantID := sample_uuid, nKind := NodeDirectory,
     nStatus := NodeActive, nRevision := 1, nCreatedAt := 50, nUpdatedAt := 50\<rparr>)"
  "\<not> nameExists sample_r1 sample_uuid (sample_id 0) ''f'' []"
  by (simp_all add: activeNode_Some sample_r1_tables visible_def zero_Node_def nameExists_iff)

lemma sample_input_ok: "validate_upload_input sample_lib0 (sample_service sample_lib0) sample_input = Inr ()"
proof -
  have "ValidChecksum zero_Checksum" by (simp add: ValidChecksum_iff)
  moreover have "CHR ''/'' \<in> set ''text/plain''" by code_simp
  ultimately show ?thesis
    by (simp add: validate_upload_input_def sample_input_def sample_service_def ValidMediaType_def sample_lib0_def)
qed

lemma sample_run2:
  "\<exists>res. Service_CreateUploadWithIdempotency sample_lib0 (sample_service sample_lib0) sample_user sample_input []
     (sample_at sample_r1 (NewStorage ''b'') 1) = Some (res, sample_at sample_r2 (sample_part gempty) 4)"
proof -
  have node: "Repo_Node sample_user (sample_id 0) False sample_r1 = Inr (zero_Node\<lparr>nID := sample_id 0, nTenantID := sample_uuid, nKind := NodeDirectory,
     nStatus := NodeActive, nRevision := 1, nCreatedAt := 50, nUpdatedAt := 50\<rparr>)"
    by (simp add: Repo_Node_def sample_r1_tables sample_user_def visible_def zero_Node_def)
  have create: "Repo_CreateUpload \<lparr>cuSession = sample_upload_session, cuIdempotency = None\<rparr> sample_r1 = (Inr sample_upload_session, sample_r2)"
    using sample_r1_root by (simp add: Repo_CreateUpload_def sample_upload_session_def new_session_def sample_user_def sample_input_def
        sample_r1_tables completeIdempotency_def sample_r2_def Let_def)
  have make: "spCreateMultipart (memory_provider sample_lib0) \<lparr>seRand = sample_tape 3, seNow = 50\<rparr> sample_key ''text/plain'' zero_Checksum (NewStorage ''b'')
      = (Inr (sample_id 3), sample_part gempty)"
    by (simp add: memory_provider_def Storage_CreateMultipart_def sample_tape_id sample_part_def NewStorage_def Let_def)
  have input: "ciParentID sample_input = sample_id 0" "ciName sample_input = ''f''" "ciMimeType sample_input = ''text/plain''"
    "ciChecksum sample_input = zero_Checksum" by (simp_all add: sample_input_def)
  have user: "iTenantID sample_user = sample_uuid" by (simp add: sample_user_def)
  have sv: "svStorage (sample_service sample_lib0) = memory_provider sample_lib0" by (simp add: sample_service_def)
  have bucket: "spBucket (memory_provider sample_lib0) (sample_part gempty) = ''b''"
    by (simp add: memory_provider_def sample_part_def NewStorage_def Let_def Storage_Bucket_def)
  show ?thesis
    using create make
    by (simp add: Service_CreateUploadWithIdempotency_def sample_input_ok sample_name input user sv bucket node
        start_upload_def upload_parent_def claimCreation_def claim_completed_def svc_eval validateID_def sample_id_valid
        sample_key_def [symmetric] sample_upload_session_def [symmetric] zero_Node_def Let_def del: One_nat_def)
qed

lemma sample_run3:
  "\<exists>res. client_put sample_lib0 (sample_id 3) 1 ''hi'' (sample_at sample_r2 (sample_part gempty) 4)
     = Some (res, sample_at sample_r2 (sample_part (gput 1 ''hi'' gempty)) 5)"
  by (simp add: client_put_def sample_eval Storage_PutPart_def sample_part_def gput_def gdel_def gempty_def)

definition sample_receipt :: CompletedPart where
  "sample_receipt = \<lparr>cpPartNumber = 1, cpETag = part_etag sample_lib0 ''hi'', cpChecksum = content_checksum sample_lib0 ''hi'', cpSize = 2\<rparr>"

lemma sample_checksum: "ValidChecksum (content_checksum sample_lib0 bytes)" "cAlgorithm (content_checksum sample_lib0 bytes) = ''sha256''"
proof -
  have "length (lib_sha256 sample_lib0 bytes) = 32" by (simp add: sample_lib0_def)
  then show "ValidChecksum (content_checksum sample_lib0 bytes)" by (auto simp: ValidChecksum_iff content_checksum_def)
qed (simp add: content_checksum_def)

lemma sample_receipt_valid: "validateParts [sample_receipt] = Inr ()"
proof -
  have "length (part_etag sample_lib0 ''hi'') = 34" by (simp add: part_etag_def sample_lib0_def)
  then have "part_etag sample_lib0 ''hi'' \<noteq> []" "length (part_etag sample_lib0 ''hi'') \<le> 1024" by auto
  then show ?thesis by (simp add: validateParts_def sample_receipt_def sample_checksum)
qed

definition sample_info :: ObjectInfo where
  "sample_info = completed_info sample_lib0 ''b'' sample_key ''hi''"

definition sample_stored :: Storage where
  "sample_stored = snd (Storage_CompleteMultipart sample_lib0 sample_key (sample_id 3) [sample_receipt] (sample_part (gput 1 ''hi'' gempty)))"

lemma sample_completed:
  "Storage_CompleteMultipart sample_lib0 sample_key (sample_id 3) [sample_receipt] (sample_part (gput 1 ''hi'' gempty)) = (Inr sample_info, sample_stored)"
  "Storage_StatObject sample_key sample_stored = Inr sample_info"
proof -
  have "assemble sample_lib0 (gput 1 ''hi'' gempty) (order_parts [sample_receipt]) [] = Inr ''hi''"
    by (simp add: order_parts_def sort_slice_def sample_receipt_def)
  then show "Storage_CompleteMultipart sample_lib0 sample_key (sample_id 3) [sample_receipt] (sample_part (gput 1 ''hi'' gempty)) = (Inr sample_info, sample_stored)"
    by (simp add: sample_stored_def Storage_CompleteMultipart_def find_upload_def sample_part_def sample_info_def completed_info_def NewStorage_def Let_def zero_Checksum_def)
  with \<open>assemble sample_lib0 (gput 1 ''hi'' gempty) (order_parts [sample_receipt]) [] = Inr ''hi''\<close>
  show "Storage_StatObject sample_key sample_stored = Inr sample_info"
    by (simp add: sample_stored_def Storage_StatObject_def Storage_CompleteMultipart_def find_upload_def sample_part_def sample_info_def completed_info_def NewStorage_def Let_def zero_Checksum_def)
qed

lemma CommitUpload_publishes:
  assumes "uploadFor r (cmIdentity c) (cmSessionID c) = Inr s" "uCompletionDigest s = cmDigest c" "uStatus s = UploadObjectCompleted"
    and "activeNode r (iTenantID (cmIdentity c)) (uParentID s) = Some p" "nKind p = NodeDirectory"
    and "\<not> nameExists r (uTenantID s) (uParentID s) (uNormalizedName s) []"
    and op: "Repo_CommitUpload env c r = (res, r')"
  shows "nodes r' = gput (nID (cmNode c)) (cmNode c) (nodes r)"
    and "\<And>e. res = Inl e \<Longrightarrow> CodeOf e \<noteq> CodeNameConflict \<and> CodeOf e \<noteq> CodeNotFound"
proof -
  let ?r0 = "CommitUpload_publish c ((move_upload UploadCommitted (cmNow c) s)\<lparr>uCommittedNodeID := nID (cmNode c)\<rparr>) r"
  obtain ev and x :: "CompleteResult \<times> bool" where audit: "with_audit env ev x ?r0 = (res, r')"
    using op by (simp add: Repo_CommitUpload_def assms Let_def)
  have "nodes ?r0 = gput (nID (cmNode c)) (cmNode c) (nodes r)" by (simp add: CommitUpload_publish_def put_upload_def)
  with audit show "nodes r' = gput (nID (cmNode c)) (cmNode c) (nodes r)" by (auto dest!: with_audit_pair appendAuditLocked_pair)
  show "CodeOf e \<noteq> CodeNameConflict \<and> CodeOf e \<noteq> CodeNotFound" if "res = Inl e" for e
    using audit that by (auto dest: with_audit_code)
qed

definition sample_completing :: "string \<Rightarrow> UploadSession" where
  "sample_completing digest = (move_upload UploadCompleting 50 sample_upload_session)\<lparr>uCompletionDigest := digest\<rparr>"

lemma sample_session_fields:
  "uID (sample_completing d) = sample_id 1" "uStatus (sample_completing d) = UploadCompleting" "uTenantID (sample_completing d) = sample_uuid"
  "uParentID (sample_completing d) = sample_id 0" "uNormalizedName (sample_completing d) = ''f''" "uObjectKey (sample_completing d) = sample_key"
  "uStorageUploadID (sample_completing d) = sample_id 3" "uDeclaredChecksum (sample_completing d) = zero_Checksum"
  "uExpectedSize (sample_completing d) = 2" "uCompletionDigest (sample_completing d) = d" "iTenantID sample_user = sample_uuid"
  by (simp_all add: sample_completing_def sample_upload_session_def new_session_def sample_user_def sample_input_def move_upload_def)

lemma sample_object_ok:
  "complete_object (sample_service sample_lib0) sample_user (sample_completing d) d [sample_receipt] (sample_at r (sample_part (gput 1 ''hi'' gempty)) 5)
     = Some (Inr sample_info, sample_at r sample_stored 7)"
  "check_object (sample_service sample_lib0) sample_user (sample_completing d) d sample_info w = Some (Inr sample_info, w)"
proof -
  have sv: "svStorage (sample_service sample_lib0) = memory_provider sample_lib0" by (simp add: sample_service_def)
  show "complete_object (sample_service sample_lib0) sample_user (sample_completing d) d [sample_receipt] (sample_at r (sample_part (gput 1 ''hi'' gempty)) 5)
      = Some (Inr sample_info, sample_at r sample_stored 7)"
    by (simp add: complete_object_def sample_session_fields sv svc_eval memory_provider_def sample_completed)
  show "check_object (sample_service sample_lib0) sample_user (sample_completing d) d sample_info w = Some (Inr sample_info, w)"
    by (simp add: check_object_def normalizeObjectChecksum_def sample_info_def completed_info_def sample_checksum sample_session_fields
        zero_Checksum_def ret_def)
qed

text \<open>Whatever the audit of the commit answers, the file is in the tree.\<close>

lemma sample_run4:
  "\<exists>res r4 st4 k node. Service_CompleteUpload sample_lib0 (sample_service sample_lib0) ctx sample_user (sample_id 1) [sample_receipt]
       (sample_at sample_r2 (sample_part (gput 1 ''hi'' gempty)) 5) = Some (res, sample_at r4 st4 k)
     \<and> activeNode r4 sample_uuid (sample_id 8) = Some node \<and> nKind node = NodeFile
     \<and> nParentID node = sample_id 0 \<and> nNormalizedName node = ''f''"
proof -
  note [simp del] = One_nat_def
  note fields = sample_session_fields
  let ?d = "partsDigest sample_lib0 [sample_receipt]"
  let ?s = "sample_completing ?d"
  let ?s' = "move_upload UploadObjectCompleted 50 ?s"
  obtain r3 where begin_complete: "Repo_BeginComplete sample_user (sample_id 1) ?d [sample_receipt] 50 sample_r2 = (Inr ?s, r3)"
    and r3: "nodes r3 = nodes sample_r1" "gget (uploads r3) (sample_id 1) = Some ?s"
    by (simp add: Repo_BeginComplete_def sample_r2_def uploadFor_def put_upload_def sample_upload_session_def new_session_def
        sample_user_def sample_service_def sample_completing_def Let_def)
  define r4 where "r4 = put_upload (sample_id 1) ?s' r3"
  have mark: "Repo_MarkObjectCompleted sample_user (sample_id 1) sample_info 50 r3 = (Inr ?s', r4)"
    by (simp add: Repo_MarkObjectCompleted_def uploadFor_def r3 fields r4_def Let_def)
  let ?c = "commit_command sample_user ?s' (sample_id 1) ?d [sample_receipt] sample_info (sample_id 7) (sample_id 8) (sample_id 9) 50"
  obtain res5 r5 where commit: "Repo_CommitUpload \<lparr>envCtx = ctx, envRand = sample_tape 10\<rparr> ?c r4 = (res5, r5)" by fastforce
  have r4: "activeNode r4 sample_uuid (sample_id 0) = activeNode sample_r1 sample_uuid (sample_id 0)"
    "nameExists r4 sample_uuid (sample_id 0) ''f'' [] = nameExists sample_r1 sample_uuid (sample_id 0) ''f'' []"
    "uploadFor r4 sample_user (sample_id 1) = Inr ?s'"
    by (simp_all add: activeNode_def nameExists_def r4_def r3 put_upload_def uploadFor_def fields)
  have cmd: "cmIdentity ?c = sample_user" "cmSessionID ?c = sample_id 1" "cmDigest ?c = ?d" "nID (cmNode ?c) = sample_id 8"
    "cmNode ?c = commit_node sample_user ?s' sample_info (sample_id 8) (sample_id 9) 50" by (simp_all add: commit_command_def commit_node_def)
  obtain p where root: "activeNode r4 (iTenantID (cmIdentity ?c)) (uParentID ?s') = Some p" "nKind p = NodeDirectory"
    and free: "\<not> nameExists r4 (uTenantID ?s') (uParentID ?s') (uNormalizedName ?s') []"
    using sample_r1_root by (auto simp: cmd r4 fields)
  have held: "uploadFor r4 (cmIdentity ?c) (cmSessionID ?c) = Inr ?s'" "uCompletionDigest ?s' = cmDigest ?c" "uStatus ?s' = UploadObjectCompleted"
    by (simp_all add: cmd r4 fields)
  note published = CommitUpload_publishes [OF held root free commit]
  have "nodes r5 = gput (sample_id 8) (cmNode ?c) (nodes r4)" using published(1) by (simp only: cmd(4))
  moreover note err = published(2)
  ultimately have "activeNode r5 sample_uuid (sample_id 8) = Some (cmNode ?c)" "nKind (cmNode ?c) = NodeFile"
    "nParentID (cmNode ?c) = sample_id 0" "nNormalizedName (cmNode ?c) = ''f''"
    by (simp_all add: activeNode_Some cmd commit_node_def zero_Node_def visible_def fields)
  moreover have "\<exists>res. commit_object (sample_service sample_lib0) ctx sample_user ?s' (sample_id 1) ?d [sample_receipt] sample_info
      (sample_at r4 sample_stored 7) = Some (res, sample_at r5 sample_stored 11)"
    using commit err by (cases res5) (auto simp: commit_object_def svc_eval split: prod.splits)
  ultimately show ?thesis
    using begin_complete mark sample_object_ok
    by (simp add: Service_CompleteUpload_def svc_eval validateID_def sample_id_valid sample_receipt_valid fields
        mark_object_completed_def Let_def) blast
qed

lemma sample_reached:
  obtains w node where "(drive_step sample_lib0 (sample_service sample_lib0))\<^sup>*\<^sup>* sample_start w"
    "activeNode (wRepo w) sample_uuid (sample_id 8) = Some node" "nKind node = NodeFile" "nParentID node = sample_id 0" "nNormalizedName node = ''f''"
proof -
  let ?s = "sample_service sample_lib0"
  obtain res4 r4 st4 k node where run4: "Service_CompleteUpload sample_lib0 ?s [] sample_user (sample_id 1) [sample_receipt]
       (sample_at sample_r2 (sample_part (gput 1 ''hi'' gempty)) 5) = Some (res4, sample_at r4 st4 k)"
    and node: "activeNode r4 sample_uuid (sample_id 8) = Some node" "nKind node = NodeFile" "nParentID node = sample_id 0" "nNormalizedName node = ''f''"
    using sample_run4 by blast
  have "(drive_step sample_lib0 ?s)\<^sup>*\<^sup>* sample_start (sample_at r4 st4 k)"
    using sample_run1 sample_run2 sample_run3 run4
    by (meson drive_step.ensure_tenant drive_step.create_upload drive_step.put_part drive_step.complete_upload
        rtranclp.rtrancl_into_rtrancl rtranclp.rtrancl_refl)
  with that [of "sample_at r4 st4 k" node] node show thesis by (simp add: sample_eval)
qed

lemma sample_setup: "svStorage (sample_service sample_lib0) = memory_provider sample_lib0" "started sample_start"
  using sample_tape_ok by (auto simp: sample_service_def started_def sample_start_def)

theorem files_stay_downloadable_witness:
  "\<exists>w node signed w'. started sample_start \<and> (drive_step sample_lib0 (sample_service sample_lib0))\<^sup>*\<^sup>* sample_start w
     \<and> activeNode (wRepo w) (iTenantID sample_user) (sample_id 8) = Some node \<and> nKind node = NodeFile
     \<and> Service_Download (sample_service sample_lib0) sample_user (sample_id 8) w = Some (Inr signed, w')"
proof -
  obtain w node where steps: "(drive_step sample_lib0 (sample_service sample_lib0))\<^sup>*\<^sup>* sample_start w"
    and node: "activeNode (wRepo w) sample_uuid (sample_id 8) = Some node" "nKind node = NodeFile" by (rule sample_reached)
  have user: "activeNode (wRepo w) (iTenantID sample_user) (sample_id 8) = Some node" using node(1) by (simp add: sample_user_def)
  from files_stay_downloadable [OF sample_setup steps user node(2) sample_id_valid] user node(2) steps sample_setup(2)
  show ?thesis by auto
qed

theorem sibling_names_unique_witness:
  "\<exists>w. (drive_step sample_lib0 (sample_service sample_lib0))\<^sup>*\<^sup>* sample_start w
     \<and> {j. \<exists>b. activeNode (wRepo w) sample_uuid j = Some b \<and> nParentID b = sample_id 0 \<and> nNormalizedName b = ''f''} = {sample_id 8}"
proof -
  obtain w node where steps: "(drive_step sample_lib0 (sample_service sample_lib0))\<^sup>*\<^sup>* sample_start w"
    and node: "activeNode (wRepo w) sample_uuid (sample_id 8) = Some node" "nParentID node = sample_id 0" "nNormalizedName node = ''f''"
    by (rule sample_reached)
  have "sample_id 0 \<noteq> []" using sample_id_valid [of 0] by auto
  then have "j = sample_id 8" if "activeNode (wRepo w) sample_uuid j = Some b" "nParentID b = sample_id 0" "nNormalizedName b = ''f''" for j b
    using sibling_names_unique [OF sample_setup steps that(1) node(1)] that node by simp
  with node steps show ?thesis by blast
qed

section \<open>A run with nested directories\<close>

text \<open>A second run: a directory in the root and a directory of the same name in it.\<close>

definition sample_dir :: "nat \<Rightarrow> string \<Rightarrow> Node" where
  "sample_dir k parent = zero_Node\<lparr>nID := sample_id k, nTenantID := sample_uuid, nParentID := parent, nKind := NodeDirectory,
     nDisplayName := ''f'', nNormalizedName := ''f'', nStatus := NodeActive, nRevision := 1, nCreatedAt := 50, nUpdatedAt := 50\<rparr>"

lemma sample_dir_created:
  assumes parent: "activeNode r sample_uuid parent = Some p" "nKind p = NodeDirectory" "\<not> nameExists r sample_uuid parent ''f'' []"
    and k: "k < 15" and valid: "ValidID parent"
    and meta: "boundedAuditMetadata (Some [(''kind'', ''directory''), (''parent_id'', parent)]) = Inr md"
  obtains res r' where "Service_CreateDirectoryWithIdempotency sample_lib0 (sample_service sample_lib0) [] sample_user parent ''f'' [] (sample_at r st k)
      = Some (res, sample_at r' st (k + 2))" "nodes r' = gput (sample_id k) (sample_dir k parent) (nodes r)" "tenants r' = tenants r"
proof -
  let ?c = "\<lparr>cdIdentity = sample_user, cdID = sample_id k, cdParentID = parent, cdDisplayName = ''f'', cdNormalizedName = ''f'', cdNow = 50, cdIdempotency = None\<rparr>"
  let ?env = "\<lparr>envCtx = [], envRand = sample_tape (k + 1)\<rparr>"
  have user: "iTenantID sample_user = sample_uuid" by (simp add: sample_user_def)
  have dir: "new_directory ?c = sample_dir k parent" by (simp add: new_directory_def sample_dir_def user)
  obtain r' where run: "Repo_CreateDirectory ?env ?c r = (Inr (sample_dir k parent), r')"
      "nodes r' = gput (sample_id k) (sample_dir k parent) (nodes r)" "tenants r' = tenants r"
    using parent meta k sample_tape_id [of "k + 1"]
    by (auto simp: Repo_CreateDirectory_def user dir Let_def completeIdempotency_def appendAuditLocked_def audit_event_def sample_dir_def)
  have "Service_CreateDirectoryWithIdempotency sample_lib0 (sample_service sample_lib0) [] sample_user parent ''f'' [] (sample_at r st k)
      = Some (Inr \<lparr>doNode = sample_dir k parent, doReplayed = False\<rparr>, sample_at r' st (k + 2))"
    using run(1) k valid
    by (simp add: Service_CreateDirectoryWithIdempotency_def sample_name validateID_def svc_eval claimCreation_def claim_completed_def Let_def)
  then show thesis using run(2,3) by (rule that)
qed

lemma sample_ids_apart: "m < 16 \<Longrightarrow> n < 16 \<Longrightarrow> sample_id m = sample_id n \<longleftrightarrow> m = n"
  using sample_tape_ok sample_tape_id unfolding tape_ok_def by metis

lemma sample_nested:
  obtains r where "(drive_step sample_lib0 (sample_service sample_lib0))\<^sup>*\<^sup>* sample_start (sample_at r (NewStorage ''b'') 5)"
    "nodes r = gput (sample_id 3) (sample_dir 3 (sample_id 1)) (gput (sample_id 1) (sample_dir 1 (sample_id 0)) (nodes sample_r1))"
    "tenants r = tenants sample_r1"
proof -
  let ?step = "drive_step sample_lib0 (sample_service sample_lib0)" and ?st = "NewStorage ''b''"
  have first: "?step sample_start (sample_at sample_r1 ?st 1)" using sample_run1 drive_step.ensure_tenant by blast
  have meta: "boundedAuditMetadata (Some [(''kind'', ''directory''), (''parent_id'', sample_id 0)]) = Inr [(''kind'', ''directory''), (''parent_id'', sample_id 0)]"
    "boundedAuditMetadata (Some [(''kind'', ''directory''), (''parent_id'', sample_id 1)]) = Inr [(''kind'', ''directory''), (''parent_id'', sample_id 1)]"
    by code_simp+
  obtain res r where one: "Service_CreateDirectoryWithIdempotency sample_lib0 (sample_service sample_lib0) [] sample_user (sample_id 0) ''f'' [] (sample_at sample_r1 ?st 1)
      = Some (res, sample_at r ?st (1 + 2))" and r: "nodes r = gput (sample_id 1) (sample_dir 1 (sample_id 0)) (nodes sample_r1)" "tenants r = tenants sample_r1"
    by (rule sample_dir_created [OF sample_r1_root(1) _ sample_r1_root(2) _ _ meta(1), of 1 ?st]) (simp_all add: sample_id_valid)
  have parent: "activeNode r sample_uuid (sample_id 1) = Some (sample_dir 1 (sample_id 0))"
    by (simp add: activeNode_Some r sample_dir_def visible_def zero_Node_def)
  have free: "\<not> nameExists r sample_uuid (sample_id 1) ''f'' []"
    by (auto simp: nameExists_iff r sample_r1_tables sample_dir_def sample_ids_apart zero_Node_def split: if_splits)
  have kind: "nKind (sample_dir 1 (sample_id 0)) = NodeDirectory" by (simp add: sample_dir_def)
  obtain res' r' where two: "Service_CreateDirectoryWithIdempotency sample_lib0 (sample_service sample_lib0) [] sample_user (sample_id 1) ''f'' [] (sample_at r ?st 3)
      = Some (res', sample_at r' ?st (3 + 2))" and r': "nodes r' = gput (sample_id 3) (sample_dir 3 (sample_id 1)) (nodes r)" "tenants r' = tenants r"
    by (rule sample_dir_created [OF parent kind free _ _ meta(2), of 3 ?st]) (simp_all add: sample_id_valid)
  have "?step (sample_at sample_r1 ?st 1) (sample_at r ?st 3)" "?step (sample_at r ?st 3) (sample_at r' ?st 5)"
    using drive_step.create_directory [OF one] drive_step.create_directory [OF two] by (simp_all del: One_nat_def)
  with first have "?step\<^sup>*\<^sup>* sample_start (sample_at r' ?st 5)" by (meson converse_rtranclp_into_rtranclp rtranclp.rtrancl_refl)
  then show thesis using r r' by (intro that [of r']) simp_all
qed

theorem walks_return_witness:
  "\<exists>r. (drive_step sample_lib0 (sample_service sample_lib0))\<^sup>*\<^sup>* sample_start (sample_at r (NewStorage ''b'') 5)
     \<and> isDescendant r (sample_id 3) (sample_id 1) sample_uuid = Some True
     \<and> (\<exists>w'. Service_UpdateNode sample_lib0 [] sample_user (sample_id 1) None (Some (sample_id 3)) 1 (sample_at r (NewStorage ''b'') 5)
           = Some (Inl (E CodeInvalidRequest ''directory cannot be moved into itself or a descendant''), w'))
     \<and> (\<exists>res w'. Service_Recycle [] sample_user (sample_id 1) 1 (sample_at r (NewStorage ''b'') 5) = Some (res, w'))"
proof -
  obtain r where steps: "(drive_step sample_lib0 (sample_service sample_lib0))\<^sup>*\<^sup>* sample_start (sample_at r (NewStorage ''b'') 5)"
    and r: "nodes r = gput (sample_id 3) (sample_dir 3 (sample_id 1)) (gput (sample_id 1) (sample_dir 1 (sample_id 0)) (nodes sample_r1))"
      "tenants r = tenants sample_r1"
    by (rule sample_nested)
  have ids: "sample_id n \<noteq> []" if "n < 16" for n using ValidID_nonempty [OF sample_id_valid [OF that]] .
  have nodes: "gget (nodes r) (sample_id 1) = Some (sample_dir 1 (sample_id 0))" "gget (nodes r) (sample_id 3) = Some (sample_dir 3 (sample_id 1))"
    by (simp_all add: r sample_ids_apart)
  have below: "isDescendant r (sample_id 3) (sample_id 1) sample_uuid = Some True"
    by (subst isDescendant.simps, subst isDescendant.simps) (simp add: nodes ids sample_ids_apart, simp add: sample_dir_def)
  have root: "tRootNodeID (gget_or zero_Tenant (tenants r) sample_uuid) = sample_id 0"
    by (simp add: r(2) sample_r1_def Repo_EnsureTenant_def sample_seed_def NewRepository_def gget_or_def Let_def)
  note returns = walks_return [of "sample_service sample_lib0" sample_lib0 sample_start, OF sample_setup steps]
  obtain res w' where run: "Service_UpdateNode sample_lib0 [] sample_user (sample_id 1) None (Some (sample_id 3)) 1 (sample_at r (NewStorage ''b'') 5) = Some (res, w')"
    using returns by blast
  then have "res = Inl (E CodeInvalidRequest ''directory cannot be moved into itself or a descendant'')"
    using below
    by (simp add: Service_UpdateNode_def normalize_optional_def validateID_def sample_id_valid svc_eval repo_walk_def Repo_UpdateNode_def UpdateNode_parent_def activeNode_def
        nodes root sample_user_def sample_dir_def visible_def zero_Node_def sample_ids_apart Let_def del: One_nat_def)
  with run below steps returns show ?thesis by blast
qed

end
