(* ===== verification/Staging_Bundle.thy ===== *)
theory Staging_Bundle
  imports Memory_Storage
begin

text \<open>
  The approved release bundles of the staging controller, \<^verbatim>\<open>internal/staging/bundle.go\<close>: the
  record, the validation of its metadata and of the hashes of its files, and the allowlist
  \<open>LoadBundles\<close> reads. What the code takes from the platform is a record of functions: reading a
  file, the lexical path operations of \<^verbatim>\<open>path/filepath\<close>, \<^verbatim>\<open>strconv.Quote\<close> and the JSON decoder.
\<close>

record Bundle =
  buFormat :: string
  buVersion :: string
  buSourceCommit :: string
  buImage :: string
  buComposeSHA256 :: string
  buDeployScriptSHA256 :: string
  buMonitorScriptSHA256 :: string
  buRecoveryScriptSHA256 :: string
  buSchemaVersion :: int
  buDeploymentEvidence :: string
  buMonitorEvidence :: string
  buRecoveryEvidence :: string
  buOperations :: "string list"
  buDirectory :: string

record ActiveState =
  asVersion :: string
  asComposeSHA256 :: string
  asImage :: string
  asSchemaVersion :: int
  asHealthy :: bool

type_synonym BundleSet = "(string, Bundle) gomap"

record Platform =
  pfReadFile :: "string \<Rightarrow> string result"
  pfJoin :: "string \<Rightarrow> string \<Rightarrow> string"
  pfBase :: "string \<Rightarrow> string"
  pfQuote :: "string \<Rightarrow> string"
  pfUnmarshal_bundle :: "string \<Rightarrow> Bundle result"

text \<open>\<^verbatim>\<open>fmt.Errorf\<close> without and with a wrapped error; \<open>errors_Is\<close> follows the chain.\<close>

definition fmt_Errorf :: "string \<Rightarrow> error" where
  "fmt_Errorf message = OtherError message None"

definition fmt_Errorf_w :: "string \<Rightarrow> error \<Rightarrow> error" where
  "fmt_Errorf_w prefix err = OtherError (prefix @ '': '' @ Error_string err) (Some err)"

definition fmt_Errorf_w_detail :: "error \<Rightarrow> string \<Rightarrow> error" where
  "fmt_Errorf_w_detail err detail = OtherError (Error_string err @ '': '' @ detail) (Some err)"

fun errors_Is :: "error \<Rightarrow> error \<Rightarrow> bool" where
  "errors_Is (DomainError code message retry cause) target \<longleftrightarrow> DomainError code message retry cause = target
     \<or> (case cause of None \<Rightarrow> False | Some e \<Rightarrow> errors_Is e target)"
| "errors_Is (OtherError message cause) target \<longleftrightarrow> OtherError message cause = target
     \<or> (case cause of None \<Rightarrow> False | Some e \<Rightarrow> errors_Is e target)"
| "errors_Is (Panic message) target \<longleftrightarrow> Panic message = target"

section \<open>Validation\<close>

definition BundleFormat :: string where
  "BundleFormat = ''asteria-drive-staging-release/v1''"

definition VersionV011 :: string where
  "VersionV011 = ''v0.1.1''"

definition VersionV020 :: string where
  "VersionV020 = ''v0.2.0''"

definition supportedVersions :: "string list" where
  "supportedVersions = [VersionV011, VersionV020]"

definition lower_hex :: "nat \<Rightarrow> string \<Rightarrow> bool" where
  "lower_hex n s \<longleftrightarrow> length s = n \<and> list_all (\<lambda>c. c \<in> set ''0123456789abcdef'') s"

definition digestPattern :: "string \<Rightarrow> bool" where
  "digestPattern s = lower_hex 64 s"

definition imagePattern :: "string \<Rightarrow> bool" where
  "imagePattern s =
     (let prefix = ''ghcr.io/baicie/asteria-drive@sha256:''
      in take (length prefix) s = prefix \<and> lower_hex 64 (drop (length prefix) s))"

definition commitPattern :: "string \<Rightarrow> bool" where
  "commitPattern s = lower_hex 40 s"

definition operations :: "string list" where
  "operations = [''deploy'', ''rollback'', ''monitor'', ''recovery'']"

definition schemaVersion :: int where
  "schemaVersion = 3"

definition isSupportedVersion :: "string \<Rightarrow> bool" where
  "isSupportedVersion version = list_ex (\<lambda>supported. version = supported) supportedVersions"

text \<open>
  The four hashes are the values of a map literal, which Go walks in no fixed order; the order
  decides only which of several invalid fields the message names.
\<close>

fun check_digests :: "(string \<times> string) list \<Rightarrow> unit result" where
  "check_digests [] = Inr ()"
| "check_digests ((name, value) # rest) =
     (if \<not> digestPattern value then Inl (fmt_Errorf (''invalid '' @ name)) else check_digests rest)"

fun check_operations :: "Platform \<Rightarrow> string list \<Rightarrow> string list \<Rightarrow> unit result" where
  "check_operations pf seen [] = Inr ()"
| "check_operations pf seen (operation # rest) =
     (if operation \<notin> set operations \<or> operation \<in> set seen
      then Inl (fmt_Errorf (''invalid or duplicate operation '' @ pfQuote pf operation))
      else check_operations pf (operation # seen) rest)"

definition validateBundleMetadata :: "Platform \<Rightarrow> Bundle \<Rightarrow> unit result" where
  "validateBundleMetadata pf bundle =
     (if buFormat bundle \<noteq> BundleFormat
      then Inl (fmt_Errorf (''unexpected bundle format '' @ pfQuote pf (buFormat bundle)))
      else if \<not> isSupportedVersion (buVersion bundle)
      then Inl (fmt_Errorf (''unsupported version '' @ pfQuote pf (buVersion bundle)))
      else if \<not> commitPattern (buSourceCommit bundle) then Inl (fmt_Errorf ''invalid source commit'')
      else if \<not> imagePattern (buImage bundle) then Inl (fmt_Errorf ''invalid OCI image reference'')
      else
        (case check_digests [(''compose_sha256'', buComposeSHA256 bundle), (''deploy_script_sha256'', buDeployScriptSHA256 bundle),
            (''monitor_script_sha256'', buMonitorScriptSHA256 bundle), (''recovery_script_sha256'', buRecoveryScriptSHA256 bundle)] of
           Inl err \<Rightarrow> Inl err
         | Inr _ \<Rightarrow>
             if buSchemaVersion bundle \<noteq> schemaVersion
             then Inl (fmt_Errorf (''unsupported schema version '' @ show_int (buSchemaVersion bundle)))
             else if buDeploymentEvidence bundle \<noteq> ''asteria-drive-staging-deployment/v2''
                \<or> buMonitorEvidence bundle \<noteq> ''asteria-drive-staging-monitor/v2''
                \<or> buRecoveryEvidence bundle \<noteq> ''asteria-drive-staging-recovery/v2''
             then Inl (fmt_Errorf ''unexpected evidence schema'')
             else if length (buOperations bundle) \<noteq> length operations
             then Inl (fmt_Errorf ''bundle operations must be the complete approved set'')
             else check_operations pf [] (buOperations bundle)))"

definition Bundle_ValidateActive :: "Platform \<Rightarrow> Bundle \<Rightarrow> ActiveState \<Rightarrow> unit result" where
  "Bundle_ValidateActive pf bundle snapshot =
     (if asVersion snapshot \<noteq> buVersion bundle
      then Inl (fmt_Errorf (''active version '' @ pfQuote pf (asVersion snapshot) @ '' is not bundle '' @ pfQuote pf (buVersion bundle)))
      else if asComposeSHA256 snapshot \<noteq> buComposeSHA256 bundle
      then Inl (fmt_Errorf (''active Compose hash '' @ asComposeSHA256 snapshot @ '' does not match '' @ buComposeSHA256 bundle))
      else if asImage snapshot \<noteq> buImage bundle
      then Inl (fmt_Errorf (''active image '' @ asImage snapshot @ '' does not match '' @ buImage bundle))
      else if asSchemaVersion snapshot \<noteq> buSchemaVersion bundle
      then Inl (fmt_Errorf (''active schema '' @ show_int (asSchemaVersion snapshot) @ '' does not match '' @ show_int (buSchemaVersion bundle)))
      else if \<not> asHealthy snapshot
      then Inl (fmt_Errorf (''active version '' @ asVersion snapshot @ '' is not healthy''))
      else Inr ())"

section \<open>Loading\<close>

definition fileSHA256 :: "Lib \<Rightarrow> Platform \<Rightarrow> string \<Rightarrow> string result" where
  "fileSHA256 lib pf path =
     (case pfReadFile pf path of
        Inl err \<Rightarrow> Inl (fmt_Errorf_w (''read '' @ pfBase pf path) err)
      | Inr contents \<Rightarrow> Inr (hex_EncodeToString (lib_sha256 lib contents)))"

fun check_files :: "Lib \<Rightarrow> Platform \<Rightarrow> string \<Rightarrow> (string \<times> string) list \<Rightarrow> unit result" where
  "check_files lib pf directory [] = Inr ()"
| "check_files lib pf directory ((name, want) # rest) =
     (case fileSHA256 lib pf (pfJoin pf directory name) of
        Inl err \<Rightarrow> Inl err
      | Inr actual \<Rightarrow>
          if actual \<noteq> want
          then Inl (fmt_Errorf (name @ '' hash '' @ actual @ '' does not match bundle '' @ want))
          else check_files lib pf directory rest)"

definition bundle_files :: "Bundle \<Rightarrow> (string \<times> string) list" where
  "bundle_files bundle = [(''compose.yaml'', buComposeSHA256 bundle), (''deploy-staging.sh'', buDeployScriptSHA256 bundle),
     (''monitor-staging.sh'', buMonitorScriptSHA256 bundle), (''recover-staging.sh'', buRecoveryScriptSHA256 bundle)]"

definition loadBundle :: "Lib \<Rightarrow> Platform \<Rightarrow> string \<Rightarrow> Bundle result" where
  "loadBundle lib pf directory =
     (case pfReadFile pf (pfJoin pf directory ''bundle.json'') of
        Inl err \<Rightarrow> Inl (fmt_Errorf_w ''read bundle'' err)
      | Inr contents \<Rightarrow>
          (case pfUnmarshal_bundle pf contents of
             Inl err \<Rightarrow> Inl (fmt_Errorf_w ''decode bundle'' err)
           | Inr decoded \<Rightarrow>
               let bundle = decoded\<lparr>buDirectory := directory\<rparr>
               in (case validateBundleMetadata pf bundle of
                     Inl err \<Rightarrow> Inl err
                   | Inr _ \<Rightarrow>
                       (case check_files lib pf directory (bundle_files bundle) of
                          Inl err \<Rightarrow> Inl err
                        | Inr _ \<Rightarrow> Inr bundle))))"

fun load_versions :: "Lib \<Rightarrow> Platform \<Rightarrow> string \<Rightarrow> string list \<Rightarrow> BundleSet \<Rightarrow> BundleSet result" where
  "load_versions lib pf root [] bundles = Inr bundles"
| "load_versions lib pf root (version # rest) bundles =
     (case loadBundle lib pf (pfJoin pf root version) of
        Inl err \<Rightarrow> Inl (fmt_Errorf_w (''load '' @ version) err)
      | Inr bundle \<Rightarrow>
          if buVersion bundle \<noteq> version
          then Inl (fmt_Errorf (''bundle directory '' @ version @ '' contains version '' @ buVersion bundle))
          else load_versions lib pf root rest (gput version bundle bundles))"

definition LoadBundles :: "Lib \<Rightarrow> Platform \<Rightarrow> string \<Rightarrow> BundleSet result" where
  "LoadBundles lib pf root = load_versions lib pf root supportedVersions gempty"

section \<open>The allowlist\<close>

text \<open>
  What the controller relies on: every bundle stands under its own version, its metadata is
  valid, and the hashes it carries are those of the files in its directory.
\<close>

definition bundle_stored :: "Lib \<Rightarrow> Platform \<Rightarrow> string \<Rightarrow> Bundle \<Rightarrow> bool" where
  "bundle_stored lib pf directory bundle \<longleftrightarrow> validateBundleMetadata pf bundle = Inr () \<and>
     list_all (\<lambda>(name, want). case pfReadFile pf (pfJoin pf directory name) of
        Inl _ \<Rightarrow> False | Inr contents \<Rightarrow> hex_EncodeToString (lib_sha256 lib contents) = want) (bundle_files bundle)"

definition bundles_ok :: "BundleSet \<Rightarrow> bool" where
  "bundles_ok bundles \<longleftrightarrow> list_all (\<lambda>(version, bundle). buVersion bundle = version) (gentries bundles)"

lemma bundles_okD: "bundles_ok bundles \<Longrightarrow> gget bundles v = Some b \<Longrightarrow> buVersion b = v"
  by (auto simp: bundles_ok_def list_all_iff gm.set_entries)

lemma check_files_Inr:
  "check_files lib pf directory fs = Inr () \<longleftrightarrow> list_all (\<lambda>(name, want). case pfReadFile pf (pfJoin pf directory name) of
     Inl _ \<Rightarrow> False | Inr contents \<Rightarrow> hex_EncodeToString (lib_sha256 lib contents) = want) fs"
  by (induction fs) (auto simp: fileSHA256_def split: sum.splits if_splits)

lemma loadBundle_Inr: "loadBundle lib pf directory = Inr bundle \<Longrightarrow> bundle_stored lib pf directory bundle"
  by (auto simp: loadBundle_def bundle_stored_def check_files_Inr [symmetric] Let_def split: sum.splits)

lemma load_versions_get:
  assumes "load_versions lib pf root versions bundles = Inr loaded" and "gget loaded v = Some b"
  shows "gget bundles v = Some b \<or> v \<in> set versions \<and> buVersion b = v \<and> bundle_stored lib pf (pfJoin pf root v) b"
  using assms
proof (induction versions arbitrary: bundles)
  case (Cons version rest)
  then obtain b' where "loadBundle lib pf (pfJoin pf root version) = Inr b'" "buVersion b' = version"
    "load_versions lib pf root rest (gput version b' bundles) = Inr loaded"
    by (auto split: sum.splits if_splits)
  with Cons.IH [OF this(3) Cons.prems(2)] loadBundle_Inr show ?case by (auto split: if_splits)
qed simp

lemma load_versions_dom:
  "load_versions lib pf root versions bundles = Inr loaded \<Longrightarrow> gget loaded v \<noteq> None \<longleftrightarrow> gget bundles v \<noteq> None \<or> v \<in> set versions"
  by (induction versions arbitrary: bundles) (auto split: sum.splits if_splits)

lemma LoadBundles_sound:
  assumes "LoadBundles lib pf root = Inr loaded"
  shows "bundles_ok loaded" and "gget loaded v \<noteq> None \<longleftrightarrow> isSupportedVersion v"
    and "gget loaded v = Some b \<Longrightarrow> bundle_stored lib pf (pfJoin pf root v) b"
  using load_versions_get [OF assms [unfolded LoadBundles_def]] load_versions_dom [OF assms [unfolded LoadBundles_def], of v]
  by (fastforce simp: bundles_ok_def list_all_iff gm.set_entries isSupportedVersion_def list_ex_iff)+

end
