(* ===== verification/Staging_Controller.thy ===== *)
theory Staging_Controller
  imports Staging_Bundle "HOL-Library.State_Monad"
begin

text \<open>
  The release controller of \<^verbatim>\<open>internal/staging/controller.go\<close>: a state machine whose record is
  persisted between runs. Its dependencies \<^verbatim>\<open>Host\<close>, \<^verbatim>\<open>StateStore\<close> and \<^verbatim>\<open>Locker\<close> are
  records of operations in the state monad over an environment \<open>'s\<close>. A method that returns
  \<^verbatim>\<open>(Record, error)\<close> returns a pair, since callers get the record also when there is an error.
\<close>

section \<open>States and records\<close>

type_synonym State = string

abbreviation StateIdle :: State where "StateIdle \<equiv> ''IDLE''"
abbreviation StatePrepared :: State where "StatePrepared \<equiv> ''PREPARED''"
abbreviation StateActivating :: State where "StateActivating \<equiv> ''ACTIVATING''"
abbreviation StateVerifying :: State where "StateVerifying \<equiv> ''VERIFYING''"
abbreviation StateActive :: State where "StateActive \<equiv> ''ACTIVE''"
abbreviation StateRollingBack :: State where "StateRollingBack \<equiv> ''ROLLING_BACK''"
abbreviation StateRollbackVerifying :: State where "StateRollbackVerifying \<equiv> ''ROLLBACK_VERIFYING''"
abbreviation StateFailed :: State where "StateFailed \<equiv> ''FAILED''"
abbreviation StateRecoveryRequired :: State where "StateRecoveryRequired \<equiv> ''RECOVERY_REQUIRED''"

definition RecordFormat :: string where
  "RecordFormat = ''asteria-drive-staging-state/v1''"

definition ErrLocked :: error where
  "ErrLocked = OtherError ''staging controller lock is held'' None"
definition ErrUnknownVersion :: error where
  "ErrUnknownVersion = OtherError ''version is not in the approved allowlist'' None"
definition ErrRecoveryRequired :: error where
  "ErrRecoveryRequired = OtherError ''staging requires manual recovery'' None"
definition ErrInProgress :: error where
  "ErrInProgress = OtherError ''another staging operation is in progress'' None"
definition ErrInvalidRequest :: error where
  "ErrInvalidRequest = OtherError ''invalid staging controller request'' None"
definition ErrInvalidTransition :: error where
  "ErrInvalidTransition = OtherError ''invalid staging state transition'' None"
definition ErrActiveUnreadable :: error where
  "ErrActiveUnreadable = OtherError ''active staging state is unreadable'' None"
definition ErrActiveUnapproved :: error where
  "ErrActiveUnapproved = OtherError ''active version is not approved'' None"
definition ErrActiveDrifted :: error where
  "ErrActiveDrifted = OtherError ''active version does not match its approved bundle'' None"
definition ErrActiveUnhealthy :: error where
  "ErrActiveUnhealthy = OtherError ''active version is unhealthy'' None"
definition ErrCurrentMismatch :: error where
  "ErrCurrentMismatch = OtherError ''expected current version does not match active version'' None"

definition transitionTable :: "(State \<times> State list) list" where
  "transitionTable =
    [(StateIdle, [StatePrepared, StateRollingBack, StateFailed, StateRecoveryRequired]),
     (StatePrepared, [StateActivating, StateFailed, StateRecoveryRequired]),
     (StateActivating, [StateVerifying, StateFailed, StateRollingBack, StateRecoveryRequired]),
     (StateVerifying, [StateActive, StateFailed, StateRollingBack, StateRecoveryRequired]),
     (StateActive, [StatePrepared, StateRollingBack, StateFailed, StateRecoveryRequired]),
     (StateRollingBack, [StateRollbackVerifying, StateFailed, StateRecoveryRequired]),
     (StateRollbackVerifying, [StateActive, StateRecoveryRequired]),
     (StateFailed, [StatePrepared, StateRecoveryRequired]),
     (StateRecoveryRequired, [])]"

definition TransitionAllowed :: "State \<Rightarrow> State \<Rightarrow> bool" where
  "TransitionAllowed from_state to_state =
     (case map_of transitionTable from_state of None \<Rightarrow> False | Some next \<Rightarrow> to_state \<in> set next)"

record Record =
  srFormat :: string
  srOperation :: string
  srRunID :: string
  srAttempt :: string
  srTargetVersion :: string
  srExpectedCurrentVersion :: string
  srPreviousVersion :: string
  srActiveVersion :: string
  srState :: State
  srActiveComposeSHA256 :: string
  srActiveImage :: string
  srSchemaVersion :: int
  srEvidenceDigest :: string
  srLastError :: string
  srUpdatedAt :: string

definition zero_Record :: Record where
  "zero_Record = \<lparr>srFormat = [], srOperation = [], srRunID = [], srAttempt = [], srTargetVersion = [],
     srExpectedCurrentVersion = [], srPreviousVersion = [], srActiveVersion = [], srState = [],
     srActiveComposeSHA256 = [], srActiveImage = [], srSchemaVersion = 0, srEvidenceDigest = [],
     srLastError = [], srUpdatedAt = []\<rparr>"

record Evidence =
  edVersion :: string
  edComposeSHA256 :: string
  edImage :: string
  edSchemaVersion :: int
  edHealthy :: bool
  edDigest :: string

section \<open>Dependencies\<close>

record 's Host =
  hReadActive :: "('s, ActiveState result) state"
  hActivate :: "Bundle \<Rightarrow> ('s, ActiveState result) state"
  hVerify :: "Bundle \<Rightarrow> ('s, Evidence result) state"
  hRollback :: "Bundle \<Rightarrow> ('s, ActiveState result) state"
  hVerifyRollback :: "Bundle \<Rightarrow> ('s, Evidence result) state"

record 's StateStore =
  stLoad :: "('s, (Record \<times> bool) result) state"
  stSave :: "Record \<Rightarrow> ('s, unit result) state"

text \<open>\<^verbatim>\<open>Acquire\<close> returns the function that releases the lock.\<close>

record 's Locker =
  lkAcquire :: "string \<Rightarrow> ('s, ('s, unit) state result) state"

record 's Controller =
  scBundles :: BundleSet
  scHost :: "'s Host option"
  scStore :: "'s StateStore option"
  scLocker :: "'s Locker option"
  scNow :: "('s, time) state"

record Request =
  rqRunID :: string
  rqAttempt :: string
  rqTargetVersion :: string
  rqExpectedCurrentVersion :: string

type_synonym 's ctl = "('s, Record \<times> error option) state"

text \<open>The dependencies, which \<open>Controller_validate\<close> has found present.\<close>

definition host :: "'s Controller \<Rightarrow> 's Host" where
  "host c = the (scHost c)"

definition state_store :: "'s Controller \<Rightarrow> 's StateStore" where
  "state_store c = the (scStore c)"

definition locker :: "'s Controller \<Rightarrow> 's Locker" where
  "locker c = the (scLocker c)"

section \<open>Requests\<close>

definition digits :: "nat \<Rightarrow> string \<Rightarrow> bool" where
  "digits limit s \<longleftrightarrow> 1 \<le> length s \<and> length s \<le> limit \<and> list_all (\<lambda>ch. ch \<in> set ''0123456789'') s"

definition numericIDPattern :: "string \<Rightarrow> bool" where
  "numericIDPattern s = digits 20 s"

definition attemptPattern :: "string \<Rightarrow> bool" where
  "attemptPattern s = digits 6 s"

definition Controller_validate :: "'s Controller \<Rightarrow> error option" where
  "Controller_validate c =
     (if scHost c = None \<or> scStore c = None \<or> scLocker c = None \<or> gentries (scBundles c) = []
      then Some (fmt_Errorf ''staging controller dependencies are incomplete'') else None)"

definition Controller_validateRequest :: "'s Controller \<Rightarrow> Request \<Rightarrow> Bundle result" where
  "Controller_validateRequest c request =
     (if \<not> numericIDPattern (rqRunID request) \<or> \<not> attemptPattern (rqAttempt request)
      then Inl (fmt_Errorf_w_detail ErrInvalidRequest ''run and attempt must be numeric'')
      else
        (case gget (scBundles c) (rqTargetVersion request) of
           None \<Rightarrow> Inl (fmt_Errorf_w_detail ErrUnknownVersion (rqTargetVersion request))
         | Some b \<Rightarrow>
             if rqExpectedCurrentVersion request \<noteq> [] \<and> gget (scBundles c) (rqExpectedCurrentVersion request) = None
             then Inl (fmt_Errorf_w_detail ErrUnknownVersion (''expected current '' @ rqExpectedCurrentVersion request))
             else Inr b))"

definition Controller_acquire :: "'s Controller \<Rightarrow> ('s, ('s, unit) state result) state" where
  "Controller_acquire c = do {
     unlock \<leftarrow> lkAcquire (locker c) ''asteria-drive-staging'';
     State_Monad.return (case unlock of
       Inl err \<Rightarrow> Inl (fmt_Errorf_w_detail ErrLocked (Error_string err)) | Inr release \<Rightarrow> Inr release) }"

definition Controller_load :: "Platform \<Rightarrow> 's Controller \<Rightarrow> ('s, Record result) state" where
  "Controller_load pf c = do {
     loaded \<leftarrow> stLoad (state_store c);
     State_Monad.return (case loaded of
       Inl err \<Rightarrow> Inl err
     | Inr (rcd, found) \<Rightarrow>
         if \<not> found then Inr (zero_Record\<lparr>srFormat := RecordFormat, srState := StateIdle\<rparr>)
         else if srFormat rcd \<noteq> RecordFormat
         then Inl (fmt_Errorf (''invalid staging state format '' @ pfQuote pf (srFormat rcd)))
         else Inr rcd) }"

section \<open>Persisting\<close>

text \<open>The stamp of the current time and the save that every write of the record makes.\<close>

definition persist :: "'s Controller \<Rightarrow> Record \<Rightarrow> ('s, Record \<times> unit result) state" where
  "persist c rcd = do {
     now \<leftarrow> scNow c;
     let rcd' = rcd\<lparr>srUpdatedAt := time_RFC3339 now\<rparr>;
     saved \<leftarrow> stSave (state_store c) rcd';
     State_Monad.return (rcd', saved) }"

definition Controller_save :: "'s Controller \<Rightarrow> Record \<Rightarrow> State \<Rightarrow> 's ctl" where
  "Controller_save c rcd next =
     (if srState rcd = next then State_Monad.return (rcd, None)
      else if \<not> TransitionAllowed (srState rcd) next
      then State_Monad.return (rcd, Some (fmt_Errorf_w_detail ErrInvalidTransition (srState rcd @ '' -> '' @ next)))
      else do {
        (rcd', saved) \<leftarrow> persist c (rcd\<lparr>srState := next\<rparr>);
        State_Monad.return (rcd', case saved of Inl err \<Rightarrow> Some (fmt_Errorf_w ''persist staging state'' err) | Inr _ \<Rightarrow> None) })"

text \<open>A step that may fail, followed by what runs when it did not.\<close>

definition step_then :: "'s ctl \<Rightarrow> (Record \<Rightarrow> 's ctl) \<Rightarrow> 's ctl" where
  "step_then m f = do {
     (rcd, err) \<leftarrow> m;
     (case err of Some e \<Rightarrow> State_Monad.return (rcd, Some e) | None \<Rightarrow> f rcd) }"

section \<open>Validation of the host\<close>

definition validateActiveBundle :: "Bundle \<Rightarrow> ActiveState \<Rightarrow> unit result" where
  "validateActiveBundle b active =
     (if asVersion active \<noteq> buVersion b
      then Inl (fmt_Errorf_w_detail ErrActiveUnapproved (''active='' @ asVersion active @ '' bundle='' @ buVersion b))
      else if \<not> asHealthy active then Inl (fmt_Errorf_w_detail ErrActiveUnhealthy (asVersion active))
      else if asComposeSHA256 active \<noteq> buComposeSHA256 b \<or> asImage active \<noteq> buImage b \<or> asSchemaVersion active \<noteq> buSchemaVersion b
      then Inl (fmt_Errorf_w_detail ErrActiveDrifted (''active identity does not match '' @ buVersion b))
      else Inr ())"

definition Controller_readValidatedActive :: "'s Controller \<Rightarrow> ('s, (ActiveState \<times> Bundle) result) state" where
  "Controller_readValidatedActive c = do {
     read \<leftarrow> hReadActive (host c);
     State_Monad.return (case read of
       Inl err \<Rightarrow> Inl (fmt_Errorf_w_detail ErrActiveUnreadable (Error_string err))
     | Inr active \<Rightarrow>
         (case gget (scBundles c) (asVersion active) of
            None \<Rightarrow> Inl (fmt_Errorf_w_detail ErrActiveUnapproved (asVersion active))
          | Some b \<Rightarrow>
              (case validateActiveBundle b active of
                 Inl err \<Rightarrow> Inl err
               | Inr _ \<Rightarrow> Inr (active, b)))) }"

definition validateEvidence :: "Bundle \<Rightarrow> Evidence \<Rightarrow> unit result" where
  "validateEvidence b evidence =
     (if edDigest evidence = [] then Inl (fmt_Errorf ''evidence digest is empty'')
      else validateActiveBundle b \<lparr>asVersion = edVersion evidence, asComposeSHA256 = edComposeSHA256 evidence,
        asImage = edImage evidence, asSchemaVersion = edSchemaVersion evidence, asHealthy = edHealthy evidence\<rparr>)"

section \<open>Ends of an operation\<close>

definition Controller_commitActive :: "'s Controller \<Rightarrow> Record \<Rightarrow> Bundle \<Rightarrow> Evidence \<Rightarrow> 's ctl" where
  "Controller_commitActive c rcd b evidence = do {
     (rcd', saved) \<leftarrow> persist c (rcd\<lparr>srState := StateActive, srActiveVersion := buVersion b,
        srActiveComposeSHA256 := buComposeSHA256 b, srActiveImage := buImage b, srSchemaVersion := buSchemaVersion b,
        srEvidenceDigest := edDigest evidence, srLastError := []\<rparr>);
     State_Monad.return (case saved of
       Inl err \<Rightarrow> (rcd'\<lparr>srState := srState rcd\<rparr>, Some (fmt_Errorf_w ''persist complete active state'' err))
     | Inr _ \<Rightarrow> (rcd', None)) }"

definition Controller_markActive :: "'s Controller \<Rightarrow> Record \<Rightarrow> Bundle \<Rightarrow> string \<Rightarrow> Request \<Rightarrow> 's ctl" where
  "Controller_markActive c rcd b operation request = do {
     (rcd', saved) \<leftarrow> persist c (rcd\<lparr>srOperation := operation, srRunID := rqRunID request, srAttempt := rqAttempt request,
        srTargetVersion := buVersion b, srExpectedCurrentVersion := rqExpectedCurrentVersion request,
        srActiveVersion := buVersion b, srActiveComposeSHA256 := buComposeSHA256 b, srActiveImage := buImage b,
        srSchemaVersion := buSchemaVersion b, srLastError := [], srState := StateActive\<rparr>);
     State_Monad.return (rcd', case saved of Inl err \<Rightarrow> Some (fmt_Errorf_w ''persist active state'' err) | Inr _ \<Rightarrow> None) }"

definition Controller_markFailed :: "'s Controller \<Rightarrow> Record \<Rightarrow> string \<Rightarrow> error \<Rightarrow> 's ctl" where
  "Controller_markFailed c rcd message cause =
     step_then (Controller_save c (rcd\<lparr>srLastError := message\<rparr>) StateFailed)
       (\<lambda>rcd'. State_Monad.return (rcd', Some cause))"

text \<open>The cause is a parameter of the code too; it is never reported.\<close>

definition Controller_markRecovery :: "'s Controller \<Rightarrow> Record \<Rightarrow> string \<Rightarrow> error \<Rightarrow> 's ctl" where
  "Controller_markRecovery c rcd message cause =
     (let rcd1 = rcd\<lparr>srLastError := message\<rparr>
      in if srState rcd1 = StateRecoveryRequired
         then do { _ \<leftarrow> stSave (state_store c) rcd1; State_Monad.return (rcd1, Some ErrRecoveryRequired) }
         else step_then (Controller_save c rcd1 StateRecoveryRequired)
                (\<lambda>rcd2. State_Monad.return (rcd2, Some ErrRecoveryRequired)))"

definition Controller_revalidateActiveRecord :: "'s Controller \<Rightarrow> Record \<Rightarrow> 's ctl" where
  "Controller_revalidateActiveRecord c rcd =
     (case gget (scBundles c) (srActiveVersion rcd) of
        None \<Rightarrow> Controller_markRecovery c rcd ''recorded active version is not approved'' ErrActiveUnapproved
      | Some b \<Rightarrow> do {
          read \<leftarrow> hReadActive (host c);
          (case read of
             Inl err \<Rightarrow> Controller_markRecovery c rcd (''replay cannot read active state: '' @ Error_string err) ErrActiveUnreadable
           | Inr active \<Rightarrow>
               (case validateActiveBundle b active of
                  Inl err \<Rightarrow> Controller_markRecovery c rcd (''replay active mismatch: '' @ Error_string err) err
                | Inr _ \<Rightarrow>
                    if srActiveComposeSHA256 rcd \<noteq> asComposeSHA256 active \<or> srActiveImage rcd \<noteq> asImage active
                       \<or> srSchemaVersion rcd \<noteq> asSchemaVersion active
                    then Controller_markRecovery c rcd ''persisted active identity does not match host'' ErrActiveDrifted
                    else State_Monad.return (rcd, None))) })"

definition replay :: "Record \<Rightarrow> string \<Rightarrow> Request \<Rightarrow> bool \<times> error option" where
  "replay rcd operation request =
     (if srRunID rcd \<noteq> rqRunID request \<or> srAttempt rcd \<noteq> rqAttempt request \<or> srOperation rcd \<noteq> operation
         \<or> srTargetVersion rcd \<noteq> rqTargetVersion request
      then (False, None)
      else if srState rcd = StateActive then (True, None)
      else if srState rcd = StateRecoveryRequired then (True, Some ErrRecoveryRequired)
      else if srState rcd \<in> {StatePrepared, StateActivating, StateVerifying, StateRollingBack, StateRollbackVerifying}
      then (True, Some ErrInProgress)
      else (False, None))"

definition inProgress :: "Record \<Rightarrow> bool" where
  "inProgress rcd \<longleftrightarrow>
     srState rcd \<in> {StatePrepared, StateActivating, StateVerifying, StateRollingBack, StateRollbackVerifying}"

text \<open>Back to the previous version after a deployment that failed.\<close>

definition Controller_compensate :: "'s Controller \<Rightarrow> Record \<Rightarrow> Bundle \<Rightarrow> bool \<Rightarrow> string \<Rightarrow> error \<Rightarrow> 's ctl" where
  "Controller_compensate c rcd previous previousOK message cause =
     (let rcd0 = rcd\<lparr>srLastError := message\<rparr>;
          recover = (\<lambda>rcd detail. Controller_markRecovery c rcd (message @ detail) ErrRecoveryRequired)
      in if \<not> previousOK then recover rcd0 ''; no approved previous bundle''
         else step_then (Controller_save c rcd0 StateRollingBack) (\<lambda>rcd1. do {
           rolled \<leftarrow> hRollback (host c) previous;
           (case rolled of
              Inl err \<Rightarrow> recover rcd1 (''; rollback failed: '' @ Error_string err)
            | Inr _ \<Rightarrow> step_then (Controller_save c rcd1 StateRollbackVerifying) (\<lambda>rcd2. do {
                verified \<leftarrow> hVerifyRollback (host c) previous;
                (case verified of
                   Inl err \<Rightarrow> recover rcd2 (''; rollback evidence unavailable: '' @ Error_string err)
                 | Inr evidence \<Rightarrow>
                     (case validateEvidence previous evidence of
                        Inl err \<Rightarrow> recover rcd2 (''; rollback evidence invalid: '' @ Error_string err)
                      | Inr _ \<Rightarrow> do {
                          read \<leftarrow> hReadActive (host c);
                          (case read of
                             Inl err \<Rightarrow> recover rcd2 (''; rollback post-read failed: '' @ Error_string err)
                           | Inr actual \<Rightarrow>
                               (case validateActiveBundle previous actual of
                                  Inl err \<Rightarrow> recover rcd2 (''; rollback post-read mismatch: '' @ Error_string err)
                                | Inr _ \<Rightarrow> step_then (Controller_commitActive c rcd2 previous evidence)
                                    (\<lambda>committed. State_Monad.return (committed, Some cause)))) })) })) }))"

section \<open>Operations\<close>

text \<open>\<^verbatim>\<open>defer unlock()\<close> around the body of an operation.\<close>

definition locked :: "'s Controller \<Rightarrow> 's ctl \<Rightarrow> 's ctl" where
  "locked c body = do {
     acquired \<leftarrow> Controller_acquire c;
     (case acquired of
        Inl err \<Rightarrow> State_Monad.return (zero_Record, Some err)
      | Inr unlock \<Rightarrow> do { out \<leftarrow> body; _ \<leftarrow> unlock; State_Monad.return out }) }"

definition start_record :: "Record \<Rightarrow> string \<Rightarrow> Request \<Rightarrow> Bundle \<Rightarrow> ActiveState \<Rightarrow> Record" where
  "start_record rcd operation request b active =
     rcd\<lparr>srOperation := operation, srRunID := rqRunID request, srAttempt := rqAttempt request,
        srTargetVersion := buVersion b, srExpectedCurrentVersion := rqExpectedCurrentVersion request,
        srPreviousVersion := asVersion active, srLastError := []\<rparr>"

definition deploy_switch :: "'s Controller \<Rightarrow> Record \<Rightarrow> Bundle \<Rightarrow> Bundle \<Rightarrow> 's ctl" where
  "deploy_switch c rcd b current =
     step_then (Controller_save c rcd StatePrepared) (\<lambda>rcd1.
     step_then (Controller_save c rcd1 StateActivating) (\<lambda>rcd2. do {
       activated \<leftarrow> hActivate (host c) b;
       (case activated of
          Inl err \<Rightarrow> Controller_compensate c rcd2 current True (''activate failed: '' @ Error_string err) err
        | Inr _ \<Rightarrow> step_then (Controller_save c rcd2 StateVerifying) (\<lambda>rcd3. do {
            verified \<leftarrow> hVerify (host c) b;
            (case verified of
               Inl err \<Rightarrow> Controller_compensate c rcd3 current True (''verify failed: '' @ Error_string err) err
             | Inr evidence \<Rightarrow>
                 (case validateEvidence b evidence of
                    Inl err \<Rightarrow> Controller_compensate c rcd3 current True
                      (''verification evidence does not match target bundle: '' @ Error_string err) err
                  | Inr _ \<Rightarrow> Controller_commitActive c rcd3 b evidence)) })) }))"

definition rollback_switch :: "'s Controller \<Rightarrow> Record \<Rightarrow> Bundle \<Rightarrow> 's ctl" where
  "rollback_switch c rcd b =
     step_then (Controller_save c rcd StateRollingBack) (\<lambda>rcd1. do {
       rolled \<leftarrow> hRollback (host c) b;
       (case rolled of
          Inl err \<Rightarrow> Controller_markRecovery c rcd1 (''rollback execution failed: '' @ Error_string err)
            (fmt_Errorf_w_detail ErrRecoveryRequired (Error_string err))
        | Inr _ \<Rightarrow> step_then (Controller_save c rcd1 StateRollbackVerifying) (\<lambda>rcd2. do {
            verified \<leftarrow> hVerifyRollback (host c) b;
            (case verified of
               Inl err \<Rightarrow> Controller_markRecovery c rcd2 (''rollback evidence unavailable: '' @ Error_string err)
                 (fmt_Errorf_w ''rollback evidence unavailable'' err)
             | Inr evidence \<Rightarrow>
                 (case validateEvidence b evidence of
                    Inl err \<Rightarrow> Controller_markRecovery c rcd2 (''rollback evidence invalid: '' @ Error_string err)
                      (fmt_Errorf_w ''rollback evidence invalid'' err)
                  | Inr _ \<Rightarrow> do {
                      read \<leftarrow> hReadActive (host c);
                      (case read of
                         Inl err \<Rightarrow> Controller_markRecovery c rcd2 (''rollback post-read failed: '' @ Error_string err) ErrActiveUnreadable
                       | Inr actual \<Rightarrow>
                           (case validateActiveBundle b actual of
                              Inl err \<Rightarrow> Controller_markRecovery c rcd2 (''rollback post-read mismatch: '' @ Error_string err) err
                            | Inr _ \<Rightarrow> Controller_commitActive c rcd2 b evidence)) })) })) })"

text \<open>
  Everything \<^verbatim>\<open>Deploy\<close> and \<^verbatim>\<open>Rollback\<close> do between taking the lock and the first change of the
  host; \<open>pre\<close> is the word their message uses and \<open>switch\<close> the rest of the operation.
\<close>

definition start_switch :: "'s Controller \<Rightarrow> string \<Rightarrow> string \<Rightarrow> Request \<Rightarrow> Bundle \<Rightarrow> (Record \<Rightarrow> Bundle \<Rightarrow> 's ctl) \<Rightarrow> Record \<Rightarrow> 's ctl" where
  "start_switch c operation pre request b switch rcd = do {
     validated \<leftarrow> Controller_readValidatedActive c;
     (case validated of
        Inl err \<Rightarrow> Controller_markRecovery c rcd (pre @ '' active validation failed: '' @ Error_string err) err
      | Inr (active, current) \<Rightarrow>
          if rqExpectedCurrentVersion request \<noteq> [] \<and> asVersion active \<noteq> rqExpectedCurrentVersion request
          then Controller_markRecovery c rcd (''expected current version '' @ rqExpectedCurrentVersion request
                 @ '' but found '' @ asVersion active) ErrCurrentMismatch
          else if asVersion active = buVersion b then Controller_markActive c rcd b operation request
          else switch (start_record rcd operation request b active) current) }"

definition admit :: "'s Controller \<Rightarrow> string \<Rightarrow> Request \<Rightarrow> (Record \<Rightarrow> 's ctl) \<Rightarrow> Record \<Rightarrow> 's ctl" where
  "admit c operation request proceed rcd =
     (let (finished, err) = replay rcd operation request
      in if finished \<or> err \<noteq> None
         then (if finished \<and> srState rcd = StateActive \<and> err = None
               then Controller_revalidateActiveRecord c rcd else State_Monad.return (rcd, err))
         else if srState rcd = StateRecoveryRequired then State_Monad.return (rcd, Some ErrRecoveryRequired)
         else if srRunID rcd = rqRunID request \<and> srAttempt rcd = rqAttempt request
              \<and> (srOperation rcd \<noteq> operation \<or> srTargetVersion rcd \<noteq> rqTargetVersion request)
         then State_Monad.return (rcd, Some (fmt_Errorf_w_detail ErrInvalidRequest ''run identity was already used for a different operation''))
         else if inProgress rcd then State_Monad.return (rcd, Some ErrInProgress)
         else proceed rcd)"

definition guarded :: "Platform \<Rightarrow> 's Controller \<Rightarrow> string \<Rightarrow> string \<Rightarrow> Request \<Rightarrow> Bundle \<Rightarrow> (Record \<Rightarrow> Bundle \<Rightarrow> 's ctl) \<Rightarrow> 's ctl" where
  "guarded pf c operation pre request b switch = do {
     loaded \<leftarrow> Controller_load pf c;
     (case loaded of
        Inl err \<Rightarrow> State_Monad.return (zero_Record, Some err)
      | Inr rcd \<Rightarrow> admit c operation request (start_switch c operation pre request b switch) rcd) }"

definition Controller_Deploy :: "Platform \<Rightarrow> 's Controller \<Rightarrow> Request \<Rightarrow> 's ctl" where
  "Controller_Deploy pf c request =
     (case Controller_validate c of
        Some err \<Rightarrow> State_Monad.return (zero_Record, Some err)
      | None \<Rightarrow>
          (case Controller_validateRequest c request of
             Inl err \<Rightarrow> State_Monad.return (zero_Record, Some err)
           | Inr b \<Rightarrow> locked c (guarded pf c ''deploy'' ''pre-switch'' request b (\<lambda>rcd current. deploy_switch c rcd b current))))"

definition Controller_Rollback :: "Platform \<Rightarrow> 's Controller \<Rightarrow> Request \<Rightarrow> 's ctl" where
  "Controller_Rollback pf c request =
     (case Controller_validate c of
        Some err \<Rightarrow> State_Monad.return (zero_Record, Some err)
      | None \<Rightarrow>
          (case Controller_validateRequest c request of
             Inl err \<Rightarrow> State_Monad.return (zero_Record, Some err)
           | Inr b \<Rightarrow> locked c (guarded pf c ''rollback'' ''pre-rollback'' request b (\<lambda>rcd current. rollback_switch c rcd b))))"

definition Controller_Monitor :: "Platform \<Rightarrow> 's Controller \<Rightarrow> ('s, Evidence result) state" where
  "Controller_Monitor pf c =
     (case Controller_validate c of
        Some err \<Rightarrow> State_Monad.return (Inl err)
      | None \<Rightarrow> do {
          read \<leftarrow> hReadActive (host c);
          State_Monad.return (case read of
            Inl err \<Rightarrow> Inl (fmt_Errorf_w ''read active state'' err)
          | Inr active \<Rightarrow>
              (case gget (scBundles c) (asVersion active) of
                 None \<Rightarrow> Inl (fmt_Errorf_w_detail ErrUnknownVersion (asVersion active))
               | Some b \<Rightarrow>
                   (case Bundle_ValidateActive pf b active of
                      Inl err \<Rightarrow> Inl err
                    | Inr _ \<Rightarrow> Inr \<lparr>edVersion = asVersion active, edComposeSHA256 = asComposeSHA256 active,
                        edImage = asImage active, edSchemaVersion = asSchemaVersion active, edHealthy = True, edDigest = []\<rparr>))) })"

text \<open>The two outcomes of \<^verbatim>\<open>Resume\<close>: the host runs an approved version, or nobody knows.\<close>

definition resume_active :: "'s Controller \<Rightarrow> Record \<Rightarrow> ActiveState \<Rightarrow> 's ctl" where
  "resume_active c rcd active = do {
     (rcd', saved) \<leftarrow> persist c (rcd\<lparr>srState := StateActive, srActiveVersion := asVersion active,
        srActiveComposeSHA256 := asComposeSHA256 active, srActiveImage := asImage active, srSchemaVersion := asSchemaVersion active\<rparr>);
     State_Monad.return (rcd', case saved of Inl err \<Rightarrow> Some err | Inr _ \<Rightarrow> None) }"

definition resume_lost :: "'s Controller \<Rightarrow> Record \<Rightarrow> string \<Rightarrow> 's ctl" where
  "resume_lost c rcd message = do {
     (rcd', _) \<leftarrow> persist c (rcd\<lparr>srState := StateRecoveryRequired, srLastError := message\<rparr>);
     State_Monad.return (rcd', Some ErrRecoveryRequired) }"

definition runs_bundle :: "'s Controller \<Rightarrow> string \<Rightarrow> ActiveState \<Rightarrow> bool" where
  "runs_bundle c version active \<longleftrightarrow>
     (case gget (scBundles c) version of
        None \<Rightarrow> False
      | Some b \<Rightarrow> asVersion active = buVersion b \<and> validateActiveBundle b active = Inr ())"

definition resume_from :: "'s Controller \<Rightarrow> string \<Rightarrow> string \<Rightarrow> Record \<Rightarrow> 's ctl" where
  "resume_from c runID attempt rcd =
     (if srRunID rcd \<noteq> runID \<or> srAttempt rcd \<noteq> attempt
      then State_Monad.return (rcd, Some (fmt_Errorf ''resume request does not match persisted run identity''))
      else if srState rcd = StateActive then Controller_revalidateActiveRecord c rcd
      else if \<not> inProgress rcd \<and> srState rcd \<noteq> StateFailed then State_Monad.return (rcd, None)
      else do {
        read \<leftarrow> hReadActive (host c);
        (case read of
           Inl err \<Rightarrow> resume_lost c rcd (''resume could not read host state: '' @ Error_string err)
         | Inr active \<Rightarrow>
             if runs_bundle c (srTargetVersion rcd) active then resume_active c rcd active
             else if runs_bundle c (srPreviousVersion rcd) active then resume_active c rcd active
             else resume_lost c rcd ''resume found an active version that does not match target or previous'') })"

definition resume_body :: "Platform \<Rightarrow> 's Controller \<Rightarrow> string \<Rightarrow> string \<Rightarrow> 's ctl" where
  "resume_body pf c runID attempt = do {
     loaded \<leftarrow> Controller_load pf c;
     (case loaded of Inl err \<Rightarrow> State_Monad.return (zero_Record, Some err) | Inr rcd \<Rightarrow> resume_from c runID attempt rcd) }"

definition Controller_Resume :: "Platform \<Rightarrow> 's Controller \<Rightarrow> string \<Rightarrow> string \<Rightarrow> 's ctl" where
  "Controller_Resume pf c runID attempt =
     (case Controller_validate c of
        Some err \<Rightarrow> State_Monad.return (zero_Record, Some err)
      | None \<Rightarrow> locked c (resume_body pf c runID attempt))"

section \<open>Reasoning about operations\<close>

text \<open>Partial correctness is total here: every operation of the controller returns.\<close>

definition hoare :: "('s \<Rightarrow> bool) \<Rightarrow> ('s, 'a) state \<Rightarrow> ('a \<Rightarrow> 's \<Rightarrow> bool) \<Rightarrow> bool" where
  "hoare P m Q \<longleftrightarrow> (\<forall>s x s'. P s \<longrightarrow> run_state m s = (x, s') \<longrightarrow> Q x s')"

named_theorems hoare_rules

lemma hoareI: "(\<And>s x s'. P s \<Longrightarrow> run_state m s = (x, s') \<Longrightarrow> Q x s') \<Longrightarrow> hoare P m Q"
  by (simp add: hoare_def)

lemma hoareD: "hoare P m Q \<Longrightarrow> P s \<Longrightarrow> run_state m s = (x, s') \<Longrightarrow> Q x s'"
  by (simp add: hoare_def)

lemma hoare_weaken: "hoare P m R \<Longrightarrow> (\<And>x s. R x s \<Longrightarrow> Q x s) \<Longrightarrow> hoare P m Q"
  by (auto simp: hoare_def)

lemma hoare_pre: "hoare R m Q \<Longrightarrow> (\<And>s. P s \<Longrightarrow> R s) \<Longrightarrow> hoare P m Q"
  by (auto simp: hoare_def)

lemma hoare_pure: "(p \<Longrightarrow> hoare P m Q) \<Longrightarrow> hoare (\<lambda>s. p \<and> P s) m Q"
  by (auto simp: hoare_def)

lemma hoare_return [hoare_rules]: "(\<And>s. P s \<Longrightarrow> Q x s) \<Longrightarrow> hoare P (State_Monad.return x) Q"
  by (auto simp: hoare_def)

lemma hoare_bind: "hoare P m R \<Longrightarrow> (\<And>x. hoare (R x) (f x) Q) \<Longrightarrow> hoare P (State_Monad.bind m f) Q"
  unfolding hoare_def by (auto split: prod.splits)

lemma hoare_step_then:
  assumes "hoare P m (\<lambda>(rcd, err) s. case err of Some e \<Rightarrow> Q (rcd, Some e) s | None \<Rightarrow> R rcd s)"
    and "\<And>rcd. hoare (R rcd) (f rcd) Q"
  shows "hoare P (step_then m f) Q"
  unfolding step_then_def
  by (rule hoare_bind [OF assms(1)]) (use assms(2) in \<open>auto simp: hoare_def split: option.splits\<close>)

lemma hoare_cases [hoare_rules]:
  "(b \<Longrightarrow> hoare P m Q) \<Longrightarrow> (\<not> b \<Longrightarrow> hoare P n Q) \<Longrightarrow> hoare P (if b then m else n) Q"
  "(\<And>e. r = Inl e \<Longrightarrow> hoare P (f e) Q) \<Longrightarrow> (\<And>y. r = Inr y \<Longrightarrow> hoare P (g y) Q) \<Longrightarrow> hoare P (case r of Inl e \<Rightarrow> f e | Inr y \<Rightarrow> g y) Q"
  "(v = None \<Longrightarrow> hoare P m Q) \<Longrightarrow> (\<And>z. v = Some z \<Longrightarrow> hoare P (h z) Q) \<Longrightarrow> hoare P (case v of None \<Rightarrow> m | Some z \<Rightarrow> h z) Q"
  "(\<And>x y. p = (x, y) \<Longrightarrow> hoare P (k x y) Q) \<Longrightarrow> hoare P (case p of (x, y) \<Rightarrow> k x y) Q"
  by (auto split: sum.splits option.splits prod.splits)

text \<open>An invariant of both steps is an invariant of their sequence.\<close>

lemma hoare_keep [hoare_rules]:
  "hoare I m (\<lambda>_. I) \<Longrightarrow> (\<And>x. hoare I (f x) (\<lambda>_. I)) \<Longrightarrow> hoare I (State_Monad.bind m f) (\<lambda>_. I)"
  "hoare I m' (\<lambda>_. I) \<Longrightarrow> (\<And>rcd. hoare I (g rcd) (\<lambda>_. I)) \<Longrightarrow> hoare I (step_then m' g) (\<lambda>_. I)"
  by (rule hoare_bind, assumption, assumption)
    (rule hoare_step_then [where R = "\<lambda>_. I"], erule hoare_weaken, auto split: option.splits)

end
