(* ===== verification/Staging_Store.thy ===== *)
theory Staging_Store
  imports Staging_Controller
begin

text \<open>
  The persistence of the staging controller, \<^verbatim>\<open>FileStore\<close> of \<^verbatim>\<open>internal/staging/controller.go\<close>
  with \<^verbatim>\<open>syncDirectory\<close> of \<^verbatim>\<open>fsync_unix.go\<close>. The file system is a map from paths to contents
  with a tape of faults: every call of the operating system takes the next entry, and fails when it
  holds a fault. A write that fails may have written a prefix. \<^verbatim>\<open>encoding/json\<close> is a pair of
  functions; what a reader sees of a record is \<open>json_seen\<close>, since the encoder replaces invalid
  UTF-8 by the replacement character.
\<close>

section \<open>The operating system\<close>

record FileSystem =
  fsFiles :: "string \<Rightarrow> string option"
  fsFaults :: "nat \<Rightarrow> (string \<times> nat) option"
  fsTemp :: "nat \<Rightarrow> string"

type_synonym 'a os = "(FileSystem, 'a result) state"

definition os_call :: "(FileSystem \<Rightarrow> 'a result \<times> FileSystem) \<Rightarrow> (nat \<Rightarrow> FileSystem \<Rightarrow> FileSystem) \<Rightarrow> 'a os" where
  "os_call action partly = State (\<lambda>fs.
     let fs1 = fs\<lparr>fsFaults := \<lambda>n. fsFaults fs (Suc n)\<rparr>
     in (case fsFaults fs 0 of
           None \<Rightarrow> action fs1
         | Some (message, written) \<Rightarrow> (Inl (OtherError message None), partly written fs1)))"

text \<open>Calls without an effect on files: making directories, changing modes, flushing, closing.\<close>

definition os_plain :: "unit os" where
  "os_plain = os_call (\<lambda>fs. (Inr (), fs)) (\<lambda>_ fs. fs)"

text \<open>\<^verbatim>\<open>os.ReadFile\<close>; \<open>None\<close> is an error for which \<^verbatim>\<open>os.IsNotExist\<close> holds.\<close>

definition os_ReadFile :: "string \<Rightarrow> string option os" where
  "os_ReadFile path = os_call (\<lambda>fs. (Inr (fsFiles fs path), fs)) (\<lambda>_ fs. fs)"

definition os_CreateTemp :: "string os" where
  "os_CreateTemp = os_call
     (\<lambda>fs. let name = fsTemp fs 0; fs1 = fs\<lparr>fsTemp := \<lambda>n. fsTemp fs (Suc n)\<rparr>
       in if fsFiles fs name \<noteq> None then (Inl (OtherError ''file exists'' None), fs1)
          else (Inr name, fs1\<lparr>fsFiles := (fsFiles fs1)(name \<mapsto> [])\<rparr>)) (\<lambda>_ fs. fs)"

definition os_Write :: "string \<Rightarrow> string \<Rightarrow> unit os" where
  "os_Write name contents = os_call
     (\<lambda>fs. (Inr (), fs\<lparr>fsFiles := (fsFiles fs)(name \<mapsto> contents)\<rparr>))
     (\<lambda>written fs. fs\<lparr>fsFiles := (fsFiles fs)(name \<mapsto> take written contents)\<rparr>)"

definition os_Rename :: "string \<Rightarrow> string \<Rightarrow> unit os" where
  "os_Rename source target = os_call
     (\<lambda>fs. (case fsFiles fs source of
        None \<Rightarrow> (Inl (OtherError ''no such file or directory'' None), fs)
      | Some contents \<Rightarrow> (Inr (), fs\<lparr>fsFiles := (fsFiles fs)(source := None, target \<mapsto> contents)\<rparr>))) (\<lambda>_ fs. fs)"

definition os_Remove :: "string \<Rightarrow> unit os" where
  "os_Remove name = os_call
     (\<lambda>fs. (case fsFiles fs name of
        None \<Rightarrow> (Inl (OtherError ''no such file or directory'' None), fs)
      | Some _ \<Rightarrow> (Inr (), fs\<lparr>fsFiles := (fsFiles fs)(name := None)\<rparr>))) (\<lambda>_ fs. fs)"

section \<open>JSON\<close>

record Codec =
  jcMarshalIndent :: "Record \<Rightarrow> string result"
  jcUnmarshal :: "string \<Rightarrow> Record result"

definition to_valid :: "string \<Rightarrow> string" where
  "to_valid s = concat (map (\<lambda>(r, bytes). case r of None \<Rightarrow> [unbyte 239, unbyte 191, unbyte 189] | Some _ \<Rightarrow> bytes) (utf8_chunks s))"

definition json_seen :: "Record \<Rightarrow> Record" where
  "json_seen rcd = \<lparr>srFormat = to_valid (srFormat rcd), srOperation = to_valid (srOperation rcd), srRunID = to_valid (srRunID rcd),
     srAttempt = to_valid (srAttempt rcd), srTargetVersion = to_valid (srTargetVersion rcd),
     srExpectedCurrentVersion = to_valid (srExpectedCurrentVersion rcd), srPreviousVersion = to_valid (srPreviousVersion rcd),
     srActiveVersion = to_valid (srActiveVersion rcd), srState = to_valid (srState rcd),
     srActiveComposeSHA256 = to_valid (srActiveComposeSHA256 rcd), srActiveImage = to_valid (srActiveImage rcd),
     srSchemaVersion = srSchemaVersion rcd, srEvidenceDigest = to_valid (srEvidenceDigest rcd),
     srLastError = to_valid (srLastError rcd), srUpdatedAt = to_valid (srUpdatedAt rcd)\<rparr>"

definition codec_ok :: "Codec \<Rightarrow> bool" where
  "codec_ok jc \<longleftrightarrow> (\<forall>rcd text. jcMarshalIndent jc rcd = Inr text \<longrightarrow> jcUnmarshal jc (text @ ''\<newline>'') = Inr (json_seen rcd))"

section \<open>The store\<close>

text \<open>A call whose error is wrapped and returned, and one that closes the temporary file first.\<close>

definition or_fail :: "string \<Rightarrow> 'a os \<Rightarrow> ('a \<Rightarrow> 'b os) \<Rightarrow> 'b os" where
  "or_fail message m f = do {
     res \<leftarrow> m;
     (case res of Inl err \<Rightarrow> State_Monad.return (Inl (fmt_Errorf_w message err)) | Inr x \<Rightarrow> f x) }"

definition or_close :: "string \<Rightarrow> 'a os \<Rightarrow> ('a \<Rightarrow> 'b os) \<Rightarrow> 'b os" where
  "or_close message m f = do {
     res \<leftarrow> m;
     (case res of
        Inl err \<Rightarrow> do { _ \<leftarrow> os_plain; State_Monad.return (Inl (fmt_Errorf_w message err)) }
      | Inr x \<Rightarrow> f x) }"

definition syncDirectory :: "unit os" where
  "syncDirectory = do {
     opened \<leftarrow> os_plain;
     (case opened of
        Inl err \<Rightarrow> State_Monad.return (Inl err)
      | Inr _ \<Rightarrow> do { synced \<leftarrow> os_plain; _ \<leftarrow> os_plain; State_Monad.return synced }) }"

definition FileStore_Load :: "Codec \<Rightarrow> string \<Rightarrow> (Record \<times> bool) os" where
  "FileStore_Load jc path =
     or_fail ''read staging state'' (os_ReadFile path) (\<lambda>read.
       (case read of
          None \<Rightarrow> State_Monad.return (Inr (zero_Record, False))
        | Some contents \<Rightarrow>
            State_Monad.return (case jcUnmarshal jc contents of
              Inl err \<Rightarrow> Inl (fmt_Errorf_w ''decode staging state'' err)
            | Inr rcd \<Rightarrow>
                if srFormat rcd \<noteq> RecordFormat \<or> srState rcd = []
                then Inl (fmt_Errorf ''staging state record is incomplete or has an unsupported format'')
                else Inr (rcd, True))))"

definition publish_file :: "string \<Rightarrow> string \<Rightarrow> string \<Rightarrow> unit os" where
  "publish_file path name contents =
     or_close ''set staging state permissions'' os_plain (\<lambda>_.
     or_close ''write staging state'' (os_Write name contents) (\<lambda>_.
     or_close ''sync staging state'' os_plain (\<lambda>_.
     or_fail ''close staging state'' os_plain (\<lambda>_.
     or_fail ''publish staging state'' (os_Rename name path) (\<lambda>_.
     or_fail ''sync staging state directory'' syncDirectory (\<lambda>_.
     State_Monad.return (Inr ())))))))"

definition FileStore_Save :: "Codec \<Rightarrow> string \<Rightarrow> Record \<Rightarrow> unit os" where
  "FileStore_Save jc path rcd =
     (if path = [] then State_Monad.return (Inl (fmt_Errorf ''staging state path is empty''))
      else or_fail ''create state directory'' os_plain (\<lambda>_.
        (case jcMarshalIndent jc rcd of
           Inl err \<Rightarrow> State_Monad.return (Inl (fmt_Errorf_w ''encode staging state'' err))
         | Inr text \<Rightarrow>
             or_fail ''create staging state temporary file'' os_CreateTemp (\<lambda>name. do {
               out \<leftarrow> publish_file path name (text @ ''\<newline>'');
               _ \<leftarrow> os_Remove name;
               State_Monad.return out }))))"

section \<open>Strings that survive JSON\<close>

abbreviation ascii :: "string \<Rightarrow> bool" where
  "ascii s \<equiv> list_all (\<lambda>ch. byte ch < 128) s"

lemma to_valid_id: "utf8_ValidString s \<Longrightarrow> to_valid s = s"
proof -
  assume "utf8_ValidString s"
  then have "map (\<lambda>(r, bytes). case r of None \<Rightarrow> [unbyte 239, unbyte 191, unbyte 189] | Some _ \<Rightarrow> bytes) (utf8_chunks s)
      = map snd (utf8_chunks s)"
    by (auto simp: utf8_ValidString_def list_all_iff)
  then show ?thesis unfolding to_valid_def by (simp only: concat_utf8_chunks)
qed

lemma ascii_ValidString: "ascii s \<Longrightarrow> utf8_ValidString s"
  by (auto simp: utf8_ValidString_def utf8_chunks_ascii list_all_iff)

lemma to_valid_ascii [simp]: "ascii s \<Longrightarrow> to_valid s = s"
  by (simp add: to_valid_id ascii_ValidString)

text \<open>Nothing else turns into an ASCII string.\<close>

lemma to_valid_ascii_back: "ascii (to_valid s) \<Longrightarrow> to_valid s = s"
proof -
  assume *: "ascii (to_valid s)"
  let ?f = "\<lambda>(r, bytes). case r of None \<Rightarrow> [unbyte 239, unbyte 191, unbyte 189] | Some _ \<Rightarrow> bytes"
  have "r \<noteq> None" if "(r, bytes) \<in> set (utf8_chunks s)" for r bytes
  proof
    assume "r = None"
    with imageI [OF that, of ?f] have "[unbyte 239, unbyte 191, unbyte 189] \<in> set (map ?f (utf8_chunks s))" by (simp only: set_map) simp
    then have "unbyte 239 \<in> set (to_valid s)" unfolding to_valid_def set_concat by (intro UN_I) (assumption, simp)
    with * have "byte (unbyte 239) < 128" by (simp only: list_all_iff)
    then show False by simp
  qed
  then have "utf8_ValidString s" by (auto simp: utf8_ValidString_def list_all_iff)
  then show ?thesis by (rule to_valid_id)
qed

lemma to_valid_eq_ascii: "ascii t \<Longrightarrow> to_valid s = t \<longleftrightarrow> s = t"
  using to_valid_ascii_back [of s] by auto

section \<open>Saving is atomic\<close>

lemma or_fail_run:
  assumes "run_state (or_fail message m f) fs = (res, fs')"
  obtains (bad) err where "run_state m fs = (Inl err, fs')" "res = Inl (fmt_Errorf_w message err)"
  | (ok) x fs1 where "run_state m fs = (Inr x, fs1)" "run_state (f x) fs1 = (res, fs')"
  using assms by (auto simp: or_fail_def split: prod.splits sum.splits)

lemma os_plain_run: "run_state os_plain fs = (res, fs') \<Longrightarrow> fsFiles fs' = fsFiles fs \<and> fsTemp fs' = fsTemp fs"
  by (auto simp: os_plain_def os_call_def Let_def split: option.splits prod.splits)

lemma or_close_run:
  assumes "run_state (or_close message m f) fs = (res, fs')"
  obtains (bad) err fs1 where "run_state m fs = (Inl err, fs1)" "fsFiles fs' = fsFiles fs1" "fsTemp fs' = fsTemp fs1" "res = Inl (fmt_Errorf_w message err)"
  | (ok) x fs1 where "run_state m fs = (Inr x, fs1)" "run_state (f x) fs1 = (res, fs')"
  using assms by (auto simp: or_close_def split: prod.splits sum.splits dest!: os_plain_run)

lemma syncDirectory_run: "run_state syncDirectory fs = (res, fs') \<Longrightarrow> fsFiles fs' = fsFiles fs \<and> fsTemp fs' = fsTemp fs"
  by (auto simp: syncDirectory_def split: prod.splits sum.splits dest!: os_plain_run)

lemma os_Write_run:
  assumes "run_state (os_Write name contents) fs = (res, fs')"
  shows "fsTemp fs' = fsTemp fs" and "p \<noteq> name \<Longrightarrow> fsFiles fs' p = fsFiles fs p" and "res = Inr x \<Longrightarrow> fsFiles fs' name = Some contents"
  using assms by (auto simp: os_Write_def os_call_def Let_def split: option.splits prod.splits)

lemma os_Rename_run:
  assumes "run_state (os_Rename name path) fs = (res, fs')" and "fsFiles fs name = Some contents" and "name \<noteq> path"
  shows "fsTemp fs' = fsTemp fs"
    and "fsFiles fs' path = (if res = Inr () then Some contents else fsFiles fs path)"
  using assms by (auto simp: os_Rename_def os_call_def Let_def split: option.splits prod.splits)

lemma os_Remove_run:
  assumes "run_state (os_Remove name) fs = (res, fs')"
  shows "fsTemp fs' = fsTemp fs" and "p \<noteq> name \<Longrightarrow> fsFiles fs' p = fsFiles fs p"
  using assms by (auto simp: os_Remove_def os_call_def Let_def split: option.splits prod.splits)

lemma os_CreateTemp_run:
  assumes "run_state os_CreateTemp fs = (res, fs')" and "path \<notin> range (fsTemp fs)"
  shows "path \<notin> range (fsTemp fs')" and "fsFiles fs' path = fsFiles fs path" and "res = Inr name \<Longrightarrow> name \<noteq> path"
  using assms by (auto simp: os_CreateTemp_def os_call_def Let_def split: option.splits prod.splits if_splits)

lemma publish_file_run:
  assumes "run_state (publish_file path name contents) fs = (res, fs')" and "name \<noteq> path"
  shows "fsTemp fs' = fsTemp fs"
    and "fsFiles fs' path \<in> {fsFiles fs path, Some contents}" and "res = Inr () \<Longrightarrow> fsFiles fs' path = Some contents"
proof -
  have "fsTemp fs' = fsTemp fs \<and> fsFiles fs' path \<in> {fsFiles fs path, Some contents}
      \<and> (res = Inr () \<longrightarrow> fsFiles fs' path = Some contents)"
    using assms unfolding publish_file_def
    by (auto elim!: or_close_run or_fail_run dest!: os_plain_run syncDirectory_run
        simp: os_Write_run os_Rename_run split: if_splits)
  then show "fsTemp fs' = fsTemp fs" "fsFiles fs' path \<in> {fsFiles fs path, Some contents}"
    "res = Inr () \<Longrightarrow> fsFiles fs' path = Some contents" by blast+
qed

lemma temporary_run:
  assumes run: "run_state (or_fail message os_CreateTemp (\<lambda>name. do {
      out \<leftarrow> publish_file path name contents; _ \<leftarrow> os_Remove name; State_Monad.return out })) fs = (res, fs')"
    and temp: "path \<notin> range (fsTemp fs)"
  shows "path \<notin> range (fsTemp fs') \<and> fsFiles fs' path \<in> {fsFiles fs path, Some contents}
    \<and> (res = Inr () \<longrightarrow> fsFiles fs' path = Some contents)"
  using run
proof (cases rule: or_fail_run)
  case (bad err)
  with os_CreateTemp_run [OF bad(1) temp] show ?thesis by simp
next
  case (ok name fs1)
  note created = os_CreateTemp_run [OF ok(1) temp]
  from ok(2) obtain fs2 gone where runs: "run_state (publish_file path name contents) fs1 = (res, fs2)" "run_state (os_Remove name) fs2 = (gone, fs')"
    by (auto split: prod.splits)
  have name: "name \<noteq> path" using created(3) by blast
  note published = publish_file_run [OF runs(1) name]
  show ?thesis using created(1,2) published os_Remove_run(1) [OF runs(2)] os_Remove_run(2) [OF runs(2) name [symmetric]] by auto
qed

lemma FileStore_Save_run:
  assumes "run_state (FileStore_Save jc path rcd) fs = (res, fs')" and temp: "path \<notin> range (fsTemp fs)"
  shows "path \<notin> range (fsTemp fs')"
    and "fsFiles fs' path = fsFiles fs path \<or> (\<exists>text. jcMarshalIndent jc rcd = Inr text \<and> fsFiles fs' path = Some (text @ ''\<newline>''))"
    and "res = Inr () \<Longrightarrow> \<exists>text. jcMarshalIndent jc rcd = Inr text \<and> fsFiles fs' path = Some (text @ ''\<newline>'')"
proof -
  let ?new = "\<exists>text. jcMarshalIndent jc rcd = Inr text \<and> fsFiles fs' path = Some (text @ ''\<newline>'')"
  have "path \<notin> range (fsTemp fs') \<and> (fsFiles fs' path = fsFiles fs path \<or> ?new) \<and> (res = Inr () \<longrightarrow> ?new)"
  proof (cases "path = []")
    case True
    with assms show ?thesis by (auto simp: FileStore_Save_def)
  next
    case False
    then have "run_state (or_fail ''create state directory'' os_plain (\<lambda>_.
        (case jcMarshalIndent jc rcd of
           Inl err \<Rightarrow> State_Monad.return (Inl (fmt_Errorf_w ''encode staging state'' err))
         | Inr text \<Rightarrow>
             or_fail ''create staging state temporary file'' os_CreateTemp (\<lambda>name. do {
               out \<leftarrow> publish_file path name (text @ ''\<newline>''); _ \<leftarrow> os_Remove name; State_Monad.return out })))) fs = (res, fs')"
      using assms(1) by (simp add: FileStore_Save_def)
    then show ?thesis
    proof (cases rule: or_fail_run)
      case (bad err)
      with temp show ?thesis by (auto dest: os_plain_run)
    next
      case (ok x fs1)
      with temp have fs1: "path \<notin> range (fsTemp fs1)" "fsFiles fs1 = fsFiles fs" by (auto dest: os_plain_run)
      show ?thesis
      proof (cases "jcMarshalIndent jc rcd")
        case (Inl err)
        with ok fs1 show ?thesis by auto
      next
        case (Inr t)
        with temporary_run [OF _ fs1(1), of _ "t @ ''\<newline>''" res fs'] ok fs1 show ?thesis by auto
      qed
    qed
  qed
  then show "path \<notin> range (fsTemp fs')" "fsFiles fs' path = fsFiles fs path \<or> ?new" "res = Inr () \<Longrightarrow> ?new" by blast+
qed

end
