(* ===== verification/Staging_Safety.thy ===== *)
theory Staging_Safety
  imports Staging_Store
begin

text \<open>
  What the staging controller guarantees: the locale \<open>staging_persistence\<close> states what it needs of
  the store, the clock, the lock and the host, the controller lemmas are proved in it, and it
  is interpreted on the controller whose store is the \<^verbatim>\<open>FileStore\<close> of the code.
\<close>

definition readable :: "Record \<Rightarrow> bool" where
  "readable rcd \<longleftrightarrow> srFormat rcd = RecordFormat \<and> srState rcd \<noteq> []"

definition seen :: "Record \<Rightarrow> Record option" where
  "seen rcd = (if readable (json_seen rcd) then Some (json_seen rcd) else None)"

text \<open>An active record names an approved version with exactly the identity of its bundle.\<close>

definition approved :: "BundleSet \<Rightarrow> Record \<Rightarrow> bool" where
  "approved bundles rcd \<longleftrightarrow> srState rcd = StateActive \<longrightarrow>
     (case gget bundles (srActiveVersion rcd) of
        None \<Rightarrow> False
      | Some b \<Rightarrow> srActiveComposeSHA256 rcd = buComposeSHA256 b \<and> srActiveImage rcd = buImage b \<and> srSchemaVersion rcd = buSchemaVersion b)"

definition plain_bundles :: "BundleSet \<Rightarrow> bool" where
  "plain_bundles bundles \<longleftrightarrow> (\<forall>v b. gget bundles v = Some b \<longrightarrow>
     buVersion b = v \<and> ascii v \<and> ascii (buComposeSHA256 b) \<and> ascii (buImage b))"

lemma json_seen_simps [simp]:
  "srFormat (json_seen r) = to_valid (srFormat r)" "srState (json_seen r) = to_valid (srState r)"
  "srActiveVersion (json_seen r) = to_valid (srActiveVersion r)" "srSchemaVersion (json_seen r) = srSchemaVersion r"
  "srActiveComposeSHA256 (json_seen r) = to_valid (srActiveComposeSHA256 r)" "srActiveImage (json_seen r) = to_valid (srActiveImage r)"
  by (simp_all add: json_seen_def)

lemma state_ascii: "ascii StateActive" "ascii RecordFormat"
  by (simp_all add: RecordFormat_def byte_def)

lemma approved_seen:
  assumes plain: "plain_bundles bundles" and rcd: "approved bundles rcd" and "seen rcd = Some r"
  shows "approved bundles r"
  unfolding approved_def
proof
  have r: "r = json_seen rcd" using assms(3) by (simp add: seen_def split: if_splits)
  assume "srState r = StateActive"
  then have "srState rcd = StateActive" unfolding r json_seen_simps by (simp only: to_valid_eq_ascii [OF state_ascii(1)])
  with rcd obtain b where b: "gget bundles (srActiveVersion rcd) = Some b" "srActiveComposeSHA256 rcd = buComposeSHA256 b"
      "srActiveImage rcd = buImage b" "srSchemaVersion rcd = buSchemaVersion b"
    by (auto simp: approved_def split: option.splits)
  moreover have "ascii (srActiveVersion rcd)" "ascii (buComposeSHA256 b)" "ascii (buImage b)"
    using plain b(1) by (auto simp: plain_bundles_def)
  ultimately show "case gget bundles (srActiveVersion r) of
        None \<Rightarrow> False
      | Some b \<Rightarrow> srActiveComposeSHA256 r = buComposeSHA256 b \<and> srActiveImage r = buImage b \<and> srSchemaVersion r = buSchemaVersion b"
    by (simp add: r)
qed

section \<open>What the controller needs of its dependencies\<close>

locale staging_persistence =
  fixes c :: "'s Controller" and stored :: "'s \<Rightarrow> Record option" and env_ok :: "'s \<Rightarrow> bool"
  assumes save: "env_ok s \<Longrightarrow> run_state (stSave (state_store c) rcd) s = (res, s') \<Longrightarrow>
      env_ok s' \<and> stored s' \<in> {stored s, seen rcd} \<and> (res = Inr () \<longrightarrow> stored s' = seen rcd)"
    and load: "env_ok s \<Longrightarrow> run_state (stLoad (state_store c)) s = (loaded, s') \<Longrightarrow>
      env_ok s' \<and> stored s' = stored s \<and> (\<forall>rcd. loaded = Inr (rcd, True) \<longrightarrow> stored s = Some rcd) \<and> (\<forall>rcd. loaded = Inr (rcd, False) \<longrightarrow> stored s = None)"
    and now: "env_ok s \<Longrightarrow> run_state (scNow c) s = (t, s') \<Longrightarrow> env_ok s' \<and> stored s' = stored s"
    and acquire: "env_ok s \<Longrightarrow> run_state (lkAcquire (locker c) key) s = (acquired, s') \<Longrightarrow> env_ok s' \<and> stored s' = stored s"
    and release: "run_state (lkAcquire (locker c) key) s = (Inr unlock, s') \<Longrightarrow> env_ok s1 \<Longrightarrow> run_state unlock s1 = (u, s2) \<Longrightarrow>
      env_ok s2 \<and> stored s2 = stored s1"
    and read_active: "env_ok s \<Longrightarrow> run_state (hReadActive (host c)) s = (a, s') \<Longrightarrow> env_ok s' \<and> stored s' = stored s"
    and activate: "env_ok s \<Longrightarrow> run_state (hActivate (host c) b) s = (a, s') \<Longrightarrow> env_ok s' \<and> stored s' = stored s"
    and verify: "env_ok s \<Longrightarrow> run_state (hVerify (host c) b) s = (e, s') \<Longrightarrow> env_ok s' \<and> stored s' = stored s"
    and roll_back: "env_ok s \<Longrightarrow> run_state (hRollback (host c) b) s = (a, s') \<Longrightarrow> env_ok s' \<and> stored s' = stored s"
    and verify_rollback: "env_ok s \<Longrightarrow> run_state (hVerifyRollback (host c) b) s = (e, s') \<Longrightarrow> env_ok s' \<and> stored s' = stored s"
begin

text \<open>The controller changes the record only through \<open>persist\<close>; everything else leaves it alone.\<close>

definition holds :: "(Record option \<Rightarrow> bool) \<Rightarrow> 's \<Rightarrow> bool" where
  "holds p s \<longleftrightarrow> env_ok s \<and> p (stored s)"

lemma quiet:
  assumes "\<And>s x s'. env_ok s \<Longrightarrow> run_state m s = (x, s') \<Longrightarrow> env_ok s' \<and> stored s' = stored s"
  shows "hoare (holds p) m (\<lambda>_. holds p)"
  using assms unfolding hoare_def holds_def by metis

lemma quiet_calls [hoare_rules]:
  "hoare (holds p) (scNow c) (\<lambda>_. holds p)" "hoare (holds p) (hReadActive (host c)) (\<lambda>_. holds p)"
  "hoare (holds p) (hActivate (host c) b) (\<lambda>_. holds p)" "hoare (holds p) (hVerify (host c) b) (\<lambda>_. holds p)"
  "hoare (holds p) (hRollback (host c) b) (\<lambda>_. holds p)" "hoare (holds p) (hVerifyRollback (host c) b) (\<lambda>_. holds p)"
  "hoare (holds p) (lkAcquire (locker c) key) (\<lambda>_. holds p)"
  by (rule quiet, erule (1) now read_active activate verify roll_back verify_rollback acquire)+

lemma save_rule:
  assumes "p (seen rcd)"
  shows "hoare (holds p) (stSave (state_store c) rcd) (\<lambda>_. holds p)"
  unfolding hoare_def holds_def using assms save by (metis insertE singletonD)

lemma persist_rule:
  assumes "\<And>t. p (seen (rcd\<lparr>srUpdatedAt := t\<rparr>))"
  shows "hoare (holds p) (persist c rcd) (\<lambda>_. holds p)"
  unfolding persist_def Let_def
  by (intro hoare_bind [OF quiet_calls(1)] hoare_bind [OF save_rule] hoare_return) (use assms in auto)

lemma persist_result:
  "hoare (holds (\<lambda>_. True)) (persist c rcd) (\<lambda>out s. (\<exists>t. fst out = rcd\<lparr>srUpdatedAt := t\<rparr>)
     \<and> (snd out = Inr () \<longrightarrow> stored s = seen (fst out)) \<and> holds (\<lambda>_. True) s)"
proof (rule hoareI)
  fix s out s'
  assume "holds (\<lambda>_. True) s" and run: "run_state (persist c rcd) s = (out, s')"
  then have s: "env_ok s" by (simp add: holds_def)
  obtain t s1 where 1: "run_state (scNow c) s = (t, s1)" by fastforce
  obtain res s2 where 2: "run_state (stSave (state_store c) (rcd\<lparr>srUpdatedAt := time_RFC3339 t\<rparr>)) s1 = (res, s2)" by fastforce
  have "out = (rcd\<lparr>srUpdatedAt := time_RFC3339 t\<rparr>, res)" "s' = s2" using run 1 2 by (simp_all add: persist_def Let_def)
  with save [OF conjunct1 [OF now [OF s 1]] 2] show "(\<exists>t. fst out = rcd\<lparr>srUpdatedAt := t\<rparr>)
     \<and> (snd out = Inr () \<longrightarrow> stored s' = seen (fst out)) \<and> holds (\<lambda>_. True) s'"
    by (auto simp: holds_def)
qed

section \<open>Only approved versions become active\<close>

definition sound :: "'s \<Rightarrow> bool" where
  "sound = holds (\<lambda>x. \<forall>r. x = Some r \<longrightarrow> approved (scBundles c) r)"

lemma persist_sound:
  assumes "plain_bundles (scBundles c)" and "approved (scBundles c) rcd"
  shows "hoare sound (persist c rcd) (\<lambda>_. sound)"
proof -
  have "approved (scBundles c) (rcd\<lparr>srUpdatedAt := t\<rparr>)" for t using assms(2) by (auto simp: approved_def split: option.splits)
  with approved_seen [OF assms(1)] show ?thesis unfolding sound_def by (intro persist_rule) blast
qed

lemmas sound_calls [hoare_rules] = quiet_calls [where p = "\<lambda>x. \<forall>r. x = Some r \<longrightarrow> approved (scBundles c) r", folded sound_def]

lemma save_sound [hoare_rules]:
  "plain_bundles (scBundles c) \<Longrightarrow> next \<noteq> StateActive \<Longrightarrow> hoare sound (Controller_save c rcd next) (\<lambda>_. sound)"
  unfolding Controller_save_def by (intro hoare_rules persist_sound) (auto simp: approved_def)

lemma markRecovery_sound [hoare_rules]:
  assumes "plain_bundles (scBundles c)"
  shows "hoare sound (Controller_markRecovery c rcd message cause) (\<lambda>_. sound)"
proof (cases "srState rcd = StateRecoveryRequired")
  case True
  then have "approved (scBundles c) r" if "seen (rcd\<lparr>srLastError := message\<rparr>) = Some r" for r
    using approved_seen [OF assms _ that] by (simp add: approved_def)
  then have "hoare sound (stSave (state_store c) (rcd\<lparr>srLastError := message\<rparr>)) (\<lambda>_. sound)"
    unfolding sound_def by (intro save_rule) blast
  with True show ?thesis unfolding Controller_markRecovery_def by (simp add: hoare_keep hoare_return Let_def)
next
  case False
  with save_sound [OF assms] show ?thesis unfolding Controller_markRecovery_def
    by (simp add: hoare_keep hoare_return Let_def)
qed

lemma resume_lost_sound [hoare_rules]:
  "plain_bundles (scBundles c) \<Longrightarrow> hoare sound (resume_lost c rcd message) (\<lambda>_. sound)"
  unfolding resume_lost_def by (intro hoare_rules persist_sound) (simp_all add: approved_def)

lemma commitActive_sound [hoare_rules]:
  "plain_bundles (scBundles c) \<Longrightarrow> gget (scBundles c) (buVersion b) = Some b \<Longrightarrow>
    hoare sound (Controller_commitActive c rcd b evidence) (\<lambda>_. sound)"
  unfolding Controller_commitActive_def by (intro hoare_rules persist_sound) (simp_all add: approved_def)

lemma markActive_sound [hoare_rules]:
  "plain_bundles (scBundles c) \<Longrightarrow> gget (scBundles c) (buVersion b) = Some b \<Longrightarrow>
    hoare sound (Controller_markActive c rcd b operation request) (\<lambda>_. sound)"
  unfolding Controller_markActive_def by (intro hoare_rules persist_sound) (simp_all add: approved_def)

lemma resume_active_sound [hoare_rules]:
  assumes "plain_bundles (scBundles c)" and "runs_bundle c version active"
  shows "hoare sound (resume_active c rcd active) (\<lambda>_. sound)"
proof -
  from assms(2) obtain b where b: "gget (scBundles c) version = Some b" "asVersion active = buVersion b" "validateActiveBundle b active = Inr ()"
    by (auto simp: runs_bundle_def split: option.splits)
  then have "gget (scBundles c) (asVersion active) = Some b" "asComposeSHA256 active = buComposeSHA256 b" "asImage active = buImage b"
      "asSchemaVersion active = buSchemaVersion b"
    using assms(1) by (auto simp: plain_bundles_def validateActiveBundle_def split: if_splits)
  then show ?thesis unfolding resume_active_def
    by (intro hoare_rules persist_sound assms(1)) (simp add: approved_def)
qed

lemma revalidate_sound [hoare_rules]:
  "plain_bundles (scBundles c) \<Longrightarrow> hoare sound (Controller_revalidateActiveRecord c rcd) (\<lambda>_. sound)"
  unfolding Controller_revalidateActiveRecord_def by (intro hoare_rules) assumption+

lemma compensate_sound [hoare_rules]:
  "plain_bundles (scBundles c) \<Longrightarrow> gget (scBundles c) (buVersion b) = Some b \<Longrightarrow>
    hoare sound (Controller_compensate c rcd b ok message cause) (\<lambda>_. sound)"
  unfolding Controller_compensate_def Let_def by (intro hoare_rules) simp_all

lemma switch_sound [hoare_rules]:
  assumes "plain_bundles (scBundles c)" and "gget (scBundles c) (buVersion b) = Some b"
  shows "gget (scBundles c) (buVersion current) = Some current \<Longrightarrow> hoare sound (deploy_switch c rcd b current) (\<lambda>_. sound)"
    and "hoare sound (rollback_switch c rcd b) (\<lambda>_. sound)"
  unfolding deploy_switch_def rollback_switch_def using assms by (intro hoare_rules; simp)+

lemma load_sound [hoare_rules]: "hoare sound (Controller_load pf c) (\<lambda>_. sound)"
  unfolding Controller_load_def sound_def by (rule hoare_keep, rule quiet, drule (1) load, simp, intro hoare_rules)

lemma readValidated_rule:
  "hoare (holds p) (Controller_readValidatedActive c)
     (\<lambda>res s. holds p s \<and> (\<forall>active current. res = Inr (active, current) \<longrightarrow>
        gget (scBundles c) (asVersion active) = Some current \<and> validateActiveBundle current active = Inr ()))"
  unfolding Controller_readValidatedActive_def
  by (rule hoare_bind [OF quiet_calls(2)], rule hoare_return) (auto split: sum.splits option.splits)

lemma guarded_sound:
  assumes plain: "plain_bundles (scBundles c)" and b: "gget (scBundles c) (buVersion b) = Some b"
    and switch: "\<And>rcd current. gget (scBundles c) (buVersion current) = Some current \<Longrightarrow> hoare sound (switch rcd current) (\<lambda>_. sound)"
  shows "hoare sound (guarded pf c operation pre request b switch) (\<lambda>_. sound)"
proof -
  have current: "gget (scBundles c) (buVersion current) = Some current" if "gget (scBundles c) v = Some current" for v current
    using plain that by (auto simp: plain_bundles_def)
  have tail: "hoare sound (do { validated \<leftarrow> Controller_readValidatedActive c;
      (case validated of Inl err \<Rightarrow> f err | Inr (active, current) \<Rightarrow> g active current) }) (\<lambda>_. sound)"
    if "\<And>err. hoare sound (f err) (\<lambda>_. sound)"
      "\<And>active current. gget (scBundles c) (buVersion current) = Some current \<Longrightarrow> hoare sound (g active current) (\<lambda>_. sound)" for f g
    by (rule hoare_bind [OF readValidated_rule [where p = "\<lambda>x. \<forall>r. x = Some r \<longrightarrow> approved (scBundles c) r", folded sound_def]])
      (use that current in \<open>fastforce simp: hoare_def split: sum.splits prod.splits\<close>)
  show ?thesis unfolding guarded_def admit_def start_switch_def Let_def
    by (intro hoare_rules tail switch plain b)
qed

lemma locked_sound:
  assumes "hoare sound body (\<lambda>_. sound)"
  shows "hoare sound (locked c body) (\<lambda>_. sound)"
proof (rule hoareI)
  fix s out s'
  assume s: "sound s" and run: "run_state (locked c body) s = (out, s')"
  obtain acquired s1 where 1: "run_state (lkAcquire (locker c) ''asteria-drive-staging'') s = (acquired, s1)" by fastforce
  have s1: "sound s1" using hoareD [OF sound_calls(7) s 1] .
  show "sound s'"
  proof (cases acquired)
    case (Inl err)
    with run 1 s1 show ?thesis by (simp add: locked_def Controller_acquire_def)
  next
    case (Inr unlock)
    with run 1 obtain s2 where 2: "run_state body s1 = (out, s2)" "run_state unlock s2 = ((), s')"
      by (auto simp: locked_def Controller_acquire_def split: prod.splits)
    have "sound s2" using hoareD [OF assms s1 2(1)] .
    then show ?thesis using release [OF 1 [unfolded Inr] _ 2(2)] by (simp add: sound_def holds_def)
  qed
qed

lemma operations_sound:
  assumes plain: "plain_bundles (scBundles c)"
  shows "hoare sound (Controller_Deploy pf c request) (\<lambda>_. sound)"
    and "hoare sound (Controller_Rollback pf c request) (\<lambda>_. sound)"
    and "hoare sound (Controller_Resume pf c runID attempt) (\<lambda>_. sound)"
    and "hoare sound (Controller_Monitor pf c) (\<lambda>_. sound)"
proof -
  have b: "gget (scBundles c) (buVersion b) = Some b" if "Controller_validateRequest c request = Inr b" for b
    using plain that by (auto simp: plain_bundles_def Controller_validateRequest_def split: if_splits option.splits)
  show "hoare sound (Controller_Deploy pf c request) (\<lambda>_. sound)"
    unfolding Controller_Deploy_def by (intro hoare_rules locked_sound guarded_sound plain; (assumption | erule b))
  show "hoare sound (Controller_Rollback pf c request) (\<lambda>_. sound)"
    unfolding Controller_Rollback_def by (intro hoare_rules locked_sound guarded_sound plain; (assumption | erule b))
  show "hoare sound (Controller_Resume pf c runID attempt) (\<lambda>_. sound)"
    unfolding Controller_Resume_def resume_body_def resume_from_def by (intro hoare_rules locked_sound plain)
  show "hoare sound (Controller_Monitor pf c) (\<lambda>_. sound)"
    unfolding Controller_Monitor_def by (intro hoare_rules)
qed

section \<open>What success means\<close>

definition run_of :: "Record \<Rightarrow> string \<times> string \<times> string \<times> string \<times> string" where
  "run_of rcd = (srFormat rcd, srOperation rcd, srRunID rcd, srAttempt rcd, srTargetVersion rcd)"

definition alive :: "'s \<Rightarrow> bool" where
  "alive = holds (\<lambda>_. True)"

lemmas alive_calls [hoare_rules] = quiet_calls [where p = "\<lambda>_. True", folded alive_def]

text \<open>An operation that reports success left an active record of bundle \<open>b\<close> in the store.\<close>

definition succeeded :: "string \<times> string \<times> string \<times> string \<times> string \<Rightarrow> Bundle \<Rightarrow> Record \<times> error option \<Rightarrow> 's \<Rightarrow> bool" where
  "succeeded run b out s \<longleftrightarrow> alive s \<and> (snd out = None \<longrightarrow> srState (fst out) = StateActive \<and> run_of (fst out) = run
     \<and> srActiveVersion (fst out) = buVersion b \<and> srActiveComposeSHA256 (fst out) = buComposeSHA256 b
     \<and> srActiveImage (fst out) = buImage b \<and> srSchemaVersion (fst out) = buSchemaVersion b \<and> stored s = seen (fst out))"

definition failed :: "Record \<times> error option \<Rightarrow> 's \<Rightarrow> bool" where
  "failed out s \<longleftrightarrow> alive s \<and> snd out \<noteq> None"

lemma persist_alive: "hoare alive (persist c rcd) (\<lambda>out s. alive s \<and> (\<exists>t. fst out = rcd\<lparr>srUpdatedAt := t\<rparr>) \<and> (snd out = Inr () \<longrightarrow> stored s = seen (fst out)))"
  unfolding alive_def by (rule hoare_weaken [OF persist_result]) blast

lemma save_alive:
  "hoare alive (Controller_save c rcd next) (\<lambda>(rcd', err) s. alive s \<and> run_of rcd' = run_of rcd)"
  unfolding Controller_save_def
  by (intro hoare_cases hoare_return hoare_bind [OF persist_alive]) (auto simp: run_of_def hoare_def)

lemma step_alive:
  assumes "\<And>rcd1. run_of rcd1 = run_of rcd \<Longrightarrow> hoare alive (f rcd1) Q" and "\<And>r e s. alive s \<Longrightarrow> Q (r, Some e) s"
  shows "hoare alive (step_then (Controller_save c rcd next) f) Q"
  by (rule hoare_step_then [where R = "\<lambda>rcd1 s. run_of rcd1 = run_of rcd \<and> alive s"])
    (rule hoare_weaken [OF save_alive], use assms in \<open>auto simp: hoare_def split: option.splits\<close>)

lemma commitActive_succeeds: "hoare alive (Controller_commitActive c rcd b evidence) (succeeded (run_of rcd) b)"
  unfolding Controller_commitActive_def
  by (intro hoare_bind [OF persist_alive]) (auto simp: hoare_def succeeded_def run_of_def split: sum.splits)

lemma markRecovery_fails: "hoare alive (Controller_markRecovery c rcd message cause) failed"
  unfolding Controller_markRecovery_def Let_def
proof (rule hoare_cases)
  have "hoare alive (stSave (state_store c) (rcd\<lparr>srLastError := message\<rparr>)) (\<lambda>_. alive)"
    unfolding alive_def by (rule save_rule) simp
  then show "hoare alive (stSave (state_store c) (rcd\<lparr>srLastError := message\<rparr>) \<bind> (\<lambda>_. State_Monad.return (rcd\<lparr>srLastError := message\<rparr>, Some ErrRecoveryRequired))) failed"
    by (rule hoare_bind) (auto simp: hoare_def failed_def)
qed (rule step_alive, auto simp: failed_def intro: hoare_return)

lemma failed_succeeded: "failed out s \<Longrightarrow> succeeded run b out s"
  by (auto simp: failed_def succeeded_def)

lemma compensate_fails: "hoare alive (Controller_compensate c rcd b ok message cause) failed"
  unfolding Controller_compensate_def Let_def
proof (intro hoare_cases markRecovery_fails step_alive hoare_bind [OF alive_calls(5)] hoare_bind [OF alive_calls(6)] hoare_bind [OF alive_calls(2)])
  fix rcd2 evidence
  show "hoare alive (step_then (Controller_commitActive c rcd2 b evidence) (\<lambda>committed. State_Monad.return (committed, Some cause))) failed"
    by (rule hoare_step_then [where R = "\<lambda>_. alive"], rule hoare_weaken [OF commitActive_succeeds])
      (auto simp: succeeded_def failed_def hoare_def split: option.splits)
qed (auto simp: failed_def)

lemma deploy_switch_succeeds: "hoare alive (deploy_switch c rcd b current) (succeeded (run_of rcd) b)"
  unfolding deploy_switch_def
proof (intro step_alive hoare_bind [OF alive_calls(3)] hoare_bind [OF alive_calls(4)] hoare_cases)
  fix rcd1 rcd2 rcd3 evidence
  assume "run_of rcd1 = run_of rcd" "run_of rcd2 = run_of rcd1" "run_of rcd3 = run_of rcd2"
  then show "hoare alive (Controller_commitActive c rcd3 b evidence) (succeeded (run_of rcd) b)"
    using commitActive_succeeds [of rcd3 b evidence] by simp
qed (auto simp: succeeded_def intro: hoare_weaken [OF compensate_fails failed_succeeded])

lemma rollback_switch_succeeds: "hoare alive (rollback_switch c rcd b) (succeeded (run_of rcd) b)"
  unfolding rollback_switch_def
proof (intro step_alive hoare_bind [OF alive_calls(5)] hoare_bind [OF alive_calls(6)] hoare_bind [OF alive_calls(2)] hoare_cases)
  fix rcd1 rcd2 evidence
  assume "run_of rcd1 = run_of rcd" "run_of rcd2 = run_of rcd1"
  then show "hoare alive (Controller_commitActive c rcd2 b evidence) (succeeded (run_of rcd) b)"
    using commitActive_succeeds [of rcd2 b evidence] by simp
qed (auto simp: succeeded_def intro: hoare_weaken [OF markRecovery_fails failed_succeeded])

text \<open>The run a request stands for; a replay is answered from the record that is there.\<close>

definition request_run :: "string \<Rightarrow> Request \<Rightarrow> string \<times> string \<times> string \<times> string \<times> string" where
  "request_run operation request = (RecordFormat, operation, rqRunID request, rqAttempt request, rqTargetVersion request)"

definition answered :: "string \<Rightarrow> Request \<Rightarrow> Bundle \<Rightarrow> Record option \<Rightarrow> Record \<times> error option \<Rightarrow> 's \<Rightarrow> bool" where
  "answered operation request b old out s \<longleftrightarrow> succeeded (request_run operation request) b out s
     \<or> old = Some (fst out) \<and> stored s = old \<and> srState (fst out) = StateActive \<and> run_of (fst out) = request_run operation request"

lemma load_result:
  "hoare (holds (\<lambda>x. x = old)) (Controller_load pf c) (\<lambda>res s. holds (\<lambda>x. x = old) s \<and> (\<forall>rcd. res = Inr rcd \<longrightarrow>
     srFormat rcd = RecordFormat \<and> (srState rcd \<noteq> StateIdle \<longrightarrow> old = Some rcd)))"
proof (rule hoareI)
  fix s res s'
  assume s: "holds (\<lambda>x. x = old) s" and run: "run_state (Controller_load pf c) s = (res, s')"
  obtain loaded where 1: "run_state (stLoad (state_store c)) s = (loaded, s')"
    and res: "res = (case loaded of Inl err \<Rightarrow> Inl err | Inr (rcd, found) \<Rightarrow>
       if \<not> found then Inr (zero_Record\<lparr>srFormat := RecordFormat, srState := StateIdle\<rparr>)
       else if srFormat rcd \<noteq> RecordFormat then Inl (fmt_Errorf (''invalid staging state format '' @ pfQuote pf (srFormat rcd)))
       else Inr rcd)"
    using run by (auto simp: Controller_load_def split: prod.splits)
  have "env_ok s" using s by (simp add: holds_def)
  from load [OF this 1] s show "holds (\<lambda>x. x = old) s' \<and> (\<forall>rcd. res = Inr rcd \<longrightarrow>
     srFormat rcd = RecordFormat \<and> (srState rcd \<noteq> StateIdle \<longrightarrow> old = Some rcd))"
    unfolding res by (cases loaded) (auto simp: holds_def split: if_splits)
qed

lemma holds_alive: "holds p s \<Longrightarrow> alive s"
  by (simp add: alive_def holds_def)

lemma revalidate_result:
  "hoare (holds (\<lambda>x. x = old)) (Controller_revalidateActiveRecord c rcd) (\<lambda>out s. alive s \<and> (snd out = None \<longrightarrow> fst out = rcd \<and> stored s = old))"
proof -
  have fails: "hoare (holds (\<lambda>x. x = old)) (Controller_markRecovery c rcd message cause) (\<lambda>out s. alive s \<and> (snd out = None \<longrightarrow> fst out = rcd \<and> stored s = old))"
    for message cause
    by (rule hoare_pre [OF hoare_weaken [OF markRecovery_fails] holds_alive]) (auto simp: failed_def)
  show ?thesis
    unfolding Controller_revalidateActiveRecord_def
    by (intro hoare_cases fails hoare_bind [OF quiet_calls(2)] hoare_return) (auto simp: holds_alive, simp add: holds_def)
qed

lemma markActive_succeeds:
  "hoare alive (Controller_markActive c rcd b operation request)
     (succeeded (srFormat rcd, operation, rqRunID request, rqAttempt request, buVersion b) b)"
  unfolding Controller_markActive_def
  by (intro hoare_bind [OF persist_alive]) (auto simp: hoare_def succeeded_def run_of_def split: sum.splits)

definition outcome :: "string \<Rightarrow> Request \<Rightarrow> Bundle \<Rightarrow> Record option \<Rightarrow> Record \<times> error option \<Rightarrow> 's \<Rightarrow> bool" where
  "outcome operation request b old out s \<longleftrightarrow> alive s \<and> (snd out = None \<longrightarrow> answered operation request b old out s)"

lemma outcome_rules:
  "hoare alive m (succeeded (request_run operation request) b) \<Longrightarrow> hoare (holds p) m (outcome operation request b old)"
  "hoare alive m failed \<Longrightarrow> hoare (holds p) m (outcome operation request b old)"
  "hoare (holds p) (State_Monad.return (r, Some e)) (outcome operation request b old)"
proof -
  show "hoare (holds p) m (outcome operation request b old)" if "hoare alive m (succeeded (request_run operation request) b)"
    using that by (rule hoare_pre [OF hoare_weaken holds_alive]) (auto simp: outcome_def answered_def succeeded_def)
  show "hoare (holds p) m (outcome operation request b old)" if "hoare alive m failed"
    using that by (rule hoare_pre [OF hoare_weaken holds_alive]) (auto simp: outcome_def failed_def)
qed (auto simp: hoare_def outcome_def holds_alive)

lemma start_switch_outcome:
  assumes "\<And>r current. hoare alive (switch r current) (succeeded (run_of r) b)" and "buVersion b = rqTargetVersion request"
    and "srFormat rcd = RecordFormat"
  shows "hoare (holds p) (start_switch c operation pre request b switch rcd) (outcome operation request b old)"
  unfolding start_switch_def
proof (rule hoare_bind [OF hoare_weaken [OF readValidated_rule]], erule conjunct1, intro hoare_cases)
  fix active current
  show "hoare (holds p) (Controller_markActive c rcd b operation request) (outcome operation request b old)"
    using markActive_succeeds [of rcd b operation request] assms by (intro outcome_rules(1)) (simp add: request_run_def)
  show "hoare (holds p) (switch (start_record rcd operation request b active) current) (outcome operation request b old)"
    using assms(1) [of "start_record rcd operation request b active" current] assms(2,3)
    by (intro outcome_rules(1)) (simp add: request_run_def run_of_def start_record_def)
qed (rule outcome_rules(2) [OF markRecovery_fails])+

lemma admit_outcome:
  assumes "hoare (holds (\<lambda>x. x = old)) (proceed rcd) (outcome operation request b old)"
    and rcd: "srFormat rcd = RecordFormat" "srState rcd \<noteq> StateIdle \<Longrightarrow> old = Some rcd"
  shows "hoare (holds (\<lambda>x. x = old)) (admit c operation request proceed rcd) (outcome operation request b old)"
proof -
  have "hoare (holds (\<lambda>x. x = old)) (Controller_revalidateActiveRecord c rcd) (outcome operation request b old)"
    if "fst (replay rcd operation request)" "srState rcd = StateActive"
  proof (rule hoare_weaken [OF revalidate_result])
    have "run_of rcd = request_run operation request"
      using that rcd(1) by (auto simp: replay_def run_of_def request_run_def split: if_splits)
    moreover fix out :: "Record \<times> error option" and s
    assume "alive s \<and> (snd out = None \<longrightarrow> fst out = rcd \<and> stored s = old)"
    ultimately show "outcome operation request b old out s" using that rcd by (simp add: outcome_def answered_def)
  qed
  moreover have "snd (replay rcd operation request) \<noteq> None"
    if "fst (replay rcd operation request)" "srState rcd \<noteq> StateActive"
    using that by (auto simp: replay_def split: if_splits)
  ultimately show ?thesis using assms(1) unfolding admit_def
    by (auto split: prod.splits intro!: hoare_cases outcome_rules(3))
qed

lemma guarded_outcome:
  assumes "\<And>r current. hoare alive (switch r current) (succeeded (run_of r) b)" and "buVersion b = rqTargetVersion request"
  shows "hoare (holds (\<lambda>x. x = old)) (guarded pf c operation pre request b switch) (outcome operation request b old)"
  unfolding guarded_def
proof (rule hoare_bind [OF load_result])
  fix loaded
  let ?next = "case loaded of Inl err \<Rightarrow> State_Monad.return (zero_Record, Some err)
      | Inr rcd \<Rightarrow> admit c operation request (start_switch c operation pre request b switch) rcd"
  have "hoare (holds (\<lambda>x. x = old)) ?next (outcome operation request b old)"
    if "\<forall>rcd. loaded = Inr rcd \<longrightarrow> srFormat rcd = RecordFormat \<and> (srState rcd \<noteq> StateIdle \<longrightarrow> old = Some rcd)"
    using that by (intro hoare_cases outcome_rules(3) admit_outcome start_switch_outcome assms) auto
  then show "hoare (\<lambda>s. holds (\<lambda>x. x = old) s \<and> (\<forall>rcd. loaded = Inr rcd \<longrightarrow> srFormat rcd = RecordFormat \<and> (srState rcd \<noteq> StateIdle \<longrightarrow> old = Some rcd)))
     ?next (outcome operation request b old)"
    unfolding hoare_def by blast
qed

lemma locked_outcome:
  assumes "hoare (holds (\<lambda>x. x = old)) body (outcome operation request b old)"
  shows "hoare (holds (\<lambda>x. x = old)) (locked c body) (outcome operation request b old)"
proof (rule hoareI)
  fix s out s'
  assume s: "holds (\<lambda>x. x = old) s" and run: "run_state (locked c body) s = (out, s')"
  obtain acquired s1 where 1: "run_state (lkAcquire (locker c) ''asteria-drive-staging'') s = (acquired, s1)" by fastforce
  have s1: "holds (\<lambda>x. x = old) s1" using hoareD [OF quiet_calls(7) s 1] .
  show "outcome operation request b old out s'"
  proof (cases acquired)
    case (Inl err)
    with run 1 s1 holds_alive show ?thesis by (auto simp: locked_def Controller_acquire_def outcome_def)
  next
    case (Inr unlock)
    with run 1 obtain s2 where 2: "run_state body s1 = (out, s2)" "run_state unlock s2 = ((), s')"
      by (auto simp: locked_def Controller_acquire_def split: prod.splits)
    have "outcome operation request b old out s2" using hoareD [OF assms s1 2(1)] .
    moreover from this have "env_ok s2" by (simp add: outcome_def alive_def holds_def)
    ultimately show ?thesis using release [OF 1 [unfolded Inr] _ 2(2)]
      by (simp add: outcome_def answered_def succeeded_def alive_def holds_def)
  qed
qed

lemma operations_outcome:
  assumes plain: "plain_bundles (scBundles c)" and b: "gget (scBundles c) (rqTargetVersion request) = Some b"
  shows "hoare (holds (\<lambda>x. x = old)) (Controller_Deploy pf c request) (outcome ''deploy'' request b old)"
    and "hoare (holds (\<lambda>x. x = old)) (Controller_Rollback pf c request) (outcome ''rollback'' request b old)"
proof -
  have b': "b' = b" if "Controller_validateRequest c request = Inr b'" for b'
    using that b by (auto simp: Controller_validateRequest_def split: if_splits option.splits)
  have version: "buVersion b = rqTargetVersion request" using plain b by (auto simp: plain_bundles_def)
  note rules = hoare_cases outcome_rules(3) locked_outcome guarded_outcome deploy_switch_succeeds rollback_switch_succeeds version
  show "hoare (holds (\<lambda>x. x = old)) (Controller_Deploy pf c request) (outcome ''deploy'' request b old)"
    unfolding Controller_Deploy_def by (intro hoare_cases outcome_rules(3)) (auto dest!: b' intro!: rules)
  show "hoare (holds (\<lambda>x. x = old)) (Controller_Rollback pf c request) (outcome ''rollback'' request b old)"
    unfolding Controller_Rollback_def by (intro hoare_cases outcome_rules(3)) (auto dest!: b' intro!: rules)
qed

end

section \<open>The controller with its file store\<close>

record ('h, 'l) StagingWorld =
  swFiles :: FileSystem
  swHost :: 'h
  swLock :: 'l
  swClock :: "nat \<Rightarrow> time"

definition on_files :: "(FileSystem, 'a) state \<Rightarrow> (('h, 'l) StagingWorld, 'a) state" where
  "on_files m = State (\<lambda>w. case run_state m (swFiles w) of (x, fs) \<Rightarrow> (x, w\<lparr>swFiles := fs\<rparr>))"

definition on_host :: "('h, 'a) state \<Rightarrow> (('h, 'l) StagingWorld, 'a) state" where
  "on_host m = State (\<lambda>w. case run_state m (swHost w) of (x, h) \<Rightarrow> (x, w\<lparr>swHost := h\<rparr>))"

definition on_lock :: "('l, 'a) state \<Rightarrow> (('h, 'l) StagingWorld, 'a) state" where
  "on_lock m = State (\<lambda>w. case run_state m (swLock w) of (x, l) \<Rightarrow> (x, w\<lparr>swLock := l\<rparr>))"

definition tick :: "(('h, 'l) StagingWorld, time) state" where
  "tick = State (\<lambda>w. (swClock w 0, w\<lparr>swClock := \<lambda>n. swClock w (Suc n)\<rparr>))"

definition file_controller ::
  "BundleSet \<Rightarrow> 'h Host \<Rightarrow> 'l Locker \<Rightarrow> Codec \<Rightarrow> string \<Rightarrow> ('h, 'l) StagingWorld Controller" where
  "file_controller bundles h l jc path =
     \<lparr>scBundles = bundles,
      scHost = Some \<lparr>hReadActive = on_host (hReadActive h), hActivate = \<lambda>b. on_host (hActivate h b), hVerify = \<lambda>b. on_host (hVerify h b),
        hRollback = \<lambda>b. on_host (hRollback h b), hVerifyRollback = \<lambda>b. on_host (hVerifyRollback h b)\<rparr>,
      scStore = Some \<lparr>stLoad = on_files (FileStore_Load jc path), stSave = \<lambda>rcd. on_files (FileStore_Save jc path rcd)\<rparr>,
      scLocker = Some \<lparr>lkAcquire = \<lambda>key. do {
        acquired \<leftarrow> on_lock (lkAcquire l key);
        State_Monad.return (case acquired of Inl err \<Rightarrow> Inl err | Inr unlock \<Rightarrow> Inr (on_lock unlock)) }\<rparr>,
      scNow = tick\<rparr>"

text \<open>The record a reader of the state file would get.\<close>

definition file_record :: "Codec \<Rightarrow> string \<Rightarrow> ('h, 'l) StagingWorld \<Rightarrow> Record option" where
  "file_record jc path w =
     (case fsFiles (swFiles w) path of
        None \<Rightarrow> None
      | Some contents \<Rightarrow>
          (case jcUnmarshal jc contents of
             Inl _ \<Rightarrow> None
           | Inr rcd \<Rightarrow> if readable rcd then Some rcd else None))"

definition file_ok :: "Codec \<Rightarrow> string \<Rightarrow> ('h, 'l) StagingWorld \<Rightarrow> bool" where
  "file_ok jc path w \<longleftrightarrow> codec_ok jc \<and> path \<notin> range (fsTemp (swFiles w))"

lemma run_on_files: "run_state (on_files m) w = (x, w') \<longleftrightarrow> (\<exists>fs. run_state m (swFiles w) = (x, fs) \<and> w' = w\<lparr>swFiles := fs\<rparr>)"
  by (auto simp: on_files_def split: prod.splits)

lemma on_host_quiet:
  "run_state (on_host m) w = (x, w') \<Longrightarrow> swFiles w' = swFiles w" "run_state (on_lock n) w = (y, w') \<Longrightarrow> swFiles w' = swFiles w"
  by (auto simp: on_host_def on_lock_def split: prod.splits)

lemma FileStore_Load_run:
  assumes "run_state (FileStore_Load jc path) fs = (res, fs')"
  shows "fsFiles fs' = fsFiles fs" "fsTemp fs' = fsTemp fs"
    and "res = Inr (rcd, True) \<Longrightarrow> \<exists>contents. fsFiles fs path = Some contents \<and> jcUnmarshal jc contents = Inr rcd \<and> readable rcd"
    and "res = Inr (rcd, False) \<Longrightarrow> fsFiles fs path = None"
  using assms
  by (auto simp: FileStore_Load_def or_fail_def os_ReadFile_def os_call_def readable_def Let_def
      split: option.splits prod.splits sum.splits if_splits)

lemma file_save:
  assumes ok: "file_ok jc path w" and "run_state (on_files (FileStore_Save jc path rcd)) w = (res, w')"
  shows "file_ok jc path w' \<and> file_record jc path w' \<in> {file_record jc path w, seen rcd} \<and> (res = Inr () \<longrightarrow> file_record jc path w' = seen rcd)"
proof -
  obtain fs where run: "run_state (FileStore_Save jc path rcd) (swFiles w) = (res, fs)" and w': "w' = w\<lparr>swFiles := fs\<rparr>"
    using assms(2) by (auto simp: run_on_files)
  from ok have jc: "codec_ok jc" and temp: "path \<notin> range (fsTemp (swFiles w))" by (simp_all add: file_ok_def)
  note saved = FileStore_Save_run [OF run temp]
  have new: "file_record jc path w' = seen rcd" if "\<exists>t. jcMarshalIndent jc rcd = Inr t \<and> fsFiles fs path = Some (t @ ''\<newline>'')"
    using that jc by (auto simp: file_record_def w' codec_ok_def seen_def)
  moreover have "file_record jc path w' = file_record jc path w" if "fsFiles fs path = fsFiles (swFiles w) path"
    using that by (simp add: file_record_def w')
  ultimately show ?thesis using saved jc by (auto simp: file_ok_def w')
qed

lemma file_load:
  assumes "file_ok jc path w" and "run_state (on_files (FileStore_Load jc path)) w = (res, w')"
  shows "file_ok jc path w' \<and> file_record jc path w' = file_record jc path w
    \<and> (\<forall>rcd. res = Inr (rcd, True) \<longrightarrow> file_record jc path w = Some rcd) \<and> (\<forall>rcd. res = Inr (rcd, False) \<longrightarrow> file_record jc path w = None)"
  using assms by (auto simp: run_on_files file_ok_def file_record_def dest: FileStore_Load_run)

lemma file_quiet:
  "swFiles w' = swFiles w \<Longrightarrow> file_ok jc path w \<Longrightarrow> file_ok jc path w' \<and> file_record jc path w' = file_record jc path w"
  by (simp add: file_ok_def file_record_def)

lemma file_controller_parts [simp]:
  "scBundles (file_controller bundles h l jc path) = bundles"
  "stLoad (state_store (file_controller bundles h l jc path)) = on_files (FileStore_Load jc path)"
  "stSave (state_store (file_controller bundles h l jc path)) rcd = on_files (FileStore_Save jc path rcd)"
  "hReadActive (host (file_controller bundles h l jc path)) = on_host (hReadActive h)"
  "hActivate (host (file_controller bundles h l jc path)) b = on_host (hActivate h b)"
  "hVerify (host (file_controller bundles h l jc path)) b = on_host (hVerify h b)"
  "hRollback (host (file_controller bundles h l jc path)) b = on_host (hRollback h b)"
  "hVerifyRollback (host (file_controller bundles h l jc path)) b = on_host (hVerifyRollback h b)"
  "lkAcquire (locker (file_controller bundles h l jc path)) key = do {
        acquired \<leftarrow> on_lock (lkAcquire l key);
        State_Monad.return (case acquired of Inl err \<Rightarrow> Inl err | Inr unlock \<Rightarrow> Inr (on_lock unlock)) }"
  "scNow (file_controller bundles h l jc path) = tick"
  by (simp_all add: file_controller_def host_def state_store_def locker_def)

interpretation fc: staging_persistence "file_controller bundles h l jc path" "file_record jc path" "file_ok jc path"
  for bundles h l jc path
proof unfold_locales
  fix s s' rcd and res :: "unit result"
  assume "file_ok jc path s" "run_state (stSave (state_store (file_controller bundles h l jc path)) rcd) s = (res, s')"
  then show "file_ok jc path s' \<and> file_record jc path s' \<in> {file_record jc path s, seen rcd} \<and> (res = Inr () \<longrightarrow> file_record jc path s' = seen rcd)"
    using file_save [of jc path s rcd res s'] by simp
next
  fix s s' and loaded :: "(Record \<times> bool) result"
  assume "file_ok jc path s" "run_state (stLoad (state_store (file_controller bundles h l jc path))) s = (loaded, s')"
  then show "file_ok jc path s' \<and> file_record jc path s' = file_record jc path s
      \<and> (\<forall>rcd. loaded = Inr (rcd, True) \<longrightarrow> file_record jc path s = Some rcd) \<and> (\<forall>rcd. loaded = Inr (rcd, False) \<longrightarrow> file_record jc path s = None)"
    by (simp add: file_load)
qed (auto simp: tick_def intro!: file_quiet dest: on_host_quiet split: prod.splits sum.splits)

section \<open>The approved set\<close>

lemma lower_hex_ascii: "lower_hex n s \<Longrightarrow> ascii s"
  by (force simp: lower_hex_def list_all_iff byte_def)

lemma supported_ascii: "isSupportedVersion v \<Longrightarrow> ascii v"
  by (auto simp: isSupportedVersion_def supportedVersions_def VersionV011_def VersionV020_def byte_def)

lemma imagePattern_ascii:
  assumes "imagePattern s"
  shows "ascii s"
proof -
  let ?p = "''ghcr.io/baicie/asteria-drive@sha256:''"
  have "ascii (take (length ?p) s)" "ascii (drop (length ?p) s)"
    using assms lower_hex_ascii [of 64] by (simp_all add: imagePattern_def Let_def byte_def)
  then have "ascii (take (length ?p) s @ drop (length ?p) s)" unfolding list_all_append by blast
  then show ?thesis by (simp only: append_take_drop_id)
qed

lemma LoadBundles_plain:
  assumes "LoadBundles lib pf root = Inr bundles"
  shows "plain_bundles bundles"
  unfolding plain_bundles_def
proof (intro allI impI)
  fix v b
  assume b: "gget bundles v = Some b"
  have "validateBundleMetadata pf b = Inr ()"
    using LoadBundles_sound(3) [OF assms b] by (simp add: bundle_stored_def)
  then have "imagePattern (buImage b)" "digestPattern (buComposeSHA256 b)"
    by (auto simp: validateBundleMetadata_def split: if_splits)
  moreover have "isSupportedVersion v" using LoadBundles_sound(2) [OF assms, of v] b by simp
  moreover have "buVersion b = v" using bundles_okD [OF LoadBundles_sound(1) [OF assms] b] .
  ultimately show "buVersion b = v \<and> ascii v \<and> ascii (buComposeSHA256 b) \<and> ascii (buImage b)"
    using imagePattern_ascii supported_ascii lower_hex_ascii by (auto simp: digestPattern_def)
qed

end
