(* ===== verification/Staging_Properties.thy ===== *)
theory Staging_Properties
  imports Staging_Safety
begin

text \<open>
  The properties of the staging controller with its file store: what its state file can say, when
  it stops for good, what a successful deployment means, that a resumed run comes to an end, and
  that the state file is never torn. The last part runs a failed deployment and its replay.
\<close>

inductive staging_step :: "Platform \<Rightarrow> 's Controller \<Rightarrow> 's \<Rightarrow> 's \<Rightarrow> bool" for pf c where
  deploy: "run_state (Controller_Deploy pf c request) s = (out, s') \<Longrightarrow> staging_step pf c s s'"
| rollback: "run_state (Controller_Rollback pf c request) s = (out, s') \<Longrightarrow> staging_step pf c s s'"
| resume: "run_state (Controller_Resume pf c runID attempt) s = (out, s') \<Longrightarrow> staging_step pf c s s'"
| monitor: "run_state (Controller_Monitor pf c) s = (res, s') \<Longrightarrow> staging_step pf c s s'"

inductive_cases staging_stepE: "staging_step pf c s s'"

lemma staging_step_sound:
  assumes plain: "plain_bundles bundles" and "staging_step pf (file_controller bundles h l jc path) w w'"
    and w: "fc.sound bundles h l jc path w"
  shows "fc.sound bundles h l jc path w'"
proof -
  note rules = fc.operations_sound [of bundles h l jc path, unfolded file_controller_parts, OF plain]
  from assms(2) show ?thesis
    by (rule staging_stepE) (erule rules [THEN hoareD, OF w])+
qed

section \<open>Only approved versions become active\<close>

text \<open>
  Property C9. Whatever deployments, rollbacks, resumed runs and monitor calls were made, and
  whatever the host, the lock and the file system answered: when the state file says that a
  version is active, it is a version of the loaded allowlist, and the recorded Compose hash, image and
  schema are those of its reviewed bundle, whose files have the hashes it names.
\<close>

theorem only_approved_active:
  assumes loaded: "LoadBundles lib pf root = Inr bundles" and "codec_ok jc"
    and fresh: "fsFiles (swFiles w0) path = None" "path \<notin> range (fsTemp (swFiles w0))"
    and steps: "(staging_step pf (file_controller bundles h l jc path))\<^sup>*\<^sup>* w0 w"
    and r: "file_record jc path w = Some r" "srState r = StateActive"
  shows "\<exists>b. gget bundles (srActiveVersion r) = Some b \<and> bundle_stored lib pf (pfJoin pf root (srActiveVersion r)) b
    \<and> srActiveComposeSHA256 r = buComposeSHA256 b \<and> srActiveImage r = buImage b \<and> srSchemaVersion r = buSchemaVersion b"
proof -
  have "fc.sound bundles h l jc path w0"
    using assms(2) fresh by (simp add: fc.sound_def fc.holds_def file_ok_def file_record_def)
  with steps have "fc.sound bundles h l jc path w"
    by (induction rule: rtranclp_induct) (use staging_step_sound [OF LoadBundles_plain [OF loaded]] in blast)+
  with r obtain b where "gget bundles (srActiveVersion r) = Some b" "srActiveComposeSHA256 r = buComposeSHA256 b"
    "srActiveImage r = buImage b" "srSchemaVersion r = buSchemaVersion b"
    by (auto simp: fc.sound_def fc.holds_def approved_def split: option.splits)
  with LoadBundles_sound(3) [OF loaded] show ?thesis by blast
qed

section \<open>Recovery is manual\<close>

context staging_persistence
begin

lemma guarded_stops:
  assumes s: "env_ok s" "stored s = Some r" "srState r = StateRecoveryRequired"
    and run: "run_state (guarded pf c operation pre request b switch) s = (out, s')"
  shows "snd out \<noteq> None" and "\<exists>x. run_state (stLoad (state_store c)) s = (x, s')"
proof -
  obtain loaded s1 where 1: "run_state (stLoad (state_store c)) s = (loaded, s1)" by fastforce
  have r: "rcd = r" "found" if "loaded = Inr (rcd, found)" for rcd found
    using load [OF s(1) 1] s(2) that by (cases found; auto)+
  obtain e where stop: "run_state (admit c operation request (start_switch c operation pre request b switch) r) s1 = ((r, Some e), s1)"
  proof -
    have "replay r operation request \<in> {(True, Some ErrRecoveryRequired), (False, None)}" using s(3) by (simp add: replay_def)
    then show thesis using s(3) that by (auto simp: admit_def)
  qed
  have "snd out \<noteq> None \<and> s' = s1"
    using run 1 r stop by (cases loaded) (auto simp: guarded_def Controller_load_def split: if_splits)
  with 1 show "snd out \<noteq> None" "\<exists>x. run_state (stLoad (state_store c)) s = (x, s')" by auto
qed

end

lemma locked_run:
  fixes w :: "('h, 'l) StagingWorld"
  assumes "run_state (locked (file_controller bundles h l jc path) body) w = (out, w')"
  obtains (busy) e where "out = (zero_Record, Some e)" "swFiles w' = swFiles w" "swHost w' = swHost w"
  | (held) w1 w2 where "swFiles w1 = swFiles w" "swHost w1 = swHost w" "run_state body w1 = (out, w2)"
      "swFiles w' = swFiles w2" "swHost w' = swHost w2"
proof -
  obtain acquired w1 where 1: "run_state (on_lock (lkAcquire l ''asteria-drive-staging'')) w = (acquired, w1)" by fastforce
  have w1: "swFiles w1 = swFiles w" "swHost w1 = swHost w" using 1 by (auto simp: on_lock_def split: prod.splits)
  show thesis
  proof (cases acquired)
    case (Inl err)
    with assms 1 w1 busy show thesis by (auto simp: locked_def Controller_acquire_def)
  next
    case (Inr unlock)
    obtain w2 where "run_state body w1 = (out, w2)" "run_state (on_lock unlock) w2 = ((), w')"
      using assms 1 Inr by (auto simp: locked_def Controller_acquire_def split: prod.splits)
    moreover from this(2) have "swFiles w' = swFiles w2" "swHost w' = swHost w2" by (auto simp: on_lock_def split: prod.splits)
    ultimately show thesis using held w1 by blast
  qed
qed

lemma file_view:
  "swFiles w' = swFiles w \<Longrightarrow> file_ok jc path w' = file_ok jc path w" "swFiles w' = swFiles w \<Longrightarrow> file_record jc path w' = file_record jc path w"
  by (simp_all add: file_ok_def file_record_def)

lemma load_only:
  fixes w :: "('h, 'l) StagingWorld"
  assumes "file_ok jc path w" and "run_state (on_files (FileStore_Load jc path)) w = (x, w')"
  shows "swHost w' = swHost w" and "file_record jc path w' = file_record jc path w"
  using assms file_load [OF assms] by (auto simp: run_on_files)

lemma switch_stops:
  fixes w :: "('h, 'l) StagingWorld"
  assumes ok: "file_ok jc path w" and r: "file_record jc path w = Some r" "srState r = StateRecoveryRequired"
    and run: "run_state (locked (file_controller bundles h l jc path)
      (guarded pf (file_controller bundles h l jc path) operation pre request b switch)) w = (out, w')"
  shows "snd out \<noteq> None \<and> swHost w' = swHost w \<and> file_record jc path w' = Some r"
  using run
proof (cases rule: locked_run)
  case (busy e)
  with r file_view(2) [OF busy(2), of jc path] show ?thesis by simp
next
  case (held w1 w2)
  note w1 = file_view [OF held(1), of jc path]
  have ok1: "file_ok jc path w1" "file_record jc path w1 = Some r" using ok r w1 by simp_all
  note stops = fc.guarded_stops [OF ok1 r(2) held(3)]
  then obtain x where "run_state (on_files (FileStore_Load jc path)) w1 = (x, w2)" by auto
  from stops(1) load_only [OF ok1(1) this] ok1(2) held file_view(2) [OF held(4), of jc path] show ?thesis by simp
qed

lemma load_known:
  fixes w :: "('h, 'l) StagingWorld"
  assumes ok: "file_ok jc path w" and r: "file_record jc path w = Some r"
    and run: "run_state (resume_body pf (file_controller bundles h l jc path) runID attempt) w = (out, w')"
  obtains (unread) e where "out = (zero_Record, Some e)" "swHost w' = swHost w" "file_record jc path w' = Some r"
  | (loaded) w1 where "swHost w1 = swHost w" "file_ok jc path w1" "file_record jc path w1 = Some r"
      "run_state (resume_from (file_controller bundles h l jc path) runID attempt r) w1 = (out, w')"
proof -
  obtain x w1 where load: "run_state (on_files (FileStore_Load jc path)) w = (x, w1)" by fastforce
  note facts = file_load [OF ok load] load_only [OF ok load]
  have x: "rcd = r \<and> found" if "x = Inr (rcd, found)" for rcd found
    using facts(1) r that by (cases found) auto
  show thesis
  proof (cases x)
    case (Inl e)
    with run load facts r unread show thesis by (auto simp: resume_body_def Controller_load_def)
  next
    case (Inr p)
    with x have "x = Inr (r, True)" by (cases p) auto
    with run load facts r loaded unread show thesis
      by (auto simp: resume_body_def Controller_load_def split: if_splits)
  qed
qed

lemma resume_stops:
  fixes w :: "('h, 'l) StagingWorld"
  assumes ok: "file_ok jc path w" and r: "file_record jc path w = Some r" "srState r = StateRecoveryRequired"
    and run: "run_state (locked (file_controller bundles h l jc path) (resume_body pf (file_controller bundles h l jc path) runID attempt)) w = (out, w')"
  shows "swHost w' = swHost w \<and> file_record jc path w' = Some r"
  using run
proof (cases rule: locked_run)
  case (busy e)
  with r file_view(2) [OF busy(2), of jc path] show ?thesis by simp
next
  case (held w1 w2)
  note w1 = file_view [OF held(1), of jc path]
  have ok1: "file_ok jc path w1" "file_record jc path w1 = Some r" using ok r w1 by simp_all
  have "swHost w2 = swHost w1 \<and> file_record jc path w2 = Some r"
    using ok1 held(3)
  proof (cases rule: load_known)
    case (loaded w3)
    moreover have "run_state (resume_from (file_controller bundles h l jc path) runID attempt r) w3 = (out, w2) \<Longrightarrow> w2 = w3"
      using r(2) by (auto simp: resume_from_def inProgress_def split: if_splits)
    ultimately show ?thesis by simp
  qed simp
  with held(2,5) file_view(2) [OF held(4), of jc path] show ?thesis by simp
qed

text \<open>
  Property C11. Once the state file says that manual recovery is required, the controller keeps
  its hands off: a deployment and a rollback are refused, neither of them nor a resume calls the
  host, the monitor does no more than read the active state from it, and none of the four changes the record,
  whatever the request.
\<close>

theorem recovery_required_is_final:
  fixes w :: "('h, 'l) StagingWorld"
  assumes "codec_ok jc" and "path \<notin> range (fsTemp (swFiles w))"
    and "file_record jc path w = Some r" and "srState r = StateRecoveryRequired"
  shows "(run_state (Controller_Deploy pf (file_controller bundles h l jc path) request) w = (out, w')
        \<longrightarrow> snd out \<noteq> None \<and> swHost w' = swHost w \<and> file_record jc path w' = Some r)
    \<and> (run_state (Controller_Rollback pf (file_controller bundles h l jc path) request) w = (out, w')
        \<longrightarrow> snd out \<noteq> None \<and> swHost w' = swHost w \<and> file_record jc path w' = Some r)
    \<and> (run_state (Controller_Resume pf (file_controller bundles h l jc path) runID attempt) w = (out, w')
        \<longrightarrow> swHost w' = swHost w \<and> file_record jc path w' = Some r)
    \<and> (run_state (Controller_Monitor pf (file_controller bundles h l jc path)) w = (res, w')
        \<longrightarrow> (swHost w' = swHost w \<or> (\<exists>x. run_state (hReadActive h) (swHost w) = (x, swHost w'))) \<and> file_record jc path w' = Some r)"
proof (intro conjI impI)
  have ok: "file_ok jc path w" using assms(1,2) by (simp add: file_ok_def)
  {
    assume "run_state (Controller_Deploy pf (file_controller bundles h l jc path) request) w = (out, w')"
    then have "snd out \<noteq> None \<and> swHost w' = swHost w \<and> file_record jc path w' = Some r"
      unfolding Controller_Deploy_def using assms(3)
      by (auto split: option.splits sum.splits dest: switch_stops [OF ok assms(3,4)])
  }
  then show "run_state (Controller_Deploy pf (file_controller bundles h l jc path) request) w = (out, w') \<Longrightarrow> snd out \<noteq> None"
    "run_state (Controller_Deploy pf (file_controller bundles h l jc path) request) w = (out, w') \<Longrightarrow> swHost w' = swHost w"
    "run_state (Controller_Deploy pf (file_controller bundles h l jc path) request) w = (out, w') \<Longrightarrow> file_record jc path w' = Some r"
    by blast+
  {
    assume "run_state (Controller_Rollback pf (file_controller bundles h l jc path) request) w = (out, w')"
    then have "snd out \<noteq> None \<and> swHost w' = swHost w \<and> file_record jc path w' = Some r"
      unfolding Controller_Rollback_def using assms(3)
      by (auto split: option.splits sum.splits dest: switch_stops [OF ok assms(3,4)])
  }
  then show "run_state (Controller_Rollback pf (file_controller bundles h l jc path) request) w = (out, w') \<Longrightarrow> snd out \<noteq> None"
    "run_state (Controller_Rollback pf (file_controller bundles h l jc path) request) w = (out, w') \<Longrightarrow> swHost w' = swHost w"
    "run_state (Controller_Rollback pf (file_controller bundles h l jc path) request) w = (out, w') \<Longrightarrow> file_record jc path w' = Some r"
    by blast+
  {
    assume "run_state (Controller_Resume pf (file_controller bundles h l jc path) runID attempt) w = (out, w')"
    then have "swHost w' = swHost w \<and> file_record jc path w' = Some r"
      unfolding Controller_Resume_def using assms(3) by (auto split: option.splits dest: resume_stops [OF ok assms(3,4)])
  }
  then show "run_state (Controller_Resume pf (file_controller bundles h l jc path) runID attempt) w = (out, w') \<Longrightarrow> swHost w' = swHost w"
    "run_state (Controller_Resume pf (file_controller bundles h l jc path) runID attempt) w = (out, w') \<Longrightarrow> file_record jc path w' = Some r"
    by blast+
  assume "run_state (Controller_Monitor pf (file_controller bundles h l jc path)) w = (res, w')"
  then have "(swHost w' = swHost w \<or> (\<exists>x. run_state (hReadActive h) (swHost w) = (x, swHost w'))) \<and> swFiles w' = swFiles w"
    by (auto simp: Controller_Monitor_def on_host_def split: option.splits prod.splits)
  then show "swHost w' = swHost w \<or> (\<exists>x. run_state (hReadActive h) (swHost w) = (x, swHost w'))" "file_record jc path w' = Some r"
    using assms(3) file_view(2) [of w' w jc path] by simp_all
qed

section \<open>Success\<close>

text \<open>
  Property C12. A deployment or a rollback that reports success left the state file with an
  active record of exactly this run: the file holds what was returned, and the active version is the
  requested one with the identity of its bundle, unless the answer is a replay of a record
  that was active before.
\<close>

theorem switch_success:
  fixes w :: "('h, 'l) StagingWorld"
  assumes loaded: "LoadBundles lib pf root = Inr bundles" and "codec_ok jc" "path \<notin> range (fsTemp (swFiles w))"
    and op: "(operation, method) \<in> {(''deploy'', Controller_Deploy), (''rollback'', Controller_Rollback)}"
    and run: "run_state (method pf (file_controller bundles h l jc path) request) w = ((r, None), w')"
  shows "srState r = StateActive \<and> srOperation r = operation \<and> srRunID r = rqRunID request \<and> srAttempt r = rqAttempt request
    \<and> srTargetVersion r = rqTargetVersion request \<and> file_record jc path w' \<in> {Some r, seen r}
    \<and> (srActiveVersion r = rqTargetVersion request \<and> approved bundles r \<or> file_record jc path w = Some r)"
proof -
  note plain = LoadBundles_plain [OF loaded]
  let ?c = "file_controller bundles h l jc path"
  have ok: "fc.holds jc path (\<lambda>x. x = file_record jc path w) w" using assms(2,3) by (simp add: fc.holds_def file_ok_def)
  have "Controller_validateRequest ?c request = Inr b \<Longrightarrow> gget bundles (rqTargetVersion request) = Some b" for b
    by (auto simp: Controller_validateRequest_def split: if_splits option.splits)
  moreover have "\<exists>b. Controller_validateRequest ?c request = Inr b"
    using run op by (auto simp: Controller_Deploy_def Controller_Rollback_def split: option.splits sum.splits)
  ultimately obtain b where b: "gget bundles (rqTargetVersion request) = Some b" by blast
  note outcomes = fc.operations_outcome [where bundles = bundles and h = h and l = l and jc = jc and path = path and request = request and b = b, unfolded file_controller_parts, OF plain b]
  have "fc.outcome jc path operation request b (file_record jc path w) (r, None) w'"
    using op run hoareD [OF outcomes(1) ok] hoareD [OF outcomes(2) ok] by auto
  moreover have "buVersion b = rqTargetVersion request" using plain b by (auto simp: plain_bundles_def)
  ultimately show ?thesis
    using b by (auto simp: fc.outcome_def fc.answered_def fc.succeeded_def fc.run_of_def fc.request_run_def approved_def)
qed

section \<open>Replays\<close>

text \<open>The run a record belongs to, which only the start of an operation sets.\<close>

definition identity_of :: "Record \<Rightarrow> string \<times> string \<times> string \<times> string" where
  "identity_of rcd = (srOperation rcd, srRunID rcd, srAttempt rcd, srTargetVersion rcd)"

definition belongs :: "(string \<times> string \<times> string \<times> string) set \<Rightarrow> Record \<times> 'a \<Rightarrow> 's \<Rightarrow> bool" where
  "belongs ids out s \<longleftrightarrow> identity_of (fst out) \<in> ids"

lemma persist_belongs: "identity_of rcd \<in> ids \<Longrightarrow> hoare (\<lambda>_. True) (persist c rcd) (belongs ids)"
  by (auto simp: persist_def hoare_def belongs_def identity_of_def Let_def split: prod.splits)

lemma step_belongs:
  assumes "hoare (\<lambda>_. True) m (belongs ids)" and "\<And>rcd. identity_of rcd \<in> ids \<Longrightarrow> hoare (\<lambda>_. True) (f rcd) (belongs ids)"
  shows "hoare (\<lambda>_. True) (step_then m f) (belongs ids)"
  using assms unfolding step_then_def hoare_def belongs_def by (fastforce split: prod.splits option.splits)

lemma ends_belong:
  assumes "identity_of rcd \<in> ids"
  shows "hoare (\<lambda>_. True) (Controller_save c rcd st) (belongs ids)"
    and "hoare (\<lambda>_. True) (Controller_commitActive c rcd b evidence) (belongs ids)"
    and "hoare (\<lambda>_. True) (Controller_markRecovery c rcd message cause) (belongs ids)"
proof -
  have save: "hoare (\<lambda>_. True) (Controller_save c rcd' st) (belongs ids)" if "identity_of rcd' \<in> ids" for rcd' st
    using persist_belongs [of "rcd'\<lparr>srState := st\<rparr>" ids c] that
    by (auto simp: Controller_save_def hoare_def belongs_def identity_of_def split: prod.splits)
  from save [OF assms] show "hoare (\<lambda>_. True) (Controller_save c rcd st) (belongs ids)" .
  show "hoare (\<lambda>_. True) (Controller_commitActive c rcd b evidence) (belongs ids)"
    using assms by (auto simp: Controller_commitActive_def persist_def hoare_def belongs_def identity_of_def Let_def split: prod.splits sum.splits)
  have "identity_of (rcd\<lparr>srLastError := message\<rparr>) \<in> ids" using assms by (simp add: identity_of_def)
  then show "hoare (\<lambda>_. True) (Controller_markRecovery c rcd message cause) (belongs ids)"
    unfolding Controller_markRecovery_def Let_def
    by (intro hoare_cases(1) step_belongs save) (auto simp: hoare_def belongs_def split: prod.splits)
qed

lemma hoare_any: "(\<And>x. hoare (\<lambda>_. True) (f x) Q) \<Longrightarrow> hoare (\<lambda>_. True) (State_Monad.bind m f) Q"
  by (rule hoare_bind [where R = "\<lambda>_ _. True"]) (simp_all add: hoare_def)

lemma belongs_return: "identity_of rcd \<in> ids \<Longrightarrow> hoare P (State_Monad.return (rcd, e)) (belongs ids)"
  by (simp add: hoare_def belongs_def)

lemma compensate_belongs:
  assumes "identity_of rcd \<in> ids"
  shows "hoare (\<lambda>_. True) (Controller_compensate c rcd previous ok message cause) (belongs ids)"
proof -
  have "identity_of (rcd\<lparr>srLastError := message\<rparr>) \<in> ids" using assms by (simp add: identity_of_def)
  then show ?thesis unfolding Controller_compensate_def Let_def
    by (intro hoare_cases step_belongs hoare_any ends_belong belongs_return)
qed

lemma deploy_switch_belongs:
  assumes "identity_of rcd \<in> ids"
  shows "hoare (\<lambda>_. True) (deploy_switch c rcd b current) (belongs ids)"
  using assms unfolding deploy_switch_def by (intro hoare_cases step_belongs hoare_any ends_belong compensate_belongs)

lemma deploy_start_belongs:
  assumes new: "srRunID rcd \<noteq> rqRunID request"
  shows "hoare (\<lambda>_. True) (admit c ''deploy'' request (start_switch c ''deploy'' pre request b (\<lambda>rcd current. deploy_switch c rcd b current)) rcd)
    (belongs {identity_of rcd, (''deploy'', rqRunID request, rqAttempt request, buVersion b)})"
proof -
  let ?ids = "{identity_of rcd, (''deploy'', rqRunID request, rqAttempt request, buVersion b)}"
  have "replay rcd ''deploy'' request = (False, None)" using new by (simp add: replay_def)
  moreover have "hoare (\<lambda>_. True) (start_switch c ''deploy'' pre request b (\<lambda>rcd current. deploy_switch c rcd b current) rcd) (belongs ?ids)"
    unfolding start_switch_def
  proof (intro hoare_any hoare_cases ends_belong deploy_switch_belongs)
    show "hoare (\<lambda>_. True) (Controller_markActive c rcd b ''deploy'' request) (belongs ?ids)"
      by (auto simp: Controller_markActive_def persist_def hoare_def belongs_def identity_of_def Let_def split: prod.splits)
  qed (simp_all add: start_record_def identity_of_def)
  ultimately show ?thesis
    unfolding admit_def Let_def by (auto intro!: hoare_cases belongs_return)
qed

text \<open>A deployment under a new run that answers with an active record of that run answers with the record of this deployment.\<close>

lemma deploy_record:
  fixes w :: "('h, 'l) StagingWorld"
  assumes ok: "file_ok jc path w" and new: "\<And>r0. file_record jc path w = Some r0 \<Longrightarrow> srRunID r0 \<noteq> rqRunID request"
    and run: "run_state (Controller_Deploy pf (file_controller bundles h l jc path) request) w = ((r, e), w')"
    and mine: "srRunID r = rqRunID request" "srState r = StateActive"
  shows "\<exists>b. Controller_validateRequest (file_controller bundles h l jc path) request = Inr b
    \<and> identity_of r = (''deploy'', rqRunID request, rqAttempt request, buVersion b)"
proof -
  let ?c = "file_controller bundles h l jc path"
  have zero: "(r, e) \<noteq> (zero_Record, x)" for x using mine(2) by (auto simp: zero_Record_def)
  obtain b where b: "Controller_validateRequest ?c request = Inr b"
    and body: "run_state (locked ?c (guarded pf ?c ''deploy'' ''pre-switch'' request b (\<lambda>rcd current. deploy_switch ?c rcd b current))) w = ((r, e), w')"
    using run zero unfolding Controller_Deploy_def by (auto split: option.splits sum.splits)
  obtain w1 w2 where w1: "swFiles w1 = swFiles w"
    and guarded: "run_state (guarded pf ?c ''deploy'' ''pre-switch'' request b (\<lambda>rcd current. deploy_switch ?c rcd b current)) w1 = ((r, e), w2)"
    by (rule locked_run [OF body]) (use zero in blast)+
  obtain x w3 where load: "run_state (on_files (FileStore_Load jc path)) w1 = (x, w3)" by fastforce
  have ok1: "file_ok jc path w1" "file_record jc path w1 = file_record jc path w" using ok file_view [OF w1, of jc path] by simp_all
  have loaded: "rqRunID request \<noteq> srRunID rcd" if "x = Inr (rcd, True)" for rcd
    using file_load [OF ok1(1) load] that new ok1(2) by auto
  have set: "rqRunID request \<noteq> []" using b by (auto simp: Controller_validateRequest_def numericIDPattern_def digits_def split: if_splits)
  let ?admit = "\<lambda>rcd. admit ?c ''deploy'' request (start_switch ?c ''deploy'' ''pre-switch'' request b (\<lambda>rcd current. deploy_switch ?c rcd b current)) rcd"
  let ?fresh = "zero_Record\<lparr>srFormat := RecordFormat, srState := StateIdle\<rparr>"
  have "(\<exists>rcd0. x = Inr (rcd0, False) \<and> run_state (?admit ?fresh) w3 = ((r, e), w2)) \<or> (\<exists>rcd. x = Inr (rcd, True) \<and> run_state (?admit rcd) w3 = ((r, e), w2))"
    using guarded load zero by (cases x) (auto simp: guarded_def Controller_load_def split: if_splits prod.splits bool.splits)
  moreover have "srRunID ?fresh \<noteq> rqRunID request" using set by (simp add: zero_Record_def)
  ultimately obtain rcd where other: "srRunID rcd \<noteq> rqRunID request" and admit: "run_state (?admit rcd) w3 = ((r, e), w2)"
    using loaded by metis
  from hoareD [OF deploy_start_belongs [OF other] _ admit] other mine(1) have "identity_of r = (''deploy'', rqRunID request, rqAttempt request, buVersion b)"
    by (auto simp: belongs_def identity_of_def)
  with b show ?thesis by blast
qed

lemma replay_success:
  fixes w :: "('h, 'l) StagingWorld"
  assumes "Controller_validateRequest (file_controller bundles h l jc path) request = Inr b"
    and r: "file_record jc path w = Some r" "srState r = StateActive" "identity_of r = (''deploy'', rqRunID request, rqAttempt request, rqTargetVersion request)"
    and previous: "gget bundles (srActiveVersion r) = Some p" "srActiveComposeSHA256 r = asComposeSHA256 active"
      "srActiveImage r = asImage active" "srSchemaVersion r = asSchemaVersion active"
    and host: "run_state (hReadActive h) (swHost w) = (Inr active, h1)" "validateActiveBundle p active = Inr ()"
    and quiet: "fsFaults (swFiles w) 0 = None" "run_state (lkAcquire l ''asteria-drive-staging'') (swLock w) = (Inr unlock, l1)"
  shows "\<exists>w'. run_state (Controller_Deploy pf (file_controller bundles h l jc path) request) w = ((r, None), w')
    \<and> swHost w' = h1 \<and> file_record jc path w' = Some r"
proof -
  let ?c = "file_controller bundles h l jc path"
  obtain contents where stored: "fsFiles (swFiles w) path = Some contents" "jcUnmarshal jc contents = Inr r" "readable r"
    using r(1) by (auto simp: file_record_def split: option.splits sum.splits if_splits)
  have "gentries bundles \<noteq> []" using previous(1) gm.set_entries [of bundles] by auto
  then have valid: "Controller_validate ?c = None" by (simp add: Controller_validate_def file_controller_def)
  have "replay r ''deploy'' request = (True, None)" using r by (simp add: replay_def identity_of_def)
  then have admit: "admit ?c ''deploy'' request f r = Controller_revalidateActiveRecord ?c r" for f
    using r(2) by (simp add: admit_def)
  let ?fs = "(swFiles w)\<lparr>fsFaults := \<lambda>n. fsFaults (swFiles w) (Suc n)\<rparr>"
  have load: "run_state (Controller_load pf ?c) (w\<lparr>swLock := l1\<rparr>) = (Inr r, w\<lparr>swLock := l1, swFiles := ?fs\<rparr>)"
    using stored quiet(1) by (simp add: Controller_load_def FileStore_Load_def or_fail_def os_ReadFile_def os_call_def on_files_def readable_def)
  have "run_state (Controller_revalidateActiveRecord ?c r) (w\<lparr>swLock := l1, swFiles := ?fs\<rparr>)
      = ((r, None), w\<lparr>swLock := l1, swFiles := ?fs, swHost := h1\<rparr>)"
    using previous host by (simp add: Controller_revalidateActiveRecord_def on_host_def)
  then have body: "run_state (guarded pf ?c ''deploy'' ''pre-switch'' request b f) (w\<lparr>swLock := l1\<rparr>)
      = ((r, None), w\<lparr>swLock := l1, swFiles := ?fs, swHost := h1\<rparr>)" for f
    using load by (simp add: guarded_def admit)
  have "run_state (Controller_acquire ?c) w = (Inr (on_lock unlock), w\<lparr>swLock := l1\<rparr>)"
    using quiet(2) by (simp add: Controller_acquire_def on_lock_def)
  with body have "run_state (Controller_Deploy pf ?c request) w
      = ((r, None), snd (run_state (on_lock unlock) (w\<lparr>swLock := l1, swFiles := ?fs, swHost := h1\<rparr>)))"
    using assms(1) valid by (simp add: Controller_Deploy_def locked_def case_prod_beta)
  then show ?thesis using stored by (simp add: on_lock_def file_record_def case_prod_beta)
qed

text \<open>
  Property C38. The replay clause matters. When a deployment under a new run failed and was compensated, so that its record is active
  again at a version other than the target, repeating it under the same run is answered with success: the host still runs the
  version it was rolled back to, is only read, and the record does not change.
\<close>

theorem replay_of_compensated_deploy:
  fixes w w0 :: "('h, 'l) StagingWorld"
  assumes loaded: "LoadBundles lib pf root = Inr bundles" and codec: "codec_ok jc" "path \<notin> range (fsTemp (swFiles w0))"
    and new: "\<And>r0. file_record jc path w0 = Some r0 \<Longrightarrow> srRunID r0 \<noteq> rqRunID request"
    and failed: "run_state (Controller_Deploy pf (file_controller bundles h l jc path) request) w0 = ((r, Some e), w)"
    and compensated: "file_record jc path w = Some r" "srRunID r = rqRunID request" "srState r = StateActive"
      "srActiveVersion r \<noteq> rqTargetVersion request"
    and host: "run_state (hReadActive h) (swHost w) = (Inr active, h1)" "gget bundles (srActiveVersion r) = Some p" "validateActiveBundle p active = Inr ()"
      "srActiveComposeSHA256 r = asComposeSHA256 active" "srActiveImage r = asImage active" "srSchemaVersion r = asSchemaVersion active"
    and quiet: "fsFaults (swFiles w) 0 = None" "run_state (lkAcquire l ''asteria-drive-staging'') (swLock w) = (Inr unlock, l1)"
  shows "\<exists>w'. run_state (Controller_Deploy pf (file_controller bundles h l jc path) request) w = ((r, None), w')
    \<and> swHost w' = h1 \<and> file_record jc path w' = Some r \<and> asVersion active \<noteq> rqTargetVersion request"
proof -
  note plain = LoadBundles_plain [OF loaded]
  have "file_ok jc path w0" using codec by (simp add: file_ok_def)
  from deploy_record [OF this new failed compensated(2,3)] obtain b where
    b: "Controller_validateRequest (file_controller bundles h l jc path) request = Inr b"
      "identity_of r = (''deploy'', rqRunID request, rqAttempt request, buVersion b)" by blast
  then have "gget bundles (rqTargetVersion request) = Some b" by (auto simp: Controller_validateRequest_def split: if_splits option.splits)
  then have target: "buVersion b = rqTargetVersion request" using plain by (auto simp: plain_bundles_def)
  have "asVersion active = buVersion p" using host(3) by (auto simp: validateActiveBundle_def split: if_splits)
  moreover have "buVersion p = srActiveVersion r" using host(2) plain by (auto simp: plain_bundles_def)
  ultimately have "asVersion active \<noteq> rqTargetVersion request" using compensated(4) by simp
  then show ?thesis
    using replay_success [OF b(1) compensated(1,3) b(2) [unfolded target] host(2,4,5,6) host(1,3) quiet] by blast
qed

section \<open>The state file\<close>

text \<open>
  Property C13. Saving is atomic at every point of failure: whichever call of the operating
  system fails, and however much a failed write wrote, a later load sees the record that was there
  before or the new one, never a torn file; after a save that reports success it sees the new one.
\<close>

theorem FileStore_atomic:
  assumes "codec_ok jc" and "path \<notin> range (fsTemp fs)" and new: "readable (json_seen rcd)"
    and save: "run_state (FileStore_Save jc path rcd) fs = (res, fs')"
    and "fsFaults fs 0 = None" "fsFaults fs' 0 = None"
  shows "fst (run_state (FileStore_Load jc path) fs') \<in> {fst (run_state (FileStore_Load jc path) fs), Inr (json_seen rcd, True)}
    \<and> (res = Inr () \<longrightarrow> fst (run_state (FileStore_Load jc path) fs') = Inr (json_seen rcd, True))"
proof -
  note saved = FileStore_Save_run [OF save assms(2)]
  have load: "fst (run_state (FileStore_Load jc path) x) = (case fsFiles x path of
      None \<Rightarrow> Inr (zero_Record, False)
    | Some contents \<Rightarrow> (case jcUnmarshal jc contents of
        Inl err \<Rightarrow> Inl (fmt_Errorf_w ''decode staging state'' err)
      | Inr r \<Rightarrow> if srFormat r \<noteq> RecordFormat \<or> srState r = []
          then Inl (fmt_Errorf ''staging state record is incomplete or has an unsupported format'') else Inr (r, True)))"
    if "fsFaults x 0 = None" for x
    using that by (auto simp: FileStore_Load_def or_fail_def os_ReadFile_def os_call_def split: option.splits)
  have "fst (run_state (FileStore_Load jc path) fs') = Inr (json_seen rcd, True)"
    if "\<exists>t. jcMarshalIndent jc rcd = Inr t \<and> fsFiles fs' path = Some (t @ ''\<newline>'')"
    using that assms(1) new load [OF assms(6)] by (auto simp: codec_ok_def readable_def)
  with saved(2,3) load [OF assms(5)] load [OF assms(6)] show ?thesis by auto
qed

section \<open>Resuming\<close>

text \<open>A file system without faults, whose temporary names are free.\<close>

definition calm :: "Codec \<Rightarrow> string \<Rightarrow> FileSystem \<Rightarrow> bool" where
  "calm jc path fs \<longleftrightarrow> path \<noteq> [] \<and> path \<notin> range (fsTemp fs) \<and> (\<forall>n. fsFaults fs n = None \<and> fsFiles fs (fsTemp fs n) = None)
     \<and> (\<forall>rcd. \<exists>t. jcMarshalIndent jc rcd = Inr t)"

lemma no_fault: "fsFaults fs = (\<lambda>_. None) \<Longrightarrow> run_state (os_call action partly) fs = action fs"
  by (cases fs) (simp add: os_call_def)

lemma calm_save:
  assumes "calm jc path fs"
  shows "\<exists>fs'. run_state (FileStore_Save jc path rcd) fs = (Inr (), fs')"
proof -
  from assms obtain t where fs: "path \<noteq> []" "fsTemp fs 0 \<noteq> path" "fsFaults fs = (\<lambda>_. None)" "fsFiles fs (fsTemp fs 0) = None"
      "jcMarshalIndent jc rcd = Inr t"
    unfolding calm_def by blast
  have plain: "run_state os_plain x = (Inr (), x)" if "fsFaults x = (\<lambda>_. None)" for x
    using that by (simp add: os_plain_def no_fault)
  have "\<exists>fs'. run_state (publish_file path name contents) x = (Inr (), fs')" if "fsFaults x = (\<lambda>_. None)" for x name contents
    using that plain
    by (simp add: publish_file_def or_fail_def or_close_def os_Write_def os_Rename_def syncDirectory_def no_fault)
  then obtain fs' where "run_state (publish_file path (fsTemp fs 0) (t @ ''\<newline>''))
      (fs\<lparr>fsTemp := \<lambda>n. fsTemp fs (Suc n), fsFiles := (fsFiles fs)(fsTemp fs 0 \<mapsto> [])\<rparr>) = (Inr (), fs')"
    using fs(3) by (metis (no_types, lifting) FileSystem.ext_inject FileSystem.surjective FileSystem.update_convs(1,3))
  with fs plain [OF fs(3)] show ?thesis
    by (simp add: FileStore_Save_def or_fail_def os_CreateTemp_def no_fault Let_def case_prod_beta)
qed

lemma calm_load: "calm jc path fs \<Longrightarrow> run_state (FileStore_Load jc path) fs = (x, fs') \<Longrightarrow> fs' = fs"
proof -
  assume "calm jc path fs" and run: "run_state (FileStore_Load jc path) fs = (x, fs')"
  then have "fsFaults fs = (\<lambda>_. None)" by (auto simp: calm_def)
  with run show "fs' = fs" by (auto simp: FileStore_Load_def or_fail_def os_ReadFile_def no_fault split: option.splits)
qed

lemma calm_persist:
  fixes w :: "('h, 'l) StagingWorld"
  assumes "codec_ok jc" and "calm jc path (swFiles w)"
  obtains t w' where "run_state (persist (file_controller bundles h l jc path) rcd) w = ((rcd\<lparr>srUpdatedAt := t\<rparr>, Inr ()), w')"
    "file_record jc path w' = seen (rcd\<lparr>srUpdatedAt := t\<rparr>)"
proof -
  let ?c = "file_controller bundles h l jc path" and ?rcd = "rcd\<lparr>srUpdatedAt := time_RFC3339 (swClock w 0)\<rparr>"
  obtain fs where "run_state (FileStore_Save jc path ?rcd) (swFiles w) = (Inr (), fs)"
    using calm_save [OF assms(2)] by blast
  then have run: "run_state (persist ?c rcd) w = ((?rcd, Inr ()), w\<lparr>swClock := \<lambda>n. swClock w (Suc n), swFiles := fs\<rparr>)"
    by (simp add: persist_def tick_def on_files_def Let_def)
  have "fc.holds jc path (\<lambda>_. True) w" using assms by (simp add: fc.holds_def file_ok_def calm_def)
  from hoareD [OF fc.persist_result this run]
  have "file_record jc path (w\<lparr>swClock := \<lambda>n. swClock w (Suc n), swFiles := fs\<rparr>) = seen ?rcd" by simp
  with run show thesis by (rule that)
qed

lemma seen_settled:
  assumes "srFormat rcd = RecordFormat" and "srState rcd \<in> {StateActive, StateRecoveryRequired}"
  shows "seen rcd = Some (json_seen rcd)" and "srState (json_seen rcd) = srState rcd"
proof -
  have "ascii (srState rcd)" using assms(2) by (auto simp: byte_def)
  then show st: "srState (json_seen rcd) = srState rcd" by simp
  have "srFormat (json_seen rcd) = RecordFormat" using assms(1) state_ascii(2) by simp
  with st assms(2) show "seen rcd = Some (json_seen rcd)" by (auto simp: seen_def readable_def)
qed

lemma resume_end:
  fixes w :: "('h, 'l) StagingWorld"
  assumes "codec_ok jc" and "calm jc path (swFiles w)" and "srFormat rcd = RecordFormat"
  shows "\<exists>out w'. run_state (resume_lost (file_controller bundles h l jc path) rcd message) w = (out, w') \<and> snd out \<noteq> None
      \<and> srState (fst out) = StateRecoveryRequired \<and> file_record jc path w' = Some (json_seen (fst out))"
    and "\<exists>out w'. run_state (resume_active (file_controller bundles h l jc path) rcd active) w = (out, w') \<and> snd out = None
      \<and> srState (fst out) = StateActive \<and> srActiveVersion (fst out) = asVersion active \<and> file_record jc path w' = Some (json_seen (fst out))"
proof -
  let ?lost = "rcd\<lparr>srState := StateRecoveryRequired, srLastError := message\<rparr>"
  obtain t w' where "run_state (persist (file_controller bundles h l jc path) ?lost) w = ((?lost\<lparr>srUpdatedAt := t\<rparr>, Inr ()), w')"
    "file_record jc path w' = seen (?lost\<lparr>srUpdatedAt := t\<rparr>)" by (rule calm_persist [OF assms(1,2)])
  moreover have "seen (?lost\<lparr>srUpdatedAt := t\<rparr>) = Some (json_seen (?lost\<lparr>srUpdatedAt := t\<rparr>))"
    by (rule seen_settled) (simp_all add: assms(3))
  ultimately show "\<exists>out w'. run_state (resume_lost (file_controller bundles h l jc path) rcd message) w = (out, w') \<and> snd out \<noteq> None
      \<and> srState (fst out) = StateRecoveryRequired \<and> file_record jc path w' = Some (json_seen (fst out))"
    by (simp add: resume_lost_def)
  let ?act = "rcd\<lparr>srState := StateActive, srActiveVersion := asVersion active, srActiveComposeSHA256 := asComposeSHA256 active,
      srActiveImage := asImage active, srSchemaVersion := asSchemaVersion active\<rparr>"
  obtain t w' where "run_state (persist (file_controller bundles h l jc path) ?act) w = ((?act\<lparr>srUpdatedAt := t\<rparr>, Inr ()), w')"
    "file_record jc path w' = seen (?act\<lparr>srUpdatedAt := t\<rparr>)" by (rule calm_persist [OF assms(1,2)])
  moreover have "seen (?act\<lparr>srUpdatedAt := t\<rparr>) = Some (json_seen (?act\<lparr>srUpdatedAt := t\<rparr>))"
    by (rule seen_settled) (simp_all add: assms(3))
  ultimately show "\<exists>out w'. run_state (resume_active (file_controller bundles h l jc path) rcd active) w = (out, w') \<and> snd out = None
      \<and> srState (fst out) = StateActive \<and> srActiveVersion (fst out) = asVersion active \<and> file_record jc path w' = Some (json_seen (fst out))"
    by (simp add: resume_active_def)
qed

definition settled :: "Codec \<Rightarrow> string \<Rightarrow> BundleSet \<Rightarrow> Record \<Rightarrow> Record \<times> error option \<Rightarrow> ('h, 'l) StagingWorld \<Rightarrow> bool" where
  "settled jc path bundles r out w \<longleftrightarrow> file_record jc path w = Some (json_seen (fst out)) \<and>
     (case snd out of
        None \<Rightarrow> srState (fst out) = StateActive \<and> srActiveVersion (fst out) \<in> {srTargetVersion r, srPreviousVersion r}
      | Some e \<Rightarrow> srState (fst out) = StateRecoveryRequired)"

lemma resume_from_settles:
  fixes w :: "('h, 'l) StagingWorld"
  assumes "codec_ok jc" and "calm jc path (swFiles w)" and "srFormat r = RecordFormat" and "inProgress r" and plain: "plain_bundles bundles"
  shows "\<exists>out w'. run_state (resume_from (file_controller bundles h l jc path) (srRunID r) (srAttempt r) r) w = (out, w')
    \<and> settled jc path bundles r out w'"
proof -
  let ?c = "file_controller bundles h l jc path"
  obtain read w1 where read: "run_state (on_host (hReadActive h)) w = (read, w1)" by fastforce
  then have "calm jc path (swFiles w1)" using on_host_quiet(1) assms(2) by metis
  note ends = resume_end [OF assms(1) this assms(3), of bundles h l]
  have lost: "\<exists>out w'. run_state (resume_lost ?c r message) w1 = (out, w') \<and> settled jc path bundles r out w'" for message
    using ends(1) [of message] by (fastforce simp: settled_def split: option.splits)
  have act: "\<exists>out w'. run_state (resume_active ?c r active) w1 = (out, w') \<and> settled jc path bundles r out w'"
    if "runs_bundle ?c v active" "v \<in> {srTargetVersion r, srPreviousVersion r}" for active v
  proof -
    have "asVersion active = v" using that(1) plain by (auto simp: runs_bundle_def plain_bundles_def split: option.splits)
    with that(2) ends(2) [of active] show ?thesis by (fastforce simp: settled_def)
  qed
  have "srState r \<noteq> StateActive" using assms(4) by (auto simp: inProgress_def)
  note running = this assms(4) read
  show ?thesis
  proof (cases read)
    case (Inl err)
    with running lost show ?thesis by (simp add: resume_from_def del: append.simps)
  next
    case (Inr active)
    with running lost act [of "srTargetVersion r" active] act [of "srPreviousVersion r" active] show ?thesis by (simp add: resume_from_def)
  qed
qed

text \<open>
  Property C10. A run that was interrupted anywhere between its first and its last write comes to
  an end when it is resumed, if the lock is free and the file system works: whatever the host answers, the state file
  then says either that the target or the previous version is active, and no error is returned, or that manual recovery is required. The controller
  is never left in progress.
\<close>

theorem resume_settles:
  fixes w :: "('h, 'l) StagingWorld"
  assumes loaded: "LoadBundles lib pf root = Inr bundles" and "codec_ok jc" and calm: "calm jc path (swFiles w)"
    and r: "file_record jc path w = Some r" "inProgress r"
    and lock: "run_state (lkAcquire l ''asteria-drive-staging'') (swLock w) = (Inr unlock, l1)"
  shows "\<exists>out w'. run_state (Controller_Resume pf (file_controller bundles h l jc path) (srRunID r) (srAttempt r)) w = (out, w')
    \<and> file_record jc path w' = Some (json_seen (fst out)) \<and> \<not> inProgress (json_seen (fst out))
    \<and> (case snd out of
         None \<Rightarrow> srState (fst out) = StateActive \<and> srActiveVersion (fst out) \<in> {srTargetVersion r, srPreviousVersion r}
       | Some e \<Rightarrow> srState (fst out) = StateRecoveryRequired)"
proof -
  let ?c = "file_controller bundles h l jc path" and ?w = "w\<lparr>swLock := l1\<rparr>"
  have "gget bundles VersionV011 \<noteq> None"
    using LoadBundles_sound(2) [OF loaded, of VersionV011] by (simp add: isSupportedVersion_def supportedVersions_def)
  then have "gentries bundles \<noteq> []" using gm.set_entries [of bundles] by auto
  then have valid: "Controller_validate ?c = None" by (simp add: Controller_validate_def file_controller_def)
  have rec: "file_record jc path ?w = Some r" "srFormat r = RecordFormat"
    using r(1) by (auto simp: file_record_def readable_def split: option.splits sum.splits if_splits)
  have "fsFaults (swFiles w) = (\<lambda>_. None)" using calm by (auto simp: calm_def)
  then have "run_state (Controller_load pf ?c) ?w = (Inr r, ?w)"
    using rec by (auto simp: Controller_load_def FileStore_Load_def or_fail_def os_ReadFile_def no_fault on_files_def file_record_def readable_def
        split: option.splits sum.splits if_splits)
  then have body: "run_state (resume_body pf ?c (srRunID r) (srAttempt r)) ?w = run_state (resume_from ?c (srRunID r) (srAttempt r) r) ?w"
    by (simp add: resume_body_def)
  obtain out w1 where settles: "run_state (resume_from ?c (srRunID r) (srAttempt r) r) ?w = (out, w1)" "settled jc path bundles r out w1"
    using resume_from_settles [of jc path ?w r bundles h l] assms(2) calm rec(2) r(2) LoadBundles_plain [OF loaded] by auto
  have "run_state (Controller_acquire ?c) w = (Inr (on_lock unlock), ?w)"
    using lock by (simp add: Controller_acquire_def on_lock_def)
  with body settles(1) have run: "run_state (Controller_Resume pf ?c (srRunID r) (srAttempt r)) w
      = (out, snd (run_state (on_lock unlock) w1))"
    using valid by (simp add: Controller_Resume_def locked_def case_prod_beta)
  have "file_record jc path (snd (run_state (on_lock unlock) w1)) = file_record jc path w1"
    by (simp add: on_lock_def file_record_def case_prod_beta)
  moreover have "srState (fst out) \<in> {StateActive, StateRecoveryRequired}" using settles(2) by (auto simp: settled_def split: option.splits)
  then have "to_valid (srState (fst out)) = srState (fst out)" by (auto simp: byte_def)
  then have "\<not> inProgress (json_seen (fst out))"
    using \<open>srState (fst out) \<in> _\<close> by (auto simp: inProgress_def)
  ultimately show ?thesis using run settles(2) by (simp add: settled_def)
qed

section \<open>A sample environment\<close>

text \<open>A codec that writes each field after its length, in unary, and reads it back.\<close>

definition sample_field :: "string \<Rightarrow> string" where
  "sample_field s = replicate (length s) CHR ''1'' @ CHR ''0'' # s"

fun sample_fields :: "nat \<Rightarrow> string \<Rightarrow> string list" where
  "sample_fields 0 s = []"
| "sample_fields (Suc k) s =
     (let n = length (takeWhile (\<lambda>ch. ch = CHR ''1'') s); rest = drop (Suc n) s
      in take n rest # sample_fields k (drop n rest))"

lemma sample_fields_read: "sample_fields (length xs) (concat (map sample_field xs) @ z) = xs"
proof (induction xs)
  case (Cons x xs)
  have "takeWhile (\<lambda>ch. ch = CHR ''1'') (replicate (length x) CHR ''1'' @ CHR ''0'' # y) = replicate (length x) CHR ''1''" for y
    by (induction x) auto
  with Cons show ?case by (simp add: sample_field_def Let_def)
qed simp

definition sample_int :: "int \<Rightarrow> string" where
  "sample_int i = (if i < 0 then ''-'' else ''+'') @ replicate (nat \<bar>i\<bar>) CHR ''1''"

definition sample_list :: "Record \<Rightarrow> string list" where
  "sample_list r = [srFormat r, srOperation r, srRunID r, srAttempt r, srTargetVersion r, srExpectedCurrentVersion r, srPreviousVersion r,
     srActiveVersion r, srState r, srActiveComposeSHA256 r, srActiveImage r, sample_int (srSchemaVersion r), srEvidenceDigest r,
     srLastError r, srUpdatedAt r]"

definition sample_codec :: Codec where
  "sample_codec = \<lparr>jcMarshalIndent = \<lambda>r. Inr (concat (map sample_field (sample_list (json_seen r)))),
     jcUnmarshal = \<lambda>text. let fs = sample_fields 15 text; i = fs ! 11
       in Inr \<lparr>srFormat = fs ! 0, srOperation = fs ! 1, srRunID = fs ! 2, srAttempt = fs ! 3, srTargetVersion = fs ! 4,
          srExpectedCurrentVersion = fs ! 5, srPreviousVersion = fs ! 6, srActiveVersion = fs ! 7, srState = fs ! 8,
          srActiveComposeSHA256 = fs ! 9, srActiveImage = fs ! 10,
          srSchemaVersion = (if hd i = CHR ''-'' then - int (length (tl i)) else int (length (tl i))),
          srEvidenceDigest = fs ! 12, srLastError = fs ! 13, srUpdatedAt = fs ! 14\<rparr>\<rparr>"

lemma sample_codec_ok: "codec_ok sample_codec"
proof -
  have "jcUnmarshal sample_codec (concat (map sample_field (sample_list r)) @ z) = Inr r" for r z
  proof -
    have "length (sample_list r) = 15" by (simp add: sample_list_def)
    then have "sample_fields 15 (concat (map sample_field (sample_list r)) @ z) = sample_list r"
      using sample_fields_read [of "sample_list r" z] by simp
    then show ?thesis by (simp add: sample_codec_def Let_def sample_list_def sample_int_def)
  qed
  then show ?thesis by (simp add: codec_ok_def) (simp add: sample_codec_def)
qed

text \<open>Two bundles on a platform whose hash is constant on the bundle's files.\<close>

definition sample_digest :: string where
  "sample_digest = concat (replicate 32 ''78'')"

definition sample_image :: string where
  "sample_image = ''ghcr.io/baicie/asteria-drive@sha256:'' @ sample_digest"

definition sample_bundle :: "string \<Rightarrow> Bundle" where
  "sample_bundle v = \<lparr>buFormat = BundleFormat, buVersion = v, buSourceCommit = replicate 40 CHR ''a'',
     buImage = sample_image, buComposeSHA256 = sample_digest,
     buDeployScriptSHA256 = sample_digest, buMonitorScriptSHA256 = sample_digest, buRecoveryScriptSHA256 = sample_digest,
     buSchemaVersion = 3, buDeploymentEvidence = ''asteria-drive-staging-deployment/v2'',
     buMonitorEvidence = ''asteria-drive-staging-monitor/v2'', buRecoveryEvidence = ''asteria-drive-staging-recovery/v2'',
     buOperations = operations, buDirectory = ''r/'' @ v\<rparr>"

definition sample_platform :: Platform where
  "sample_platform = \<lparr>pfReadFile = \<lambda>path. Inr (if path = ''r/v0.1.1/bundle.json'' then VersionV011
       else if path = ''r/v0.2.0/bundle.json'' then VersionV020 else []),
     pfJoin = \<lambda>a b. a @ ''/'' @ b, pfBase = \<lambda>p. p, pfQuote = \<lambda>s. s, pfUnmarshal_bundle = \<lambda>text. Inr (sample_bundle text)\<rparr>"

definition sample_bundles :: BundleSet where
  "sample_bundles = gput VersionV020 (sample_bundle VersionV020) (gput VersionV011 (sample_bundle VersionV011) gempty)"

lemma sample_bundles_loaded: "LoadBundles sample_lib0 sample_platform ''r'' = Inr sample_bundles"
proof -
  have "loadBundle sample_lib0 sample_platform ''r/v0.1.1'' = Inr (sample_bundle VersionV011)"
    "loadBundle sample_lib0 sample_platform ''r/v0.2.0'' = Inr (sample_bundle VersionV020)" by code_simp+
  then show ?thesis
    by (simp add: LoadBundles_def supportedVersions_def VersionV011_def VersionV020_def sample_platform_def sample_bundles_def sample_bundle_def)
qed

text \<open>A host that runs one version and may refuse to activate, and a lock that is a flag.\<close>

record SampleHost =
  shActive :: ActiveState
  shBroken :: bool

definition sample_active :: "string \<Rightarrow> ActiveState" where
  "sample_active v = \<lparr>asVersion = v, asComposeSHA256 = sample_digest, asImage = sample_image,
     asSchemaVersion = 3, asHealthy = True\<rparr>"

definition sample_evidence :: "(SampleHost, Evidence result) state" where
  "sample_evidence = State (\<lambda>h. (Inr \<lparr>edVersion = asVersion (shActive h), edComposeSHA256 = asComposeSHA256 (shActive h), edImage = asImage (shActive h),
     edSchemaVersion = asSchemaVersion (shActive h), edHealthy = asHealthy (shActive h), edDigest = ''d''\<rparr>, h))"

definition sample_host :: "SampleHost Host" where
  "sample_host = \<lparr>hReadActive = State (\<lambda>h. (Inr (shActive h), h)),
     hActivate = \<lambda>b. State (\<lambda>h. if shBroken h then (Inl (OtherError ''boom'' None), h)
       else (Inr (sample_active (buVersion b)), h\<lparr>shActive := sample_active (buVersion b)\<rparr>)),
     hVerify = \<lambda>b. sample_evidence,
     hRollback = \<lambda>b. State (\<lambda>h. (Inr (sample_active (buVersion b)), h\<lparr>shActive := sample_active (buVersion b)\<rparr>)),
     hVerifyRollback = \<lambda>b. sample_evidence\<rparr>"

definition sample_locker :: "bool Locker" where
  "sample_locker = \<lparr>lkAcquire = \<lambda>key. State (\<lambda>taken. if taken then (Inl (OtherError ''busy'' None), taken)
     else (Inr (State (\<lambda>_. ((), False))), True))\<rparr>"

definition sample_controller :: "(SampleHost, bool) StagingWorld Controller" where
  "sample_controller = file_controller sample_bundles sample_host sample_locker sample_codec ''state''"

definition sample_world :: "bool \<Rightarrow> string \<Rightarrow> bool \<Rightarrow> string option \<Rightarrow> (SampleHost, bool) StagingWorld" where
  "sample_world broken version taken contents = \<lparr>swFiles = \<lparr>fsFiles = Map.empty(''state'' := contents), fsFaults = \<lambda>_. None, fsTemp = \<lambda>_. ''tmp''\<rparr>,
     swHost = \<lparr>shActive = sample_active version, shBroken = broken\<rparr>, swLock = taken, swClock = \<lambda>_. 0\<rparr>"

definition sample_text :: "Record \<Rightarrow> string" where
  "sample_text r = concat (map sample_field (sample_list (json_seen r))) @ ''\<newline>''"

definition sample_request :: Request where
  "sample_request = \<lparr>rqRunID = ''7'', rqAttempt = ''1'', rqTargetVersion = VersionV020, rqExpectedCurrentVersion = []\<rparr>"

lemma sample_save:
  "run_state (on_files (FileStore_Save sample_codec ''state'' r)) (sample_world broken version taken contents)
     = (Inr (), sample_world broken version taken (Some (sample_text r)))"
proof -
  let ?fs = "\<lambda>f. \<lparr>fsFiles = f, fsFaults = \<lambda>_. None, fsTemp = \<lambda>_. ''tmp''\<rparr>"
  have call: "run_state (os_call action partly) (?fs f) = action (?fs f)" for action :: "FileSystem \<Rightarrow> 'a result \<times> FileSystem" and partly f
    by (rule no_fault) simp
  have plain: "run_state os_plain (?fs f) = (Inr (), ?fs f)" for f by (simp add: os_plain_def call)
  have publish: "run_state (publish_file ''state'' ''tmp'' t) (?fs f) = (Inr (), ?fs (f(''tmp'' := None, ''state'' \<mapsto> t)))" for t f
    by (simp add: publish_file_def or_close_def or_fail_def plain syncDirectory_def os_Write_def os_Rename_def call fun_upd_twist)
  show ?thesis
    by (simp add: on_files_def sample_world_def FileStore_Save_def or_fail_def plain os_CreateTemp_def call publish os_Remove_def sample_codec_def
        sample_text_def Let_def fun_upd_twist)
qed

definition sample_stamp :: string where
  "sample_stamp = time_RFC3339 0"

lemma sample_persist:
  "run_state (persist sample_controller r) (sample_world broken version taken contents)
     = ((r\<lparr>srUpdatedAt := sample_stamp\<rparr>, Inr ()), sample_world broken version taken (Some (sample_text (r\<lparr>srUpdatedAt := sample_stamp\<rparr>))))"
proof -
  have tick: "run_state tick (sample_world broken version taken contents) = (0, sample_world broken version taken contents)"
    by (simp add: tick_def sample_world_def)
  show ?thesis by (simp add: persist_def sample_controller_def tick sample_save sample_stamp_def Let_def)
qed

lemma sample_read: "jcUnmarshal sample_codec (sample_text r) = Inr (json_seen r)"
  using sample_codec_ok unfolding codec_ok_def sample_text_def by (simp add: sample_codec_def)

lemma sample_file: "file_record sample_codec ''state'' (sample_world broken version taken (Some (sample_text r))) = seen r"
  by (simp add: file_record_def sample_world_def sample_read seen_def)

lemma sample_load:
  "run_state (Controller_load pf sample_controller) (sample_world broken version taken contents) =
     (case contents of
        None \<Rightarrow> Inr (zero_Record\<lparr>srFormat := RecordFormat, srState := StateIdle\<rparr>)
      | Some text \<Rightarrow> (case jcUnmarshal sample_codec text of
          Inl err \<Rightarrow> Inl (fmt_Errorf_w ''decode staging state'' err)
        | Inr r \<Rightarrow> if srFormat r \<noteq> RecordFormat \<or> srState r = []
            then Inl (fmt_Errorf ''staging state record is incomplete or has an unsupported format'') else Inr r),
      sample_world broken version taken contents)"
  by (simp add: Controller_load_def sample_controller_def FileStore_Load_def or_fail_def os_ReadFile_def no_fault on_files_def sample_world_def
      split: option.split sum.split)

lemma sample_calls:
  "run_state (hReadActive (host sample_controller)) (sample_world broken version taken contents) = (Inr (sample_active version), sample_world broken version taken contents)"
  "run_state (hActivate (host sample_controller) b) (sample_world True version taken contents) = (Inl (OtherError ''boom'' None), sample_world True version taken contents)"
  "run_state (hRollback (host sample_controller) b) (sample_world broken version taken contents)
     = (Inr (sample_active (buVersion b)), sample_world broken (buVersion b) taken contents)"
  "run_state (hVerifyRollback (host sample_controller) b) (sample_world broken version taken contents) =
     (Inr \<lparr>edVersion = version, edComposeSHA256 = sample_digest, edImage = sample_image,
       edSchemaVersion = 3, edHealthy = True, edDigest = ''d''\<rparr>, sample_world broken version taken contents)"
  by (simp_all add: sample_controller_def on_host_def sample_host_def sample_world_def sample_evidence_def sample_active_def)

lemma sample_locked:
  assumes "run_state body (sample_world broken version True contents) = (out, sample_world broken' version' True contents')"
  shows "run_state (locked sample_controller body) (sample_world broken version False contents) = (out, sample_world broken' version' False contents')"
  using assms by (simp add: locked_def Controller_acquire_def sample_controller_def sample_locker_def on_lock_def sample_world_def)

lemma sample_valid:
  "Controller_validate sample_controller = None" "Controller_validateRequest sample_controller sample_request = Inr (sample_bundle VersionV020)"
  "gget sample_bundles VersionV011 = Some (sample_bundle VersionV011)" "scBundles sample_controller = sample_bundles"
  by (simp_all add: Controller_validate_def Controller_validateRequest_def sample_controller_def file_controller_def sample_bundles_def
      sample_request_def numericIDPattern_def attemptPattern_def digits_def VersionV011_def VersionV020_def gput_def gempty_def)

lemma sample_checks:
  "validateActiveBundle (sample_bundle v) (sample_active v) = Inr ()" "buVersion (sample_bundle v) = v" "asVersion (sample_active v) = v"
  by (simp_all add: validateActiveBundle_def sample_bundle_def sample_active_def)

lemma sample_transition:
  assumes "srState r \<noteq> next" and "TransitionAllowed (srState r) next"
  shows "run_state (step_then (Controller_save sample_controller r next) f) (sample_world broken version taken contents)
    = run_state (f (r\<lparr>srState := next, srUpdatedAt := sample_stamp\<rparr>))
        (sample_world broken version taken (Some (sample_text (r\<lparr>srState := next, srUpdatedAt := sample_stamp\<rparr>))))"
  using assms by (simp add: step_then_def Controller_save_def sample_persist)

lemma sample_transitions:
  "TransitionAllowed StateIdle StatePrepared" "TransitionAllowed StatePrepared StateActivating"
  "TransitionAllowed StateActivating StateRollingBack" "TransitionAllowed StateRollingBack StateRollbackVerifying"
  by (simp_all add: TransitionAllowed_def transitionTable_def)

definition sample_compensated :: Record where
  "sample_compensated = zero_Record\<lparr>srFormat := RecordFormat, srOperation := ''deploy'', srRunID := ''7'', srAttempt := ''1'',
     srTargetVersion := VersionV020, srPreviousVersion := VersionV011, srActiveVersion := VersionV011, srState := StateActive,
     srActiveComposeSHA256 := sample_digest, srActiveImage := sample_image,
     srSchemaVersion := 3, srEvidenceDigest := ''d'', srUpdatedAt := sample_stamp\<rparr>"

lemma sample_switch:
  "run_state (deploy_switch sample_controller (start_record (zero_Record\<lparr>srFormat := RecordFormat, srState := StateIdle\<rparr>) ''deploy'' sample_request
       (sample_bundle VersionV020) (sample_active VersionV011)) (sample_bundle VersionV020) (sample_bundle VersionV011))
     (sample_world True VersionV011 True contents)
   = ((sample_compensated, Some (OtherError ''boom'' None)), sample_world True VersionV011 True (Some (sample_text sample_compensated)))"
proof -
  let ?ev = "\<lparr>edVersion = VersionV011, edComposeSHA256 = sample_digest, edImage = sample_image,
      edSchemaVersion = 3, edHealthy = True, edDigest = ''d''\<rparr>"
  have evidence: "validateEvidence (sample_bundle VersionV011) ?ev = Inr ()"
    by (simp add: validateEvidence_def validateActiveBundle_def sample_bundle_def)
  have commit: "run_state (step_then (Controller_commitActive sample_controller r (sample_bundle VersionV011) ?ev) (\<lambda>committed. State_Monad.return (committed, Some cause)))
      (sample_world True VersionV011 True contents) =
      ((r\<lparr>srState := StateActive, srActiveVersion := VersionV011, srActiveComposeSHA256 := sample_digest,
         srActiveImage := sample_image, srSchemaVersion := 3, srEvidenceDigest := ''d'', srLastError := [],
         srUpdatedAt := sample_stamp\<rparr>, Some cause),
       sample_world True VersionV011 True (Some (sample_text (r\<lparr>srState := StateActive, srActiveVersion := VersionV011, srActiveComposeSHA256 := sample_digest,
         srActiveImage := sample_image, srSchemaVersion := 3, srEvidenceDigest := ''d'', srLastError := [],
         srUpdatedAt := sample_stamp\<rparr>))))" for r cause contents
    by (simp add: step_then_def Controller_commitActive_def sample_persist sample_bundle_def)
  show ?thesis
    by (simp add: deploy_switch_def Controller_compensate_def sample_transition sample_transitions sample_calls sample_checks evidence commit
        start_record_def sample_request_def sample_compensated_def zero_Record_def Let_def)
qed

lemma sample_fails:
  "run_state (Controller_Deploy sample_platform sample_controller sample_request) (sample_world True VersionV011 False None)
     = ((sample_compensated, Some (OtherError ''boom'' None)), sample_world True VersionV011 False (Some (sample_text sample_compensated)))"
proof -
  have read: "run_state (Controller_readValidatedActive sample_controller) (sample_world broken VersionV011 taken contents)
      = (Inr (sample_active VersionV011, sample_bundle VersionV011), sample_world broken VersionV011 taken contents)" for broken taken contents
    by (simp add: Controller_readValidatedActive_def sample_calls sample_valid sample_checks)
  have "VersionV011 \<noteq> VersionV020" by (simp add: VersionV011_def VersionV020_def)
  then have "run_state (guarded sample_platform sample_controller ''deploy'' ''pre-switch'' sample_request (sample_bundle VersionV020)
      (\<lambda>rcd current. deploy_switch sample_controller rcd (sample_bundle VersionV020) current)) (sample_world True VersionV011 True None)
    = ((sample_compensated, Some (OtherError ''boom'' None)), sample_world True VersionV011 True (Some (sample_text sample_compensated)))"
    by (simp add: guarded_def sample_load admit_def replay_def inProgress_def start_switch_def read sample_checks sample_switch
        sample_request_def [THEN arg_cong, of rqRunID] sample_request_def [THEN arg_cong, of rqExpectedCurrentVersion] zero_Record_def [THEN arg_cong, of srRunID])
  from sample_locked [OF this] show ?thesis by (simp add: Controller_Deploy_def sample_valid)
qed

lemma sample_seen: "json_seen sample_compensated = sample_compensated" "seen sample_compensated = Some sample_compensated"
proof -
  have ascii: "ascii sample_digest" "ascii sample_image" "ascii sample_stamp" "ascii VersionV011" "ascii VersionV020" "ascii RecordFormat"
    by code_simp+
  then show "json_seen sample_compensated = sample_compensated"
    by (simp add: json_seen_def sample_compensated_def zero_Record_def byte_def)
  then show "seen sample_compensated = Some sample_compensated"
    by (simp add: seen_def readable_def) (simp add: sample_compensated_def)
qed

lemma sample_names: "''state'' \<notin> range (fsTemp (swFiles (sample_world broken version taken contents)))"
  by (auto simp: sample_world_def)

section \<open>Witnesses\<close>

theorem only_approved_active_witness:
  "\<exists>w. (staging_step sample_platform sample_controller)\<^sup>*\<^sup>* (sample_world True VersionV011 False None) w
     \<and> file_record sample_codec ''state'' w = Some sample_compensated \<and> gget sample_bundles (srActiveVersion sample_compensated) \<noteq> None"
proof -
  let ?w = "sample_world True VersionV011 False (Some (sample_text sample_compensated))"
  have steps: "(staging_step sample_platform sample_controller)\<^sup>*\<^sup>* (sample_world True VersionV011 False None) ?w"
    using staging_step.deploy [OF sample_fails] by blast
  have r: "file_record sample_codec ''state'' ?w = Some sample_compensated" by (simp add: sample_file sample_seen)
  have st: "srState sample_compensated = StateActive" by (simp add: sample_compensated_def)
  have fresh: "fsFiles (swFiles (sample_world True VersionV011 False None)) ''state'' = None" by (simp add: sample_world_def)
  from only_approved_active [OF sample_bundles_loaded sample_codec_ok fresh sample_names steps [unfolded sample_controller_def] r st]
  have "gget sample_bundles (srActiveVersion sample_compensated) \<noteq> None" by blast
  with steps r show ?thesis by blast
qed

theorem recovery_required_is_final_witness:
  "\<exists>out w'. run_state (Controller_Deploy sample_platform sample_controller sample_request)
      (sample_world False VersionV011 False (Some (sample_text (sample_compensated\<lparr>srState := StateRecoveryRequired\<rparr>)))) = (out, w')
     \<and> snd out \<noteq> None \<and> swHost w' = \<lparr>shActive = sample_active VersionV011, shBroken = False\<rparr>"
proof -
  let ?r = "sample_compensated\<lparr>srState := StateRecoveryRequired\<rparr>"
  let ?w = "sample_world False VersionV011 False (Some (sample_text ?r))"
  obtain out w' where run: "run_state (Controller_Deploy sample_platform sample_controller sample_request) ?w = (out, w')" by fastforce
  have settled: "srFormat ?r = RecordFormat" "srState ?r \<in> {StateActive, StateRecoveryRequired}" by (simp_all add: sample_compensated_def)
  have r: "file_record sample_codec ''state'' ?w = Some (json_seen ?r)" by (simp only: sample_file seen_settled(1) [OF settled])
  have st: "srState (json_seen ?r) = StateRecoveryRequired" using seen_settled(2) [OF settled] by simp
  from recovery_required_is_final [OF sample_codec_ok sample_names r st, of sample_platform sample_bundles sample_host sample_locker sample_request out w']
    run have "snd out \<noteq> None" "swHost w' = swHost ?w" unfolding sample_controller_def by blast+
  with run show ?thesis by (simp add: sample_world_def)
qed

theorem switch_success_witness:
  "\<exists>r w'. run_state (Controller_Deploy sample_platform sample_controller (sample_request\<lparr>rqTargetVersion := VersionV011\<rparr>))
      (sample_world False VersionV011 False None) = ((r, None), w') \<and> srTargetVersion r = VersionV011 \<and> srActiveVersion r = VersionV011"
proof -
  let ?q = "sample_request\<lparr>rqTargetVersion := VersionV011\<rparr>" and ?b = "sample_bundle VersionV011"
  have q: "rqRunID ?q = ''7''" "rqExpectedCurrentVersion ?q = []" by (simp_all add: sample_request_def)
  obtain r contents where mark: "run_state (Controller_markActive sample_controller (zero_Record\<lparr>srFormat := RecordFormat, srState := StateIdle\<rparr>) ?b ''deploy'' ?q)
      (sample_world False VersionV011 True None) = ((r, None), sample_world False VersionV011 True contents)"
    by (simp add: Controller_markActive_def sample_persist)
  have "run_state (Controller_readValidatedActive sample_controller) (sample_world False VersionV011 True None)
      = (Inr (sample_active VersionV011, ?b), sample_world False VersionV011 True None)"
    by (simp add: Controller_readValidatedActive_def sample_calls sample_valid sample_checks)
  then have "run_state (guarded sample_platform sample_controller ''deploy'' ''pre-switch'' ?q ?b
      (\<lambda>rcd current. deploy_switch sample_controller rcd ?b current)) (sample_world False VersionV011 True None)
    = ((r, None), sample_world False VersionV011 True contents)"
    using mark q
    by (simp add: guarded_def sample_load admit_def replay_def inProgress_def start_switch_def sample_checks zero_Record_def [THEN arg_cong, of srRunID])
  moreover have "Controller_validateRequest sample_controller ?q = Inr ?b"
    using sample_valid q by (simp add: Controller_validateRequest_def numericIDPattern_def attemptPattern_def digits_def sample_request_def)
  ultimately have run: "run_state (Controller_Deploy sample_platform sample_controller ?q) (sample_world False VersionV011 False None)
      = ((r, None), sample_world False VersionV011 False contents)"
    using sample_locked by (simp add: Controller_Deploy_def sample_valid)
  have op: "(''deploy'', Controller_Deploy) \<in> {(''deploy'', Controller_Deploy), (''rollback'', Controller_Rollback)}" by simp
  from switch_success [OF sample_bundles_loaded sample_codec_ok sample_names op run [unfolded sample_controller_def]]
  have "srTargetVersion r = VersionV011" "srActiveVersion r = VersionV011"
    by (auto simp: file_record_def sample_world_def)
  with run show ?thesis by blast
qed

text \<open>The run the replay property is about: a deployment that fails and is compensated, repeated under the same run.\<close>

theorem replay_of_compensated_deploy_witness:
  "\<exists>r w w'. run_state (Controller_Deploy sample_platform sample_controller sample_request) (sample_world True VersionV011 False None)
        = ((r, Some (OtherError ''boom'' None)), w)
     \<and> run_state (Controller_Deploy sample_platform sample_controller sample_request) w = ((r, None), w')
     \<and> srActiveVersion r = VersionV011 \<and> rqTargetVersion sample_request = VersionV020 \<and> asVersion (shActive (swHost w')) = VersionV011"
proof -
  let ?w = "sample_world True VersionV011 False (Some (sample_text sample_compensated))"
  have r: "file_record sample_codec ''state'' ?w = Some sample_compensated" by (simp add: sample_file sample_seen)
  have "\<exists>w'. run_state (Controller_Deploy sample_platform (file_controller sample_bundles sample_host sample_locker sample_codec ''state'') sample_request) ?w
      = ((sample_compensated, None), w') \<and> swHost w' = swHost ?w \<and> file_record sample_codec ''state'' w' = Some sample_compensated
      \<and> asVersion (sample_active VersionV011) \<noteq> rqTargetVersion sample_request"
  proof (rule replay_of_compensated_deploy [OF sample_bundles_loaded sample_codec_ok sample_names _ sample_fails [unfolded sample_controller_def] r])
    show "gget sample_bundles (srActiveVersion sample_compensated) = Some (sample_bundle VersionV011)"
      using sample_valid(3) by (simp add: sample_compensated_def)
    show "run_state (hReadActive sample_host) (swHost ?w) = (Inr (sample_active VersionV011), swHost ?w)"
      by (simp add: sample_host_def sample_world_def)
    show "run_state (lkAcquire sample_locker ''asteria-drive-staging'') (swLock ?w) = (Inr (State (\<lambda>_. ((), False))), True)"
      by (simp add: sample_locker_def sample_world_def)
    show "srActiveVersion sample_compensated \<noteq> rqTargetVersion sample_request"
      by (simp add: sample_compensated_def sample_request_def VersionV011_def VersionV020_def)
    show "srRunID r0 \<noteq> rqRunID sample_request" if "file_record sample_codec ''state'' (sample_world True VersionV011 False None) = Some r0" for r0
      using that by (simp add: file_record_def sample_world_def)
  qed (simp_all add: sample_checks(1), simp_all add: sample_compensated_def sample_request_def sample_active_def sample_world_def)
  then obtain w' where "run_state (Controller_Deploy sample_platform sample_controller sample_request) ?w = ((sample_compensated, None), w')"
      "swHost w' = swHost ?w" unfolding sample_controller_def by blast
  with sample_fails show ?thesis
    by (intro exI [of _ sample_compensated] exI [of _ ?w] exI [of _ w'])
      (simp add: sample_request_def sample_world_def sample_active_def, simp add: sample_compensated_def)
qed

lemma sample_calm: "calm sample_codec ''state'' (swFiles (sample_world broken version taken contents))"
  by (auto simp: calm_def sample_world_def sample_codec_def)

theorem FileStore_atomic_witness:
  "\<exists>fs'. run_state (FileStore_Save sample_codec ''state'' sample_compensated) (swFiles (sample_world True VersionV011 False None)) = (Inr (), fs')
     \<and> fst (run_state (FileStore_Load sample_codec ''state'') fs') = Inr (sample_compensated, True)"
proof -
  let ?w = "sample_world True VersionV011 False" and ?fs = "swFiles (sample_world True VersionV011 False None)"
  have save: "run_state (FileStore_Save sample_codec ''state'' sample_compensated) ?fs = (Inr (), swFiles (?w (Some (sample_text sample_compensated))))"
    using sample_save [of sample_compensated True VersionV011 False None] by (auto simp: run_on_files)
  have "readable (json_seen sample_compensated)" using sample_seen(2) by (simp add: seen_def split: if_splits)
  from FileStore_atomic [OF sample_codec_ok sample_names this save] save show ?thesis
    by (auto simp: sample_seen sample_world_def)
qed

theorem resume_settles_witness:
  "\<exists>out w'. run_state (Controller_Resume sample_platform sample_controller ''7'' ''1'')
      (sample_world False VersionV020 False (Some (sample_text (sample_compensated\<lparr>srState := StateActivating\<rparr>)))) = (out, w')
     \<and> \<not> inProgress (json_seen (fst out))"
proof -
  let ?r = "sample_compensated\<lparr>srState := StateActivating\<rparr>"
  let ?w = "sample_world False VersionV020 False (Some (sample_text ?r))"
  have "json_seen ?r = ?r" using sample_seen(1) by (simp add: json_seen_def sample_compensated_def zero_Record_def byte_def)
  then have r: "file_record sample_codec ''state'' ?w = Some ?r"
    by (simp add: sample_file seen_def readable_def) (simp add: sample_compensated_def)
  have lock: "run_state (lkAcquire sample_locker ''asteria-drive-staging'') (swLock ?w) = (Inr (State (\<lambda>_. ((), False))), True)"
    by (simp add: sample_locker_def sample_world_def)
  have "inProgress ?r" by (simp add: inProgress_def)
  from resume_settles [OF sample_bundles_loaded sample_codec_ok sample_calm r this lock, of sample_host]
  show ?thesis by (auto simp: sample_controller_def sample_compensated_def)
qed

end
