(* ===== verification/Http_Auth.thy ===== *)
theory Http_Auth
  imports Service_Base
begin

text \<open>
  \<^verbatim>\<open>internal/auth/trusted.go\<close>: principals, the authenticator interface the server calls, and the
  authenticator of the development set-up, a fixed table of bearer tokens. The middleware of an
  authenticator is one function of the \<^verbatim>\<open>Authorization\<close> and \<^verbatim>\<open>X-Tenant-ID\<close> headers; the server
  runs the handler with the principal it returns, or writes the error.
\<close>

section \<open>Principals\<close>

record Principal =
  prIdentity :: Identity
  prTenantDisplayName :: string
  prRole :: AccessRole

definition zero_Principal :: Principal where
  "zero_Principal = \<lparr>prIdentity = \<lparr>iTenantID = [], iPrincipalID = []\<rparr>, prTenantDisplayName = [], prRole = RoleOther []\<rparr>"

definition HasPermission :: "Principal \<Rightarrow> Permission \<Rightarrow> bool" where
  "HasPermission p permission \<longleftrightarrow> permission \<in> PermissionsForRole (prRole p)"

record ExternalIdentity =
  eiIssuer :: string
  eiSubject :: string

text \<open>The \<^verbatim>\<open>Authenticator\<close> interface; the second method is \<^verbatim>\<open>ExternalAuthenticator\<close>, which not every one has.\<close>

record 's Authenticator =
  auMiddleware :: "string \<Rightarrow> string \<Rightarrow> ('s, Principal) svc"
  auExternal :: "(string \<Rightarrow> ('s, ExternalIdentity) svc) option"

section \<open>The table of trusted tokens\<close>

record trustedEntry =
  teHash :: string
  tePrincipal :: Principal

type_synonym Trusted = "trustedEntry list"

definition trusted_entry :: "Lib \<Rightarrow> string \<times> Principal \<Rightarrow> trustedEntry result" where
  "trusted_entry lib tp =
     (case tp of (token, p0) \<Rightarrow>
        if length token < 32 \<or> iTenantID (prIdentity p0) = [] \<or> iPrincipalID (prIdentity p0) = []
        then Inl (E CodeInvalidRequest ''trusted tokens must be high entropy and map to tenant and principal ids'')
        else
          let p = (if prRole p0 = RoleOther [] then p0\<lparr>prRole := RoleOwner\<rparr> else p0)
          in if \<not> ValidAccessRole (prRole p)
             then Inl (E CodeInvalidRequest ''trusted token role is invalid'')
             else Inr \<lparr>teHash = lib_sha256 lib token, tePrincipal = p\<rparr>)"

fun trusted_entries :: "Lib \<Rightarrow> (string \<times> Principal) list \<Rightarrow> Trusted result" where
  "trusted_entries lib [] = Inr []"
| "trusted_entries lib (tp # tps) =
     (case trusted_entry lib tp of
        Inl e \<Rightarrow> Inl e
      | Inr entry \<Rightarrow>
          (case trusted_entries lib tps of Inl e \<Rightarrow> Inl e | Inr entries \<Rightarrow> Inr (entry # entries)))"

definition NewTrusted :: "Lib \<Rightarrow> (string, Principal) gomap \<Rightarrow> Trusted result" where
  "NewTrusted lib tokens =
     (if gentries tokens = [] then Inl (E CodeInvalidRequest ''at least one trusted token is required'')
      else trusted_entries lib (gentries tokens))"

definition token_space :: "char \<Rightarrow> bool" where
  "token_space c \<longleftrightarrow> byte c \<in> {32, 9, 13, 10}"

definition bearer_prefix :: string where
  "bearer_prefix = ''Bearer ''"

text \<open>The loop over the entries never stops early, so the last match wins.\<close>

definition matched_entry :: "string \<Rightarrow> Trusted \<Rightarrow> trustedEntry option" where
  "matched_entry candidate entries =
     fold (\<lambda>entry matched. if teHash entry = candidate then Some entry else matched) entries None"

definition Trusted_Authenticate :: "Lib \<Rightarrow> Trusted \<Rightarrow> string \<Rightarrow> Principal result" where
  "Trusted_Authenticate lib entries header =
     (let token = drop (length bearer_prefix) header
      in if take (length bearer_prefix) header \<noteq> bearer_prefix \<or> token = [] \<or> list_ex token_space token
         then Inl (E CodeUnauthenticated ''a valid bearer token is required'')
         else (case matched_entry (lib_sha256 lib token) entries of
                 None \<Rightarrow> Inl (E CodeUnauthenticated ''a valid bearer token is required'')
               | Some entry \<Rightarrow> Inr (tePrincipal entry)))"

definition Trusted_Middleware :: "Lib \<Rightarrow> Trusted \<Rightarrow> string \<Rightarrow> string \<Rightarrow> ('s, Principal) svc" where
  "Trusted_Middleware lib entries authorization tenant = of_result (Trusted_Authenticate lib entries authorization)"

definition Trusted_ExternalMiddleware :: "Lib \<Rightarrow> Trusted \<Rightarrow> string \<Rightarrow> ('s, ExternalIdentity) svc" where
  "Trusted_ExternalMiddleware lib entries authorization =
     sbind (of_result (Trusted_Authenticate lib entries authorization)) (\<lambda>p.
       ret \<lparr>eiIssuer = ''trusted-dev'', eiSubject = iPrincipalID (prIdentity p)\<rparr>)"

definition trusted_authenticator :: "Lib \<Rightarrow> Trusted \<Rightarrow> 's Authenticator" where
  "trusted_authenticator lib entries =
     \<lparr>auMiddleware = Trusted_Middleware lib entries, auExternal = Some (Trusted_ExternalMiddleware lib entries)\<rparr>"

section \<open>Tokens and principals\<close>

lemma matched_entry_Some:
  assumes "matched_entry h entries = Some entry"
  shows "entry \<in> set entries" "teHash entry = h"
proof -
  have "fold (\<lambda>entry matched. if teHash entry = h then Some entry else matched) entries m = Some entry
      \<Longrightarrow> m = Some entry \<or> entry \<in> set entries \<and> teHash entry = h" for m
    by (induction entries arbitrary: m) (fastforce split: if_splits)+
  from this [of None] show "entry \<in> set entries" "teHash entry = h"
    using assms by (auto simp: matched_entry_def)
qed

lemma matched_entry_unique:
  assumes "entry \<in> set entries" "\<And>other. other \<in> set entries \<Longrightarrow> teHash other = teHash entry \<Longrightarrow> other = entry"
  shows "matched_entry (teHash entry) entries = Some entry"
proof -
  have "fold (\<lambda>x matched. if teHash x = teHash entry then Some x else matched) entries m = Some entry"
    if "m = Some entry \<or> entry \<in> set entries" for m
    using that assms(2)
    by (induction entries arbitrary: m) (auto split: if_splits)
  then show ?thesis
    using assms(1) by (simp add: matched_entry_def)
qed

lemma trusted_entries_sound:
  assumes "trusted_entries lib tps = Inr entries"
  shows "length entries = length tps \<and> (\<forall>i < length tps. trusted_entry lib (tps ! i) = Inr (entries ! i))"
  using assms
  by (induction tps arbitrary: entries) (auto simp: nth_Cons split: sum.splits nat.splits)

end
