(* ===== verification/Go_Json.thy ===== *)
theory Go_Json
  imports Go_Encoding
begin

text \<open>
  What the sources use of \<^verbatim>\<open>encoding/json\<close> when they read a request: the scanner that splits a
  byte stream into values, the decoder of a value into a struct, and \<^verbatim>\<open>strconv.ParseInt\<close>. The scanner
  is the push-down automaton of the library, one step per byte, so reading is a structural recursion
  on the bytes. Strings keep the text between their quotes; they are unquoted when a field takes them.
\<close>

section \<open>Numbers\<close>

definition is_digit :: "char \<Rightarrow> bool" where
  "is_digit c \<longleftrightarrow> 48 \<le> byte c \<and> byte c \<le> 57"

definition parse_digits :: "string \<Rightarrow> int" where
  "parse_digits = foldl (\<lambda>n c. 10 * n + int (byte c - 48)) 0"

text \<open>\<^verbatim>\<open>strconv.ParseInt(s, 10, 64)\<close> and \<^verbatim>\<open>strconv.Atoi\<close> on a 64-bit machine; \<open>None\<close> is an error.\<close>

definition parse_unsigned :: "string \<Rightarrow> int option" where
  "parse_unsigned s = (if s = [] \<or> \<not> list_all is_digit s then None else Some (parse_digits s))"

definition strconv_ParseInt :: "string \<Rightarrow> int64 option" where
  "strconv_ParseInt s =
     (let value = (case s of
            [] \<Rightarrow> None
          | c # rest \<Rightarrow>
              if c = CHR ''-'' then map_option uminus (parse_unsigned rest)
              else if c = CHR ''+'' then parse_unsigned rest
              else parse_unsigned s)
      in (case value of None \<Rightarrow> None | Some v \<Rightarrow> if in_int64 v then Some v else None))"

text \<open>Reading back what \<^verbatim>\<open>fmt\<close> printed.\<close>

lemma show_nat_digits: "list_all is_digit (show_nat n) \<and> show_nat n \<noteq> []"
  by (induction n rule: show_nat.induct) (auto simp: show_nat.simps is_digit_def)

lemma parse_digits_snoc: "parse_digits (s @ [c]) = 10 * parse_digits s + int (byte c - 48)"
  by (simp add: parse_digits_def)

lemma parse_digits_show: "parse_digits (show_nat n) = int n"
proof (induction n rule: show_nat.induct)
  case (1 n)
  show ?case
  proof (cases "n < 10")
    case False
    with 1 have "parse_digits (show_nat n) = 10 * int (n div 10) + int (n mod 10)"
      by (subst show_nat.simps) (simp add: parse_digits_snoc)
    then show ?thesis using zmod_int [of n 10] zdiv_int [of n 10] by simp
  qed (simp add: show_nat.simps parse_digits_def)
qed

lemma parse_unsigned_show: "parse_unsigned (show_nat n) = Some (int n)"
  using show_nat_digits [of n] by (simp add: parse_unsigned_def parse_digits_show)

lemma ParseInt_show:
  assumes "in_int64 n"
  shows "strconv_ParseInt (show_int n) = Some n"
proof (cases "n < 0")
  case True
  with assms show ?thesis by (simp add: strconv_ParseInt_def show_int_def parse_unsigned_show)
next
  case False
  obtain c cs where digits: "show_nat (nat n) = c # cs" "is_digit c" using show_nat_digits [of "nat n"] by (cases "show_nat (nat n)") auto
  then have "c \<noteq> CHR ''-''" "c \<noteq> CHR ''+''" by (auto simp: is_digit_def byte_def)
  with False assms digits show ?thesis
    using parse_unsigned_show [of "nat n"] by (simp add: strconv_ParseInt_def show_int_def)
qed

section \<open>Values and the scanner\<close>

datatype json =
    JNull | JBool bool | JNum string | JStr string | JArr "json list" | JObj "(string \<times> json) list"

datatype json_frame = InArr "json list" | InObj "(string \<times> json) list" string

datatype string_mode = Plain | Escape | Hex nat

datatype number_mode = Neg | Zero | Digits | Dot | Fraction | Exp | ExpSign | ExpDigits

datatype scan_state =
    BeginValue | BeginValueOrEmpty | BeginString | BeginStringOrEmpty
  | InString bool string_mode string | AfterKey string | InLiteral string json
  | InNumber number_mode string | EndValue json

datatype scan_step = Next scan_state "json_frame list" | Bad | Finished json bool

definition json_space :: "char \<Rightarrow> bool" where
  "json_space c \<longleftrightarrow> byte c \<in> {32, 9, 13, 10}"

definition max_nesting :: nat where
  "max_nesting = 10000"

definition push_frame :: "scan_state \<Rightarrow> json_frame \<Rightarrow> json_frame list \<Rightarrow> scan_step" where
  "push_frame st f fs = (if length fs < max_nesting then Next st (f # fs) else Bad)"

text \<open>A finished array or object ends the scan at once when nothing encloses it.\<close>

definition close_frame :: "json \<Rightarrow> json_frame list \<Rightarrow> scan_step" where
  "close_frame v fs = (if fs = [] then Finished v True else Next (EndValue v) fs)"

fun end_value :: "json \<Rightarrow> json_frame list \<Rightarrow> char \<Rightarrow> scan_step" where
  "end_value v [] c = Finished v False"
| "end_value v (InArr xs # fs) c =
     (if json_space c then Next (EndValue v) (InArr xs # fs)
      else if c = CHR '','' then Next BeginValue (InArr (xs @ [v]) # fs)
      else if c = CHR '']'' then close_frame (JArr (xs @ [v])) fs
      else Bad)"
| "end_value v (InObj ms k # fs) c =
     (if json_space c then Next (EndValue v) (InObj ms k # fs)
      else if c = CHR '','' then Next BeginString (InObj (ms @ [(k, v)]) [] # fs)
      else if c = CHR ''}'' then close_frame (JObj (ms @ [(k, v)])) fs
      else Bad)"

definition begin_value :: "json_frame list \<Rightarrow> char \<Rightarrow> scan_step" where
  "begin_value fs c =
     (if json_space c then Next BeginValue fs
      else if c = CHR ''{'' then push_frame BeginStringOrEmpty (InObj [] []) fs
      else if c = CHR ''['' then push_frame BeginValueOrEmpty (InArr []) fs
      else if c = CHR 0x22 then Next (InString False Plain []) fs
      else if c = CHR ''-'' then Next (InNumber Neg ''-'') fs
      else if c = CHR ''0'' then Next (InNumber Zero ''0'') fs
      else if is_digit c then Next (InNumber Digits [c]) fs
      else if c = CHR ''t'' then Next (InLiteral ''rue'' (JBool True)) fs
      else if c = CHR ''f'' then Next (InLiteral ''alse'' (JBool False)) fs
      else if c = CHR ''n'' then Next (InLiteral ''ull'' JNull) fs
      else Bad)"

definition begin_string :: "json_frame list \<Rightarrow> char \<Rightarrow> scan_step" where
  "begin_string fs c =
     (if json_space c then Next BeginString fs
      else if c = CHR 0x22 then Next (InString True Plain []) fs
      else Bad)"

text \<open>A key waits for its colon; any other string is a value.\<close>

fun scan_string :: "bool \<Rightarrow> string_mode \<Rightarrow> string \<Rightarrow> json_frame list \<Rightarrow> char \<Rightarrow> scan_step" where
  "scan_string key Plain raw fs c =
     (if c = CHR 0x22 then Next (if key then AfterKey raw else EndValue (JStr raw)) fs
      else if c = CHR 0x5C then Next (InString key Escape (raw @ [c])) fs
      else if byte c < 32 then Bad
      else Next (InString key Plain (raw @ [c])) fs)"
| "scan_string key Escape raw fs c =
     (if c \<in> {CHR ''b'', CHR ''f'', CHR ''n'', CHR ''r'', CHR ''t'', CHR 0x5C, CHR ''/'', CHR 0x22}
      then Next (InString key Plain (raw @ [c])) fs
      else if c = CHR ''u'' then Next (InString key (Hex 4) (raw @ [c])) fs
      else Bad)"
| "scan_string key (Hex n) raw fs c =
     (if fromHexChar c = None then Bad
      else Next (InString key (if n \<le> 1 then Plain else Hex (n - 1)) (raw @ [c])) fs)"

definition is_exp :: "char \<Rightarrow> bool" where
  "is_exp c \<longleftrightarrow> c = CHR ''e'' \<or> c = CHR ''E''"

fun scan_number :: "number_mode \<Rightarrow> string \<Rightarrow> json_frame list \<Rightarrow> char \<Rightarrow> scan_step" where
  "scan_number Neg raw fs c =
     (if c = CHR ''0'' then Next (InNumber Zero (raw @ [c])) fs
      else if is_digit c then Next (InNumber Digits (raw @ [c])) fs else Bad)"
| "scan_number Digits raw fs c =
     (if is_digit c then Next (InNumber Digits (raw @ [c])) fs
      else if c = CHR ''.'' then Next (InNumber Dot (raw @ [c])) fs
      else if is_exp c then Next (InNumber Exp (raw @ [c])) fs
      else end_value (JNum raw) fs c)"
| "scan_number Zero raw fs c =
     (if c = CHR ''.'' then Next (InNumber Dot (raw @ [c])) fs
      else if is_exp c then Next (InNumber Exp (raw @ [c])) fs
      else end_value (JNum raw) fs c)"
| "scan_number Dot raw fs c = (if is_digit c then Next (InNumber Fraction (raw @ [c])) fs else Bad)"
| "scan_number Fraction raw fs c =
     (if is_digit c then Next (InNumber Fraction (raw @ [c])) fs
      else if is_exp c then Next (InNumber Exp (raw @ [c])) fs
      else end_value (JNum raw) fs c)"
| "scan_number Exp raw fs c =
     (if c = CHR ''+'' \<or> c = CHR ''-'' then Next (InNumber ExpSign (raw @ [c])) fs
      else if is_digit c then Next (InNumber ExpDigits (raw @ [c])) fs else Bad)"
| "scan_number ExpSign raw fs c = (if is_digit c then Next (InNumber ExpDigits (raw @ [c])) fs else Bad)"
| "scan_number ExpDigits raw fs c =
     (if is_digit c then Next (InNumber ExpDigits (raw @ [c])) fs else end_value (JNum raw) fs c)"

fun scan_char :: "scan_state \<Rightarrow> json_frame list \<Rightarrow> char \<Rightarrow> scan_step" where
  "scan_char BeginValue fs c = begin_value fs c"
| "scan_char BeginValueOrEmpty fs c =
     (if json_space c then Next BeginValueOrEmpty fs
      else if c = CHR '']'' then close_frame (JArr []) (tl fs)
      else begin_value fs c)"
| "scan_char BeginString fs c = begin_string fs c"
| "scan_char BeginStringOrEmpty fs c =
     (if json_space c then Next BeginStringOrEmpty fs
      else if c = CHR ''}'' then close_frame (JObj []) (tl fs)
      else begin_string fs c)"
| "scan_char (InString key mode raw) fs c = scan_string key mode raw fs c"
| "scan_char (AfterKey k) fs c =
     (if json_space c then Next (AfterKey k) fs
      else if c = CHR '':''
      then (case fs of InObj ms _ # rest \<Rightarrow> Next BeginValue (InObj ms k # rest) | _ \<Rightarrow> Bad)
      else Bad)"
| "scan_char (InLiteral expected v) fs c =
     (case expected of
        [] \<Rightarrow> Bad
      | e # rest \<Rightarrow> if c \<noteq> e then Bad else Next (if rest = [] then EndValue v else InLiteral rest v) fs)"
| "scan_char (InNumber mode raw) fs c = scan_number mode raw fs c"
| "scan_char (EndValue v) fs c = end_value v fs c"

datatype scanned = ScanBad | ScanEnd scan_state "json_frame list" | ScanValue json string

fun scan :: "scan_state \<Rightarrow> json_frame list \<Rightarrow> string \<Rightarrow> scanned" where
  "scan st fs [] = ScanEnd st fs"
| "scan st fs (c # cs) =
     (case scan_char st fs c of
        Next st' fs' \<Rightarrow> scan st' fs' cs
      | Bad \<Rightarrow> ScanBad
      | Finished v used \<Rightarrow> ScanValue v (if used then cs else c # cs))"

text \<open>
  \<^verbatim>\<open>Decoder.readValue\<close>: the next value of a stream. \<open>truncated\<close> says that the reader fails after
  these bytes because the body is longer than its limit (\<^verbatim>\<open>http.MaxBytesReader\<close>); otherwise the
  stream ends after them.
\<close>

datatype json_read = ReadEOF | ReadTooLarge | ReadError | ReadValue json string

definition next_value :: "bool \<Rightarrow> string \<Rightarrow> json_read" where
  "next_value truncated cs =
     (case scan BeginValue [] cs of
        ScanBad \<Rightarrow> ReadError
      | ScanValue v rest \<Rightarrow> ReadValue v rest
      | ScanEnd st fs \<Rightarrow>
          if truncated then ReadTooLarge
          else (case scan_char st fs (CHR '' '') of
                  Finished v _ \<Rightarrow> ReadValue v []
                | _ \<Rightarrow> if list_all json_space cs then ReadEOF else ReadError))"

section \<open>Unquoting\<close>

definition encode_rune :: "nat \<Rightarrow> string" where
  "encode_rune r =
     (if r < 0x80 then [unbyte r]
      else if r < 0x800 then [unbyte (0xC0 + r div 64), unbyte (0x80 + r mod 64)]
      else if 0xD800 \<le> r \<and> r < 0xE000 \<or> r > 0x10FFFF then [unbyte 0xEF, unbyte 0xBF, unbyte 0xBD]
      else if r < 0x10000 then [unbyte (0xE0 + r div 4096), unbyte (0x80 + r div 64 mod 64), unbyte (0x80 + r mod 64)]
      else [unbyte (0xF0 + r div 262144), unbyte (0x80 + r div 4096 mod 64), unbyte (0x80 + r div 64 mod 64), unbyte (0x80 + r mod 64)])"

fun hex4 :: "string \<Rightarrow> nat option" where
  "hex4 (a # b # c # d # _) =
     (case (fromHexChar a, fromHexChar b, fromHexChar c, fromHexChar d) of
        (Some w, Some x, Some y, Some z) \<Rightarrow> Some (((w * 16 + x) * 16 + y) * 16 + z)
      | _ \<Rightarrow> None)"
| "hex4 _ = None"

text \<open>The low half of a surrogate pair, when the text starts with one.\<close>

definition low_surrogate :: "string \<Rightarrow> nat option" where
  "low_surrogate s =
     (if take 2 s = [CHR 0x5C, CHR ''u'']
      then (case hex4 (drop 2 s) of
              Some r \<Rightarrow> if 0xDC00 \<le> r \<and> r < 0xE000 then Some r else None
            | None \<Rightarrow> None)
      else None)"

definition simple_escape :: "char \<Rightarrow> char" where
  "simple_escape c =
     (if c = CHR ''b'' then CHR 0x08 else if c = CHR ''f'' then CHR 0x0C else if c = CHR ''n'' then CHR 0x0A
      else if c = CHR ''r'' then CHR 0x0D else if c = CHR ''t'' then CHR 0x09 else c)"

function unescape :: "string \<Rightarrow> string" where
  "unescape [] = []"
| "unescape (c # cs) =
     (if c \<noteq> CHR 0x5C then c # unescape cs
      else (case cs of
              [] \<Rightarrow> []
            | e # rest \<Rightarrow>
                if e \<noteq> CHR ''u'' then simple_escape e # unescape rest
                else (case hex4 rest of
                        None \<Rightarrow> []
                      | Some r \<Rightarrow>
                          if 0xD800 \<le> r \<and> r < 0xDC00 then
                            (case low_surrogate (drop 4 rest) of
                               Some l \<Rightarrow> encode_rune (0x10000 + (r - 0xD800) * 1024 + (l - 0xDC00)) @ unescape (drop 10 rest)
                             | None \<Rightarrow> encode_rune r @ unescape (drop 4 rest))
                          else encode_rune r @ unescape (drop 4 rest))))"
  by pat_completeness auto
termination by (relation "measure length") auto

text \<open>Bytes that are not UTF-8 become the replacement character, as everywhere in \<^verbatim>\<open>encoding/json\<close>.\<close>

definition replace_invalid :: "string \<Rightarrow> string" where
  "replace_invalid s = concat (map (\<lambda>(r, bytes). case r of None \<Rightarrow> encode_rune RuneError | Some _ \<Rightarrow> bytes) (utf8_chunks s))"

definition unquote :: "string \<Rightarrow> string" where
  "unquote raw = unescape (replace_invalid raw)"

section \<open>Decoding into a struct\<close>

text \<open>
  A struct type is a list of fields, each with its JSON name and how a value is stored. Names
  match up to simple case folding; for the ASCII names of the sources two runes outside ASCII fold
  into it. \<open>None\<close> is an error. \<open>strict\<close> is \<^verbatim>\<open>DisallowUnknownFields\<close>.
\<close>

definition fold_rune :: "nat \<Rightarrow> nat" where
  "fold_rune r = (if 97 \<le> r \<and> r \<le> 122 then r - 32 else if r = 0x17F then 83 else if r = 0x212A then 75 else r)"

definition foldName :: "string \<Rightarrow> nat list" where
  "foldName s = map fold_rune (runes s)"

type_synonym 'a json_field = "string \<times> (json \<Rightarrow> 'a \<Rightarrow> 'a option)"

fun decode_members :: "bool \<Rightarrow> 'a json_field list \<Rightarrow> (string \<times> json) list \<Rightarrow> 'a \<Rightarrow> 'a option" where
  "decode_members strict fields [] x = Some x"
| "decode_members strict fields ((k, v) # ms) x =
     (case find (\<lambda>(name, _). foldName name = foldName (unquote k)) fields of
        None \<Rightarrow> if strict then None else decode_members strict fields ms x
      | Some (_, store) \<Rightarrow> (case store v x of None \<Rightarrow> None | Some x' \<Rightarrow> decode_members strict fields ms x'))"

fun decode_struct :: "bool \<Rightarrow> 'a json_field list \<Rightarrow> json \<Rightarrow> 'a \<Rightarrow> 'a option" where
  "decode_struct strict fields JNull x = Some x"
| "decode_struct strict fields (JObj ms) x = decode_members strict fields ms x"
| "decode_struct strict fields _ x = None"

fun string_field :: "(string \<Rightarrow> 'a \<Rightarrow> 'a) \<Rightarrow> json \<Rightarrow> 'a \<Rightarrow> 'a option" where
  "string_field upd JNull x = Some x"
| "string_field upd (JStr raw) x = Some (upd (unquote raw) x)"
| "string_field upd _ x = None"

text \<open>A pointer to a string.\<close>

fun optional_field :: "(string option \<Rightarrow> 'a \<Rightarrow> 'a) \<Rightarrow> json \<Rightarrow> 'a \<Rightarrow> 'a option" where
  "optional_field upd JNull x = Some (upd None x)"
| "optional_field upd (JStr raw) x = Some (upd (Some (unquote raw)) x)"
| "optional_field upd _ x = None"

fun int_field :: "(int64 \<Rightarrow> 'a \<Rightarrow> 'a) \<Rightarrow> json \<Rightarrow> 'a \<Rightarrow> 'a option" where
  "int_field upd JNull x = Some x"
| "int_field upd (JNum raw) x = map_option (\<lambda>n. upd n x) (strconv_ParseInt raw)"
| "int_field upd _ x = None"

text \<open>\<^verbatim>\<open>time.Time\<close>: the text between the quotes goes to the strict RFC 3339 parser as it stands.\<close>

fun time_field :: "(string \<Rightarrow> time option) \<Rightarrow> (time \<Rightarrow> 'a \<Rightarrow> 'a) \<Rightarrow> json \<Rightarrow> 'a \<Rightarrow> 'a option" where
  "time_field parse upd JNull x = Some x"
| "time_field parse upd (JStr raw) x = map_option (\<lambda>t. upd t x) (parse raw)"
| "time_field parse upd _ x = None"

fun decode_all :: "(json \<Rightarrow> 'b option) \<Rightarrow> json list \<Rightarrow> 'b list option" where
  "decode_all dec [] = Some []"
| "decode_all dec (v # vs) =
     (case dec v of None \<Rightarrow> None | Some y \<Rightarrow> (case decode_all dec vs of None \<Rightarrow> None | Some ys \<Rightarrow> Some (y # ys)))"

fun list_field :: "(json \<Rightarrow> 'b option) \<Rightarrow> ('b list \<Rightarrow> 'a \<Rightarrow> 'a) \<Rightarrow> json \<Rightarrow> 'a \<Rightarrow> 'a option" where
  "list_field dec upd JNull x = Some (upd [] x)"
| "list_field dec upd (JArr vs) x = map_option (\<lambda>ys. upd ys x) (decode_all dec vs)"
| "list_field dec upd _ x = None"

end
