(* ===== verification/Http_Message.thy ===== *)
theory Http_Message
  imports Http_Auth Go_Json Governance_Service Drive_Service
begin

text \<open>
  The requests and responses of \<^verbatim>\<open>internal/server/api.go\<close>: what the handlers read of a request,
  what they write, the parsers of query parameters, headers and JSON bodies, and the mapping of errors to
  responses. A response body is the list of values handed to the JSON encoder. The two time parsers of
  the \<^verbatim>\<open>time\<close> package are fields of \<open>Api\<close>. Header names are compared as the sources spell them.
\<close>

section \<open>Requests and responses\<close>

record HttpRequest =
  rqMethod :: string
  rqPath :: "string list"
  rqPathValue :: "string \<Rightarrow> string"
  rqHeader :: "string \<Rightarrow> string list"
  rqQuery :: "string \<Rightarrow> string list"
  rqContentLength :: int64
  rqBody :: string
  rqRequestID :: string
  rqPrincipal :: "Principal option"
  rqExternal :: "ExternalIdentity option"

definition first_value :: "string list \<Rightarrow> string" where
  "first_value vs = (case vs of [] \<Rightarrow> [] | v # _ \<Rightarrow> v)"

definition header_Get :: "HttpRequest \<Rightarrow> string \<Rightarrow> string" where
  "header_Get r name = first_value (rqHeader r name)"

definition query_Get :: "HttpRequest \<Rightarrow> string \<Rightarrow> string" where
  "query_Get r name = first_value (rqQuery r name)"

datatype jsonval =
    VNull | VBool bool | VInt int | VStr string | VTime time | VList "jsonval list" | VObj "(string \<times> jsonval) list"

record requestLogFields =
  lfTenantID :: string
  lfPrincipalID :: string
  lfErrorCode :: string

datatype LogEntry = RequestFailed ErrorCode bool | HandlerPanic

record ResponseWriter =
  rwStatus :: int
  rwHeader :: "(string, string) gomap"
  rwBody :: "jsonval list"
  rwFields :: requestLogFields
  rwLog :: "LogEntry list"

definition empty_writer :: ResponseWriter where
  "empty_writer = \<lparr>rwStatus = 0, rwHeader = gempty, rwBody = [],
     rwFields = \<lparr>lfTenantID = [], lfPrincipalID = [], lfErrorCode = []\<rparr>, rwLog = []\<rparr>"

record 's Api =
  apService :: "'s Service"
  apLib :: Lib
  apParseRFC3339 :: "string \<Rightarrow> time option"
  apStrictRFC3339 :: "string \<Rightarrow> time option"

text \<open>A handler returns after it wrote its response, or panics with whatever the writer then holds.\<close>

datatype outcome = Returned ResponseWriter | Panicked ResponseWriter string

type_synonym 's handled = "'s World \<Rightarrow> (outcome \<times> 's World) option"

type_synonym 's apiHandler = "'s Api \<Rightarrow> HttpRequest \<Rightarrow> ResponseWriter \<Rightarrow> 's handled"

definition respond :: "ResponseWriter \<Rightarrow> 's handled" where
  "respond w world = Some (Returned w, world)"

section \<open>Writing\<close>

definition header_Set :: "string \<Rightarrow> string \<Rightarrow> ResponseWriter \<Rightarrow> ResponseWriter" where
  "header_Set name v w = w\<lparr>rwHeader := gput name v (rwHeader w)\<rparr>"

text \<open>\<^verbatim>\<open>responseStatusRecorder.WriteHeader\<close>: the first status stands.\<close>

definition WriteHeader :: "int \<Rightarrow> ResponseWriter \<Rightarrow> ResponseWriter" where
  "WriteHeader status w = (if rwStatus w \<noteq> 0 then w else w\<lparr>rwStatus := status\<rparr>)"

definition encode_body :: "jsonval \<Rightarrow> ResponseWriter \<Rightarrow> ResponseWriter" where
  "encode_body v w = (let w1 = (if rwStatus w = 0 then WriteHeader 200 w else w) in w1\<lparr>rwBody := rwBody w1 @ [v]\<rparr>)"

definition writeJSON :: "int \<Rightarrow> jsonval \<Rightarrow> ResponseWriter \<Rightarrow> ResponseWriter" where
  "writeJSON status v w =
     encode_body v (WriteHeader status (header_Set ''Content-Type'' ''application/json; charset=utf-8'' w))"

definition writeData :: "int \<Rightarrow> jsonval \<Rightarrow> ResponseWriter \<Rightarrow> ResponseWriter" where
  "writeData status v = writeJSON status (VObj [(''data'', v)])"

fun statusFor :: "ErrorCode \<Rightarrow> int" where
  "statusFor CodeInvalidRequest = 400"
| "statusFor CodeInvalidCursor = 400"
| "statusFor CodeUnauthenticated = 401"
| "statusFor CodeForbidden = 403"
| "statusFor CodeNotFound = 404"
| "statusFor CodeNameConflict = 409"
| "statusFor CodeInvalidState = 409"
| "statusFor CodeIdempotencyConflict = 409"
| "statusFor CodeRestoreConflict = 409"
| "statusFor CodeRevisionMismatch = 412"
| "statusFor CodeRequestTooLarge = 413"
| "statusFor CodeUnsupportedMediaType = 415"
| "statusFor CodeDependencyUnavailable = 503"
| "statusFor CodeInternal = 500"

fun externalMessage :: "ErrorCode \<Rightarrow> string" where
  "externalMessage CodeUnauthenticated = ''a valid bearer token is required''"
| "externalMessage CodeForbidden = ''the authenticated principal is not allowed to perform this operation''"
| "externalMessage CodeNotFound = ''resource was not found''"
| "externalMessage CodeNameConflict = ''an active item with this name already exists''"
| "externalMessage CodeInvalidState = ''resource is not in a valid state for this operation''"
| "externalMessage CodeIdempotencyConflict = ''request differs from the first completed operation''"
| "externalMessage CodeRestoreConflict = ''the original location is unavailable''"
| "externalMessage CodeRequestTooLarge = ''request exceeds the allowed size''"
| "externalMessage CodeUnsupportedMediaType = ''content type must be application/json''"
| "externalMessage CodeDependencyUnavailable = ''a required dependency is unavailable''"
| "externalMessage CodeInvalidCursor = ''cursor is invalid''"
| "externalMessage CodeRevisionMismatch = ''resource revision does not match''"
| "externalMessage CodeInvalidRequest = ''request is invalid''"
| "externalMessage CodeInternal = ''internal server error''"

text \<open>\<^verbatim>\<open>errors.As(err, &domainErr)\<close>: the outermost domain error of a chain, its message and whether it can be retried.\<close>

fun domain_error :: "error \<Rightarrow> (string \<times> bool) option" where
  "domain_error (DomainError _ message retryable _) = Some (message, retryable)"
| "domain_error (OtherError _ (Some e)) = domain_error e"
| "domain_error (OtherError _ None) = None"
| "domain_error (Panic _) = None"

definition error_message :: "error \<Rightarrow> string" where
  "error_message err =
     (let code = CodeOf err
      in if code = CodeInvalidRequest \<or> code = CodeInvalidCursor \<or> code = CodeRevisionMismatch
         then (case domain_error err of Some (message, _) \<Rightarrow> message | None \<Rightarrow> externalMessage code)
         else externalMessage code)"

definition log_failure :: "error \<Rightarrow> ResponseWriter \<Rightarrow> ResponseWriter" where
  "log_failure err w =
     (if statusFor (CodeOf err) \<ge> 500
      then w\<lparr>rwLog := rwLog w @ [RequestFailed (CodeOf err) (case domain_error err of Some (_, retryable) \<Rightarrow> retryable | None \<Rightarrow> False)]\<rparr>
      else w)"

definition writeError :: "HttpRequest \<Rightarrow> error \<Rightarrow> ResponseWriter \<Rightarrow> ResponseWriter" where
  "writeError r err w =
     (let code = CodeOf err;
          w1 = w\<lparr>rwFields := (rwFields w)\<lparr>lfErrorCode := ErrorCode_string code\<rparr>\<rparr>
      in writeJSON (statusFor code)
           (VObj [(''error'', VObj [(''code'', VStr (ErrorCode_string code)), (''message'', VStr (error_message err)),
                                   (''request_id'', VStr (rqRequestID r))])])
           (log_failure err w1))"

text \<open>
  \<^verbatim>\<open>if err != nil { a.writeError(w, r, err); return }\<close> after each call of a handler. A panic is no
  error value: it leaves the handler for \<^verbatim>\<open>recover\<close>.
\<close>

definition on_error :: "HttpRequest \<Rightarrow> ResponseWriter \<Rightarrow> ('s, ResponseWriter) svc \<Rightarrow> 's handled" where
  "on_error r w m world =
     (case m world of
        None \<Rightarrow> None
      | Some (Inr w', world') \<Rightarrow> Some (Returned w', world')
      | Some (Inl (Panic message), world') \<Rightarrow> Some (Panicked w message, world')
      | Some (Inl err, world') \<Rightarrow> Some (Returned (writeError r err w), world'))"

definition setETag :: "int64 \<Rightarrow> ResponseWriter \<Rightarrow> ResponseWriter" where
  "setETag revision = header_Set ''ETag'' ([CHR 0x22] @ show_int revision @ [CHR 0x22])"

definition nullableString :: "string \<Rightarrow> jsonval" where
  "nullableString s = (if s = [] then VNull else VStr s)"

definition nullableInt64 :: "int64 \<Rightarrow> jsonval" where
  "nullableInt64 n = (if n = 0 then VNull else VInt n)"

section \<open>Reading\<close>

definition parseLimit :: "string \<Rightarrow> int result" where
  "parseLimit s =
     (if s = [] then Inr 50
      else (case strconv_ParseInt s of
              Some limit \<Rightarrow>
                if limit < 1 \<or> limit > 200 then Inl (E CodeInvalidRequest ''limit must be between 1 and 200'') else Inr limit
            | None \<Rightarrow> Inl (E CodeInvalidRequest ''limit must be between 1 and 200'')))"

definition parsePartListLimit :: "string \<Rightarrow> int result" where
  "parsePartListLimit s =
     (if s = [] then Inr 0
      else (case strconv_ParseInt s of
              Some limit \<Rightarrow>
                if limit < 1 \<or> limit > MaxUploadParts then Inl (E CodeInvalidRequest ''limit must be between 1 and 10000'')
                else Inr limit
            | None \<Rightarrow> Inl (E CodeInvalidRequest ''limit must be between 1 and 10000'')))"

definition parseETag :: "string \<Rightarrow> int64 result" where
  "parseETag s =
     (if length s < 3 \<or> hd s \<noteq> CHR 0x22 \<or> last s \<noteq> CHR 0x22
      then Inl (E CodeInvalidRequest ''If-Match must contain a quoted revision'')
      else (case strconv_ParseInt (butlast (tl s)) of
              Some revision \<Rightarrow>
                if revision \<le> 0 then Inl (E CodeInvalidRequest ''If-Match must contain a quoted revision'') else Inr revision
            | None \<Rightarrow> Inl (E CodeInvalidRequest ''If-Match must contain a quoted revision'')))"

definition parseIdempotencyKey :: "HttpRequest \<Rightarrow> string result" where
  "parseIdempotencyKey r =
     (case rqHeader r ''Idempotency-Key'' of
        [] \<Rightarrow> Inr []
      | [key] \<Rightarrow> (case ValidateIdempotencyKey key of Inl e \<Rightarrow> Inl e | Inr _ \<Rightarrow> Inr key)
      | _ \<Rightarrow> Inl (E CodeInvalidRequest ''Idempotency-Key must be provided at most once''))"

definition parseOptionalTime :: "'s Api \<Rightarrow> string \<Rightarrow> time result" where
  "parseOptionalTime a raw =
     (if raw = [] then Inr 0
      else (case apParseRFC3339 a raw of
              None \<Rightarrow> Inl (E CodeInvalidRequest ''time filter must use RFC3339'')
            | Some t \<Rightarrow> Inr t))"

definition parse_after :: "string \<Rightarrow> int64 result" where
  "parse_after raw =
     (if raw = [] then Inr 0
      else (case strconv_ParseInt raw of
              Some n \<Rightarrow> if n < 0 then Inl (E CodeInvalidRequest ''after_sequence is invalid'') else Inr n
            | None \<Rightarrow> Inl (E CodeInvalidRequest ''after_sequence is invalid'')))"

definition parseAuditFilter :: "'s Api \<Rightarrow> HttpRequest \<Rightarrow> (int64 \<times> time \<times> time \<times> int) result" where
  "parseAuditFilter a r =
     (case parse_after (query_Get r ''after_sequence'') of
        Inl e \<Rightarrow> Inl e
      | Inr after \<Rightarrow>
          (case parseLimit (query_Get r ''limit'') of
             Inl e \<Rightarrow> Inl e
           | Inr limit \<Rightarrow>
               (case parseOptionalTime a (query_Get r ''from'') of
                  Inl e \<Rightarrow> Inl e
                | Inr from_time \<Rightarrow>
                    (case parseOptionalTime a (query_Get r ''until'') of
                       Inl e \<Rightarrow> Inl e
                     | Inr until_time \<Rightarrow> Inr (after, from_time, until_time, limit)))))"

definition maxJSONBody :: nat where
  "maxJSONBody = 1048576"

definition decodeJSON :: "'s Api \<Rightarrow> HttpRequest \<Rightarrow> 'a json_field list \<Rightarrow> 'a \<Rightarrow> nat \<Rightarrow> bool \<Rightarrow> 'a result" where
  "decodeJSON a r fs zero limit allowEmpty =
     (if lib_ParseMediaType (apLib a) (header_Get r ''Content-Type'') \<noteq> Some ''application/json''
      then Inl (E CodeUnsupportedMediaType ''content type must be application/json'')
      else
        let truncated = length (rqBody r) > limit;
            invalid = E CodeInvalidRequest ''request body must be a valid JSON object''
        in (case next_value truncated (take limit (rqBody r)) of
              ReadTooLarge \<Rightarrow> Inl (E CodeRequestTooLarge ''request body exceeds the allowed size'')
            | ReadEOF \<Rightarrow> if allowEmpty then Inr zero else Inl invalid
            | ReadError \<Rightarrow> Inl invalid
            | ReadValue v rest \<Rightarrow>
                (case decode_struct True fs v zero of
                   None \<Rightarrow> Inl invalid
                 | Some x \<Rightarrow>
                     if next_value truncated rest = ReadEOF then Inr x
                     else Inl (E CodeInvalidRequest ''request body must contain one JSON object''))))"

definition identity :: "HttpRequest \<Rightarrow> Identity" where
  "identity r = (case rqPrincipal r of None \<Rightarrow> \<lparr>iTenantID = [], iPrincipalID = []\<rparr> | Some p \<Rightarrow> prIdentity p)"

definition memberActor :: "HttpRequest \<Rightarrow> MemberActor" where
  "memberActor r =
     (let p = (case rqPrincipal r of None \<Rightarrow> zero_Principal | Some p \<Rightarrow> p)
      in \<lparr>maIdentity = prIdentity p, maRole = prRole p\<rparr>)"

text \<open>\<^verbatim>\<open>auth.FromContext\<close> in the handlers that answer 401 without a principal.\<close>

definition fromContext :: "HttpRequest \<Rightarrow> Principal result" where
  "fromContext r =
     (case rqPrincipal r of
        None \<Rightarrow> Inl (E CodeUnauthenticated ''a valid bearer token is required'')
      | Some p \<Rightarrow> Inr p)"

end
