(* ===== verification/Http_Api.thy ===== *)
theory Http_Api
  imports Http_Message
begin

text \<open>
  The handlers of \<^verbatim>\<open>internal/server/api.go\<close>, in the order of the file: the response documents, then
  one definition per handler. A handler reads the request, calls the service and writes the response;
  \<open>on_error\<close> writes the error of the first step that fails. No handler writes before its last
  step can fail, so the writer an error meets is the one the handler was given.
\<close>

section \<open>Enumerations on the wire\<close>

fun UploadStatus_string :: "UploadStatus \<Rightarrow> string" where
  "UploadStatus_string UploadCreated = ''created''"
| "UploadStatus_string UploadUploading = ''uploading''"
| "UploadStatus_string UploadCompleting = ''completing''"
| "UploadStatus_string UploadObjectCompleted = ''object_completed''"
| "UploadStatus_string UploadCommitted = ''committed''"
| "UploadStatus_string UploadAborted = ''aborted''"
| "UploadStatus_string UploadExpired = ''expired''"
| "UploadStatus_string UploadFailed = ''failed''"
| "UploadStatus_string (UploadStatusOther s) = s"

fun InvitationStatus_string :: "InvitationStatus \<Rightarrow> string" where
  "InvitationStatus_string InvitationPending = ''pending''"
| "InvitationStatus_string InvitationAccepted = ''accepted''"
| "InvitationStatus_string InvitationRevoked = ''revoked''"
| "InvitationStatus_string InvitationExpired = ''expired''"
| "InvitationStatus_string (InvitationOther s) = s"

text \<open>A Go string type holds any string; these name the constructor of a string.\<close>

definition enum_of :: "('e \<Rightarrow> string) \<Rightarrow> 'e list \<Rightarrow> (string \<Rightarrow> 'e) \<Rightarrow> string \<Rightarrow> 'e" where
  "enum_of name known other s = (case find (\<lambda>e. name e = s) known of Some e \<Rightarrow> e | None \<Rightarrow> other s)"

definition AccessRole_of :: "string \<Rightarrow> AccessRole" where
  "AccessRole_of = enum_of AccessRole_string [RoleOwner, RoleAdmin, RoleEditor, RoleViewer] RoleOther"

definition MemberStatus_of :: "string \<Rightarrow> MemberStatus" where
  "MemberStatus_of = enum_of MemberStatus_string [MemberStatusActive, MemberStatusSuspended] MemberStatusOther"

definition InvitationStatus_of :: "string \<Rightarrow> InvitationStatus" where
  "InvitationStatus_of = enum_of InvitationStatus_string
     [InvitationPending, InvitationAccepted, InvitationRevoked, InvitationExpired] InvitationOther"

definition ACLSubjectType_of :: "string \<Rightarrow> ACLSubjectType" where
  "ACLSubjectType_of = enum_of ACLSubjectType_string [ACLSubjectPrincipal, ACLSubjectGroup] ACLSubjectOther"

definition ACLRole_of :: "string \<Rightarrow> ACLRole" where
  "ACLRole_of = enum_of ACLRole_string [ACLReader, ACLContributor, ACLManager] ACLRoleOther"

section \<open>Response documents\<close>

text \<open>A field tagged \<^verbatim>\<open>omitempty\<close> is left out when it holds the zero value.\<close>

definition omit_string :: "string \<Rightarrow> string \<Rightarrow> (string \<times> jsonval) list" where
  "omit_string name s = (if s = [] then [] else [(name, VStr s)])"

definition omit_int :: "string \<Rightarrow> int \<Rightarrow> (string \<times> jsonval) list" where
  "omit_int name n = (if n = 0 then [] else [(name, VInt n)])"

definition tenantResponse :: "Tenant \<Rightarrow> jsonval" where
  "tenantResponse t = VObj [(''id'', VStr (tID t)), (''display_name'', VStr (tDisplayName t)),
     (''root_directory_id'', VStr (tRootNodeID t)), (''created_at'', VTime (tCreatedAt t))]"

definition toMemberResponse :: "PrincipalRecord \<Rightarrow> jsonval" where
  "toMemberResponse m = VObj [(''principal_id'', VStr (iPrincipalID (pIdentity m))), (''display_name'', VStr (pDisplayName m)),
     (''role'', VStr (AccessRole_string (pRole m))), (''status'', VStr (MemberStatus_string (pStatus m)))]"

definition toInvitationResponse :: "TenantInvitation \<Rightarrow> jsonval" where
  "toInvitationResponse v = VObj [(''id'', VStr (inID v)), (''issuer'', VStr (inIssuer v)), (''subject'', VStr (inSubject v)),
     (''display_name'', VStr (inDisplayName v)), (''role'', VStr (AccessRole_string (inRole v))),
     (''status'', VStr (InvitationStatus_string (inStatus v))), (''expires_at'', VTime (inExpiresAt v)),
     (''created_at'', VTime (inCreatedAt v))]"

definition toGroupResponse :: "TenantGroup \<Rightarrow> jsonval" where
  "toGroupResponse g = VObj [(''id'', VStr (gID g)), (''name'', VStr (gDisplayName g)), (''created_at'', VTime (gCreatedAt g)),
     (''updated_at'', VTime (gUpdatedAt g))]"

definition toACLResponse :: "NodeACLEntry \<Rightarrow> jsonval" where
  "toACLResponse e = VObj [(''id'', VStr (aID e)), (''node_id'', VStr (aNodeID e)),
     (''subject_type'', VStr (ACLSubjectType_string (aSubjectType e))), (''subject_id'', VStr (aSubjectID e)),
     (''role'', VStr (ACLRole_string (aRole e))), (''created_at'', VTime (aCreatedAt e)), (''updated_at'', VTime (aUpdatedAt e))]"

definition string_map :: "(string, string) gomap \<Rightarrow> jsonval" where
  "string_map m = VObj (map (\<lambda>(k, v). (k, VStr v)) (gentries m))"

definition toAuditResponse :: "AuditEvent \<Rightarrow> jsonval" where
  "toAuditResponse e = VObj ([(''sequence'', VInt (evSequence e)), (''id'', VStr (evID e))]
     @ omit_string ''actor_principal_id'' (evActorPrincipalID e)
     @ [(''action'', VStr (evAction e)), (''target_type'', VStr (evTargetType e))]
     @ omit_string ''target_id'' (evTargetID e) @ omit_string ''request_id'' (evRequestID e)
     @ [(''metadata'', (case evMetadata e of None \<Rightarrow> VNull | Some m \<Rightarrow> string_map m)), (''occurred_at'', VTime (evOccurredAt e))])"

definition toNodeResponse :: "Node \<Rightarrow> jsonval" where
  "toNodeResponse n = VObj ([(''id'', VStr (nID n))] @ omit_string ''parent_id'' (nParentID n)
     @ [(''kind'', VStr (NodeKind_string (nKind n))), (''name'', VStr (nDisplayName n))]
     @ omit_int ''size'' (nSize n) @ omit_string ''mime_type'' (nMimeType n)
     @ [(''revision'', VInt (nRevision n)), (''created_at'', VTime (nCreatedAt n)), (''updated_at'', VTime (nUpdatedAt n))])"

definition toUploadResponse :: "UploadSession \<Rightarrow> jsonval" where
  "toUploadResponse u = VObj [(''id'', VStr (uID u)), (''parent_id'', VStr (uParentID u)), (''name'', VStr (uDisplayName u)),
     (''expected_size'', VInt (uExpectedSize u)), (''mime_type'', VStr (uMimeType u)),
     (''status'', VStr (UploadStatus_string (uStatus u))), (''part_size'', VInt (uPartSize u)),
     (''expires_at'', VTime (uExpiresAt u)), (''committed_file_id'', nullableString (uCommittedNodeID u))]"

definition listedPartResponse :: "StoredPart \<Rightarrow> jsonval" where
  "listedPartResponse p = VObj ([(''part_number'', VInt (spPartNumber p)), (''etag'', VStr (spETag p)), (''size'', VInt (spSize p))]
     @ omit_string ''storage_sha256'' (cValue (spStorageChecksum p)) @ [(''reusable'', VBool (spReusable p))])"

definition uploadPartsResponse :: "UploadPartListing \<Rightarrow> jsonval" where
  "uploadPartsResponse l = VObj [(''upload_id'', VStr (plUploadID l)), (''status'', VStr (UploadStatus_string (plStatus l))),
     (''part_size'', VInt (plPartSize l)), (''parts'', VList (map listedPartResponse (plParts l))), (''complete'', VBool (plComplete l))]"

definition page_body :: "jsonval list \<Rightarrow> string \<Rightarrow> jsonval \<Rightarrow> jsonval" where
  "page_body items name v = VObj [(''data'', VList items), (''page'', VObj [(name, v)])]"

section \<open>Status and tenant\<close>

definition health :: "'s apiHandler" where
  "health a r w = respond (writeJSON 200 (VObj [(''service'', VStr ''asteria-server''), (''status'', VStr ''ok'')]) w)"

definition ready :: "'s apiHandler" where
  "ready a r w = on_error r w (
     sbind (attempt (Service_Ready (apService a))) (\<lambda>res.
       (case res of
          Inl (Panic message) \<Rightarrow> fail (Panic message)
        | Inl _ \<Rightarrow> ret (writeJSON 503 (VObj [(''service'', VStr ''asteria-server''), (''status'', VStr ''not_ready'')]) w)
        | Inr _ \<Rightarrow> ret (writeJSON 200 (VObj [(''service'', VStr ''asteria-server''), (''status'', VStr ''ready'')]) w))))"

definition notFound :: "'s apiHandler" where
  "notFound a r w = respond (writeError r (E CodeNotFound ''API route was not found'') w)"

definition getTenant :: "'s apiHandler" where
  "getTenant a r w = on_error r w (
     sbind (Service_Tenant (iTenantID (identity r))) (\<lambda>tenant.
     ret (writeData 200 (tenantResponse tenant) w)))"

section \<open>Members and invitations\<close>

definition listMembers :: "'s apiHandler" where
  "listMembers a r w = on_error r w (
     sbind (of_result (parseLimit (query_Get r ''limit''))) (\<lambda>limit.
     sbind (Service_ListMembers (apLib a) (apService a) (identity r) (query_Get r ''cursor'') limit) (\<lambda>page.
     ret (writeJSON 200 (page_body (map toMemberResponse (pgItems page)) ''next_cursor'' (nullableString (pgNextCursor page))) w))))"

record member_input =
  miRole :: "AccessRole option"
  miStatus :: "MemberStatus option"

definition member_input_fields :: "member_input json_field list" where
  "member_input_fields =
     [(''role'', optional_field (\<lambda>s x. x\<lparr>miRole := map_option AccessRole_of s\<rparr>)),
      (''status'', optional_field (\<lambda>s x. x\<lparr>miStatus := map_option MemberStatus_of s\<rparr>))]"

definition actor_of :: "Principal \<Rightarrow> MemberActor" where
  "actor_of p = \<lparr>maIdentity = prIdentity p, maRole = prRole p\<rparr>"

definition updateMember :: "'s apiHandler" where
  "updateMember a r w = on_error r w (
     sbind (of_result (decodeJSON a r member_input_fields \<lparr>miRole = None, miStatus = None\<rparr> maxJSONBody False)) (\<lambda>input.
     sbind (of_result (fromContext r)) (\<lambda>p.
     sbind (Service_UpdateMember (rqRequestID r) (actor_of p) (rqPathValue r ''principal_id'') (miRole input) (miStatus input)) (\<lambda>member.
     ret (writeData 200 (toMemberResponse member) w)))))"

definition deleteMember :: "'s apiHandler" where
  "deleteMember a r w = on_error r w (
     sbind (of_result (fromContext r)) (\<lambda>p.
     sbind (Service_DeleteMember (rqRequestID r) (actor_of p) (rqPathValue r ''principal_id'')) (\<lambda>_.
     ret (WriteHeader 204 w))))"

record invitation_input =
  iiIssuer :: string
  iiSubject :: string
  iiDisplayName :: string
  iiRole :: AccessRole
  iiExpiresAt :: time

definition invitation_input_fields :: "'s Api \<Rightarrow> invitation_input json_field list" where
  "invitation_input_fields a =
     [(''issuer'', string_field (\<lambda>s x. x\<lparr>iiIssuer := s\<rparr>)), (''subject'', string_field (\<lambda>s x. x\<lparr>iiSubject := s\<rparr>)),
      (''display_name'', string_field (\<lambda>s x. x\<lparr>iiDisplayName := s\<rparr>)), (''role'', string_field (\<lambda>s x. x\<lparr>iiRole := AccessRole_of s\<rparr>)),
      (''expires_at'', time_field (apStrictRFC3339 a) (\<lambda>t x. x\<lparr>iiExpiresAt := t\<rparr>))]"

definition createInvitation :: "'s apiHandler" where
  "createInvitation a r w = on_error r w (
     sbind (of_result (decodeJSON a r (invitation_input_fields a)
         \<lparr>iiIssuer = [], iiSubject = [], iiDisplayName = [], iiRole = RoleOther [], iiExpiresAt = 0\<rparr> maxJSONBody False)) (\<lambda>input.
     sbind (of_result (fromContext r)) (\<lambda>p.
     sbind (Service_CreateInvitation (apLib a) (rqRequestID r) (actor_of p) (iiIssuer input) (iiSubject input)
              (iiDisplayName input) (iiRole input) (iiExpiresAt input)) (\<lambda>out.
     ret (writeData 201 (VObj [(''invitation'', toInvitationResponse (ioInvitation out)), (''token'', VStr (ioToken out))]) w)))))"

definition listInvitations :: "'s apiHandler" where
  "listInvitations a r w = on_error r w (
     sbind (of_result (fromContext r)) (\<lambda>p.
     sbind (Service_ListInvitations (actor_of p) (InvitationStatus_of (query_Get r ''status'')) 100) (\<lambda>items.
     ret (writeJSON 200 (VObj [(''data'', VList (map toInvitationResponse items))]) w))))"

definition revokeInvitation :: "'s apiHandler" where
  "revokeInvitation a r w = on_error r w (
     sbind (of_result (fromContext r)) (\<lambda>p.
     sbind (Service_RevokeInvitation (rqRequestID r) (actor_of p) (rqPathValue r ''invitation_id'')) (\<lambda>v.
     ret (writeData 200 (toInvitationResponse v) w))))"

text \<open>Bodies with one string field, and bodies with no field at all.\<close>

definition single_field :: "string \<Rightarrow> string json_field list" where
  "single_field name = [(name, string_field (\<lambda>s _. s))]"

definition acceptInvitation :: "'s apiHandler" where
  "acceptInvitation a r w = on_error r w (
     sbind (of_result (decodeJSON a r (single_field ''token'') [] maxJSONBody False)) (\<lambda>token.
     sbind (of_result (case rqExternal r of
         None \<Rightarrow> Inl (E CodeUnauthenticated ''a verified external identity is required'') | Some x \<Rightarrow> Inr x)) (\<lambda>x.
     sbind (Service_AcceptInvitation (apLib a) (rqRequestID r) token (eiIssuer x) (eiSubject x)) (\<lambda>(invitation, member).
     ret (writeData 200 (VObj [(''tenant_id'', VStr (inTenantID invitation)), (''member'', toMemberResponse member)]) w)))))"

section \<open>Groups\<close>

definition createGroup :: "'s apiHandler" where
  "createGroup a r w = on_error r w (
     sbind (of_result (decodeJSON a r (single_field ''name'') [] maxJSONBody False)) (\<lambda>name.
     sbind (Service_CreateGroup (apLib a) (rqRequestID r) (memberActor r) name) (\<lambda>group.
     ret (writeData 201 (toGroupResponse group) (header_Set ''Location'' (''/api/v1/tenant/groups/'' @ gID group) w)))))"

definition listGroups :: "'s apiHandler" where
  "listGroups a r w = on_error r w (
     sbind (Service_ListGroups (memberActor r)) (\<lambda>groups.
     ret (writeJSON 200 (VObj [(''data'', VList (map toGroupResponse groups))]) w)))"

definition updateGroup :: "'s apiHandler" where
  "updateGroup a r w = on_error r w (
     sbind (of_result (decodeJSON a r (single_field ''name'') [] maxJSONBody False)) (\<lambda>name.
     sbind (Service_UpdateGroup (apLib a) (rqRequestID r) (memberActor r) (rqPathValue r ''group_id'') name) (\<lambda>group.
     ret (writeData 200 (toGroupResponse group) w))))"

definition deleteGroup :: "'s apiHandler" where
  "deleteGroup a r w = on_error r w (
     sbind (Service_DeleteGroup (rqRequestID r) (memberActor r) (rqPathValue r ''group_id'')) (\<lambda>_.
     ret (WriteHeader 204 w)))"

definition listGroupMembers :: "'s apiHandler" where
  "listGroupMembers a r w = on_error r w (
     sbind (Service_ListGroupMembers (memberActor r) (rqPathValue r ''group_id'')) (\<lambda>members.
     ret (writeJSON 200 (VObj [(''data'', VList (map toMemberResponse members))]) w)))"

definition addGroupMember :: "'s apiHandler" where
  "addGroupMember a r w = on_error r w (
     sbind (Service_AddGroupMember (rqRequestID r) (memberActor r) (rqPathValue r ''group_id'') (rqPathValue r ''principal_id'')) (\<lambda>_.
     ret (WriteHeader 204 w)))"

definition removeGroupMember :: "'s apiHandler" where
  "removeGroupMember a r w = on_error r w (
     sbind (Service_RemoveGroupMember (rqRequestID r) (memberActor r) (rqPathValue r ''group_id'') (rqPathValue r ''principal_id'')) (\<lambda>_.
     ret (WriteHeader 204 w)))"

section \<open>Access control lists\<close>

definition listNodeACL :: "'s apiHandler" where
  "listNodeACL a r w = on_error r w (
     sbind (Service_ListNodeACL (memberActor r) (rqPathValue r ''id'')) (\<lambda>entries.
     ret (writeJSON 200 (VObj [(''data'', VList (map toACLResponse entries))]) w)))"

record acl_input =
  aiSubjectType :: ACLSubjectType
  aiSubjectID :: string
  aiRole :: ACLRole

definition acl_input_fields :: "acl_input json_field list" where
  "acl_input_fields =
     [(''subject_type'', string_field (\<lambda>s x. x\<lparr>aiSubjectType := ACLSubjectType_of s\<rparr>)),
      (''subject_id'', string_field (\<lambda>s x. x\<lparr>aiSubjectID := s\<rparr>)), (''role'', string_field (\<lambda>s x. x\<lparr>aiRole := ACLRole_of s\<rparr>))]"

definition setNodeACL :: "'s apiHandler" where
  "setNodeACL a r w = on_error r w (
     sbind (of_result (decodeJSON a r acl_input_fields
         \<lparr>aiSubjectType = ACLSubjectOther [], aiSubjectID = [], aiRole = ACLRoleOther []\<rparr> maxJSONBody False)) (\<lambda>input.
     sbind (Service_SetNodeACL (rqRequestID r) (memberActor r) (rqPathValue r ''id'') (aiSubjectType input) (aiSubjectID input)
              (aiRole input)) (\<lambda>entry.
     ret (writeData 200 (toACLResponse entry) w))))"

definition deleteNodeACL :: "'s apiHandler" where
  "deleteNodeACL a r w = on_error r w (
     sbind (Service_DeleteNodeACL (rqRequestID r) (memberActor r) (rqPathValue r ''id'') (rqPathValue r ''entry_id'')) (\<lambda>_.
     ret (WriteHeader 204 w)))"

section \<open>Audit log\<close>

definition listAuditEvents :: "'s apiHandler" where
  "listAuditEvents a r w = on_error r w (
     sbind (of_result (parseAuditFilter a r)) (\<lambda>(after, from_time, until_time, limit).
     sbind (Service_ListAudit (memberActor r) after from_time until_time limit) (\<lambda>page.
     ret (writeJSON 200 (page_body (map toAuditResponse (apItems page)) ''next_sequence'' (nullableInt64 (apNextSequence page))) w))))"

definition maxExport :: nat where
  "maxExport = 10000"

partial_function (option) export_loop ::
  "MemberActor \<Rightarrow> time \<Rightarrow> time \<Rightarrow> AuditEvent list \<Rightarrow> int64 \<Rightarrow> 's World \<Rightarrow> (AuditEvent list result \<times> 's World) option" where
  "export_loop actor from_time until_time events after world =
     (if length events \<le> maxExport then
        (case Service_ListAudit actor after from_time until_time 1000 world of
           None \<Rightarrow> None
         | Some (Inl err, world') \<Rightarrow> Some (Inl err, world')
         | Some (Inr page, world') \<Rightarrow>
             if apNextSequence page = 0 then Some (Inr (events @ apItems page), world')
             else export_loop actor from_time until_time (events @ apItems page) (apNextSequence page) world')
      else Some (Inr events, world))"

declare export_loop.simps [code]

definition export_range :: "'s Api \<Rightarrow> HttpRequest \<Rightarrow> (time \<times> time) result" where
  "export_range a r =
     (case parseAuditFilter a r of
        Inl e \<Rightarrow> Inl e
      | Inr (_, from_time, until_time, _) \<Rightarrow>
          if from_time = 0 \<or> until_time = 0 then Inl (E CodeInvalidRequest ''audit export requires from and until'')
          else Inr (from_time, until_time))"

definition exportAuditEvents :: "'s apiHandler" where
  "exportAuditEvents a r w = on_error r w (
     sbind (of_result (export_range a r)) (\<lambda>(from_time, until_time).
     sbind (export_loop (memberActor r) from_time until_time [] 0) (\<lambda>events.
     if length events > maxExport
     then fail (E CodeInvalidRequest ''audit export exceeds 10000 events; narrow the time range'')
     else ret (fold (\<lambda>e. encode_body (toAuditResponse e)) events
            (WriteHeader 200 (header_Set ''X-Content-Type-Options'' ''nosniff''
              (header_Set ''Content-Disposition'' (''attachment; filename='' @ [CHR 0x22] @ ''asteria-audit.ndjson'' @ [CHR 0x22])
                (header_Set ''Content-Type'' ''application/x-ndjson'' w))))))))"

section \<open>Authorization inside handlers\<close>

definition authorizeACLElevation :: "HttpRequest \<Rightarrow> string \<Rightarrow> Permission \<Rightarrow> NodeCapability \<Rightarrow> ('s, unit) svc" where
  "authorizeACLElevation r nodeID permission capability =
     sbind (of_result (fromContext r)) (\<lambda>p.
       if HasPermission p permission then ret ()
       else Service_AuthorizeNode (prIdentity p) nodeID capability)"

definition authorizeUploadElevation :: "HttpRequest \<Rightarrow> string \<Rightarrow> Permission \<Rightarrow> NodeCapability \<Rightarrow> ('s, unit) svc" where
  "authorizeUploadElevation r uploadID permission capability =
     sbind (of_result (fromContext r)) (\<lambda>p.
       if HasPermission p permission then ret ()
       else sbind (Service_Upload (prIdentity p) uploadID) (\<lambda>upload.
              Service_AuthorizeNode (prIdentity p) (uParentID upload) capability))"

section \<open>Directories, files and nodes\<close>

record directory_input =
  dirParentID :: string
  dirName :: string

definition directory_input_fields :: "directory_input json_field list" where
  "directory_input_fields =
     [(''parent_id'', string_field (\<lambda>s x. x\<lparr>dirParentID := s\<rparr>)), (''name'', string_field (\<lambda>s x. x\<lparr>dirName := s\<rparr>))]"

definition replayed_header :: "string \<Rightarrow> bool \<Rightarrow> ResponseWriter \<Rightarrow> ResponseWriter" where
  "replayed_header key replayed w =
     (if key \<noteq> [] then header_Set ''Idempotency-Replayed'' (if replayed then ''true'' else ''false'') w else w)"

definition createDirectory :: "'s apiHandler" where
  "createDirectory a r w = on_error r w (
     sbind (of_result (decodeJSON a r directory_input_fields \<lparr>dirParentID = [], dirName = []\<rparr> maxJSONBody False)) (\<lambda>input.
     sbind (authorizeACLElevation r (dirParentID input) PermissionFilesWrite NodeCapabilityWrite) (\<lambda>_.
     sbind (of_result (parseIdempotencyKey r)) (\<lambda>key.
     sbind (Service_CreateDirectoryWithIdempotency (apLib a) (apService a) (rqRequestID r) (identity r) (dirParentID input)
              (dirName input) key) (\<lambda>output.
     ret (writeData 201 (toNodeResponse (doNode output))
            (setETag (nRevision (doNode output))
              (header_Set ''Location'' (''/api/v1/directories/'' @ nID (doNode output))
                (replayed_header key (doReplayed output) w)))))))))"

definition respond_node :: "int \<Rightarrow> ResponseWriter \<Rightarrow> Node \<Rightarrow> ('s, ResponseWriter) svc" where
  "respond_node status w node = ret (writeData status (toNodeResponse node) (setETag (nRevision node) w))"

definition getDirectory :: "'s apiHandler" where
  "getDirectory a r w = on_error r w (
     sbind (Service_Node (identity r) (rqPathValue r ''id'') NodeDirectory) (respond_node 200 w))"

definition getFile :: "'s apiHandler" where
  "getFile a r w = on_error r w (
     sbind (Service_Node (identity r) (rqPathValue r ''id'') NodeFile) (respond_node 200 w))"

definition listChildren :: "'s apiHandler" where
  "listChildren a r w = on_error r w (
     sbind (of_result (parseLimit (query_Get r ''limit''))) (\<lambda>limit.
     sbind (Service_ListChildren (apLib a) (apService a) (identity r) (rqPathValue r ''id'') (query_Get r ''cursor'') limit) (\<lambda>page.
     ret (writeJSON 200 (page_body (map toNodeResponse (pgItems page)) ''next_cursor'' (nullableString (pgNextCursor page))) w))))"

record node_input =
  niName :: "string option"
  niParentID :: "string option"

definition node_input_fields :: "node_input json_field list" where
  "node_input_fields =
     [(''name'', optional_field (\<lambda>s x. x\<lparr>niName := s\<rparr>)), (''parent_id'', optional_field (\<lambda>s x. x\<lparr>niParentID := s\<rparr>))]"

definition updateNode :: "'s apiHandler" where
  "updateNode a r w = on_error r w (
     sbind (of_result (parseETag (header_Get r ''If-Match''))) (\<lambda>revision.
     sbind (of_result (decodeJSON a r node_input_fields \<lparr>niName = None, niParentID = None\<rparr> maxJSONBody False)) (\<lambda>input.
     sbind (authorizeACLElevation r (rqPathValue r ''id'') PermissionFilesWrite NodeCapabilityWrite) (\<lambda>_.
     sbind (case niParentID input of
              None \<Rightarrow> ret ()
            | Some parentID \<Rightarrow> authorizeACLElevation r parentID PermissionFilesWrite NodeCapabilityWrite) (\<lambda>_.
     sbind (Service_UpdateNode (apLib a) (rqRequestID r) (identity r) (rqPathValue r ''id'') (niName input) (niParentID input) revision)
       (respond_node 200 w))))))"

section \<open>Uploads and downloads\<close>

definition checksum_fields :: "Checksum json_field list" where
  "checksum_fields =
     [(''algorithm'', string_field (\<lambda>s x. x\<lparr>cAlgorithm := s\<rparr>)), (''value'', string_field (\<lambda>s x. x\<lparr>cValue := s\<rparr>))]"

definition upload_input_fields :: "CreateUploadInput json_field list" where
  "upload_input_fields =
     [(''parent_id'', string_field (\<lambda>s x. x\<lparr>ciParentID := s\<rparr>)), (''name'', string_field (\<lambda>s x. x\<lparr>ciName := s\<rparr>)),
      (''size'', int_field (\<lambda>n x. x\<lparr>ciSize := n\<rparr>)), (''mime_type'', string_field (\<lambda>s x. x\<lparr>ciMimeType := s\<rparr>)),
      (''checksum'', \<lambda>v x. map_option (\<lambda>c. x\<lparr>ciChecksum := c\<rparr>) (decode_struct True checksum_fields v (ciChecksum x)))]"

definition createUpload :: "'s apiHandler" where
  "createUpload a r w = on_error r w (
     sbind (of_result (decodeJSON a r upload_input_fields
         \<lparr>ciParentID = [], ciName = [], ciSize = 0, ciMimeType = [], ciChecksum = zero_Checksum\<rparr> maxJSONBody False)) (\<lambda>input.
     sbind (authorizeACLElevation r (ciParentID input) PermissionFilesWrite NodeCapabilityWrite) (\<lambda>_.
     sbind (of_result (parseIdempotencyKey r)) (\<lambda>key.
     sbind (Service_CreateUploadWithIdempotency (apLib a) (apService a) (identity r) input key) (\<lambda>output.
     ret (writeData 201 (toUploadResponse (uoUpload output))
            (header_Set ''Location'' (''/api/v1/uploads/'' @ uID (uoUpload output)) (replayed_header key (uoReplayed output) w))))))))"

definition getUpload :: "'s apiHandler" where
  "getUpload a r w = on_error r w (
     sbind (Service_Upload (identity r) (rqPathValue r ''id'')) (\<lambda>upload.
     ret (writeData 200 (toUploadResponse upload) w)))"

definition listUploadParts :: "'s apiHandler" where
  "listUploadParts a r w = on_error r w (
     sbind (of_result (parsePartListLimit (query_Get r ''limit''))) (\<lambda>limit.
     sbind (Service_ListUploadParts (apService a) (identity r) (rqPathValue r ''id'') limit) (\<lambda>listing.
     ret (writeData 200 (uploadPartsResponse listing) (header_Set ''Cache-Control'' ''no-store'' w)))))"

record sign_input =
  siPartNumber :: int64
  siChecksum :: Checksum

definition sign_input_fields :: "sign_input json_field list" where
  "sign_input_fields =
     [(''part_number'', int_field (\<lambda>n x. x\<lparr>siPartNumber := n\<rparr>)),
      (''checksum'', \<lambda>v x. map_option (\<lambda>c. x\<lparr>siChecksum := c\<rparr>) (decode_struct True checksum_fields v (siChecksum x)))]"

definition signUploadPart :: "'s apiHandler" where
  "signUploadPart a r w = on_error r w (
     sbind (of_result (decodeJSON a r sign_input_fields \<lparr>siPartNumber = 0, siChecksum = zero_Checksum\<rparr> maxJSONBody False)) (\<lambda>input.
     sbind (authorizeUploadElevation r (rqPathValue r ''id'') PermissionFilesWrite NodeCapabilityWrite) (\<lambda>_.
     sbind (Service_SignUploadPart (apService a) (identity r) (rqPathValue r ''id'') (siPartNumber input) (siChecksum input)) (\<lambda>signed.
     ret (writeData 200 (VObj [(''part_number'', VInt (sgPartNumber signed)), (''method'', VStr (sgMethod signed)),
              (''url'', VStr (sgURL signed)), (''required_headers'', string_map (sgRequiredHeaders signed)),
              (''expires_at'', VTime (sgExpiresAt signed))])
            (header_Set ''Cache-Control'' ''no-store'' w))))))"

text \<open>A repeated \<^verbatim>\<open>parts\<close> key replaces the list; the library may reuse the memory of the first.\<close>

definition part_fields :: "CompletedPart json_field list" where
  "part_fields =
     [(''part_number'', int_field (\<lambda>n x. x\<lparr>cpPartNumber := n\<rparr>)), (''etag'', string_field (\<lambda>s x. x\<lparr>cpETag := s\<rparr>)),
      (''checksum'', \<lambda>v x. map_option (\<lambda>c. x\<lparr>cpChecksum := c\<rparr>) (decode_struct True checksum_fields v (cpChecksum x))),
      (''size'', int_field (\<lambda>n x. x\<lparr>cpSize := n\<rparr>))]"

definition parts_input_fields :: "CompletedPart list json_field list" where
  "parts_input_fields =
     [(''parts'', list_field (\<lambda>v. decode_struct True part_fields v
         \<lparr>cpPartNumber = 0, cpETag = [], cpChecksum = zero_Checksum, cpSize = 0\<rparr>) (\<lambda>ps _. ps))]"

definition completeUpload :: "'s apiHandler" where
  "completeUpload a r w = on_error r w (
     sbind (of_result (decodeJSON a r parts_input_fields [] maxJSONBody False)) (\<lambda>ps.
     sbind (authorizeUploadElevation r (rqPathValue r ''id'') PermissionFilesWrite NodeCapabilityWrite) (\<lambda>_.
     sbind (Service_CompleteUpload (apLib a) (apService a) (rqRequestID r) (identity r) (rqPathValue r ''id'') ps) (\<lambda>result.
     ret (writeData (if coFirst result then 201 else 200)
            (VObj [(''upload'', toUploadResponse (coUpload result)), (''file'', toNodeResponse (coNode result))]) w)))))"

definition abortUpload :: "'s apiHandler" where
  "abortUpload a r w = on_error r w (
     sbind (authorizeUploadElevation r (rqPathValue r ''id'') PermissionFilesWrite NodeCapabilityWrite) (\<lambda>_.
     sbind (Service_AbortUpload (apService a) (identity r) (rqPathValue r ''id'')) (\<lambda>_.
     ret (WriteHeader 204 w))))"

definition decode_empty :: "'s Api \<Rightarrow> HttpRequest \<Rightarrow> unit result" where
  "decode_empty a r = (if rqContentLength r \<noteq> 0 then decodeJSON a r [] () maxJSONBody True else Inr ())"

definition createDownloadAuthorization :: "'s apiHandler" where
  "createDownloadAuthorization a r w = on_error r w (
     sbind (of_result (decode_empty a r)) (\<lambda>_.
     sbind (Service_Download (apService a) (identity r) (rqPathValue r ''id'')) (\<lambda>signed.
     ret (writeData 201 (VObj [(''method'', VStr (sdMethod signed)), (''url'', VStr (sdURL signed)), (''expires_at'', VTime (sdExpiresAt signed))])
            (header_Set ''Cache-Control'' ''no-store'' w)))))"

section \<open>Recycle bin\<close>

definition recycleNode :: "'s apiHandler" where
  "recycleNode a r w = on_error r w (
     sbind (of_result (parseETag (header_Get r ''If-Match''))) (\<lambda>revision.
     sbind (authorizeACLElevation r (rqPathValue r ''id'') PermissionFilesDelete NodeCapabilityDelete) (\<lambda>_.
     sbind (Service_Recycle (rqRequestID r) (identity r) (rqPathValue r ''id'') revision) (\<lambda>_.
     ret (WriteHeader 204 w)))))"

definition recycle_item :: "RecycleEntry \<Rightarrow> jsonval" where
  "recycle_item e = VObj [(''node'', toNodeResponse (reNode e)), (''original_parent_id'', VStr (reOriginalParentID e)),
     (''deleted_at'', VTime (reDeletedAt e))]"

definition listRecycle :: "'s apiHandler" where
  "listRecycle a r w = on_error r w (
     sbind (of_result (parseLimit (query_Get r ''limit''))) (\<lambda>limit.
     sbind (Service_ListRecycle (apLib a) (apService a) (identity r) (query_Get r ''cursor'') limit) (\<lambda>page.
     ret (writeJSON 200 (page_body (map recycle_item (pgItems page)) ''next_cursor'' (nullableString (pgNextCursor page))) w))))"

definition restoreNode :: "'s apiHandler" where
  "restoreNode a r w = on_error r w (
     sbind (of_result (parseETag (header_Get r ''If-Match''))) (\<lambda>revision.
     sbind (of_result (decode_empty a r)) (\<lambda>_.
     sbind (authorizeACLElevation r (rqPathValue r ''id'') PermissionFilesWrite NodeCapabilityWrite) (\<lambda>_.
     sbind (Service_Restore (rqRequestID r) (identity r) (rqPathValue r ''id'') revision) (respond_node 200 w)))))"

definition purgeNode :: "'s apiHandler" where
  "purgeNode a r w = on_error r w (
     sbind (of_result (parseETag (header_Get r ''If-Match''))) (\<lambda>revision.
     sbind (authorizeACLElevation r (rqPathValue r ''id'') PermissionFilesDelete NodeCapabilityDelete) (\<lambda>_.
     sbind (Service_Purge (apService a) (rqRequestID r) (identity r) (rqPathValue r ''id'') revision) (\<lambda>_.
     ret (WriteHeader 204 w)))))"

end
