(* ===== verification/Http_Server.thy ===== *)
theory Http_Server
  imports Http_Api
begin

text \<open>
  \<^verbatim>\<open>internal/server/server.go\<close>: the route tables, the middleware around the handlers and the
  server's own handler. The router is the library's \<^verbatim>\<open>ServeMux\<close> as far as these routes use it:
  literal segments, single-segment wildcards, \<^verbatim>\<open>GET\<close> patterns that also serve \<^verbatim>\<open>HEAD\<close>, and one
  pattern for everything below \<^verbatim>\<open>/api/\<close>. A request's path is the list of its segments; requests
  that the router answers with a redirect to a cleaner path are left out. Durations and metrics are not modelled.
\<close>

section \<open>Routes\<close>

datatype segment = Lit string | Wild string

record 's apiRoute =
  arMethod :: string
  arPath :: "segment list"
  arPermission :: "Permission option"
  arAclElevation :: bool
  arHandler :: "'s apiHandler"

definition route :: "string \<Rightarrow> segment list \<Rightarrow> Permission option \<Rightarrow> bool \<Rightarrow> 's apiHandler \<Rightarrow> 's apiRoute" where
  "route m path permission elevation handler =
     \<lparr>arMethod = m, arPath = path, arPermission = permission, arAclElevation = elevation, arHandler = handler\<rparr>"

definition publicAPIRoutes :: "'s apiRoute list" where
  "publicAPIRoutes =
     [route ''GET'' [Lit ''healthz''] None False health,
      route ''GET'' [Lit ''readyz''] None False ready]"

definition under_v1 :: "segment list \<Rightarrow> segment list" where
  "under_v1 path = [Lit ''api'', Lit ''v1''] @ path"

definition externalAPIRoutes :: "'s apiRoute list" where
  "externalAPIRoutes = [route ''POST'' (under_v1 [Lit ''invitations'', Lit ''accept'']) None False acceptInvitation]"

definition tenant_path :: "segment list \<Rightarrow> segment list" where
  "tenant_path path = under_v1 (Lit ''tenant'' # path)"

definition protectedAPIRoutes :: "'s apiRoute list" where
  "protectedAPIRoutes =
     [route ''GET'' (tenant_path []) (Some PermissionTenantRead) False getTenant,
      route ''GET'' (tenant_path [Lit ''members'']) (Some PermissionMembersRead) False listMembers,
      route ''PATCH'' (tenant_path [Lit ''members'', Wild ''principal_id'']) (Some PermissionMembersManage) False updateMember,
      route ''DELETE'' (tenant_path [Lit ''members'', Wild ''principal_id'']) (Some PermissionMembersManage) False deleteMember,
      route ''POST'' (tenant_path [Lit ''invitations'']) (Some PermissionMembersManage) False createInvitation,
      route ''GET'' (tenant_path [Lit ''invitations'']) (Some PermissionMembersManage) False listInvitations,
      route ''POST'' (tenant_path [Lit ''invitations'', Wild ''invitation_id'', Lit ''revoke'']) (Some PermissionMembersManage) False revokeInvitation,
      route ''POST'' (tenant_path [Lit ''groups'']) (Some PermissionGroupsManage) False createGroup,
      route ''GET'' (tenant_path [Lit ''groups'']) (Some PermissionGroupsManage) False listGroups,
      route ''PATCH'' (tenant_path [Lit ''groups'', Wild ''group_id'']) (Some PermissionGroupsManage) False updateGroup,
      route ''DELETE'' (tenant_path [Lit ''groups'', Wild ''group_id'']) (Some PermissionGroupsManage) False deleteGroup,
      route ''GET'' (tenant_path [Lit ''groups'', Wild ''group_id'', Lit ''members'']) (Some PermissionGroupsManage) False listGroupMembers,
      route ''PUT'' (tenant_path [Lit ''groups'', Wild ''group_id'', Lit ''members'', Wild ''principal_id''])
        (Some PermissionGroupsManage) False addGroupMember,
      route ''DELETE'' (tenant_path [Lit ''groups'', Wild ''group_id'', Lit ''members'', Wild ''principal_id''])
        (Some PermissionGroupsManage) False removeGroupMember,
      route ''GET'' (tenant_path [Lit ''audit-events'']) (Some PermissionAuditRead) False listAuditEvents,
      route ''GET'' (tenant_path [Lit ''audit-events'', Lit ''export'']) (Some PermissionAuditRead) False exportAuditEvents,
      route ''POST'' (under_v1 [Lit ''directories'']) (Some PermissionFilesWrite) True createDirectory,
      route ''GET'' (under_v1 [Lit ''directories'', Wild ''id'']) (Some PermissionFilesRead) False getDirectory,
      route ''GET'' (under_v1 [Lit ''directories'', Wild ''id'', Lit ''children'']) (Some PermissionFilesRead) False listChildren,
      route ''GET'' (under_v1 [Lit ''files'', Wild ''id'']) (Some PermissionFilesRead) False getFile,
      route ''POST'' (under_v1 [Lit ''files'', Wild ''id'', Lit ''download-authorizations'']) (Some PermissionFilesRead) False
        createDownloadAuthorization,
      route ''PATCH'' (under_v1 [Lit ''nodes'', Wild ''id'']) (Some PermissionFilesWrite) True updateNode,
      route ''DELETE'' (under_v1 [Lit ''nodes'', Wild ''id'']) (Some PermissionFilesDelete) True recycleNode,
      route ''GET'' (under_v1 [Lit ''nodes'', Wild ''id'', Lit ''acl'']) (Some PermissionFilesRead) False listNodeACL,
      route ''PUT'' (under_v1 [Lit ''nodes'', Wild ''id'', Lit ''acl'']) (Some PermissionFilesRead) False setNodeACL,
      route ''DELETE'' (under_v1 [Lit ''nodes'', Wild ''id'', Lit ''acl'', Wild ''entry_id'']) (Some PermissionFilesRead) False deleteNodeACL,
      route ''POST'' (under_v1 [Lit ''uploads'']) (Some PermissionFilesWrite) True createUpload,
      route ''GET'' (under_v1 [Lit ''uploads'', Wild ''id'']) (Some PermissionFilesRead) False getUpload,
      route ''GET'' (under_v1 [Lit ''uploads'', Wild ''id'', Lit ''parts'']) (Some PermissionFilesRead) False listUploadParts,
      route ''POST'' (under_v1 [Lit ''uploads'', Wild ''id'', Lit ''parts'', Lit ''sign'']) (Some PermissionFilesWrite) True signUploadPart,
      route ''POST'' (under_v1 [Lit ''uploads'', Wild ''id'', Lit ''complete'']) (Some PermissionFilesWrite) True completeUpload,
      route ''DELETE'' (under_v1 [Lit ''uploads'', Wild ''id'']) (Some PermissionFilesWrite) True abortUpload,
      route ''GET'' (under_v1 [Lit ''recycle-bin'']) (Some PermissionFilesRead) False listRecycle,
      route ''POST'' (under_v1 [Lit ''recycle-bin'', Wild ''id'', Lit ''restore'']) (Some PermissionFilesWrite) True restoreNode,
      route ''DELETE'' (under_v1 [Lit ''recycle-bin'', Wild ''id'']) (Some PermissionFilesDelete) True purgeNode]"

section \<open>The router\<close>

text \<open>The values of the wildcards when a path matches a pattern.\<close>

fun match_path :: "segment list \<Rightarrow> string list \<Rightarrow> (string \<Rightarrow> string) option" where
  "match_path [] [] = Some (\<lambda>_. [])"
| "match_path (Lit l # ps) (s # ss) = (if l = s then match_path ps ss else None)"
| "match_path (Wild x # ps) (s # ss) =
     (if s = [] then None else map_option (\<lambda>values. values(x := s)) (match_path ps ss))"
| "match_path _ _ = None"

definition match_method :: "string \<Rightarrow> string \<Rightarrow> bool" where
  "match_method pattern m \<longleftrightarrow> pattern = m \<or> pattern = ''GET'' \<and> m = ''HEAD''"

definition matches :: "'s apiRoute \<Rightarrow> string \<Rightarrow> string list \<Rightarrow> bool" where
  "matches rt m path \<longleftrightarrow> match_method (arMethod rt) m \<and> match_path (arPath rt) path \<noteq> None"

definition path_values :: "'s apiRoute \<Rightarrow> HttpRequest \<Rightarrow> HttpRequest" where
  "path_values rt r = r\<lparr>rqPathValue := (case match_path (arPath rt) (rqPath r) of None \<Rightarrow> (\<lambda>_. []) | Some values \<Rightarrow> values)\<rparr>"

definition find_route :: "'s apiRoute list \<Rightarrow> HttpRequest \<Rightarrow> 's apiRoute option" where
  "find_route routes r = find (\<lambda>rt. matches rt (rqMethod r) (rqPath r)) routes"

definition below_api :: "HttpRequest \<Rightarrow> bool" where
  "below_api r \<longleftrightarrow> length (rqPath r) \<ge> 2 \<and> hd (rqPath r) = ''api''"

text \<open>The library's plain text answers to a request that no pattern matches.\<close>

definition mux_miss :: "HttpRequest \<Rightarrow> ResponseWriter \<Rightarrow> ResponseWriter" where
  "mux_miss r w =
     (let plain = header_Set ''Content-Type'' ''text/plain; charset=utf-8'' (header_Set ''X-Content-Type-Options'' ''nosniff'' w)
      in if list_ex (\<lambda>rt. match_path (arPath rt) (rqPath r) \<noteq> None) (publicAPIRoutes :: unit apiRoute list)
         then encode_body (VStr ''Method Not Allowed'') (WriteHeader 405 (header_Set ''Allow'' ''GET, HEAD'' plain))
         else encode_body (VStr ''404 page not found'') (WriteHeader 404 plain))"

section \<open>Middleware\<close>

definition captureIdentity :: "'s apiHandler \<Rightarrow> 's apiHandler" where
  "captureIdentity handler a r w =
     handler a r (case rqPrincipal r of
       None \<Rightarrow> w
     | Some p \<Rightarrow> w\<lparr>rwFields := (rwFields w)\<lparr>lfTenantID := iTenantID (prIdentity p), lfPrincipalID := iPrincipalID (prIdentity p)\<rparr>\<rparr>)"

definition authorize :: "Permission option \<Rightarrow> bool \<Rightarrow> 's apiHandler \<Rightarrow> 's apiHandler" where
  "authorize permission aclElevation handler a r w =
     (case rqPrincipal r of
        None \<Rightarrow> respond (writeError r (E CodeUnauthenticated ''a valid bearer token is required'') w)
      | Some p \<Rightarrow>
          if (case permission of None \<Rightarrow> False | Some x \<Rightarrow> \<not> HasPermission p x) \<and> \<not> aclElevation
          then respond (writeError r (E CodeForbidden ''the authenticated principal lacks this permission'') w)
          else handler a r w)"

text \<open>The middleware of an authenticator: its answer goes into the request, its error to \<^verbatim>\<open>onError\<close>.\<close>

definition authenticated ::
  "HttpRequest \<Rightarrow> ResponseWriter \<Rightarrow> ('s, 'p) svc \<Rightarrow> ('p \<Rightarrow> 's handled) \<Rightarrow> 's handled" where
  "authenticated r w check continue world =
     (case check world of
        None \<Rightarrow> None
      | Some (Inr p, world') \<Rightarrow> continue p world'
      | Some (Inl (Panic message), world') \<Rightarrow> Some (Panicked w message, world')
      | Some (Inl err, world') \<Rightarrow> Some (Returned (writeError r err w), world'))"

definition protected :: "'s Authenticator \<Rightarrow> Permission option \<Rightarrow> bool \<Rightarrow> 's apiHandler \<Rightarrow> 's apiHandler" where
  "protected au permission aclElevation handler a r w =
     authenticated r w (auMiddleware au (header_Get r ''Authorization'') (header_Get r ''X-Tenant-ID'')) (\<lambda>p.
       captureIdentity (authorize permission aclElevation handler) a (r\<lparr>rqPrincipal := Some p\<rparr>) w)"

definition external :: "'s Authenticator \<Rightarrow> 's apiHandler \<Rightarrow> 's apiHandler" where
  "external au handler a r w =
     (case auExternal au of
        Some check \<Rightarrow> authenticated r w (check (header_Get r ''Authorization'')) (\<lambda>x. handler a (r\<lparr>rqExternal := Some x\<rparr>) w)
      | None \<Rightarrow> respond (writeError r (E CodeUnauthenticated ''external identity authentication is unavailable'') w))"

definition mux :: "'s Authenticator \<Rightarrow> 's apiHandler" where
  "mux au a r w =
     (case find_route publicAPIRoutes r of
        Some rt \<Rightarrow> arHandler rt a (path_values rt r) w
      | None \<Rightarrow>
          (case find_route externalAPIRoutes r of
             Some rt \<Rightarrow> external au (arHandler rt) a (path_values rt r) w
           | None \<Rightarrow>
               (case find_route protectedAPIRoutes r of
                  Some rt \<Rightarrow> protected au (arPermission rt) (arAclElevation rt) (arHandler rt) a (path_values rt r) w
                | None \<Rightarrow>
                    if below_api r then protected au None False notFound a r w
                    else respond (mux_miss r w))))"

definition api_recover :: "'s apiHandler \<Rightarrow> 's apiHandler" where
  "api_recover handler a r w world =
     (case handler a r w world of
        None \<Rightarrow> None
      | Some (Returned w', world') \<Rightarrow> Some (Returned w', world')
      | Some (Panicked w' _, world') \<Rightarrow>
          Some (Returned (writeError r (E CodeInternal ''internal server error'') (w'\<lparr>rwLog := rwLog w' @ [HandlerPanic]\<rparr>)), world'))"

record AccessLog =
  alRequestID :: string
  alMethod :: string
  alStatus :: int
  alTenant :: "(string \<times> string) option"
  alErrorCode :: "string option"

text \<open>The line \<^verbatim>\<open>logRequest\<close> writes when the handler is done; a response without a status counts as 200.\<close>

definition access_log :: "HttpRequest \<Rightarrow> ResponseWriter \<Rightarrow> AccessLog" where
  "access_log r w =
     \<lparr>alRequestID = rqRequestID r, alMethod = rqMethod r, alStatus = (if rwStatus w = 0 then 200 else rwStatus w),
      alTenant = (if lfTenantID (rwFields w) = [] then None else Some (lfTenantID (rwFields w), lfPrincipalID (rwFields w))),
      alErrorCode = (if lfErrorCode (rwFields w) = [] then None else Some (lfErrorCode (rwFields w)))\<rparr>"

definition logRequest ::
  "'s apiHandler \<Rightarrow> 's Api \<Rightarrow> HttpRequest \<Rightarrow> ResponseWriter \<Rightarrow> 's World \<Rightarrow> ((ResponseWriter \<times> AccessLog) \<times> 's World) option" where
  "logRequest handler a r w world =
     (case handler a r w world of
        None \<Rightarrow> None
      | Some (out, world') \<Rightarrow>
          (let w' = (case out of Returned x \<Rightarrow> x | Panicked x _ \<Rightarrow> x)
           in Some ((w'\<lparr>rwStatus := (if rwStatus w' = 0 then 200 else rwStatus w')\<rparr>, access_log r w'), world')))"

definition request_id_char :: "nat \<Rightarrow> bool" where
  "request_id_char r \<longleftrightarrow>
     r = 45 \<or> r = 95 \<or> r = 46 \<or> 48 \<le> r \<and> r \<le> 57 \<or> 97 \<le> r \<and> r \<le> 122 \<or> 65 \<le> r \<and> r \<le> 90"

definition validRequestID :: "string \<Rightarrow> bool" where
  "validRequestID s \<longleftrightarrow> 8 \<le> length s \<and> length s \<le> 128 \<and> list_all request_id_char (runes s)"

definition request_id :: "HttpRequest \<Rightarrow> ('s, string) svc" where
  "request_id r =
     (let given = header_Get r ''X-Request-ID''
      in if validRequestID given then ret given
         else sbind draw (\<lambda>bytes.
                (case NewID bytes of Inl _ \<Rightarrow> ret ''req_unavailable'' | Inr i \<Rightarrow> ret (''req_'' @ i))))"

definition ServeHTTP :: "'s Api \<Rightarrow> 's Authenticator \<Rightarrow> HttpRequest \<Rightarrow> ('s, ResponseWriter \<times> AccessLog) svc" where
  "ServeHTTP a au r =
     sbind (request_id r) (\<lambda>i world.
       (case logRequest (api_recover (mux au)) a (r\<lparr>rqRequestID := ContextWithRequestID [] i, rqPrincipal := None, rqExternal := None\<rparr>)
               (header_Set ''X-Request-ID'' i empty_writer) world of
          None \<Rightarrow> None
        | Some (out, world') \<Rightarrow> Some (Inr out, world')))"

text \<open>\<^verbatim>\<open>New\<close>: the server's handler, once the service and the authenticator are there.\<close>

definition Server_New ::
  "'s Api option \<Rightarrow> 's Authenticator option \<Rightarrow> (HttpRequest \<Rightarrow> ('s, ResponseWriter \<times> AccessLog) svc) result" where
  "Server_New service authenticator =
     (case (service, authenticator) of
        (Some a, Some au) \<Rightarrow> Inr (ServeHTTP a au)
      | _ \<Rightarrow> Inl (E CodeInvalidRequest ''service and authenticator are required''))"

end
