(* ===== verification/Http_Access.thy ===== *)
theory Http_Access
  imports Http_Server
begin

text \<open>
  What a request may change. The router picks at most one route; a protected route runs its
  handler for an authenticated principal only; and the handlers of the routes that let a caller in without the
  route's permission ask the node's access list before they touch anything.
\<close>

section \<open>Steps that leave the world alone\<close>

definition inert :: "('s, 'a) svc \<Rightarrow> bool" where
  "inert m \<longleftrightarrow> (\<forall>w x w'. m w = Some (x, w') \<longrightarrow> w' = w)"

named_theorems inert_rules

lemma inertD: "inert m \<Longrightarrow> m w = Some (x, w') \<Longrightarrow> w' = w"
  by (simp add: inert_def)

lemma inert_basic [inert_rules]: "inert (ret x)" "inert (fail e)" "inert (of_result res)" "inert (guard b e)" "inert (repo_read f)"
  by (auto simp: inert_def ret_def fail_def of_result_def guard_def repo_read_def)

lemma inert_sbind [inert_rules]: "inert m \<Longrightarrow> (\<And>x. inert (f x)) \<Longrightarrow> inert (sbind m f)"
  by (simp add: inert_def sbind_def split: option.splits prod.splits sum.splits) blast

lemma inert_if [inert_rules]: "(b \<Longrightarrow> inert m) \<Longrightarrow> (\<not> b \<Longrightarrow> inert n) \<Longrightarrow> inert (if b then m else n)"
  by simp

lemma inert_AuthorizeNode [inert_rules]: "inert (Service_AuthorizeNode i n cap)"
  unfolding Service_AuthorizeNode_def
  by (intro inert_rules) (auto simp: inert_def repo_walk_def split: option.splits)

lemma inert_Upload [inert_rules]: "inert (Service_Upload i u)"
  unfolding Service_Upload_def by (intro inert_rules)

lemma inert_ready: "inert (Service_Ready s)"
  by (auto simp: inert_def Service_Ready_def split: sum.splits)

lemma inert_ACLElevation: "inert (authorizeACLElevation r n permission cap)"
  unfolding authorizeACLElevation_def by (intro inert_rules)

lemma inert_UploadElevation: "inert (authorizeUploadElevation r u permission cap)"
  unfolding authorizeUploadElevation_def by (intro inert_rules)

section \<open>Elevation\<close>

text \<open>\<open>acl_allows\<close> is a positive answer of the service's access check in a repository.\<close>

definition acl_allows :: "Repository \<Rightarrow> Identity \<Rightarrow> string \<Rightarrow> NodeCapability \<Rightarrow> bool" where
  "acl_allows r i n cap \<longleftrightarrow> ValidID n \<and> Repo_AuthorizeNode i n cap r = Some (Inr ())"

lemma AuthorizeNode_granted:
  assumes "Service_AuthorizeNode i n cap w = Some (Inr (), w')"
  shows "acl_allows (wRepo w) i n cap"
  using assms unfolding Service_AuthorizeNode_def
  by (auto elim!: sbind_Inr simp: of_result_def guard_def ret_def fail_def repo_walk_def acl_allows_def validateID_def
      split: option.splits if_splits)

definition session_parent :: "Repository \<Rightarrow> Identity \<Rightarrow> string \<Rightarrow> string list" where
  "session_parent r i u = (case Repo_Upload i u r of Inr s \<Rightarrow> [uParentID s] | Inl _ \<Rightarrow> [])"

definition may_act :: "HttpRequest \<Rightarrow> Permission \<Rightarrow> NodeCapability \<Rightarrow> Repository \<Rightarrow> string list \<Rightarrow> bool" where
  "may_act r permission cap repo targets \<longleftrightarrow>
     (\<exists>p. rqPrincipal r = Some p
        \<and> (HasPermission p permission \<or> targets \<noteq> [] \<and> list_all (\<lambda>n. acl_allows repo (prIdentity p) n cap) targets))"

lemma fromContext_Inr:
  assumes "sbind (of_result (fromContext r)) f w = Some (Inr x, w')"
  obtains p where "rqPrincipal r = Some p" "f p w = Some (Inr x, w')"
  using assms by (cases "rqPrincipal r") (simp_all add: fromContext_def svc_simps fail_def)

lemma ACLElevation_gate:
  assumes "sbind (authorizeACLElevation r n permission cap) f w = Some (x, w')"
  shows "w' = w \<or> may_act r permission cap (wRepo w) [n]"
  using assms
proof (cases rule: sbind_Some)
  case (err e)
  then show ?thesis by (simp add: inertD [OF inert_ACLElevation])
next
  case (ok u w1)
  then obtain p where "rqPrincipal r = Some p"
    "(if HasPermission p permission then ret () else Service_AuthorizeNode (prIdentity p) n cap) w = Some (Inr u, w1)"
    unfolding authorizeACLElevation_def by (auto elim: fromContext_Inr)
  then show ?thesis by (auto simp: may_act_def split: if_splits dest: AuthorizeNode_granted)
qed

lemma UploadElevation_gate:
  assumes "sbind (authorizeUploadElevation r u permission cap) f w = Some (x, w')"
  shows "w' = w \<or> (\<exists>p. rqPrincipal r = Some p \<and> may_act r permission cap (wRepo w) (session_parent (wRepo w) (prIdentity p) u))"
  using assms
proof (cases rule: sbind_Some)
  case (err e)
  then show ?thesis by (simp add: inertD [OF inert_UploadElevation])
next
  case (ok _ w1)
  then obtain p where p: "rqPrincipal r = Some p"
    "(if HasPermission p permission then ret () else sbind (Service_Upload (prIdentity p) u) (\<lambda>upload.
        Service_AuthorizeNode (prIdentity p) (uParentID upload) cap)) w = Some (Inr (), w1)"
    unfolding authorizeUploadElevation_def by (auto elim: fromContext_Inr)
  show ?thesis
  proof (cases "HasPermission p permission")
    case False
    with p(2) have "sbind (Service_Upload (prIdentity p) u) (\<lambda>upload.
        Service_AuthorizeNode (prIdentity p) (uParentID upload) cap) w = Some (Inr (), w1)" by simp
    then obtain s w2 where s: "Service_Upload (prIdentity p) u w = Some (Inr s, w2)"
      "Service_AuthorizeNode (prIdentity p) (uParentID s) cap w2 = Some (Inr (), w1)"
      by (rule sbind_Inr)
    from s(1) have "w2 = w" by (rule inertD [OF inert_Upload])
    with s(1) have "session_parent (wRepo w) (prIdentity p) u = [uParentID s]"
      unfolding Service_Upload_def by (elim sbind_Inr) (auto simp: session_parent_def of_result_def repo_read_def)
    moreover from s(2) \<open>w2 = w\<close> have "acl_allows (wRepo w) (prIdentity p) (uParentID s) cap"
      by (auto intro: AuthorizeNode_granted)
    ultimately show ?thesis using p(1) by (auto simp: may_act_def)
  qed (use p in \<open>auto simp: may_act_def\<close>)
qed

text \<open>Whatever runs before the gate is pure, so a handler that changes the world passed it.\<close>

lemma on_error_run:
  assumes "on_error r w m world = Some (out, world')"
  obtains x where "m world = Some (x, world')"
  using assms by (auto simp: on_error_def split: option.splits sum.splits error.splits prod.splits)

lemma pure_then:
  assumes "sbind (of_result res) f w = Some (x, w')"
  shows "w' = w \<or> (\<exists>y. res = Inr y \<and> f y w = Some (x, w'))"
  using assms by (auto simp: of_result_def elim!: sbind_Some)

lemma gated:
  assumes "on_error r w (sbind (of_result res) (\<lambda>y. sbind (authorizeACLElevation r (n y) permission cap) (f y))) world = Some (out, world')"
  shows "world' = world \<or> (\<exists>y. res = Inr y \<and> may_act r permission cap (wRepo world) [n y])"
  using assms by (elim on_error_run) (blast dest: pure_then ACLElevation_gate)

text \<open>
  The nodes a request acts on: the parent of what it creates, the node named in its path and the
  directory it moves that node to, or the parent of the upload session named in the path.
\<close>

definition created_under :: "'s Api \<Rightarrow> HttpRequest \<Rightarrow> string list" where
  "created_under a r =
     (if rqPath r ! 2 = ''directories''
      then (case decodeJSON a r directory_input_fields \<lparr>dirParentID = [], dirName = []\<rparr> maxJSONBody False of
              Inr x \<Rightarrow> [dirParentID x] | Inl _ \<Rightarrow> [])
      else (case decodeJSON a r upload_input_fields
               \<lparr>ciParentID = [], ciName = [], ciSize = 0, ciMimeType = [], ciChecksum = zero_Checksum\<rparr> maxJSONBody False of
              Inr x \<Rightarrow> [ciParentID x] | Inl _ \<Rightarrow> []))"

definition moved_to :: "'s Api \<Rightarrow> HttpRequest \<Rightarrow> string list" where
  "moved_to a r =
     (case decodeJSON a r node_input_fields \<lparr>niName = None, niParentID = None\<rparr> maxJSONBody False of
        Inr x \<Rightarrow> (case niParentID x of Some parent \<Rightarrow> [parent] | None \<Rightarrow> []) | Inl _ \<Rightarrow> [])"

definition acts_on :: "'s Api \<Rightarrow> HttpRequest \<Rightarrow> Repository \<Rightarrow> Identity \<Rightarrow> string list" where
  "acts_on a r repo i =
     (if length (rqPath r) = 3 then created_under a r
      else if rqPath r ! 2 = ''uploads'' then session_parent repo i (rqPath r ! 3)
      else if rqMethod r = ''PATCH'' then rqPath r ! 3 # moved_to a r
      else [rqPath r ! 3])"

lemma may_act_both:
  "may_act r permission cap repo [n] \<Longrightarrow> may_act r permission cap repo ms \<Longrightarrow> may_act r permission cap repo (n # ms)"
  by (auto simp: may_act_def)

lemma createDirectory_gate:
  assumes "createDirectory a r w world = Some (out, world')" "rqPath r ! 2 = ''directories''"
  shows "world' = world \<or> may_act r PermissionFilesWrite NodeCapabilityWrite (wRepo world) (created_under a r)"
  using gated [OF assms(1) [unfolded createDirectory_def]] assms(2) by (auto simp: created_under_def)

lemma createUpload_gate:
  assumes "createUpload a r w world = Some (out, world')" "rqPath r ! 2 = ''uploads''"
  shows "world' = world \<or> may_act r PermissionFilesWrite NodeCapabilityWrite (wRepo world) (created_under a r)"
  using gated [OF assms(1) [unfolded createUpload_def]] assms(2) by (auto simp: created_under_def)

lemma node_gates:
  "recycleNode a r w world = Some (out, world')
     \<Longrightarrow> world' = world \<or> may_act r PermissionFilesDelete NodeCapabilityDelete (wRepo world) [rqPathValue r ''id'']"
  "purgeNode a r w world = Some (out, world')
     \<Longrightarrow> world' = world \<or> may_act r PermissionFilesDelete NodeCapabilityDelete (wRepo world) [rqPathValue r ''id'']"
  "restoreNode a r w world = Some (out, world')
     \<Longrightarrow> world' = world \<or> may_act r PermissionFilesWrite NodeCapabilityWrite (wRepo world) [rqPathValue r ''id'']"
  unfolding recycleNode_def purgeNode_def restoreNode_def
  by (elim on_error_run; blast dest: pure_then ACLElevation_gate)+

lemma both_gates:
  assumes run: "sbind (authorizeACLElevation r i permission cap) (\<lambda>_.
      sbind (case m of None \<Rightarrow> ret () | Some n \<Rightarrow> authorizeACLElevation r n permission cap) f) w = Some (x, w')"
  shows "w' = w \<or> may_act r permission cap (wRepo w) (i # (case m of Some n \<Rightarrow> [n] | None \<Rightarrow> []))"
proof (cases "w' = w")
  case False
  with ACLElevation_gate [OF run] have one: "may_act r permission cap (wRepo w) [i]" by blast
  from run False have rest: "sbind (case m of None \<Rightarrow> ret () | Some n \<Rightarrow> authorizeACLElevation r n permission cap) f w = Some (x, w')"
    by (auto elim!: sbind_Some [of "authorizeACLElevation r i permission cap"] dest!: inertD [OF inert_ACLElevation])
  show ?thesis
  proof (cases m)
    case (Some n)
    with rest have "sbind (authorizeACLElevation r n permission cap) f w = Some (x, w')" by simp
    from ACLElevation_gate [OF this] one False Some show ?thesis by (simp add: may_act_both)
  qed (use one in simp)
qed simp

lemma updateNode_gate:
  assumes "updateNode a r w world = Some (out, world')"
  shows "world' = world \<or> may_act r PermissionFilesWrite NodeCapabilityWrite (wRepo world) (rqPathValue r ''id'' # moved_to a r)"
proof -
  from assms obtain x where "world' = world \<or> (\<exists>input revision. decodeJSON a r node_input_fields \<lparr>niName = None, niParentID = None\<rparr> maxJSONBody False = Inr input
     \<and> sbind (authorizeACLElevation r (rqPathValue r ''id'') PermissionFilesWrite NodeCapabilityWrite) (\<lambda>_.
     sbind (case niParentID input of None \<Rightarrow> ret () | Some n \<Rightarrow> authorizeACLElevation r n PermissionFilesWrite NodeCapabilityWrite) (\<lambda>_.
     sbind (Service_UpdateNode (apLib a) (rqRequestID r) (identity r) (rqPathValue r ''id'') (niName input) (niParentID input) revision)
       (respond_node 200 w))) world = Some (x, world'))"
    unfolding updateNode_def by (elim on_error_run) (drule pure_then, elim disjE exE conjE, simp, drule pure_then, auto)
  then show ?thesis by (auto simp: moved_to_def dest!: both_gates)
qed

lemma upload_gates:
  assumes "rqPrincipal r = Some p"
  shows "signUploadPart a r w world = Some (out, world') \<Longrightarrow> world' = world
     \<or> may_act r PermissionFilesWrite NodeCapabilityWrite (wRepo world) (session_parent (wRepo world) (prIdentity p) (rqPathValue r ''id''))"
    and "completeUpload a r w world = Some (out, world') \<Longrightarrow> world' = world
     \<or> may_act r PermissionFilesWrite NodeCapabilityWrite (wRepo world) (session_parent (wRepo world) (prIdentity p) (rqPathValue r ''id''))"
    and "abortUpload a r w world = Some (out, world') \<Longrightarrow> world' = world
     \<or> may_act r PermissionFilesWrite NodeCapabilityWrite (wRepo world) (session_parent (wRepo world) (prIdentity p) (rqPathValue r ''id''))"
  unfolding signUploadPart_def completeUpload_def abortUpload_def using assms
  by (elim on_error_run; fastforce dest: pure_then UploadElevation_gate)+

section \<open>From a route to its handler\<close>

lemma match_path_iff:
  "match_path [] ss = Some v \<longleftrightarrow> ss = [] \<and> v = (\<lambda>_. [])"
  "match_path (Lit l # ps) ss = Some v \<longleftrightarrow> (\<exists>rest. ss = l # rest \<and> match_path ps rest = Some v)"
  "match_path (Wild x # ps) ss = Some v \<longleftrightarrow>
     (\<exists>s rest u. ss = s # rest \<and> s \<noteq> [] \<and> match_path ps rest = Some u \<and> v = u(x := s))"
  by (cases ss; auto)+

lemma decodeJSON_request [simp]:
  "decodeJSON a (r\<lparr>rqPathValue := v\<rparr>) fs z n e = decodeJSON a r fs z n e"
  "decodeJSON a (r\<lparr>rqPrincipal := p\<rparr>) fs z n e = decodeJSON a r fs z n e"
  "decodeJSON a (r\<lparr>rqRequestID := i\<rparr>) fs z n e = decodeJSON a r fs z n e"
  "decodeJSON a (r\<lparr>rqExternal := x\<rparr>) fs z n e = decodeJSON a r fs z n e"
  by (simp_all add: decodeJSON_def header_Get_def)

fun capability_of :: "Permission \<Rightarrow> NodeCapability" where
  "capability_of PermissionFilesDelete = NodeCapabilityDelete"
| "capability_of _ = NodeCapabilityWrite"

definition enter :: "'s apiRoute \<Rightarrow> Principal \<Rightarrow> HttpRequest \<Rightarrow> HttpRequest" where
  "enter rt p r = (path_values rt r)\<lparr>rqPrincipal := Some p\<rparr>"

lemma route_fields:
  "arMethod (route m path permission elevation handler) = m" "arPath (route m path permission elevation handler) = path"
  "arPermission (route m path permission elevation handler) = permission"
  "arAclElevation (route m path permission elevation handler) = elevation"
  "arHandler (route m path permission elevation handler) = handler"
  by (simp_all add: route_def)

lemma elevated_route_cases:
  assumes "rt \<in> set protectedAPIRoutes" "arAclElevation rt"
  shows "(arMethod rt, arPath rt, arPermission rt, arHandler rt) \<in> {(''POST'', under_v1 [Lit ''directories''], Some PermissionFilesWrite, createDirectory),
      (''PATCH'', under_v1 [Lit ''nodes'', Wild ''id''], Some PermissionFilesWrite, updateNode),
      (''DELETE'', under_v1 [Lit ''nodes'', Wild ''id''], Some PermissionFilesDelete, recycleNode),
      (''POST'', under_v1 [Lit ''uploads''], Some PermissionFilesWrite, createUpload),
      (''POST'', under_v1 [Lit ''uploads'', Wild ''id'', Lit ''parts'', Lit ''sign''], Some PermissionFilesWrite, signUploadPart),
      (''POST'', under_v1 [Lit ''uploads'', Wild ''id'', Lit ''complete''], Some PermissionFilesWrite, completeUpload),
      (''DELETE'', under_v1 [Lit ''uploads'', Wild ''id''], Some PermissionFilesWrite, abortUpload),
      (''POST'', under_v1 [Lit ''recycle-bin'', Wild ''id'', Lit ''restore''], Some PermissionFilesWrite, restoreNode),
      (''DELETE'', under_v1 [Lit ''recycle-bin'', Wild ''id''], Some PermissionFilesDelete, purgeNode)}"
  using assms unfolding protectedAPIRoutes_def set_simps
  by (elim insertE emptyE) (simp_all only: route_fields insert_iff refl simp_thms)

lemma elevated_gate:
  assumes "rt \<in> set protectedAPIRoutes" "arAclElevation rt" "matches rt (rqMethod r) (rqPath r)"
    and run: "arHandler rt a (enter rt p r) w world = Some (out, world')"
  shows "world' = world \<or> (\<exists>permission. arPermission rt = Some permission
     \<and> may_act (enter rt p r) permission (capability_of permission) (wRepo world) (acts_on a r (wRepo world) (prIdentity p)))"
proof -
  let ?r = "enter rt p r"
  obtain v where v: "match_path (arPath rt) (rqPath r) = Some v" and m: "match_method (arMethod rt) (rqMethod r)"
    using assms(3) by (auto simp: matches_def)
  have r: "rqPathValue ?r = v" "rqPath ?r = rqPath r" "rqMethod ?r = rqMethod r" "rqPrincipal ?r = Some p"
    using v by (simp_all add: enter_def path_values_def)
  have same: "created_under a ?r = created_under a r" "moved_to a ?r = moved_to a r"
    by (simp_all add: created_under_def moved_to_def enter_def path_values_def)
  note gates = createDirectory_gate createUpload_gate node_gates updateNode_gate upload_gates [OF r(4)]
  note facts = under_v1_def match_path_iff match_method_def acts_on_def r same
  show ?thesis
    using elevated_route_cases [OF assms(1,2)] unfolding insert_iff empty_iff prod.inject
    apply (elim disjE conjE FalseE)
    subgoal using run v m gates(1) [of a ?r w world out world'] by (simp add: facts)
    subgoal using run v m gates(6) [of a ?r w world out world'] by (auto simp: facts)
    subgoal using run v m gates(3) [of a ?r w world out world'] by (auto simp: facts)
    subgoal using run v m gates(2) [of a ?r w world out world'] by (auto simp: facts)
    subgoal using run v m gates(7) [of a w world out world'] by (auto simp: facts)
    subgoal using run v m gates(8) [of a w world out world'] by (auto simp: facts)
    subgoal using run v m gates(9) [of a w world out world'] by (auto simp: facts)
    subgoal using run v m gates(5) [of a ?r w world out world'] by (auto simp: facts)
    subgoal using run v m gates(4) [of a ?r w world out world'] by (auto simp: facts)
    done
qed

section \<open>The interface of authenticators\<close>

text \<open>\<open>same_data\<close> compares what the server keeps: the repository and the storage.\<close>

definition same_data :: "'s World \<Rightarrow> 's World \<Rightarrow> bool" where
  "same_data w w' \<longleftrightarrow> wRepo w' = wRepo w \<and> wStorage w' = wStorage w"

lemma same_data_refl [simp]: "same_data w w"
  by (simp add: same_data_def)

lemma same_data_trans: "same_data u v \<Longrightarrow> same_data v w \<Longrightarrow> same_data u w"
  by (simp add: same_data_def)

text \<open>Whom a request may be served for: the caller the authenticator found, and what lets that caller in.\<close>

definition admits :: "'s Api \<Rightarrow> HttpRequest \<Rightarrow> Repository \<Rightarrow> Principal \<Rightarrow> 's apiRoute \<Rightarrow> bool" where
  "admits a r repo p rt \<longleftrightarrow>
     (\<exists>permission. arPermission rt = Some permission
        \<and> (HasPermission p permission
            \<or> arAclElevation rt \<and> acts_on a r repo (prIdentity p) \<noteq> []
              \<and> list_all (\<lambda>n. acl_allows repo (prIdentity p) n (capability_of permission)) (acts_on a r repo (prIdentity p))))"

lemma protected_permission: "rt \<in> set protectedAPIRoutes \<Longrightarrow> \<exists>permission. arPermission rt = Some permission"
  unfolding protectedAPIRoutes_def set_simps
  by (elim insertE emptyE) (simp_all only: route_fields option.inject ex_simps simp_thms)

lemma find_route_Some:
  assumes "find_route routes r = Some rt"
  shows "rt \<in> set routes" "matches rt (rqMethod r) (rqPath r)"
  using assms by (auto simp: find_route_def find_Some_iff in_set_conv_nth)

lemma public_inert:
  assumes "rt \<in> set publicAPIRoutes" "arHandler rt a r w world = Some (out, world')"
  shows "world' = world"
proof -
  from assms(1) consider "arHandler rt = health" | "arHandler rt = ready"
    by (auto simp: publicAPIRoutes_def route_def)
  then show ?thesis
  proof cases
    case 1
    with assms(2) show ?thesis by (simp add: health_def respond_def)
  next
    case 2
    have quiet: "inert (attempt (Service_Ready (apService a)))"
      using inert_ready [of "apService a"] by (auto simp: inert_def attempt_def split: option.splits prod.splits)
    from assms(2) have "ready a r w world = Some (out, world')" unfolding 2 .
    then show ?thesis
      unfolding ready_def
      by (elim on_error_run, elim inertD [rotated], intro inert_sbind quiet)
        (simp add: inert_basic split: sum.splits error.splits)
  qed
qed

lemma authenticated_run:
  assumes "authenticated r w check continue world = Some (out, world')"
  obtains (refused) e where "check world = Some (Inl e, world')"
  | (passed) p world1 where "check world = Some (Inr p, world1)" "continue p world1 = Some (out, world')"
  using assms by (auto simp: authenticated_def split: option.splits sum.splits prod.splits error.splits)

locale read_only_authenticator =
  fixes au :: "'s Authenticator"
  assumes principal_quiet: "auMiddleware au authorization tenant w = Some (x, w') \<Longrightarrow> same_data w w'"
    and external_quiet: "auExternal au = Some check \<Longrightarrow> check authorization w = Some (y, w') \<Longrightarrow> same_data w w'"
begin

lemma protected_effect:
  assumes run: "protected au (arPermission rt) (arAclElevation rt) (arHandler rt) a (path_values rt r) w world = Some (out, world')"
    and rt: "rt \<in> set protectedAPIRoutes" "matches rt (rqMethod r) (rqPath r)" and changed: "\<not> same_data world world'"
  shows "\<exists>p world1. auMiddleware au (header_Get r ''Authorization'') (header_Get r ''X-Tenant-ID'') world = Some (Inr p, world1)
     \<and> admits a r (wRepo world) p rt"
proof -
  have header: "header_Get (path_values rt r) name = header_Get r name" for name
    by (simp add: header_Get_def path_values_def)
  from run changed obtain p world1 where p: "auMiddleware au (header_Get r ''Authorization'') (header_Get r ''X-Tenant-ID'') world = Some (Inr p, world1)"
    and handler: "\<exists>w1. authorize (arPermission rt) (arAclElevation rt) (arHandler rt) a (enter rt p r) w1 world1 = Some (out, world')"
    unfolding protected_def header captureIdentity_def enter_def by (elim authenticated_run) (auto dest: principal_quiet)
  have data: "wRepo world1 = wRepo world" "\<not> same_data world1 world'"
    using principal_quiet [OF p] changed by (auto simp: same_data_def)
  obtain permission where perm: "arPermission rt = Some permission" using protected_permission [OF rt(1)] by blast
  have principal: "rqPrincipal (enter rt p r) = Some p" by (simp add: enter_def)
  obtain w1 where w1: "authorize (arPermission rt) (arAclElevation rt) (arHandler rt) a (enter rt p r) w1 world1 = Some (out, world')"
    using handler by blast
  have "admits a r (wRepo world) p rt"
  proof (cases "HasPermission p permission")
    case False
    with w1 data have "arAclElevation rt" and "arHandler rt a (enter rt p r) w1 world1 = Some (out, world')"
      by (auto simp: authorize_def principal perm respond_def split: if_splits)
    with elevated_gate [OF rt(1) _ rt(2)] data False perm principal show ?thesis
      by (fastforce simp: admits_def may_act_def)
  qed (simp add: admits_def perm)
  with p show ?thesis by blast
qed

lemma mux_effect:
  assumes run: "mux au a r w world = Some (out, world')" and changed: "\<not> same_data world world'"
  shows "(\<exists>rt check x world1. find_route (externalAPIRoutes :: 's apiRoute list) r = Some rt \<and> auExternal au = Some check
       \<and> check (header_Get r ''Authorization'') world = Some (Inr x, world1))
    \<or> (\<exists>rt p world1. rt \<in> set protectedAPIRoutes \<and> matches rt (rqMethod r) (rqPath r)
       \<and> auMiddleware au (header_Get r ''Authorization'') (header_Get r ''X-Tenant-ID'') world = Some (Inr p, world1)
       \<and> admits a r (wRepo world) p rt)"
proof (cases "find_route (publicAPIRoutes :: 's apiRoute list) r")
  case (Some rt)
  with run have "arHandler rt a (path_values rt r) w world = Some (out, world')" by (simp add: mux_def)
  from public_inert [OF find_route_Some(1) [OF Some] this] changed show ?thesis by simp
next
  case public: None
  show ?thesis
  proof (cases "find_route (externalAPIRoutes :: 's apiRoute list) r")
    case (Some rt)
    with public run have ext: "external au (arHandler rt) a (path_values rt r) w world = Some (out, world')" by (simp add: mux_def)
    then obtain check where check: "auExternal au = Some check" using changed by (auto simp: external_def respond_def split: option.splits)
    have header: "header_Get (path_values rt r) name = header_Get r name" for name
      by (simp add: header_Get_def path_values_def)
    from ext have "authenticated (path_values rt r) w (check (header_Get r ''Authorization''))
        (\<lambda>x. arHandler rt a ((path_values rt r)\<lparr>rqExternal := Some x\<rparr>) w) world = Some (out, world')"
      by (simp add: external_def check header)
    then show ?thesis
    proof (cases rule: authenticated_run)
      case (refused e)
      with external_quiet [OF check] changed show ?thesis by blast
    next
      case (passed x world1)
      with check Some show ?thesis by blast
    qed
  next
    case external: None
    show ?thesis
    proof (cases "find_route (protectedAPIRoutes :: 's apiRoute list) r")
      case (Some rt)
      with public external run have "protected au (arPermission rt) (arAclElevation rt) (arHandler rt) a (path_values rt r) w world
          = Some (out, world')" by (simp add: mux_def)
      from protected_effect [OF this find_route_Some [OF Some] changed] find_route_Some [OF Some] show ?thesis by blast
    next
      case None
      with public external run changed have "protected au None False notFound a r w world = Some (out, world')"
        by (auto simp: mux_def respond_def split: if_splits)
      then have "same_data world world'"
        unfolding protected_def by (elim authenticated_run)
          (auto simp: captureIdentity_def authorize_def notFound_def respond_def dest: principal_quiet)
      with changed show ?thesis by simp
    qed
  qed
qed

end

interpretation trusted: read_only_authenticator "trusted_authenticator lib entries"
  by unfold_locales
    (auto simp: trusted_authenticator_def Trusted_Middleware_def Trusted_ExternalMiddleware_def of_result_def ret_def elim!: sbind_Some)

section \<open>The server around the router\<close>

text \<open>The server runs the router on the request with its id, and nothing outside the router touches the data.\<close>

definition accepted_request :: "HttpRequest \<Rightarrow> string \<Rightarrow> HttpRequest" where
  "accepted_request r i = r\<lparr>rqRequestID := ContextWithRequestID [] i, rqPrincipal := None, rqExternal := None\<rparr>"

definition recovered :: "HttpRequest \<Rightarrow> outcome \<Rightarrow> ResponseWriter" where
  "recovered r out =
     (case out of
        Returned w \<Rightarrow> w
      | Panicked w _ \<Rightarrow> writeError r (E CodeInternal ''internal server error'') (w\<lparr>rwLog := rwLog w @ [HandlerPanic]\<rparr>))"

definition finished :: "ResponseWriter \<Rightarrow> ResponseWriter" where
  "finished w = w\<lparr>rwStatus := (if rwStatus w = 0 then 200 else rwStatus w)\<rparr>"

lemma request_id_run:
  obtains i w1 where "request_id r w = Some (Inr i, w1)" "same_data w w1"
proof -
  have "\<exists>i w1. request_id r w = Some (Inr i, w1) \<and> same_data w w1"
    by (auto simp: request_id_def Let_def ret_def draw_def sbind_def same_data_def split: sum.splits)
  with that show thesis by blast
qed

lemma ServeHTTP_run:
  assumes "ServeHTTP a au r w = Some (res, w')"
  obtains i w1 out where "request_id r w = Some (Inr i, w1)" "same_data w w1"
    "mux au a (accepted_request r i) (header_Set ''X-Request-ID'' i empty_writer) w1 = Some (out, w')"
    "res = Inr (finished (recovered (accepted_request r i) out), access_log (accepted_request r i) (recovered (accepted_request r i) out))"
proof -
  obtain i w1 where i: "request_id r w = Some (Inr i, w1)" "same_data w w1" by (rule request_id_run)
  with assms that show thesis
    by (cases "mux au a (accepted_request r i) (header_Set ''X-Request-ID'' i empty_writer) w1")
      (auto simp: ServeHTTP_def sbind_def logRequest_def api_recover_def accepted_request_def recovered_def finished_def Let_def
        split: outcome.splits)
qed

lemma accepted_request_same [simp]:
  "header_Get (accepted_request r i) name = header_Get r name" "find_route routes (accepted_request r i) = find_route routes r"
  "rqMethod (accepted_request r i) = rqMethod r" "rqPath (accepted_request r i) = rqPath r"
  "acts_on a (accepted_request r i) repo j = acts_on a r repo j" "admits a (accepted_request r i) repo p rt = admits a r repo p rt"
  by (simp_all add: accepted_request_def header_Get_def find_route_def acts_on_def created_under_def moved_to_def admits_def)

lemma external_request:
  assumes "find_route externalAPIRoutes r = Some rt"
  shows "rqMethod r = ''POST'' \<and> rqPath r = [''api'', ''v1'', ''invitations'', ''accept'']"
  using find_route_Some [OF assms]
  by (auto simp: externalAPIRoutes_def route_fields matches_def match_method_def under_v1_def match_path_iff)

end
