(* ===== verification/Auth_Oidc.thy ===== *)
theory Auth_Oidc
  imports Complex_Main Http_Access
begin

text \<open>
  \<^verbatim>\<open>internal/auth/oidc.go\<close>: bearer tokens signed by an OpenID provider. \<open>jwksVerifier\<close> keeps the
  provider's signing keys; a step takes and returns it, reads the clock of the world and takes the next answer of the
  provider from a tape. Hash functions, RSA and ECDSA verification, floating point and \<^verbatim>\<open>url.Parse\<close> are the
  record \<open>JwtLib\<close>. A resolver turns a verified identity into a principal of the tenant; the server uses the
  repository's members.
\<close>

section \<open>Claims, keys and the provider\<close>

record OIDCClaims =
  ocIssuer :: string
  ocSubject :: string
  ocAudience :: "string list"
  ocAuthorizedParty :: string
  ocExpiresAt :: time
  ocNotBefore :: "time option"

record jwk =
  kKty :: string
  kKid :: string
  kAlg :: string
  kUse :: string
  kN :: string
  kE :: string
  kCrv :: string
  kX :: string
  kY :: string

definition zero_jwk :: jwk where
  "zero_jwk = \<lparr>kKty = [], kKid = [], kAlg = [], kUse = [], kN = [], kE = [], kCrv = [], kX = [], kY = []\<rparr>"

definition jwk_fields :: "jwk json_field list" where
  "jwk_fields =
     [(''kty'', string_field (\<lambda>s x. x\<lparr>kKty := s\<rparr>)), (''kid'', string_field (\<lambda>s x. x\<lparr>kKid := s\<rparr>)),
      (''alg'', string_field (\<lambda>s x. x\<lparr>kAlg := s\<rparr>)), (''use'', string_field (\<lambda>s x. x\<lparr>kUse := s\<rparr>)),
      (''n'', string_field (\<lambda>s x. x\<lparr>kN := s\<rparr>)), (''e'', string_field (\<lambda>s x. x\<lparr>kE := s\<rparr>)),
      (''crv'', string_field (\<lambda>s x. x\<lparr>kCrv := s\<rparr>)), (''x'', string_field (\<lambda>s x. x\<lparr>kX := s\<rparr>)),
      (''y'', string_field (\<lambda>s x. x\<lparr>kY := s\<rparr>))]"

datatype hash_name = SHA256 | SHA384 | SHA512

datatype curve = P256 | P384 | P521

record Url =
  urlScheme :: string
  urlHost :: string
  urlUser :: bool
  urlRawQuery :: string
  urlFragment :: string

record JwtLib =
  jl_hash :: "hash_name \<Rightarrow> string \<Rightarrow> string"
  jl_VerifyPKCS1v15 :: "int \<Rightarrow> int \<Rightarrow> hash_name \<Rightarrow> string \<Rightarrow> string \<Rightarrow> bool"
  jl_ecdsa_Verify :: "curve \<Rightarrow> int \<Rightarrow> int \<Rightarrow> string \<Rightarrow> int \<Rightarrow> int \<Rightarrow> bool"
  jl_IsOnCurve :: "curve \<Rightarrow> int \<Rightarrow> int \<Rightarrow> bool"
  jl_ParseFloat :: "string \<Rightarrow> rat option"
  jl_mul :: "rat \<Rightarrow> rat \<Rightarrow> rat"
  jl_url_Parse :: "string \<Rightarrow> Url option"

text \<open>What the provider answers to a request: no request could be made, none came back, or a status with a body.\<close>

datatype fetch = FetchInvalid string | FetchFailed string | Fetched int "string result"

record jwksVerifier =
  jvIssuer :: string
  jvJwks :: string
  jvKeys :: "(string, jwk) gomap"
  jvRefreshedAt :: time
  jvFetch :: "nat \<Rightarrow> fetch"

type_synonym ('s, 'a) verifying = "jwksVerifier \<Rightarrow> 's World \<Rightarrow> ('a result \<times> jwksVerifier) \<times> 's World"

section \<open>Decoding\<close>

definition decodeURL :: "string \<Rightarrow> string option" where
  "decodeURL s = (case b64_decode b64_url False s of Some b \<Rightarrow> Some b | None \<Rightarrow> b64_decode b64_url True s)"

text \<open>\<^verbatim>\<open>decoder.Decode\<close> followed by \<^verbatim>\<open>ensureJSONEOF\<close>: one value, and nothing but white space behind it.\<close>

definition decode_one :: "(json \<Rightarrow> 'a option) \<Rightarrow> string \<Rightarrow> 'a option" where
  "decode_one dec s =
     (case next_value False s of
        ReadValue v rest \<Rightarrow>
          (case dec v of None \<Rightarrow> None | Some x \<Rightarrow> if next_value False rest = ReadEOF then Some x else None)
      | _ \<Rightarrow> None)"

definition decodeLimited :: "(json \<Rightarrow> 'a option) \<Rightarrow> string result \<Rightarrow> 'a result" where
  "decodeLimited dec body =
     (case body of
        Inl e \<Rightarrow> Inl e
      | Inr data \<Rightarrow>
          if length data > 1048576 then Inl (OtherError ''JSON document exceeds the allowed size'' None)
          else (case decode_one dec data of None \<Rightarrow> Inl (OtherError ''invalid JSON document'' None) | Some x \<Rightarrow> Inr x))"

fun split_at_char :: "char \<Rightarrow> string \<Rightarrow> string list" where
  "split_at_char c [] = [[]]"
| "split_at_char c (x # xs) =
     (if x = c then [] # split_at_char c xs
      else (case split_at_char c xs of [] \<Rightarrow> [[x]] | p # ps \<Rightarrow> (x # p) # ps))"

definition bearerToken :: "string \<Rightarrow> string result" where
  "bearerToken header =
     (let token = drop (length bearer_prefix) header
      in if take (length bearer_prefix) header \<noteq> bearer_prefix \<or> token = [] \<or> length token > 1048576 \<or> list_ex token_space token
         then Inl (E CodeUnauthenticated ''a valid bearer token is required'')
         else Inr token)"

text \<open>\<^verbatim>\<open>json.Number\<close>: the literal of a number, or a string that is one.\<close>

definition valid_number :: "string \<Rightarrow> bool" where
  "valid_number s \<longleftrightarrow> next_value False s = ReadValue (JNum s) []"

fun number_value :: "json \<Rightarrow> string option" where
  "number_value (JNum raw) = Some raw"
| "number_value (JStr raw) = (if valid_number (unquote raw) then Some (unquote raw) else None)"
| "number_value _ = None"

definition number_field :: "(string \<Rightarrow> 'a \<Rightarrow> 'a) \<Rightarrow> json \<Rightarrow> 'a \<Rightarrow> 'a option" where
  "number_field upd v x = (if v = JNull then Some x else map_option (\<lambda>s. upd s x) (number_value v))"

fun string_value :: "json \<Rightarrow> string option" where
  "string_value JNull = Some []"
| "string_value (JStr raw) = Some (unquote raw)"
| "string_value _ = None"

definition parseAudience :: "json option \<Rightarrow> string list option" where
  "parseAudience raw =
     (case raw of
        None \<Rightarrow> None
      | Some (JStr s) \<Rightarrow> if unquote s \<noteq> [] then Some [unquote s] else None
      | Some (JArr vs) \<Rightarrow> (case decode_all string_value vs of Some (a # as) \<Rightarrow> Some (a # as) | _ \<Rightarrow> None)
      | Some _ \<Rightarrow> None)"

definition truncate_rat :: "rat \<Rightarrow> int" where
  "truncate_rat x = (if 0 \<le> x then \<lfloor>x\<rfloor> else \<lceil>x\<rceil>)"

text \<open>Unix time 0 is this many seconds after the zero time.\<close>

definition unix_epoch :: int where
  "unix_epoch = 62135596800"

definition parseUnixClaim :: "JwtLib \<Rightarrow> string \<Rightarrow> time option" where
  "parseUnixClaim jl s =
     (case jl_ParseFloat jl s of
        None \<Rightarrow> None
      | Some seconds \<Rightarrow>
          if seconds < -62135596800 \<or> seconds > 253402300799 then None
          else (let whole = truncate_rat seconds; fraction = seconds - of_int whole
                in Some ((whole + unix_epoch) * time_Second + truncate_rat (jl_mul jl fraction (of_int time_Second)))))"

section \<open>Signatures\<close>

definition bytes_int :: "string \<Rightarrow> int" where
  "bytes_int = foldl (\<lambda>n c. 256 * n + int (byte c)) 0"

definition rsaKey :: "jwk \<Rightarrow> (int \<times> int) option" where
  "rsaKey key =
     (case decodeURL (kN key) of
        None \<Rightarrow> None
      | Some modulus \<Rightarrow>
          if kKty key \<noteq> ''RSA'' \<or> length modulus < 256 then None
          else if bytes_int modulus \<le> 0 \<or> even (bytes_int modulus) then None
          else (case decodeURL (kE key) of
                  None \<Rightarrow> None
                | Some e \<Rightarrow>
                    if e = [] \<or> length e > 4 then None
                    else if bytes_int e < 3 \<or> even (bytes_int e) then None
                    else Some (bytes_int modulus, bytes_int e)))"

definition curve_of :: "string \<Rightarrow> curve option" where
  "curve_of name = (if name = ''P-256'' then Some P256 else if name = ''P-384'' then Some P384 else if name = ''P-521'' then Some P521 else None)"

fun coordinate_size :: "curve \<Rightarrow> nat" where
  "coordinate_size P256 = 32"
| "coordinate_size P384 = 48"
| "coordinate_size P521 = 66"

definition ecdsaKey :: "JwtLib \<Rightarrow> jwk \<Rightarrow> (curve \<times> int \<times> int) option" where
  "ecdsaKey jl key =
     (case curve_of (kCrv key) of
        None \<Rightarrow> None
      | Some c \<Rightarrow>
          (case decodeURL (kX key) of
             None \<Rightarrow> None
           | Some x \<Rightarrow>
               (case decodeURL (kY key) of
                  None \<Rightarrow> None
                | Some y \<Rightarrow>
                    if kKty key \<noteq> ''EC'' then None
                    else if length x \<noteq> coordinate_size c \<or> length y \<noteq> coordinate_size c then None
                    else if \<not> jl_IsOnCurve jl c (bytes_int x) (bytes_int y) then None
                    else Some (c, bytes_int x, bytes_int y))))"

definition hash_of :: "string \<Rightarrow> hash_name option" where
  "hash_of algorithm =
     (if algorithm = ''RS256'' \<or> algorithm = ''ES256'' then Some SHA256
      else if algorithm = ''RS384'' \<or> algorithm = ''ES384'' then Some SHA384
      else if algorithm = ''RS512'' \<or> algorithm = ''ES512'' then Some SHA512
      else None)"

definition hashFor :: "string \<Rightarrow> hash_name" where
  "hashFor algorithm = (if algorithm = ''RS256'' then SHA256 else if algorithm = ''RS384'' then SHA384 else SHA512)"

definition expected_curve :: "string \<Rightarrow> string" where
  "expected_curve algorithm =
     (if algorithm = ''ES256'' then ''P-256'' else if algorithm = ''ES384'' then ''P-384'' else if algorithm = ''ES512'' then ''P-521'' else [])"

definition verifyJWTSignature :: "JwtLib \<Rightarrow> jwk \<Rightarrow> string \<Rightarrow> string \<Rightarrow> string \<Rightarrow> bool" where
  "verifyJWTSignature jl key algorithm signed signature =
     (case hash_of algorithm of
        None \<Rightarrow> False
      | Some h \<Rightarrow>
          if take 2 algorithm = ''RS'' \<and> kKty key \<noteq> ''RSA'' then False
          else if take 2 algorithm = ''ES'' \<and> kKty key \<noteq> ''EC'' then False
          else if take 2 algorithm = ''ES'' \<and> kCrv key \<noteq> expected_curve algorithm then False
          else
            let sum = jl_hash jl h signed
            in if take 2 algorithm = ''RS''
               then (case rsaKey key of
                       None \<Rightarrow> False
                     | Some (n, e) \<Rightarrow> jl_VerifyPKCS1v15 jl n e (hashFor algorithm) sum signature)
               else (case ecdsaKey jl key of
                       None \<Rightarrow> False
                     | Some (c, x, y) \<Rightarrow>
                         if length signature \<noteq> 2 * coordinate_size c then False
                         else (let half = length signature div 2
                               in jl_ecdsa_Verify jl c x y sum (bytes_int (take half signature)) (bytes_int (drop half signature)))))"

section \<open>The key set\<close>

definition time_Now :: "'s World \<Rightarrow> time \<times> 's World" where
  "time_Now w = (wClock w 0, w\<lparr>wClock := \<lambda>n. wClock w (Suc n)\<rparr>)"

fun add_signing_key :: "jwk \<Rightarrow> (string, jwk) gomap \<Rightarrow> (string, jwk) gomap" where
  "add_signing_key key keys =
     (if kKid key = [] \<or> kUse key \<noteq> [] \<and> kUse key \<noteq> ''sig'' then keys else gput (kKid key) key keys)"

definition key_document :: "json \<Rightarrow> jwk list option" where
  "key_document v = decode_struct False [(''keys'', list_field (\<lambda>k. decode_struct False jwk_fields k zero_jwk) (\<lambda>ks _. ks))] v []"

definition loadKeysLocked :: "('s, (string, jwk) gomap) verifying" where
  "loadKeysLocked v w =
     (let v1 = v\<lparr>jvFetch := \<lambda>n. jvFetch v (Suc n)\<rparr>;
          failed = (\<lambda>message cause. ((Inl (Retryable CodeDependencyUnavailable message cause), v1), w))
      in (case jvFetch v 0 of
            FetchInvalid e \<Rightarrow> failed ''OIDC key request could not be created'' (Some (OtherError e None))
          | FetchFailed e \<Rightarrow> failed ''OIDC signing keys are unavailable'' (Some (OtherError e None))
          | Fetched status body \<Rightarrow>
              if status < 200 \<or> status \<ge> 300
              then failed ''OIDC signing keys returned an unexpected status'' (Some (OtherError (''HTTP '' @ show_int status) None))
              else (case decodeLimited key_document body of
                      Inl e \<Rightarrow> failed ''OIDC signing keys are invalid'' (Some e)
                    | Inr document \<Rightarrow>
                        let keys = fold add_signing_key document gempty
                        in if gentries keys = [] then failed ''OIDC provider returned no signing keys'' None
                           else (case time_Now w of (now, w1) \<Rightarrow>
                                   ((Inr keys, v1\<lparr>jvKeys := keys, jvRefreshedAt := now\<rparr>), w1)))))"

definition loadKeys :: "('s, (string, jwk) gomap) verifying" where
  "loadKeys = loadKeysLocked"

definition ten_minutes :: duration where
  "ten_minutes = 10 * 60 * time_Second"

definition verifier_key :: "string \<Rightarrow> ('s, jwk) verifying" where
  "verifier_key kid v w =
     (case (case gget (jvKeys v) kid of
              Some key \<Rightarrow> (case time_Now w of (now, w1) \<Rightarrow> (if now - jvRefreshedAt v < ten_minutes then Some key else None, w1))
            | None \<Rightarrow> (None, w)) of
        (Some key, w1) \<Rightarrow> ((Inr key, v), w1)
      | (None, w1) \<Rightarrow>
          (case loadKeysLocked v w1 of
             ((Inl e, v2), w2) \<Rightarrow> ((Inl e, v2), w2)
           | ((Inr keys, v2), w2) \<Rightarrow>
               (case gget keys kid of
                  None \<Rightarrow> ((Inl (E CodeUnauthenticated ''OIDC token key is unknown''), v2), w2)
                | Some key \<Rightarrow> ((Inr key, v2), w2))))"

section \<open>Tokens\<close>

record jwt_header =
  jhAlg :: string
  jhKid :: string

definition jwt_header_fields :: "jwt_header json_field list" where
  "jwt_header_fields = [(''alg'', string_field (\<lambda>s x. x\<lparr>jhAlg := s\<rparr>)), (''kid'', string_field (\<lambda>s x. x\<lparr>jhKid := s\<rparr>))]"

record jwt_payload =
  jpIssuer :: string
  jpSubject :: string
  jpAudience :: "json option"
  jpAuthorizedParty :: string
  jpExpiresAt :: string
  jpNotBefore :: "json option"

definition jwt_payload_fields :: "jwt_payload json_field list" where
  "jwt_payload_fields =
     [(''iss'', string_field (\<lambda>s x. x\<lparr>jpIssuer := s\<rparr>)), (''sub'', string_field (\<lambda>s x. x\<lparr>jpSubject := s\<rparr>)),
      (''aud'', \<lambda>v x. Some (x\<lparr>jpAudience := Some v\<rparr>)), (''azp'', string_field (\<lambda>s x. x\<lparr>jpAuthorizedParty := s\<rparr>)),
      (''exp'', number_field (\<lambda>s x. x\<lparr>jpExpiresAt := s\<rparr>)), (''nbf'', \<lambda>v x. Some (x\<lparr>jpNotBefore := Some v\<rparr>))]"

definition empty_payload :: jwt_payload where
  "empty_payload = \<lparr>jpIssuer = [], jpSubject = [], jpAudience = None, jpAuthorizedParty = [], jpExpiresAt = [], jpNotBefore = None\<rparr>"

text \<open>\<^verbatim>\<open>json.Unmarshal\<close> of the token's header takes one value and nothing behind it.\<close>

definition jwt_header_of :: "string \<Rightarrow> jwt_header option" where
  "jwt_header_of s = decode_one (\<lambda>v. decode_struct False jwt_header_fields v \<lparr>jhAlg = [], jhKid = []\<rparr>) s"

definition parse_not_before :: "JwtLib \<Rightarrow> json option \<Rightarrow> time option option" where
  "parse_not_before jl raw =
     (case raw of
        None \<Rightarrow> Some None
      | Some v \<Rightarrow> (case number_value v of None \<Rightarrow> None | Some s \<Rightarrow> map_option Some (parseUnixClaim jl s)))"

text \<open>The part of \<^verbatim>\<open>Verify\<close> that reads the token: header, claims, signed text and signature.\<close>

definition unauthenticated :: "string \<Rightarrow> 'a result" where
  "unauthenticated message = Inl (E CodeUnauthenticated message)"

definition read_claims :: "JwtLib \<Rightarrow> string \<Rightarrow> string \<Rightarrow> OIDCClaims result" where
  "read_claims jl issuer payloadBytes =
     (case decode_one (\<lambda>v. decode_struct False jwt_payload_fields v empty_payload) payloadBytes of
        None \<Rightarrow> unauthenticated ''OIDC token claims are invalid''
      | Some payload \<Rightarrow>
          (case parseAudience (jpAudience payload) of
             None \<Rightarrow> unauthenticated ''OIDC token claims are invalid''
           | Some audience \<Rightarrow>
               if jpIssuer payload \<noteq> issuer \<or> jpSubject payload = [] \<or> jpExpiresAt payload = []
               then unauthenticated ''OIDC token claims are invalid''
               else (case parseUnixClaim jl (jpExpiresAt payload) of
                       None \<Rightarrow> unauthenticated ''OIDC token expiry is invalid''
                     | Some expiresAt \<Rightarrow>
                         (case parse_not_before jl (jpNotBefore payload) of
                            None \<Rightarrow> unauthenticated ''OIDC token not-before is invalid''
                          | Some notBefore \<Rightarrow>
                              Inr \<lparr>ocIssuer = jpIssuer payload, ocSubject = jpSubject payload, ocAudience = audience,
                                   ocAuthorizedParty = jpAuthorizedParty payload, ocExpiresAt = expiresAt, ocNotBefore = notBefore\<rparr>))))"

definition read_token :: "JwtLib \<Rightarrow> string \<Rightarrow> string \<Rightarrow> (jwt_header \<times> OIDCClaims \<times> string \<times> string) result" where
  "read_token jl issuer raw =
     (if raw = [] \<or> length raw > 1048576 then unauthenticated ''OIDC token is malformed''
      else
        (case split_at_char CHR ''.'' raw of
           [p0, p1, p2] \<Rightarrow>
             (case decodeURL p0 of
                None \<Rightarrow> unauthenticated ''OIDC token header is malformed''
              | Some headerBytes \<Rightarrow>
                  (case decodeURL p1 of
                     None \<Rightarrow> unauthenticated ''OIDC token payload is malformed''
                   | Some payloadBytes \<Rightarrow>
                       (case decodeURL p2 of
                          None \<Rightarrow> unauthenticated ''OIDC token signature is malformed''
                        | Some signature \<Rightarrow>
                            (case jwt_header_of headerBytes of
                               None \<Rightarrow> unauthenticated ''OIDC token header is invalid''
                             | Some header \<Rightarrow>
                                 if jhKid header = [] then unauthenticated ''OIDC token header is invalid''
                                 else (case read_claims jl issuer payloadBytes of
                                         Inl e \<Rightarrow> Inl e
                                       | Inr claims \<Rightarrow> Inr (header, claims, p0 @ ''.'' @ p1, signature))))))
         | _ \<Rightarrow> unauthenticated ''OIDC token is malformed''))"

definition verifier_Verify :: "JwtLib \<Rightarrow> string \<Rightarrow> ('s, OIDCClaims) verifying" where
  "verifier_Verify jl raw v w =
     (case read_token jl (jvIssuer v) raw of
        Inl e \<Rightarrow> ((Inl e, v), w)
      | Inr (header, claims, signed, signature) \<Rightarrow>
          (case verifier_key (jhKid header) v w of
             ((Inl e, v1), w1) \<Rightarrow> ((Inl e, v1), w1)
           | ((Inr key, v1), w1) \<Rightarrow>
               ((if kAlg key \<noteq> [] \<and> kAlg key \<noteq> jhAlg header then unauthenticated ''OIDC token algorithm is not allowed''
                 else if \<not> verifyJWTSignature jl key (jhAlg header) signed signature then unauthenticated ''OIDC token signature is invalid''
                 else Inr claims, v1), w1)))"

section \<open>Discovery\<close>

definition document_fields :: "(string \<times> string) json_field list" where
  "document_fields = [(''issuer'', string_field (\<lambda>s x. (s, snd x))), (''jwks_uri'', string_field (\<lambda>s x. (fst x, s)))]"

text \<open>\<^verbatim>\<open>CheckRedirect\<close>: \<open>via\<close> are the requests made so far, the first one first.\<close>

definition check_redirect :: "Url \<Rightarrow> Url list \<Rightarrow> string option" where
  "check_redirect target via =
     (case via of
        [] \<Rightarrow> None
      | origin # _ \<Rightarrow>
          if urlScheme target \<noteq> urlScheme origin \<or> urlHost target \<noteq> urlHost origin then Some ''OIDC discovery redirect changed origin''
          else if length via \<ge> 5 then Some ''OIDC discovery redirect limit exceeded''
          else None)"

definition http_scheme :: "string \<Rightarrow> bool" where
  "http_scheme s \<longleftrightarrow> s = ''https'' \<or> s = ''http''"

definition other :: "string \<Rightarrow> error option \<Rightarrow> 'a result" where
  "other message cause = Inl (OtherError message cause)"

definition jwks_url :: "JwtLib \<Rightarrow> string \<Rightarrow> string \<Rightarrow> string result" where
  "jwks_url jl issuer uri =
     (case jl_url_Parse jl issuer of
        None \<Rightarrow> other ''configured OIDC issuer is invalid'' None
      | Some issuerURL \<Rightarrow>
          (case jl_url_Parse jl uri of
             None \<Rightarrow> other ''OIDC discovery returned an invalid JWKS URL'' None
           | Some jwksURL \<Rightarrow>
               if urlHost jwksURL = [] \<or> \<not> http_scheme (urlScheme jwksURL) \<or> urlUser jwksURL \<or> urlFragment jwksURL \<noteq> []
                  \<or> urlScheme issuerURL = ''https'' \<and> urlScheme jwksURL \<noteq> ''https''
               then other ''OIDC discovery returned an invalid JWKS URL'' None
               else Inr uri))"

text \<open>The first answer of the tape is the discovery document, the second the key set.\<close>

definition discover :: "JwtLib \<Rightarrow> string \<Rightarrow> fetch \<Rightarrow> string result" where
  "discover jl issuer answer =
     (case answer of
        FetchInvalid e \<Rightarrow> other ''create OIDC discovery request'' (Some (OtherError e None))
      | FetchFailed e \<Rightarrow> other ''OIDC discovery failed'' (Some (OtherError e None))
      | Fetched status body \<Rightarrow>
          if status < 200 \<or> status \<ge> 300 then other (''OIDC discovery returned HTTP '' @ show_int status) None
          else (case decodeLimited (\<lambda>v. decode_struct False document_fields v ([], [])) body of
                  Inl e \<Rightarrow> other ''decode OIDC discovery'' (Some e)
                | Inr (documentIssuer, uri) \<Rightarrow>
                    if documentIssuer \<noteq> issuer \<or> uri = [] then other ''OIDC discovery does not match configured issuer'' None
                    else jwks_url jl issuer uri))"

definition newJWKSVerifier :: "JwtLib \<Rightarrow> string \<Rightarrow> (nat \<Rightarrow> fetch) \<Rightarrow> 's World \<Rightarrow> jwksVerifier result \<times> 's World" where
  "newJWKSVerifier jl issuer tape w =
     (case discover jl issuer (tape 0) of
        Inl e \<Rightarrow> (Inl e, w)
      | Inr uri \<Rightarrow>
          (case loadKeys \<lparr>jvIssuer = issuer, jvJwks = uri, jvKeys = gempty, jvRefreshedAt = 0, jvFetch = (\<lambda>n. tape (Suc n))\<rparr> w of
             ((Inl e, _), w1) \<Rightarrow> (other ''load OIDC signing keys'' (Some e), w1)
           | ((Inr _, v), w1) \<Rightarrow> (Inr v, w1)))"

section \<open>The authenticator\<close>

record OIDC =
  oiIssuer :: string
  oiClient :: string
  oiVerify :: jwksVerifier

definition validateOIDCConfig :: "JwtLib \<Rightarrow> string \<Rightarrow> string \<Rightarrow> unit result" where
  "validateOIDCConfig jl issuer clientID =
     (case jl_url_Parse jl issuer of
        None \<Rightarrow> Inl (E CodeInvalidRequest ''OIDC issuer must be an HTTP(S) URL'')
      | Some parsed \<Rightarrow>
          if urlHost parsed = [] \<or> \<not> http_scheme (urlScheme parsed) \<or> urlUser parsed \<or> urlRawQuery parsed \<noteq> [] \<or> urlFragment parsed \<noteq> []
          then Inl (E CodeInvalidRequest ''OIDC issuer must be an HTTP(S) URL'')
          else if clientID = [] then Inl (E CodeInvalidRequest ''OIDC client id is required'')
          else Inr ())"

definition NewOIDC :: "JwtLib \<Rightarrow> string \<Rightarrow> string \<Rightarrow> (nat \<Rightarrow> fetch) \<Rightarrow> 's World \<Rightarrow> OIDC result \<times> 's World" where
  "NewOIDC jl issuer clientID tape w =
     (case validateOIDCConfig jl issuer clientID of
        Inl e \<Rightarrow> (Inl e, w)
      | Inr _ \<Rightarrow>
          (case newJWKSVerifier jl issuer tape w of
             (Inl e, w1) \<Rightarrow> (Inl e, w1)
           | (Inr v, w1) \<Rightarrow> (Inr \<lparr>oiIssuer = issuer, oiClient = clientID, oiVerify = v\<rparr>, w1)))"

definition claims_rejected :: "OIDC \<Rightarrow> OIDCClaims \<Rightarrow> bool" where
  "claims_rejected a claims \<longleftrightarrow>
     ocIssuer claims \<noteq> oiIssuer a \<or> ocSubject claims = [] \<or> oiClient a \<notin> set (ocAudience claims)
     \<or> ocAuthorizedParty claims \<noteq> [] \<and> ocAuthorizedParty claims \<noteq> oiClient a
     \<or> length (ocAudience claims) > 1 \<and> ocAuthorizedParty claims \<noteq> oiClient a"

definition check_times :: "OIDCClaims \<Rightarrow> 's World \<Rightarrow> unit result \<times> 's World" where
  "check_times claims w =
     (case (if ocExpiresAt claims = 0 then (True, w)
            else (case time_Now w of (now, w1) \<Rightarrow> (\<not> now < ocExpiresAt claims, w1))) of
        (True, w1) \<Rightarrow> (unauthenticated ''OIDC token has expired'', w1)
      | (False, w1) \<Rightarrow>
          (case ocNotBefore claims of
             None \<Rightarrow> (Inr (), w1)
           | Some notBefore \<Rightarrow>
               (case time_Now w1 of (now, w2) \<Rightarrow>
                  (if now + 30 * time_Second < notBefore then unauthenticated ''OIDC token is not active'' else Inr (), w2))))"

definition authenticateClaims :: "JwtLib \<Rightarrow> OIDC \<Rightarrow> string \<Rightarrow> 's World \<Rightarrow> (OIDCClaims result \<times> OIDC) \<times> 's World" where
  "authenticateClaims jl a header w =
     (case bearerToken header of
        Inl e \<Rightarrow> ((Inl e, a), w)
      | Inr raw \<Rightarrow>
          (case verifier_Verify jl raw (oiVerify a) w of
             ((Inl e, v), w1) \<Rightarrow> ((Inl e, a\<lparr>oiVerify := v\<rparr>), w1)
           | ((Inr claims, v), w1) \<Rightarrow>
               let a1 = a\<lparr>oiVerify := v\<rparr>
               in if claims_rejected a claims then ((unauthenticated ''a valid OIDC token is required'', a1), w1)
                  else (case check_times claims w1 of
                          (Inl e, w2) \<Rightarrow> ((Inl e, a1), w2)
                        | (Inr _, w2) \<Rightarrow> ((Inr claims, a1), w2))))"

text \<open>The resolver that \<^verbatim>\<open>cmd/asteria-server\<close> installs: the repository's members.\<close>

definition resolve_member :: "string \<Rightarrow> string \<Rightarrow> string \<Rightarrow> Repository \<Rightarrow> Principal result" where
  "resolve_member issuer subject tenantID repo =
     (case Repo_ResolveOIDCPrincipal issuer subject tenantID repo of
        Inl e \<Rightarrow> Inl e
      | Inr m \<Rightarrow> Inr \<lparr>prIdentity = pIdentity m, prTenantDisplayName = pTenantDisplayName m, prRole = pRole m\<rparr>)"

definition OIDC_Authenticate :: "JwtLib \<Rightarrow> OIDC \<Rightarrow> string \<Rightarrow> string \<Rightarrow> 's World \<Rightarrow> (Principal result \<times> OIDC) \<times> 's World" where
  "OIDC_Authenticate jl a header tenantID w =
     (if \<not> ValidID tenantID then ((Inl (E CodeInvalidRequest ''a valid tenant selector is required''), a), w)
      else
        (case authenticateClaims jl a header w of
           ((Inl e, a1), w1) \<Rightarrow> ((Inl e, a1), w1)
         | ((Inr claims, a1), w1) \<Rightarrow>
             (case resolve_member (ocIssuer claims) (ocSubject claims) tenantID (wRepo w1) of
                Inl e \<Rightarrow> ((Inl e, a1), w1)
              | Inr p \<Rightarrow>
                  if iTenantID (prIdentity p) \<noteq> tenantID \<or> \<not> ValidID (iPrincipalID (prIdentity p)) \<or> \<not> ValidAccessRole (prRole p)
                  then ((Inl (E CodeForbidden ''identity is not authorized for this tenant''), a1), w1)
                  else ((Inr p, a1), w1))))"

text \<open>One request meets the authenticator in the state the requests before it left.\<close>

definition OIDC_Middleware :: "JwtLib \<Rightarrow> OIDC \<Rightarrow> string \<Rightarrow> string \<Rightarrow> ('s, Principal) svc" where
  "OIDC_Middleware jl a header tenantID w =
     (case OIDC_Authenticate jl a header tenantID w of ((res, _), w1) \<Rightarrow> Some (res, w1))"

definition OIDC_ExternalMiddleware :: "JwtLib \<Rightarrow> OIDC \<Rightarrow> string \<Rightarrow> ('s, ExternalIdentity) svc" where
  "OIDC_ExternalMiddleware jl a header w =
     (case authenticateClaims jl a header w of
        ((Inl e, _), w1) \<Rightarrow> Some (Inl e, w1)
      | ((Inr claims, _), w1) \<Rightarrow> Some (Inr \<lparr>eiIssuer = ocIssuer claims, eiSubject = ocSubject claims\<rparr>, w1))"

definition oidc_authenticator :: "JwtLib \<Rightarrow> OIDC \<Rightarrow> 's Authenticator" where
  "oidc_authenticator jl a = \<lparr>auMiddleware = OIDC_Middleware jl a, auExternal = Some (OIDC_ExternalMiddleware jl a)\<rparr>"

end
