(* ===== verification/Http_Answers.thy ===== *)
theory Http_Answers
  imports Http_Access
begin

text \<open>
  The form of the server's answers: below \<^verbatim>\<open>/api/\<close> a request ends in one of three success statuses or
  in an error document, and the document says no more than the code of the error allows.
\<close>

section \<open>Writing\<close>

named_theorems writer_simps

lemma header_Set_fields [writer_simps]:
  "rwStatus (header_Set name v w) = rwStatus w" "rwBody (header_Set name v w) = rwBody w"
  "gget (rwHeader (header_Set name v w)) k = (if k = name then Some v else gget (rwHeader w) k)"
  by (simp_all add: header_Set_def)

lemma WriteHeader_fields [writer_simps]:
  "rwStatus (WriteHeader s w) = (if rwStatus w = 0 then s else rwStatus w)" "rwBody (WriteHeader s w) = rwBody w"
  "rwHeader (WriteHeader s w) = rwHeader w"
  by (simp_all add: WriteHeader_def)

lemma encode_body_fields [writer_simps]:
  "rwStatus (encode_body v w) = (if rwStatus w = 0 then 200 else rwStatus w)" "rwBody (encode_body v w) = rwBody w @ [v]"
  "rwHeader (encode_body v w) = rwHeader w"
  by (simp_all add: encode_body_def writer_simps Let_def)

lemma writeJSON_fields [writer_simps]:
  "rwStatus (writeJSON s v w) = (if rwStatus w = 0 then (if s = 0 then 200 else s) else rwStatus w)"
  "rwBody (writeJSON s v w) = rwBody w @ [v]"
  "k \<noteq> ''Content-Type'' \<Longrightarrow> gget (rwHeader (writeJSON s v w)) k = gget (rwHeader w) k"
  by (simp_all add: writeJSON_def writer_simps)

definition error_document :: "string \<Rightarrow> error \<Rightarrow> jsonval" where
  "error_document requestID err =
     VObj [(''error'', VObj [(''code'', VStr (ErrorCode_string (CodeOf err))), (''message'', VStr (error_message err)),
                            (''request_id'', VStr requestID)])]"

lemma statusFor_range: "400 \<le> statusFor c \<and> statusFor c \<le> 503"
  by (cases c) simp_all

lemma log_failure_fields [writer_simps]:
  "rwStatus (log_failure e w) = rwStatus w" "rwBody (log_failure e w) = rwBody w" "rwHeader (log_failure e w) = rwHeader w"
  by (simp_all add: log_failure_def)

lemma writeError_fields [writer_simps]:
  "rwStatus w = 0 \<Longrightarrow> rwStatus (writeError r err w) = statusFor (CodeOf err)"
  "rwBody (writeError r err w) = rwBody w @ [error_document (rqRequestID r) err]"
  "k \<noteq> ''Content-Type'' \<Longrightarrow> gget (rwHeader (writeError r err w)) k = gget (rwHeader w) k"
  using statusFor_range [of "CodeOf err"] by (auto simp: writeError_def writer_simps error_document_def Let_def)

section \<open>Handlers\<close>

text \<open>\<open>fresh\<close> is a writer that nothing was written to; \<open>answered\<close> one whose answer is complete.\<close>

definition fresh :: "string \<Rightarrow> ResponseWriter \<Rightarrow> bool" where
  "fresh i w \<longleftrightarrow> rwStatus w = 0 \<and> rwBody w = [] \<and> gget (rwHeader w) ''X-Request-ID'' = Some i"

definition answered :: "string \<Rightarrow> ResponseWriter \<Rightarrow> bool" where
  "answered i w \<longleftrightarrow> gget (rwHeader w) ''X-Request-ID'' = Some i
     \<and> (rwStatus w \<in> {200, 201, 204} \<or> (\<exists>err. rwStatus w = statusFor (CodeOf err) \<and> rwBody w = [error_document i err]))"

fun ended :: "string \<Rightarrow> outcome \<Rightarrow> bool" where
  "ended i (Returned w) \<longleftrightarrow> answered i w"
| "ended i (Panicked w _) \<longleftrightarrow> fresh i w"

definition answers :: "'s apiHandler \<Rightarrow> bool" where
  "answers handler \<longleftrightarrow> (\<forall>a r w world out world'.
     fresh (rqRequestID r) w \<longrightarrow> handler a r w world = Some (out, world') \<longrightarrow> ended (rqRequestID r) out)"

lemma answersI:
  assumes "\<And>a r w world out world'. fresh (rqRequestID r) w \<Longrightarrow> handler a r w world = Some (out, world') \<Longrightarrow> ended (rqRequestID r) out"
  shows "answers handler"
  using assms unfolding answers_def by blast

lemma answersD:
  assumes "answers handler" "fresh i w" "handler a r w world = Some (out, world')" "rqRequestID r = i"
  shows "ended i out"
  using assms unfolding answers_def by blast

definition yields :: "('a \<Rightarrow> bool) \<Rightarrow> ('s, 'a) svc \<Rightarrow> bool" where
  "yields P m \<longleftrightarrow> (\<forall>w x w'. m w = Some (Inr x, w') \<longrightarrow> P x)"

lemma yields_ret: "P x \<Longrightarrow> yields P (ret x)"
  by (simp add: yields_def ret_def)

lemma yields_fail: "yields P (fail e)"
  by (simp add: yields_def fail_def)

lemma yields_sbind: "(\<And>x. yields P (f x)) \<Longrightarrow> yields P (sbind m f)"
  unfolding yields_def by (metis sbind_Inr)

lemma yields_if: "(b \<Longrightarrow> yields P m) \<Longrightarrow> (\<not> b \<Longrightarrow> yields P n) \<Longrightarrow> yields P (if b then m else n)"
  by simp

lemma yields_prod: "(\<And>x y. z = (x, y) \<Longrightarrow> yields P (f x y)) \<Longrightarrow> yields P (case z of (x, y) \<Rightarrow> f x y)"
  by (cases z) simp

lemmas yields_rules = yields_ret yields_fail yields_sbind yields_if yields_prod

lemma answered_error: "fresh i w \<Longrightarrow> rqRequestID r = i \<Longrightarrow> answered i (writeError r err w)"
  by (auto simp: fresh_def answered_def writer_simps)

lemma answers_on_error:
  assumes "\<And>a r w. fresh (rqRequestID r) w \<Longrightarrow> yields (answered (rqRequestID r)) (m a r w)"
  shows "answers (\<lambda>a r w. on_error r w (m a r w))"
proof (rule answersI)
  fix a r w world out world'
  assume w: "fresh (rqRequestID r) w" and run: "on_error r w (m a r w) world = Some (out, world')"
  from assms [OF w, of a] run w show "ended (rqRequestID r) out"
    by (fastforce simp: on_error_def yields_def answered_error split: option.splits prod.splits sum.splits error.splits)
qed

lemma answered_fold:
  "rwStatus w = 200 \<Longrightarrow> gget (rwHeader w) ''X-Request-ID'' = Some i \<Longrightarrow> answered i (fold (\<lambda>e. encode_body (f e)) es w)"
  by (induction es arbitrary: w) (simp_all add: answered_def writer_simps)

lemma answered_writes:
  "fresh i w \<Longrightarrow> answered i (WriteHeader 204 w)"
  "fresh i w \<Longrightarrow> s \<in> {200, 201} \<Longrightarrow> answered i (writeJSON s v w)"
  "fresh i w \<Longrightarrow> s \<in> {200, 201} \<Longrightarrow> answered i (writeData s v w)"
  "fresh i w \<Longrightarrow> name \<noteq> ''X-Request-ID'' \<Longrightarrow> fresh i (header_Set name u w)"
  "fresh i w \<Longrightarrow> fresh i (setETag n w)" "fresh i w \<Longrightarrow> fresh i (replayed_header k b w)"
  by (auto simp: fresh_def answered_def writer_simps writeData_def setETag_def replayed_header_def)

lemma answers_members: "answers getTenant" "answers listMembers" "answers updateMember" "answers deleteMember" "answers createInvitation"
  "answers listInvitations" "answers revokeInvitation" "answers acceptInvitation"
  unfolding getTenant_def listMembers_def updateMember_def deleteMember_def createInvitation_def listInvitations_def
    revokeInvitation_def acceptInvitation_def
  by (rule answers_on_error, intro yields_rules answered_writes; simp)+

lemma answers_groups: "answers createGroup" "answers listGroups" "answers updateGroup" "answers deleteGroup" "answers listGroupMembers"
  "answers addGroupMember" "answers removeGroupMember" "answers listNodeACL" "answers setNodeACL" "answers deleteNodeACL"
  unfolding createGroup_def listGroups_def updateGroup_def deleteGroup_def listGroupMembers_def addGroupMember_def removeGroupMember_def
    listNodeACL_def setNodeACL_def deleteNodeACL_def
  by (rule answers_on_error, intro yields_rules answered_writes; simp)+

lemma answers_nodes: "answers createDirectory" "answers getDirectory" "answers getFile" "answers listChildren" "answers updateNode"
  "answers recycleNode" "answers listRecycle" "answers restoreNode" "answers purgeNode"
  unfolding createDirectory_def getDirectory_def getFile_def listChildren_def updateNode_def recycleNode_def listRecycle_def restoreNode_def
    purgeNode_def respond_node_def
  by (rule answers_on_error, intro yields_rules answered_writes; simp)+

lemma answers_uploads: "answers createUpload" "answers getUpload" "answers listUploadParts" "answers signUploadPart" "answers completeUpload"
  "answers abortUpload" "answers createDownloadAuthorization"
  unfolding createUpload_def getUpload_def listUploadParts_def signUploadPart_def completeUpload_def abortUpload_def
    createDownloadAuthorization_def
  by (rule answers_on_error, intro yields_rules answered_writes; simp)+

lemma answers_audit: "answers listAuditEvents" "answers exportAuditEvents"
  unfolding listAuditEvents_def exportAuditEvents_def
  by (rule answers_on_error, intro yields_rules answered_writes answered_fold; simp add: writer_simps fresh_def)+

lemma answers_notFound: "answers notFound"
  by (auto simp: answers_def notFound_def respond_def answered_error)

lemmas answers_all = answers_members answers_groups answers_nodes answers_uploads answers_audit answers_notFound

lemma answers_route: "rt \<in> set protectedAPIRoutes \<Longrightarrow> answers (arHandler rt)" "rt \<in> set externalAPIRoutes \<Longrightarrow> answers (arHandler rt)"
  unfolding protectedAPIRoutes_def externalAPIRoutes_def set_simps
  by (elim insertE emptyE; simp only: route_fields answers_all)+

section \<open>Middleware\<close>

lemma answers_authorize:
  assumes "answers handler"
  shows "answers (authorize permission elevation handler)"
proof (rule answersI)
  fix a r w world out world'
  assume w: "fresh (rqRequestID r) w" and run: "authorize permission elevation handler a r w world = Some (out, world')"
  then show "ended (rqRequestID r) out"
    using answersD [OF assms w] by (auto simp: authorize_def respond_def answered_error split: option.splits if_splits)
qed

lemma answers_capture:
  assumes "answers handler"
  shows "answers (captureIdentity handler)"
proof (rule answersI)
  fix a r w world out world'
  assume w: "fresh (rqRequestID r) w" and run: "captureIdentity handler a r w world = Some (out, world')"
  have "fresh (rqRequestID r) (w\<lparr>rwFields := fields\<rparr>)" for fields using w by (simp add: fresh_def)
  with w run show "ended (rqRequestID r) out"
    unfolding captureIdentity_def by (auto intro: answersD [OF assms] split: option.splits)
qed

lemma authenticated_ended:
  assumes run: "authenticated r w check continue world = Some (out, world')" and w: "fresh (rqRequestID r) w"
    and rest: "\<And>p world1. continue p world1 = Some (out, world') \<Longrightarrow> ended (rqRequestID r) out"
  shows "ended (rqRequestID r) out"
  using assms by (auto simp: authenticated_def answered_error split: option.splits prod.splits sum.splits error.splits)

lemma answers_protected:
  assumes "answers handler"
  shows "answers (protected au permission elevation handler)"
proof (rule answersI)
  fix a r w world out world'
  assume w: "fresh (rqRequestID r) w" and run: "protected au permission elevation handler a r w world = Some (out, world')"
  have "answers (captureIdentity (authorize permission elevation handler))"
    using assms by (intro answers_capture answers_authorize)
  with run w show "ended (rqRequestID r) out"
    unfolding protected_def by (elim authenticated_ended) (auto intro: answersD)
qed

lemma answers_external:
  assumes "answers handler"
  shows "answers (external au handler)"
proof (rule answersI)
  fix a r w world out world'
  assume w: "fresh (rqRequestID r) w" and run: "external au handler a r w world = Some (out, world')"
  show "ended (rqRequestID r) out"
  proof (cases "auExternal au")
    case None
    with run w show ?thesis by (auto simp: external_def respond_def answered_error)
  next
    case (Some check)
    with run w assms show ?thesis unfolding external_def by (auto elim!: authenticated_ended intro: answersD)
  qed
qed

lemma public_not_api:
  assumes "find_route publicAPIRoutes r = Some rt"
  shows "\<not> below_api r"
  using find_route_Some [OF assms] by (auto simp: publicAPIRoutes_def route_fields matches_def match_path_iff below_api_def)

lemma mux_ended:
  assumes run: "mux au a r w world = Some (out, world')" and "below_api r" and w: "fresh (rqRequestID r) w"
  shows "ended (rqRequestID r) out"
proof -
  have id: "rqRequestID (path_values rt r) = rqRequestID r" for rt :: "'a apiRoute" by (simp add: path_values_def)
  have "find_route (publicAPIRoutes :: 'a apiRoute list) r = None" using assms(2) public_not_api by (cases "find_route (publicAPIRoutes :: 'a apiRoute list) r") auto
  with run assms(2) show ?thesis
    by (auto simp: mux_def split: option.splits intro: answersD [OF answers_external [OF answers_route(2)] w] id
        answersD [OF answers_protected [OF answers_route(1)] w] answersD [OF answers_protected [OF answers_notFound] w]
        dest: find_route_Some(1))
qed

end
