(* ===== verification/Http_Properties.thy ===== *)
theory Http_Properties
  imports Http_Answers
begin

text \<open>
  The properties of the HTTP layer: a request changes data only for a caller who is let in, the table of
  hashed tokens implements the table of tokens, answers to failures follow one form and hide what happened
  inside, revision tags come back as they went out, and the export of the audit log is complete.
\<close>

section \<open>Access\<close>

text \<open>
  Property C4. Whatever the request, the server changes its repository or its object storage only when the
  request carries a trusted token, and then only on the route for accepting an invitation, or on a protected route whose
  permission the token's role has, or, on the routes that ask the access lists, when these allow the caller
  to write to (or delete) every node the request acts on.
\<close>

theorem effects_need_admission:
  assumes run: "ServeHTTP a (trusted_authenticator lib entries) r w = Some (res, w')"
    and changed: "wRepo w' \<noteq> wRepo w \<or> wStorage w' \<noteq> wStorage w"
  shows "\<exists>p. Trusted_Authenticate lib entries (header_Get r ''Authorization'') = Inr p
     \<and> (rqMethod r = ''POST'' \<and> rqPath r = [''api'', ''v1'', ''invitations'', ''accept'']
        \<or> (\<exists>rt. rt \<in> set protectedAPIRoutes \<and> matches rt (rqMethod r) (rqPath r) \<and> admits a r (wRepo w) p rt))"
proof -
  let ?au = "trusted_authenticator lib entries"
  from run obtain i w1 out where w1: "same_data w w1"
    and mux: "mux ?au a (accepted_request r i) (header_Set ''X-Request-ID'' i empty_writer) w1 = Some (out, w')"
    by (rule ServeHTTP_run)
  with changed have "\<not> same_data w1 w'" "wRepo w1 = wRepo w" by (auto simp: same_data_def)
  with trusted.mux_effect [OF mux] show ?thesis
    by (auto simp: trusted_authenticator_def Trusted_Middleware_def Trusted_ExternalMiddleware_def of_result_def
        elim!: sbind_Inr dest!: external_request)
qed

definition sample_token :: string where
  "sample_token = replicate 32 CHR ''t''"

definition sample_principal :: "AccessRole \<Rightarrow> Principal" where
  "sample_principal role = \<lparr>prIdentity = sample_identity, prTenantDisplayName = ''T'', prRole = role\<rparr>"

definition sample_entries :: "AccessRole \<Rightarrow> Trusted" where
  "sample_entries role = [\<lparr>teHash = lib_sha256 sample_lib0 sample_token, tePrincipal = sample_principal role\<rparr>]"

definition sample_api :: "Storage Api" where
  "sample_api = \<lparr>apService = sample_service sample_lib0, apLib = sample_lib0, apParseRFC3339 = (\<lambda>s. Some (int (length s))),
     apStrictRFC3339 = (\<lambda>s. Some (int (length s)))\<rparr>"

definition sample_get :: "string \<Rightarrow> string list \<Rightarrow> HttpRequest" where
  "sample_get m path = \<lparr>rqMethod = m, rqPath = path, rqPathValue = (\<lambda>_. []),
     rqHeader = (\<lambda>name. if name = ''Authorization'' then [bearer_prefix @ sample_token] else if name = ''X-Request-ID'' then [''request-1''] else []),
     rqQuery = (\<lambda>name. []), rqContentLength = 0, rqBody = [], rqRequestID = [], rqPrincipal = None, rqExternal = None\<rparr>"

definition sample_expiring :: Repository where
  "sample_expiring = NewRepository\<lparr>tenants := [(''t1'', \<lparr>tID = ''t1'', tDisplayName = ''T'', tRootNodeID = ''root'', tCreatedAt = 1\<rparr>)],
     invitations := [(''i1'', sample_invitation\<lparr>inExpiresAt := 20\<rparr>)]\<rparr>"

lemma sample_listing_run:
  "case ServeHTTP sample_api (trusted_authenticator sample_lib0 (sample_entries RoleOwner))
      (sample_get ''GET'' [''api'', ''v1'', ''tenant'', ''invitations'']) (sample_world sample_expiring (NewStorage ''b'')) of
     Some (_, w') \<Rightarrow> map_option inStatus (gget (invitations (wRepo w')) ''i1'') = Some InvitationExpired | None \<Rightarrow> False"
  by code_simp

theorem effects_need_admission_witness:
  "\<exists>p rt. Trusted_Authenticate sample_lib0 (sample_entries RoleOwner) (bearer_prefix @ sample_token) = Inr p
     \<and> rt \<in> set protectedAPIRoutes \<and> matches rt ''GET'' [''api'', ''v1'', ''tenant'', ''invitations'']
     \<and> admits sample_api (sample_get ''GET'' [''api'', ''v1'', ''tenant'', ''invitations'']) sample_expiring p rt"
proof -
  let ?r = "sample_get ''GET'' [''api'', ''v1'', ''tenant'', ''invitations'']"
  let ?w = "sample_world sample_expiring (NewStorage ''b'')"
  have r: "header_Get ?r ''Authorization'' = bearer_prefix @ sample_token" "rqMethod ?r = ''GET''"
    "rqPath ?r = [''api'', ''v1'', ''tenant'', ''invitations'']"
    by (simp_all add: sample_get_def header_Get_def first_value_def)
  have w: "wRepo ?w = sample_expiring" by (simp add: sample_world_def)
  obtain res w' where run: "ServeHTTP sample_api (trusted_authenticator sample_lib0 (sample_entries RoleOwner)) ?r ?w = Some (res, w')"
    and "map_option inStatus (gget (invitations (wRepo w')) ''i1'') = Some InvitationExpired"
    using sample_listing_run by (auto split: option.splits)
  moreover have "map_option inStatus (gget (invitations sample_expiring) ''i1'') = Some InvitationPending" by code_simp
  ultimately have "wRepo w' \<noteq> wRepo ?w" unfolding w by auto
  with effects_need_admission [OF run] show ?thesis unfolding r w by auto
qed

section \<open>Routing\<close>

text \<open>Two patterns overlap when some path matches both.\<close>

fun overlap :: "segment list \<Rightarrow> segment list \<Rightarrow> bool" where
  "overlap [] [] = True"
| "overlap (Lit x # ps) (Lit y # qs) = (x = y \<and> overlap ps qs)"
| "overlap (p # ps) (q # qs) = overlap ps qs"
| "overlap _ _ = False"

lemma overlap_complete: "match_path ps ss \<noteq> None \<Longrightarrow> match_path qs ss \<noteq> None \<Longrightarrow> overlap ps qs"
proof (induction ps arbitrary: qs ss)
  case Nil
  then have "ss = []" by (cases ss) auto
  with Nil.prems have "qs = []" by (cases qs rule: list.exhaust) (auto elim: match_path.elims)
  then show ?case by simp
next
  case (Cons p ps)
  from Cons.prems obtain s ss' where ss: "ss = s # ss'" by (cases ss; cases p) auto
  with Cons.prems obtain q qs' where qs: "qs = q # qs'" by (cases qs) auto
  have "overlap ps qs'" using Cons.prems by (intro Cons.IH [of ss']) (cases p; cases q; auto simp: ss qs split: if_splits)+
  then show ?case using Cons.prems by (cases p; cases q) (auto simp: ss qs split: if_splits)
qed

fun apart :: "(string \<times> segment list) list \<Rightarrow> bool" where
  "apart [] = True"
| "apart ((m, p) # rest) = (list_all (\<lambda>(m', p'). m = m' \<longrightarrow> \<not> overlap p p') rest \<and> apart rest)"

lemma apart_nth:
  assumes "apart xs" "i < j" "j < length xs" "fst (xs ! i) = fst (xs ! j)"
  shows "\<not> overlap (snd (xs ! i)) (snd (xs ! j))"
  using assms
proof (induction xs arbitrary: i j rule: apart.induct)
  case (2 m p rest)
  then show ?case by (cases i; cases j) (auto simp: list_all_length split: prod.splits)
qed simp

definition all_routes :: "'s apiRoute list" where
  "all_routes = publicAPIRoutes @ externalAPIRoutes @ protectedAPIRoutes"

lemma routes_apart: "apart (map (\<lambda>rt. (arMethod rt, arPath rt)) all_routes)"
  unfolding all_routes_def publicAPIRoutes_def externalAPIRoutes_def protectedAPIRoutes_def append.simps list.map route_fields
  by code_simp

lemma method_unique: "match_method x m \<Longrightarrow> match_method y m \<Longrightarrow> x \<noteq> ''HEAD'' \<Longrightarrow> y \<noteq> ''HEAD'' \<Longrightarrow> x = y"
  by (auto simp: match_method_def)

lemma no_HEAD_route: "rt \<in> set all_routes \<Longrightarrow> arMethod rt \<noteq> ''HEAD''"
  unfolding all_routes_def publicAPIRoutes_def externalAPIRoutes_def protectedAPIRoutes_def set_simps append.simps
  by (elim insertE emptyE) (simp_all only: route_fields list.inject char.inject simp_thms)

text \<open>
  Property C40. The routes do not overlap: whatever the method and the path of a request, at most one entry of the three
  route tables matches, so no route can shadow another one and the check that runs is the one its entry names.
\<close>

theorem routes_unambiguous:
  assumes "i < length (all_routes :: 's apiRoute list)" "j < length (all_routes :: 's apiRoute list)"
    and "matches ((all_routes :: 's apiRoute list) ! i) m path" "matches ((all_routes :: 's apiRoute list) ! j) m path"
  shows "i = j"
proof (rule ccontr)
  assume "i \<noteq> j"
  have apart: False if "k < l" "l < length (all_routes :: 's apiRoute list)" "matches ((all_routes :: 's apiRoute list) ! k) m path" "matches ((all_routes :: 's apiRoute list) ! l) m path" for k l
  proof -
    from that have "match_method (arMethod ((all_routes :: 's apiRoute list) ! k)) m" "match_method (arMethod ((all_routes :: 's apiRoute list) ! l)) m" by (simp_all add: matches_def)
    then have "arMethod ((all_routes :: 's apiRoute list) ! k) = arMethod ((all_routes :: 's apiRoute list) ! l)" using that by (intro method_unique [of _ m] no_HEAD_route nth_mem) auto
    then have "\<not> overlap (arPath ((all_routes :: 's apiRoute list) ! k)) (arPath ((all_routes :: 's apiRoute list) ! l))"
      using apart_nth [OF routes_apart [where 'a = 's], of k l] less_trans [OF that(1,2)] that by simp
    with that overlap_complete [of "arPath ((all_routes :: 's apiRoute list) ! k)" path] show False by (simp add: matches_def)
  qed
  from \<open>i \<noteq> j\<close> apart [of i j] apart [of j i] assms show False by (cases i j rule: linorder_cases) auto
qed

theorem routes_unambiguous_witness:
  "{j. j < length (all_routes :: unit apiRoute list)
       \<and> matches ((all_routes :: unit apiRoute list) ! j) ''POST'' [''api'', ''v1'', ''invitations'', ''accept'']} = {2}"
proof -
  have two: "(all_routes :: unit apiRoute list) ! 2 = route ''POST'' (under_v1 [Lit ''invitations'', Lit ''accept'']) None False acceptInvitation"
    by (simp add: all_routes_def publicAPIRoutes_def externalAPIRoutes_def)
  have "2 < length (all_routes :: unit apiRoute list)" by (simp add: all_routes_def publicAPIRoutes_def externalAPIRoutes_def)
  moreover have "matches ((all_routes :: unit apiRoute list) ! 2) ''POST'' [''api'', ''v1'', ''invitations'', ''accept'']"
    by (simp add: two route_fields matches_def match_method_def under_v1_def)
  ultimately show ?thesis using routes_unambiguous by blast
qed

section \<open>Tokens\<close>

definition with_default_role :: "Principal \<Rightarrow> Principal" where
  "with_default_role p = (if prRole p = RoleOther [] then p\<lparr>prRole := RoleOwner\<rparr> else p)"

lemma trusted_entry_Inr:
  "trusted_entry lib (t, p) = Inr entry \<Longrightarrow> entry = \<lparr>teHash = lib_sha256 lib t, tePrincipal = with_default_role p\<rparr>"
  by (auto simp: trusted_entry_def with_default_role_def Let_def split: if_splits)

lemma trusted_entries_map:
  "trusted_entries lib tps = Inr entries
     \<Longrightarrow> entries = map (\<lambda>(t, p). \<lparr>teHash = lib_sha256 lib t, tePrincipal = with_default_role p\<rparr>) tps"
proof (induction tps arbitrary: entries)
  case (Cons tp tps)
  then show ?case by (cases tp) (auto split: sum.splits dest: trusted_entry_Inr)
qed simp

text \<open>
  Property C16. The authenticator's table of hashed tokens behaves like the table of tokens it was built from: a bearer
  token is answered with its principal (an absent role counts as owner), any other token, an empty one, and one
  with white space with the same error; provided that no other token of the table has the hash of the presented one.
\<close>

theorem trusted_refines_tokens:
  assumes new: "NewTrusted lib tokens = Inr entries"
    and no_collision: "\<And>t p. gget tokens t = Some p \<Longrightarrow> lib_sha256 lib t = lib_sha256 lib token \<Longrightarrow> t = token"
  shows "Trusted_Authenticate lib entries (bearer_prefix @ token) =
     (case (if token = [] \<or> list_ex token_space token then None else gget tokens token) of
        Some p \<Rightarrow> Inr (with_default_role p)
      | None \<Rightarrow> Inl (E CodeUnauthenticated ''a valid bearer token is required''))"
proof -
  let ?entry = "\<lambda>t p. \<lparr>teHash = lib_sha256 lib t, tePrincipal = with_default_role p\<rparr>"
  have entries: "entries = map (\<lambda>(t, p). ?entry t p) (gentries tokens)"
    using new by (auto simp: NewTrusted_def split: if_splits dest: trusted_entries_map)
  have in_entries: "e \<in> set entries \<longleftrightarrow> (\<exists>t p. gget tokens t = Some p \<and> e = ?entry t p)" for e
    by (force simp: entries set_gentries)
  have "matched_entry (lib_sha256 lib token) entries = (case gget tokens token of Some p \<Rightarrow> Some (?entry token p) | None \<Rightarrow> None)"
  proof (cases "gget tokens token")
    case None
    then have "lib_sha256 lib t \<noteq> lib_sha256 lib token" if "gget tokens t = Some p" for t p using no_collision that by fastforce
    then have "matched_entry (lib_sha256 lib token) entries \<noteq> Some e" for e
      using matched_entry_Some [of "lib_sha256 lib token" entries e] by (auto simp: in_entries)
    then have "matched_entry (lib_sha256 lib token) entries = None" by (meson not_None_eq)
    with None show ?thesis by simp
  next
    case (Some p)
    then have "?entry token p \<in> set entries" by (auto simp: in_entries)
    from matched_entry_unique [OF this] Some no_collision show ?thesis by (fastforce simp: in_entries)
  qed
  then show ?thesis
    by (auto simp: Trusted_Authenticate_def Let_def split: option.splits)
qed

definition sample_tokens :: "(string, Principal) gomap" where
  "sample_tokens = [(sample_token, sample_principal (RoleOther []))]"

theorem trusted_refines_tokens_witness:
  "Trusted_Authenticate sample_lib0 (sample_entries RoleOwner) (bearer_prefix @ sample_token) = Inr (sample_principal RoleOwner)"
proof -
  have "NewTrusted sample_lib0 sample_tokens = Inr (sample_entries RoleOwner)" by code_simp
  moreover have "gget sample_tokens t = Some p \<Longrightarrow> t = sample_token" for t p by (simp add: sample_tokens_def split: if_splits)
  moreover have "sample_token \<noteq> []" "\<not> list_ex token_space sample_token" by code_simp+
  ultimately show ?thesis
    using trusted_refines_tokens [of sample_lib0 sample_tokens "sample_entries RoleOwner" sample_token]
    by (simp add: sample_tokens_def with_default_role_def sample_principal_def)
qed

section \<open>Revision tags\<close>

text \<open>
  The revision tag a response carries is read back as that revision when the client returns it
  in \<^verbatim>\<open>If-Match\<close>, for every positive 64-bit revision; a tag for any other revision is refused, and no header value is
  read as a revision that is not positive.
\<close>

theorem etag_roundtrip:
  assumes "in_int64 revision"
  shows "\<exists>tag. gget (rwHeader (setETag revision w)) ''ETag'' = Some tag
     \<and> parseETag tag = (if 0 < revision then Inr revision else Inl (E CodeInvalidRequest ''If-Match must contain a quoted revision''))
     \<and> (\<forall>header n. parseETag header = Inr n \<longrightarrow> 0 < n \<and> in_int64 n)"
proof -
  have "length (show_int revision) \<noteq> 0" using show_nat_digits by (simp add: show_int_def)
  then have "parseETag ([CHR 0x22] @ show_int revision @ [CHR 0x22])
      = (if 0 < revision then Inr revision else Inl (E CodeInvalidRequest ''If-Match must contain a quoted revision''))"
    using ParseInt_show [OF assms] by (simp add: parseETag_def)
  moreover have "0 < n \<and> in_int64 n" if "parseETag header = Inr n" for header n
    using that by (auto simp: parseETag_def strconv_ParseInt_def Let_def split: if_splits option.splits)
  ultimately show ?thesis by (simp add: setETag_def header_Set_def)
qed

theorem etag_roundtrip_witness:
  "\<exists>tag. gget (rwHeader (setETag 12 empty_writer)) ''ETag'' = Some tag \<and> parseETag tag = Inr 12"
  using etag_roundtrip [of 12 empty_writer] by (auto simp: in_int64_def)

section \<open>Answers\<close>

text \<open>
  Property C14. Every request below \<^verbatim>\<open>/api/\<close> that the server answers, whatever its handler did and also when it
  panicked, gets the status 200, 201 or 204, or one error document with the status of the error's code. The document
  carries the request id of the response header and of the access log, the log has the status that
  was sent, and except for the three codes of invalid input and stale revisions the message is the fixed text
  of the code, so that nothing of an internal error reaches the client.
\<close>

theorem answers_are_opaque:
  assumes run: "ServeHTTP a au r w = Some (res, w')" and api: "below_api r"
  shows "\<exists>resp line i. res = Inr (resp, line) \<and> gget (rwHeader resp) ''X-Request-ID'' = Some i \<and> alRequestID line = i
     \<and> alStatus line = rwStatus resp
     \<and> (rwStatus resp \<in> {200, 201, 204}
        \<or> (\<exists>code message. rwStatus resp = statusFor code
             \<and> rwBody resp = [VObj [(''error'', VObj [(''code'', VStr (ErrorCode_string code)), (''message'', VStr message),
                                                      (''request_id'', VStr i)])]]
             \<and> (code \<notin> {CodeInvalidRequest, CodeInvalidCursor, CodeRevisionMismatch} \<longrightarrow> message = externalMessage code)))"
proof -
  from run obtain i w1 out where
    mux: "mux au a (accepted_request r i) (header_Set ''X-Request-ID'' i empty_writer) w1 = Some (out, w')"
    and id: "request_id r w = Some (Inr i, w1)"
    and res: "res = Inr (finished (recovered (accepted_request r i) out), access_log (accepted_request r i) (recovered (accepted_request r i) out))"
    by (rule ServeHTTP_run)
  let ?w = "recovered (accepted_request r i) out"
  have "i \<noteq> []" using id by (auto simp: request_id_def Let_def ret_def validRequestID_def draw_def sbind_def split: if_splits sum.splits)
  then have rid: "rqRequestID (accepted_request r i) = i" by (simp add: accepted_request_def ContextWithRequestID_def)
  have "fresh i (header_Set ''X-Request-ID'' i empty_writer)" by (simp add: fresh_def empty_writer_def writer_simps)
  moreover have "below_api (accepted_request r i)" using api by (simp add: below_api_def)
  ultimately have "ended i out" using mux_ended [OF mux] rid by simp
  then have "answered i ?w"
    by (cases out) (auto simp: recovered_def rid intro: answered_error, auto intro!: answered_error simp: fresh_def rid)
  then have header: "gget (rwHeader ?w) ''X-Request-ID'' = Some i"
    and "rwStatus ?w \<in> {200, 201, 204} \<or> (\<exists>err. rwStatus ?w = statusFor (CodeOf err) \<and> rwBody ?w = [error_document i err])"
    unfolding answered_def by blast+
  moreover have "statusFor c \<noteq> 0" for c using statusFor_range [of c] by simp
  ultimately show ?thesis
    by (fastforce simp: res finished_def access_log_def rid error_document_def error_message_def Let_def)
qed

lemma sample_miss_run:
  "case ServeHTTP sample_api (trusted_authenticator sample_lib0 (sample_entries RoleOwner))
      (sample_get ''GET'' [''api'', ''v1'', ''nothing'']) (sample_world NewRepository (NewStorage ''b'')) of
     Some (Inr (resp, _), _) \<Rightarrow> rwStatus resp = 404 | _ \<Rightarrow> False"
  by code_simp

theorem answers_are_opaque_witness:
  "\<exists>resp line w'. ServeHTTP sample_api (trusted_authenticator sample_lib0 (sample_entries RoleOwner))
      (sample_get ''GET'' [''api'', ''v1'', ''nothing'']) (sample_world NewRepository (NewStorage ''b'')) = Some (Inr (resp, line), w')
     \<and> alStatus line = 404 \<and> rwBody resp = [VObj [(''error'', VObj [(''code'', VStr ''not_found''),
          (''message'', VStr ''resource was not found''), (''request_id'', VStr (alRequestID line))])]]"
proof -
  let ?r = "sample_get ''GET'' [''api'', ''v1'', ''nothing'']"
  from sample_miss_run obtain resp line w' where
    run: "ServeHTTP sample_api (trusted_authenticator sample_lib0 (sample_entries RoleOwner)) ?r (sample_world NewRepository (NewStorage ''b''))
        = Some (Inr (resp, line), w')"
    and status: "rwStatus resp = 404"
    by (auto split: option.splits sum.splits)
  have "below_api ?r" by (simp add: below_api_def sample_get_def)
  from answers_are_opaque [OF run this] status obtain code message where
    code: "statusFor code = 404" and line: "alStatus line = 404"
    and body: "rwBody resp = [VObj [(''error'', VObj [(''code'', VStr (ErrorCode_string code)), (''message'', VStr message),
        (''request_id'', VStr (alRequestID line))])]]"
    and message: "code \<notin> {CodeInvalidRequest, CodeInvalidCursor, CodeRevisionMismatch} \<longrightarrow> message = externalMessage code"
    by auto
  from code have "code = CodeNotFound" by (cases code) simp_all
  with run line body message show ?thesis by auto
qed

section \<open>The audit export\<close>

definition audit_range :: "string \<Rightarrow> time \<Rightarrow> time \<Rightarrow> Repository \<Rightarrow> AuditEvent list" where
  "audit_range tenant from_time until_time r =
     filter (\<lambda>e. evTenantID e = tenant \<and> from_time \<le> evOccurredAt e \<and> evOccurredAt e \<le> until_time) (audit r)"

lemma audit_sequences:
  assumes "audit_inv r" and "int (length (audit r)) < 2 ^ 63"
  shows "sorted_wrt (\<lambda>x y. evSequence x < evSequence y) (audit r)" "e \<in> set (audit r) \<Longrightarrow> 0 < evSequence e"
proof -
  have seq: "evSequence (audit r ! k) = int k + 1" if "k < length (audit r)" for k
    using assms that by (simp add: audit_inv_def wrap64_def)
  then show "sorted_wrt (\<lambda>x y. evSequence x < evSequence y) (audit r)" by (simp add: sorted_wrt_iff_nth_less)
  show "0 < evSequence e" if "e \<in> set (audit r)" using that seq by (auto simp: in_set_conv_nth)
qed

text \<open>In a list sorted by a key, the items after the key of one of them are the ones behind it.\<close>

lemma filter_after:
  assumes "sorted_wrt (\<lambda>x y. f x < f y) xs" and "n < length xs"
  shows "filter (\<lambda>x. (f (xs ! n) :: int) < f x) xs = drop (Suc n) xs"
  using assms
proof (induction xs arbitrary: n)
  case (Cons x xs)
  show ?case
  proof (cases n)
    case 0
    with Cons.prems show ?thesis by (simp add: filter_id_conv)
  next
    case (Suc k)
    with Cons.prems have "\<not> f (xs ! k) < f x" by (auto simp: not_less less_imp_le)
    with Cons Suc show ?thesis by simp
  qed
qed simp

lemma audit_page:
  assumes inv: "audit_inv (wRepo w)" "int (length (audit (wRepo w))) < 2 ^ 63"
    and manager: "validateGovernanceManager actor = Inr ()"
    and range: "from_time \<noteq> 0" "until_time \<noteq> 0" "from_time < until_time" "until_time - from_time \<le> 31 * 24 * 3600 * time_Second"
    and all: "all = audit_range (iTenantID (maIdentity actor)) from_time until_time (wRepo w)"
    and n: "n \<le> length all" and after: "after = (if n = 0 then 0 else evSequence (all ! (n - 1)))"
  shows "Service_ListAudit actor after from_time until_time 1000 w = Some (Inr \<lparr>apItems = take 1000 (drop n all),
      apNextSequence = (if n + 1000 \<le> length all then evSequence (all ! (n + 999)) else 0)\<rparr>, w)"
proof -
  have sorted: "sorted_wrt (\<lambda>x y. evSequence x < evSequence y) all"
    using audit_sequences(1) [OF inv] by (simp add: all audit_range_def sorted_wrt_filter)
  have pos: "0 < evSequence e" if "e \<in> set all" for e
    using audit_sequences(2) [OF inv] that by (simp add: all audit_range_def)
  have "filter (\<lambda>e. after < evSequence e) all = drop n all"
  proof (cases n)
    case 0
    with pos after show ?thesis by (auto simp: filter_id_conv)
  next
    case (Suc k)
    with filter_after [OF sorted, of k] n after show ?thesis by simp
  qed
  then have "filter (\<lambda>e. evTenantID e = iTenantID (maIdentity actor) \<and> after < evSequence e
      \<and> \<not> evOccurredAt e < from_time \<and> \<not> evOccurredAt e > until_time) (audit (wRepo w)) = drop n all"
    by (simp add: all audit_range_def conj_ac not_less)
  then have items: "Repo_ListAudit \<lparr>afTenantID = iTenantID (maIdentity actor), afAfterSequence = after, afFrom = from_time,
      afUntil = until_time, afLimit = 1000\<rparr> (wRepo w) = take 1000 (drop n all)"
    using range by (simp add: Repo_ListAudit_def)
  have "0 \<le> after" using pos n after by (cases n) (auto simp: less_imp_le)
  moreover have "last (take 1000 (drop n all)) = all ! (n + 999)" "length (take 1000 (drop n all)) = 1000" if "n + 1000 \<le> length all"
    using that by (simp_all add: last_conv_nth)
  moreover have "length (take 1000 (drop n all)) \<noteq> 1000" if "\<not> n + 1000 \<le> length all" using that by simp
  ultimately show ?thesis
    using manager range items by (cases "n + 1000 \<le> length all")
      (simp_all add: Service_ListAudit_def sbind_def of_result_def guard_def ret_def repo_read_def Let_def)
qed

lemma export_loop_complete:
  assumes page: "\<And>n. n \<le> length all \<Longrightarrow>
      Service_ListAudit actor (if n = 0 then 0 else evSequence (all ! (n - 1))) from_time until_time 1000 w
        = Some (Inr \<lparr>apItems = take 1000 (drop n all), apNextSequence = (if n + 1000 \<le> length all then evSequence (all ! (n + 999)) else 0)\<rparr>, w)"
    and pos: "\<And>e. e \<in> set all \<Longrightarrow> evSequence e \<noteq> 0" and n: "n \<le> length all"
  shows "\<exists>events. export_loop actor from_time until_time (take n all) (if n = 0 then 0 else evSequence (all ! (n - 1))) w = Some (Inr events, w)
     \<and> (if length all \<le> maxExport then events = all else length events > maxExport)"
  using n
proof (induction "Suc maxExport - n" arbitrary: n rule: less_induct)
  case less
  show ?case
  proof (cases "n \<le> maxExport")
    case False
    with less.prems show ?thesis by (subst export_loop.simps) auto
  next
    case True
    show ?thesis
    proof (cases "n + 1000 \<le> length all")
      case full: True
      then have next_page: "all ! (n + 999) \<in> set all" by simp
      have split: "take n all @ take 1000 (drop n all) = take (n + 1000) all" by (simp add: take_add)
      have "\<exists>events. export_loop actor from_time until_time (take (n + 1000) all) (evSequence (all ! (n + 999))) w = Some (Inr events, w)
          \<and> (if length all \<le> maxExport then events = all else length events > maxExport)"
      proof -
        obtain m where m: "m = n + 1000" "m \<noteq> 0" "m - 1 = n + 999" by simp
        then have "Suc maxExport - m < Suc maxExport - n" "m \<le> length all" using True full by simp_all
        from less.hyps [OF this] show ?thesis by (simp only: m(2,3) if_False) (simp only: m(1))
      qed
      with True less.prems full page [OF less.prems] pos [OF next_page] split show ?thesis
        by (subst export_loop.simps) simp
    next
      case last: False
      then have "take n all @ take 1000 (drop n all) = all" by (metis append_take_drop_id length_drop less_diff_conv2 not_le take_all less.prems add.commute less_imp_le)
      with True less.prems last page [OF less.prems] show ?thesis
        by (subst export_loop.simps) (auto simp: not_le)
    qed
  qed
qed

lemma fold_encode_body:
  assumes "rwStatus w \<noteq> 0"
  shows "rwBody (fold (\<lambda>e. encode_body (f e)) es w) = rwBody w @ map f es \<and> rwStatus (fold (\<lambda>e. encode_body (f e)) es w) = rwStatus w"
  using assms by (induction es arbitrary: w) (simp_all add: writer_simps)

text \<open>
  Property C39. The audit export returns, and it is complete: for a caller who may manage the tenant and a range of at
  most 31 days, the body has every event of the tenant in the range, each once and in the order of the log, when these
  are at most 10000, and otherwise the request is refused; it never delivers a part of the range. The loop
  over the pages has no bound of its own.
\<close>

theorem audit_export_complete:
  assumes inv: "audit_inv (wRepo w)" "int (length (audit (wRepo w))) < 2 ^ 63"
    and manager: "validateGovernanceManager (memberActor r) = Inr ()"
    and query: "parseAuditFilter a r = Inr (after, from_time, until_time, limit)"
    and range: "from_time \<noteq> 0" "until_time \<noteq> 0" "from_time < until_time" "until_time - from_time \<le> 31 * 24 * 3600 * time_Second"
    and rw: "rwStatus rw = 0" "rwBody rw = []"
  shows "\<exists>resp. exportAuditEvents a r rw w = Some (Returned resp, w)
     \<and> (let events = audit_range (iTenantID (maIdentity (memberActor r))) from_time until_time (wRepo w)
        in if length events \<le> maxExport then rwStatus resp = 200 \<and> rwBody resp = map toAuditResponse events
           else rwStatus resp = 400)"
proof -
  define events where "events = audit_range (iTenantID (maIdentity (memberActor r))) from_time until_time (wRepo w)"
  have pos: "evSequence e \<noteq> 0" if "e \<in> set events" for e
    using audit_sequences(2) [OF inv, of e] that by (auto simp: events_def audit_range_def)
  obtain out where out: "export_loop (memberActor r) from_time until_time [] 0 w = Some (Inr out, w)"
    "if length events \<le> maxExport then out = events else length out > maxExport"
    using export_loop_complete [OF audit_page [OF inv manager range events_def _ refl] pos, where n = 0] by auto
  have range_ok: "export_range a r = Inr (from_time, until_time)" using query range by (simp add: export_range_def)
  show ?thesis
    unfolding events_def [symmetric] Let_def exportAuditEvents_def range_ok
    using out rw
    by (auto simp: svc_simps on_error_def sbind_def ret_def fail_def writer_simps E_def fold_encode_body [THEN conjunct1]
        fold_encode_body [THEN conjunct2] split: if_splits)
qed

definition sample_audited :: "Storage World" where
  "sample_audited = sample_world (NewRepository\<lparr>auditSequence := 2,
     audit := [(audit_event sample_uuid ''u1'' ''node.create'' ''node'' ''n1'' 5 [])\<lparr>evSequence := 1\<rparr>,
               (audit_event sample_uuid ''u1'' ''node.delete'' ''node'' ''n1'' 20 [])\<lparr>evSequence := 2\<rparr>]\<rparr>) (NewStorage ''b'')"

definition sample_export :: HttpRequest where
  "sample_export = (sample_get ''GET'' [''api'', ''v1'', ''tenant'', ''audit-events'', ''export''])
     \<lparr>rqQuery := (\<lambda>name. if name = ''from'' then [''abc''] else if name = ''until'' then [''0123456789''] else []),
      rqPrincipal := Some ((sample_principal RoleOwner)\<lparr>prIdentity := \<lparr>iTenantID = sample_uuid, iPrincipalID = sample_uuid\<rparr>\<rparr>)\<rparr>"

theorem audit_export_complete_witness:
  "\<exists>resp. exportAuditEvents sample_api sample_export empty_writer sample_audited = Some (Returned resp, sample_audited)
     \<and> rwStatus resp = 200
     \<and> rwBody resp = [toAuditResponse ((audit_event sample_uuid ''u1'' ''node.create'' ''node'' ''n1'' 5 [])\<lparr>evSequence := 1\<rparr>)]"
proof -
  have "audit_inv (wRepo sample_audited)" by code_simp
  moreover have "validateGovernanceManager (memberActor sample_export) = Inr ()"
    using sample_uuid_valid by (simp add: validateGovernanceManager_def validateMemberActor_def validateID_def memberActor_def sample_export_def sample_principal_def)
  moreover have "parseAuditFilter sample_api sample_export = Inr (0, 3, 10, 50)" by code_simp
  moreover have "audit_range sample_uuid 3 10 (wRepo sample_audited)
      = [(audit_event sample_uuid ''u1'' ''node.create'' ''node'' ''n1'' 5 [])\<lparr>evSequence := 1\<rparr>]"
    by (simp add: audit_range_def sample_audited_def sample_world_def audit_event_def)
  moreover have "iTenantID (maIdentity (memberActor sample_export)) = sample_uuid" by (simp add: memberActor_def sample_export_def)
  ultimately show ?thesis
    using audit_export_complete [of sample_audited sample_export sample_api 0 3 10 50 empty_writer]
    by (simp add: sample_audited_def sample_world_def empty_writer_def time_Second_def maxExport_def)
qed

end
