(* ===== verification/Oidc_Properties.thy ===== *)
theory Oidc_Properties
  imports Auth_Oidc Http_Properties
begin

text \<open>
  What an accepted OpenID token proves: that it was signed, with an algorithm that fits the key, by a key
  of the provider that is not older than ten minutes; that its claims name this client and the present
  time; and that the repository has the identity as an active member of the tenant.
\<close>

section \<open>Signatures\<close>

text \<open>
  The reference: the table of RFC 7518 for the six algorithms, each with its kind of key, its hash and, for the
  elliptic ones, its curve and the two halves of the signature.
\<close>

definition rsa_table :: "(string \<times> hash_name) list" where
  "rsa_table = [(''RS256'', SHA256), (''RS384'', SHA384), (''RS512'', SHA512)]"

definition ecdsa_table :: "(string \<times> hash_name \<times> string) list" where
  "ecdsa_table = [(''ES256'', SHA256, ''P-256''), (''ES384'', SHA384, ''P-384''), (''ES512'', SHA512, ''P-521'')]"

definition ecdsa_signature :: "JwtLib \<Rightarrow> curve \<Rightarrow> int \<Rightarrow> int \<Rightarrow> string \<Rightarrow> string \<Rightarrow> bool" where
  "ecdsa_signature jl c x y digest signature \<longleftrightarrow>
     (\<exists>a b. signature = a @ b \<and> length a = coordinate_size c \<and> length b = coordinate_size c
        \<and> jl_ecdsa_Verify jl c x y digest (bytes_int a) (bytes_int b))"

definition signed_by :: "JwtLib \<Rightarrow> jwk \<Rightarrow> string \<Rightarrow> string \<Rightarrow> string \<Rightarrow> bool" where
  "signed_by jl key alg signed signature \<longleftrightarrow>
     (\<exists>h n e. (alg, h) \<in> set rsa_table \<and> kKty key = ''RSA'' \<and> rsaKey key = Some (n, e)
        \<and> jl_VerifyPKCS1v15 jl n e h (jl_hash jl h signed) signature)
   \<or> (\<exists>h c x y. (alg, h, kCrv key) \<in> set ecdsa_table \<and> kKty key = ''EC'' \<and> ecdsaKey jl key = Some (c, x, y)
        \<and> ecdsa_signature jl c x y (jl_hash jl h signed) signature)"

lemma halves:
  "(\<exists>a b. s = a @ b \<and> length a = n \<and> length b = n \<and> P a b) \<longleftrightarrow> length s = 2 * n \<and> P (take (length s div 2) s) (drop (length s div 2) s)"
proof
  assume "length s = 2 * n \<and> P (take (length s div 2) s) (drop (length s div 2) s)"
  then have "s = take n s @ drop n s \<and> length (take n s) = n \<and> length (drop n s) = n \<and> P (take n s) (drop n s)" by auto
  then show "\<exists>a b. s = a @ b \<and> length a = n \<and> length b = n \<and> P a b" by blast
qed auto

lemma ecdsa_signature_iff:
  "ecdsa_signature jl c x y digest signature \<longleftrightarrow> length signature = 2 * coordinate_size c
     \<and> jl_ecdsa_Verify jl c x y digest (bytes_int (take (length signature div 2) signature)) (bytes_int (drop (length signature div 2) signature))"
  unfolding ecdsa_signature_def by (rule halves)

lemma rsa_check:
  assumes "(alg, h) \<in> set rsa_table"
  shows "verifyJWTSignature jl key alg signed signature \<longleftrightarrow> signed_by jl key alg signed signature"
proof -
  have "hash_of alg = Some h" "hashFor alg = h" "take 2 alg = ''RS''" "(alg, h', crv) \<notin> set ecdsa_table" "(alg, h') \<in> set rsa_table \<longleftrightarrow> h' = h" for h' crv
    using assms by (auto simp: rsa_table_def ecdsa_table_def hash_of_def hashFor_def)
  then show ?thesis by (auto simp: verifyJWTSignature_def signed_by_def Let_def split: option.splits prod.splits)
qed

lemma ecdsa_check:
  assumes "(alg, h, crv) \<in> set ecdsa_table"
  shows "verifyJWTSignature jl key alg signed signature \<longleftrightarrow> signed_by jl key alg signed signature"
proof -
  have "hash_of alg = Some h" "expected_curve alg = crv" "take 2 alg = ''ES''" "(alg, h') \<notin> set rsa_table"
    "(alg, h', c) \<in> set ecdsa_table \<longleftrightarrow> h' = h \<and> c = crv" for h' c
    using assms by (auto simp: rsa_table_def ecdsa_table_def hash_of_def expected_curve_def)
  then show ?thesis by (auto simp: verifyJWTSignature_def signed_by_def ecdsa_signature_iff Let_def split: option.splits prod.splits)
qed

lemma no_check:
  assumes "alg \<notin> fst ` set rsa_table" "alg \<notin> fst ` set ecdsa_table"
  shows "verifyJWTSignature jl key alg signed signature \<longleftrightarrow> signed_by jl key alg signed signature"
proof -
  have "hash_of alg = None" using assms by (auto simp: rsa_table_def ecdsa_table_def hash_of_def)
  moreover have "\<not> signed_by jl key alg signed signature" using assms by (force simp: signed_by_def)
  ultimately show ?thesis by (simp add: verifyJWTSignature_def)
qed

lemma signature_check: "verifyJWTSignature jl key alg signed signature = signed_by jl key alg signed signature"
proof -
  consider h where "(alg, h) \<in> set rsa_table" | h crv where "(alg, h, crv) \<in> set ecdsa_table"
    | "alg \<notin> fst ` set rsa_table" "alg \<notin> fst ` set ecdsa_table" by force
  then show ?thesis by cases (simp_all add: rsa_check ecdsa_check no_check)
qed

text \<open>
  Property C15. The signature check is the table of algorithms: it accepts exactly the signatures that verify under the
  algorithm's own kind of key, hash and curve. So no token can have its algorithm swapped for one of the other
  kind, for none, or for a weaker hash.
\<close>

theorem signature_check_equivalent:
  "verifyJWTSignature jl key alg signed signature \<longleftrightarrow> signed_by jl key alg signed signature"
  by (rule signature_check)

section \<open>Nothing is written while a caller is checked\<close>

text \<open>\<open>only_read\<close>: the data stay, and the clock is read on from where it was.\<close>

definition only_read :: "'s World \<Rightarrow> 's World \<Rightarrow> bool" where
  "only_read w w' \<longleftrightarrow> same_data w w' \<and> (\<exists>d. \<forall>n. wClock w' n = wClock w (n + d))"

lemma only_read_refl [simp]: "only_read w w"
  by (auto simp: only_read_def intro: exI [of _ 0])

lemma only_read_trans:
  assumes "only_read u v" "only_read v w"
  shows "only_read u w"
proof -
  from assms(1) obtain d where "\<forall>n. wClock v n = wClock u (n + d)" unfolding only_read_def by blast
  moreover from assms(2) obtain e where "\<forall>n. wClock w n = wClock v (n + e)" unfolding only_read_def by blast
  ultimately have "\<forall>n. wClock w n = wClock u (n + (e + d))" by (simp add: add.assoc)
  with assms show ?thesis by (auto simp: only_read_def intro: same_data_trans)
qed

lemma only_readD:
  assumes "only_read w w'"
  shows "same_data w w'" "wRepo w' = wRepo w" "\<exists>m. wClock w' n = wClock w m"
  using assms by (auto simp: only_read_def same_data_def)

lemma time_Now_read: "time_Now w = (now, w') \<Longrightarrow> only_read w w' \<and> now = wClock w 0"
  by (auto simp: time_Now_def only_read_def same_data_def intro: exI [of _ 1])

lemma loadKeysLocked_read: "loadKeysLocked v w = (res, w') \<Longrightarrow> only_read w w'"
  by (auto simp: loadKeysLocked_def Let_def dest!: time_Now_read split: fetch.splits if_splits sum.splits prod.splits)

lemma verifier_key_read: "verifier_key kid v w = (res, w') \<Longrightarrow> only_read w w'"
  by (auto simp: verifier_key_def dest!: time_Now_read loadKeysLocked_read intro: only_read_trans
      split: option.splits if_splits sum.splits prod.splits)

lemma Verify_read: "verifier_Verify jl raw v w = (res, w') \<Longrightarrow> only_read w w'"
  by (auto simp: verifier_Verify_def dest!: verifier_key_read split: sum.splits prod.splits)

lemma check_times_read: "check_times claims w = (res, w') \<Longrightarrow> only_read w w'"
  by (auto simp: check_times_def dest!: time_Now_read intro: only_read_trans split: if_splits option.splits prod.splits bool.splits)

lemma authenticateClaims_read: "authenticateClaims jl a header w = (res, w') \<Longrightarrow> only_read w w'"
  by (auto simp: authenticateClaims_def Let_def dest!: Verify_read check_times_read intro: only_read_trans split: if_splits sum.splits prod.splits)

lemma Authenticate_read: "OIDC_Authenticate jl a header tenantID w = (res, w') \<Longrightarrow> only_read w w'"
  by (auto simp: OIDC_Authenticate_def dest!: authenticateClaims_read split: if_splits sum.splits prod.splits)

interpretation oidc: read_only_authenticator "oidc_authenticator jl a"
  by unfold_locales
    (auto simp: oidc_authenticator_def OIDC_Middleware_def OIDC_ExternalMiddleware_def
      dest!: Authenticate_read authenticateClaims_read only_readD(1) split: prod.splits sum.splits)

section \<open>What an accepted token proves\<close>

text \<open>A key is answered from a key set that was fetched less than ten minutes before the clock was read.\<close>

lemma verifier_key_Inr:
  assumes "verifier_key kid v w = ((Inr key, v'), w')"
  shows "gget (jvKeys v') kid = Some key \<and> (\<exists>k. wClock w k - jvRefreshedAt v' < ten_minutes)"
proof -
  have fresh: "t - t < ten_minutes" for t by (simp add: ten_minutes_def time_Second_def)
  have load: "jvKeys v2 = keys \<and> jvRefreshedAt v2 = wClock w1 0" if "loadKeysLocked v w1 = ((Inr keys, v2), w2)" for w1 v2 keys w2
    using that by (auto simp: loadKeysLocked_def time_Now_def Let_def split: fetch.splits if_splits sum.splits)
  have later: "only_read w (w\<lparr>wClock := \<lambda>n. wClock w (Suc n)\<rparr>)" using time_Now_read [of w] by (simp add: time_Now_def)
  show ?thesis
  proof (cases "\<exists>w1. verifier_key kid v w = ((Inr key, v), w1) \<and> gget (jvKeys v) kid = Some key \<and> wClock w 0 - jvRefreshedAt v < ten_minutes")
    case True
    with assms show ?thesis by auto
  next
    case False
    with assms obtain w1 keys w2 where "only_read w w1" "loadKeysLocked v w1 = ((Inr keys, v'), w2)" "gget keys kid = Some key"
      using later by (auto simp: verifier_key_def time_Now_def split: option.splits if_splits sum.splits prod.splits)
        (blast intro: only_read_refl)
    with load only_readD(3) [of w w1 0] fresh show ?thesis by metis
  qed
qed

lemma Verify_Inr:
  assumes "verifier_Verify jl raw v w = ((Inr claims, v'), w')"
  obtains h signed signature key where "read_token jl (jvIssuer v) raw = Inr (h, claims, signed, signature)"
    "gget (jvKeys v') (jhKid h) = Some key" "\<exists>k. wClock w k - jvRefreshedAt v' < ten_minutes"
    "kAlg key \<in> {[], jhAlg h}" "verifyJWTSignature jl key (jhAlg h) signed signature"
proof -
  from assms obtain h c signed signature key w1 where *: "read_token jl (jvIssuer v) raw = Inr (h, c, signed, signature)"
    "verifier_key (jhKid h) v w = ((Inr key, v'), w1)" "c = claims" "kAlg key \<in> {[], jhAlg h}" "verifyJWTSignature jl key (jhAlg h) signed signature"
    by (auto simp: verifier_Verify_def unauthenticated_def split: sum.splits prod.splits if_splits)
  with verifier_key_Inr [OF *(2)] that show thesis by blast
qed

definition timely :: "OIDCClaims \<Rightarrow> (nat \<Rightarrow> time) \<Rightarrow> bool" where
  "timely claims clock \<longleftrightarrow> (\<exists>k. clock k < ocExpiresAt claims)
     \<and> (case ocNotBefore claims of None \<Rightarrow> True | Some start \<Rightarrow> \<exists>k. start \<le> clock k + 30 * time_Second)"

lemma check_times_Inr:
  assumes "check_times claims w1 = (Inr (), w2)" "only_read w w1"
  shows "timely claims (wClock w)"
proof -
  obtain d where "\<forall>n. wClock w1 n = wClock w (n + d)" using assms(2) by (auto simp: only_read_def)
  then have reads: "wClock w1 0 = wClock w d" "wClock w1 (Suc 0) = wClock w (Suc d)" by simp_all
  from assms(1) have "wClock w1 0 < ocExpiresAt claims"
    "case ocNotBefore claims of None \<Rightarrow> True | Some start \<Rightarrow> start \<le> wClock w1 (Suc 0) + 30 * time_Second"
    by (auto simp: check_times_def time_Now_def unauthenticated_def split: if_splits option.splits prod.splits bool.splits)
  then show ?thesis unfolding timely_def reads by (auto split: option.splits)
qed

lemma bearerToken_Inr: "bearerToken header = Inr raw \<Longrightarrow> header = bearer_prefix @ raw"
  by (auto simp: bearerToken_def Let_def split: if_splits) (metis append_take_drop_id)

text \<open>
  Property C5. A principal that OpenID authentication returns is backed by a token and by the repository. The
  header carries a bearer token of three parts; its signature verifies, by the algorithm its header names, under a key
  the provider published under the token's key id, from a key set that is less than ten minutes old; the key, when it names an
  algorithm, names that one; the claims have the configured issuer, this client in the audience and as
  authorized party when there is one or several audiences, and a period of validity that includes the time of the
  check; and the repository holds the token's identity as an active member of the tenant in
  the request, with the principal's id and role.
\<close>

theorem oidc_principal_sound:
  assumes "OIDC_Authenticate jl a header tenantID w = ((Inr p, a'), w')"
  shows "\<exists>raw h claims signed signature key member.
     header = bearer_prefix @ raw \<and> read_token jl (jvIssuer (oiVerify a)) raw = Inr (h, claims, signed, signature)
     \<and> gget (jvKeys (oiVerify a')) (jhKid h) = Some key \<and> (\<exists>k. wClock w k - jvRefreshedAt (oiVerify a') < ten_minutes)
     \<and> kAlg key \<in> {[], jhAlg h} \<and> signed_by jl key (jhAlg h) signed signature
     \<and> ocIssuer claims = oiIssuer a \<and> oiClient a \<in> set (ocAudience claims)
     \<and> (ocAuthorizedParty claims = oiClient a \<or> ocAuthorizedParty claims = [] \<and> ocAudience claims = [oiClient a])
     \<and> timely claims (wClock w)
     \<and> Repo_ResolveOIDCPrincipal (ocIssuer claims) (ocSubject claims) tenantID (wRepo w) = Inr member
     \<and> pStatus member = MemberStatusActive \<and> prIdentity p = pIdentity member \<and> prRole p = pRole member
     \<and> iTenantID (prIdentity p) = tenantID \<and> ValidAccessRole (prRole p) \<and> wRepo w' = wRepo w"
proof -
  from assms obtain claims member where auth: "authenticateClaims jl a header w = ((Inr claims, a'), w')"
    and member: "Repo_ResolveOIDCPrincipal (ocIssuer claims) (ocSubject claims) tenantID (wRepo w') = Inr member"
    and p: "prIdentity p = pIdentity member" "prRole p = pRole member" "iTenantID (prIdentity p) = tenantID" "ValidAccessRole (prRole p)"
    by (auto simp: OIDC_Authenticate_def resolve_member_def split: if_splits sum.splits prod.splits)
  from auth obtain raw v w1 where raw: "bearerToken header = Inr raw" and verify: "verifier_Verify jl raw (oiVerify a) w = ((Inr claims, v), w1)"
    and ok: "\<not> claims_rejected a claims" and times: "check_times claims w1 = (Inr (), w')" and v: "oiVerify a' = v"
    by (auto simp: authenticateClaims_def Let_def unauthenticated_def split: if_splits sum.splits prod.splits)
  from verify obtain h signed signature key where token: "read_token jl (jvIssuer (oiVerify a)) raw = Inr (h, claims, signed, signature)"
    "gget (jvKeys v) (jhKid h) = Some key" "\<exists>k. wClock w k - jvRefreshedAt v < ten_minutes"
    "kAlg key \<in> {[], jhAlg h}" "signed_by jl key (jhAlg h) signed signature"
    by (rule Verify_Inr [unfolded signature_check])
  have "wRepo w' = wRepo w" using authenticateClaims_read [OF auth] by (rule only_readD(2))
  moreover have "pStatus member = MemberStatusActive"
    using member by (auto simp: Repo_ResolveOIDCPrincipal_def Let_def split: option.splits if_splits)
  moreover have "timely claims (wClock w)" by (rule check_times_Inr [OF times Verify_read [OF verify]])
  moreover have "ocIssuer claims = oiIssuer a" "oiClient a \<in> set (ocAudience claims)"
    "ocAuthorizedParty claims = oiClient a \<or> ocAuthorizedParty claims = [] \<and> ocAudience claims = [oiClient a]"
    using ok by (auto simp: claims_rejected_def) (auto simp: not_less le_Suc_eq length_Suc_conv)
  ultimately show ?thesis using bearerToken_Inr [OF raw] token member p unfolding v by metis
qed

definition sample_jwt :: JwtLib where
  "sample_jwt = \<lparr>jl_hash = (\<lambda>h s. s), jl_VerifyPKCS1v15 = (\<lambda>n e h digest signature. False), jl_ecdsa_Verify = (\<lambda>c x y digest r s. r = s),
     jl_IsOnCurve = (\<lambda>c x y. True), jl_ParseFloat = (\<lambda>s. Some 9), jl_mul = (\<lambda>x y. x * y), jl_url_Parse = (\<lambda>s. None)\<rparr>"

definition sample_jwk :: jwk where
  "sample_jwk = zero_jwk\<lparr>kKty := ''EC'', kKid := ''k'', kCrv := ''P-256'', kX := replicate 43 CHR ''A'', kY := replicate 43 CHR ''A''\<rparr>"

definition sample_oidc :: OIDC where
  "sample_oidc = \<lparr>oiIssuer = ''i'', oiClient = ''c'', oiVerify = \<lparr>jvIssuer = ''i'', jvJwks = [], jvKeys = [(''k'', sample_jwk)],
     jvRefreshedAt = 40, jvFetch = (\<lambda>n. FetchFailed ''offline'')\<rparr>\<rparr>"

definition sample_jwt_head :: string where
  "sample_jwt_head = ''eyJhbGciOiJFUzI1NiIsImtpZCI6ImsifQ''"

definition sample_jwt_body :: string where
  "sample_jwt_body = ''eyJpc3MiOiJpIiwic3ViIjoicyIsImF1ZCI6ImMiLCJleHAiOjl9''"

definition quoted :: "string \<Rightarrow> string" where
  "quoted s = [CHR 0x22] @ s @ [CHR 0x22]"

definition sample_head_json :: string where
  "sample_head_json = ''{'' @ quoted ''alg'' @ '':'' @ quoted ''ES256'' @ '','' @ quoted ''kid'' @ '':'' @ quoted ''k'' @ ''}''"

definition sample_body_json :: string where
  "sample_body_json = ''{'' @ quoted ''iss'' @ '':'' @ quoted ''i'' @ '','' @ quoted ''sub'' @ '':'' @ quoted ''s'' @ '',''
     @ quoted ''aud'' @ '':'' @ quoted ''c'' @ '','' @ quoted ''exp'' @ '':9}''"

lemma sample_decoded:
  "decodeURL sample_jwt_head = Some sample_head_json" "decodeURL sample_jwt_body = Some sample_body_json"
  by code_simp+

lemma sample_sig: "decodeURL (replicate 86 CHR ''A'') = Some (replicate 64 CHR 0x00)"
  by code_simp

lemma sample_header_read: "next_value False sample_head_json = ReadValue (JObj [(''alg'', JStr ''ES256''), (''kid'', JStr ''k'')]) []"
  by code_simp

lemma sample_payload_read: "next_value False sample_body_json
    = ReadValue (JObj [(''iss'', JStr ''i''), (''sub'', JStr ''s''), (''aud'', JStr ''c''), (''exp'', JNum ''9'')]) []"
  by code_simp

lemma sample_fields:
  "decode_struct False jwt_header_fields (JObj [(''alg'', JStr ''ES256''), (''kid'', JStr ''k'')]) \<lparr>jhAlg = [], jhKid = []\<rparr>
     = Some \<lparr>jhAlg = ''ES256'', jhKid = ''k''\<rparr>"
  "decode_struct False jwt_payload_fields (JObj [(''iss'', JStr ''i''), (''sub'', JStr ''s''), (''aud'', JStr ''c''), (''exp'', JNum ''9'')]) empty_payload
     = Some (empty_payload\<lparr>jpIssuer := ''i'', jpSubject := ''s'', jpAudience := Some (JStr ''c''), jpExpiresAt := ''9''\<rparr>)"
  "next_value False [] = ReadEOF" "unquote ''c'' = ''c''"
  by code_simp+

definition sample_claims :: OIDCClaims where
  "sample_claims = \<lparr>ocIssuer = ''i'', ocSubject = ''s'', ocAudience = [''c''], ocAuthorizedParty = [],
     ocExpiresAt = (9 + unix_epoch) * time_Second, ocNotBefore = None\<rparr>"

lemma sample_claims_read: "read_claims sample_jwt ''i'' sample_body_json = Inr sample_claims"
proof -
  have "parseUnixClaim sample_jwt ''9'' = Some ((9 + unix_epoch) * time_Second)"
    by (simp add: parseUnixClaim_def sample_jwt_def truncate_rat_def)
  then show ?thesis
    by (simp add: read_claims_def decode_one_def sample_payload_read sample_fields parseAudience_def parse_not_before_def sample_claims_def del: decode_struct.simps) (simp add: empty_payload_def)
qed

definition sample_jwt_raw :: string where
  "sample_jwt_raw = sample_jwt_head @ ''.'' @ sample_jwt_body @ ''.'' @ replicate 86 CHR ''A''"

lemma sample_jwt_read:
  "read_token sample_jwt ''i'' sample_jwt_raw
     = Inr (\<lparr>jhAlg = ''ES256'', jhKid = ''k''\<rparr>, sample_claims, sample_jwt_head @ ''.'' @ sample_jwt_body, replicate 64 CHR 0x00)"
proof -
  have "split_at_char CHR ''.'' sample_jwt_raw = [sample_jwt_head, sample_jwt_body, replicate 86 CHR ''A'']" by code_simp
  moreover have "length sample_jwt_raw \<le> 1048576" by (simp add: sample_jwt_raw_def sample_jwt_head_def sample_jwt_body_def)
  moreover have "sample_jwt_raw \<noteq> []" by (simp add: sample_jwt_raw_def)
  moreover have "jwt_header_of sample_head_json = Some \<lparr>jhAlg = ''ES256'', jhKid = ''k''\<rparr>"
    by (simp add: jwt_header_of_def decode_one_def sample_header_read sample_fields del: decode_struct.simps)
  ultimately show ?thesis
    by (simp only: read_token_def sample_decoded sample_sig sample_claims_read option.case sum.case list.case not_less simp_thms if_False
        jwt_header.select_convs list.distinct not_le [symmetric])
qed

definition sample_identified :: "Storage World" where
  "sample_identified = sample_world (NewRepository\<lparr>
     principals := [(principalKey ''i'' ''s'', sample_member sample_uuid RoleEditor)],
     members := [(memberKey sample_uuid sample_uuid,
       (sample_member sample_uuid RoleEditor)\<lparr>pIdentity := \<lparr>iTenantID = sample_uuid, iPrincipalID = sample_uuid\<rparr>\<rparr>)]\<rparr>)
     (NewStorage ''b'')"

lemma sample_signature: "verifyJWTSignature sample_jwt sample_jwk ''ES256'' text (replicate 64 CHR 0x00)"
  by code_simp

lemma sample_bearer: "bearerToken (bearer_prefix @ sample_jwt_raw) = Inr sample_jwt_raw"
proof -
  have "\<not> list_ex token_space sample_jwt_raw" by code_simp
  moreover have "length sample_jwt_raw \<le> 1048576" by (simp add: sample_jwt_raw_def sample_jwt_head_def sample_jwt_body_def)
  ultimately show ?thesis by (simp add: bearerToken_def Let_def) (simp add: sample_jwt_raw_def)
qed

lemma sample_oidc_run:
  "\<exists>p w'. OIDC_Authenticate sample_jwt sample_oidc (bearer_prefix @ sample_jwt_raw) sample_uuid sample_identified = ((Inr p, sample_oidc), w')"
proof -
  have key: "verifier_key ''k'' (oiVerify sample_oidc) sample_identified
      = ((Inr sample_jwk, oiVerify sample_oidc), sample_identified\<lparr>wClock := \<lambda>n. 50\<rparr>)"
    by (simp add: verifier_key_def sample_oidc_def sample_identified_def sample_world_def time_Now_def ten_minutes_def time_Second_def)
  have issuer: "jvIssuer (oiVerify sample_oidc) = ''i''" "kAlg sample_jwk = []" by (simp_all add: sample_oidc_def sample_jwk_def zero_jwk_def)
  have "verifier_Verify sample_jwt sample_jwt_raw (oiVerify sample_oidc) sample_identified
      = ((Inr sample_claims, oiVerify sample_oidc), sample_identified\<lparr>wClock := \<lambda>n. 50\<rparr>)"
    by (simp add: verifier_Verify_def issuer sample_jwt_read key sample_signature)
  moreover have "\<not> claims_rejected sample_oidc sample_claims" by (simp add: claims_rejected_def sample_oidc_def sample_claims_def)
  moreover have "check_times sample_claims (sample_identified\<lparr>wClock := \<lambda>n. 50\<rparr>) = (Inr (), sample_identified\<lparr>wClock := \<lambda>n. 50\<rparr>)"
    by (simp add: check_times_def sample_claims_def time_Now_def unix_epoch_def time_Second_def)
  ultimately have "authenticateClaims sample_jwt sample_oidc (bearer_prefix @ sample_jwt_raw) sample_identified
      = ((Inr sample_claims, sample_oidc), sample_identified\<lparr>wClock := \<lambda>n. 50\<rparr>)"
    by (simp add: authenticateClaims_def sample_bearer Let_def)
  moreover have "resolve_member ''i'' ''s'' sample_uuid (wRepo sample_identified) = Inr \<lparr>prIdentity = \<lparr>iTenantID = sample_uuid, iPrincipalID = sample_uuid\<rparr>,
      prTenantDisplayName = ''Tenant'', prRole = RoleEditor\<rparr>"
    by (simp add: resolve_member_def Repo_ResolveOIDCPrincipal_def sample_identified_def sample_world_def sample_member_def)
  ultimately show ?thesis using sample_uuid_valid by (simp add: OIDC_Authenticate_def sample_claims_def)
qed

theorem oidc_principal_sound_witness:
  "\<exists>p w' claims key. OIDC_Authenticate sample_jwt sample_oidc (bearer_prefix @ sample_jwt_raw) sample_uuid sample_identified = ((Inr p, sample_oidc), w')
     \<and> read_token sample_jwt ''i'' sample_jwt_raw
         = Inr (\<lparr>jhAlg = ''ES256'', jhKid = ''k''\<rparr>, claims, sample_jwt_head @ ''.'' @ sample_jwt_body, replicate 64 CHR 0x00)
     \<and> signed_by sample_jwt key ''ES256'' (sample_jwt_head @ ''.'' @ sample_jwt_body) (replicate 64 CHR 0x00)
     \<and> timely claims (wClock sample_identified) \<and> iTenantID (prIdentity p) = sample_uuid"
proof -
  obtain p w' where run: "OIDC_Authenticate sample_jwt sample_oidc (bearer_prefix @ sample_jwt_raw) sample_uuid sample_identified = ((Inr p, sample_oidc), w')"
    using sample_oidc_run by blast
  have issuer: "jvIssuer (oiVerify sample_oidc) = ''i''" by (simp add: sample_oidc_def)
  from oidc_principal_sound [OF run] run sample_jwt_read show ?thesis unfolding issuer by auto
qed

end
