(* ===== verification/S3_Provider.thy ===== *)
theory S3_Provider
  imports Memory_Storage Go_Json
begin

text \<open>
  \<^verbatim>\<open>internal/s3store/provider.go\<close>: the object storage on S3, the provider of a production server.
  The vendor's client is a record of operations over a state \<open>'s\<close> of the service; the provider chooses the
  inputs, checks and converts the outputs, follows the pages of a part listing and maps errors. \<open>s3_service\<close>
  states what S3 documents of the operations, which is what the storage contract needs.
\<close>

section \<open>The client\<close>

text \<open>An error of the client: the Go error, and the code of the API error in its chain if there is one.\<close>

record sdk_error =
  skErr :: error
  skCode :: "string option"

record HeadObjectOutput =
  hoContentLength :: "int64 option"
  hoETag :: "string option"
  hoChecksumSHA256 :: "string option"

record S3Part =
  s3PartNumber :: "int option"
  s3ETag :: "string option"
  s3Size :: "int64 option"
  s3ChecksumSHA256 :: "string option"

record ListPartsOutput =
  loParts :: "S3Part list"
  loIsTruncated :: "bool option"
  loNextPartNumberMarker :: "string option"

record S3CompletedPart =
  tcPartNumber :: int
  tcETag :: string
  tcChecksumSHA256 :: "string option"

record PresignedRequest =
  prqMethod :: string
  prqURL :: string
  prqSignedHeader :: "(string, string list) gomap"

record 's S3Client =
  awsHeadBucket :: "string \<Rightarrow> 's \<Rightarrow> sdk_error option"
  awsCreateBucket :: "string \<Rightarrow> string option \<Rightarrow> 's \<Rightarrow> sdk_error option \<times> 's"
  awsCreateMultipartUpload :: "string \<Rightarrow> string \<Rightarrow> string \<Rightarrow> string option \<Rightarrow> 's \<Rightarrow> (sdk_error + string option) \<times> 's"
  awsCompleteMultipartUpload :: "string \<Rightarrow> string \<Rightarrow> string \<Rightarrow> S3CompletedPart list \<Rightarrow> 's \<Rightarrow> sdk_error option \<times> 's"
  awsAbortMultipartUpload :: "string \<Rightarrow> string \<Rightarrow> string \<Rightarrow> 's \<Rightarrow> sdk_error option \<times> 's"
  awsListParts :: "string \<Rightarrow> string \<Rightarrow> string \<Rightarrow> string option \<Rightarrow> 's \<Rightarrow> (sdk_error + ListPartsOutput) \<times> 's"
  awsHeadObject :: "string \<Rightarrow> string \<Rightarrow> 's \<Rightarrow> (sdk_error + HeadObjectOutput) \<times> 's"
  awsDeleteObject :: "string \<Rightarrow> string \<Rightarrow> 's \<Rightarrow> sdk_error option \<times> 's"
  awsPresignUploadPart :: "string \<Rightarrow> string \<Rightarrow> string \<Rightarrow> int \<Rightarrow> string option \<Rightarrow> duration \<Rightarrow> 's \<Rightarrow> sdk_error + PresignedRequest"
  awsPresignGetObject :: "string \<Rightarrow> string \<Rightarrow> string \<Rightarrow> duration \<Rightarrow> 's \<Rightarrow> sdk_error + PresignedRequest"

text \<open>\<^verbatim>\<open>aws.ToString\<close> and its like, and the conversion to \<^verbatim>\<open>int32\<close>.\<close>

definition or_zero :: "'a \<Rightarrow> 'a option \<Rightarrow> 'a" where
  "or_zero z v = (case v of None \<Rightarrow> z | Some x \<Rightarrow> x)"

definition wrap32 :: "int \<Rightarrow> int" where
  "wrap32 x = (x + 2 ^ 31) mod 2 ^ 32 - 2 ^ 31"

section \<open>Errors\<close>

definition api_code_in :: "string list \<Rightarrow> sdk_error option \<Rightarrow> bool" where
  "api_code_in codes err = (case err of None \<Rightarrow> False | Some e \<Rightarrow> (case skCode e of None \<Rightarrow> False | Some c \<Rightarrow> c \<in> set codes))"

definition isNotFound :: "sdk_error option \<Rightarrow> bool" where
  "isNotFound = api_code_in [''NotFound'', ''NoSuchKey'', ''NoSuchUpload'', ''404'']"

definition isBucketNotFound :: "sdk_error option \<Rightarrow> bool" where
  "isBucketNotFound = api_code_in [''NotFound'', ''NoSuchBucket'', ''404'']"

definition mapError :: "sdk_error option \<Rightarrow> string \<Rightarrow> error option" where
  "mapError err message =
     (case err of
        None \<Rightarrow> None
      | Some e \<Rightarrow>
          Some (if CodeOf (skErr e) \<noteq> CodeInternal then skErr e
                else if isNotFound err then E CodeNotFound ''object storage resource was not found''
                else if api_code_in [''InvalidPart'', ''InvalidPartOrder'', ''EntityTooSmall'', ''BadDigest'', ''InvalidRequest''] err
                then E_cause CodeInvalidRequest ''object storage rejected the multipart request'' (Some (skErr e))
                else Retryable CodeDependencyUnavailable message (Some (skErr e))))"

definition or_value :: "'a \<Rightarrow> error option \<Rightarrow> 'a result" where
  "or_value x err = (case err of None \<Rightarrow> Inr x | Some e \<Rightarrow> Inl e)"

text \<open>\<^verbatim>\<open>return ..., mapError(err, message)\<close> with an error that is there.\<close>

definition failed_call :: "sdk_error \<Rightarrow> string \<Rightarrow> 'a result" where
  "failed_call e message = Inl (the (mapError (Some e) message))"

section \<open>The provider\<close>

record 's Provider =
  pvClient :: "'s S3Client"
  pvPresigner :: "'s S3Client"
  pvBucket :: string
  pvChecksumHeaders :: bool
  pvTrustPartChecksums :: bool

definition Provider_Bucket :: "'s Provider \<Rightarrow> 's \<Rightarrow> string" where
  "Provider_Bucket p s = pvBucket p"

definition Provider_Ready :: "'s Provider \<Rightarrow> 's \<Rightarrow> unit result" where
  "Provider_Ready p s = or_value () (mapError (awsHeadBucket (pvClient p) (pvBucket p) s) ''S3 bucket is unavailable'')"

definition Provider_CreateMultipart :: "'s Provider \<Rightarrow> string \<Rightarrow> string \<Rightarrow> Checksum \<Rightarrow> 's \<Rightarrow> string result \<times> 's" where
  "Provider_CreateMultipart p key mimeType checksum s =
     (let algorithm = (if pvChecksumHeaders p \<and> cAlgorithm checksum = ''sha256'' then Some ''SHA256'' else None)
      in (case awsCreateMultipartUpload (pvClient p) (pvBucket p) key mimeType algorithm s of
            (Inl e, s1) \<Rightarrow> (failed_call e ''could not create multipart upload'', s1)
          | (Inr output, s1) \<Rightarrow>
              if or_zero [] output = []
              then (Inl (E CodeDependencyUnavailable ''object storage returned no upload id''), s1)
              else (Inr (or_zero [] output), s1)))"

definition flattenHeaders :: "(string, string list) gomap \<Rightarrow> (string, string) gomap" where
  "flattenHeaders headers =
     fold (\<lambda>(key, values) result. case values of [] \<Rightarrow> result | v # _ \<Rightarrow> gput key v result) (gentries headers) gempty"

definition Provider_SignUploadPart ::
  "'s Provider \<Rightarrow> StorageEnv \<Rightarrow> string \<Rightarrow> string \<Rightarrow> int \<Rightarrow> Checksum \<Rightarrow> duration \<Rightarrow> 's \<Rightarrow> (SignedPart \<times> bool) result \<times> 's" where
  "Provider_SignUploadPart p env key uploadID partNumber checksum ttl s =
     (let bound = pvChecksumHeaders p \<and> cAlgorithm checksum = ''sha256''
      in (case awsPresignUploadPart (pvPresigner p) (pvBucket p) key uploadID (wrap32 partNumber)
                 (if bound then Some (cValue checksum) else None) ttl s of
            Inl e \<Rightarrow> (failed_call e ''could not sign upload part'', s)
          | Inr output \<Rightarrow>
              (Inr (\<lparr>sgPartNumber = partNumber, sgMethod = prqMethod output, sgURL = prqURL output,
                     sgRequiredHeaders = flattenHeaders (prqSignedHeader output), sgExpiresAt = seNow env + ttl\<rparr>, bound), s)))"

definition object_info :: "'s Provider \<Rightarrow> string \<Rightarrow> HeadObjectOutput \<Rightarrow> ObjectInfo" where
  "object_info p key output =
     (let checksum = or_zero [] (hoChecksumSHA256 output)
      in \<lparr>oBucket = pvBucket p, oObjectKey = key, oSize = or_zero 0 (hoContentLength output), oETag = or_zero [] (hoETag output),
          oChecksum = (if checksum = [] then zero_Checksum else \<lparr>cAlgorithm = ''sha256'', cValue = checksum\<rparr>),
          oChecksumStatus = (if checksum = [] then ChecksumUnavailable else ChecksumVerified)\<rparr>)"

definition Provider_StatObject :: "'s Provider \<Rightarrow> string \<Rightarrow> 's \<Rightarrow> ObjectInfo result \<times> 's" where
  "Provider_StatObject p key s =
     (case awsHeadObject (pvClient p) (pvBucket p) key s of
        (Inl e, s1) \<Rightarrow> (failed_call e ''could not stat object'', s1)
      | (Inr output, s1) \<Rightarrow> (Inr (object_info p key output), s1))"

definition s3_completed_part :: "'s Provider \<Rightarrow> CompletedPart \<Rightarrow> S3CompletedPart" where
  "s3_completed_part p part =
     \<lparr>tcPartNumber = wrap32 (cpPartNumber part), tcETag = cpETag part,
      tcChecksumSHA256 = (if pvChecksumHeaders p \<and> cAlgorithm (cpChecksum part) = ''sha256'' then Some (cValue (cpChecksum part)) else None)\<rparr>"

definition Provider_CompleteMultipart :: "'s Provider \<Rightarrow> string \<Rightarrow> string \<Rightarrow> CompletedPart list \<Rightarrow> 's \<Rightarrow> ObjectInfo result \<times> 's" where
  "Provider_CompleteMultipart p key uploadID parts s =
     (case awsCompleteMultipartUpload (pvClient p) (pvBucket p) key uploadID (map (s3_completed_part p) parts) s of
        (Some e, s1) \<Rightarrow> (failed_call e ''could not complete multipart upload'', s1)
      | (None, s1) \<Rightarrow> Provider_StatObject p key s1)"

definition Provider_AbortMultipart :: "'s Provider \<Rightarrow> string \<Rightarrow> string \<Rightarrow> 's \<Rightarrow> unit result \<times> 's" where
  "Provider_AbortMultipart p key uploadID s =
     (case awsAbortMultipartUpload (pvClient p) (pvBucket p) key uploadID s of
        (err, s1) \<Rightarrow>
          (if isNotFound err then Inr () else or_value () (mapError err ''could not abort multipart upload''), s1))"

definition Provider_DeleteObject :: "'s Provider \<Rightarrow> string \<Rightarrow> 's \<Rightarrow> unit result \<times> 's" where
  "Provider_DeleteObject p key s =
     (case awsDeleteObject (pvClient p) (pvBucket p) key s of
        (err, s1) \<Rightarrow> (or_value () (mapError err ''could not delete object''), s1))"

section \<open>The pages of a part listing\<close>

definition maxListPartsPages :: nat where
  "maxListPartsPages = 20"

definition listed_part :: "'s Provider \<Rightarrow> S3Part \<Rightarrow> StoredPart" where
  "listed_part p part =
     (let sha256 = \<lparr>cAlgorithm = ''sha256'', cValue = or_zero [] (s3ChecksumSHA256 part)\<rparr>;
          reported = or_zero [] (s3ChecksumSHA256 part) \<noteq> [] \<and> ValidChecksum sha256
      in \<lparr>spPartNumber = or_zero 0 (s3PartNumber part), spETag = or_zero [] (s3ETag part), spSize = or_zero 0 (s3Size part),
          spStorageChecksum = (if reported then sha256 else zero_Checksum),
          spChecksumAttested = reported \<and> pvTrustPartChecksums p, spReusable = False\<rparr>)"

abbreviation part_before :: "StoredPart \<Rightarrow> StoredPart \<Rightarrow> bool" where
  "part_before a b \<equiv> spPartNumber a < spPartNumber b"

text \<open>The loop; the first argument is the number of pages that may still be asked for.\<close>

fun list_part_pages ::
  "nat \<Rightarrow> 's Provider \<Rightarrow> string \<Rightarrow> string \<Rightarrow> string option \<Rightarrow> int \<Rightarrow> StoredPart list \<Rightarrow> 's \<Rightarrow> StoredPart list result \<times> 's" where
  "list_part_pages 0 p key uploadID marker previous parts s =
     (Inl (E CodeDependencyUnavailable ''multipart part listing exceeded its page bound''), s)"
| "list_part_pages (Suc pages) p key uploadID marker previous parts s =
     (case awsListParts (pvClient p) (pvBucket p) key uploadID marker s of
        (Inl e, s1) \<Rightarrow> (failed_call e ''could not list multipart parts'', s1)
      | (Inr output, s1) \<Rightarrow>
          let parts1 = parts @ map (listed_part p) (loParts output)
          in if int (length parts1) \<ge> MaxUploadParts
             then (Inr (sort_slice part_before (take (nat MaxUploadParts) parts1)), s1)
             else if \<not> or_zero False (loIsTruncated output) then (Inr (sort_slice part_before parts1), s1)
             else (case loNextPartNumberMarker output of
                     None \<Rightarrow> (Inl (E CodeDependencyUnavailable ''multipart part listing returned a non-advancing cursor''), s1)
                   | Some text_marker \<Rightarrow>
                       (case strconv_ParseInt text_marker of
                          None \<Rightarrow> (Inl (E CodeDependencyUnavailable ''multipart part listing returned a non-advancing cursor''), s1)
                        | Some following \<Rightarrow>
                            if following \<le> previous
                            then (Inl (E CodeDependencyUnavailable ''multipart part listing returned a non-advancing cursor''), s1)
                            else list_part_pages pages p key uploadID (Some text_marker) following parts1 s1)))"

definition Provider_ListParts :: "'s Provider \<Rightarrow> string \<Rightarrow> string \<Rightarrow> 's \<Rightarrow> StoredPart list result \<times> 's" where
  "Provider_ListParts p key uploadID = list_part_pages maxListPartsPages p key uploadID None 0 []"

section \<open>Downloads\<close>

text \<open>\<^verbatim>\<open>mime.FormatMediaType\<close> for one parameter.\<close>

definition tspecial :: "char \<Rightarrow> bool" where
  "tspecial ch \<longleftrightarrow> ch \<in> set ''()<>@,;:/[]?='' \<or> byte ch = 92 \<or> byte ch = 34"

definition token_char :: "char \<Rightarrow> bool" where
  "token_char ch \<longleftrightarrow> 32 < byte ch \<and> byte ch < 127 \<and> \<not> tspecial ch"

definition needsEncoding :: "string \<Rightarrow> bool" where
  "needsEncoding s \<longleftrightarrow> list_ex (\<lambda>ch. (byte ch < 32 \<or> 126 < byte ch) \<and> byte ch \<noteq> 9) s"

definition encode_parameter :: "string \<Rightarrow> string" where
  "encode_parameter s =
     concat (map (\<lambda>ch. if byte ch \<le> 32 \<or> 127 \<le> byte ch \<or> byte ch = 42 \<or> byte ch = 39 \<or> byte ch = 37 \<or> tspecial ch
                       then percent ch else [ch]) s)"

definition quote_parameter :: "string \<Rightarrow> string" where
  "quote_parameter s =
     [CHR 0x22] @ concat (map (\<lambda>ch. if byte ch = 34 \<or> byte ch = 92 then [CHR 0x5C, ch] else [ch]) s) @ [CHR 0x22]"

definition attachment_disposition :: "string \<Rightarrow> string" where
  "attachment_disposition filename =
     ''attachment; filename'' @
     (if needsEncoding filename then ''*=utf-8'' @ [CHR 0x27, CHR 0x27] @ encode_parameter filename
      else if filename \<noteq> [] \<and> list_all token_char filename then ''='' @ filename
      else ''='' @ quote_parameter filename)"

definition Provider_SignDownload :: "'s Provider \<Rightarrow> StorageEnv \<Rightarrow> string \<Rightarrow> string \<Rightarrow> duration \<Rightarrow> 's \<Rightarrow> SignedDownload result \<times> 's" where
  "Provider_SignDownload p env key filename ttl s =
     (case awsPresignGetObject (pvPresigner p) (pvBucket p) key (attachment_disposition filename) ttl s of
        Inl e \<Rightarrow> (failed_call e ''could not sign download'', s)
      | Inr output \<Rightarrow> (Inr \<lparr>sdMethod = prqMethod output, sdURL = prqURL output, sdExpiresAt = seNow env + ttl\<rparr>, s))"

section \<open>Start-up\<close>

record S3Options =
  soEndpoint :: string
  soPublicEndpoint :: string
  soRegion :: string
  soBucket :: string
  soAccessKey :: string
  soSecretKey :: string
  soUsePathStyle :: bool
  soAutoCreateBucket :: bool
  soEnableChecksumHeaders :: bool
  soTrustPartChecksums :: bool

definition ensureBucket :: "'s Provider \<Rightarrow> string \<Rightarrow> 's \<Rightarrow> error option \<times> 's" where
  "ensureBucket p region s =
     (case awsHeadBucket (pvClient p) (pvBucket p) s of
        None \<Rightarrow> (None, s)
      | Some e \<Rightarrow>
          if \<not> isBucketNotFound (Some e) then (mapError (Some e) ''could not inspect S3 bucket'', s)
          else (case awsCreateBucket (pvClient p) (pvBucket p) (if region \<noteq> ''us-east-1'' then Some region else None) s of
                  (err, s1) \<Rightarrow> (mapError err ''could not create S3 bucket'', s1)))"

definition trim_slashes :: "string \<Rightarrow> string" where
  "trim_slashes s = rev (dropWhile (\<lambda>ch. ch = CHR ''/'') (rev s))"

text \<open>\<open>configuration\<close> is what the library's loader makes of the environment: an error, or a client for each end point.\<close>

definition S3_New ::
  "(error + (string \<Rightarrow> bool \<Rightarrow> 's S3Client)) \<Rightarrow> S3Options \<Rightarrow> 's \<Rightarrow> 's Provider result \<times> 's" where
  "S3_New configuration options s =
     (if soRegion options = [] \<or> soBucket options = []
      then (Inl (E CodeInvalidRequest ''S3 region and bucket are required''), s)
      else if (soAccessKey options = []) \<noteq> (soSecretKey options = [])
      then (Inl (E CodeInvalidRequest ''both S3 access key and secret key are required''), s)
      else
        (case configuration of
           Inl err \<Rightarrow> (Inl (OtherError ''load S3 configuration'' (Some err)), s)
         | Inr newClient \<Rightarrow>
             let endpoint = trim_slashes (soEndpoint options);
                 trimmed = trim_slashes (soPublicEndpoint options);
                 publicEndpoint = (if trimmed = [] then endpoint else trimmed);
                 provider =
                   \<lparr>pvClient = newClient endpoint (soUsePathStyle options), pvPresigner = newClient publicEndpoint (soUsePathStyle options),
                    pvBucket = soBucket options,
                    pvChecksumHeaders = soEndpoint options = [] \<or> soEnableChecksumHeaders options,
                    pvTrustPartChecksums =
                      soTrustPartChecksums options \<and> (soEndpoint options = [] \<or> soEnableChecksumHeaders options)\<rparr>
             in if soAutoCreateBucket options
                then (case ensureBucket provider (soRegion options) s of
                        (Some err, s1) \<Rightarrow> (Inl err, s1)
                      | (None, s1) \<Rightarrow> (Inr provider, s1))
                else (Inr provider, s)))"

definition s3_storage :: "'s Provider \<Rightarrow> 's StorageProvider" where
  "s3_storage p =
     \<lparr>spReady = Provider_Ready p, spBucket = Provider_Bucket p, spCreateMultipart = (\<lambda>env. Provider_CreateMultipart p),
      spSignUploadPart = Provider_SignUploadPart p, spCompleteMultipart = (\<lambda>env. Provider_CompleteMultipart p),
      spAbortMultipart = (\<lambda>env. Provider_AbortMultipart p), spListParts = (\<lambda>env. Provider_ListParts p),
      spStatObject = (\<lambda>env. Provider_StatObject p), spSignDownload = Provider_SignDownload p,
      spDeleteObject = (\<lambda>env. Provider_DeleteObject p)\<rparr>"

end
