(* ===== verification/S3_Properties.thy ===== *)
theory S3_Properties
  imports S3_Provider
begin

text \<open>
  What the S3 provider promises: it keeps the storage contract of the drive service on any service that does what S3 documents,
  a part listing is complete or fails, and nothing is attested that was not configured and reported.
\<close>

section \<open>What S3 documents\<close>

text \<open>
  \<open>objs s bucket key\<close> is the object of a key, as a head request would describe it, and \<open>healthy\<close> whatever the service keeps up
  itself. Reads and multipart bookkeeping leave objects alone, also when they fail; completing an upload writes
  its own key only, deleting removes its own key only, and a deletion that succeeds leaves nothing
  behind (reads follow writes). An answered head request describes the object.
\<close>

definition writes_only :: "('s \<Rightarrow> bool) \<Rightarrow> ('s \<Rightarrow> string \<Rightarrow> string \<Rightarrow> 'o option) \<Rightarrow> string \<Rightarrow> string \<Rightarrow> 's \<Rightarrow> 's \<Rightarrow> bool" where
  "writes_only healthy objs bucket key s s' \<longleftrightarrow>
     (healthy s \<longrightarrow> healthy s') \<and> (\<forall>b k. (b, k) \<noteq> (bucket, key) \<longrightarrow> objs s' b k = objs s b k)"

definition leaves :: "('s \<Rightarrow> bool) \<Rightarrow> ('s \<Rightarrow> string \<Rightarrow> string \<Rightarrow> 'o option) \<Rightarrow> 's \<Rightarrow> 's \<Rightarrow> bool" where
  "leaves healthy objs s s' \<longleftrightarrow> (healthy s \<longrightarrow> healthy s') \<and> objs s' = objs s"

definition s3_service ::
  "'s S3Client \<Rightarrow> ('s \<Rightarrow> bool) \<Rightarrow> ('s \<Rightarrow> string \<Rightarrow> string \<Rightarrow> HeadObjectOutput option) \<Rightarrow> bool" where
  "s3_service c healthy objs \<longleftrightarrow>
     (\<forall>bucket key mime alg s. leaves healthy objs s (snd (awsCreateMultipartUpload c bucket key mime alg s)))
   \<and> (\<forall>bucket key up s. leaves healthy objs s (snd (awsAbortMultipartUpload c bucket key up s)))
   \<and> (\<forall>bucket key up marker s. leaves healthy objs s (snd (awsListParts c bucket key up marker s)))
   \<and> (\<forall>bucket key s. leaves healthy objs s (snd (awsHeadObject c bucket key s)))
   \<and> (\<forall>bucket key out s. healthy s \<longrightarrow> fst (awsHeadObject c bucket key s) = Inr out \<longrightarrow> objs s bucket key = Some out)
   \<and> (\<forall>bucket key up parts s. writes_only healthy objs bucket key s (snd (awsCompleteMultipartUpload c bucket key up parts s))
        \<and> (objs s bucket key \<noteq> None \<longrightarrow> objs (snd (awsCompleteMultipartUpload c bucket key up parts s)) bucket key \<noteq> None))
   \<and> (\<forall>bucket key s. writes_only healthy objs bucket key s (snd (awsDeleteObject c bucket key s))
        \<and> (fst (awsDeleteObject c bucket key s) = None \<longrightarrow> objs (snd (awsDeleteObject c bucket key s)) bucket key = None))"

text \<open>Presigning is a local computation; it answers whenever there are credentials.\<close>

definition s3_signer :: "'s S3Client \<Rightarrow> bool" where
  "s3_signer c \<longleftrightarrow> (\<forall>bucket key disposition ttl s. \<exists>out. awsPresignGetObject c bucket key disposition ttl s = Inr out)"

section \<open>The storage contract\<close>

lemma s3_serviceD:
  assumes "s3_service c healthy objs"
  shows "leaves healthy objs s (snd (awsCreateMultipartUpload c bucket key mime alg s))"
    "leaves healthy objs s (snd (awsAbortMultipartUpload c bucket key up s))"
    "leaves healthy objs s (snd (awsListParts c bucket key up marker s))"
    "leaves healthy objs s (snd (awsHeadObject c bucket key s))"
    "writes_only healthy objs bucket key s (snd (awsCompleteMultipartUpload c bucket key up parts s))"
    "writes_only healthy objs bucket key s (snd (awsDeleteObject c bucket key s))"
    "healthy s \<Longrightarrow> fst (awsHeadObject c bucket key s) = Inr out \<Longrightarrow> objs s bucket key = Some out"
    "objs s bucket key \<noteq> None \<Longrightarrow> objs (snd (awsCompleteMultipartUpload c bucket key up parts s)) bucket key \<noteq> None"
    "fst (awsDeleteObject c bucket key s) = None \<Longrightarrow> objs (snd (awsDeleteObject c bucket key s)) bucket key = None"
  using assms unfolding s3_service_def by (elim conjE, simp)+

lemma mapError_nil [simp]: "mapError None message = None"
  by (simp add: mapError_def)

lemma mapError_Some: "mapError (Some e) message \<noteq> None"
  by (simp add: mapError_def)

lemma leaves_refl [simp]: "leaves healthy objs s s"
  by (simp add: leaves_def)

lemma leaves_trans: "leaves healthy objs s s' \<Longrightarrow> leaves healthy objs s' s'' \<Longrightarrow> leaves healthy objs s s''"
  by (simp add: leaves_def)

lemma writes_only_leaves: "writes_only healthy objs b k s s' \<Longrightarrow> leaves healthy objs s' s'' \<Longrightarrow> writes_only healthy objs b k s s''"
  by (simp add: leaves_def writes_only_def)

lemma list_part_pages_leaves:
  assumes "\<And>marker s. leaves healthy objs s (snd (awsListParts (pvClient p) (pvBucket p) key up marker s))"
  shows "leaves healthy objs s (snd (list_part_pages n p key up marker previous parts s))"
proof (induction n arbitrary: marker previous parts s)
  case (Suc n)
  obtain res s1 where step: "awsListParts (pvClient p) (pvBucket p) key up marker s = (res, s1)" by fastforce
  have "leaves healthy objs s s1" using assms [of s marker] step by simp
  then show ?case using step Suc.IH by (auto simp: Let_def intro: leaves_trans split: sum.splits option.splits)
qed simp

lemma provider_leaves:
  assumes "s3_service (pvClient p) healthy objs"
  shows "leaves healthy objs s (snd (Provider_CreateMultipart p key mime ck s))"
    "leaves healthy objs s (snd (Provider_AbortMultipart p key up s))"
    "leaves healthy objs s (snd (Provider_ListParts p key up s))"
    "leaves healthy objs s (snd (Provider_StatObject p key s))"
    "leaves healthy objs s (snd (Provider_SignUploadPart p env key up n ck ttl s))"
    "leaves healthy objs s (snd (Provider_SignDownload p env key name ttl s))"
proof -
  note law = s3_serviceD [OF assms]
  show "leaves healthy objs s (snd (Provider_CreateMultipart p key mime ck s))"
    using law(1) [of s "pvBucket p" key mime] by (auto simp: Provider_CreateMultipart_def Let_def split: prod.splits sum.splits if_splits) (metis snd_conv)+
  show "leaves healthy objs s (snd (Provider_AbortMultipart p key up s))"
    using law(2) [of s "pvBucket p" key up] by (auto simp: Provider_AbortMultipart_def split: prod.splits)
  show "leaves healthy objs s (snd (Provider_ListParts p key up s))"
    unfolding Provider_ListParts_def by (rule list_part_pages_leaves) (rule law(3))
  show "leaves healthy objs s (snd (Provider_StatObject p key s))"
    using law(4) [of s "pvBucket p" key] by (auto simp: Provider_StatObject_def split: prod.splits sum.splits)
qed (auto simp: Provider_SignUploadPart_def Provider_SignDownload_def Let_def split: sum.splits)

lemma StatObject_sound:
  assumes "s3_service (pvClient p) healthy objs" "healthy s" "fst (Provider_StatObject p key s) = Inr info"
  shows "\<exists>out. objs s (pvBucket p) key = Some out \<and> info = object_info p key out"
  using assms(3) s3_serviceD(7) [OF assms(1,2), of "pvBucket p" key]
  by (auto simp: Provider_StatObject_def failed_call_def split: prod.splits sum.splits)

lemma CompleteMultipart_effect:
  assumes service: "s3_service (pvClient p) healthy objs"
  shows "writes_only healthy objs (pvBucket p) key s (snd (Provider_CompleteMultipart p key up ps s))"
    "objs s (pvBucket p) key \<noteq> None \<Longrightarrow> objs (snd (Provider_CompleteMultipart p key up ps s)) (pvBucket p) key \<noteq> None"
proof -
  obtain err s1 where step: "awsCompleteMultipartUpload (pvClient p) (pvBucket p) key up (map (s3_completed_part p) ps) s = (err, s1)"
    by fastforce
  have one: "writes_only healthy objs (pvBucket p) key s s1" "objs s (pvBucket p) key \<noteq> None \<Longrightarrow> objs s1 (pvBucket p) key \<noteq> None"
    using s3_serviceD(5) [OF service, of "pvBucket p" key s up "map (s3_completed_part p) ps"]
      s3_serviceD(8) [OF service, of s "pvBucket p" key up "map (s3_completed_part p) ps"]
    by (simp_all add: step)
  have two: "leaves healthy objs s1 (snd (Provider_StatObject p key s1))" by (rule provider_leaves [OF service])
  show "writes_only healthy objs (pvBucket p) key s (snd (Provider_CompleteMultipart p key up ps s))"
    using one(1) writes_only_leaves [OF one(1) two] by (simp add: Provider_CompleteMultipart_def step split: option.splits)
  show "objs (snd (Provider_CompleteMultipart p key up ps s)) (pvBucket p) key \<noteq> None" if "objs s (pvBucket p) key \<noteq> None"
    using one(2) [OF that] two by (auto simp: Provider_CompleteMultipart_def step leaves_def split: option.splits)
qed

lemma DeleteObject_effect:
  assumes service: "s3_service (pvClient p) healthy objs"
  shows "writes_only healthy objs (pvBucket p) key s (snd (Provider_DeleteObject p key s))"
    "fst (Provider_DeleteObject p key s) = Inr () \<Longrightarrow> objs (snd (Provider_DeleteObject p key s)) (pvBucket p) key = None"
  using s3_serviceD(6) [OF service, of "pvBucket p" key s] s3_serviceD(9) [OF service, of "pvBucket p" key s] mapError_Some
  by (auto simp: Provider_DeleteObject_def or_value_def split: prod.splits option.splits) (metis not_None_eq)

text \<open>
  Property C7. The S3 provider keeps the storage contract that the safety of the drive service rests on, whatever the calls and
  whichever of them fail, on every service that does what S3 documents and whose signer has credentials. The objects are
  those of the provider's bucket, described as a head request describes them.
\<close>

theorem s3_keeps_contract:
  assumes service: "s3_service (pvClient p) healthy objs" and signer: "s3_signer (pvPresigner p)"
  shows "storage_contract (s3_storage p) healthy (\<lambda>s key. map_option (object_info p key) (objs s (pvBucket p) key))"
proof -
  have download: "\<exists>d. fst (Provider_SignDownload p env key name ttl s) = Inr d" for env key name ttl s
  proof -
    from signer obtain out where "awsPresignGetObject (pvPresigner p) (pvBucket p) key (attachment_disposition name) ttl s = Inr out"
      unfolding s3_signer_def by blast
    then show ?thesis by (simp add: Provider_SignDownload_def)
  qed
  note effects = provider_leaves [OF service] CompleteMultipart_effect(1) [OF service] DeleteObject_effect(1) [OF service]
  show ?thesis
    by unfold_locales
      (use effects CompleteMultipart_effect(2) [OF service] DeleteObject_effect(2) [OF service] StatObject_sound [OF service] download in
        \<open>fastforce simp: s3_storage_def leaves_def writes_only_def object_info_def Let_def\<close>)+
qed

text \<open>A service that does what S3 documents: a table of objects and the parts of one upload.\<close>

type_synonym sample_bucket = "(string \<times> string, HeadObjectOutput) gomap \<times> S3Part list"

definition part_number :: "S3Part \<Rightarrow> int" where
  "part_number part = or_zero 0 (s3PartNumber part)"

text \<open>
  The documented listing: the parts in the order of their numbers, those after the marker, a page at a time, with
  the last number of the page as the next marker while more are left.
\<close>

definition part_page :: "nat \<Rightarrow> S3Part list \<Rightarrow> int \<Rightarrow> ListPartsOutput" where
  "part_page psize parts after =
     (let rest = filter (\<lambda>x. after < part_number x) parts; items = take psize rest; more = psize < length rest
      in \<lparr>loParts = items, loIsTruncated = Some more,
          loNextPartNumberMarker = (if more then Some (show_int (part_number (last items))) else None)\<rparr>)"

definition sample_presigned :: "sdk_error + PresignedRequest" where
  "sample_presigned = Inr \<lparr>prqMethod = ''GET'', prqURL = ''https://s3/b/k'', prqSignedHeader = []\<rparr>"

definition sample_s3 :: "sample_bucket S3Client" where
  "sample_s3 =
     \<lparr>awsHeadBucket = (\<lambda>_ _. None), awsCreateBucket = (\<lambda>_ _ s. (None, s)),
      awsCreateMultipartUpload = (\<lambda>_ _ _ _ s. (Inr (Some ''u''), s)),
      awsCompleteMultipartUpload = (\<lambda>b k _ ps s. (None, (gput (b, k)
         \<lparr>hoContentLength = Some (int (length ps)), hoETag = Some ''e'', hoChecksumSHA256 = None\<rparr> (fst s), snd s))),
      awsAbortMultipartUpload = (\<lambda>_ _ _ s. (None, s)),
      awsListParts = (\<lambda>_ _ _ marker s. (Inr (part_page 1000 (snd s)
         (case marker of None \<Rightarrow> 0 | Some t \<Rightarrow> (case strconv_ParseInt t of None \<Rightarrow> 0 | Some n \<Rightarrow> n))), s)),
      awsHeadObject = (\<lambda>b k s. (case gget (fst s) (b, k) of
         None \<Rightarrow> Inl \<lparr>skErr = OtherError ''no such key'' None, skCode = Some ''NotFound''\<rparr> | Some out \<Rightarrow> Inr out, s)),
      awsDeleteObject = (\<lambda>b k s. (None, (gdel (b, k) (fst s), snd s))),
      awsPresignUploadPart = (\<lambda>_ _ _ _ _ _ _. sample_presigned), awsPresignGetObject = (\<lambda>_ _ _ _ _. sample_presigned)\<rparr>"

definition sample_s3_provider :: "sample_bucket Provider" where
  "sample_s3_provider = \<lparr>pvClient = sample_s3, pvPresigner = sample_s3, pvBucket = ''b'', pvChecksumHeaders = True, pvTrustPartChecksums = True\<rparr>"

theorem s3_keeps_contract_witness:
  "storage_contract (s3_storage sample_s3_provider) (\<lambda>_. True)
     (\<lambda>s key. map_option (object_info sample_s3_provider key) (gget (fst s) (''b'', key)))"
proof -
  have "s3_service (pvClient sample_s3_provider) (\<lambda>_. True) (\<lambda>s b k. gget (fst s) (b, k))"
    by (auto simp: s3_service_def leaves_def writes_only_def sample_s3_provider_def sample_s3_def split: option.splits)
  moreover have "s3_signer (pvPresigner sample_s3_provider)"
    by (simp add: s3_signer_def sample_s3_provider_def sample_s3_def sample_presigned_def)
  ultimately show ?thesis using s3_keeps_contract [of sample_s3_provider] by (simp add: sample_s3_provider_def)
qed

section \<open>Part listings\<close>

interpretation part_order: weak_order part_before
  by unfold_locales auto

text \<open>What can be said of a listing without knowing the service.\<close>

definition attested_by :: "'s Provider \<Rightarrow> StoredPart \<Rightarrow> bool" where
  "attested_by p part \<longleftrightarrow>
     \<not> spReusable part \<and> (spChecksumAttested part \<longrightarrow>
       pvTrustPartChecksums p \<and> ValidChecksum (spStorageChecksum part) \<and> cAlgorithm (spStorageChecksum part) = ''sha256'')"

lemma listed_part_attested: "attested_by p (listed_part p part)"
  by (simp add: attested_by_def listed_part_def Let_def)

lemma list_part_pages_sound:
  "list_part_pages n p key up marker previous parts s = (Inr out, s') \<Longrightarrow> list_all (attested_by p) parts
     \<Longrightarrow> int (length out) \<le> MaxUploadParts \<and> sorted_wrt (\<lambda>a b. \<not> part_before b a) out \<and> list_all (attested_by p) out"
proof (induction n arbitrary: marker previous parts s)
  case (Suc n)
  obtain res s1 where step: "awsListParts (pvClient p) (pvBucket p) key up marker s = (res, s1)" by fastforce
  then obtain out1 where res: "res = Inr out1" using Suc.prems(1) by (cases res) (auto simp: failed_call_def)
  let ?parts = "parts @ map (listed_part p) (loParts out1)"
  have all: "list_all (attested_by p) ?parts" using Suc.prems(2) listed_part_attested by (auto simp: list_all_iff)
  have "set (take k ?parts) \<subseteq> set ?parts" for k by (rule set_take_subset)
  with all have taken: "list_all (attested_by p) (take k ?parts)" for k unfolding list_all_iff by blast
  from Suc.prems(1) all taken [of "nat MaxUploadParts"] show ?case
    by (auto simp: step res Let_def part_order.sorted_sort_slice list_all_iff MaxUploadParts_def split: if_splits option.splits dest!: Suc.IH)
qed simp

definition lists_parts :: "'s Provider \<Rightarrow> string \<Rightarrow> string \<Rightarrow> nat \<Rightarrow> S3Part list \<Rightarrow> 's \<Rightarrow> bool" where
  "lists_parts p key up psize parts s \<longleftrightarrow>
     awsListParts (pvClient p) (pvBucket p) key up None s = (Inr (part_page psize parts 0), s)
   \<and> (\<forall>n\<in>{1..MaxUploadParts}. awsListParts (pvClient p) (pvBucket p) key up (Some (show_int n)) s = (Inr (part_page psize parts n), s))"

definition listable_parts :: "S3Part list \<Rightarrow> bool" where
  "listable_parts parts \<longleftrightarrow> sorted_wrt (\<lambda>a b. part_number a < part_number b) parts
     \<and> list_all (\<lambda>x. 1 \<le> part_number x \<and> part_number x \<le> MaxUploadParts) parts"

lemma length_sorted_numbers:
  "sorted_wrt (\<lambda>a b. f a < f b) xs \<Longrightarrow> list_all (\<lambda>x. (1 :: int) \<le> f x \<and> f x \<le> m) xs \<Longrightarrow> 0 \<le> m \<Longrightarrow> int (length xs) \<le> m"
proof -
  assume sorted: "sorted_wrt (\<lambda>a b. f a < f b) xs" and range: "list_all (\<lambda>x. 1 \<le> f x \<and> f x \<le> m) xs" and m: "0 \<le> m"
  from sorted have "distinct (map f xs)" by (induction xs) auto
  then have "length xs = card (f ` set xs)" using distinct_card [of "map f xs"] by simp
  also have "\<dots> \<le> card {1..m}" using range by (intro card_mono) (auto simp: list_all_iff)
  finally show "int (length xs) \<le> m" using m by simp
qed

lemma after_prefix:
  assumes "sorted_wrt (\<lambda>a b. f a < (f b :: int)) (seen @ rest)" "list_all (\<lambda>x. 1 \<le> f x) (seen @ rest)"
    and "after = (if seen = [] then 0 else f (last seen))"
  shows "filter (\<lambda>x. after < f x) (seen @ rest) = rest"
proof -
  have "\<forall>x\<in>set seen. f x \<le> after"
    using assms by (induction seen) (auto simp: less_imp_le split: if_splits)
  moreover have "\<forall>x\<in>set rest. after < f x"
    using assms by (force simp: sorted_wrt_append list_all_iff)
  ultimately show ?thesis by (auto simp: filter_empty_conv filter_id_conv)
qed

lemma list_part_pages_complete:
  assumes lists: "lists_parts p key up psize parts s" and ok: "listable_parts parts" and psize: "0 < psize"
  shows "parts = seen @ rest \<Longrightarrow> length rest \<le> n * psize \<Longrightarrow> 0 < n
    \<Longrightarrow> previous = (if seen = [] then 0 else part_number (last seen))
    \<Longrightarrow> list_part_pages n p key up (if seen = [] then None else Some (show_int previous)) previous (map (listed_part p) seen) s
        = (Inr (map (listed_part p) parts), s)"
proof (induction n arbitrary: seen rest previous)
  case (Suc n)
  let ?listed = "map (listed_part p)"
  have sorted: "sorted_wrt (\<lambda>a b. part_number a < part_number b) (seen @ rest)"
    and range: "list_all (\<lambda>x. 1 \<le> part_number x \<and> part_number x \<le> MaxUploadParts) (seen @ rest)"
    using ok Suc.prems(1) by (auto simp: listable_parts_def)
  have rest: "filter (\<lambda>x. previous < part_number x) parts = rest"
    using after_prefix [OF sorted _ Suc.prems(4)] range Suc.prems(1) by (auto simp: list_all_iff)
  have short: "int (length parts) \<le> MaxUploadParts"
    using length_sorted_numbers [OF sorted range] Suc.prems(1) by (simp add: MaxUploadParts_def)
  have page: "awsListParts (pvClient p) (pvBucket p) key up (if seen = [] then None else Some (show_int previous)) s
      = (Inr \<lparr>loParts = take psize rest, loIsTruncated = Some (psize < length rest),
          loNextPartNumberMarker = (if psize < length rest then Some (show_int (part_number (last (take psize rest)))) else None)\<rparr>, s)"
  proof -
    have "awsListParts (pvClient p) (pvBucket p) key up (if seen = [] then None else Some (show_int previous)) s = (Inr (part_page psize parts previous), s)"
      using lists Suc.prems(4) range by (auto simp: lists_parts_def list_all_iff)
    then show ?thesis unfolding part_page_def rest Let_def .
  qed
  have joined: "?listed seen @ ?listed rest = ?listed parts" using Suc.prems(1) by simp
  have "sorted_wrt (\<lambda>a b. \<not> part_before b a) (?listed parts)"
    unfolding sorted_wrt_map Suc.prems(1)
    by (rule sorted_wrt_mono_rel [OF _ sorted]) (simp add: listed_part_def Let_def part_number_def)
  then have whole: "sort_slice part_before (?listed parts) = ?listed parts" by (rule sort_slice_id)
  have all: "int (length (?listed seen @ ?listed (take psize rest))) \<ge> MaxUploadParts \<Longrightarrow> take psize rest = rest"
    using short Suc.prems(1) by (cases "length rest \<le> psize") auto
  show ?case
  proof (cases "psize < length rest")
    case False
    then have items: "take psize rest = rest" by simp
    have "take (nat MaxUploadParts) (?listed parts) = ?listed parts" using short by simp
    with whole False show ?thesis
      by (simp add: page Let_def or_zero_def items joined)
  next
    case True
    let ?next = "part_number (last (take psize rest))"
    have nonempty: "take psize rest \<noteq> []" using True psize by auto
    have last: "last (take psize rest) \<in> set rest" using nonempty by (meson in_set_takeD last_in_set)
    have "last (take psize rest) \<in> set (filter (\<lambda>x. previous < part_number x) parts)" using last by (simp only: rest)
    then have advance: "previous < ?next" by simp
    have "1 \<le> ?next \<and> ?next \<le> MaxUploadParts" using range last by (auto simp: list_all_iff)
    then have parse: "strconv_ParseInt (show_int ?next) = Some ?next"
      by (intro ParseInt_show) (auto simp: in_int64_def MaxUploadParts_def)
    have few: "\<not> int (length (?listed seen @ ?listed (take psize rest))) \<ge> MaxUploadParts" using all True by auto
    have "0 < n" using True Suc.prems(2) psize by (cases n) auto
    then have "list_part_pages n p key up (Some (show_int ?next)) ?next (?listed (seen @ take psize rest)) s = (Inr (?listed parts), s)"
      using Suc.IH [of "seen @ take psize rest" "drop psize rest" ?next] Suc.prems(1,2) nonempty by auto
    with few True advance show ?thesis
      by (simp add: page Let_def or_zero_def parse)
  qed
qed simp

text \<open>
  Property C34. Listing the parts of an upload asks for at most twenty pages and returns, whatever the service answers. A list it
  returns has at most 10000 parts in the order of their numbers, and a part counts as attested only when the deployment trusts the
  service's checksums and the service reported a well-formed SHA-256 for it. On a service that pages as
  documented, with pages of at least 500 parts, the listing is complete: every part of the upload, once.
\<close>

theorem s3_part_listing:
  "\<exists>res s'. Provider_ListParts p key up s = (res, s')
     \<and> (case res of
          Inl _ \<Rightarrow> True
        | Inr out \<Rightarrow> int (length out) \<le> MaxUploadParts \<and> sorted_wrt (\<lambda>a b. spPartNumber a \<le> spPartNumber b) out \<and> list_all (attested_by p) out)
     \<and> (lists_parts p key up psize parts s \<and> listable_parts parts \<and> 500 \<le> psize \<longrightarrow> res = Inr (map (listed_part p) parts))"
proof -
  obtain res s' where run: "Provider_ListParts p key up s = (res, s')" by fastforce
  have "res = Inr (map (listed_part p) parts)" if lists: "lists_parts p key up psize parts s" and ok: "listable_parts parts" and psize: "500 \<le> psize"
  proof -
    have "int (length parts) \<le> MaxUploadParts"
      using ok unfolding listable_parts_def by (intro length_sorted_numbers [of part_number]) (simp_all add: MaxUploadParts_def)
    then have "length parts \<le> maxListPartsPages * psize" using psize by (simp add: MaxUploadParts_def maxListPartsPages_def)
    with list_part_pages_complete [OF lists ok, of "[]" parts maxListPartsPages 0] psize run show ?thesis
      by (simp add: Provider_ListParts_def maxListPartsPages_def)
  qed
  moreover have "int (length out) \<le> MaxUploadParts \<and> sorted_wrt (\<lambda>a b. spPartNumber a \<le> spPartNumber b) out \<and> list_all (attested_by p) out"
    if "res = Inr out" for out
    using list_part_pages_sound [of maxListPartsPages p key up None 0 "[]" s out s'] run that
    by (simp add: Provider_ListParts_def not_less)
  ultimately show ?thesis using run by (auto split: sum.splits)
qed

theorem s3_part_listing_witness:
  "fst (Provider_ListParts sample_s3_provider ''k'' ''u''
      ([], map (\<lambda>n. \<lparr>s3PartNumber = Some n, s3ETag = Some ''e'', s3Size = Some 5, s3ChecksumSHA256 = None\<rparr>) [1, 2, 7]))
   = Inr (map (\<lambda>n. \<lparr>spPartNumber = n, spETag = ''e'', spSize = 5, spStorageChecksum = zero_Checksum, spChecksumAttested = False, spReusable = False\<rparr>)
      [1, 2, 7])"
proof -
  let ?parts = "map (\<lambda>n. \<lparr>s3PartNumber = Some n, s3ETag = Some ''e'', s3Size = Some 5, s3ChecksumSHA256 = None\<rparr>) [1, 2, 7]"
  have "listable_parts ?parts"
    by (simp add: listable_parts_def part_number_def or_zero_def MaxUploadParts_def)
  moreover have "lists_parts sample_s3_provider ''k'' ''u'' 1000 ?parts ([], ?parts)"
    unfolding lists_parts_def sample_s3_provider_def sample_s3_def
    by (auto simp: ParseInt_show in_int64_def MaxUploadParts_def)
  ultimately show ?thesis
    using s3_part_listing [of sample_s3_provider "''k''" "''u''" "([], ?parts)" 1000 ?parts]
    by (auto simp: listed_part_def or_zero_def Let_def)
qed

section \<open>File names in headers\<close>

lemma upper_hexdigit_plain: "n < 16 \<Longrightarrow> 48 \<le> byte (upper_hexdigit n) \<and> byte (upper_hexdigit n) \<le> 70"
  by (auto simp: upper_hexdigit_def)

text \<open>Whatever a file is called, no control character of its name, line breaks above all, reaches the response header.\<close>

lemma disposition_plain: "list_all (\<lambda>ch. 32 \<le> byte ch \<and> byte ch \<le> 126 \<or> byte ch = 9) (attachment_disposition filename)"
proof -
  let ?plain = "\<lambda>ch. 32 \<le> byte ch \<and> byte ch \<le> 126 \<or> byte ch = 9"
  have "list_all ?plain (percent ch)" for ch
  proof -
    have "byte ch div 16 < 16" "byte ch mod 16 < 16" using byte_less [of ch] by simp_all
    from this [THEN upper_hexdigit_plain] show ?thesis by (auto simp: percent_def byte_def)
  qed
  then have "list_all ?plain (encode_parameter filename)"
    by (auto simp: encode_parameter_def list_all_iff split: if_splits)
  moreover have "list_all ?plain filename" if "\<not> needsEncoding filename"
    using that by (fastforce simp: needsEncoding_def list_ex_iff list_all_iff)
  moreover have "list_all ?plain (quote_parameter filename)" if "list_all ?plain filename"
    using that by (auto simp: quote_parameter_def list_all_iff byte_def split: if_splits)
  moreover have "list_all ?plain ''attachment; filename''" "list_all ?plain (''*=utf-8'' @ [CHR 0x27, CHR 0x27])" "list_all ?plain ''=''"
    by (simp_all add: byte_def)
  ultimately show ?thesis by (simp add: attachment_disposition_def)
qed

end
