(* ===== verification/Recovery_Verifier.thy ===== *)
theory Recovery_Verifier
  imports Memory_Storage
begin

text \<open>
  \<^verbatim>\<open>internal/recovery\<close>: after a restore, every available blob of the metadata is compared with the object
  storage. \<open>Verifier_Verify\<close> pages through the catalog and checks each batch with a pool of workers. What the
  workers leave open, the order in which the blobs of a batch are looked up, is a parameter (\<open>vrOrder\<close>), as is the
  cancellation of the context. The catalog of the code is a query of the \<^verbatim>\<open>blob\<close> table
  (\<^verbatim>\<open>recovery/postgres.go\<close>); it is modelled as what the statement returns.
\<close>

section \<open>Blobs and the catalog\<close>

record BlobRecord =
  brID :: string
  brTenantID :: string
  brBucket :: string
  brObjectKey :: string
  brSize :: int64
  brChecksum :: Checksum
  brChecksumStatus :: ChecksumStatus

record BlobCursor =
  bcTenantID :: string
  bcBlobID :: string

record Catalog =
  caSchemaVersion :: "int64 result"
  caListAvailableBlobs :: "BlobCursor \<Rightarrow> int \<Rightarrow> BlobRecord list result"

definition blob_record :: "Blob \<Rightarrow> BlobRecord" where
  "blob_record b = \<lparr>brID = bID b, brTenantID = bTenantID b, brBucket = bBucket b, brObjectKey = bObjectKey b, brSize = bSize b,
     brChecksum = bChecksum b, brChecksumStatus = bChecksumStatus b\<rparr>"

definition cursor_of :: "BlobRecord \<Rightarrow> BlobCursor" where
  "cursor_of b = \<lparr>bcTenantID = brTenantID b, bcBlobID = brID b\<rparr>"

text \<open>The row order \<^verbatim>\<open>(tenant_id, id)\<close>; the text of a UUID is ordered as the UUID is.\<close>

definition pair_less :: "string \<times> string \<Rightarrow> string \<times> string \<Rightarrow> bool" where
  "pair_less a b \<longleftrightarrow> fst a < fst b \<or> fst a = fst b \<and> snd a < snd b"

definition blob_less :: "BlobRecord \<Rightarrow> BlobRecord \<Rightarrow> bool" where
  "blob_less a b \<longleftrightarrow> pair_less (brTenantID a, brID a) (brTenantID b, brID b)"

definition after_cursor :: "BlobRecord \<Rightarrow> BlobCursor \<Rightarrow> bool" where
  "after_cursor b c \<longleftrightarrow> bcTenantID c = [] \<or> pair_less (bcTenantID c, bcBlobID c) (brTenantID b, brID b)"

text \<open>The rows of the table: keyed by the primary key, with tenants that are UUIDs.\<close>

definition available_blobs :: "(string, Blob) gomap \<Rightarrow> BlobRecord list" where
  "available_blobs table =
     map (\<lambda>(_, b). blob_record b)
       (filter (\<lambda>(k, b). k = bID b \<and> ValidID (bTenantID b) \<and> bStatus b = BlobAvailable) (gentries table))"

definition Postgres_ListAvailableBlobs :: "(string, Blob) gomap \<Rightarrow> BlobCursor \<Rightarrow> int \<Rightarrow> BlobRecord list result" where
  "Postgres_ListAvailableBlobs table cursor limit =
     Inr (take (nat limit) (sort_slice blob_less (filter (\<lambda>b. after_cursor b cursor) (available_blobs table))))"

definition Postgres_SchemaVersion :: "int64 list \<Rightarrow> int64 result" where
  "Postgres_SchemaVersion versions = Inr (case versions of [] \<Rightarrow> 0 | _ \<Rightarrow> Max (set versions))"

definition postgres_catalog :: "int64 list \<Rightarrow> (string, Blob) gomap \<Rightarrow> Catalog" where
  "postgres_catalog versions table =
     \<lparr>caSchemaVersion = Postgres_SchemaVersion versions, caListAvailableBlobs = Postgres_ListAvailableBlobs table\<rparr>"

section \<open>The verifier\<close>

record Finding =
  fiCode :: string
  fiTenantID :: string
  fiBlobID :: string

record Report =
  rpStartedAt :: time
  rpFinishedAt :: time
  rpSchemaVersion :: int64
  rpChecked :: int64
  rpHealthy :: int64
  rpCounts :: "(string, int) gomap"
  rpFindings :: "Finding list"
  rpTruncated :: bool
  rpVerified :: bool

record 's Verifier =
  vrCatalog :: Catalog
  vrStorage :: "'s StorageProvider"
  vrBatchSize :: int
  vrConcurrency :: int
  vrMaxFindings :: int
  vrOrder :: "BlobRecord list \<Rightarrow> BlobRecord list"
  vrCancelled :: "BlobRecord list \<Rightarrow> error option"

definition NewVerifier :: "'s Verifier \<Rightarrow> 's Verifier result" where
  "NewVerifier options =
     (let o1 = (if vrBatchSize options = 0 then options\<lparr>vrBatchSize := 500\<rparr> else options);
          o2 = (if vrConcurrency o1 = 0 then o1\<lparr>vrConcurrency := 16\<rparr> else o1);
          o3 = (if vrMaxFindings o2 = 0 then o2\<lparr>vrMaxFindings := 100\<rparr> else o2)
      in if vrBatchSize o3 < 1 \<or> vrBatchSize o3 > 10000 \<or> vrConcurrency o3 < 1 \<or> vrConcurrency o3 > 256
            \<or> vrMaxFindings o3 < 1 \<or> vrMaxFindings o3 > 10000
         then Inl (E CodeInvalidRequest ''verification limits are invalid'')
         else Inr o3)"

definition stat_finding :: "BlobRecord \<Rightarrow> ObjectInfo result \<Rightarrow> string option" where
  "stat_finding item res =
     (case res of
        Inl err \<Rightarrow>
          Some (if CodeOf err = CodeNotFound then ''object_missing''
                else if CodeOf err = CodeDependencyUnavailable then ''storage_unavailable''
                else ''storage_error'')
      | Inr object \<Rightarrow>
          if oSize object \<noteq> brSize item then Some ''size_mismatch''
          else if brChecksumStatus item = ChecksumVerified \<and> cAlgorithm (brChecksum item) \<noteq> []
                  \<and> (oChecksumStatus object \<noteq> ChecksumVerified \<or> oChecksum object \<noteq> brChecksum item)
          then Some ''checksum_mismatch''
          else if brChecksumStatus item = ChecksumDeclared \<and> oChecksumStatus object = ChecksumVerified \<and> oChecksum object \<noteq> brChecksum item
          then Some ''checksum_mismatch''
          else None)"

definition verifyBlob :: "'s Verifier \<Rightarrow> StorageEnv \<Rightarrow> BlobRecord \<Rightarrow> 's \<Rightarrow> Finding option \<times> 's" where
  "verifyBlob v env item s =
     (let makeFinding = (\<lambda>code. \<lparr>fiCode = code, fiTenantID = brTenantID item, fiBlobID = brID item\<rparr>)
      in if brBucket item \<noteq> spBucket (vrStorage v) s then (Some (makeFinding ''bucket_mismatch''), s)
         else (case spStatObject (vrStorage v) env (brObjectKey item) s of
                 (res, s1) \<Rightarrow> (map_option makeFinding (stat_finding item res), s1)))"

fun verify_items :: "'s Verifier \<Rightarrow> StorageEnv \<Rightarrow> BlobRecord list \<Rightarrow> 's \<Rightarrow> Finding list \<times> 's" where
  "verify_items v env [] s = ([], s)"
| "verify_items v env (item # items) s =
     (case verifyBlob v env item s of
        (finding, s1) \<Rightarrow>
          (case verify_items v env items s1 of
             (findings, s2) \<Rightarrow> ((case finding of None \<Rightarrow> findings | Some f \<Rightarrow> f # findings), s2)))"

definition finding_less :: "Finding \<Rightarrow> Finding \<Rightarrow> bool" where
  "finding_less a b \<longleftrightarrow> fiTenantID a < fiTenantID b \<or> fiTenantID a = fiTenantID b \<and> fiBlobID a < fiBlobID b"

definition verifyBatch :: "'s Verifier \<Rightarrow> StorageEnv \<Rightarrow> BlobRecord list \<Rightarrow> 's \<Rightarrow> Finding list result \<times> 's" where
  "verifyBatch v env items s =
     (case verify_items v env (vrOrder v items) s of
        (findings, s1) \<Rightarrow>
          (case vrCancelled v items of
             Some err \<Rightarrow> (Inl err, s1)
           | None \<Rightarrow> (Inr (sort_slice finding_less findings), s1)))"

definition add_finding :: "int \<Rightarrow> Finding \<Rightarrow> Report \<Rightarrow> Report" where
  "add_finding maxFindings finding report =
     (let counted = report\<lparr>rpCounts := gput (fiCode finding) (gget_or 0 (rpCounts report) (fiCode finding) + 1) (rpCounts report)\<rparr>
      in if int (length (rpFindings report)) < maxFindings
         then counted\<lparr>rpFindings := rpFindings report @ [finding]\<rparr>
         else counted\<lparr>rpTruncated := True\<rparr>)"

definition add_batch :: "'s Verifier \<Rightarrow> BlobRecord list \<Rightarrow> Finding list \<Rightarrow> Report \<Rightarrow> Report" where
  "add_batch v items findings report =
     fold (add_finding (vrMaxFindings v)) findings
       (report\<lparr>rpChecked := rpChecked report + int (length items),
               rpHealthy := rpHealthy report + (int (length items) - int (length findings))\<rparr>)"

partial_function (option) verify_loop ::
  "'s Verifier \<Rightarrow> StorageEnv \<Rightarrow> BlobCursor \<Rightarrow> Report \<Rightarrow> 's \<Rightarrow> (Report result \<times> 's) option" where
  "verify_loop v env cursor report s =
     (case caListAvailableBlobs (vrCatalog v) cursor (vrBatchSize v) of
        Inl err \<Rightarrow> Some (Inl err, s)
      | Inr items \<Rightarrow>
          if items = [] then Some (Inr report, s)
          else (case verifyBatch v env items s of
                  (Inl err, s1) \<Rightarrow> Some (Inl err, s1)
                | (Inr findings, s1) \<Rightarrow>
                    let report1 = add_batch v items findings report
                    in if int (length items) < vrBatchSize v then Some (Inr report1, s1)
                       else verify_loop v env (cursor_of (last items)) report1 s1))"

declare verify_loop.simps [code]

definition empty_report :: "time \<Rightarrow> Report" where
  "empty_report started = \<lparr>rpStartedAt = started, rpFinishedAt = 0, rpSchemaVersion = 0, rpChecked = 0, rpHealthy = 0,
     rpCounts = gempty, rpFindings = [], rpTruncated = False, rpVerified = False\<rparr>"

definition start_cursor :: BlobCursor where
  "start_cursor = \<lparr>bcTenantID = [], bcBlobID = []\<rparr>"

definition Verifier_Verify :: "'s Verifier \<Rightarrow> StorageEnv \<Rightarrow> time \<Rightarrow> time \<Rightarrow> 's \<Rightarrow> (Report result \<times> 's) option" where
  "Verifier_Verify v env started finished s =
     (case caSchemaVersion (vrCatalog v) of
        Inl err \<Rightarrow> Some (Inl err, s)
      | Inr version \<Rightarrow>
          (case verify_loop v env start_cursor ((empty_report started)\<lparr>rpSchemaVersion := version\<rparr>) s of
             None \<Rightarrow> None
           | Some (Inl err, s1) \<Rightarrow> Some (Inl err, s1)
           | Some (Inr report, s1) \<Rightarrow>
               Some (Inr (report\<lparr>rpFinishedAt := finished, rpVerified := gentries (rpCounts report) = []\<rparr>), s1)))"

section \<open>The catalog's contract\<close>

interpretation finding_order: weak_order finding_less
  by unfold_locales (auto simp: finding_less_def)

interpretation blob_order: weak_order blob_less
  by unfold_locales (auto simp: blob_less_def pair_less_def)

text \<open>What the verifier relies on: pages that follow one another without a gap, in the order of the rows.\<close>

locale blob_catalog =
  fixes list_blobs :: "BlobCursor \<Rightarrow> int \<Rightarrow> BlobRecord list result"
    and rows :: "BlobRecord list"
  assumes rows_sorted: "sorted_wrt blob_less rows"
    and page: "rows = seen @ rest \<Longrightarrow> 0 < limit
      \<Longrightarrow> list_blobs (if seen = [] then start_cursor else cursor_of (last seen)) limit = Inr (take (nat limit) rest)"

interpretation blob_pages: keyset blob_less after_cursor cursor_of
    "{b. brTenantID b \<noteq> [] \<and> (\<exists>x. gget table (brID b) = Some x \<and> b = blob_record x)}" for table
proof unfold_locales
  fix x y :: BlobRecord
  let ?rows = "{b. brTenantID b \<noteq> [] \<and> (\<exists>x. gget table (brID b) = Some x \<and> b = blob_record x)}"
  assume x: "x \<in> ?rows" and y: "y \<in> ?rows"
  then obtain b1 b2 where "gget table (brID x) = Some b1" "x = blob_record b1" "gget table (brID y) = Some b2" "y = blob_record b2"
    by blast
  then have same: "brID x = brID y \<Longrightarrow> x = y" by simp
  then show "blob_less x y \<or> blob_less y x \<or> x = y"
    unfolding blob_less_def pair_less_def fst_conv snd_conv by (metis linorder_neqE)
  show "after_cursor x (cursor_of y) = blob_less y x"
    using y by (simp only: mem_Collect_eq after_cursor_def cursor_of_def blob_less_def BlobCursor.select_convs simp_thms)
  show "after_cursor x c" if "after_cursor y c" "blob_less y x" for c
    using that unfolding after_cursor_def blob_less_def pair_less_def by auto
qed

lemma available_blobs_rows:
  "set (available_blobs table) \<subseteq> {b. brTenantID b \<noteq> [] \<and> (\<exists>x. gget table (brID b) = Some x \<and> b = blob_record x)}"
  by (auto simp: available_blobs_def blob_record_def set_gentries ValidID_nonempty)

lemma distinct_available_blobs: "distinct (available_blobs table)"
proof -
  let ?rows = "filter (\<lambda>(k, b). k = bID b \<and> ValidID (bTenantID b) \<and> bStatus b = BlobAvailable) (gentries table)"
  have "distinct (map fst ?rows)" by (metis (no_types, lifting) distinct_gentries distinct_map_filter)
  moreover have "map fst ?rows = map brID (available_blobs table)"
    by (auto simp: available_blobs_def blob_record_def)
  ultimately show ?thesis by (metis distinct_map)
qed

definition catalog_rows :: "(string, Blob) gomap \<Rightarrow> BlobRecord list" where
  "catalog_rows table = sort_slice blob_less (available_blobs table)"

interpretation pg: blob_catalog "Postgres_ListAvailableBlobs table" "catalog_rows table" for table
proof unfold_locales
  let ?all = "available_blobs table"
  show "sorted_wrt blob_less (catalog_rows table)"
    unfolding catalog_rows_def by (rule blob_pages.strict_sort_slice [OF available_blobs_rows distinct_available_blobs])
  fix seen rest :: "BlobRecord list" and limit :: int
  assume rows: "catalog_rows table = seen @ rest"
  show "Postgres_ListAvailableBlobs table (if seen = [] then start_cursor else cursor_of (last seen)) limit = Inr (take (nat limit) rest)"
  proof (cases "seen = []")
    case True
    then show ?thesis using rows by (simp add: Postgres_ListAvailableBlobs_def catalog_rows_def start_cursor_def after_cursor_def)
  next
    case False
    let ?k = "length seen"
    have all: "sort_slice blob_less (filter (\<lambda>_. True) ?all) = seen @ rest" using rows by (simp add: catalog_rows_def)
    have last: "(seen @ rest) ! (?k - 1) = last seen" using False by (simp add: nth_append last_conv_nth)
    have "0 < ?k" using False by simp
    then have "sort_slice blob_less (filter (\<lambda>b. after_cursor b (cursor_of (last seen))) ?all) = drop ?k (seen @ rest)"
      using blob_pages.next_page [OF available_blobs_rows distinct_available_blobs, of ?k "\<lambda>_. True" table]
      unfolding all last by simp
    with False rows show ?thesis by (simp add: Postgres_ListAvailableBlobs_def)
  qed
qed

end
