(* ===== verification/Recovery_Properties.thy ===== *)
theory Recovery_Properties
  imports Recovery_Verifier
begin

text \<open>
  The verifier ends and its report is exact: it lists, in the order of the rows and whatever the order in which the workers looked
  the blobs up, precisely the available blobs whose object is missing or differs.
\<close>

section \<open>Reports\<close>

definition intact :: "'s StorageProvider \<Rightarrow> StorageEnv \<Rightarrow> 's \<Rightarrow> BlobRecord \<Rightarrow> bool" where
  "intact sp env s item \<longleftrightarrow>
     brBucket item = spBucket sp s \<and>
     (case fst (spStatObject sp env (brObjectKey item) s) of
        Inl _ \<Rightarrow> False
      | Inr object \<Rightarrow>
          oSize object = brSize item
          \<and> (brChecksumStatus item = ChecksumVerified \<and> cAlgorithm (brChecksum item) \<noteq> []
               \<longrightarrow> oChecksumStatus object = ChecksumVerified \<and> oChecksum object = brChecksum item)
          \<and> (brChecksumStatus item = ChecksumDeclared \<and> oChecksumStatus object = ChecksumVerified \<longrightarrow> oChecksum object = brChecksum item))"

definition finding_of :: "'s Verifier \<Rightarrow> StorageEnv \<Rightarrow> 's \<Rightarrow> BlobRecord \<Rightarrow> Finding option" where
  "finding_of v env s item = fst (verifyBlob v env item s)"

lemma finding_of_intact: "finding_of v env s item = None \<longleftrightarrow> intact (vrStorage v) env s item"
  by (auto simp: finding_of_def verifyBlob_def Let_def intact_def stat_finding_def split: prod.splits sum.splits)

lemma finding_of_Some: "finding_of v env s item = Some f \<Longrightarrow> fiTenantID f = brTenantID item \<and> fiBlobID f = brID item"
  by (auto simp: finding_of_def verifyBlob_def Let_def split: prod.splits if_splits)

lemma verify_items_quiet:
  assumes "\<And>key. snd (spStatObject (vrStorage v) env key s) = s"
  shows "verify_items v env items s = (List.map_filter (finding_of v env s) items, s)"
proof (induction items)
  case (Cons item items)
  have "snd (verifyBlob v env item s) = s"
    using assms by (auto simp: verifyBlob_def Let_def split: prod.splits) (metis snd_conv)
  then have "verifyBlob v env item s = (finding_of v env s item, s)" by (simp add: finding_of_def prod_eq_iff)
  with Cons show ?case by (simp add: map_filter_simps split: option.splits)
qed (simp add: map_filter_simps)

lemma mset_map_filter: "mset xs = mset ys \<Longrightarrow> mset (List.map_filter f xs) = mset (List.map_filter f ys)"
  by (simp add: map_filter_def mset_filter image_mset_filter_mset_swap)

lemma sorted_findings: "sorted_wrt blob_less items \<Longrightarrow> sorted_wrt finding_less (List.map_filter (finding_of v env s) items)"
proof (induction items)
  case (Cons item items)
  have "finding_less f g" if "finding_of v env s item = Some f" "g \<in> set (List.map_filter (finding_of v env s) items)" for f g
  proof -
    from that(2) obtain b where b: "b \<in> set items" "finding_of v env s b = Some g" by (auto simp: map_filter_def)
    then have "blob_less item b" using Cons.prems by simp
    with finding_of_Some [OF that(1)] finding_of_Some [OF b(2)] show ?thesis by (simp add: finding_less_def blob_less_def pair_less_def)
  qed
  with Cons show ?case by (auto simp: map_filter_simps split: option.splits)
qed (simp add: map_filter_simps)

lemma verifyBatch_quiet:
  assumes "\<And>key. snd (spStatObject (vrStorage v) env key s) = s" "mset (vrOrder v items) = mset items" "vrCancelled v items = None"
    and "sorted_wrt blob_less items"
  shows "verifyBatch v env items s = (Inr (List.map_filter (finding_of v env s) items), s)"
  using finding_order.sort_slice_unique [OF sorted_findings [OF assms(4)] mset_map_filter [OF assms(2)]]
  by (simp add: verifyBatch_def verify_items_quiet [OF assms(1)] assms(3))

lemma add_finding_frame:
  "add_finding m f (report\<lparr>rpChecked := x, rpHealthy := y\<rparr>) = (add_finding m f report)\<lparr>rpChecked := x, rpHealthy := y\<rparr>"
  by (simp add: add_finding_def Let_def)

lemma add_findings_frame:
  "fold (add_finding m) fs (report\<lparr>rpChecked := x, rpHealthy := y\<rparr>) = (fold (add_finding m) fs report)\<lparr>rpChecked := x, rpHealthy := y\<rparr>"
  by (induction fs arbitrary: report) (simp_all add: add_finding_frame)

lemma add_findings_counters [simp]:
  "rpChecked (fold (add_finding m) fs report) = rpChecked report" "rpHealthy (fold (add_finding m) fs report) = rpHealthy report"
  by (induction fs arbitrary: report) (simp_all add: add_finding_def Let_def)

lemma add_batch_append:
  "add_batch v ys gs (add_batch v xs fs report) = add_batch v (xs @ ys) (fs @ gs) report"
  by (simp add: add_batch_def add_findings_frame algebra_simps)

lemma add_findings_list:
  "int (length (rpFindings report)) \<le> m
     \<Longrightarrow> rpFindings (fold (add_finding m) fs report) = take (nat m) (rpFindings report @ fs)
       \<and> (rpTruncated (fold (add_finding m) fs report) \<longleftrightarrow> rpTruncated report \<or> m < int (length (rpFindings report @ fs)))"
proof (induction fs arbitrary: report)
  case (Cons f fs)
  show ?case
  proof (cases "int (length (rpFindings report)) < m")
    case True
    then have "rpFindings (add_finding m f report) = rpFindings report @ [f]" "rpTruncated (add_finding m f report) = rpTruncated report"
      by (simp_all add: add_finding_def Let_def)
    with Cons.IH [of "add_finding m f report"] True show ?thesis by simp
  next
    case False
    then have "rpFindings (add_finding m f report) = rpFindings report" "rpTruncated (add_finding m f report)"
      by (simp_all add: add_finding_def Let_def)
    with Cons.IH [of "add_finding m f report"] False Cons.prems show ?thesis by simp
  qed
qed simp

lemma add_findings_counts:
  "gentries (rpCounts (fold (add_finding m) fs report)) = [] \<longleftrightarrow> gentries (rpCounts report) = [] \<and> fs = []"
proof (induction fs arbitrary: report)
  case (Cons f fs)
  have "gget (rpCounts (add_finding m f report)) (fiCode f) \<noteq> None" by (simp add: add_finding_def Let_def)
  then have "gentries (rpCounts (add_finding m f report)) \<noteq> []" by (metis in_gentries list.distinct(1) list.set_cases not_None_eq)
  with Cons show ?case by simp
qed simp

context blob_catalog
begin

lemma verify_loop_exact:
  assumes catalog: "caListAvailableBlobs (vrCatalog v) = list_blobs" and batch: "0 < vrBatchSize v"
    and quiet: "\<And>key. snd (spStatObject (vrStorage v) env key s) = s"
    and order: "\<And>items. mset (vrOrder v items) = mset items" and cancelled: "\<And>items. vrCancelled v items = None"
  shows "rows = seen @ rest \<Longrightarrow> verify_loop v env (if seen = [] then start_cursor else cursor_of (last seen)) report s
    = Some (Inr (add_batch v rest (List.map_filter (finding_of v env s) rest) report), s)"
proof (induction "length rest" arbitrary: seen rest report rule: less_induct)
  case less
  let ?found = "List.map_filter (finding_of v env s)"
  let ?n = "nat (vrBatchSize v)" and ?cursor = "if seen = [] then start_cursor else cursor_of (last seen)"
  let ?items = "take ?n rest"
  have items: "caListAvailableBlobs (vrCatalog v) ?cursor (vrBatchSize v) = Inr ?items"
    unfolding catalog by (rule page [OF less.prems batch])
  have "sorted_wrt blob_less ?items" using rows_sorted less.prems by (simp add: sorted_wrt_append sorted_wrt_take)
  then have found: "verifyBatch v env ?items s = (Inr (?found ?items), s)"
    by (rule verifyBatch_quiet [OF quiet order cancelled])
  show ?case
  proof (cases "length rest < ?n")
    case True
    then show ?thesis using found
      by (subst verify_loop.simps) (auto simp: items Let_def add_batch_def map_filter_simps)
  next
    case False
    then have nonempty: "?items \<noteq> []" "length ?items = ?n" using batch by auto
    have shorter: "length (drop ?n rest) < length rest" using False batch by auto
    have "verify_loop v env (cursor_of (last (seen @ ?items))) (add_batch v ?items (?found ?items) report) s
        = Some (Inr (add_batch v (drop ?n rest) (?found (drop ?n rest)) (add_batch v ?items (?found ?items) report)), s)"
      using less.hyps [OF shorter, of "seen @ ?items"] less.prems nonempty by simp
    moreover have "?found ?items @ ?found (drop ?n rest) = ?found rest"
      by (metis append_take_drop_id map_filter_def filter_append map_append)
    ultimately have "verify_loop v env (cursor_of (last ?items)) (add_batch v ?items (?found ?items) report) s
        = Some (Inr (add_batch v rest (?found rest) report), s)"
      using nonempty by (simp add: add_batch_append)
    then show ?thesis using found nonempty batch
      by (subst verify_loop.simps) (simp add: items Let_def)
  qed
qed

end

lemma found_keys:
  "map (\<lambda>f. (fiTenantID f, fiBlobID f)) (List.map_filter (finding_of v env s) xs)
     = map (\<lambda>b. (brTenantID b, brID b)) (filter (\<lambda>b. \<not> intact (vrStorage v) env s b) xs)"
proof (induction xs)
  case (Cons x xs)
  then show ?case using finding_of_intact [of v env s x] finding_of_Some [of v env s x]
    by (cases "finding_of v env s x") (simp_all add: map_filter_simps)
qed (simp add: map_filter_simps)

lemma length_found:
  "length (List.map_filter (finding_of v env s) xs) = length (filter (\<lambda>b. \<not> intact (vrStorage v) env s b) xs)"
  using arg_cong [OF found_keys, of length v env s xs] by simp

lemma report_exact:
  fixes v :: "'s Verifier" and env :: StorageEnv and s :: 's
  defines "ok \<equiv> intact (vrStorage v) env s"
  assumes "rpFindings report0 = []" "\<not> rpTruncated report0" "gentries (rpCounts report0) = []" "rpChecked report0 = 0" "rpHealthy report0 = 0"
    and "0 < vrMaxFindings v" and report: "report = add_batch v rows (List.map_filter (finding_of v env s) rows) report0"
  shows "rpChecked report = int (length rows)" "rpHealthy report = int (length (filter ok rows))"
    "gentries (rpCounts report) = [] \<longleftrightarrow> list_all ok rows"
    "map (\<lambda>f. (fiTenantID f, fiBlobID f)) (rpFindings report)
       = take (nat (vrMaxFindings v)) (map (\<lambda>b. (brTenantID b, brID b)) (filter (\<lambda>b. \<not> ok b) rows))"
    "rpTruncated report \<longleftrightarrow> vrMaxFindings v < int (length (filter (\<lambda>b. \<not> ok b) rows))"
proof -
  let ?found = "List.map_filter (finding_of v env s) rows" and ?m = "vrMaxFindings v"
  have len: "length ?found = length (filter (\<lambda>b. \<not> ok b) rows)" unfolding ok_def by (rule length_found)
  have r: "report = (fold (add_finding ?m) ?found report0)\<lparr>rpChecked := int (length rows), rpHealthy := int (length rows) - int (length ?found)\<rparr>"
    using assms(5,6) by (simp add: report add_batch_def add_findings_frame)
  have list: "rpFindings (fold (add_finding ?m) ?found report0) = take (nat ?m) ?found"
    "rpTruncated (fold (add_finding ?m) ?found report0) \<longleftrightarrow> ?m < int (length ?found)"
    using add_findings_list [of report0 ?m ?found] assms(2,3,7) by simp_all
  show "rpChecked report = int (length rows)" by (simp add: r)
  show "rpHealthy report = int (length (filter ok rows))"
    using sum_length_filter_compl [of ok rows] by (simp add: r len)
  have "?found = [] \<longleftrightarrow> filter (\<lambda>b. \<not> ok b) rows = []" using len by (metis length_0_conv)
  then show "gentries (rpCounts report) = [] \<longleftrightarrow> list_all ok rows"
    using assms(4) by (simp add: r add_findings_counts filter_empty_conv list_all_iff)
  show "map (\<lambda>f. (fiTenantID f, fiBlobID f)) (rpFindings report)
      = take (nat ?m) (map (\<lambda>b. (brTenantID b, brID b)) (filter (\<lambda>b. \<not> ok b) rows))"
    unfolding ok_def found_keys [symmetric] using list(1) by (simp add: r take_map)
  show "rpTruncated report \<longleftrightarrow> ?m < int (length (filter (\<lambda>b. \<not> ok b) rows))" using list(2) len by (simp add: r)
qed

text \<open>
  Property C8. A verification run over the \<^verbatim>\<open>blob\<close> table ends and reports exactly what is wrong. It checks every available blob once;
  the healthy ones are those whose object is in the right bucket with the recorded size and, when the record's or the
  object's checksum was verified, the recorded checksum. The findings name the others in the order of the rows, up to
  the limit, with a mark when the limit cut them; and the run is verified only when there is none. The order in which the
  workers look blobs up makes no difference.
\<close>

theorem verifier_exact:
  assumes catalog: "vrCatalog v = postgres_catalog versions table" and limits: "0 < vrBatchSize v" "0 < vrMaxFindings v"
    and quiet: "\<And>key. snd (spStatObject (vrStorage v) env key s) = s"
    and order: "\<And>items. mset (vrOrder v items) = mset items" and running: "\<And>items. vrCancelled v items = None"
  shows "\<exists>report. Verifier_Verify v env started finished s = Some (Inr report, s)
     \<and> rpChecked report = int (length (available_blobs table))
     \<and> rpHealthy report = int (length (filter (intact (vrStorage v) env s) (available_blobs table)))
     \<and> (rpVerified report \<longleftrightarrow> list_all (intact (vrStorage v) env s) (available_blobs table))
     \<and> (let damaged = filter (\<lambda>b. \<not> intact (vrStorage v) env s b) (sort_slice blob_less (available_blobs table))
        in map (\<lambda>f. (fiTenantID f, fiBlobID f)) (rpFindings report) = take (nat (vrMaxFindings v)) (map (\<lambda>b. (brTenantID b, brID b)) damaged)
           \<and> (rpTruncated report \<longleftrightarrow> vrMaxFindings v < int (length damaged)))"
proof -
  let ?rows = "catalog_rows table" and ?ok = "intact (vrStorage v) env s"
  define report0 where "report0 = (empty_report started)\<lparr>rpSchemaVersion := case versions of [] \<Rightarrow> 0 | _ \<Rightarrow> Max (set versions)\<rparr>"
  define report where "report = add_batch v ?rows (List.map_filter (finding_of v env s) ?rows) report0"
  have "caListAvailableBlobs (vrCatalog v) = Postgres_ListAvailableBlobs table" by (simp add: catalog postgres_catalog_def)
  from pg.verify_loop_exact [OF this limits(1) quiet order running, of "[]" ?rows report0]
  have loop: "verify_loop v env start_cursor report0 s = Some (Inr report, s)" by (simp add: report_def)
  have "mset ?rows = mset (available_blobs table)" by (simp add: catalog_rows_def)
  then have rows: "length ?rows = length (available_blobs table)" "length (filter ?ok ?rows) = length (filter ?ok (available_blobs table))"
    "list_all ?ok ?rows = list_all ?ok (available_blobs table)"
    by (metis size_mset, metis mset_filter size_mset, metis list_all_iff set_mset_mset)
  have "rpFindings report0 = []" "\<not> rpTruncated report0" "gentries (rpCounts report0) = []" "rpChecked report0 = 0" "rpHealthy report0 = 0"
    by (simp_all add: report0_def empty_report_def gempty_def)
  note exact = report_exact [OF this limits(2) report_def, unfolded rows]
  let ?final = "report\<lparr>rpFinishedAt := finished, rpVerified := gentries (rpCounts report) = []\<rparr>"
  have "Verifier_Verify v env started finished s = Some (Inr ?final, s)"
    using loop by (simp add: Verifier_Verify_def catalog postgres_catalog_def Postgres_SchemaVersion_def report0_def)
  then show ?thesis unfolding catalog_rows_def [symmetric] Let_def
    by (intro exI [of _ ?final]) (simp add: exact)
qed

definition sample_row :: "string \<Rightarrow> int64 \<Rightarrow> Blob" where
  "sample_row key n = zero_Blob\<lparr>bID := key, bTenantID := ''00000000-0000-4000-8000-000000000001'', bBucket := ''b'', bObjectKey := key, bSize := n,
     bStatus := BlobAvailable\<rparr>"

definition sample_stored :: Storage where
  "sample_stored = (NewStorage ''b'')\<lparr>stObjects := [(''k1'', \<lparr>soData = ''abc'', soInfo = \<lparr>oBucket = ''b'', oObjectKey = ''k1'', oSize = 3,
     oETag = [], oChecksum = zero_Checksum, oChecksumStatus = ChecksumUnavailable\<rparr>\<rparr>)]\<rparr>"

definition sample_blobs :: "(string, Blob) gomap" where
  "sample_blobs = [(''k1'', sample_row ''k1'' 3), (''k2'', sample_row ''k2'' 3)]"

definition sample_verifier :: "Storage Verifier" where
  "sample_verifier = \<lparr>vrCatalog = postgres_catalog [1, 2] sample_blobs, vrStorage = memory_provider sample_lib0, vrBatchSize = 1, vrConcurrency = 4,
     vrMaxFindings = 10, vrOrder = rev, vrCancelled = (\<lambda>_. None)\<rparr>"

theorem verifier_exact_witness:
  "\<exists>report. Verifier_Verify sample_verifier \<lparr>seRand = Inr [], seNow = 0\<rparr> 1 2 sample_stored = Some (Inr report, sample_stored)
     \<and> rpChecked report = 2 \<and> rpHealthy report = 1 \<and> rpVerified report = False
     \<and> map fiBlobID (rpFindings report) = [''k2''] \<and> rpTruncated report = False"
proof -
  let ?env = "\<lparr>seRand = Inr [], seNow = 0\<rparr>" and ?tenant = "''00000000-0000-4000-8000-000000000001''"
  have quiet: "snd (spStatObject (vrStorage sample_verifier) ?env key sample_stored) = sample_stored" for key
    by (simp add: sample_verifier_def memory_provider_def)
  have rows: "sort_slice blob_less (available_blobs sample_blobs) = map (\<lambda>k. blob_record (sample_row k 3)) [''k1'', ''k2'']"
    "length (available_blobs sample_blobs) = 2" "set (available_blobs sample_blobs) = blob_record ` (\<lambda>k. sample_row k 3) ` {''k1'', ''k2''}"
    by code_simp+
  have stat: "intact (vrStorage sample_verifier) ?env sample_stored (blob_record (sample_row ''k1'' 3))"
    "\<not> intact (vrStorage sample_verifier) ?env sample_stored (blob_record (sample_row ''k2'' 3))"
    "length (filter (intact (vrStorage sample_verifier) ?env sample_stored) (available_blobs sample_blobs)) = 1"
    by code_simp+
  have v: "vrCatalog sample_verifier = postgres_catalog [1, 2] sample_blobs" "0 < vrBatchSize sample_verifier" "vrMaxFindings sample_verifier = 10"
    "mset (vrOrder sample_verifier items) = mset items" "vrCancelled sample_verifier items = None" for items
    by (simp_all add: sample_verifier_def)
  have damaged: "filter (\<lambda>b. \<not> intact (vrStorage sample_verifier) ?env sample_stored b) (sort_slice blob_less (available_blobs sample_blobs))
      = [blob_record (sample_row ''k2'' 3)]"
    using stat(1,2) by (simp add: rows(1))
  have "\<not> list_all (intact (vrStorage sample_verifier) ?env sample_stored) (available_blobs sample_blobs)"
    using stat(2) unfolding list_all_iff rows(3) by blast
  with verifier_exact [OF v(1,2) _ quiet v(4,5), of 1 2] obtain report where
    run: "Verifier_Verify sample_verifier ?env 1 2 sample_stored = Some (Inr report, sample_stored)"
    and r: "rpChecked report = 2" "rpHealthy report = 1" "\<not> rpVerified report" "\<not> rpTruncated report"
    and keys: "map (\<lambda>f. (fiTenantID f, fiBlobID f)) (rpFindings report) = take 10 (map (\<lambda>b. (brTenantID b, brID b)) [blob_record (sample_row ''k2'' 3)])"
    unfolding v(3) damaged Let_def rows(2) stat(3) by auto
  from keys have "map fiBlobID (rpFindings report) = [''k2'']" by (auto simp: blob_record_def sample_row_def)
  with run r show ?thesis by auto
qed

end
