(* ===== verification/Server_Config.thy ===== *)
theory Server_Config
  imports Auth_Oidc
begin

text \<open>
  \<^verbatim>\<open>internal/config/config.go\<close>: the server's configuration, read from environment variables and from the files they
  name, and its validation. The environment is a function of the variable's name, a file the answer of \<^verbatim>\<open>os.ReadFile\<close>. \<^verbatim>\<open>url.Parse\<close>
  and the floating point of a fractional duration are parameters (\<open>ConfigLib\<close>). The code walks two maps whose order Go
  leaves open; the order decides only which of several errors is reported, and the model takes the order of the source.
\<close>

section \<open>Library\<close>

record ConfigLib =
  cl_url_Parse :: "string \<Rightarrow> Url option"
  cl_url_String :: "string \<Rightarrow> string"  \<comment> \<open>\<^verbatim>\<open>String()\<close> of the parsed URL\<close>
  cl_url_Query :: "string \<Rightarrow> string \<Rightarrow> string list"  \<comment> \<open>the values of a query parameter\<close>
  cl_fraction :: "int \<Rightarrow> int \<Rightarrow> int \<Rightarrow> int"  \<comment> \<open>\<^verbatim>\<open>uint64(float64(f) * (float64(unit) / scale))\<close>\<close>

record Source =
  lookup_env :: "string \<Rightarrow> string option"
  read_file :: "string \<Rightarrow> string result"

definition try_result :: "'a result \<Rightarrow> ('a \<Rightarrow> 'b result) \<Rightarrow> 'b result" where
  "try_result r f = (case r of Inl e \<Rightarrow> Inl e | Inr x \<Rightarrow> f x)"

definition require :: "bool \<Rightarrow> string \<Rightarrow> 'b result \<Rightarrow> 'b result" where
  "require ok message rest = (if ok then rest else other message None)"

text \<open>\<^verbatim>\<open>strconv.ParseBool\<close>.\<close>

definition parseBool :: "string \<Rightarrow> bool result" where
  "parseBool s =
     (if s \<in> set [''1'', ''t'', ''T'', ''TRUE'', ''true'', ''True''] then Inr True
      else if s \<in> set [''0'', ''f'', ''F'', ''FALSE'', ''false'', ''False''] then Inr False
      else other ''strconv.ParseBool: invalid syntax'' None)"

definition parseInt64 :: "string \<Rightarrow> int64 result" where
  "parseInt64 s = (case strconv_ParseInt s of None \<Rightarrow> other ''strconv.ParseInt: invalid syntax'' None | Some n \<Rightarrow> Inr n)"

text \<open>
  \<^verbatim>\<open>time.ParseDuration\<close>: a sign, then terms of a decimal number and a unit. \<open>leading_fraction\<close> drops digits that
  no longer fit.
\<close>

definition time_unit :: "string \<Rightarrow> int option" where
  "time_unit u = map_of
     [(''ns'', 1), (''us'', 1000), ([CHR 0xC2, CHR 0xB5] @ ''s'', 1000), ([CHR 0xCE, CHR 0xBC] @ ''s'', 1000), (''ms'', 1000000),
      (''s'', 1000000000), (''m'', 60000000000), (''h'', 3600000000000)] u"

definition leading_int :: "string \<Rightarrow> int option" where
  "leading_int digits =
     fold (\<lambda>c x. (case x of
        None \<Rightarrow> None
      | Some n \<Rightarrow> if n > 2 ^ 63 div 10 then None
                  else let m = 10 * n + int (byte c - 48) in if m > 2 ^ 63 then None else Some m)) digits (Some 0)"

definition leading_fraction :: "string \<Rightarrow> int \<times> int" where
  "leading_fraction digits =
     (case fold (\<lambda>c (n, scale, overflow).
        if overflow \<or> n > (2 ^ 63 - 1) div 10 then (n, scale, True)
        else let m = 10 * n + int (byte c - 48) in if m > 2 ^ 63 then (n, scale, True) else (m, 10 * scale, False)) digits (0, 1, False) of
      (n, scale, _) \<Rightarrow> (n, scale))"

definition duration_term :: "ConfigLib \<Rightarrow> string \<Rightarrow> (int \<times> string) option" where
  "duration_term cl s =
     (let whole = takeWhile is_digit s; s1 = dropWhile is_digit s;
          point = s1 \<noteq> [] \<and> hd s1 = CHR ''.'';
          digits = (if point then takeWhile is_digit (tl s1) else []);
          s2 = (if point then dropWhile is_digit (tl s1) else s1);
          u = takeWhile (\<lambda>c. c \<noteq> CHR ''.'' \<and> \<not> is_digit c) s2;
          rest = dropWhile (\<lambda>c. c \<noteq> CHR ''.'' \<and> \<not> is_digit c) s2
      in if whole = [] \<and> digits = [] \<or> u = [] then None
         else (case (leading_int whole, time_unit u) of
                 (Some v, Some unit) \<Rightarrow>
                   if v > 2 ^ 63 div unit then None
                   else let (f, scale) = leading_fraction digits;
                            v1 = (if f > 0 then v * unit + cl_fraction cl f unit scale else v * unit)
                        in if v1 > 2 ^ 63 then None else Some (v1, rest)
               | _ \<Rightarrow> None))"

lemma duration_term_shorter: "duration_term cl s = Some (v, rest) \<Longrightarrow> length rest < length s"
proof -
  have drop_le: "length (dropWhile P xs) \<le> length xs" for P and xs :: string by (rule length_dropWhile_le)
  have drop_lt: "takeWhile P xs \<noteq> [] \<Longrightarrow> length (dropWhile P xs) < length xs" for P and xs :: string
    by (metis add_diff_cancel_right' append_Nil length_append length_greater_0_conv less_add_same_cancel2 takeWhile_dropWhile_id)
  assume run: "duration_term cl s = Some (v, rest)"
  define s1 where "s1 = dropWhile is_digit s"
  define s2 where "s2 = (if s1 \<noteq> [] \<and> hd s1 = CHR ''.'' then dropWhile is_digit (tl s1) else s1)"
  let ?P = "\<lambda>c. c \<noteq> CHR ''.'' \<and> \<not> is_digit c"
  have "rest = dropWhile ?P s2" "takeWhile ?P s2 \<noteq> []"
    using run by (auto simp: duration_term_def Let_def s1_def s2_def split: if_splits option.splits prod.splits)
  then have "length rest < length s2" using drop_lt by simp
  also have "length s2 \<le> length s1" using drop_le [of is_digit "tl s1"] by (auto simp: s2_def)
  also have "length s1 \<le> length s" unfolding s1_def by (rule drop_le)
  finally show ?thesis .
qed

function duration_sum :: "ConfigLib \<Rightarrow> int \<Rightarrow> string \<Rightarrow> int option" where
  "duration_sum cl d s =
     (if s = [] then Some d
      else (case duration_term cl s of
              None \<Rightarrow> None
            | Some (v, rest) \<Rightarrow>
                let d1 = (d + v) mod 2 ^ 64
                in if d1 > 2 ^ 63 then None else duration_sum cl d1 rest))"
  by pat_completeness auto
termination
  by (relation "measure (\<lambda>(cl, d, s). length s)") (auto dest: duration_term_shorter)

definition time_ParseDuration :: "ConfigLib \<Rightarrow> string \<Rightarrow> duration result" where
  "time_ParseDuration cl s =
     (let signed = s \<noteq> [] \<and> (hd s = CHR ''-'' \<or> hd s = CHR ''+''); negative = signed \<and> hd s = CHR ''-'';
          body = (if signed then tl s else s)
      in if body = ''0'' then Inr 0
         else if body = [] then other ''time: invalid duration'' None
         else (case duration_sum cl 0 body of
                 None \<Rightarrow> other ''time: invalid duration'' None
               | Some d \<Rightarrow> if negative then Inr (- d)
                           else if d > 2 ^ 63 - 1 then other ''time: invalid duration'' None else Inr d))"

text \<open>\<^verbatim>\<open>net.SplitHostPort\<close>, as far as the port and the error are concerned.\<close>

definition split_port :: "string \<Rightarrow> string option" where
  "split_port hostport =
     (if CHR '':'' \<notin> set hostport then None
      else
        let port = rev (takeWhile (\<lambda>c. c \<noteq> CHR '':'') (rev hostport));
            i = length hostport - length port - 1
        in if hd hostport = CHR ''[''
           then (if CHR '']'' \<notin> set hostport then None
                 else let end_host = length (takeWhile (\<lambda>c. c \<noteq> CHR '']'') hostport)
                      in if end_host + 1 \<noteq> i then None
                         else if CHR ''['' \<in> set (drop 1 hostport) \<or> CHR '']'' \<in> set (drop (end_host + 1) hostport) then None
                         else Some port)
           else if CHR '':'' \<in> set (take i hostport) then None
           else if CHR ''['' \<in> set hostport \<or> CHR '']'' \<in> set hostport then None
           else Some port)"

section \<open>The configuration\<close>

record Token =
  tkTenantID :: string
  tkPrincipalID :: string
  tkTenantName :: string

record OIDCBootstrap =
  obIssuer :: string
  obSubject :: string
  obPrincipalID :: string
  obTenantID :: string
  obTenantName :: string
  obDisplayName :: string
  obRole :: string

record Config =
  cfEnvironment :: string
  cfAddress :: string
  cfMetricsAddress :: string
  cfAuthMode :: string
  cfTokens :: "(string, Token) gomap"
  cfOIDCIssuer :: string
  cfOIDCClientID :: string
  cfOIDCBootstrap :: "OIDCBootstrap list"
  cfCursorKey :: string
  cfMetadataDriver :: string
  cfDatabaseURL :: string
  cfDatabaseURLFromFile :: bool
  cfAutoMigrate :: bool
  cfStorageDriver :: string
  cfS3Endpoint :: string
  cfS3PublicEndpoint :: string
  cfS3Region :: string
  cfS3Bucket :: string
  cfS3AccessKey :: string
  cfS3AccessKeyFromFile :: bool
  cfS3SecretKey :: string
  cfS3SecretKeyFromFile :: bool
  cfS3PathStyle :: bool
  cfS3AutoCreate :: bool
  cfS3ChecksumHeaders :: bool
  cfS3TrustPartChecksums :: bool
  cfMaxFileSize :: int64
  cfPartSize :: int64
  cfUploadTTL :: duration
  cfUploadSignTTL :: duration
  cfDownloadSignTTL :: duration
  cfMaintenanceEnabled :: bool
  cfMaintenanceInterval :: duration
  cfMaintenanceLease :: duration
  cfMaintenanceStaleAfter :: duration
  cfRecycleRetention :: duration
  cfMaintenanceBatchSize :: int
  cfReadHeaderTimeout :: duration
  cfReadTimeout :: duration
  cfWriteTimeout :: duration
  cfIdleTimeout :: duration
  cfCursorKeyFromFile :: bool

section \<open>Parsing\<close>

definition validAccessRole :: "string \<Rightarrow> bool" where
  "validAccessRole role \<longleftrightarrow> role \<in> set [''owner'', ''admin'', ''editor'', ''viewer'']"

text \<open>
  The code compares the runes of the lower-case value; a byte outside ASCII starts a rune that no lower-case
  mapping turns into a hexadecimal digit, so looking at the bytes decides the same.
\<close>

definition validUUID :: "string \<Rightarrow> bool" where
  "validUUID value \<longleftrightarrow>
     length value = 36 \<and> value ! 8 = CHR ''-'' \<and> value ! 13 = CHR ''-'' \<and> value ! 18 = CHR ''-'' \<and> value ! 23 = CHR ''-''
     \<and> list_all (\<lambda>i. i \<in> {8, 13, 18, 23} \<or> ascii_lower (value ! i) \<in> set ''0123456789abcdef'') [0..<36]"

definition token_fields :: "Token json_field list" where
  "token_fields =
     [(''tenant_id'', string_field (\<lambda>s x. x\<lparr>tkTenantID := s\<rparr>)), (''principal_id'', string_field (\<lambda>s x. x\<lparr>tkPrincipalID := s\<rparr>)),
      (''tenant_name'', string_field (\<lambda>s x. x\<lparr>tkTenantName := s\<rparr>))]"

fun decode_token_map :: "(string \<times> json) list \<Rightarrow> (string, Token) gomap \<Rightarrow> (string, Token) gomap option" where
  "decode_token_map [] m = Some m"
| "decode_token_map ((k, v) # kvs) m =
     (case decode_struct False token_fields v \<lparr>tkTenantID = [], tkPrincipalID = [], tkTenantName = []\<rparr> of
        None \<Rightarrow> None
      | Some token \<Rightarrow> decode_token_map kvs (gput (unquote k) token m))"

fun decode_tokens :: "json \<Rightarrow> (string, Token) gomap option" where
  "decode_tokens JNull = Some gempty"
| "decode_tokens (JObj kvs) = decode_token_map kvs gempty"
| "decode_tokens _ = None"

definition valid_token :: "string \<times> Token \<Rightarrow> bool" where
  "valid_token entry \<longleftrightarrow> (case entry of (secret, token) \<Rightarrow> 32 \<le> length secret \<and> validUUID (tkTenantID token) \<and> validUUID (tkPrincipalID token))"

definition named_token :: "Token \<Rightarrow> Token" where
  "named_token token = (if tkTenantName token = [] then token\<lparr>tkTenantName := ''Asteria tenant''\<rparr> else token)"

definition parseTokens :: "string \<Rightarrow> (string, Token) gomap result" where
  "parseTokens s =
     (if s = [] then Inr gempty
      else (case decode_one decode_tokens s of
              None \<Rightarrow> other ''ASTERIA_TRUSTED_TOKENS_JSON must be a JSON object'' None
            | Some tokens \<Rightarrow>
                if \<not> list_all valid_token (gentries tokens)
                then other ''trusted token entries require a 32-byte token and UUID tenant/principal ids'' None
                else Inr (map (\<lambda>(secret, token). (secret, named_token token)) (gentries tokens))))"

definition bootstrap_fields :: "OIDCBootstrap json_field list" where
  "bootstrap_fields =
     [(''issuer'', string_field (\<lambda>s x. x\<lparr>obIssuer := s\<rparr>)), (''subject'', string_field (\<lambda>s x. x\<lparr>obSubject := s\<rparr>)),
      (''principal_id'', string_field (\<lambda>s x. x\<lparr>obPrincipalID := s\<rparr>)), (''tenant_id'', string_field (\<lambda>s x. x\<lparr>obTenantID := s\<rparr>)),
      (''tenant_name'', string_field (\<lambda>s x. x\<lparr>obTenantName := s\<rparr>)), (''display_name'', string_field (\<lambda>s x. x\<lparr>obDisplayName := s\<rparr>)),
      (''role'', string_field (\<lambda>s x. x\<lparr>obRole := s\<rparr>))]"

definition zero_bootstrap :: OIDCBootstrap where
  "zero_bootstrap = \<lparr>obIssuer = [], obSubject = [], obPrincipalID = [], obTenantID = [], obTenantName = [], obDisplayName = [], obRole = []\<rparr>"

fun decode_bootstrap :: "json \<Rightarrow> OIDCBootstrap list option" where
  "decode_bootstrap JNull = Some []"
| "decode_bootstrap (JArr vs) = decode_all (\<lambda>v. decode_struct False bootstrap_fields v zero_bootstrap) vs"
| "decode_bootstrap _ = None"

definition valid_bootstrap :: "OIDCBootstrap \<Rightarrow> bool" where
  "valid_bootstrap m \<longleftrightarrow> obIssuer m \<noteq> [] \<and> obSubject m \<noteq> [] \<and> validUUID (obPrincipalID m) \<and> validUUID (obTenantID m) \<and> validAccessRole (obRole m)"

definition named_bootstrap :: "OIDCBootstrap \<Rightarrow> OIDCBootstrap" where
  "named_bootstrap m =
     (let m1 = (if obTenantName m = [] then m\<lparr>obTenantName := ''Asteria tenant''\<rparr> else m)
      in if obDisplayName m = [] then m1\<lparr>obDisplayName := obSubject m\<rparr> else m1)"

definition parseOIDCBootstrap :: "string \<Rightarrow> OIDCBootstrap list result" where
  "parseOIDCBootstrap s =
     (if s = [] then Inr []
      else (case decode_one decode_bootstrap s of
              None \<Rightarrow> other ''ASTERIA_OIDC_BOOTSTRAP_JSON must be a JSON array'' None
            | Some boot \<Rightarrow>
                if \<not> list_all valid_bootstrap boot
                then other ''OIDC bootstrap members require issuer, subject, UUID ids and a valid role'' None
                else Inr (map named_bootstrap boot)))"

definition trim_suffix :: "char \<Rightarrow> string \<Rightarrow> string" where
  "trim_suffix c s = (if s \<noteq> [] \<and> last s = c then butlast s else s)"

text \<open>A variable, or the file that the variable with \<^verbatim>\<open>_FILE\<close> behind its name points to; the second component says which.\<close>

definition sourcedValue :: "Source \<Rightarrow> string \<Rightarrow> string \<Rightarrow> nat \<Rightarrow> (string \<times> bool) result" where
  "sourcedValue src key fallback maxBytes =
     (let inline = (case lookup_env src key of None \<Rightarrow> [] | Some v \<Rightarrow> v);
          path = (case lookup_env src (key @ ''_FILE'') of None \<Rightarrow> [] | Some v \<Rightarrow> v)
      in if inline \<noteq> [] \<and> path \<noteq> [] then other (key @ '' and '' @ key @ ''_FILE are mutually exclusive'') None
         else if path = [] then Inr (if inline \<noteq> [] then inline else fallback, False)
         else (case read_file src path of
                 Inl err \<Rightarrow> other (''read '' @ key @ ''_FILE'') (Some err)
               | Inr contents \<Rightarrow>
                   if contents = [] \<or> length contents > maxBytes
                   then other (key @ ''_FILE must contain between 1 and '' @ show_int (int maxBytes) @ '' bytes'') None
                   else let v = trim_suffix CHR 0x0D (trim_suffix CHR 0x0A contents)
                        in if v = [] \<or> CHR 0x00 \<in> set v then other (key @ ''_FILE contains an invalid value'') None
                           else Inr (v, True)))"

section \<open>Validation\<close>

definition web_url :: "Url \<Rightarrow> bool" where
  "web_url u \<longleftrightarrow> urlHost u \<noteq> [] \<and> http_scheme (urlScheme u) \<and> \<not> urlUser u \<and> urlRawQuery u = [] \<and> urlFragment u = []"

definition parseIssuerURL :: "ConfigLib \<Rightarrow> string \<Rightarrow> Url result" where
  "parseIssuerURL cl s =
     (case cl_url_Parse cl s of
        None \<Rightarrow> other ''ASTERIA_OIDC_ISSUER must be an HTTP(S) URL without credentials, query, or fragment'' None
      | Some u \<Rightarrow>
          if web_url u then Inr u
          else other ''ASTERIA_OIDC_ISSUER must be an HTTP(S) URL without credentials, query, or fragment'' None)"

definition validateS3Endpoint :: "ConfigLib \<Rightarrow> string \<Rightarrow> string \<Rightarrow> bool \<Rightarrow> unit result" where
  "validateS3Endpoint cl name s production =
     (case cl_url_Parse cl s of
        None \<Rightarrow> other (name @ '' must be an HTTP(S) URL without credentials, query, or fragment'') None
      | Some u \<Rightarrow>
          if \<not> web_url u then other (name @ '' must be an HTTP(S) URL without credentials, query, or fragment'') None
          else if production \<and> urlScheme u \<noteq> ''https'' then other (''production '' @ name @ '' must use HTTPS'') None
          else Inr ())"

definition validateDatabaseURL :: "ConfigLib \<Rightarrow> string \<Rightarrow> bool \<Rightarrow> bool \<Rightarrow> unit result" where
  "validateDatabaseURL cl s production fromFile =
     (case cl_url_Parse cl s of
        None \<Rightarrow> other ''ASTERIA_DATABASE_URL must be a PostgreSQL URL'' None
      | Some u \<Rightarrow>
          if urlScheme u \<noteq> ''postgres'' \<and> urlScheme u \<noteq> ''postgresql'' \<or> urlHost u = []
          then other ''ASTERIA_DATABASE_URL must be a PostgreSQL URL'' None
          else if \<not> production then Inr ()
          else if \<not> fromFile then other ''production database URL must use ASTERIA_DATABASE_URL_FILE'' None
          else if cl_url_Query cl s ''sslmode'' \<noteq> [''verify-full''] then other ''production PostgreSQL requires sslmode=verify-full'' None
          else Inr ())"

definition external_key :: "OIDCBootstrap \<Rightarrow> string" where
  "external_key m = obIssuer m @ [CHR 0x00] @ obSubject m"

fun check_bootstrap :: "ConfigLib \<Rightarrow> string \<Rightarrow> string list \<Rightarrow> (string, string) gomap \<Rightarrow> OIDCBootstrap list \<Rightarrow> unit result" where
  "check_bootstrap cl issuer seenMembership seenPrincipal [] = Inr ()"
| "check_bootstrap cl issuer seenMembership seenPrincipal (m # ms) =
     (case parseIssuerURL cl (obIssuer m) of
        Inl err \<Rightarrow> other ''OIDC bootstrap issuer is invalid'' (Some err)
      | Inr _ \<Rightarrow>
          let membership = obTenantID m @ [CHR 0x00] @ external_key m
          in if cl_url_String cl (obIssuer m) \<noteq> cl_url_String cl issuer then other ''OIDC bootstrap issuer must match ASTERIA_OIDC_ISSUER'' None
             else if membership \<in> set seenMembership then other ''OIDC bootstrap contains duplicate tenant membership'' None
             else if (case gget seenPrincipal (obPrincipalID m) of None \<Rightarrow> False | Some previous \<Rightarrow> previous \<noteq> external_key m)
             then other ''OIDC bootstrap principal id maps to multiple external identities'' None
             else check_bootstrap cl issuer (membership # seenMembership) (gput (obPrincipalID m) (external_key m) seenPrincipal) ms)"

definition validate_auth :: "ConfigLib \<Rightarrow> Config \<Rightarrow> unit result" where
  "validate_auth cl c =
     (if cfAuthMode c = ''trusted-dev''
      then require (cfEnvironment c \<noteq> ''production'') ''trusted-dev authentication is forbidden in production''
          (require (gentries (cfTokens c) \<noteq> []) ''ASTERIA_TRUSTED_TOKENS_JSON is required'' (Inr ()))
      else require (cfOIDCIssuer c \<noteq> [] \<and> cfOIDCClientID c \<noteq> [] \<and> cfOIDCBootstrap c \<noteq> [])
             ''OIDC issuer, client id and bootstrap members are required''
          (try_result (parseIssuerURL cl (cfOIDCIssuer c)) (\<lambda>parsed.
           require (cfEnvironment c \<noteq> ''production'' \<or> urlScheme parsed = ''https'') ''production OIDC issuer must use HTTPS''
          (try_result (check_bootstrap cl (cfOIDCIssuer c) [] gempty (cfOIDCBootstrap c)) (\<lambda>_.
           require (cfEnvironment c \<noteq> ''production'' \<or> cfMetadataDriver c = ''postgres'' \<and> cfStorageDriver c = ''s3'')
             ''production OIDC mode requires postgres metadata and s3 storage'' (Inr ()))))))"

definition valid_address :: "string \<Rightarrow> bool" where
  "valid_address address =
     (case split_port address of
        None \<Rightarrow> False
      | Some port \<Rightarrow> (case strconv_ParseInt port of None \<Rightarrow> False | Some n \<Rightarrow> 1 \<le> n \<and> n \<le> 65535))"

definition validate_storage :: "ConfigLib \<Rightarrow> Config \<Rightarrow> unit result" where
  "validate_storage cl c =
     (let s3 = cfStorageDriver c = ''s3''; production = cfEnvironment c = ''production''
      in require (cfStorageDriver c = ''memory'' \<or> s3) ''ASTERIA_STORAGE_DRIVER must be memory or s3''
        (require (\<not> s3 \<or> cfS3Endpoint c \<noteq> [] \<and> cfS3PublicEndpoint c \<noteq> [] \<and> cfS3Region c \<noteq> [] \<and> cfS3Bucket c \<noteq> [])
           ''S3 endpoint, public endpoint, region and bucket are required for s3''
        (require (\<not> (s3 \<and> cfS3TrustPartChecksums c \<and> \<not> cfS3ChecksumHeaders c))
           ''ASTERIA_S3_TRUST_PART_CHECKSUMS requires ASTERIA_S3_CHECKSUM_HEADERS=true''
        (try_result (if s3 then try_result (validateS3Endpoint cl ''ASTERIA_S3_ENDPOINT'' (cfS3Endpoint c) production) (\<lambda>_.
                                validateS3Endpoint cl ''ASTERIA_S3_PUBLIC_ENDPOINT'' (cfS3PublicEndpoint c) production)
                     else Inr ()) (\<lambda>_.
         require (\<not> (production \<and> s3 \<and> cfS3AccessKey c \<noteq> [] \<and> \<not> (cfS3AccessKeyFromFile c \<and> cfS3SecretKeyFromFile c)))
           ''production static S3 credentials must use *_FILE inputs'' (Inr ()))))))"

definition validate_limits :: "Config \<Rightarrow> unit result" where
  "validate_limits c =
     require (cfMaxFileSize c > 0 \<and> cfPartSize c \<ge> 5 * 1024 * 1024 \<and> cfPartSize c \<le> 5 * 1024 * 1024 * 1024)
       ''file and part size limits are invalid''
    (require (cfUploadTTL c > 0 \<and> cfUploadSignTTL c > 0 \<and> cfDownloadSignTTL c > 0
              \<and> cfUploadSignTTL c \<le> 3600 * time_Second \<and> cfDownloadSignTTL c \<le> 3600 * time_Second)
       ''session and signing TTL values are invalid''
    (require (cfMaintenanceInterval c > 0 \<and> cfMaintenanceLease c > 0 \<and> cfMaintenanceStaleAfter c > 0 \<and> cfRecycleRetention c > 0
              \<and> 1 \<le> cfMaintenanceBatchSize c \<and> cfMaintenanceBatchSize c \<le> 1000)
       ''maintenance configuration is invalid''
    (require (cfReadHeaderTimeout c > 0 \<and> cfReadTimeout c > 0 \<and> cfWriteTimeout c > 0 \<and> cfIdleTimeout c > 0)
       ''HTTP timeout values must be positive'' (Inr ()))))"

definition Config_Validate :: "ConfigLib \<Rightarrow> Config \<Rightarrow> unit result" where
  "Config_Validate cl c =
     (let production = cfEnvironment c = ''production''
      in require (cfEnvironment c = ''development'' \<or> production) ''ASTERIA_ENV must be development or production''
        (require (cfAuthMode c = ''trusted-dev'' \<or> cfAuthMode c = ''oidc'') ''ASTERIA_AUTH_MODE must be trusted-dev or oidc''
        (try_result (validate_auth cl c) (\<lambda>_.
         require (length (cfCursorKey c) \<ge> 32) ''ASTERIA_CURSOR_HMAC_KEY must contain at least 32 bytes''
        (require (valid_address (cfAddress c)) ''ASTERIA_SERVER_ADDRESS must be a valid host:port address''
        (require (valid_address (cfMetricsAddress c)) ''ASTERIA_METRICS_ADDRESS must be a valid host:port address''
        (require (cfMetadataDriver c = ''memory'' \<or> cfMetadataDriver c = ''postgres'') ''ASTERIA_METADATA_DRIVER must be memory or postgres''
        (require (\<not> (cfMetadataDriver c = ''postgres'' \<and> cfDatabaseURL c = []))
           ''ASTERIA_DATABASE_URL or ASTERIA_DATABASE_URL_FILE is required for postgres''
        (try_result (if cfMetadataDriver c = ''postgres'' then validateDatabaseURL cl (cfDatabaseURL c) production (cfDatabaseURLFromFile c)
                     else Inr ()) (\<lambda>_.
         try_result (validate_storage cl c) (\<lambda>_.
         require (\<not> production \<or> cfCursorKeyFromFile c) ''production cursor HMAC key must use ASTERIA_CURSOR_HMAC_KEY_FILE''
        (require (\<not> (production \<and> cfAutoMigrate c)) ''ASTERIA_AUTO_MIGRATE must be false in production''
        (require (\<not> (production \<and> cfS3AutoCreate c)) ''ASTERIA_S3_AUTO_CREATE_BUCKET must be false in production''
        (validate_limits c))))))))))))))"

section \<open>Loading\<close>

definition get_env :: "Source \<Rightarrow> string \<Rightarrow> string \<Rightarrow> string" where
  "get_env src key fallback = (case lookup_env src key of None \<Rightarrow> fallback | Some v \<Rightarrow> if v \<noteq> [] then v else fallback)"

text \<open>\<^verbatim>\<open>fmt.Errorf("KEY: %w", err)\<close>.\<close>

definition named_error :: "string \<Rightarrow> 'a result \<Rightarrow> 'a result" where
  "named_error key r = (case r of Inl err \<Rightarrow> other key (Some err) | Inr x \<Rightarrow> Inr x)"

definition env_bool :: "Source \<Rightarrow> string \<Rightarrow> string \<Rightarrow> bool result" where
  "env_bool src key fallback = named_error key (parseBool (get_env src key fallback))"

definition env_int :: "Source \<Rightarrow> string \<Rightarrow> string \<Rightarrow> int result" where
  "env_int src key fallback = named_error key (parseInt64 (get_env src key fallback))"

definition env_duration :: "ConfigLib \<Rightarrow> Source \<Rightarrow> string \<Rightarrow> string \<Rightarrow> duration result" where
  "env_duration cl src key fallback = named_error key (time_ParseDuration cl (get_env src key fallback))"

record Secrets =
  seDatabaseURL :: "string \<times> bool"
  seS3AccessKey :: "string \<times> bool"
  seS3SecretKey :: "string \<times> bool"
  seCursorKey :: "string \<times> bool"
  seTrustedTokens :: string
  seOIDCBootstrap :: string

definition load_secrets :: "Source \<Rightarrow> Secrets result" where
  "load_secrets src =
     try_result (sourcedValue src ''ASTERIA_DATABASE_URL'' [] (64 * 1024)) (\<lambda>databaseURL.
     try_result (sourcedValue src ''ASTERIA_S3_ACCESS_KEY_ID'' [] (64 * 1024)) (\<lambda>s3AccessKey.
     try_result (sourcedValue src ''ASTERIA_S3_SECRET_ACCESS_KEY'' [] (64 * 1024)) (\<lambda>s3SecretKey.
     try_result (sourcedValue src ''ASTERIA_CURSOR_HMAC_KEY'' [] (64 * 1024)) (\<lambda>cursorKey.
     try_result (sourcedValue src ''ASTERIA_TRUSTED_TOKENS_JSON'' [] (1024 * 1024)) (\<lambda>trustedTokens.
     try_result (sourcedValue src ''ASTERIA_OIDC_BOOTSTRAP_JSON'' [] (1024 * 1024)) (\<lambda>oidcBootstrap.
     Inr \<lparr>seDatabaseURL = databaseURL, seS3AccessKey = s3AccessKey, seS3SecretKey = s3SecretKey, seCursorKey = cursorKey,
          seTrustedTokens = fst trustedTokens, seOIDCBootstrap = fst oidcBootstrap\<rparr>))))))"

definition text_config :: "Source \<Rightarrow> Secrets \<Rightarrow> Config" where
  "text_config src secrets =
     (let s3Endpoint = get_env src ''ASTERIA_S3_ENDPOINT'' []
      in \<lparr>cfEnvironment = get_env src ''ASTERIA_ENV'' ''development'',
          cfAddress = get_env src ''ASTERIA_SERVER_ADDRESS'' ''127.0.0.1:8080'',
          cfMetricsAddress = get_env src ''ASTERIA_METRICS_ADDRESS'' ''127.0.0.1:9090'',
          cfAuthMode = get_env src ''ASTERIA_AUTH_MODE'' ''trusted-dev'', cfTokens = gempty,
          cfOIDCIssuer = get_env src ''ASTERIA_OIDC_ISSUER'' [], cfOIDCClientID = get_env src ''ASTERIA_OIDC_CLIENT_ID'' [],
          cfOIDCBootstrap = [], cfCursorKey = fst (seCursorKey secrets),
          cfMetadataDriver = get_env src ''ASTERIA_METADATA_DRIVER'' ''memory'',
          cfDatabaseURL = fst (seDatabaseURL secrets), cfDatabaseURLFromFile = snd (seDatabaseURL secrets), cfAutoMigrate = False,
          cfStorageDriver = get_env src ''ASTERIA_STORAGE_DRIVER'' ''memory'', cfS3Endpoint = s3Endpoint,
          cfS3PublicEndpoint = get_env src ''ASTERIA_S3_PUBLIC_ENDPOINT'' s3Endpoint,
          cfS3Region = get_env src ''ASTERIA_S3_REGION'' ''us-east-1'', cfS3Bucket = get_env src ''ASTERIA_S3_BUCKET'' ''asteria-drive'',
          cfS3AccessKey = fst (seS3AccessKey secrets), cfS3AccessKeyFromFile = snd (seS3AccessKey secrets),
          cfS3SecretKey = fst (seS3SecretKey secrets), cfS3SecretKeyFromFile = snd (seS3SecretKey secrets),
          cfS3PathStyle = False, cfS3AutoCreate = False, cfS3ChecksumHeaders = False, cfS3TrustPartChecksums = False,
          cfMaxFileSize = 0, cfPartSize = 0, cfUploadTTL = 0, cfUploadSignTTL = 0, cfDownloadSignTTL = 0, cfMaintenanceEnabled = False,
          cfMaintenanceInterval = 0, cfMaintenanceLease = 0, cfMaintenanceStaleAfter = 0, cfRecycleRetention = 0, cfMaintenanceBatchSize = 0,
          cfReadHeaderTimeout = 0, cfReadTimeout = 0, cfWriteTimeout = 0, cfIdleTimeout = 0, cfCursorKeyFromFile = snd (seCursorKey secrets)\<rparr>)"

definition parse_flags :: "Source \<Rightarrow> Config \<Rightarrow> Config result" where
  "parse_flags src c =
     try_result (env_bool src ''ASTERIA_AUTO_MIGRATE'' ''false'') (\<lambda>autoMigrate.
     try_result (env_bool src ''ASTERIA_S3_PATH_STYLE'' ''true'') (\<lambda>pathStyle.
     try_result (env_bool src ''ASTERIA_S3_AUTO_CREATE_BUCKET'' ''false'') (\<lambda>autoCreate.
     try_result (env_bool src ''ASTERIA_S3_CHECKSUM_HEADERS'' ''false'') (\<lambda>checksumHeaders.
     try_result (env_bool src ''ASTERIA_S3_TRUST_PART_CHECKSUMS'' ''false'') (\<lambda>trustPartChecksums.
     try_result (env_bool src ''ASTERIA_MAINTENANCE_ENABLED'' ''true'') (\<lambda>maintenanceEnabled.
     try_result (env_int src ''ASTERIA_MAINTENANCE_BATCH_SIZE'' ''50'') (\<lambda>batchSize.
     try_result (env_int src ''ASTERIA_MAX_FILE_SIZE'' ''53687091200'') (\<lambda>maxFileSize.
     try_result (env_int src ''ASTERIA_PART_SIZE'' ''8388608'') (\<lambda>partSize.
     Inr (c\<lparr>cfAutoMigrate := autoMigrate, cfS3PathStyle := pathStyle, cfS3AutoCreate := autoCreate, cfS3ChecksumHeaders := checksumHeaders,
            cfS3TrustPartChecksums := trustPartChecksums, cfMaintenanceEnabled := maintenanceEnabled, cfMaintenanceBatchSize := batchSize,
            cfMaxFileSize := maxFileSize, cfPartSize := partSize\<rparr>))))))))))"

definition parse_durations :: "ConfigLib \<Rightarrow> Source \<Rightarrow> Config \<Rightarrow> Config result" where
  "parse_durations cl src c =
     try_result (env_duration cl src ''ASTERIA_UPLOAD_TTL'' ''24h'') (\<lambda>uploadTTL.
     try_result (env_duration cl src ''ASTERIA_UPLOAD_SIGN_TTL'' ''15m'') (\<lambda>uploadSignTTL.
     try_result (env_duration cl src ''ASTERIA_DOWNLOAD_SIGN_TTL'' ''15m'') (\<lambda>downloadSignTTL.
     try_result (env_duration cl src ''ASTERIA_READ_HEADER_TIMEOUT'' ''5s'') (\<lambda>readHeaderTimeout.
     try_result (env_duration cl src ''ASTERIA_MAINTENANCE_INTERVAL'' ''1m'') (\<lambda>interval.
     try_result (env_duration cl src ''ASTERIA_MAINTENANCE_LEASE'' ''2m'') (\<lambda>lease.
     try_result (env_duration cl src ''ASTERIA_MAINTENANCE_STALE_AFTER'' ''15m'') (\<lambda>staleAfter.
     try_result (env_duration cl src ''ASTERIA_RECYCLE_RETENTION'' ''720h'') (\<lambda>retention.
     try_result (env_duration cl src ''ASTERIA_READ_TIMEOUT'' ''15s'') (\<lambda>readTimeout.
     try_result (env_duration cl src ''ASTERIA_WRITE_TIMEOUT'' ''30s'') (\<lambda>writeTimeout.
     try_result (env_duration cl src ''ASTERIA_IDLE_TIMEOUT'' ''60s'') (\<lambda>idleTimeout.
     Inr (c\<lparr>cfUploadTTL := uploadTTL, cfUploadSignTTL := uploadSignTTL, cfDownloadSignTTL := downloadSignTTL,
            cfMaintenanceInterval := interval, cfMaintenanceLease := lease, cfMaintenanceStaleAfter := staleAfter, cfRecycleRetention := retention,
            cfReadHeaderTimeout := readHeaderTimeout, cfReadTimeout := readTimeout, cfWriteTimeout := writeTimeout,
            cfIdleTimeout := idleTimeout\<rparr>))))))))))))"

definition load :: "ConfigLib \<Rightarrow> Source \<Rightarrow> Config result" where
  "load cl src =
     try_result (load_secrets src) (\<lambda>secrets.
     try_result (parseTokens (seTrustedTokens secrets)) (\<lambda>tokens.
     try_result (parseOIDCBootstrap (seOIDCBootstrap secrets)) (\<lambda>bootstrap.
     try_result (parse_flags src ((text_config src secrets)\<lparr>cfTokens := tokens, cfOIDCBootstrap := bootstrap\<rparr>)) (\<lambda>flags.
     try_result (parse_durations cl src flags) (\<lambda>cfg.
     try_result (Config_Validate cl cfg) (\<lambda>_. Inr cfg))))))"

definition LoadDatabaseURL :: "ConfigLib \<Rightarrow> Source \<Rightarrow> string result" where
  "LoadDatabaseURL cl src =
     (let environment = get_env src ''ASTERIA_ENV'' ''development''
      in require (environment = ''development'' \<or> environment = ''production'') ''ASTERIA_ENV must be development or production''
        (try_result (sourcedValue src ''ASTERIA_DATABASE_URL'' [] (64 * 1024)) (\<lambda>(v, fromFile).
         require (v \<noteq> []) ''ASTERIA_DATABASE_URL or ASTERIA_DATABASE_URL_FILE is required''
        (try_result (validateDatabaseURL cl v (environment = ''production'') fromFile) (\<lambda>_. Inr v)))))"

end
