(* ===== verification/Server_Start.thy ===== *)
theory Server_Start
  imports Server_Config S3_Provider Maintenance_Loop
begin

text \<open>
  The start of the server, \<^verbatim>\<open>main\<close> of \<^verbatim>\<open>cmd/asteria-server/main.go\<close>: what it makes of an accepted configuration, from the
  drivers to the maintenance loop. The storage of the process is a pair: the objects of the in-memory provider and the state of the S3 service,
  of which the configured driver uses one. What connects to PostgreSQL (\<^verbatim>\<open>postgres.Migrate\<close>, \<^verbatim>\<open>postgres.New\<close>) is an
  argument, as is what the vendor's library loads for S3. The metrics wrapped around the storage pass every call on. An error stands for
  a logged message and \<^verbatim>\<open>os.Exit(1)\<close>.
\<close>

section \<open>Wiring\<close>

definition s3_options :: "Config \<Rightarrow> S3Options" where
  "s3_options cfg =
     \<lparr>soEndpoint = cfS3Endpoint cfg, soPublicEndpoint = cfS3PublicEndpoint cfg, soRegion = cfS3Region cfg, soBucket = cfS3Bucket cfg,
      soAccessKey = cfS3AccessKey cfg, soSecretKey = cfS3SecretKey cfg, soUsePathStyle = cfS3PathStyle cfg,
      soAutoCreateBucket = cfS3AutoCreate cfg, soEnableChecksumHeaders = cfS3ChecksumHeaders cfg,
      soTrustPartChecksums = cfS3TrustPartChecksums cfg\<rparr>"

text \<open>A provider that works on a part of a larger state.\<close>

definition on_part :: "('t \<Rightarrow> 's) \<Rightarrow> ('s \<Rightarrow> 't \<Rightarrow> 't) \<Rightarrow> ('s \<Rightarrow> 'a \<times> 's) \<Rightarrow> 't \<Rightarrow> 'a \<times> 't" where
  "on_part get put f t = (case f (get t) of (x, s) \<Rightarrow> (x, put s t))"

definition provider_on_part :: "('t \<Rightarrow> 's) \<Rightarrow> ('s \<Rightarrow> 't \<Rightarrow> 't) \<Rightarrow> 's StorageProvider \<Rightarrow> 't StorageProvider" where
  "provider_on_part get put sp =
     \<lparr>spReady = spReady sp \<circ> get, spBucket = spBucket sp \<circ> get,
          spCreateMultipart = (\<lambda>env key mime ck. on_part get put (spCreateMultipart sp env key mime ck)),
          spSignUploadPart = (\<lambda>env key up n ck ttl. on_part get put (spSignUploadPart sp env key up n ck ttl)),
          spCompleteMultipart = (\<lambda>env key up ps. on_part get put (spCompleteMultipart sp env key up ps)),
          spAbortMultipart = (\<lambda>env key up. on_part get put (spAbortMultipart sp env key up)),
          spListParts = (\<lambda>env key up. on_part get put (spListParts sp env key up)),
          spStatObject = (\<lambda>env key. on_part get put (spStatObject sp env key)),
          spSignDownload = (\<lambda>env key name ttl. on_part get put (spSignDownload sp env key name ttl)),
          spDeleteObject = (\<lambda>env key. on_part get put (spDeleteObject sp env key))\<rparr>"

type_synonym 'c Backend = "Storage \<times> 'c"

definition start_repository :: "(Config \<Rightarrow> ('s, unit) svc) \<Rightarrow> Config \<Rightarrow> ('s, unit) svc" where
  "start_repository connect cfg =
     (if cfMetadataDriver cfg = ''memory'' then (\<lambda>w. Some (Inr (), w\<lparr>wRepo := NewRepository\<rparr>)) else connect cfg)"

text \<open>Any other storage driver than these two was refused with the configuration.\<close>

definition start_storage ::
  "Lib \<Rightarrow> (error + (string \<Rightarrow> bool \<Rightarrow> 'c S3Client)) \<Rightarrow> Config \<Rightarrow> ('c Backend, 'c Backend StorageProvider) svc" where
  "start_storage lib configuration cfg w =
     (case wStorage w of (objects, service) \<Rightarrow>
        if cfStorageDriver cfg = ''memory''
        then Some (Inr (provider_on_part fst (\<lambda>s t. (s, snd t)) (memory_provider lib)), w\<lparr>wStorage := (NewStorage ''asteria-memory'', service)\<rparr>)
        else (case S3_New configuration (s3_options cfg) service of
                (Inl err, service1) \<Rightarrow> Some (Inl err, w\<lparr>wStorage := (objects, service1)\<rparr>)
              | (Inr p, service1) \<Rightarrow>
                  Some (Inr (provider_on_part snd (\<lambda>s t. (fst t, s)) (s3_storage p)), w\<lparr>wStorage := (objects, service1)\<rparr>)))"

definition service_options :: "Config \<Rightarrow> 's StorageProvider \<Rightarrow> CursorCodec \<Rightarrow> 's ServiceOptions" where
  "service_options cfg storage cursor =
     \<lparr>soRepository = True, soStorage = Some storage, soCursor = Some cursor, soMaxFileSize = cfMaxFileSize cfg, soPartSize = cfPartSize cfg,
      soUploadTTL = cfUploadTTL cfg, soUploadSignTTL = cfUploadSignTTL cfg, soDownloadSignTTL = cfDownloadSignTTL cfg,
      soIdempotencyClaimTTL = 0, soIdempotencyRetention = 0\<rparr>"

definition maintenance_options :: "Config \<Rightarrow> Options" where
  "maintenance_options cfg =
     \<lparr>opRepository = True, opInterval = cfMaintenanceInterval cfg, opLeaseDuration = cfMaintenanceLease cfg,
      opStaleAfter = cfMaintenanceStaleAfter cfg, opRecycleRetention = cfRecycleRetention cfg, opBatchSize = cfMaintenanceBatchSize cfg\<rparr>"

definition token_principal :: "Token \<Rightarrow> Principal" where
  "token_principal t = \<lparr>prIdentity = \<lparr>iTenantID = tkTenantID t, iPrincipalID = tkPrincipalID t\<rparr>, prTenantDisplayName = tkTenantName t,
     prRole = RoleOwner\<rparr>"

definition trusted_principals :: "Config \<Rightarrow> (string, Principal) gomap" where
  "trusted_principals cfg = map (\<lambda>(secret, t). (secret, token_principal t)) (gentries (cfTokens cfg))"

fun ensure_tenants :: "(string \<times> Token) list \<Rightarrow> ('s, unit) svc" where
  "ensure_tenants [] = ret ()"
| "ensure_tenants ((_, t) # ts) =
     sbind (Service_EnsureTenant (tkTenantID t) (tkTenantName t)) (\<lambda>_. ensure_tenants ts)"

fun bootstrap_members :: "OIDCBootstrap list \<Rightarrow> ('s, unit) svc" where
  "bootstrap_members [] = ret ()"
| "bootstrap_members (m # ms) =
     sbind (Service_EnsureTenant (obTenantID m) (obTenantName m)) (\<lambda>_.
     sbind clock_Now (\<lambda>now.
     sbind (repo_op (Repo_EnsureOIDCMember
        \<lparr>osPrincipalID = obPrincipalID m, osTenantID = obTenantID m, osIssuer = obIssuer m, osSubject = obSubject m,
         osDisplayName = obDisplayName m, osRole = AccessRole_of (obRole m), osNow = now\<rparr>)) (\<lambda>_.
     bootstrap_members ms)))"

definition start_authenticator :: "Lib \<Rightarrow> JwtLib \<Rightarrow> (nat \<Rightarrow> fetch) \<Rightarrow> Config \<Rightarrow> ('s, 's Authenticator) svc" where
  "start_authenticator lib jl tape cfg =
     (if cfAuthMode cfg = ''trusted-dev'' then
        sbind (ensure_tenants (gentries (cfTokens cfg))) (\<lambda>_.
        sbind (of_result (NewTrusted lib (trusted_principals cfg))) (\<lambda>entries.
        ret (trusted_authenticator lib entries)))
      else if cfAuthMode cfg = ''oidc'' then
        sbind (bootstrap_members (cfOIDCBootstrap cfg)) (\<lambda>_.
        sbind (\<lambda>w. Some (NewOIDC jl (cfOIDCIssuer cfg) (cfOIDCClientID cfg) tape w)) (\<lambda>authenticator.
        ret (oidc_authenticator jl authenticator)))
      else fail (OtherError ''authentication mode is unsupported'' None))"

record 's Running =
  ruService :: "'s Service"
  ruAuthenticator :: "'s Authenticator"
  ruHandler :: "HttpRequest \<Rightarrow> ('s, ResponseWriter \<times> AccessLog) svc"
  ruMaintenance :: "'s Loop option"

definition start_server ::
  "Lib \<Rightarrow> (string \<Rightarrow> time option) \<Rightarrow> (string \<Rightarrow> time option) \<Rightarrow> JwtLib \<Rightarrow> (nat \<Rightarrow> fetch) \<Rightarrow> (Config \<Rightarrow> ('c Backend, unit) svc)
     \<Rightarrow> (error + (string \<Rightarrow> bool \<Rightarrow> 'c S3Client)) \<Rightarrow> Config \<Rightarrow> ('c Backend, 'c Backend Running) svc" where
  "start_server lib parse_time strict_time jl tape connect configuration cfg =
     sbind (start_repository connect cfg) (\<lambda>_.
     sbind (start_storage lib configuration cfg) (\<lambda>storage.
     sbind (of_result (NewCursorCodec (cfCursorKey cfg))) (\<lambda>cursor.
     sbind (of_result (NewService (service_options cfg storage cursor))) (\<lambda>service.
     sbind (start_authenticator lib jl tape cfg) (\<lambda>authenticator.
     sbind (of_result (Server_New
        (Some \<lparr>apService = service, apLib = lib, apParseRFC3339 = parse_time, apStrictRFC3339 = strict_time\<rparr>) (Some authenticator))) (\<lambda>handler.
     sbind (if cfMaintenanceEnabled cfg then sbind (Loop_New (maintenance_options cfg) (Some storage)) (\<lambda>l. ret (Some l)) else ret None) (\<lambda>loop.
     ret \<lparr>ruService = service, ruAuthenticator = authenticator, ruHandler = handler, ruMaintenance = loop\<rparr>)))))))"

text \<open>A provider on a part of the state keeps the storage contract.\<close>

locale state_part =
  fixes get :: "'t \<Rightarrow> 's" and put :: "'s \<Rightarrow> 't \<Rightarrow> 't"
  assumes get_put [simp]: "get (put s t) = s"
begin

lemma on_part_fst [simp]: "fst (on_part get put f t) = fst (f (get t))"
  by (simp add: on_part_def split: prod.split)

lemma on_part_get [simp]: "get (snd (on_part get put f t)) = snd (f (get t))"
  by (simp add: on_part_def split: prod.split)

lemma provider_on_part_contract:
  assumes "storage_contract sp sp_inv object_at"
  shows "storage_contract (provider_on_part get put sp) (sp_inv \<circ> get) (object_at \<circ> get)"
  by unfold_locales
    (simp_all add: provider_on_part_def storage_contract.provider_inv [OF assms] storage_contract.quiet_objects [OF assms]
      storage_contract.complete_other [OF assms] storage_contract.complete_keeps [OF assms] storage_contract.delete_other [OF assms]
      storage_contract.delete_gone [OF assms] storage_contract.stat_sound [OF assms] storage_contract.download_ok [OF assms])

end

interpretation objects: state_part fst "\<lambda>s t. (s, snd t)"
  by unfold_locales simp

interpretation services: state_part snd "\<lambda>s t. (fst t, s)"
  by unfold_locales simp

lemma memory_storage_contract:
  assumes "start_storage lib configuration cfg w = Some (Inr storage, w')" and "cfStorageDriver cfg = ''memory''"
  shows "storage_contract storage (storage_inv lib \<circ> fst) (memory_objects \<circ> fst)"
proof -
  have "storage = provider_on_part fst (\<lambda>s t. (s, snd t)) (memory_provider lib)"
    using assms by (auto simp: start_storage_def split: prod.splits)
  then show ?thesis using objects.provider_on_part_contract [OF ms.storage_contract_axioms] by simp
qed

section \<open>Accepted configurations\<close>

lemma try_result_Inr [simp]: "try_result r f = Inr y \<longleftrightarrow> (\<exists>x. r = Inr x \<and> f x = Inr y)"
  by (auto simp: try_result_def split: sum.splits)

lemma require_Inr [simp]: "require ok message rest = Inr y \<longleftrightarrow> ok \<and> rest = Inr y"
  by (simp add: require_def other_def)

lemma other_not_Inr [simp]: "other message cause \<noteq> Inr x"
  by (simp add: other_def)

lemma load_accepted:
  assumes "load cl src = Inr cfg"
  obtains secrets where "load_secrets src = Inr secrets" "Config_Validate cl cfg = Inr ()"
    "parseTokens (seTrustedTokens secrets) = Inr (cfTokens cfg)" "parseOIDCBootstrap (seOIDCBootstrap secrets) = Inr (cfOIDCBootstrap cfg)"
    "cfCursorKey cfg = fst (seCursorKey secrets)" "cfCursorKeyFromFile cfg = snd (seCursorKey secrets)"
    "cfDatabaseURL cfg = fst (seDatabaseURL secrets)" "cfDatabaseURLFromFile cfg = snd (seDatabaseURL secrets)"
    "cfS3AccessKey cfg = fst (seS3AccessKey secrets)" "cfS3AccessKeyFromFile cfg = snd (seS3AccessKey secrets)"
    "cfS3SecretKey cfg = fst (seS3SecretKey secrets)" "cfS3SecretKeyFromFile cfg = snd (seS3SecretKey secrets)"
  using assms by (auto simp: load_def parse_flags_def parse_durations_def text_config_def Let_def)

end
