(* ===== verification/Start_Properties.thy ===== *)
theory Start_Properties
  imports Server_Start
begin

text \<open>
  What an accepted configuration guarantees: a production server talks over verified connections only and takes its
  secrets from files.
\<close>

section \<open>Production\<close>

definition from_file :: "Source \<Rightarrow> string \<Rightarrow> string \<Rightarrow> bool" where
  "from_file src key v \<longleftrightarrow>
     (lookup_env src key = None \<or> lookup_env src key = Some []) \<and>
     (\<exists>path contents. lookup_env src (key @ ''_FILE'') = Some path \<and> read_file src path = Inr contents
        \<and> v = trim_suffix CHR 0x0D (trim_suffix CHR 0x0A contents) \<and> v \<noteq> [])"

lemma sourcedValue_file: "sourcedValue src key fallback limit = Inr (v, True) \<Longrightarrow> from_file src key v"
  by (auto simp: sourcedValue_def from_file_def Let_def split: option.splits sum.splits if_splits)

lemma load_secrets_file:
  assumes "load_secrets src = Inr secrets"
  shows "snd (seDatabaseURL secrets) \<Longrightarrow> from_file src ''ASTERIA_DATABASE_URL'' (fst (seDatabaseURL secrets))"
    "snd (seCursorKey secrets) \<Longrightarrow> from_file src ''ASTERIA_CURSOR_HMAC_KEY'' (fst (seCursorKey secrets))"
    "snd (seS3AccessKey secrets) \<Longrightarrow> from_file src ''ASTERIA_S3_ACCESS_KEY_ID'' (fst (seS3AccessKey secrets))"
    "snd (seS3SecretKey secrets) \<Longrightarrow> from_file src ''ASTERIA_S3_SECRET_ACCESS_KEY'' (fst (seS3SecretKey secrets))"
  using assms by (auto simp: load_secrets_def dest: sourcedValue_file)

definition verified_web :: "ConfigLib \<Rightarrow> string \<Rightarrow> bool" where
  "verified_web cl s \<longleftrightarrow> (case cl_url_Parse cl s of None \<Rightarrow> False | Some u \<Rightarrow> web_url u \<and> urlScheme u = ''https'')"

lemma validateS3Endpoint_production: "validateS3Endpoint cl name s True = Inr () \<Longrightarrow> verified_web cl s"
  by (auto simp: validateS3Endpoint_def verified_web_def split: option.splits if_splits)

lemma validateDatabaseURL_production:
  "validateDatabaseURL cl s True fromFile = Inr () \<Longrightarrow> fromFile \<and> cl_url_Query cl s ''sslmode'' = [''verify-full'']"
  by (auto simp: validateDatabaseURL_def split: option.splits if_splits)

lemma parseIssuerURL_ok: "parseIssuerURL cl s = Inr u \<Longrightarrow> cl_url_Parse cl s = Some u \<and> web_url u"
  by (auto simp: parseIssuerURL_def split: option.splits if_splits)

text \<open>
  Property C6. A configuration that is accepted for production is safe to run: callers are authenticated by an OpenID provider over
  HTTPS, the metadata are in PostgreSQL with a verified TLS connection, the objects in S3 over HTTPS; the database
  URL, the key of the page cursors (at least 32 bytes) and static S3 credentials come from files and not from the environment; and the server
  neither migrates the schema nor creates buckets on its own.
\<close>

theorem production_config_safe:
  assumes loaded: "load cl src = Inr cfg" and production: "cfEnvironment cfg = ''production''"
  shows "cfAuthMode cfg = ''oidc'' \<and> verified_web cl (cfOIDCIssuer cfg)
     \<and> cfMetadataDriver cfg = ''postgres'' \<and> cl_url_Query cl (cfDatabaseURL cfg) ''sslmode'' = [''verify-full'']
     \<and> cfStorageDriver cfg = ''s3'' \<and> verified_web cl (cfS3Endpoint cfg) \<and> verified_web cl (cfS3PublicEndpoint cfg)
     \<and> from_file src ''ASTERIA_DATABASE_URL'' (cfDatabaseURL cfg)
     \<and> from_file src ''ASTERIA_CURSOR_HMAC_KEY'' (cfCursorKey cfg) \<and> 32 \<le> length (cfCursorKey cfg)
     \<and> (cfS3AccessKey cfg = [] \<or> from_file src ''ASTERIA_S3_ACCESS_KEY_ID'' (cfS3AccessKey cfg)
          \<and> from_file src ''ASTERIA_S3_SECRET_ACCESS_KEY'' (cfS3SecretKey cfg))
     \<and> \<not> cfAutoMigrate cfg \<and> \<not> cfS3AutoCreate cfg"
proof -
  obtain secrets where secrets: "load_secrets src = Inr secrets" and valid: "Config_Validate cl cfg = Inr ()"
    and fields: "cfCursorKey cfg = fst (seCursorKey secrets)" "cfCursorKeyFromFile cfg = snd (seCursorKey secrets)"
      "cfDatabaseURL cfg = fst (seDatabaseURL secrets)" "cfDatabaseURLFromFile cfg = snd (seDatabaseURL secrets)"
      "cfS3AccessKey cfg = fst (seS3AccessKey secrets)" "cfS3AccessKeyFromFile cfg = snd (seS3AccessKey secrets)"
      "cfS3SecretKey cfg = fst (seS3SecretKey secrets)" "cfS3SecretKeyFromFile cfg = snd (seS3SecretKey secrets)"
    using loaded by (rule load_accepted)
  have v: "cfAuthMode cfg = ''trusted-dev'' \<or> cfAuthMode cfg = ''oidc''" "validate_auth cl cfg = Inr ()" "validate_storage cl cfg = Inr ()"
      "32 \<le> length (cfCursorKey cfg)" "cfCursorKeyFromFile cfg" "\<not> cfAutoMigrate cfg" "\<not> cfS3AutoCreate cfg"
    and db: "cfMetadataDriver cfg = ''postgres'' \<Longrightarrow> validateDatabaseURL cl (cfDatabaseURL cfg) True (cfDatabaseURLFromFile cfg) = Inr ()"
    using valid production by (auto simp: Config_Validate_def Let_def split: if_splits)
  have auth: "cfAuthMode cfg = ''oidc''" "verified_web cl (cfOIDCIssuer cfg)" "cfMetadataDriver cfg = ''postgres''" "cfStorageDriver cfg = ''s3''"
    using v(1,2) production by (auto simp: validate_auth_def verified_web_def split: if_splits dest: parseIssuerURL_ok)
  have storage: "verified_web cl (cfS3Endpoint cfg)" "verified_web cl (cfS3PublicEndpoint cfg)"
      "cfS3AccessKey cfg \<noteq> [] \<Longrightarrow> cfS3AccessKeyFromFile cfg \<and> cfS3SecretKeyFromFile cfg"
    using v(3) auth(4) production by (auto simp: validate_storage_def Let_def dest: validateS3Endpoint_production)
  from validateDatabaseURL_production [OF db [OF auth(3)]] auth storage v(4-7) load_secrets_file [OF secrets]
  show ?thesis unfolding fields by auto
qed

definition sample_json :: "string \<Rightarrow> string" where
  "sample_json = map (\<lambda>c. if c = CHR ''_'' then CHR 0x22 else if c = CHR ''!'' then CHR ''_'' else c)"

definition sample_config_lib :: ConfigLib where
  "sample_config_lib =
     \<lparr>cl_url_Parse = (\<lambda>s. if take 8 s = ''https://'' then Some \<lparr>urlScheme = ''https'', urlHost = ''h'', urlUser = False, urlRawQuery = [], urlFragment = []\<rparr>
        else if take 11 s = ''postgres://'' then Some \<lparr>urlScheme = ''postgres'', urlHost = ''h'', urlUser = False, urlRawQuery = ''sslmode=verify-full'', urlFragment = []\<rparr>
        else None),
      cl_url_String = (\<lambda>s. s), cl_url_Query = (\<lambda>_ _. [''verify-full'']), cl_fraction = (\<lambda>f u scale. f * u div scale)\<rparr>"

definition sample_uuids :: "nat \<Rightarrow> string" where
  "sample_uuids n = ''00000000-0000-4000-8000-00000000000'' @ [hexdigit n]"

definition sample_bootstrap :: string where
  "sample_bootstrap = sample_json (''[{_issuer_:_https://i_,_subject_:_s_,_principal!id_:_'' @ sample_uuids 1 @ ''_,_tenant!id_:_''
     @ sample_uuids 2 @ ''_,_role_:_owner_}]'')"

definition sample_production :: Source where
  "sample_production =
     \<lparr>lookup_env = map_of [(''ASTERIA_ENV'', ''production''), (''ASTERIA_AUTH_MODE'', ''oidc''), (''ASTERIA_OIDC_ISSUER'', ''https://i''),
        (''ASTERIA_OIDC_CLIENT_ID'', ''c''), (''ASTERIA_METADATA_DRIVER'', ''postgres''), (''ASTERIA_DATABASE_URL_FILE'', ''/db''),
        (''ASTERIA_STORAGE_DRIVER'', ''s3''), (''ASTERIA_S3_ENDPOINT'', ''https://s3''), (''ASTERIA_CURSOR_HMAC_KEY_FILE'', ''/key''),
        (''ASTERIA_OIDC_BOOTSTRAP_JSON'', sample_bootstrap)],
      read_file = (\<lambda>path. if path = ''/db'' then Inr (''postgres://h/d?sslmode=verify-full'' @ [CHR 0x0A])
        else if path = ''/key'' then Inr (replicate 32 CHR ''k'') else Inl (OtherError ''no such file'' None))\<rparr>"

definition sample_secrets :: Secrets where
  "sample_secrets = \<lparr>seDatabaseURL = (''postgres://h/d?sslmode=verify-full'', True), seS3AccessKey = ([], False), seS3SecretKey = ([], False),
     seCursorKey = (replicate 32 CHR ''k'', True), seTrustedTokens = [], seOIDCBootstrap = sample_bootstrap\<rparr>"

definition sample_member :: OIDCBootstrap where
  "sample_member = \<lparr>obIssuer = ''https://i'', obSubject = ''s'', obPrincipalID = sample_uuids 1, obTenantID = sample_uuids 2,
     obTenantName = ''Asteria tenant'', obDisplayName = ''s'', obRole = ''owner''\<rparr>"

lemma sample_production_secrets: "load_secrets sample_production = Inr sample_secrets"
proof -
  have "sourcedValue sample_production ''ASTERIA_DATABASE_URL'' [] (64 * 1024) = Inr (''postgres://h/d?sslmode=verify-full'', True)"
    "sourcedValue sample_production ''ASTERIA_CURSOR_HMAC_KEY'' [] (64 * 1024) = Inr (replicate 32 CHR ''k'', True)"
    "sourcedValue sample_production ''ASTERIA_S3_ACCESS_KEY_ID'' [] (64 * 1024) = Inr ([], False)"
    "sourcedValue sample_production ''ASTERIA_S3_SECRET_ACCESS_KEY'' [] (64 * 1024) = Inr ([], False)"
    "sourcedValue sample_production ''ASTERIA_TRUSTED_TOKENS_JSON'' [] (1024 * 1024) = Inr ([], False)"
    "sourcedValue sample_production ''ASTERIA_OIDC_BOOTSTRAP_JSON'' [] (1024 * 1024) = Inr (sample_bootstrap, False)"
    by (simp_all add: sourcedValue_def sample_production_def Let_def trim_suffix_def sample_bootstrap_def sample_json_def)
  then show ?thesis by (simp add: load_secrets_def try_result_def sample_secrets_def)
qed

lemma sample_bootstrap_parsed: "parseOIDCBootstrap sample_bootstrap = Inr [sample_member]"
  by code_simp

lemma sample_production_checked:
  "(case try_result (parse_flags sample_production ((text_config sample_production sample_secrets)\<lparr>cfTokens := gempty, cfOIDCBootstrap := [sample_member]\<rparr>))
      (parse_durations sample_config_lib sample_production) of
      Inl _ \<Rightarrow> False | Inr cfg \<Rightarrow> Config_Validate sample_config_lib cfg = Inr () \<and> cfEnvironment cfg = ''production'' \<and> cfAuthMode cfg = ''oidc'')"
  by code_simp

lemma sample_production_loaded: "\<exists>cfg. load sample_config_lib sample_production = Inr cfg \<and> cfEnvironment cfg = ''production'' \<and> cfAuthMode cfg = ''oidc''"
proof -
  have "parseTokens [] = Inr gempty" by (simp add: parseTokens_def)
  with sample_production_checked show ?thesis
    by (auto simp: load_def sample_production_secrets sample_secrets_def sample_bootstrap_parsed split: sum.splits)
qed

lemma production_config_safe_witness:
  "\<exists>cfg. load sample_config_lib sample_production = Inr cfg \<and> cfEnvironment cfg = ''production''
     \<and> from_file sample_production ''ASTERIA_DATABASE_URL'' (cfDatabaseURL cfg) \<and> cfAuthMode cfg = ''oidc''"
proof -
  obtain cfg where "load sample_config_lib sample_production = Inr cfg" "cfEnvironment cfg = ''production''"
    using sample_production_loaded by blast
  with production_config_safe [OF this] show ?thesis by blast
qed

end
