(* ===== verification/Start_Identities.thy ===== *)
theory Start_Identities
  imports Start_Properties
begin

text \<open>
  The identities an accepted configuration names, followed through the start of the server: every tenant of a development token exists and
  every token is in the authenticator's table, and every bootstrap member of an OpenID set-up resolves to its role.
\<close>

section \<open>Runs that cannot fail\<close>

text \<open>\<open>entropy w\<close>: no read of the random source fails.\<close>

definition entropy :: "'s World \<Rightarrow> bool" where
  "entropy w \<longleftrightarrow> (\<forall>n. \<exists>b. wRand w n = Inr b)"

lemma ascii_lower_hex:
  assumes "ascii_lower c \<in> set ''0123456789abcdef''"
  shows "is_hex c"
proof -
  have "list_all (\<lambda>d. 48 \<le> byte d \<and> byte d \<le> 57 \<or> 97 \<le> byte d \<and> byte d \<le> 102) ''0123456789abcdef''" by code_simp
  with assms have range: "48 \<le> byte (ascii_lower c) \<and> byte (ascii_lower c) \<le> 57 \<or> 97 \<le> byte (ascii_lower c) \<and> byte (ascii_lower c) \<le> 102"
    unfolding list_all_iff by blast
  have "byte (ascii_lower c) = (if 65 \<le> byte c \<and> byte c \<le> 90 then byte c + 32 else byte c)"
    by (simp add: ascii_lower_def)
  with range show ?thesis unfolding is_hex_def Let_def by (simp split: if_splits; linarith)
qed

lemma validUUID_ValidID: "validUUID s \<Longrightarrow> ValidID s"
  unfolding validUUID_def ValidID_def list_all_iff using ascii_lower_hex by blast

lemma new_id_runs:
  assumes "entropy w"
  shows "\<exists>i. new_id message w = Some (Inr i, w\<lparr>wRand := \<lambda>n. wRand w (Suc n)\<rparr>)"
  using assms by (auto simp: entropy_def new_id_def sbind_def draw_def ret_def NewID_def Let_def split: sum.splits)
     (metis Inr_not_Inl)

text \<open>Creating a tenant keeps the tenants there are, adds the one asked for, and leaves the identities alone.\<close>

definition adds_tenant :: "string \<Rightarrow> 's World \<Rightarrow> 's World \<Rightarrow> bool" where
  "adds_tenant tenantID w w' \<longleftrightarrow>
     entropy w' \<and> gget (tenants (wRepo w')) tenantID \<noteq> None
     \<and> (\<forall>t. gget (tenants (wRepo w)) t \<noteq> None \<longrightarrow> gget (tenants (wRepo w')) t \<noteq> None)
     \<and> principals (wRepo w') = principals (wRepo w) \<and> members (wRepo w') = members (wRepo w)"

lemma EnsureTenant_runs:
  assumes "entropy w" and "ValidID tenantID"
  shows "\<exists>tenant w'. Service_EnsureTenant tenantID name w = Some (Inr tenant, w') \<and> adds_tenant tenantID w w'"
proof -
  obtain i where i: "new_id ''could not generate root id'' w = Some (Inr i, w\<lparr>wRand := \<lambda>n. wRand w (Suc n)\<rparr>)"
    using new_id_runs [OF assms(1)] by blast
  show ?thesis
    using assms
    by (auto simp: Service_EnsureTenant_def validateID_def svc_simps sbind_def i clock_Now_def repo_op_def Repo_EnsureTenant_def Let_def
        adds_tenant_def entropy_def of_result_def split: option.splits)
qed

lemma ensure_tenants_run:
  assumes "entropy w" and "\<And>secret t. (secret, t) \<in> set ts \<Longrightarrow> ValidID (tkTenantID t)"
  shows "\<exists>w'. ensure_tenants ts w = Some (Inr (), w') \<and> entropy w'
     \<and> (\<forall>t. gget (tenants (wRepo w)) t \<noteq> None \<longrightarrow> gget (tenants (wRepo w')) t \<noteq> None)
     \<and> (\<forall>(secret, t) \<in> set ts. gget (tenants (wRepo w')) (tkTenantID t) \<noteq> None)"
  using assms
proof (induction ts arbitrary: w)
  case Nil
  then show ?case by (simp add: ret_def)
next
  case (Cons st ts)
  obtain secret t where st: "st = (secret, t)" by fastforce
  obtain tenant w1 where one: "Service_EnsureTenant (tkTenantID t) (tkTenantName t) w = Some (Inr tenant, w1)" "adds_tenant (tkTenantID t) w w1"
    using EnsureTenant_runs [OF Cons.prems(1), of "tkTenantID t" "tkTenantName t"] Cons.prems(2) [of secret t] st by auto
  moreover obtain w2 where "ensure_tenants ts w1 = Some (Inr (), w2)" "entropy w2"
    "\<forall>t. gget (tenants (wRepo w1)) t \<noteq> None \<longrightarrow> gget (tenants (wRepo w2)) t \<noteq> None"
    "\<forall>(secret, t) \<in> set ts. gget (tenants (wRepo w2)) (tkTenantID t) \<noteq> None"
    using Cons.IH [of w1] Cons.prems(2) one(2) by (fastforce simp: adds_tenant_def)
  ultimately show ?case by (simp add: st sbind_def adds_tenant_def)
qed

section \<open>Development tokens\<close>

lemma gentries_subset: "set (gentries m) \<subseteq> set m"
  by (induction m rule: gentries.induct) (auto simp: gdel_def)

lemma parseTokens_valid: "parseTokens s = Inr tokens \<Longrightarrow> entry \<in> set (gentries tokens) \<Longrightarrow> valid_token entry"
  using gentries_subset [of tokens]
  by (fastforce simp: parseTokens_def valid_token_def named_token_def list_all_iff gempty_def split: if_splits option.splits)

lemma trusted_entries_ok:
  assumes "\<And>tp. tp \<in> set tps \<Longrightarrow> \<exists>entry. trusted_entry lib tp = Inr entry"
  shows "\<exists>entries. trusted_entries lib tps = Inr entries"
  using assms by (induction tps) (fastforce split: sum.splits)+

lemma NewTrusted_configured:
  assumes "gentries (cfTokens cfg) \<noteq> []" and valid: "\<And>entry. entry \<in> set (gentries (cfTokens cfg)) \<Longrightarrow> valid_token entry"
  shows "\<exists>entries. NewTrusted lib (trusted_principals cfg) = Inr entries"
proof -
  have "trusted_principals cfg \<noteq> []" using assms(1) by (simp add: trusted_principals_def)
  then have "gentries (trusted_principals cfg) \<noteq> []" by (cases "trusted_principals cfg") auto
  moreover have "\<exists>entry. trusted_entry lib tp = Inr entry" if tp: "tp \<in> set (gentries (trusted_principals cfg))" for tp
  proof -
    obtain secret t where "tp = (secret, token_principal t)" "valid_token (secret, t)"
      using subsetD [OF gentries_subset tp] valid unfolding trusted_principals_def by force
    moreover from this(2) have "32 \<le> length secret" "tkTenantID t \<noteq> []" "tkPrincipalID t \<noteq> []"
      by (auto simp: valid_token_def validUUID_def)
    ultimately show ?thesis by (simp add: trusted_entry_def token_principal_def)
  qed
  ultimately show ?thesis using trusted_entries_ok [of "gentries (trusted_principals cfg)" lib] by (simp add: NewTrusted_def)
qed

lemma load_valid:
  assumes "load cl src = Inr cfg"
  shows "Config_Validate cl cfg = Inr () \<and> (\<exists>s. parseTokens s = Inr (cfTokens cfg)) \<and> (\<exists>s. parseOIDCBootstrap s = Inr (cfOIDCBootstrap cfg))"
  using assms by (rule load_accepted) (intro conjI exI; assumption)

lemma Config_Validate_limits:
  assumes "Config_Validate cl cfg = Inr ()"
  shows "32 \<le> length (cfCursorKey cfg) \<and> validate_auth cl cfg = Inr () \<and> validate_limits cfg = Inr ()"
  using assms by (auto simp: Config_Validate_def Let_def)

lemma configured_service:
  assumes "Config_Validate cl cfg = Inr ()"
  shows "\<exists>service. NewService (service_options cfg storage cursor) = Inr service \<and> service_ok service \<and> svStorage service = storage
     \<and> svCursor service = cursor \<and> svMaxFileSize service = cfMaxFileSize cfg \<and> svPartSize service = cfPartSize cfg
     \<and> svUploadTTL service = cfUploadTTL cfg \<and> svUploadSignTTL service = cfUploadSignTTL cfg \<and> svDownloadSignTTL service = cfDownloadSignTTL cfg"
proof -
  have "cfMaxFileSize cfg > 0" "cfPartSize cfg > 0" "cfUploadTTL cfg > 0" "cfUploadSignTTL cfg > 0" "cfDownloadSignTTL cfg > 0"
    using Config_Validate_limits [OF assms] by (auto simp: validate_limits_def)
  then show ?thesis
    by (simp add: NewService_def service_options_def service_ok_def Let_def default_to_def time_Second_def)
qed

lemma configured_loop:
  assumes "Config_Validate cl cfg = Inr ()" and "entropy w"
  shows "\<exists>loop w'. Loop_New (maintenance_options cfg) (Some storage) w = Some (Inr loop, w') \<and> wRepo w' = wRepo w
     \<and> lpInterval loop = cfMaintenanceInterval cfg \<and> lpBatchSize loop = cfMaintenanceBatchSize cfg"
proof -
  have "cfMaintenanceInterval cfg > 0" "1 \<le> cfMaintenanceBatchSize cfg" "cfMaintenanceBatchSize cfg \<le> 1000"
    using Config_Validate_limits [OF assms(1)] by (auto simp: validate_limits_def)
  moreover obtain i where "new_id ''could not generate maintenance owner'' w = Some (Inr i, w\<lparr>wRand := \<lambda>n. wRand w (Suc n)\<rparr>)"
    using new_id_runs [OF assms(2)] by blast
  ultimately show ?thesis
    by (simp add: Loop_New_def maintenance_options_def Let_def default_to_def sbind_def ret_def)
qed

text \<open>
  When the configured storage opens: the S3 key pair is complete or absent, the vendor's library loads its configuration, and a bucket
  that is to be created is there or is created.
\<close>

definition bucket_ready :: "'c S3Client \<Rightarrow> Config \<Rightarrow> 'c \<Rightarrow> bool" where
  "bucket_ready client cfg s \<longleftrightarrow>
     (case awsHeadBucket client (cfS3Bucket cfg) s of
        None \<Rightarrow> True
      | Some err \<Rightarrow>
          isBucketNotFound (Some err)
          \<and> fst (awsCreateBucket client (cfS3Bucket cfg) (if cfS3Region cfg \<noteq> ''us-east-1'' then Some (cfS3Region cfg) else None) s) = None)"

definition storage_opens :: "(error + (string \<Rightarrow> bool \<Rightarrow> 'c S3Client)) \<Rightarrow> Config \<Rightarrow> 'c \<Rightarrow> bool" where
  "storage_opens configuration cfg s \<longleftrightarrow>
     cfStorageDriver cfg = ''memory''
     \<or> (cfS3AccessKey cfg = [] \<longleftrightarrow> cfS3SecretKey cfg = [])
       \<and> (case configuration of
            Inl _ \<Rightarrow> False
          | Inr newClient \<Rightarrow> \<not> cfS3AutoCreate cfg \<or> bucket_ready (newClient (trim_slashes (cfS3Endpoint cfg)) (cfS3PathStyle cfg)) cfg s)"

lemma mapError_None [simp]: "mapError err message = None \<longleftrightarrow> err = None"
  by (simp add: mapError_def split: option.splits)

lemma ensureBucket_ready:
  assumes "pvBucket p = cfS3Bucket cfg"
  shows "fst (ensureBucket p (cfS3Region cfg) s) = None \<longleftrightarrow> bucket_ready (pvClient p) cfg s"
  by (simp add: ensureBucket_def bucket_ready_def assms split: option.split prod.split)

lemma S3_New_opens:
  assumes "cfS3Region cfg \<noteq> []" and "cfS3Bucket cfg \<noteq> []" and "cfStorageDriver cfg \<noteq> ''memory''"
  shows "(\<exists>p. fst (S3_New configuration (s3_options cfg) s) = Inr p) \<longleftrightarrow> storage_opens configuration cfg s"
proof (cases configuration)
  case (Inl err)
  then show ?thesis using assms by (simp add: S3_New_def s3_options_def storage_opens_def)
next
  case (Inr newClient)
  show ?thesis
  proof (cases "cfS3AccessKey cfg = [] \<longleftrightarrow> cfS3SecretKey cfg = []")
    case True
    define public where "public = trim_slashes (cfS3PublicEndpoint cfg)"
    define endpoint where "endpoint = trim_slashes (cfS3Endpoint cfg)"
    define p where "p =
      \<lparr>pvClient = newClient endpoint (cfS3PathStyle cfg),
       pvPresigner = newClient (if public = [] then endpoint else public) (cfS3PathStyle cfg), pvBucket = cfS3Bucket cfg,
       pvChecksumHeaders = cfS3Endpoint cfg = [] \<or> cfS3ChecksumHeaders cfg,
       pvTrustPartChecksums = cfS3TrustPartChecksums cfg \<and> (cfS3Endpoint cfg = [] \<or> cfS3ChecksumHeaders cfg)\<rparr>"
    have "S3_New configuration (s3_options cfg) s =
        (if cfS3AutoCreate cfg
         then (case ensureBucket p (cfS3Region cfg) s of (Some err, s1) \<Rightarrow> (Inl err, s1) | (None, s1) \<Rightarrow> (Inr p, s1))
         else (Inr p, s))"
      using assms True unfolding S3_New_def s3_options_def Inr Let_def p_def public_def endpoint_def
      by (simp split: option.split prod.split)
    moreover have "pvClient p = newClient (trim_slashes (cfS3Endpoint cfg)) (cfS3PathStyle cfg)" "pvBucket p = cfS3Bucket cfg"
      by (simp_all add: p_def endpoint_def)
    ultimately show ?thesis using True Inr assms(3) ensureBucket_ready [of p cfg s]
      by (auto simp: storage_opens_def split: option.splits prod.splits)
  next
    case False
    then show ?thesis using assms by (auto simp: S3_New_def s3_options_def storage_opens_def)
  qed
qed

lemma configured_storage:
  assumes "Config_Validate cl cfg = Inr ()"
  shows "(\<exists>storage w'. start_storage lib configuration cfg w = Some (Inr storage, w') \<and> wRepo w' = wRepo w \<and> wRand w' = wRand w
        \<and> storage_opens configuration cfg (snd (wStorage w)))
     \<or> (\<exists>err w'. start_storage lib configuration cfg w = Some (Inl err, w') \<and> \<not> storage_opens configuration cfg (snd (wStorage w)))"
proof (cases "cfStorageDriver cfg = ''memory''")
  case True
  then show ?thesis by (cases "wStorage w") (simp add: start_storage_def storage_opens_def)
next
  case False
  then have "cfS3Region cfg \<noteq> []" "cfS3Bucket cfg \<noteq> []"
    using assms by (auto simp: Config_Validate_def validate_storage_def Let_def)
  note opens = S3_New_opens [OF this False, of configuration "snd (wStorage w)"]
  obtain objects service where w: "wStorage w = (objects, service)" by fastforce
  obtain res service1 where new: "S3_New configuration (s3_options cfg) service = (res, service1)" by fastforce
  show ?thesis using opens False by (cases res) (simp_all add: start_storage_def w new)
qed

lemma trusted_server_wired:
  assumes loaded: "load cl src = Inr cfg" and trusted: "cfAuthMode cfg = ''trusted-dev''" and memory: "cfMetadataDriver cfg = ''memory''"
    and storage: "start_storage lib configuration cfg (w\<lparr>wRepo := NewRepository\<rparr>) = Some (Inr storage, w0)" and random: "entropy w0"
  shows "\<exists>running w' entries. start_server lib parse_time strict_time jl tape connect configuration cfg w = Some (Inr running, w')
     \<and> service_ok (ruService running) \<and> svStorage (ruService running) = storage
     \<and> svPartSize (ruService running) = cfPartSize cfg \<and> svMaxFileSize (ruService running) = cfMaxFileSize cfg
     \<and> NewTrusted lib (trusted_principals cfg) = Inr entries \<and> ruAuthenticator running = trusted_authenticator lib entries
     \<and> (\<forall>(secret, t) \<in> set (gentries (cfTokens cfg)). \<exists>tenant. Repo_Tenant (tkTenantID t) (wRepo w') = Inr tenant)
     \<and> (ruMaintenance running \<noteq> None \<longleftrightarrow> cfMaintenanceEnabled cfg)"
proof -
  obtain s where valid: "Config_Validate cl cfg = Inr ()" and tokens: "parseTokens s = Inr (cfTokens cfg)"
    using load_valid [OF loaded] by blast
  have some: "gentries (cfTokens cfg) \<noteq> []" and key: "32 \<le> length (cfCursorKey cfg)"
    using Config_Validate_limits [OF valid] trusted by (auto simp: validate_auth_def)
  obtain entries where entries: "NewTrusted lib (trusted_principals cfg) = Inr entries"
    using NewTrusted_configured [OF some parseTokens_valid [OF tokens]] by blast
  have cursor: "NewCursorCodec (cfCursorKey cfg) = Inr \<lparr>ccKey = cfCursorKey cfg\<rparr>" using key by (simp add: NewCursorCodec_def)
  have repository: "start_repository connect cfg w = Some (Inr (), w\<lparr>wRepo := NewRepository\<rparr>)" by (simp add: start_repository_def memory)
  obtain service where service: "NewService (service_options cfg storage \<lparr>ccKey = cfCursorKey cfg\<rparr>) = Inr service" "service_ok service"
    "svStorage service = storage" "svMaxFileSize service = cfMaxFileSize cfg" "svPartSize service = cfPartSize cfg"
    using configured_service [OF valid] by blast
  have "ValidID (tkTenantID t)" if "(secret, t) \<in> set (gentries (cfTokens cfg))" for secret t
    using parseTokens_valid [OF tokens that] by (simp add: valid_token_def validUUID_ValidID)
  then obtain w1 where run: "ensure_tenants (gentries (cfTokens cfg)) w0 = Some (Inr (), w1)" "entropy w1"
    and there: "\<forall>(secret, t) \<in> set (gentries (cfTokens cfg)). gget (tenants (wRepo w1)) (tkTenantID t) \<noteq> None"
    using ensure_tenants_run [OF random, of "gentries (cfTokens cfg)"] by blast
  have auth: "start_authenticator lib jl tape cfg w0 = Some (Inr (trusted_authenticator lib entries), w1)"
    using trusted by (simp add: start_authenticator_def sbind_def run(1) entries of_result_def ret_def)
  obtain loop w2 where loop: "(if cfMaintenanceEnabled cfg then sbind (Loop_New (maintenance_options cfg) (Some storage)) (\<lambda>l. ret (Some l)) else ret None) w1
      = Some (Inr loop, w2)" "wRepo w2 = wRepo w1" "loop \<noteq> None \<longleftrightarrow> cfMaintenanceEnabled cfg"
    using configured_loop [OF valid run(2), of storage] by (cases "cfMaintenanceEnabled cfg") (auto simp: sbind_def ret_def)
  have tenants: "\<forall>(secret, t) \<in> set (gentries (cfTokens cfg)). \<exists>tenant. Repo_Tenant (tkTenantID t) (wRepo w2) = Inr tenant"
    using there by (auto simp: Repo_Tenant_def loop(2))
  obtain running where "start_server lib parse_time strict_time jl tape connect configuration cfg w = Some (Inr running, w2)"
      "ruService running = service" "ruAuthenticator running = trusted_authenticator lib entries" "ruMaintenance running = loop"
    by (simp add: start_server_def repository storage cursor service(1) Server_New_def sbind_def of_result_def auth loop(1) ret_def del: if_split)
  then show ?thesis
    using service entries tenants loop(3) by (intro exI [of _ running] exI [of _ w2] exI [of _ entries]) simp
qed

text \<open>
  Property C36. A development server with in-memory metadata and a working random source starts, on a configuration that was accepted,
  exactly when its storage opens. When it does, the service works on that storage with the configured limits, the in-memory storage
  keeps the contract the service relies on, every token is in the authenticator's table with its tenant in the repository, and the maintenance loop runs as configured. When it does not,
  it ends with an error. The in-memory storage always opens. S3 does not when only one key of the pair is given, which validation lets pass.
\<close>

theorem trusted_server_starts:
  assumes loaded: "load cl src = Inr cfg" and trusted: "cfAuthMode cfg = ''trusted-dev''" and memory: "cfMetadataDriver cfg = ''memory''"
    and random: "entropy w"
  shows "case start_server lib parse_time strict_time jl tape connect configuration cfg w of
       Some (Inr running, w') \<Rightarrow>
         storage_opens configuration cfg (snd (wStorage w)) \<and> service_ok (ruService running)
         \<and> (\<exists>w0. start_storage lib configuration cfg (w\<lparr>wRepo := NewRepository\<rparr>) = Some (Inr (svStorage (ruService running)), w0))
         \<and> (cfStorageDriver cfg = ''memory'' \<longrightarrow>
              storage_contract (svStorage (ruService running)) (storage_inv lib \<circ> fst) (memory_objects \<circ> fst))
         \<and> svPartSize (ruService running) = cfPartSize cfg \<and> svMaxFileSize (ruService running) = cfMaxFileSize cfg
         \<and> (\<exists>entries. NewTrusted lib (trusted_principals cfg) = Inr entries \<and> ruAuthenticator running = trusted_authenticator lib entries)
         \<and> (\<forall>(secret, t) \<in> set (gentries (cfTokens cfg)). \<exists>tenant. Repo_Tenant (tkTenantID t) (wRepo w') = Inr tenant)
         \<and> (ruMaintenance running \<noteq> None \<longleftrightarrow> cfMaintenanceEnabled cfg)
     | Some (Inl _, _) \<Rightarrow> \<not> storage_opens configuration cfg (snd (wStorage w))
     | None \<Rightarrow> False"
proof -
  let ?w = "w\<lparr>wRepo := NewRepository\<rparr>"
  have valid: "Config_Validate cl cfg = Inr ()" using load_valid [OF loaded] by blast
  consider (opens) storage w0 where "start_storage lib configuration cfg ?w = Some (Inr storage, w0)" "wRand w0 = wRand w"
      "storage_opens configuration cfg (snd (wStorage w))"
    | (refused) err w0 where "start_storage lib configuration cfg ?w = Some (Inl err, w0)" "\<not> storage_opens configuration cfg (snd (wStorage w))"
    using configured_storage [OF valid, of lib configuration ?w] by auto
  then show ?thesis
  proof cases
    case opens
    then have "entropy w0" using random by (simp add: entropy_def)
    from trusted_server_wired [OF loaded trusted memory opens(1) this, of parse_time strict_time jl tape connect] opens(1,3)
      memory_storage_contract [OF opens(1)]
    show ?thesis by (elim exE conjE) simp
  next
    case refused
    then show ?thesis by (simp add: start_server_def start_repository_def memory sbind_def)
  qed
qed

section \<open>Bootstrap members\<close>

definition membership_key :: "OIDCBootstrap \<Rightarrow> string" where
  "membership_key m = obTenantID m @ [CHR 0x00] @ external_key m"

lemma check_bootstrap_ok:
  assumes "check_bootstrap cl issuer seenM seenP ms = Inr ()"
  shows "distinct (map membership_key ms) \<and> set seenM \<inter> membership_key ` set ms = {}
     \<and> (\<forall>m \<in> set ms. \<forall>k. gget seenP (obPrincipalID m) = Some k \<longrightarrow> k = external_key m)
     \<and> (\<forall>m \<in> set ms. \<forall>m' \<in> set ms. obPrincipalID m = obPrincipalID m' \<longrightarrow> external_key m = external_key m')"
  using assms
proof (induction ms arbitrary: seenM seenP)
  case Nil
  then show ?case by simp
next
  case (Cons m ms)
  let ?seenP = "gput (obPrincipalID m) (external_key m) seenP"
  have fresh: "membership_key m \<notin> set seenM" and same: "\<And>k. gget seenP (obPrincipalID m) = Some k \<Longrightarrow> k = external_key m"
    and rest: "check_bootstrap cl issuer (membership_key m # seenM) ?seenP ms = Inr ()"
    using Cons.prems by (auto simp: membership_key_def Let_def split: sum.splits if_splits option.splits)
  note IH = Cons.IH [OF rest]
  then have seen: "k = external_key m'" if "m' \<in> set ms" "gget ?seenP (obPrincipalID m') = Some k" for m' k using that by blast
  have first: "external_key m' = external_key m" if "m' \<in> set ms" "obPrincipalID m' = obPrincipalID m" for m'
    using seen [OF that(1), of "external_key m"] that(2) by simp
  have later: "k = external_key m'" if "m' \<in> set ms" "gget seenP (obPrincipalID m') = Some k" for m' k
    using seen [OF that(1), of k] same [of k] first [OF that(1)] that(2)
    by (cases "obPrincipalID m' = obPrincipalID m") simp_all
  have "\<forall>m1 \<in> set (m # ms). \<forall>k. gget seenP (obPrincipalID m1) = Some k \<longrightarrow> k = external_key m1"
    using same later by (simp only: list.set ball_simps) blast
  moreover have "external_key m1 = external_key m2" if "m1 \<in> set (m # ms)" "m2 \<in> set (m # ms)" "obPrincipalID m1 = obPrincipalID m2" for m1 m2
  proof (cases "m1 = m \<or> m2 = m")
    case True
    then show ?thesis using that first [of m1] first [of m2] by force
  next
    case False
    then have "m1 \<in> set ms" "m2 \<in> set ms" using that by simp_all
    then show ?thesis using IH that(3) by blast
  qed
  moreover have "distinct (map membership_key (m # ms))" using IH by (simp add: image_iff)
  moreover have "set seenM \<inter> membership_key ` set (m # ms) = {}" using IH fresh by (simp add: disjoint_iff)
  ultimately show ?case by blast
qed

text \<open>What the repository knows after the members \<open>ms\<close>: their identities and memberships, and no others.\<close>

definition knows :: "OIDCBootstrap list \<Rightarrow> Repository \<Rightarrow> bool" where
  "knows ms r \<longleftrightarrow>
     (\<forall>k p. gget (principals r) k = Some p \<longrightarrow> (\<exists>m \<in> set ms. k = external_key m \<and> iPrincipalID (pIdentity p) = obPrincipalID m))
     \<and> (\<forall>m \<in> set ms. \<exists>p. gget (principals r) (external_key m) = Some p \<and> iPrincipalID (pIdentity p) = obPrincipalID m)
     \<and> (\<forall>k x. gget (members r) k = Some x \<longrightarrow> (\<exists>m \<in> set ms. k = memberKey (obTenantID m) (obPrincipalID m)))
     \<and> (\<forall>m \<in> set ms. \<exists>x. gget (members r) (memberKey (obTenantID m) (obPrincipalID m)) = Some x
          \<and> pIdentity x = \<lparr>iTenantID = obTenantID m, iPrincipalID = obPrincipalID m\<rparr> \<and> pRole x = AccessRole_of (obRole m)
          \<and> pStatus x = MemberStatusActive)"

definition member_seed :: "OIDCBootstrap \<Rightarrow> time \<Rightarrow> OIDCMemberSeed" where
  "member_seed m now = \<lparr>osPrincipalID = obPrincipalID m, osTenantID = obTenantID m, osIssuer = obIssuer m, osSubject = obSubject m,
     osDisplayName = obDisplayName m, osRole = AccessRole_of (obRole m), osNow = now\<rparr>"

lemma validAccessRole_of: "validAccessRole role \<Longrightarrow> ValidAccessRole (AccessRole_of role)"
  by (auto simp: validAccessRole_def AccessRole_of_def enum_of_def)

lemma valid_bootstrap_seed:
  assumes "valid_bootstrap m"
  shows "obTenantID m \<noteq> []" "obPrincipalID m \<noteq> []" "obIssuer m \<noteq> []" "obSubject m \<noteq> []" "ValidAccessRole (AccessRole_of (obRole m))"
    "CHR 0x00 \<notin> set (obTenantID m)"
  using assms validUUID_ValidID [of "obTenantID m"] validUUID_ValidID [of "obPrincipalID m"]
  by (auto simp: valid_bootstrap_def ValidID_nonempty validAccessRole_of dest: ValidID_no_sep)

lemma knowsD:
  assumes "knows ms r"
  shows "gget (principals r) k = Some p \<Longrightarrow> \<exists>m \<in> set ms. k = external_key m \<and> iPrincipalID (pIdentity p) = obPrincipalID m"
    and "m \<in> set ms \<Longrightarrow> \<exists>p. gget (principals r) (external_key m) = Some p \<and> iPrincipalID (pIdentity p) = obPrincipalID m"
    and "gget (members r) k = Some x \<Longrightarrow> \<exists>m \<in> set ms. k = memberKey (obTenantID m) (obPrincipalID m)"
    and "m \<in> set ms \<Longrightarrow> \<exists>x. gget (members r) (memberKey (obTenantID m) (obPrincipalID m)) = Some x
          \<and> pIdentity x = \<lparr>iTenantID = obTenantID m, iPrincipalID = obPrincipalID m\<rparr> \<and> pRole x = AccessRole_of (obRole m)
          \<and> pStatus x = MemberStatusActive"
  using assms unfolding knows_def by blast+

text \<open>The principal of a member whose identity is known is the known one; otherwise no other identity has taken its id.\<close>

lemma principal_settled:
  assumes known: "knows ms r" and coherent: "\<And>m'. m' \<in> set ms \<Longrightarrow> obPrincipalID m' = obPrincipalID m \<longleftrightarrow> external_key m' = external_key m"
  shows "gget (principals r) (external_key m) = Some p \<Longrightarrow> iPrincipalID (pIdentity p) = obPrincipalID m"
    and "gget (principals r) (external_key m) = None \<Longrightarrow> gget (principals r) k = Some p \<Longrightarrow> iPrincipalID (pIdentity p) \<noteq> obPrincipalID m"
proof -
  show "iPrincipalID (pIdentity p) = obPrincipalID m" if "gget (principals r) (external_key m) = Some p"
    using knowsD(1) [OF known that] coherent by auto
  show "iPrincipalID (pIdentity p) \<noteq> obPrincipalID m" if absent: "gget (principals r) (external_key m) = None" and "gget (principals r) k = Some p"
  proof
    assume "iPrincipalID (pIdentity p) = obPrincipalID m"
    with knowsD(1) [OF known that(2)] obtain m' where m': "m' \<in> set ms" "obPrincipalID m' = obPrincipalID m" by auto
    then have "external_key m' = external_key m" using coherent by blast
    with knowsD(2) [OF known m'(1)] absent show False by simp
  qed
qed

lemma member_absent:
  assumes known: "knows ms r" and valid: "\<And>m'. m' \<in> set (m # ms) \<Longrightarrow> valid_bootstrap m'"
    and new: "\<And>m'. m' \<in> set ms \<Longrightarrow> (obTenantID m', obPrincipalID m') \<noteq> (obTenantID m, obPrincipalID m)"
  shows "gget (members r) (memberKey (obTenantID m) (obPrincipalID m)) = None"
proof (rule ccontr)
  assume "gget (members r) (memberKey (obTenantID m) (obPrincipalID m)) \<noteq> None"
  then obtain m' where m': "m' \<in> set ms" "memberKey (obTenantID m) (obPrincipalID m) = memberKey (obTenantID m') (obPrincipalID m')"
    using knowsD(3) [OF known] by fast
  have "CHR 0x00 \<notin> set (obTenantID m)" "CHR 0x00 \<notin> set (obTenantID m')"
    using valid [of m] valid [of m'] m'(1) valid_bootstrap_seed(6) by simp_all
  from memberKey_inj [OF m'(2) this] new [OF m'(1)] show False by simp
qed

lemma known_after:
  assumes known: "knows ms r" and coherent: "\<And>m'. m' \<in> set ms \<Longrightarrow> obPrincipalID m' = obPrincipalID m \<longleftrightarrow> external_key m' = external_key m"
    and absent: "gget (members r) (memberKey (obTenantID m) (obPrincipalID m)) = None"
    and p: "iPrincipalID (pIdentity p) = obPrincipalID m"
    and x: "pIdentity x = \<lparr>iTenantID = obTenantID m, iPrincipalID = obPrincipalID m\<rparr>" "pRole x = AccessRole_of (obRole m)" "pStatus x = MemberStatusActive"
    and r': "principals r' = (if gget (principals r) (external_key m) = None then gput (external_key m) p (principals r) else principals r)"
      "members r' = gput (memberKey (obTenantID m) (obPrincipalID m)) x (members r)"
  shows "knows (m # ms) r'"
proof -
  have ids: "iPrincipalID (pIdentity q) = obPrincipalID m" if "gget (principals r) (external_key m) = Some q" for q
    using principal_settled(1) [OF known coherent that] .
  have "\<exists>m' \<in> set (m # ms). k = external_key m' \<and> iPrincipalID (pIdentity q) = obPrincipalID m'" if "gget (principals r') k = Some q" for k q
    using that p knowsD(1) [OF known, of k q] by (auto simp: r'(1) split: if_splits)
  moreover have "\<exists>q. gget (principals r') (external_key m') = Some q \<and> iPrincipalID (pIdentity q) = obPrincipalID m'" if "m' \<in> set (m # ms)" for m'
  proof (cases "external_key m' = external_key m")
    case True
    then have "obPrincipalID m' = obPrincipalID m" using that coherent [of m'] by auto
    with True p ids show ?thesis by (cases "gget (principals r) (external_key m)") (simp_all add: r'(1))
  next
    case False
    with that have "m' \<in> set ms" by auto
    from knowsD(2) [OF known this] False show ?thesis by (simp add: r'(1))
  qed
  moreover have "\<exists>m' \<in> set (m # ms). k = memberKey (obTenantID m') (obPrincipalID m')" if "gget (members r') k = Some y" for k y
    using that knowsD(3) [OF known, of k y] by (auto simp: r'(2) split: if_splits)
  moreover have "\<exists>y. gget (members r') (memberKey (obTenantID m') (obPrincipalID m')) = Some y
      \<and> pIdentity y = \<lparr>iTenantID = obTenantID m', iPrincipalID = obPrincipalID m'\<rparr> \<and> pRole y = AccessRole_of (obRole m') \<and> pStatus y = MemberStatusActive"
    if "m' \<in> set (m # ms)" for m'
  proof (cases "m' = m")
    case True
    then show ?thesis using x by (simp add: r'(2))
  next
    case False
    with that have "m' \<in> set ms" by simp
    note old = knowsD(4) [OF known this]
    then have "memberKey (obTenantID m') (obPrincipalID m') \<noteq> memberKey (obTenantID m) (obPrincipalID m)" using absent by auto
    with old show ?thesis by (simp add: r'(2))
  qed
  ultimately show ?thesis unfolding knows_def by blast
qed

lemma member_joins:
  assumes known: "knows ms r" and tenant: "gget (tenants r) (obTenantID m) = Some tenant"
    and valid: "\<And>m'. m' \<in> set (m # ms) \<Longrightarrow> valid_bootstrap m'"
    and coherent: "\<And>m'. m' \<in> set ms \<Longrightarrow> obPrincipalID m' = obPrincipalID m \<longleftrightarrow> external_key m' = external_key m"
    and new: "\<And>m'. m' \<in> set ms \<Longrightarrow> (obTenantID m', obPrincipalID m') \<noteq> (obTenantID m, obPrincipalID m)"
  shows "\<exists>x r'. Repo_EnsureOIDCMember (member_seed m now) r = (Inr x, r') \<and> knows (m # ms) r' \<and> tenants r' = tenants r"
proof -
  note ok = valid_bootstrap_seed [OF valid [of m]]
  let ?x = "seed_member (member_seed m now) tenant" and ?key = "memberKey (obTenantID m) (obPrincipalID m)"
  have absent: "gget (members r) ?key = None" using known valid new by (rule member_absent)
  have join: "EnsureOIDCMember_join (member_seed m now) tenant r1 = (Inr ?x, r1\<lparr>members := gput ?key ?x (members r)\<rparr>)"
    if "members r1 = members r" for r1
    using absent that by (simp add: EnsureOIDCMember_join_def member_seed_def)
  have run: "Repo_EnsureOIDCMember (member_seed m now) r = (Inr ?x,
      (if gget (principals r) (external_key m) = None then r\<lparr>principals := gput (external_key m) (seed_principal (member_seed m now)) (principals r)\<rparr> else r)
        \<lparr>members := gput ?key ?x (members r)\<rparr>)"
  proof (cases "gget (principals r) (external_key m)")
    case None
    then have "\<not> list_ex (\<lambda>p. iPrincipalID (pIdentity p) = obPrincipalID m \<and> (pIssuer p \<noteq> obIssuer m \<or> pSubject p \<noteq> obSubject m)) (gvals (principals r))"
      using principal_settled(2) [OF known coherent] by (auto simp: list_ex_iff)
    with None ok tenant join show ?thesis
      by (simp add: Repo_EnsureOIDCMember_def member_seed_def principalKey_def external_key_def)
  next
    case (Some p)
    with principal_settled(1) [OF known coherent Some] ok tenant join [of r] show ?thesis
      by (simp add: Repo_EnsureOIDCMember_def member_seed_def principalKey_def external_key_def)
  qed
  moreover have "knows (m # ms) ((if gget (principals r) (external_key m) = None
      then r\<lparr>principals := gput (external_key m) (seed_principal (member_seed m now)) (principals r)\<rparr> else r)\<lparr>members := gput ?key ?x (members r)\<rparr>)"
    by (rule known_after [OF known coherent absent, of "seed_principal (member_seed m now)" ?x]) (simp_all add: seed_member_def seed_principal_def member_seed_def seed_identity_def)
  ultimately show ?thesis by simp
qed

definition coherent_ids :: "OIDCBootstrap list \<Rightarrow> bool" where
  "coherent_ids ms \<longleftrightarrow> (\<forall>m \<in> set ms. \<forall>m' \<in> set ms. obPrincipalID m = obPrincipalID m' \<longleftrightarrow> external_key m = external_key m')"

lemma bootstrap_members_run:
  assumes "entropy w" and "knows old (wRepo w)" and "list_all valid_bootstrap (ms @ old)" and "coherent_ids (ms @ old)"
    and "distinct (map (\<lambda>m. (obTenantID m, obPrincipalID m)) (ms @ old))"
  shows "\<exists>w'. bootstrap_members ms w = Some (Inr (), w') \<and> knows (rev ms @ old) (wRepo w')"
  using assms
proof (induction ms arbitrary: old w)
  case Nil
  then show ?case by (simp add: ret_def)
next
  case (Cons m ms)
  have "ValidID (obTenantID m)" using Cons.prems(3) by (simp add: valid_bootstrap_def validUUID_ValidID)
  then obtain tenant w1 where one: "Service_EnsureTenant (obTenantID m) (obTenantName m) w = Some (Inr tenant, w1)" "adds_tenant (obTenantID m) w w1"
    using EnsureTenant_runs [OF Cons.prems(1)] by blast
  then obtain t where t: "gget (tenants (wRepo w1)) (obTenantID m) = Some t" by (auto simp: adds_tenant_def)
  have known: "knows old (wRepo w1)" using Cons.prems(2) one(2) by (simp add: knows_def adds_tenant_def)
  have valid: "valid_bootstrap m'" if "m' \<in> set (m # old)" for m' using Cons.prems(3) that by (auto simp: list_all_iff)
  have coherent: "obPrincipalID m' = obPrincipalID m \<longleftrightarrow> external_key m' = external_key m" if "m' \<in> set old" for m'
    using Cons.prems(4) that by (simp add: coherent_ids_def)
  have new: "(obTenantID m', obPrincipalID m') \<noteq> (obTenantID m, obPrincipalID m)" if "m' \<in> set old" for m'
    using Cons.prems(5) that by (auto simp: image_iff)
  obtain x r' where join: "Repo_EnsureOIDCMember (member_seed m (wClock w1 0)) (wRepo w1) = (Inr x, r')" "knows (m # old) r'"
    using member_joins [OF known t valid coherent new] by blast
  let ?w = "w1\<lparr>wClock := \<lambda>n. wClock w1 (Suc n), wRepo := r'\<rparr>"
  have "entropy ?w" using one(2) by (simp add: adds_tenant_def entropy_def)
  moreover have "knows (m # old) (wRepo ?w)" using join(2) by simp
  moreover have moved: "set (ms @ m # old) = set ((m # ms) @ old)"
    "distinct (map f (ms @ m # old)) \<longleftrightarrow> distinct (map f ((m # ms) @ old))" for f :: "OIDCBootstrap \<Rightarrow> string \<times> string"
    by auto
  moreover have "list_all valid_bootstrap (ms @ m # old)" "coherent_ids (ms @ m # old)"
    "distinct (map (\<lambda>m. (obTenantID m, obPrincipalID m)) (ms @ m # old))"
    using moved Cons.prems(3-5) by (simp_all only: list_all_iff coherent_ids_def moved)
  ultimately obtain w' where "bootstrap_members ms ?w = Some (Inr (), w')" "knows (rev ms @ m # old) (wRepo w')"
    using Cons.IH [of ?w "m # old"] by blast
  with one(1) join(1) show ?case by (simp add: sbind_def clock_Now_def repo_op_def member_seed_def)
qed

text \<open>A run that succeeds has left every member's identity with its principal id, and never changes an identity that is there.\<close>

definition keeps_ids :: "Repository \<Rightarrow> Repository \<Rightarrow> bool" where
  "keeps_ids r r' \<longleftrightarrow> (\<forall>k p. gget (principals r) k = Some p \<longrightarrow> gget (principals r') k = Some p)"

lemma EnsureOIDCMember_ids:
  assumes "Repo_EnsureOIDCMember (member_seed m now) r = (Inr x, r')"
  shows "keeps_ids r r' \<and> (\<exists>p. gget (principals r') (external_key m) = Some p \<and> iPrincipalID (pIdentity p) = obPrincipalID m)"
  using assms
  by (auto simp: Repo_EnsureOIDCMember_def EnsureOIDCMember_join_def Let_def keeps_ids_def member_seed_def principalKey_def external_key_def
      seed_principal_def seed_identity_def split: if_splits option.splits)

lemma EnsureTenant_ids: "Service_EnsureTenant t n w = Some (res, w') \<Longrightarrow> principals (wRepo w') = principals (wRepo w)"
  by (auto simp: Service_EnsureTenant_def Repo_EnsureTenant_def Let_def repo_op_def clock_Now_def new_id_def draw_def ret_def fail_def of_result_def
      sbind_def split: option.splits sum.splits if_splits)

lemma bootstrap_members_ids:
  assumes "bootstrap_members ms w = Some (Inr (), w')"
  shows "keeps_ids (wRepo w) (wRepo w')
     \<and> (\<forall>m \<in> set ms. \<exists>p. gget (principals (wRepo w')) (external_key m) = Some p \<and> iPrincipalID (pIdentity p) = obPrincipalID m)"
  using assms
proof (induction ms arbitrary: w)
  case Nil
  then show ?case by (simp add: ret_def keeps_ids_def)
next
  case (Cons m ms)
  from Cons.prems obtain t w1 x r' where run: "Service_EnsureTenant (obTenantID m) (obTenantName m) w = Some (Inr t, w1)"
      "Repo_EnsureOIDCMember (member_seed m (wClock w1 0)) (wRepo w1) = (Inr x, r')"
    and rest: "bootstrap_members ms (w1\<lparr>wClock := \<lambda>n. wClock w1 (Suc n), wRepo := r'\<rparr>) = Some (Inr (), w')"
    by (auto simp: clock_Now_def repo_op_def member_seed_def elim!: sbind_Inr split: prod.splits)
  have "keeps_ids r' (wRepo w')" "\<forall>m \<in> set ms. \<exists>p. gget (principals (wRepo w')) (external_key m) = Some p \<and> iPrincipalID (pIdentity p) = obPrincipalID m"
    using Cons.IH [OF rest] by simp_all
  with EnsureOIDCMember_ids [OF run(2)] EnsureTenant_ids [OF run(1)] show ?case by (auto simp: keeps_ids_def)
qed

definition one_principal :: "OIDCBootstrap list \<Rightarrow> bool" where
  "one_principal ms \<longleftrightarrow> (\<forall>m \<in> set ms. \<forall>m' \<in> set ms. external_key m = external_key m' \<longrightarrow> obPrincipalID m = obPrincipalID m')"

lemma bootstrap_members_one_principal: "bootstrap_members ms w = Some (Inr (), w') \<Longrightarrow> one_principal ms"
  unfolding one_principal_def by (drule bootstrap_members_ids) (metis option.inject)

lemma parseOIDCBootstrap_valid: "parseOIDCBootstrap s = Inr ms \<Longrightarrow> list_all valid_bootstrap ms"
  by (auto simp: parseOIDCBootstrap_def list_all_iff valid_bootstrap_def named_bootstrap_def Let_def split: if_splits option.splits)

lemma accepted_bootstrap:
  assumes "load cl src = Inr cfg" and "cfAuthMode cfg = ''oidc''"
    and one_principal: "one_principal (cfOIDCBootstrap cfg)"
  shows "list_all valid_bootstrap (cfOIDCBootstrap cfg)" and "coherent_ids (cfOIDCBootstrap cfg)"
    and "distinct (map (\<lambda>m. (obTenantID m, obPrincipalID m)) (cfOIDCBootstrap cfg))"
proof -
  let ?ms = "cfOIDCBootstrap cfg"
  obtain s where valid: "Config_Validate cl cfg = Inr ()" and parsed: "parseOIDCBootstrap s = Inr ?ms"
    using load_valid [OF assms(1)] by blast
  show "list_all valid_bootstrap ?ms" using parsed by (rule parseOIDCBootstrap_valid)
  have "check_bootstrap cl (cfOIDCIssuer cfg) [] gempty ?ms = Inr ()"
    using Config_Validate_limits [OF valid] assms(2) by (auto simp: validate_auth_def)
  note checked = check_bootstrap_ok [OF this]
  then show coherent: "coherent_ids ?ms" using one_principal unfolding coherent_ids_def one_principal_def by blast
  have "membership_key m = membership_key m'" if "m \<in> set ?ms" "m' \<in> set ?ms" "(obTenantID m, obPrincipalID m) = (obTenantID m', obPrincipalID m')" for m m'
    using coherent that by (simp add: coherent_ids_def membership_key_def)
  with checked show "distinct (map (\<lambda>m. (obTenantID m, obPrincipalID m)) ?ms)"
    unfolding distinct_map inj_on_def by blast
qed

lemma bootstrap_resolves:
  assumes "load cl src = Inr cfg" and "cfAuthMode cfg = ''oidc''" and "one_principal (cfOIDCBootstrap cfg)"
    and empty: "wRepo w = NewRepository" and random: "entropy w"
  shows "\<exists>w'. bootstrap_members (cfOIDCBootstrap cfg) w = Some (Inr (), w')
     \<and> (\<forall>m \<in> set (cfOIDCBootstrap cfg). \<exists>x. Repo_ResolveOIDCPrincipal (obIssuer m) (obSubject m) (obTenantID m) (wRepo w') = Inr x
          \<and> pIdentity x = \<lparr>iTenantID = obTenantID m, iPrincipalID = obPrincipalID m\<rparr> \<and> pRole x = AccessRole_of (obRole m))"
proof -
  let ?ms = "cfOIDCBootstrap cfg"
  have "knows [] (wRepo w)" by (simp add: empty knows_def NewRepository_def)
  then obtain w' where run: "bootstrap_members ?ms w = Some (Inr (), w')" and known: "knows (rev ?ms @ []) (wRepo w')"
    using bootstrap_members_run [OF random, of "[]" ?ms] accepted_bootstrap [OF assms(1-3)] unfolding append_Nil2 by blast
  have "\<exists>x. Repo_ResolveOIDCPrincipal (obIssuer m) (obSubject m) (obTenantID m) (wRepo w') = Inr x
          \<and> pIdentity x = \<lparr>iTenantID = obTenantID m, iPrincipalID = obPrincipalID m\<rparr> \<and> pRole x = AccessRole_of (obRole m)" if "m \<in> set ?ms" for m
  proof -
    have m: "m \<in> set (rev ?ms @ [])" using that by simp
    obtain p where "gget (principals (wRepo w')) (external_key m) = Some p" "iPrincipalID (pIdentity p) = obPrincipalID m"
      using knowsD(2) [OF known m] by blast
    then show ?thesis using knowsD(4) [OF known m]
      by (auto simp: Repo_ResolveOIDCPrincipal_def principalKey_def external_key_def)
  qed
  with run show ?thesis by blast
qed

text \<open>
  Property C35. The start of an OpenID server on an empty repository, with an accepted configuration, creates its bootstrap members
  exactly when no external identity is given two principal ids, which validation does not check. When it does, each member's issuer and subject
  resolve in its tenant to its principal, with the configured role.
\<close>

theorem oidc_bootstrap_resolves:
  assumes loaded: "load cl src = Inr cfg" and oidc: "cfAuthMode cfg = ''oidc''"
    and empty: "wRepo w = NewRepository" and random: "entropy w"
  shows "((\<exists>w'. bootstrap_members (cfOIDCBootstrap cfg) w = Some (Inr (), w')) \<longleftrightarrow> one_principal (cfOIDCBootstrap cfg)) \<and>
     (\<forall>w'. bootstrap_members (cfOIDCBootstrap cfg) w = Some (Inr (), w') \<longrightarrow>
       (\<forall>m \<in> set (cfOIDCBootstrap cfg). \<exists>x. Repo_ResolveOIDCPrincipal (obIssuer m) (obSubject m) (obTenantID m) (wRepo w') = Inr x
          \<and> pIdentity x = \<lparr>iTenantID = obTenantID m, iPrincipalID = obPrincipalID m\<rparr> \<and> pRole x = AccessRole_of (obRole m)))"
  using bootstrap_resolves [OF loaded oidc _ empty random] bootstrap_members_one_principal [of "cfOIDCBootstrap cfg" w] by fastforce

definition sample_world :: "unit World" where
  "sample_world = \<lparr>wRepo = NewRepository, wStorage = (), wRand = (\<lambda>_. Inr (replicate 16 CHR ''r'')), wClock = (\<lambda>_. 0), wJitter = (\<lambda>_. 0)\<rparr>"

lemma sample_world_ok: "wRepo sample_world = NewRepository" "entropy sample_world"
  by (simp_all add: sample_world_def entropy_def)

theorem oidc_bootstrap_resolves_witness:
  "\<exists>w' x. bootstrap_members [sample_member] sample_world = Some (Inr (), w')
     \<and> Repo_ResolveOIDCPrincipal ''https://i'' ''s'' (sample_uuids 2) (wRepo w') = Inr x
     \<and> pIdentity x = \<lparr>iTenantID = sample_uuids 2, iPrincipalID = sample_uuids 1\<rparr> \<and> pRole x = AccessRole_of ''owner''"
proof -
  obtain cfg where cfg: "load sample_config_lib sample_production = Inr cfg" and mode: "cfAuthMode cfg = ''oidc''"
    using sample_production_loaded by blast
  have members: "cfOIDCBootstrap cfg = [sample_member]"
    using cfg by (rule load_accepted) (simp add: sample_production_secrets, auto simp: sample_secrets_def sample_bootstrap_parsed)
  have "one_principal (cfOIDCBootstrap cfg)" using members by (simp add: one_principal_def)
  then show ?thesis using oidc_bootstrap_resolves [OF cfg mode sample_world_ok] members by (auto simp: sample_member_def)
qed

definition sample_twice :: "OIDCBootstrap list" where
  "sample_twice = [sample_member, sample_member\<lparr>obPrincipalID := sample_uuids 3, obTenantID := sample_uuids 4\<rparr>]"

lemma sample_twice_checked: "check_bootstrap sample_config_lib ''https://i'' [] gempty sample_twice = Inr ()"
  by code_simp

lemma sample_twice_fails:
  "case bootstrap_members sample_twice sample_world of
     Some (Inl e, _) \<Rightarrow> e = E CodeNameConflict ''OIDC identity is mapped to another principal'' | _ \<Rightarrow> False"
  by code_simp

text \<open>Two development set-ups: one in memory, and one on S3 with an access key and no secret key.\<close>

definition sample_development :: "(string \<times> string) list \<Rightarrow> Source" where
  "sample_development extra =
     \<lparr>lookup_env = map_of ([(''ASTERIA_CURSOR_HMAC_KEY'', replicate 32 CHR ''k''),
        (''ASTERIA_TRUSTED_TOKENS_JSON'', sample_json (''{_'' @ replicate 32 CHR ''t'' @ ''_:{_tenant!id_:_'' @ sample_uuids 2 @ ''_,_principal!id_:_''
           @ sample_uuids 1 @ ''_}}''))] @ extra),
      read_file = (\<lambda>path. Inl (OtherError ''no such file'' None))\<rparr>"

definition sample_half_pair :: "(string \<times> string) list" where
  "sample_half_pair = [(''ASTERIA_STORAGE_DRIVER'', ''s3''), (''ASTERIA_S3_ENDPOINT'', ''https://s3''), (''ASTERIA_S3_ACCESS_KEY_ID'', ''access'')]"

definition sample_dev_tokens :: "(string, Token) gomap" where
  "sample_dev_tokens = [(replicate 32 CHR ''t'', \<lparr>tkTenantID = sample_uuids 2, tkPrincipalID = sample_uuids 1, tkTenantName = ''Asteria tenant''\<rparr>)]"

definition sample_dev_secrets :: "string \<Rightarrow> Secrets" where
  "sample_dev_secrets access = \<lparr>seDatabaseURL = ([], False), seS3AccessKey = (access, False), seS3SecretKey = ([], False),
     seCursorKey = (replicate 32 CHR ''k'', False),
     seTrustedTokens = the (lookup_env (sample_development []) ''ASTERIA_TRUSTED_TOKENS_JSON''), seOIDCBootstrap = []\<rparr>"

definition sample_loads :: "(string \<times> string) list \<Rightarrow> string \<Rightarrow> (Config \<Rightarrow> bool) \<Rightarrow> bool" where
  "sample_loads extra access P =
     (case try_result (parse_flags (sample_development extra)
        ((text_config (sample_development extra) (sample_dev_secrets access))\<lparr>cfTokens := sample_dev_tokens, cfOIDCBootstrap := []\<rparr>))
        (parse_durations sample_config_lib (sample_development extra)) of
        Inl _ \<Rightarrow> False
      | Inr cfg \<Rightarrow> Config_Validate sample_config_lib cfg = Inr () \<and> cfAuthMode cfg = ''trusted-dev'' \<and> cfMetadataDriver cfg = ''memory'' \<and> P cfg)"

lemma sample_tokens_parsed: "parseTokens (seTrustedTokens (sample_dev_secrets access)) = Inr sample_dev_tokens"
proof -
  have "parseTokens (seTrustedTokens (sample_dev_secrets [])) = Inr sample_dev_tokens" by code_simp
  then show ?thesis by (simp add: sample_dev_secrets_def)
qed

lemma sample_loads_loaded:
  assumes "sample_loads extra access P" and "load_secrets (sample_development extra) = Inr (sample_dev_secrets access)"
  obtains cfg where "load sample_config_lib (sample_development extra) = Inr cfg" "cfAuthMode cfg = ''trusted-dev''"
    "cfMetadataDriver cfg = ''memory''" "cfTokens cfg = sample_dev_tokens" "P cfg"
proof -
  have "parseOIDCBootstrap (seOIDCBootstrap (sample_dev_secrets access)) = Inr []" by (simp add: parseOIDCBootstrap_def sample_dev_secrets_def)
  with assms obtain cfg where cfg: "load sample_config_lib (sample_development extra) = Inr cfg" "cfAuthMode cfg = ''trusted-dev''"
      "cfMetadataDriver cfg = ''memory''" "P cfg"
    by (auto simp: load_def sample_loads_def sample_tokens_parsed split: sum.splits)
  have "cfTokens cfg = sample_dev_tokens"
    using cfg(1) by (rule load_accepted) (auto simp: assms(2) sample_tokens_parsed)
  with cfg that show thesis by blast
qed

lemma sample_development_secrets:
  "load_secrets (sample_development []) = Inr (sample_dev_secrets [])"
  "load_secrets (sample_development sample_half_pair) = Inr (sample_dev_secrets ''access'')"
  by (simp_all add: load_secrets_def sourcedValue_def sample_development_def sample_dev_secrets_def sample_half_pair_def try_result_def Let_def
      sample_json_def)

lemma sample_development_loads: "sample_loads [] [] (\<lambda>cfg. cfStorageDriver cfg = ''memory'')"
  by code_simp

lemma sample_half_pair_loads:
  "sample_loads sample_half_pair ''access'' (\<lambda>cfg. cfStorageDriver cfg = ''s3'' \<and> cfS3AccessKey cfg = ''access'' \<and> cfS3SecretKey cfg = [])"
  by code_simp

definition sample_process :: "unit Backend World" where
  "sample_process = \<lparr>wRepo = NewRepository, wStorage = (NewStorage [], ()), wRand = (\<lambda>_. Inr (replicate 16 CHR ''r'')), wClock = (\<lambda>_. 0), wJitter = (\<lambda>_. 0)\<rparr>"

lemma sample_process_ok: "entropy sample_process"
  by (simp add: sample_process_def entropy_def)

theorem trusted_server_starts_witness:
  "\<forall>lib parse_time strict_time jl tape connect configuration.
     (\<exists>cfg running w' tenant. load sample_config_lib (sample_development []) = Inr cfg
        \<and> start_server lib parse_time strict_time jl tape connect configuration cfg sample_process = Some (Inr running, w')
        \<and> Repo_Tenant (sample_uuids 2) (wRepo w') = Inr tenant)
     \<and> (\<exists>cfg err w'. load sample_config_lib (sample_development sample_half_pair) = Inr cfg
        \<and> start_server lib parse_time strict_time jl tape connect configuration cfg sample_process = Some (Inl err, w'))"
proof (intro allI conjI)
  fix lib parse_time strict_time jl tape connect configuration
  obtain cfg where cfg: "load sample_config_lib (sample_development []) = Inr cfg" "cfAuthMode cfg = ''trusted-dev''"
      "cfMetadataDriver cfg = ''memory''" and tokens: "cfTokens cfg = sample_dev_tokens" and driver: "cfStorageDriver cfg = ''memory''"
    using sample_development_loads sample_development_secrets(1) by (rule sample_loads_loaded)
  have "gentries (cfTokens cfg) = sample_dev_tokens" by (simp add: tokens sample_dev_tokens_def)
  with cfg(1) driver trusted_server_starts [OF cfg sample_process_ok, of configuration lib parse_time strict_time jl tape connect]
  show "\<exists>cfg running w' tenant. load sample_config_lib (sample_development []) = Inr cfg
        \<and> start_server lib parse_time strict_time jl tape connect configuration cfg sample_process = Some (Inr running, w')
        \<and> Repo_Tenant (sample_uuids 2) (wRepo w') = Inr tenant"
    by (auto simp: storage_opens_def sample_dev_tokens_def split: option.splits prod.splits sum.splits)
next
  fix lib parse_time strict_time jl tape connect configuration
  obtain cfg where cfg: "load sample_config_lib (sample_development sample_half_pair) = Inr cfg" "cfAuthMode cfg = ''trusted-dev''"
      "cfMetadataDriver cfg = ''memory''" and half: "cfStorageDriver cfg = ''s3'' \<and> cfS3AccessKey cfg = ''access'' \<and> cfS3SecretKey cfg = []"
    using sample_half_pair_loads sample_development_secrets(2) by (rule sample_loads_loaded)
  have "\<not> storage_opens configuration cfg (snd (wStorage sample_process))" using half by (simp add: storage_opens_def)
  with cfg(1) trusted_server_starts [OF cfg sample_process_ok, of configuration lib parse_time strict_time jl tape connect]
  show "\<exists>cfg err w'. load sample_config_lib (sample_development sample_half_pair) = Inr cfg
        \<and> start_server lib parse_time strict_time jl tape connect configuration cfg sample_process = Some (Inl err, w')"
    by (auto split: option.splits prod.splits sum.splits)
qed

end
