(* ===== verification/Spec2Isabelle.thy ===== *)
theory Spec2Isabelle
  imports Governance_Service Maintenance_Loop Drive_System Staging_Properties Oidc_Properties S3_Properties Recovery_Properties Start_Identities
begin

text \<open>
  \<^bold>\<open>A verification development for the tenant drive.\<close>

  The program is a multi-tenant file drive. A client sends HTTP requests (\<^verbatim>\<open>src/internal/server\<close>), which are
  authenticated (\<^verbatim>\<open>src/internal/auth\<close>) and become calls of the drive service
  (\<^verbatim>\<open>src/internal/drive\<close>), which keeps the directory tree, the file versions, the upload sessions and the
  members of each tenant in a \<^emph>\<open>repository\<close>, and the bytes of files in an \<^emph>\<open>object storage\<close>. Bytes never pass the
  service: it hands out signed URLs, the client sends the parts to the storage, and a completion call
  checks the stored object and publishes a file. The storage is S3 in production (\<^verbatim>\<open>src/internal/s3store\<close>). A maintenance loop (\<^verbatim>\<open>src/internal/maintenance\<close>) expires
  abandoned uploads, recovers interrupted completions and empties the recycle bin. The repository and the storage are
  interfaces; the model has their in-memory implementations (\<^verbatim>\<open>src/internal/memory\<close>), which the program
  uses when it runs without a database.

  \<^bold>\<open>Layers and theories\<close>

  \<^item> \<open>Go_Prelude\<close>, \<open>Go_Encoding\<close>: what the sources use of Go. 64-bit integers with their wrap-around, maps as
    association lists in an unspecified but fixed iteration order (locale \<open>go_map\<close>), \<open>sort.Slice\<close> by a strict weak order
    and keyset pages (locales \<open>weak_order\<close>, \<open>keyset\<close>), UTF-8, hexadecimal, base64 and JSON.
  \<^item> \<open>Drive_Types\<close> (\<^verbatim>\<open>types.go\<close>, \<^verbatim>\<open>errors.go\<close>, the commands of \<^verbatim>\<open>ports.go\<close>): every enumeration, record and error code;
    \<open>Drive_Util\<close> (\<^verbatim>\<open>util.go\<close>, \<^verbatim>\<open>idempotency.go\<close>, \<^verbatim>\<open>audit.go\<close>): ids, names, checksums, idempotency requests;
    \<open>Drive_Cursor\<close> (\<^verbatim>\<open>cursor.go\<close>): the signed page cursor.
  \<^item> \<open>Memory_State\<close> \<dots> \<open>Memory_Maintenance\<close> (\<^verbatim>\<open>memory/repository.go\<close>, \<^verbatim>\<open>memory/governance.go\<close>, \<^verbatim>\<open>memory/idempotency.go\<close>,
    \<^verbatim>\<open>memory/maintenance.go\<close>): the repository, one record with a field per Go map and one definition \<open>Repo_X\<close> per method
    \<open>X\<close>. A method takes the repository and returns its result, \<open>Inl\<close> an error or \<open>Inr\<close> a value, with the repository
    it leaves, also when it fails: most methods change their tables before the audit event is appended.
    \<open>Namespace_Tree\<close> has the tree facts that do not depend on the repository.
  \<^item> \<open>Drive_Ports\<close> (the storage interface of \<^verbatim>\<open>ports.go\<close>) is a record of operations with the laws the service relies on as
    the locale \<open>storage_contract\<close>; \<open>Memory_Storage\<close> (\<^verbatim>\<open>memory/storage.go\<close>) is the provider that is shown to keep them.
  \<^item> \<open>Service_Base\<close>, \<open>Drive_Service\<close> (\<^verbatim>\<open>drive/service.go\<close>) and \<open>Governance_Service\<close> (also \<^verbatim>\<open>drive/governance_service.go\<close>):
    one definition \<open>Service_X\<close> per method. A method runs in a world of the repository, the storage, the tape
    of random bytes and the readings of the clock, composed by \<open>sbind\<close> the way the Go code composes its calls; each
    draw and each reading consumes one entry of its tape. The result is \<open>None\<close> when a repository walk does not end.
  \<^item> \<open>Maintenance_Loop\<close> (\<^verbatim>\<open>maintenance/loop.go\<close>): one run of the loop.
  \<^item> \<open>Staging_Bundle\<close>, \<open>Staging_Controller\<close>, \<open>Staging_Store\<close> (\<^verbatim>\<open>internal/staging\<close>): the deployment controller of the staging
    host. It runs in the state monad of \<^verbatim>\<open>HOL-Library.State_Monad\<close>; the host commands, the state store and the lock are records
    of operations. The file store is the code's own, over a file system in which each call may fail.
    \<open>Staging_Safety\<close> has the laws of a store as the locale \<open>staging_persistence\<close>, interpreted on the file store.
  \<^item> \<open>Go_Json\<close>: the decoder of \<^verbatim>\<open>encoding/json\<close> (scanner, strings with escapes and surrogates, structs with unknown and
    case-folded fields) and \<^verbatim>\<open>strconv.ParseInt\<close>. \<open>Http_Auth\<close> (\<^verbatim>\<open>auth/trusted.go\<close>): the authenticator interface and the table of
    trusted tokens. \<open>Http_Message\<close>, \<open>Http_Api\<close>, \<open>Http_Server\<close> (\<^verbatim>\<open>server/api.go\<close>, \<^verbatim>\<open>server/server.go\<close>): a handler per
    route with its decoding, its checks and its response, the route tables, the middleware. A handler takes the request and
    the response writer and runs in the world of the service; it returns or panics. \<open>Auth_Oidc\<close> (\<^verbatim>\<open>auth/oidc.go\<close>): OpenID
    discovery, the key cache, token parsing, signatures and claims.
    \<open>Http_Access\<close>, \<open>Http_Answers\<close>, \<open>Http_Properties\<close>, \<open>Oidc_Properties\<close>: which handlers can change what, what a response
    holds, and the properties. What the server needs of an authenticator is the locale \<open>read_only_authenticator\<close>,
    interpreted on both.
  \<^item> \<open>S3_Provider\<close> (\<^verbatim>\<open>s3store/provider.go\<close>): the second provider, over a record of the calls of the vendor's library
    (\<open>S3Client\<close>); \<open>S3_Properties\<close> shows \<open>storage_contract\<close> for it. \<open>Recovery_Verifier\<close>, \<open>Recovery_Properties\<close>
    (\<^verbatim>\<open>internal/recovery\<close>): the verifier that compares the blobs of a restored database with the storage; what its loop needs of a
    catalog is the locale \<open>blob_catalog\<close>, interpreted on the PostgreSQL catalog as the rows its query returns.
  \<^item> \<open>Server_Config\<close> (\<^verbatim>\<open>config/config.go\<close>): reading the environment and its files, with \<^verbatim>\<open>time.ParseDuration\<close> and
    \<^verbatim>\<open>net.SplitHostPort\<close>, and validation. \<open>Server_Start\<close> (\<^verbatim>\<open>cmd/asteria-server/main.go\<close>): the drivers and components made from
    an accepted configuration, in the order \<^verbatim>\<open>main\<close> makes them, each failure an exit; the provider works on its part of the process
    state (locale \<open>state_part\<close>). \<open>Start_Properties\<close>, \<open>Start_Identities\<close>: what acceptance guarantees.
  \<^item> \<open>Object_Safety\<close>, \<open>Service_Safety\<close>, \<open>Service_Idempotency\<close>, \<open>Drive_System\<close>: no new code, but the invariants that tie the
    repository to the storage, a small calculus of triples for service methods, and the transition system
    whose steps are the service calls and the client's uploads of parts.

  \<^bold>\<open>What is shown\<close>

  \<^item> The system. In every world reached from an empty server by completed calls, a visible file can be
    downloaded (\<open>files_stay_downloadable\<close>), siblings have different names (\<open>sibling_names_unique\<close>), and the calls that
    walk the tree return (\<open>walks_return\<close>). The invariant behind them is \<open>consistent\<close>: the namespace is a
    forest under the tenants' roots, every file has a version and an available blob, every available blob has its object
    in the storage, no two blobs and no two sessions share an object key, and no unfinished session has the key of a blob.
  \<^item> The tree. \<open>isDescendant\<close> and \<open>activeSubtree\<close> are loops without a bound in the code; they are
    \<open>partial_function (option)\<close> here and are shown to end under the namespace invariant and to decide the ancestor relation
    and the subtree. Recycling hides exactly the subtree, restoring undoes it, a directory cannot move below
    itself, the pages of a listing are complete, a purge plan touches no blob that is still referenced.
  \<^item> Uploads. Sessions follow a step relation; a commit publishes once, a frozen completion list stays
    frozen, the signed part sizes tile the file without wrap-around, stored bytes are the concatenation of the parts, and a
    resumed client is told to reuse a part only on the storage's own evidence.
  \<^item> Idempotency and leases. Claims are exclusive while they run (locales \<open>idempotency_port\<close>, \<open>lease_table\<close>) and a retried
    creation replays the stored result.
  \<^item> Governance. Node authorization ends and decides the policy of roles and ACL entries; member administration
    needs an owner or an admin and keeps the last owner; deletion revokes every group and every access; an
    invitation admits the invited identity, unless it is bound to a principal already, and nobody else.
  \<^item> Staging. Only an approved and verified version becomes active, an operation ends in a settled state or in
    \<open>recovery_required\<close>, which no operation leaves, a resume settles what a crash left open, and the state file is
    replaced as a whole or not at all.
  \<^item> The server. A request changes the repository or the storage only when its caller is admitted to the route
    by role or by the access lists of the nodes it acts on (\<open>effects_need_admission\<close>); every answer below
    \<^verbatim>\<open>/api/\<close> is a success or one error document that tells nothing of an internal error (\<open>answers_are_opaque\<close>);
    no two routes overlap; revision tags survive the round trip; the export of the audit log ends and is complete.
  \<^item> Callers. The hashed token table refines the configured one (\<open>trusted_refines_tokens\<close>). The signature check agrees with
    the table of algorithms, key kinds, hashes and curves (\<open>signature_check_equivalent\<close>), and an OpenID principal is backed by
    a signed, timely token for this client and by an active member of the tenant (\<open>oidc_principal_sound\<close>).
  \<^item> Storage and recovery. The S3 provider keeps the contract the service relies on, for every service whose calls touch only
    the object they name (\<open>s3_keeps_contract\<close>); its part listing ends, is bounded and is complete on a service that
    pages as documented (\<open>s3_part_listing\<close>). The recovery verifier ends and reports exactly the damaged blobs (\<open>verifier_exact\<close>).
  \<^item> Configuration and start. What is accepted for production is safe to run (\<open>production_config_safe\<close>); a development server
    with in-memory metadata starts on an accepted configuration exactly when its storage opens (\<open>trusted_server_starts\<close>); the members of an OpenID bootstrap resolve
    exactly when no identity has two principal ids (\<open>oidc_bootstrap_resolves\<close>).
  \<^item> What does not hold is stated too: validation accepts a bootstrap, and half of an S3 key pair, on which the start then fails, a maintenance run can reopen a committed upload, a purge
    of a missing object never finishes, a failed audit can leave a completed idempotency record without its directory, the
    provisioning path can suspend the last owner, an identity bound to another principal cannot accept, and a
    deployment that was compensated is reported as a success when it is sent again.

  \<^bold>\<open>Parameters and assumptions\<close>

  SHA-256, HMAC, Unicode normalization and case folding, media type parsing and the decoder of the cursor's payload are
  fields of \<open>lib\<close>; a theorem that needs something of them, such as the length of a digest, has it as a hypothesis. The two time
  parsers of the \<^verbatim>\<open>time\<close> package are fields of \<open>Api\<close>; hash functions, RSA and ECDSA verification, floating point and
  \<^verbatim>\<open>url.Parse\<close> are fields of \<open>JwtLib\<close> and \<open>ConfigLib\<close>; the environment and its files are a \<open>Source\<close>; the order in which the
  verifier's workers finish and their cancellation are fields of \<open>Verifier\<close>; and the answers of the OpenID provider are a tape. Random bytes
  come from a tape; the system theorems assume that the ids on it are valid and never repeat. The JSON codec of the
  staging state file is a parameter that reads back what it wrote, up to bytes that are not UTF-8 (\<open>codec_ok\<close>). There is no fuel
  but the page bound of the S3 part listing, which is the code's own: loops are structural recursions, functions with a measure, or \<open>partial_function (option)\<close>. The repository and the
  storage hold a mutex through each method, so methods are atomic; service methods are sequences of such atomic
  steps, and the transition system runs them one after another. The race between a completion and the maintenance loop
  is stated explicitly in \<open>Memory_Maintenance\<close>.

  \<^bold>\<open>Not modelled\<close>

  The PostgreSQL repository (its behaviour is that of the SQL it sends), the load test, metrics, the commands apart from
  the wiring of the server, and the release and CI tools. Of the HTTP layer, the redirects of the router, request
  durations and the listening socket are left out; of the maintenance loop, the ticker; of the start, signals and sockets; what
  connects to PostgreSQL is an argument of \<open>start_server\<close>, and so is what the vendor's library loads for S3.
\<close>

end
